(* ===== verification/Prelude.thy ===== *)
theory Prelude
  imports Complex_Main "HOL-Library.AList" "HOL-Library.Sublist"
begin

text \<open>
  What the component theories share: Python values as they appear in the JSON documents the
  program reads and writes, dictionaries with their insertion order, results that may be an
  exception, the few string operations of the standard library the modelled code calls, and
  two interfaces (a keyed store, a machine with an invariant) that several components provide.

  Strings are HOL strings, one character per ASCII character; text outside ASCII is outside
  the model. Python's unbounded integers are \<open>int\<close>, its floats are the rationals they
  denote (no rounding, no NaN).
\<close>

named_theorems py_dict \<open>look-up of a key in a dictionary display\<close>
named_theorems py_str \<open>evaluation of string operations\<close>

section \<open>Values, dictionaries, exceptions\<close>

datatype json =
    JNull
  | JBool bool
  | JInt int
  | JFloat rat
  | JStr string
  | JList "json list"
  | JObj "(string \<times> json) list"

type_synonym obj = "(string \<times> json) list"

text \<open>Python's truth value of an object.\<close>

fun truthy :: "json \<Rightarrow> bool" where
  "truthy JNull = False"
| "truthy (JBool b) = b"
| "truthy (JInt i) = (i \<noteq> 0)"
| "truthy (JFloat q) = (q \<noteq> 0)"
| "truthy (JStr s) = (s \<noteq> [])"
| "truthy (JList xs) = (xs \<noteq> [])"
| "truthy (JObj kvs) = (kvs \<noteq> [])"

definition truthy_str :: "string option \<Rightarrow> bool" where
  "truthy_str s = (case s of None \<Rightarrow> False | Some t \<Rightarrow> t \<noteq> [])"

text \<open>\<open>s if s else None\<close>: what survives when a falsy optional string is dropped.\<close>

definition keep_str :: "string option \<Rightarrow> string option" where
  "keep_str s = (if truthy_str s then s else None)"

lemma keep_str_idem [simp]: "keep_str (keep_str s) = keep_str s"
  by (simp add: keep_str_def)

lemma keep_str_None [simp]: "keep_str None = None"
  by (simp add: keep_str_def)

text \<open>
  The exceptions the modelled code raises. \<open>TypeError\<close> also stands for a document in which
  a key holds a value of another JSON type than the dataclass field declares: Python stores
  such a value unchecked and fails when it is first used, the model fails when it is read.
\<close>

datatype py_error = KeyError string | ValueError string | TypeError string

definition bindE :: "'e + 'a \<Rightarrow> ('a \<Rightarrow> 'e + 'b) \<Rightarrow> 'e + 'b" where
  "bindE m f = (case m of Inl e \<Rightarrow> Inl e | Inr x \<Rightarrow> f x)"

lemma bindE_simps [simp]:
  "bindE (Inl e) f = Inl e"
  "bindE (Inr x) f = f x"
  by (simp_all add: bindE_def)

lemma bindE_Inr_iff: "bindE m f = Inr y \<longleftrightarrow> (\<exists>x. m = Inr x \<and> f x = Inr y)"
  by (cases m) auto

fun mapE :: "('a \<Rightarrow> 'e + 'b) \<Rightarrow> 'a list \<Rightarrow> 'e + 'b list" where
  "mapE f [] = Inr []"
| "mapE f (x # xs) = bindE (f x) (\<lambda>y. bindE (mapE f xs) (\<lambda>ys. Inr (y # ys)))"

lemma mapE_map: "(\<And>x. x \<in> set xs \<Longrightarrow> f (g x) = Inr (h x)) \<Longrightarrow> mapE f (map g xs) = Inr (map h xs)"
  by (induction xs) auto

lemma mapE_cong [fundef_cong]:
  "xs = ys \<Longrightarrow> (\<And>x. x \<in> set ys \<Longrightarrow> f x = g x) \<Longrightarrow> mapE f xs = mapE g ys"
  by (induction ys arbitrary: xs) auto

lemma mapE_Inr_length: "mapE f xs = Inr ys \<Longrightarrow> length ys = length xs"
  by (induction xs arbitrary: ys) (auto simp: bindE_Inr_iff)

text \<open>\<open>SomeEnum(value)\<close>: the member with that value, or a \<open>ValueError\<close>.\<close>

definition enum_of :: "('a \<Rightarrow> string) \<Rightarrow> 'a list \<Rightarrow> string \<Rightarrow> py_error + 'a" where
  "enum_of val members s =
     (case find (\<lambda>m. val m = s) members of None \<Rightarrow> Inl (ValueError s) | Some m \<Rightarrow> Inr m)"

text \<open>An optional entry of a dictionary display: \<open>if c: result[k] = v\<close>.\<close>

definition entry :: "bool \<Rightarrow> string \<Rightarrow> json \<Rightarrow> obj" where
  "entry c k v = (if c then [(k, v)] else [])"

lemma map_of_entry [py_dict]:
  "map_of (entry c k v @ d) k' = (if c \<and> k' = k then Some v else map_of d k')"
  "map_of (entry c k v) k' = (if c \<and> k' = k then Some v else None)"
  by (simp_all add: entry_def)

definition jopt :: "string option \<Rightarrow> json" where
  "jopt s = (case s of None \<Rightarrow> JNull | Some t \<Rightarrow> JStr t)"

definition jstrs :: "string list \<Rightarrow> json" where
  "jstrs xs = JList (map JStr xs)"

section \<open>Reading typed values out of a dictionary\<close>

definition req_str :: "string \<Rightarrow> obj \<Rightarrow> py_error + string" where
  "req_str k d = (case map_of d k of None \<Rightarrow> Inl (KeyError k)
     | Some (JStr s) \<Rightarrow> Inr s | Some _ \<Rightarrow> Inl (TypeError k))"

definition get_opt_str :: "string \<Rightarrow> obj \<Rightarrow> py_error + string option" where
  "get_opt_str k d = (case map_of d k of None \<Rightarrow> Inr None | Some JNull \<Rightarrow> Inr None
     | Some (JStr s) \<Rightarrow> Inr (Some s) | Some _ \<Rightarrow> Inl (TypeError k))"

definition get_str :: "string \<Rightarrow> string \<Rightarrow> obj \<Rightarrow> py_error + string" where
  "get_str k def d = (case map_of d k of None \<Rightarrow> Inr def
     | Some (JStr s) \<Rightarrow> Inr s | Some _ \<Rightarrow> Inl (TypeError k))"

definition get_bool :: "string \<Rightarrow> bool \<Rightarrow> obj \<Rightarrow> py_error + bool" where
  "get_bool k def d = (case map_of d k of None \<Rightarrow> Inr def
     | Some (JBool b) \<Rightarrow> Inr b | Some _ \<Rightarrow> Inl (TypeError k))"

definition get_int :: "string \<Rightarrow> int \<Rightarrow> obj \<Rightarrow> py_error + int" where
  "get_int k def d = (case map_of d k of None \<Rightarrow> Inr def
     | Some (JInt i) \<Rightarrow> Inr i | Some _ \<Rightarrow> Inl (TypeError k))"

definition req_int :: "string \<Rightarrow> obj \<Rightarrow> py_error + int" where
  "req_int k d = (case map_of d k of None \<Rightarrow> Inl (KeyError k)
     | Some (JInt i) \<Rightarrow> Inr i | Some _ \<Rightarrow> Inl (TypeError k))"

definition get_opt_int :: "string \<Rightarrow> obj \<Rightarrow> py_error + int option" where
  "get_opt_int k d = (case map_of d k of None \<Rightarrow> Inr None | Some JNull \<Rightarrow> Inr None
     | Some (JInt i) \<Rightarrow> Inr (Some i) | Some _ \<Rightarrow> Inl (TypeError k))"

definition get_list :: "string \<Rightarrow> obj \<Rightarrow> py_error + json list" where
  "get_list k d = (case map_of d k of None \<Rightarrow> Inr []
     | Some (JList xs) \<Rightarrow> Inr xs | Some _ \<Rightarrow> Inl (TypeError k))"

definition as_str :: "string \<Rightarrow> json \<Rightarrow> py_error + string" where
  "as_str k v = (case v of JStr s \<Rightarrow> Inr s | _ \<Rightarrow> Inl (TypeError k))"

definition as_obj :: "string \<Rightarrow> json \<Rightarrow> py_error + obj" where
  "as_obj k v = (case v of JObj d \<Rightarrow> Inr d | _ \<Rightarrow> Inl (TypeError k))"

definition get_strs :: "string \<Rightarrow> obj \<Rightarrow> py_error + string list" where
  "get_strs k d = bindE (get_list k d) (mapE (as_str k))"

text \<open>\<open>data.get(k)\<close> of a free-form value: absent reads as \<open>None\<close>.\<close>

definition get_any :: "string \<Rightarrow> obj \<Rightarrow> json" where
  "get_any k d = (case map_of d k of None \<Rightarrow> JNull | Some v \<Rightarrow> v)"

lemma mapE_as_str [simp]: "mapE (as_str k) (map JStr xs) = Inr xs"
  using mapE_map [of xs "as_str k" JStr "\<lambda>x. x"] by (simp add: as_str_def)

lemmas get_defs = req_str_def get_opt_str_def get_str_def get_bool_def get_int_def req_int_def
  get_opt_int_def get_list_def get_strs_def get_any_def as_obj_def

text \<open>What the readers return on a display whose entry for the key is known.\<close>

declare map_of_append [simp del]

lemma get_opt_str_entry:
  "map_of d k = (if truthy_str x then Some (jopt x) else None) \<Longrightarrow> get_opt_str k d = Inr (keep_str x)"
  by (cases x) (simp_all add: get_opt_str_def jopt_def keep_str_def truthy_str_def)

lemma get_opt_str_not_None:
  "map_of d k = (if x \<noteq> None then Some (jopt x) else None) \<Longrightarrow> get_opt_str k d = Inr x"
  by (cases x) (simp_all add: get_opt_str_def jopt_def)

lemma get_opt_str_jopt: "map_of d k = Some (jopt x) \<Longrightarrow> get_opt_str k d = Inr x"
  by (cases x) (simp_all add: get_opt_str_def jopt_def)

lemma get_strs_entry:
  "map_of d k = (if xs \<noteq> [] then Some (jstrs xs) else None) \<Longrightarrow> get_strs k d = Inr xs"
  by (simp add: get_strs_def get_list_def jstrs_def split: if_splits)

lemma get_strs_jstrs: "map_of d k = Some (jstrs xs) \<Longrightarrow> get_strs k d = Inr xs"
  by (simp add: get_strs_def get_list_def jstrs_def)

lemma get_bool_entry:
  "map_of d k = (if b then Some (JBool True) else None) \<Longrightarrow> get_bool k False d = Inr b"
  by (simp add: get_bool_def split: if_splits)

lemma get_any_entry:
  "map_of d k = (if truthy v then Some v else None) \<Longrightarrow> get_any k d = (if truthy v then v else JNull)"
  by (simp add: get_any_def)

section \<open>Dictionaries that are updated: insertion order kept\<close>

text \<open>
  \<open>d[k] = v\<close> replaces in place or appends, which is \<open>AList.update\<close>; \<open>k in d\<close> is membership in the
  keys.
\<close>

definition ddefault :: "'v \<Rightarrow> ('k \<times> 'v) list \<Rightarrow> 'k \<Rightarrow> 'v" where
  "ddefault v d k = (case map_of d k of None \<Rightarrow> v | Some w \<Rightarrow> w)"

lemma dget_dset: "map_of (AList.update k v d) k' = (if k' = k then Some v else map_of d k')"
  by (simp add: update_conv)

section \<open>Strings\<close>

definition lower_char :: "char \<Rightarrow> char" where
  "lower_char c = (let n = (of_char c :: nat) in if 65 \<le> n \<and> n \<le> 90 then char_of (n + 32) else c)"

definition py_lower :: "string \<Rightarrow> string" where
  "py_lower = map lower_char"

definition is_space :: "char \<Rightarrow> bool" where
  "is_space c = (let n = (of_char c :: nat) in 9 \<le> n \<and> n \<le> 13 \<or> 28 \<le> n \<and> n \<le> 32)"

definition is_digit :: "char \<Rightarrow> bool" where
  "is_digit c = (let n = (of_char c :: nat) in 48 \<le> n \<and> n \<le> 57)"

definition digit_val :: "char \<Rightarrow> int" where
  "digit_val c = int (of_char c :: nat) - 48"

definition py_strip :: "string \<Rightarrow> string" where
  "py_strip s = rev (dropWhile is_space (rev (dropWhile is_space s)))"

text \<open>\<open>needle in hay\<close>.\<close>

fun py_in :: "string \<Rightarrow> string \<Rightarrow> bool" where
  "py_in needle [] = (needle = [])"
| "py_in needle (c # cs) = (prefix needle (c # cs) \<or> py_in needle cs)"

lemma py_in_iff: "py_in needle hay \<longleftrightarrow> sublist needle hay"
  by (induction hay) (auto simp: sublist_Cons_right)

text \<open>\<open>s.split()\<close> with no separator: the maximal runs of non-space characters.\<close>

fun split_ws_aux :: "string \<Rightarrow> string \<Rightarrow> string list" where
  "split_ws_aux acc [] = (if acc = [] then [] else [rev acc])"
| "split_ws_aux acc (c # cs) =
     (if is_space c then (if acc = [] then split_ws_aux [] cs else rev acc # split_ws_aux [] cs)
      else split_ws_aux (c # acc) cs)"

definition py_split_ws :: "string \<Rightarrow> string list" where
  "py_split_ws = split_ws_aux []"

text \<open>\<open>s.split(c)\<close> for a one-character separator: always at least one piece.\<close>

fun py_split_on :: "char \<Rightarrow> string \<Rightarrow> string list" where
  "py_split_on sep [] = [[]]"
| "py_split_on sep (c # cs) =
     (if c = sep then [] # py_split_on sep cs
      else (case py_split_on sep cs of [] \<Rightarrow> [[c]] | p # ps \<Rightarrow> (c # p) # ps))"

fun py_join :: "string \<Rightarrow> string list \<Rightarrow> string" where
  "py_join sep [] = []"
| "py_join sep [x] = x"
| "py_join sep (x # y # zs) = x @ sep @ py_join sep (y # zs)"

definition py_replace_char :: "char \<Rightarrow> char \<Rightarrow> string \<Rightarrow> string" where
  "py_replace_char a b = map (\<lambda>c. if c = a then b else c)"

lemma py_split_on_not_Nil [simp]: "py_split_on sep s \<noteq> []"
  by (induction s) (auto split: list.splits)

lemma py_join_split: "py_join [sep] (py_split_on sep s) = s"
proof (induction s)
  case Nil
  show ?case by simp
next
  case (Cons c cs)
  obtain p ps where ps: "py_split_on sep cs = p # ps"
    by (cases "py_split_on sep cs") auto
  with Cons show ?case by (cases ps) auto
qed

text \<open>Decimal rendering of an integer, as an f-string does it.\<close>

fun digits_of_nat :: "nat \<Rightarrow> string" where
  "digits_of_nat n =
     (if n < 10 then [char_of (48 + n)] else digits_of_nat (n div 10) @ [char_of (48 + n mod 10)])"

declare digits_of_nat.simps [simp del]

definition str_of_int :: "int \<Rightarrow> string" where
  "str_of_int i = (if i < 0 then ''-'' @ digits_of_nat (nat (- i)) else digits_of_nat (nat i))"

text \<open>\<open>int(digits)\<close> of a run of decimal digits.\<close>

definition int_of_digits :: "string \<Rightarrow> int" where
  "int_of_digits s = foldl (\<lambda>acc c. 10 * acc + digit_val c) 0 s"

text \<open>\<open>re.search(r"\d+", s)\<close>: the first maximal run of digits, if there is one.\<close>

definition first_int :: "string \<Rightarrow> int option" where
  "first_int s = (case takeWhile is_digit (dropWhile (\<lambda>c. \<not> is_digit c) s) of
     [] \<Rightarrow> None | ds \<Rightarrow> Some (int_of_digits ds))"

lemma digit_val_char_of: "(d::nat) < 10 \<Longrightarrow> digit_val (char_of (48 + d)) = int d"
  by (simp add: digit_val_def)

lemma is_digit_char_of: "(d::nat) < 10 \<Longrightarrow> is_digit (char_of (48 + d))"
  by (simp add: is_digit_def Let_def)

lemma digits_of_nat_digits: "c \<in> set (digits_of_nat n) \<Longrightarrow> is_digit c"
proof (induction n rule: digits_of_nat.induct)
  case (1 n)
  then show ?case
    by (subst (asm) digits_of_nat.simps) (auto split: if_splits intro!: is_digit_char_of)
qed

lemma digits_of_nat_not_Nil [simp]: "digits_of_nat n \<noteq> []"
  by (subst digits_of_nat.simps) simp

lemma int_of_digits_of_nat [simp]: "int_of_digits (digits_of_nat n) = int n"
proof (induction n rule: digits_of_nat.induct)
  case (1 n)
  show ?case
  proof (cases "n < 10")
    case True
    then show ?thesis
      by (subst digits_of_nat.simps) (simp add: int_of_digits_def digit_val_char_of)
  next
    case False
    have "10 * int (n div 10) + int (n mod 10) = int n"
      using mult_div_mod_eq [of 10 n] by (metis of_nat_add of_nat_mult of_nat_numeral)
    with False 1 show ?thesis
      by (subst digits_of_nat.simps) (simp add: int_of_digits_def digit_val_char_of)
  qed
qed

lemma digits_of_nat_inj: "digits_of_nat m = digits_of_nat n \<longleftrightarrow> m = n"
  by (metis int_of_digits_of_nat of_nat_eq_iff)

section \<open>Interfaces shared by several components\<close>

text \<open>
  A store addressed by keys: writing a key is seen by reading it and by no other key. The
  provider may be a dictionary or a directory of files.
\<close>

locale keyed_store =
  fixes get :: "'s \<Rightarrow> 'k \<Rightarrow> 'v option"
    and put :: "'k \<Rightarrow> 'v \<Rightarrow> 's \<Rightarrow> 's"
  assumes get_put: "get (put k v s) k' = (if k' = k then Some v else get s k')"
begin

lemma get_put_same: "get (put k v s) k = Some v"
  by (simp add: get_put)

lemma get_put_other: "k' \<noteq> k \<Longrightarrow> get (put k v s) k' = get s k'"
  by (simp add: get_put)

lemma get_or_create: "get s k = Some w \<or> get (put k v s) k = Some v"
  by (simp add: get_put)

lemma get_puts_other: "k \<notin> fst ` set kvs \<Longrightarrow> get (fold (\<lambda>(k, v). put k v) kvs s) k = get s k"
  by (induction kvs arbitrary: s) (auto simp: get_put)

end

interpretation pydict: keyed_store "map_of" "AList.update"
  by unfold_locales (simp add: dget_dset)

text \<open>
  A machine: a step function on states, the events that may be given to it, and what every
  step keeps. Whatever is kept by one step is kept by every run.
\<close>

locale machine =
  fixes step :: "'s \<Rightarrow> 'e \<Rightarrow> 's"
    and okay :: "'e \<Rightarrow> bool"
    and inv :: "'s \<Rightarrow> bool"
  assumes step_inv: "inv s \<Longrightarrow> okay e \<Longrightarrow> inv (step s e)"
begin

lemma run_inv: "inv s \<Longrightarrow> (\<And>e. e \<in> set es \<Longrightarrow> okay e) \<Longrightarrow> inv (foldl step s es)"
  by (induction es arbitrary: s) (auto intro: step_inv)

end

end
