(* ===== verification/Plan_Items.thy ===== *)
theory Plan_Items
  imports Prelude
begin

text \<open>
  Work items of an implementation plan: \<open>implementation_plan/enums.py\<close>, \<open>verification.py\<close>,
  \<open>subtask.py\<close> and \<open>story.py\<close> under \<open>src/apps/backend\<close>. A \<open>Subtask\<close> and a \<open>Story\<close> are records
  with the dataclasses' fields; \<open>to_dict\<close> and \<open>from_dict\<close> go through \<open>json\<close>; \<open>start\<close>, \<open>complete\<close>
  and \<open>fail\<close> take the clock reading they write (\<open>now\<close>, the ISO string of \<open>datetime.now(UTC)\<close>).
  The interface both classes promise the wave engine (it duck-types them) is the locale
  \<open>work_item\<close>.
\<close>

section \<open>Enumerations\<close>

datatype workflow_type = WF_FEATURE | WF_REFACTOR | WF_INVESTIGATION | WF_MIGRATION | WF_SIMPLE
  | WF_DEVELOPMENT | WF_ENHANCEMENT

datatype phase_type = PT_SETUP | PT_IMPLEMENTATION | PT_INVESTIGATION | PT_INTEGRATION | PT_CLEANUP

datatype subtask_status = PENDING | IN_PROGRESS | COMPLETED | BLOCKED | FAILED

datatype verification_type = V_COMMAND | V_API | V_BROWSER | V_COMPONENT | V_MANUAL | V_NONE

text \<open>\<open>.value\<close> of an enum member, and the constructor call \<open>E(value)\<close> that may raise.\<close>

fun wf_value :: "workflow_type \<Rightarrow> string" where
  "wf_value WF_FEATURE = ''feature''"
| "wf_value WF_REFACTOR = ''refactor''"
| "wf_value WF_INVESTIGATION = ''investigation''"
| "wf_value WF_MIGRATION = ''migration''"
| "wf_value WF_SIMPLE = ''simple''"
| "wf_value WF_DEVELOPMENT = ''development''"
| "wf_value WF_ENHANCEMENT = ''enhancement''"

fun pt_value :: "phase_type \<Rightarrow> string" where
  "pt_value PT_SETUP = ''setup''"
| "pt_value PT_IMPLEMENTATION = ''implementation''"
| "pt_value PT_INVESTIGATION = ''investigation''"
| "pt_value PT_INTEGRATION = ''integration''"
| "pt_value PT_CLEANUP = ''cleanup''"

fun status_value :: "subtask_status \<Rightarrow> string" where
  "status_value PENDING = ''pending''"
| "status_value IN_PROGRESS = ''in_progress''"
| "status_value COMPLETED = ''completed''"
| "status_value BLOCKED = ''blocked''"
| "status_value FAILED = ''failed''"

fun v_value :: "verification_type \<Rightarrow> string" where
  "v_value V_COMMAND = ''command''"
| "v_value V_API = ''api''"
| "v_value V_BROWSER = ''browser''"
| "v_value V_COMPONENT = ''component''"
| "v_value V_MANUAL = ''manual''"
| "v_value V_NONE = ''none''"

definition wf_members :: "workflow_type list" where
  "wf_members = [WF_FEATURE, WF_REFACTOR, WF_INVESTIGATION, WF_MIGRATION, WF_SIMPLE,
     WF_DEVELOPMENT, WF_ENHANCEMENT]"

definition pt_members :: "phase_type list" where
  "pt_members = [PT_SETUP, PT_IMPLEMENTATION, PT_INVESTIGATION, PT_INTEGRATION, PT_CLEANUP]"

definition status_members :: "subtask_status list" where
  "status_members = [PENDING, IN_PROGRESS, COMPLETED, BLOCKED, FAILED]"

definition v_members :: "verification_type list" where
  "v_members = [V_COMMAND, V_API, V_BROWSER, V_COMPONENT, V_MANUAL, V_NONE]"

definition wf_of :: "string \<Rightarrow> py_error + workflow_type" where
  "wf_of = enum_of wf_value wf_members"

definition pt_of :: "string \<Rightarrow> py_error + phase_type" where
  "pt_of = enum_of pt_value pt_members"

definition status_of :: "string \<Rightarrow> py_error + subtask_status" where
  "status_of = enum_of status_value status_members"

definition v_of :: "string \<Rightarrow> py_error + verification_type" where
  "v_of = enum_of v_value v_members"

lemma wf_of_value [simp]: "wf_of (wf_value w) = Inr w"
  by (cases w) (simp_all add: wf_of_def enum_of_def wf_members_def)

lemma pt_of_value [simp]: "pt_of (pt_value p) = Inr p"
  by (cases p) (simp_all add: pt_of_def enum_of_def pt_members_def)

lemma status_of_value [simp]: "status_of (status_value s) = Inr s"
  by (cases s) (simp_all add: status_of_def enum_of_def status_members_def)

lemma v_of_value [simp]: "v_of (v_value v) = Inr v"
  by (cases v) (simp_all add: v_of_def enum_of_def v_members_def)

section \<open>Verification\<close>

record verification =
  v_type :: verification_type
  v_run :: "string option"
  v_url :: "string option"
  v_method :: "string option"
  v_expect_status :: "int option"
  v_expect_contains :: "string option"
  v_scenario :: "string option"

definition jopt_int :: "int option \<Rightarrow> json" where
  "jopt_int i = (case i of None \<Rightarrow> JNull | Some n \<Rightarrow> JInt n)"

definition verification_to_dict :: "verification \<Rightarrow> obj" where
  "verification_to_dict v =
     [(''type'', JStr (v_value (v_type v)))] @
     entry (v_run v \<noteq> None) ''run'' (jopt (v_run v)) @
     entry (v_url v \<noteq> None) ''url'' (jopt (v_url v)) @
     entry (v_method v \<noteq> None) ''method'' (jopt (v_method v)) @
     entry (v_expect_status v \<noteq> None) ''expect_status'' (jopt_int (v_expect_status v)) @
     entry (v_expect_contains v \<noteq> None) ''expect_contains'' (jopt (v_expect_contains v)) @
     entry (v_scenario v \<noteq> None) ''scenario'' (jopt (v_scenario v))"

definition verification_from_dict :: "obj \<Rightarrow> py_error + verification" where
  "verification_from_dict d =
     bindE (get_str ''type'' ''none'' d) (\<lambda>t.
     bindE (v_of t) (\<lambda>ty.
     bindE (get_opt_str ''run'' d) (\<lambda>r.
     bindE (get_opt_str ''url'' d) (\<lambda>u.
     bindE (get_opt_str ''method'' d) (\<lambda>m.
     bindE (get_opt_int ''expect_status'' d) (\<lambda>es.
     bindE (get_opt_str ''expect_contains'' d) (\<lambda>ec.
     bindE (get_opt_str ''scenario'' d) (\<lambda>sc.
       Inr \<lparr>v_type = ty, v_run = r, v_url = u, v_method = m, v_expect_status = es,
            v_expect_contains = ec, v_scenario = sc\<rparr>))))))))"

lemma verification_roundtrip [simp]: "verification_from_dict (verification_to_dict v) = Inr v"
proof -
  let ?d = "verification_to_dict v"
  have "get_opt_str ''run'' ?d = Inr (v_run v)" "get_opt_str ''url'' ?d = Inr (v_url v)"
    "get_opt_str ''method'' ?d = Inr (v_method v)"
    "get_opt_str ''expect_contains'' ?d = Inr (v_expect_contains v)"
    "get_opt_str ''scenario'' ?d = Inr (v_scenario v)"
    by (rule get_opt_str_not_None, simp add: verification_to_dict_def py_dict)+
  moreover have "get_opt_int ''expect_status'' ?d = Inr (v_expect_status v)"
    by (cases "v_expect_status v")
      (simp_all add: verification_to_dict_def get_opt_int_def jopt_int_def py_dict)
  moreover have "get_str ''type'' ''none'' ?d = Inr (v_value (v_type v))"
    by (simp add: verification_to_dict_def get_str_def)
  ultimately show ?thesis
    by (simp add: verification_from_dict_def)
qed

section \<open>Subtasks\<close>

record subtask =
  st_id :: string
  st_description :: string
  st_status :: subtask_status
  st_service :: "string option"
  st_all_services :: bool
  st_depends_on :: "string list"
  st_model :: "string option"
  st_files_to_modify :: "string list"
  st_files_to_create :: "string list"
  st_patterns_from :: "string list"
  st_verification :: "verification option"
  st_acceptance_criteria :: "string list"
  st_expected_output :: "string option"
  st_actual_output :: "string option"
  st_started_at :: "string option"
  st_completed_at :: "string option"
  st_critique_result :: json

text \<open>The constructor call with only the required fields given.\<close>

definition new_subtask :: "string \<Rightarrow> string \<Rightarrow> subtask" where
  "new_subtask i desc =
     \<lparr>st_id = i, st_description = desc, st_status = PENDING, st_service = None,
      st_all_services = False, st_depends_on = [], st_model = None, st_files_to_modify = [],
      st_files_to_create = [], st_patterns_from = [], st_verification = None,
      st_acceptance_criteria = [], st_expected_output = None, st_actual_output = None,
      st_started_at = None, st_completed_at = None, st_critique_result = JNull\<rparr>"

definition subtask_to_dict :: "subtask \<Rightarrow> obj" where
  "subtask_to_dict s =
     [(''id'', JStr (st_id s)), (''description'', JStr (st_description s)),
      (''status'', JStr (status_value (st_status s)))] @
     entry (truthy_str (st_service s)) ''service'' (jopt (st_service s)) @
     entry (st_all_services s) ''all_services'' (JBool True) @
     entry (st_depends_on s \<noteq> []) ''depends_on'' (jstrs (st_depends_on s)) @
     entry (truthy_str (st_model s)) ''model'' (jopt (st_model s)) @
     entry (st_files_to_modify s \<noteq> []) ''files_to_modify'' (jstrs (st_files_to_modify s)) @
     entry (st_files_to_create s \<noteq> []) ''files_to_create'' (jstrs (st_files_to_create s)) @
     entry (st_patterns_from s \<noteq> []) ''patterns_from'' (jstrs (st_patterns_from s)) @
     (case st_verification s of None \<Rightarrow> []
      | Some v \<Rightarrow> [(''verification'', JObj (verification_to_dict v))]) @
     entry (st_acceptance_criteria s \<noteq> []) ''acceptance_criteria''
       (jstrs (st_acceptance_criteria s)) @
     entry (truthy_str (st_expected_output s)) ''expected_output'' (jopt (st_expected_output s)) @
     entry (truthy_str (st_actual_output s)) ''actual_output'' (jopt (st_actual_output s)) @
     entry (truthy_str (st_started_at s)) ''started_at'' (jopt (st_started_at s)) @
     entry (truthy_str (st_completed_at s)) ''completed_at'' (jopt (st_completed_at s)) @
     entry (truthy (st_critique_result s)) ''critique_result'' (st_critique_result s)"

text \<open>\<open>Verification.from_dict(data["verification"]) if "verification" in data else None\<close>.\<close>

definition get_verification :: "obj \<Rightarrow> py_error + verification option" where
  "get_verification d = (case map_of d ''verification'' of None \<Rightarrow> Inr None
     | Some v \<Rightarrow> bindE (as_obj ''verification'' v) (\<lambda>vd. bindE (verification_from_dict vd) (\<lambda>x. Inr (Some x))))"

text \<open>\<open>data.get("acceptance_criteria") or []\<close>.\<close>

definition get_strs_or_empty :: "string \<Rightarrow> obj \<Rightarrow> py_error + string list" where
  "get_strs_or_empty k d = (if truthy (get_any k d) then get_strs k d else Inr [])"

definition subtask_from_dict :: "obj \<Rightarrow> py_error + subtask" where
  "subtask_from_dict d =
     bindE (get_verification d) (\<lambda>ver.
     bindE (req_str ''id'' d) (\<lambda>i.
     bindE (req_str ''description'' d) (\<lambda>desc.
     bindE (get_str ''status'' ''pending'' d) (\<lambda>st.
     bindE (status_of st) (\<lambda>status.
     bindE (get_opt_str ''service'' d) (\<lambda>serv.
     bindE (get_bool ''all_services'' False d) (\<lambda>alls.
     bindE (get_strs ''depends_on'' d) (\<lambda>deps.
     bindE (get_opt_str ''model'' d) (\<lambda>model.
     bindE (get_strs ''files_to_modify'' d) (\<lambda>fm.
     bindE (get_strs ''files_to_create'' d) (\<lambda>fc.
     bindE (get_strs ''patterns_from'' d) (\<lambda>pf.
     bindE (get_strs_or_empty ''acceptance_criteria'' d) (\<lambda>ac.
     bindE (get_opt_str ''expected_output'' d) (\<lambda>eo.
     bindE (get_opt_str ''actual_output'' d) (\<lambda>ao.
     bindE (get_opt_str ''started_at'' d) (\<lambda>sa.
     bindE (get_opt_str ''completed_at'' d) (\<lambda>ca.
       Inr \<lparr>st_id = i, st_description = desc, st_status = status, st_service = serv,
            st_all_services = alls, st_depends_on = deps, st_model = model,
            st_files_to_modify = fm, st_files_to_create = fc, st_patterns_from = pf,
            st_verification = ver, st_acceptance_criteria = ac, st_expected_output = eo,
            st_actual_output = ao, st_started_at = sa, st_completed_at = ca,
            st_critique_result = get_any ''critique_result'' d\<rparr>)))))))))))))))))"

text \<open>
  What a save and a load leave of a subtask: every field, but an optional string or a critique
  that is falsy comes back as \<open>None\<close>.
\<close>

definition norm_subtask :: "subtask \<Rightarrow> subtask" where
  "norm_subtask s = s\<lparr>st_service := keep_str (st_service s), st_model := keep_str (st_model s),
     st_expected_output := keep_str (st_expected_output s),
     st_actual_output := keep_str (st_actual_output s),
     st_started_at := keep_str (st_started_at s), st_completed_at := keep_str (st_completed_at s),
     st_critique_result := (if truthy (st_critique_result s) then st_critique_result s else JNull)\<rparr>"

lemma map_of_verification_entry [py_dict]:
  "map_of ((case v of None \<Rightarrow> [] | Some w \<Rightarrow> [(k, f w)]) @ d) k' =
     (if k' = k \<and> v \<noteq> None then Some (f (the v)) else map_of d k')"
  by (cases v) auto

lemma get_verification_entry:
  "map_of d ''verification'' = (if v \<noteq> None then Some (JObj (verification_to_dict (the v))) else None)
   \<Longrightarrow> get_verification d = Inr v"
  by (cases v) (simp_all add: get_verification_def as_obj_def)

lemma get_strs_or_empty_entry:
  "map_of d k = (if xs \<noteq> [] then Some (jstrs xs) else None) \<Longrightarrow> get_strs_or_empty k d = Inr xs"
  by (auto simp: get_strs_or_empty_def get_any_def jstrs_def get_strs_def get_list_def split: if_splits)

lemma subtask_roundtrip_norm: "subtask_from_dict (subtask_to_dict s) = Inr (norm_subtask s)"
proof -
  let ?d = "subtask_to_dict s"
  note d = subtask_to_dict_def py_dict
  have "get_opt_str ''service'' ?d = Inr (keep_str (st_service s))"
    "get_opt_str ''model'' ?d = Inr (keep_str (st_model s))"
    "get_opt_str ''expected_output'' ?d = Inr (keep_str (st_expected_output s))"
    "get_opt_str ''actual_output'' ?d = Inr (keep_str (st_actual_output s))"
    "get_opt_str ''started_at'' ?d = Inr (keep_str (st_started_at s))"
    "get_opt_str ''completed_at'' ?d = Inr (keep_str (st_completed_at s))"
    by (rule get_opt_str_entry, simp add: d)+
  moreover have "get_strs ''depends_on'' ?d = Inr (st_depends_on s)"
    "get_strs ''files_to_modify'' ?d = Inr (st_files_to_modify s)"
    "get_strs ''files_to_create'' ?d = Inr (st_files_to_create s)"
    "get_strs ''patterns_from'' ?d = Inr (st_patterns_from s)"
    by (rule get_strs_entry, simp add: d)+
  moreover have "get_strs_or_empty ''acceptance_criteria'' ?d = Inr (st_acceptance_criteria s)"
    by (rule get_strs_or_empty_entry) (simp add: d)
  moreover have "get_verification ?d = Inr (st_verification s)"
    by (rule get_verification_entry) (simp add: d)
  moreover have "get_bool ''all_services'' False ?d = Inr (st_all_services s)"
    by (rule get_bool_entry) (simp add: d)
  moreover have "get_any ''critique_result'' ?d =
      (if truthy (st_critique_result s) then st_critique_result s else JNull)"
    by (rule get_any_entry) (simp add: d)
  moreover have "req_str ''id'' ?d = Inr (st_id s)"
    "req_str ''description'' ?d = Inr (st_description s)"
    "get_str ''status'' ''pending'' ?d = Inr (status_value (st_status s))"
    by (simp_all add: subtask_to_dict_def req_str_def get_str_def)
  ultimately show ?thesis
    by (simp add: subtask_from_dict_def norm_subtask_def)
qed

definition subtask_start :: "string \<Rightarrow> subtask \<Rightarrow> subtask" where
  "subtask_start now s =
     s\<lparr>st_status := IN_PROGRESS,
       st_started_at := (if truthy_str (st_started_at s) then st_started_at s else Some now),
       st_completed_at := None, st_actual_output := None\<rparr>"

definition subtask_complete :: "string \<Rightarrow> string option \<Rightarrow> subtask \<Rightarrow> subtask" where
  "subtask_complete now output s =
     s\<lparr>st_status := COMPLETED, st_completed_at := Some now,
       st_actual_output := (if truthy_str output then output else st_actual_output s)\<rparr>"

definition subtask_fail :: "string option \<Rightarrow> subtask \<Rightarrow> subtask" where
  "subtask_fail reason s =
     s\<lparr>st_status := FAILED, st_completed_at := None,
       st_actual_output := (if truthy_str reason then Some (''FAILED: '' @ the reason)
                            else st_actual_output s)\<rparr>"

section \<open>Stories\<close>

record technical_context =
  tc_architecture_references :: "string list"
  tc_stack :: "string list"
  tc_dependencies :: "string list"
  tc_technical_notes :: string

definition empty_context :: technical_context where
  "empty_context = \<lparr>tc_architecture_references = [], tc_stack = [], tc_dependencies = [],
     tc_technical_notes = []\<rparr>"

definition context_to_dict :: "technical_context \<Rightarrow> obj" where
  "context_to_dict c =
     [(''architecture_references'', jstrs (tc_architecture_references c)),
      (''stack'', jstrs (tc_stack c)), (''dependencies'', jstrs (tc_dependencies c)),
      (''technical_notes'', JStr (tc_technical_notes c))]"

definition context_from_dict :: "obj \<Rightarrow> py_error + technical_context" where
  "context_from_dict d =
     bindE (get_strs ''architecture_references'' d) (\<lambda>ar.
     bindE (get_strs ''stack'' d) (\<lambda>st.
     bindE (get_strs ''dependencies'' d) (\<lambda>de.
     bindE (get_str ''technical_notes'' [] d) (\<lambda>tn.
       Inr \<lparr>tc_architecture_references = ar, tc_stack = st, tc_dependencies = de,
            tc_technical_notes = tn\<rparr>))))"

lemma context_roundtrip [simp]: "context_from_dict (context_to_dict c) = Inr c"
proof -
  let ?d = "context_to_dict c"
  have "get_strs ''architecture_references'' ?d = Inr (tc_architecture_references c)"
    "get_strs ''stack'' ?d = Inr (tc_stack c)"
    "get_strs ''dependencies'' ?d = Inr (tc_dependencies c)"
    by (rule get_strs_jstrs, simp add: context_to_dict_def)+
  moreover have "get_str ''technical_notes'' [] ?d = Inr (tc_technical_notes c)"
    by (simp add: context_to_dict_def get_str_def)
  ultimately show ?thesis
    by (simp add: context_from_dict_def)
qed

record story =
  us_id :: string
  us_title :: string
  us_user_story :: string
  us_acceptance_criteria :: "string list"
  us_technical_context :: technical_context
  us_story_points :: int
  us_priority :: string
  us_status :: subtask_status
  us_service :: "string option"
  us_all_services :: bool
  us_depends_on :: "string list"
  us_model :: "string option"
  us_files_to_modify :: "string list"
  us_files_to_create :: "string list"
  us_patterns_from :: "string list"
  us_verification :: "verification option"
  us_started_at :: "string option"
  us_completed_at :: "string option"
  us_critique_result :: json
  us_description :: "string option"

definition story_to_dict :: "story \<Rightarrow> obj" where
  "story_to_dict s =
     [(''id'', JStr (us_id s)), (''title'', JStr (us_title s)),
      (''user_story'', JStr (us_user_story s)),
      (''acceptance_criteria'', jstrs (us_acceptance_criteria s)),
      (''technical_context'', JObj (context_to_dict (us_technical_context s))),
      (''story_points'', JInt (us_story_points s)), (''priority'', JStr (us_priority s)),
      (''status'', JStr (status_value (us_status s)))] @
     entry (truthy_str (us_service s)) ''service'' (jopt (us_service s)) @
     entry (us_all_services s) ''all_services'' (JBool True) @
     entry (us_depends_on s \<noteq> []) ''depends_on'' (jstrs (us_depends_on s)) @
     entry (truthy_str (us_model s)) ''model'' (jopt (us_model s)) @
     entry (us_files_to_modify s \<noteq> []) ''files_to_modify'' (jstrs (us_files_to_modify s)) @
     entry (us_files_to_create s \<noteq> []) ''files_to_create'' (jstrs (us_files_to_create s)) @
     entry (us_patterns_from s \<noteq> []) ''patterns_from'' (jstrs (us_patterns_from s)) @
     (case us_verification s of None \<Rightarrow> []
      | Some v \<Rightarrow> [(''verification'', JObj (verification_to_dict v))]) @
     entry (truthy_str (us_started_at s)) ''started_at'' (jopt (us_started_at s)) @
     entry (truthy_str (us_completed_at s)) ''completed_at'' (jopt (us_completed_at s)) @
     entry (truthy (us_critique_result s)) ''critique_result'' (us_critique_result s)"

definition get_context :: "obj \<Rightarrow> py_error + technical_context" where
  "get_context d = (case map_of d ''technical_context'' of None \<Rightarrow> Inr empty_context
     | Some v \<Rightarrow> bindE (as_obj ''technical_context'' v) context_from_dict)"

definition story_from_dict :: "obj \<Rightarrow> py_error + story" where
  "story_from_dict d =
     bindE (get_context d) (\<lambda>tc.
     bindE (get_verification d) (\<lambda>ver.
     bindE (req_str ''id'' d) (\<lambda>i.
     bindE (get_str ''title'' [] d) (\<lambda>ti.
     bindE (get_str ''user_story'' [] d) (\<lambda>us.
     bindE (get_strs ''acceptance_criteria'' d) (\<lambda>ac.
     bindE (get_int ''story_points'' 3 d) (\<lambda>sp.
     bindE (get_str ''priority'' ''medium'' d) (\<lambda>pr.
     bindE (get_str ''status'' ''pending'' d) (\<lambda>st.
     bindE (status_of st) (\<lambda>status.
     bindE (get_opt_str ''service'' d) (\<lambda>serv.
     bindE (get_bool ''all_services'' False d) (\<lambda>alls.
     bindE (get_strs ''depends_on'' d) (\<lambda>deps.
     bindE (get_opt_str ''model'' d) (\<lambda>model.
     bindE (get_strs ''files_to_modify'' d) (\<lambda>fm.
     bindE (get_strs ''files_to_create'' d) (\<lambda>fc.
     bindE (get_strs ''patterns_from'' d) (\<lambda>pf.
     bindE (get_opt_str ''started_at'' d) (\<lambda>sa.
     bindE (get_opt_str ''completed_at'' d) (\<lambda>ca.
     bindE (get_opt_str ''description'' d) (\<lambda>desc.
       Inr \<lparr>us_id = i, us_title = ti, us_user_story = us, us_acceptance_criteria = ac,
            us_technical_context = tc, us_story_points = sp, us_priority = pr,
            us_status = status, us_service = serv, us_all_services = alls,
            us_depends_on = deps, us_model = model, us_files_to_modify = fm,
            us_files_to_create = fc, us_patterns_from = pf, us_verification = ver,
            us_started_at = sa, us_completed_at = ca,
            us_critique_result = get_any ''critique_result'' d,
            us_description = desc\<rparr>))))))))))))))))))))"

text \<open>What a save and a load leave of a story: \<open>description\<close> is never written.\<close>

definition norm_story :: "story \<Rightarrow> story" where
  "norm_story s = s\<lparr>us_service := keep_str (us_service s), us_model := keep_str (us_model s),
     us_started_at := keep_str (us_started_at s), us_completed_at := keep_str (us_completed_at s),
     us_critique_result := (if truthy (us_critique_result s) then us_critique_result s else JNull),
     us_description := None\<rparr>"

lemma story_roundtrip_norm: "story_from_dict (story_to_dict s) = Inr (norm_story s)"
proof -
  let ?d = "story_to_dict s"
  note d = story_to_dict_def py_dict
  have "get_opt_str ''service'' ?d = Inr (keep_str (us_service s))"
    "get_opt_str ''model'' ?d = Inr (keep_str (us_model s))"
    "get_opt_str ''started_at'' ?d = Inr (keep_str (us_started_at s))"
    "get_opt_str ''completed_at'' ?d = Inr (keep_str (us_completed_at s))"
    by (rule get_opt_str_entry, simp add: d)+
  moreover have "get_strs ''depends_on'' ?d = Inr (us_depends_on s)"
    "get_strs ''files_to_modify'' ?d = Inr (us_files_to_modify s)"
    "get_strs ''files_to_create'' ?d = Inr (us_files_to_create s)"
    "get_strs ''patterns_from'' ?d = Inr (us_patterns_from s)"
    by (rule get_strs_entry, simp add: d)+
  moreover have "get_strs ''acceptance_criteria'' ?d = Inr (us_acceptance_criteria s)"
    by (rule get_strs_jstrs) (simp add: story_to_dict_def)
  moreover have "get_verification ?d = Inr (us_verification s)"
    by (rule get_verification_entry) (simp add: d)
  moreover have "get_bool ''all_services'' False ?d = Inr (us_all_services s)"
    by (rule get_bool_entry) (simp add: d)
  moreover have "get_any ''critique_result'' ?d =
      (if truthy (us_critique_result s) then us_critique_result s else JNull)"
    by (rule get_any_entry) (simp add: d)
  moreover have "get_opt_str ''description'' ?d = Inr None"
    by (simp add: d get_opt_str_def)
  moreover have "get_context ?d = Inr (us_technical_context s)"
    "req_str ''id'' ?d = Inr (us_id s)" "get_str ''title'' [] ?d = Inr (us_title s)"
    "get_str ''user_story'' [] ?d = Inr (us_user_story s)"
    "get_int ''story_points'' 3 ?d = Inr (us_story_points s)"
    "get_str ''priority'' ''medium'' ?d = Inr (us_priority s)"
    "get_str ''status'' ''pending'' ?d = Inr (status_value (us_status s))"
    by (simp_all add: story_to_dict_def get_context_def as_obj_def get_defs)
  ultimately show ?thesis
    by (simp add: story_from_dict_def norm_story_def)
qed

text \<open>\<open>Story.from_subtask\<close>: the migration helper reads a subtask dictionary.\<close>

definition story_from_subtask :: "obj \<Rightarrow> py_error + story" where
  "story_from_subtask d =
     bindE (req_str ''id'' d) (\<lambda>i.
     bindE (req_str ''description'' d) (\<lambda>desc.
     bindE (get_str ''status'' ''pending'' d) (\<lambda>st.
     bindE (status_of st) (\<lambda>status.
     bindE (get_opt_str ''service'' d) (\<lambda>serv.
     bindE (get_bool ''all_services'' False d) (\<lambda>alls.
     bindE (get_strs ''depends_on'' d) (\<lambda>deps.
     bindE (get_strs ''files_to_modify'' d) (\<lambda>fm.
     bindE (get_strs ''files_to_create'' d) (\<lambda>fc.
     bindE (get_strs ''patterns_from'' d) (\<lambda>pf.
     bindE (get_verification d) (\<lambda>ver.
     bindE (get_opt_str ''started_at'' d) (\<lambda>sa.
     bindE (get_opt_str ''completed_at'' d) (\<lambda>ca.
       Inr \<lparr>us_id = i, us_title = take 50 desc,
            us_user_story = ''As a developer, I want to '' @ py_lower desc @
              '' so that the feature works correctly'',
            us_acceptance_criteria = [''AC1: '' @ desc, ''AC2: Code follows project conventions'',
              ''AC3: Changes are tested and verified''],
            us_technical_context = empty_context, us_story_points = 3, us_priority = ''medium'',
            us_status = status, us_service = serv, us_all_services = alls,
            us_depends_on = deps, us_model = None, us_files_to_modify = fm,
            us_files_to_create = fc, us_patterns_from = pf, us_verification = ver,
            us_started_at = sa, us_completed_at = ca,
            us_critique_result = get_any ''critique_result'' d,
            us_description = Some desc\<rparr>)))))))))))))"

definition display_description :: "story \<Rightarrow> string" where
  "display_description s =
     (if us_user_story s \<noteq> [] then us_user_story s
      else if us_title s \<noteq> [] then us_title s
      else if truthy_str (us_description s) then the (us_description s)
      else ''Story '' @ us_id s)"

definition story_start :: "string \<Rightarrow> story \<Rightarrow> story" where
  "story_start now s =
     s\<lparr>us_status := IN_PROGRESS,
       us_started_at := (if truthy_str (us_started_at s) then us_started_at s else Some now),
       us_completed_at := None\<rparr>"

definition story_complete :: "string \<Rightarrow> string option \<Rightarrow> story \<Rightarrow> story" where
  "story_complete now output s = s\<lparr>us_status := COMPLETED, us_completed_at := Some now\<rparr>"

definition story_fail :: "string option \<Rightarrow> story \<Rightarrow> story" where
  "story_fail reason s = s\<lparr>us_status := FAILED, us_completed_at := None\<rparr>"

section \<open>What both classes promise the engine\<close>

datatype item_op = Start string | Complete string "string option" | Fail "string option"

locale work_item =
  fixes status :: "'a \<Rightarrow> subtask_status"
    and started :: "'a \<Rightarrow> string option"
    and completed :: "'a \<Rightarrow> string option"
    and start :: "string \<Rightarrow> 'a \<Rightarrow> 'a"
    and finish :: "string \<Rightarrow> string option \<Rightarrow> 'a \<Rightarrow> 'a"
    and fail :: "string option \<Rightarrow> 'a \<Rightarrow> 'a"
  assumes status_start: "status (start now x) = IN_PROGRESS"
    and started_start: "started (start now x) =
        (if truthy_str (started x) then started x else Some now)"
    and completed_start: "completed (start now x) = None"
    and status_finish: "status (finish now out x) = COMPLETED"
    and started_finish: "started (finish now out x) = started x"
    and completed_finish: "completed (finish now out x) = Some now"
    and status_fail: "status (fail reason x) = FAILED"
    and started_fail: "started (fail reason x) = started x"
    and completed_fail: "completed (fail reason x) = None"
begin

fun apply_op :: "'a \<Rightarrow> item_op \<Rightarrow> 'a" where
  "apply_op x (Start now) = start now x"
| "apply_op x (Complete now out) = finish now out x"
| "apply_op x (Fail reason) = fail reason x"

text \<open>The completion stamp is there exactly when the item is completed.\<close>

definition stamped :: "'a \<Rightarrow> bool" where
  "stamped x \<longleftrightarrow> (completed x \<noteq> None \<longleftrightarrow> status x = COMPLETED)"

lemmas op_laws = status_start started_start completed_start status_finish started_finish
  completed_finish status_fail started_fail completed_fail

lemma apply_op_stamped: "stamped (apply_op x e)"
  by (cases e) (simp_all add: stamped_def op_laws)

lemma apply_op_started:
  "started x = Some t \<Longrightarrow> t \<noteq> [] \<Longrightarrow> started (apply_op x e) = Some t"
  by (cases e) (simp_all add: op_laws truthy_str_def)

lemma run_started: "started x = Some t \<Longrightarrow> t \<noteq> [] \<Longrightarrow> started (foldl apply_op x es) = Some t"
  by (induction es arbitrary: x) (simp_all add: apply_op_started)

lemma run_stamped: "stamped x \<Longrightarrow> stamped (foldl apply_op x es)"
  by (induction es arbitrary: x) (simp_all add: apply_op_stamped)

text \<open>A retried item keeps the clock of its first start.\<close>

lemma first_start_kept:
  assumes "\<not> truthy_str (started x)" and "now \<noteq> []"
  shows "started (foldl apply_op (start now x) es) = Some now"
  using assms by (intro run_started) (simp_all add: started_start)

end

interpretation subtask_item: work_item st_status st_started_at st_completed_at
    subtask_start subtask_complete subtask_fail
  by unfold_locales (simp_all add: subtask_start_def subtask_complete_def subtask_fail_def)

interpretation story_item: work_item us_status us_started_at us_completed_at
    story_start story_complete story_fail
  by unfold_locales (simp_all add: story_start_def story_complete_def story_fail_def)

text \<open>\<open>Union[Subtask, "Story"]\<close>, and the attributes the engine reads of either.\<close>

datatype item = ISubtask subtask | IStory story

fun item_id :: "item \<Rightarrow> string" where
  "item_id (ISubtask s) = st_id s"
| "item_id (IStory s) = us_id s"

fun item_status :: "item \<Rightarrow> subtask_status" where
  "item_status (ISubtask s) = st_status s"
| "item_status (IStory s) = us_status s"

fun item_depends_on :: "item \<Rightarrow> string list" where
  "item_depends_on (ISubtask s) = st_depends_on s"
| "item_depends_on (IStory s) = us_depends_on s"

fun item_files_to_create :: "item \<Rightarrow> string list" where
  "item_files_to_create (ISubtask s) = st_files_to_create s"
| "item_files_to_create (IStory s) = us_files_to_create s"

fun item_files_to_modify :: "item \<Rightarrow> string list" where
  "item_files_to_modify (ISubtask s) = st_files_to_modify s"
| "item_files_to_modify (IStory s) = us_files_to_modify s"

fun item_started :: "item \<Rightarrow> string option" where
  "item_started (ISubtask s) = st_started_at s"
| "item_started (IStory s) = us_started_at s"

fun item_completed :: "item \<Rightarrow> string option" where
  "item_completed (ISubtask s) = st_completed_at s"
| "item_completed (IStory s) = us_completed_at s"

fun item_description :: "item \<Rightarrow> string option" where
  "item_description (ISubtask s) = Some (st_description s)"
| "item_description (IStory s) = us_description s"

fun item_start :: "string \<Rightarrow> item \<Rightarrow> item" where
  "item_start now (ISubtask s) = ISubtask (subtask_start now s)"
| "item_start now (IStory s) = IStory (story_start now s)"

fun item_complete :: "string \<Rightarrow> string option \<Rightarrow> item \<Rightarrow> item" where
  "item_complete now out (ISubtask s) = ISubtask (subtask_complete now out s)"
| "item_complete now out (IStory s) = IStory (story_complete now out s)"

fun item_fail :: "string option \<Rightarrow> item \<Rightarrow> item" where
  "item_fail reason (ISubtask s) = ISubtask (subtask_fail reason s)"
| "item_fail reason (IStory s) = IStory (story_fail reason s)"

fun item_to_dict :: "item \<Rightarrow> obj" where
  "item_to_dict (ISubtask s) = subtask_to_dict s"
| "item_to_dict (IStory s) = story_to_dict s"

interpretation any_item: work_item item_status item_started item_completed
    item_start item_complete item_fail
  by (unfold_locales; case_tac x; simp add: subtask_item.op_laws story_item.op_laws)

text \<open>The operations change neither what an item is called nor what it depends on or touches.\<close>

lemma item_frame [simp]:
  "item_id (item_start now x) = item_id x" "item_id (item_complete now out x) = item_id x"
  "item_id (item_fail reason x) = item_id x"
  "item_depends_on (item_complete now out x) = item_depends_on x"
  "item_depends_on (item_fail reason x) = item_depends_on x"
  by (cases x; simp add: subtask_start_def story_start_def subtask_complete_def story_complete_def
        subtask_fail_def story_fail_def)+

end
