(* ===== verification/Plan_Core.thy ===== *)
theory Plan_Core
  imports Plan_Items
begin

text \<open>
  Phases and the plan: \<open>implementation_plan/phase.py\<close> and \<open>implementation_plan/plan.py\<close>. A plan
  is read from and written to \<open>implementation_plan.json\<close>; its status fields are derived from
  the items; \<open>get_next_subtask\<close> is what the serial engine asks for its next piece of work. A
  dependency of a phase is a free-form token (\<open>json\<close>), as in the source: an integer or a slug.
\<close>

section \<open>Phases\<close>

record phase =
  ph_phase :: int
  ph_name :: string
  ph_type :: phase_type
  ph_subtasks :: "item list"
  ph_depends_on :: "json list"
  ph_parallel_safe :: bool

definition phase_to_dict :: "phase \<Rightarrow> obj" where
  "phase_to_dict p =
     [(''phase'', JInt (ph_phase p)), (''name'', JStr (ph_name p)),
      (''type'', JStr (pt_value (ph_type p))),
      (''subtasks'', JList (map (JObj \<circ> item_to_dict) (ph_subtasks p))),
      (''chunks'', JList (map (JObj \<circ> item_to_dict) (ph_subtasks p)))] @
     entry (ph_depends_on p \<noteq> []) ''depends_on'' (JList (ph_depends_on p)) @
     entry (ph_parallel_safe p) ''parallel_safe'' (JBool True)"

definition has_key :: "string \<Rightarrow> obj \<Rightarrow> bool" where
  "has_key k d \<longleftrightarrow> map_of d k \<noteq> None"

text \<open>Which class an entry of the \<open>subtasks\<close> list is read as.\<close>

definition item_from_json :: "json \<Rightarrow> py_error + item" where
  "item_from_json j =
     bindE (as_obj ''subtasks'' j) (\<lambda>d.
       if has_key ''user_story'' d \<or> has_key ''acceptance_criteria'' d
       then bindE (story_from_dict d) (\<lambda>s. Inr (IStory s))
       else if has_key ''description'' d
       then bindE (subtask_from_dict d) (\<lambda>s. Inr (ISubtask s))
       else bindE (subtask_from_dict d) (\<lambda>s. Inr (ISubtask s)))"

definition subtask_data :: "obj \<Rightarrow> py_error + json list" where
  "subtask_data d = (if has_key ''subtasks'' d then get_list ''subtasks'' d
                     else get_list ''chunks'' d)"

definition phase_from_dict :: "obj \<Rightarrow> int \<Rightarrow> py_error + phase" where
  "phase_from_dict d fallback =
     bindE (subtask_data d) (\<lambda>data.
     bindE (mapE item_from_json data) (\<lambda>items.
     bindE (get_int ''phase'' fallback d) (\<lambda>n.
     bindE (get_str ''name'' (''Phase '' @ str_of_int fallback) d) (\<lambda>name.
     bindE (get_str ''type'' ''implementation'' d) (\<lambda>t.
     bindE (pt_of t) (\<lambda>ty.
     bindE (get_list ''depends_on'' d) (\<lambda>deps.
     bindE (get_bool ''parallel_safe'' False d) (\<lambda>ps.
       Inr \<lparr>ph_phase = n, ph_name = name, ph_type = ty, ph_subtasks = items,
            ph_depends_on = deps, ph_parallel_safe = ps\<rparr>))))))))"

definition is_complete :: "phase \<Rightarrow> bool" where
  "is_complete p \<longleftrightarrow> list_all (\<lambda>s. item_status s = COMPLETED) (ph_subtasks p)"

definition get_pending_subtasks :: "phase \<Rightarrow> item list" where
  "get_pending_subtasks p = filter (\<lambda>s. item_status s = PENDING) (ph_subtasks p)"

definition phase_progress :: "phase \<Rightarrow> nat \<times> nat" where
  "phase_progress p =
     (length (filter (\<lambda>s. item_status s = COMPLETED) (ph_subtasks p)), length (ph_subtasks p))"

lemma phase_progress_complete: "is_complete p \<longleftrightarrow> fst (phase_progress p) = snd (phase_progress p)"
proof -
  have "length (filter (\<lambda>s. item_status s = COMPLETED) xs) = length xs
        \<longleftrightarrow> list_all (\<lambda>s. item_status s = COMPLETED) xs" for xs
    by (metis filter_id_conv filter_True length_filter_less less_irrefl list_all_iff)
  then show ?thesis by (simp add: is_complete_def phase_progress_def)
qed

lemma pending_incomplete: "s \<in> set (get_pending_subtasks p) \<Longrightarrow> \<not> is_complete p"
  by (force simp: get_pending_subtasks_def is_complete_def list_all_iff)

text \<open>
  What a save and a load make of an item. A subtask with acceptance criteria is read back as a
  story with no title and no user story, and its outputs are gone.
\<close>

definition story_reading :: "subtask \<Rightarrow> story" where
  "story_reading s =
     \<lparr>us_id = st_id s, us_title = [], us_user_story = [],
      us_acceptance_criteria = st_acceptance_criteria s, us_technical_context = empty_context,
      us_story_points = 3, us_priority = ''medium'', us_status = st_status s,
      us_service = keep_str (st_service s), us_all_services = st_all_services s,
      us_depends_on = st_depends_on s, us_model = keep_str (st_model s),
      us_files_to_modify = st_files_to_modify s, us_files_to_create = st_files_to_create s,
      us_patterns_from = st_patterns_from s, us_verification = st_verification s,
      us_started_at = keep_str (st_started_at s), us_completed_at = keep_str (st_completed_at s),
      us_critique_result = (if truthy (st_critique_result s) then st_critique_result s else JNull),
      us_description = Some (st_description s)\<rparr>"

fun reread_item :: "item \<Rightarrow> item" where
  "reread_item (ISubtask s) =
     (if st_acceptance_criteria s = [] then ISubtask (norm_subtask s) else IStory (story_reading s))"
| "reread_item (IStory s) = IStory (norm_story s)"

lemma subtask_read_as_story:
  assumes "st_acceptance_criteria s \<noteq> []"
  shows "story_from_dict (subtask_to_dict s) = Inr (story_reading s)"
proof -
  let ?d = "subtask_to_dict s"
  note d = subtask_to_dict_def py_dict
  have "get_opt_str ''service'' ?d = Inr (keep_str (st_service s))"
    "get_opt_str ''model'' ?d = Inr (keep_str (st_model s))"
    "get_opt_str ''started_at'' ?d = Inr (keep_str (st_started_at s))"
    "get_opt_str ''completed_at'' ?d = Inr (keep_str (st_completed_at s))"
    by (rule get_opt_str_entry, simp add: d)+
  moreover have "get_strs ''depends_on'' ?d = Inr (st_depends_on s)"
    "get_strs ''files_to_modify'' ?d = Inr (st_files_to_modify s)"
    "get_strs ''files_to_create'' ?d = Inr (st_files_to_create s)"
    "get_strs ''patterns_from'' ?d = Inr (st_patterns_from s)"
    "get_strs ''acceptance_criteria'' ?d = Inr (st_acceptance_criteria s)"
    by (rule get_strs_entry, simp add: d)+
  moreover have "get_verification ?d = Inr (st_verification s)"
    by (rule get_verification_entry) (simp add: d)
  moreover have "get_bool ''all_services'' False ?d = Inr (st_all_services s)"
    by (rule get_bool_entry) (simp add: d)
  moreover have "get_any ''critique_result'' ?d =
      (if truthy (st_critique_result s) then st_critique_result s else JNull)"
    by (rule get_any_entry) (simp add: d)
  moreover have "get_opt_str ''description'' ?d = Inr (Some (st_description s))"
    "req_str ''id'' ?d = Inr (st_id s)"
    "get_str ''status'' ''pending'' ?d = Inr (status_value (st_status s))"
    by (simp_all add: subtask_to_dict_def get_defs)
  moreover have "get_context ?d = Inr empty_context" "get_str ''title'' [] ?d = Inr []"
    "get_str ''user_story'' [] ?d = Inr []" "get_int ''story_points'' 3 ?d = Inr 3"
    "get_str ''priority'' ''medium'' ?d = Inr ''medium''"
    by (simp_all add: d get_context_def get_str_def get_int_def)
  ultimately show ?thesis
    by (simp add: story_from_dict_def story_reading_def)
qed

lemma item_from_to_json: "item_from_json (JObj (item_to_dict x)) = Inr (reread_item x)"
proof (cases x)
  case (ISubtask s)
  have "has_key ''user_story'' (subtask_to_dict s) = False"
    "has_key ''acceptance_criteria'' (subtask_to_dict s) \<longleftrightarrow> st_acceptance_criteria s \<noteq> []"
    by (simp_all add: has_key_def subtask_to_dict_def py_dict)
  with ISubtask show ?thesis
    by (simp add: item_from_json_def as_obj_def subtask_roundtrip_norm subtask_read_as_story)
next
  case (IStory s)
  have "has_key ''user_story'' (story_to_dict s)"
    by (simp add: has_key_def story_to_dict_def)
  with IStory show ?thesis
    by (simp add: item_from_json_def as_obj_def story_roundtrip_norm)
qed

lemma items_from_to_json:
  "mapE item_from_json (map (JObj \<circ> item_to_dict) xs) = Inr (map reread_item xs)"
  by (rule mapE_map) (simp add: item_from_to_json)

lemma phase_roundtrip_reread:
  "phase_from_dict (phase_to_dict p) n = Inr (p\<lparr>ph_subtasks := map reread_item (ph_subtasks p)\<rparr>)"
proof -
  let ?d = "phase_to_dict p"
  note d = phase_to_dict_def py_dict
  have "subtask_data ?d = Inr (map (JObj \<circ> item_to_dict) (ph_subtasks p))"
    by (simp add: phase_to_dict_def subtask_data_def has_key_def get_list_def)
  moreover have "get_list ''depends_on'' ?d = Inr (ph_depends_on p)"
    by (simp add: d get_list_def)
  moreover have "get_bool ''parallel_safe'' False ?d = Inr (ph_parallel_safe p)"
    by (rule get_bool_entry) (simp add: d)
  moreover have "get_int ''phase'' n ?d = Inr (ph_phase p)"
    "get_str ''name'' (''Phase '' @ str_of_int n) ?d = Inr (ph_name p)"
    "get_str ''type'' ''implementation'' ?d = Inr (pt_value (ph_type p))"
    by (simp_all add: phase_to_dict_def get_int_def get_str_def)
  ultimately show ?thesis
    by (simp add: phase_from_dict_def items_from_to_json)
qed

lemma reread_frame [simp]:
  "item_id (reread_item x) = item_id x" "item_status (reread_item x) = item_status x"
  "item_depends_on (reread_item x) = item_depends_on x"
  "item_files_to_create (reread_item x) = item_files_to_create x"
  "item_files_to_modify (reread_item x) = item_files_to_modify x"
  by (cases x; simp add: norm_subtask_def story_reading_def norm_story_def)+

end
