(* ===== verification/Plan_Doc.thy ===== *)
theory Plan_Doc
  imports Plan_Core
begin

text \<open>
  The implementation plan (\<open>implementation_plan/plan.py\<close>): the document and its round trip, the
  status derived from the items, the serial engine's choice of the next item, progress, and the
  two operations that reopen a finished plan. The clock is the argument \<open>now\<close>; writing and
  parsing JSON text is the standard library's, so \<open>save\<close> returns the object it writes.
\<close>

section \<open>The document\<close>

record plan =
  pl_feature :: string
  pl_workflow_type :: workflow_type
  pl_services_involved :: "string list"
  pl_phases :: "phase list"
  pl_final_acceptance :: "string list"
  pl_required_commands :: "string list"
  pl_created_at :: "string option"
  pl_updated_at :: "string option"
  pl_spec_file :: "string option"
  pl_status :: "string option"
  pl_planStatus :: "string option"
  pl_reviewReason :: "string option"
  pl_recoveryNote :: "string option"
  pl_contractHold :: "string option"
  pl_qa_signoff :: "obj option"

definition plan_to_dict :: "plan \<Rightarrow> obj" where
  "plan_to_dict p =
     [(''feature'', JStr (pl_feature p)),
      (''workflow_type'', JStr (wf_value (pl_workflow_type p))),
      (''services_involved'', jstrs (pl_services_involved p)),
      (''phases'', JList (map (JObj \<circ> phase_to_dict) (pl_phases p))),
      (''final_acceptance'', jstrs (pl_final_acceptance p)),
      (''created_at'', jopt (pl_created_at p)),
      (''updated_at'', jopt (pl_updated_at p)),
      (''spec_file'', jopt (pl_spec_file p))] @
     entry (pl_required_commands p \<noteq> []) ''required_commands'' (jstrs (pl_required_commands p)) @
     entry (truthy_str (pl_status p)) ''status'' (jopt (pl_status p)) @
     entry (truthy_str (pl_planStatus p)) ''planStatus'' (jopt (pl_planStatus p)) @
     entry (truthy_str (pl_reviewReason p)) ''reviewReason'' (jopt (pl_reviewReason p)) @
     entry (truthy_str (pl_recoveryNote p)) ''recoveryNote'' (jopt (pl_recoveryNote p)) @
     entry (truthy_str (pl_contractHold p)) ''contractHold'' (jopt (pl_contractHold p)) @
     (case pl_qa_signoff p of None \<Rightarrow> [] | Some q \<Rightarrow> entry (q \<noteq> []) ''qa_signoff'' (JObj q))"

text \<open>An unknown workflow type falls back to \<open>feature\<close>, with a warning on the console.\<close>

definition get_workflow :: "obj \<Rightarrow> workflow_type" where
  "get_workflow d = (case map_of d ''workflow_type'' of
       None \<Rightarrow> WF_FEATURE
     | Some (JStr s) \<Rightarrow> (case wf_of s of Inr w \<Rightarrow> w | Inl _ \<Rightarrow> WF_FEATURE)
     | Some _ \<Rightarrow> WF_FEATURE)"

definition get_feature :: "obj \<Rightarrow> py_error + string" where
  "get_feature d =
     bindE (get_opt_str ''feature'' d) (\<lambda>f.
       if truthy_str f then Inr (the f)
       else bindE (get_opt_str ''title'' d) (\<lambda>t.
         if truthy_str t then Inr (the t) else Inr ''Unnamed Feature''))"

definition get_signoff :: "obj \<Rightarrow> py_error + obj option" where
  "get_signoff d = (case map_of d ''qa_signoff'' of None \<Rightarrow> Inr None | Some JNull \<Rightarrow> Inr None
     | Some (JObj q) \<Rightarrow> Inr (Some q) | Some _ \<Rightarrow> Inl (TypeError ''qa_signoff''))"

fun phases_from :: "int \<Rightarrow> json list \<Rightarrow> py_error + phase list" where
  "phases_from idx [] = Inr []"
| "phases_from idx (j # js) =
     bindE (as_obj ''phases'' j) (\<lambda>d.
     bindE (phase_from_dict d (idx + 1)) (\<lambda>p.
     bindE (phases_from (idx + 1) js) (\<lambda>ps. Inr (p # ps))))"

definition plan_from_dict :: "obj \<Rightarrow> py_error + plan" where
  "plan_from_dict d =
     bindE (get_feature d) (\<lambda>feature.
     bindE (get_strs ''services_involved'' d) (\<lambda>services.
     bindE (get_list ''phases'' d) (\<lambda>pdata.
     bindE (phases_from 0 pdata) (\<lambda>phases.
     bindE (get_strs ''final_acceptance'' d) (\<lambda>acceptance.
     bindE (get_strs ''required_commands'' d) (\<lambda>commands.
     bindE (get_opt_str ''created_at'' d) (\<lambda>created.
     bindE (get_opt_str ''updated_at'' d) (\<lambda>updated.
     bindE (get_opt_str ''spec_file'' d) (\<lambda>spec.
     bindE (get_opt_str ''status'' d) (\<lambda>status.
     bindE (get_opt_str ''planStatus'' d) (\<lambda>pstatus.
     bindE (get_opt_str ''reviewReason'' d) (\<lambda>reason.
     bindE (get_opt_str ''recoveryNote'' d) (\<lambda>note.
     bindE (get_opt_str ''contractHold'' d) (\<lambda>hold.
     bindE (get_signoff d) (\<lambda>signoff.
       Inr \<lparr>pl_feature = feature, pl_workflow_type = get_workflow d,
            pl_services_involved = services, pl_phases = phases,
            pl_final_acceptance = acceptance, pl_required_commands = commands,
            pl_created_at = created, pl_updated_at = updated, pl_spec_file = spec,
            pl_status = status, pl_planStatus = pstatus, pl_reviewReason = reason,
            pl_recoveryNote = note, pl_contractHold = hold,
            pl_qa_signoff = signoff\<rparr>)))))))))))))))"

section \<open>Status derived from the items\<close>

definition all_items :: "plan \<Rightarrow> item list" where
  "all_items p = concat (map ph_subtasks (pl_phases p))"

definition count_status :: "subtask_status \<Rightarrow> item list \<Rightarrow> nat" where
  "count_status st xs = length (filter (\<lambda>s. item_status s = st) xs)"

definition qa_approved :: "plan \<Rightarrow> bool" where
  "qa_approved p = (case pl_qa_signoff p of None \<Rightarrow> False
     | Some q \<Rightarrow> q \<noteq> [] \<and> map_of q ''status'' = Some (JStr ''approved''))"

definition update_status_from_subtasks :: "plan \<Rightarrow> plan" where
  "update_status_from_subtasks p =
     (let xs = all_items p;
          completed_count = count_status COMPLETED xs;
          failed_count = count_status FAILED xs;
          in_progress_count = count_status IN_PROGRESS xs;
          total_count = length xs
      in if xs = [] then
           p\<lparr>pl_status := (if truthy_str (pl_status p) then pl_status p else Some ''backlog''),
             pl_planStatus :=
               (if truthy_str (pl_planStatus p) then pl_planStatus p else Some ''pending'')\<rparr>
         else if completed_count = total_count then
           (if qa_approved p
            then p\<lparr>pl_status := Some ''human_review'', pl_planStatus := Some ''review'',
                   pl_reviewReason := Some ''completed''\<rparr>
            else p\<lparr>pl_status := Some ''ai_review'', pl_planStatus := Some ''review''\<rparr>)
         else if failed_count > 0 then
           p\<lparr>pl_status := Some ''in_progress'', pl_planStatus := Some ''in_progress''\<rparr>
         else if in_progress_count > 0 \<or> completed_count > 0 then
           p\<lparr>pl_status := Some ''in_progress'', pl_planStatus := Some ''in_progress''\<rparr>
         else if pl_status p = Some ''human_review'' \<and> pl_planStatus p = Some ''review'' then p
         else p\<lparr>pl_status := Some ''backlog'', pl_planStatus := Some ''pending''\<rparr>)"

text \<open>\<open>save\<close>: the plan as it is left in memory, and the object written to the file.\<close>

definition plan_save :: "string \<Rightarrow> plan \<Rightarrow> plan \<times> obj" where
  "plan_save now p =
     (let p1 = p\<lparr>pl_updated_at := Some now\<rparr>;
          p2 = (if truthy_str (pl_created_at p1) then p1 else p1\<lparr>pl_created_at := pl_updated_at p1\<rparr>);
          p3 = update_status_from_subtasks p2
      in (p3, plan_to_dict p3))"

section \<open>What runs next\<close>

definition resolve_dep_phase_number :: "json \<Rightarrow> int option" where
  "resolve_dep_phase_number dep = (case dep of
       JBool _ \<Rightarrow> None
     | JInt i \<Rightarrow> Some i
     | JStr s \<Rightarrow> first_int s
     | _ \<Rightarrow> None)"

definition completed_numbers :: "plan \<Rightarrow> int list" where
  "completed_numbers p = map ph_phase (filter is_complete (pl_phases p))"

definition deps_met :: "plan \<Rightarrow> phase \<Rightarrow> bool" where
  "deps_met p ph = list_all (\<lambda>d. case resolve_dep_phase_number d of None \<Rightarrow> False
       | Some n \<Rightarrow> n \<in> set (completed_numbers p)) (ph_depends_on ph)"

definition get_available_phases :: "plan \<Rightarrow> phase list" where
  "get_available_phases p = filter (\<lambda>ph. \<not> is_complete ph \<and> deps_met p ph) (pl_phases p)"

definition stalled_phases :: "plan \<Rightarrow> phase list" where
  "stalled_phases p =
     filter (\<lambda>ph. \<not> is_complete ph \<and> get_pending_subtasks ph \<noteq> []) (pl_phases p)"

definition get_next_subtask :: "plan \<Rightarrow> (phase \<times> item) option" where
  "get_next_subtask p =
     (case filter (\<lambda>ph. get_pending_subtasks ph \<noteq> []) (get_available_phases p) of
        ph # _ \<Rightarrow> Some (ph, hd (get_pending_subtasks ph))
      | [] \<Rightarrow>
          (case stalled_phases p of
             [] \<Rightarrow> None
           | stalled \<Rightarrow> let ph = arg_min_list ph_phase stalled
                         in Some (ph, hd (get_pending_subtasks ph))))"

section \<open>Progress\<close>

record progress =
  pg_total_phases :: nat
  pg_completed_phases :: nat
  pg_total_subtasks :: nat
  pg_completed_subtasks :: nat
  pg_failed_subtasks :: nat
  pg_percent_complete :: json
  pg_is_complete :: bool

text \<open>
  \<open>round(100 * done / total, 1)\<close> in tenths: to the nearest, ties to even. A binary double of
  such a quotient is a tie exactly when the rational is, as long as \<open>total < 2000\<close>.
\<close>

definition percent_tenths :: "nat \<Rightarrow> nat \<Rightarrow> nat" where
  "percent_tenths done tot =
     (let q = 1000 * done div tot; r = 1000 * done mod tot
      in if 2 * r < tot then q else if 2 * r > tot then q + 1
         else if even q then q else q + 1)"

definition get_progress :: "plan \<Rightarrow> progress" where
  "get_progress p =
     (let tot = sum_list (map (\<lambda>ph. length (ph_subtasks ph)) (pl_phases p));
          done = sum_list (map (\<lambda>ph. count_status COMPLETED (ph_subtasks ph)) (pl_phases p));
          failed = sum_list (map (\<lambda>ph. count_status FAILED (ph_subtasks ph)) (pl_phases p))
      in \<lparr>pg_total_phases = length (pl_phases p),
          pg_completed_phases = length (filter is_complete (pl_phases p)),
          pg_total_subtasks = tot, pg_completed_subtasks = done, pg_failed_subtasks = failed,
          pg_percent_complete =
            (if tot > 0 then JFloat (of_nat (percent_tenths done tot) / 10) else JInt 0),
          pg_is_complete = (done = tot \<and> failed = 0)\<rparr>)"

text \<open>An f-string's rendering of a percentage with one decimal.\<close>

definition show_percent :: "json \<Rightarrow> string" where
  "show_percent v = (case v of
       JFloat q \<Rightarrow> (let n = nat \<lfloor>10 * q\<rfloor>
                    in digits_of_nat (n div 10) @ ''.'' @ digits_of_nat (n mod 10))
     | JInt i \<Rightarrow> str_of_int i
     | _ \<Rightarrow> [])"

definition show_nat :: "nat \<Rightarrow> string" where
  "show_nat n = digits_of_nat n"

definition show_opt :: "string option \<Rightarrow> string" where
  "show_opt s = (case s of None \<Rightarrow> ''None'' | Some t \<Rightarrow> t)"

definition get_status_summary :: "plan \<Rightarrow> string" where
  "get_status_summary p =
     (let pr = get_progress p;
          head =
            [''Feature: '' @ pl_feature p,
             ''Workflow: '' @ wf_value (pl_workflow_type p),
             ''Progress: '' @ show_nat (pg_completed_subtasks pr) @ ''/'' @
               show_nat (pg_total_subtasks pr) @ '' subtasks ('' @
               show_percent (pg_percent_complete pr) @ ''%)'',
             ''Phases: '' @ show_nat (pg_completed_phases pr) @ ''/'' @
               show_nat (pg_total_phases pr) @ '' complete''];
          failed = (if pg_failed_subtasks pr > 0
            then [''Failed: '' @ show_nat (pg_failed_subtasks pr) @ '' subtasks need attention'']
            else []);
          last_line =
            (if pg_is_complete pr
             then ''Status: COMPLETE - Ready for final acceptance testing''
             else case get_next_subtask p of
                 Some (ph, s) \<Rightarrow> ''Next: Phase '' @ str_of_int (ph_phase ph) @ '' ('' @ ph_name ph @
                   '') - '' @ show_opt (item_description s)
               | None \<Rightarrow> ''Status: BLOCKED - No available subtasks'')
      in py_join [CHR 0x0A] (head @ failed @ [last_line]))"

section \<open>Follow-up work\<close>

definition followup_phase :: "plan \<Rightarrow> string \<Rightarrow> item list \<Rightarrow> phase_type \<Rightarrow> bool \<Rightarrow> phase" where
  "followup_phase p name subtasks ty safe =
     (let nums = map ph_phase (pl_phases p)
      in \<lparr>ph_phase = (if nums \<noteq> [] then Max (set nums) + 1 else 1), ph_name = name, ph_type = ty,
          ph_subtasks = subtasks, ph_depends_on = (if nums \<noteq> [] then map JInt nums else []),
          ph_parallel_safe = safe\<rparr>)"

definition add_followup_phase ::
    "plan \<Rightarrow> string \<Rightarrow> item list \<Rightarrow> phase_type \<Rightarrow> bool \<Rightarrow> plan \<times> phase" where
  "add_followup_phase p name subtasks ty safe =
     (let new_phase = followup_phase p name subtasks ty safe
      in (p\<lparr>pl_phases := pl_phases p @ [new_phase], pl_status := Some ''in_progress'',
            pl_planStatus := Some ''in_progress'', pl_qa_signoff := None\<rparr>, new_phase))"

definition reset_for_followup :: "plan \<Rightarrow> plan \<times> bool" where
  "reset_for_followup p =
     (let completed_statuses = [''done'', ''ai_review'', ''human_review''];
          completed_plan_statuses = [''completed'', ''review''];
          is_completed = (pl_status p \<in> Some ` set completed_statuses \<or>
                          pl_planStatus p \<in> Some ` set completed_plan_statuses);
          xs = all_items p;
          all_done = (xs \<noteq> [] \<and> list_all (\<lambda>s. item_status s = COMPLETED) xs)
      in if \<not> (is_completed \<or> all_done) then (p, False)
         else (p\<lparr>pl_status := Some ''in_progress'', pl_planStatus := Some ''in_progress'',
                 pl_qa_signoff := None, pl_recoveryNote := None\<rparr>, True))"

section \<open>Lemmas: the round trip\<close>

definition reread_plan :: "plan \<Rightarrow> plan" where
  "reread_plan p = p\<lparr>
     pl_feature := (if pl_feature p = [] then ''Unnamed Feature'' else pl_feature p),
     pl_phases := map (\<lambda>ph. ph\<lparr>ph_subtasks := map reread_item (ph_subtasks ph)\<rparr>) (pl_phases p),
     pl_status := keep_str (pl_status p), pl_planStatus := keep_str (pl_planStatus p),
     pl_reviewReason := keep_str (pl_reviewReason p),
     pl_recoveryNote := keep_str (pl_recoveryNote p),
     pl_contractHold := keep_str (pl_contractHold p),
     pl_qa_signoff := (if pl_qa_signoff p = Some [] then None else pl_qa_signoff p)\<rparr>"

lemma phases_from_to:
  "phases_from n (map (JObj \<circ> phase_to_dict) ps) =
   Inr (map (\<lambda>ph. ph\<lparr>ph_subtasks := map reread_item (ph_subtasks ph)\<rparr>) ps)"
  by (induction ps arbitrary: n) (simp_all add: as_obj_def phase_roundtrip_reread)

lemma map_of_signoff [py_dict]:
  "map_of (case v of None \<Rightarrow> [] | Some q \<Rightarrow> entry (q \<noteq> []) k (JObj q)) k' =
   (if k' = k \<and> v \<noteq> None \<and> v \<noteq> Some [] then Some (JObj (the v)) else None)"
  by (simp add: py_dict split: option.splits)

lemma plan_roundtrip_reread: "plan_from_dict (plan_to_dict p) = Inr (reread_plan p)"
proof -
  let ?d = "plan_to_dict p"
  note d = plan_to_dict_def py_dict
  have "get_opt_str ''status'' ?d = Inr (keep_str (pl_status p))"
    "get_opt_str ''planStatus'' ?d = Inr (keep_str (pl_planStatus p))"
    "get_opt_str ''reviewReason'' ?d = Inr (keep_str (pl_reviewReason p))"
    "get_opt_str ''recoveryNote'' ?d = Inr (keep_str (pl_recoveryNote p))"
    "get_opt_str ''contractHold'' ?d = Inr (keep_str (pl_contractHold p))"
    by (rule get_opt_str_entry, simp add: d)+
  moreover have "get_opt_str ''created_at'' ?d = Inr (pl_created_at p)"
    "get_opt_str ''updated_at'' ?d = Inr (pl_updated_at p)"
    "get_opt_str ''spec_file'' ?d = Inr (pl_spec_file p)"
    by (rule get_opt_str_jopt, simp add: plan_to_dict_def)+
  moreover have "get_strs ''services_involved'' ?d = Inr (pl_services_involved p)"
    "get_strs ''final_acceptance'' ?d = Inr (pl_final_acceptance p)"
    by (rule get_strs_jstrs, simp add: plan_to_dict_def)+
  moreover have "get_strs ''required_commands'' ?d = Inr (pl_required_commands p)"
    by (rule get_strs_entry) (simp add: d)
  moreover have "get_feature ?d =
      Inr (if pl_feature p = [] then ''Unnamed Feature'' else pl_feature p)"
    by (simp add: d get_feature_def get_opt_str_def truthy_str_def)
  moreover have "get_workflow ?d = pl_workflow_type p"
    by (simp add: plan_to_dict_def get_workflow_def)
  moreover have "get_signoff ?d = Inr (if pl_qa_signoff p = Some [] then None else pl_qa_signoff p)"
    by (simp add: d get_signoff_def split: option.splits)
  moreover have "get_list ''phases'' ?d = Inr (map (JObj \<circ> phase_to_dict) (pl_phases p))"
    by (simp add: plan_to_dict_def get_list_def)
  ultimately show ?thesis
    by (simp add: plan_from_dict_def phases_from_to reread_plan_def)
qed

section \<open>Lemmas: status\<close>

lemma count_status_0: "count_status st xs = 0 \<longleftrightarrow> (\<forall>s \<in> set xs. item_status s \<noteq> st)"
  by (auto simp: count_status_def filter_empty_conv)

lemma count_status_all: "count_status st xs = length xs \<longleftrightarrow> (\<forall>s \<in> set xs. item_status s = st)"
proof -
  have "count_status st xs = length xs \<longleftrightarrow> filter (\<lambda>s. item_status s = st) xs = xs"
    unfolding count_status_def
    by (metis (mono_tags, lifting) filter_True filter_id_conv length_filter_less less_irrefl)
  then show ?thesis by (simp add: filter_id_conv)
qed

lemma update_status_frame [simp]:
  "pl_phases (update_status_from_subtasks p) = pl_phases p"
  "pl_qa_signoff (update_status_from_subtasks p) = pl_qa_signoff p"
  "pl_feature (update_status_from_subtasks p) = pl_feature p"
  "all_items (update_status_from_subtasks p) = all_items p"
  by (simp_all add: update_status_from_subtasks_def Let_def all_items_def)

lemma qa_approved_frame [simp]:
  "qa_approved (update_status_from_subtasks p) = qa_approved p"
  by (simp add: qa_approved_def)

section \<open>Lemmas: the next item\<close>

lemma arg_min_list_in_min:
  assumes "xs \<noteq> []"
  shows "arg_min_list f xs \<in> set xs \<and> (\<forall>x \<in> set xs. f (arg_min_list f xs) \<le> (f x :: int))"
  using assms arg_min_list_in f_arg_min_list_f [of xs f] by force

lemma next_subtask_cases:
  assumes "get_next_subtask p = Some (ph, s)"
  obtains (available) "ph \<in> set (get_available_phases p)" "s = hd (get_pending_subtasks ph)"
      "get_pending_subtasks ph \<noteq> []"
  | (stalled) "\<forall>q \<in> set (get_available_phases p). get_pending_subtasks q = []"
      "ph \<in> set (stalled_phases p)" "s = hd (get_pending_subtasks ph)"
      "\<forall>q \<in> set (stalled_phases p). ph_phase ph \<le> ph_phase q"
proof (cases "filter (\<lambda>q. get_pending_subtasks q \<noteq> []) (get_available_phases p)")
  case (Cons a rest)
  then have "a \<in> set (get_available_phases p)" "get_pending_subtasks a \<noteq> []"
    using list.set_intros(1) [of a rest] unfolding Cons [symmetric] by auto
  with Cons assms show ?thesis
    by (intro available) (auto simp: get_next_subtask_def)
next
  case Nil
  then have none: "\<forall>q \<in> set (get_available_phases p). get_pending_subtasks q = []"
    by (simp add: filter_empty_conv)
  from Nil assms have ne: "stalled_phases p \<noteq> []"
    and eq: "ph = arg_min_list ph_phase (stalled_phases p)" "s = hd (get_pending_subtasks ph)"
    by (auto simp: get_next_subtask_def Let_def split: list.splits)
  show ?thesis
    using arg_min_list_in_min [OF ne, of ph_phase] eq none by (intro stalled) auto
qed

lemma next_subtask_None: "get_next_subtask p = None \<longleftrightarrow> stalled_phases p = []"
proof -
  have "filter (\<lambda>q. get_pending_subtasks q \<noteq> []) (get_available_phases p) = []"
    if "stalled_phases p = []"
    using that by (auto simp: stalled_phases_def get_available_phases_def filter_empty_conv)
  then show ?thesis
    by (auto simp: get_next_subtask_def Let_def split: list.splits)
qed

lemma hd_pending: "get_pending_subtasks ph \<noteq> [] \<Longrightarrow>
  hd (get_pending_subtasks ph) \<in> set (ph_subtasks ph) \<and>
  item_status (hd (get_pending_subtasks ph)) = PENDING"
  using hd_in_set [of "get_pending_subtasks ph"] by (auto simp: get_pending_subtasks_def)

lemma get_progress_counts:
  "pg_total_subtasks (get_progress p) = length (all_items p)"
  "pg_completed_subtasks (get_progress p) = count_status COMPLETED (all_items p)"
  "pg_failed_subtasks (get_progress p) = count_status FAILED (all_items p)"
proof -
  have count: "sum_list (map (\<lambda>ph. count_status st (ph_subtasks ph)) phs) =
      count_status st (concat (map ph_subtasks phs))" for st and phs :: "phase list"
    by (induction phs) (simp_all add: count_status_def)
  have len: "sum_list (map (\<lambda>ph. length (ph_subtasks ph)) phs) =
      length (concat (map ph_subtasks phs))" for phs :: "phase list"
    by (induction phs) simp_all
  show "pg_total_subtasks (get_progress p) = length (all_items p)"
    "pg_completed_subtasks (get_progress p) = count_status COMPLETED (all_items p)"
    "pg_failed_subtasks (get_progress p) = count_status FAILED (all_items p)"
    by (simp_all add: get_progress_def Let_def all_items_def count len)
qed

lemma followup_frame:
  "pl_phases (fst (add_followup_phase p name xs ty safe)) =
   pl_phases p @ [snd (add_followup_phase p name xs ty safe)]"
  "snd (add_followup_phase p name xs ty safe) = followup_phase p name xs ty safe"
  by (simp_all add: add_followup_phase_def Let_def)

end
