(* ===== verification/Plan_Props.thy ===== *)
theory Plan_Props
  imports Plan_Doc
begin

text \<open>What holds of plan items and of the plan as a whole.\<close>

lemma reread_item_frame [simp]:
  "item_id (reread_item x) = item_id x" "item_status (reread_item x) = item_status x"
  "item_depends_on (reread_item x) = item_depends_on x"
  by (cases x; simp add: norm_subtask_def norm_story_def story_reading_def)+


lemma next_subtask_sound:
  assumes "get_next_subtask p = Some (ph, s)"
  shows "ph \<in> set (pl_phases p) \<and> s \<in> set (ph_subtasks ph) \<and> item_status s = PENDING \<and>
         (deps_met p ph \<or>
          (\<forall>q \<in> set (pl_phases p). get_pending_subtasks q \<noteq> [] \<longrightarrow> \<not> deps_met p q \<and> ph_phase ph \<le> ph_phase q))"
  using assms
proof (cases rule: next_subtask_cases)
  case available
  then show ?thesis
    using hd_pending by (simp add: get_available_phases_def)
next
  case stalled
  have "get_pending_subtasks ph \<noteq> []" "ph \<in> set (pl_phases p)"
    using stalled(2) by (simp_all add: stalled_phases_def)
  moreover have "\<not> deps_met p q \<and> ph_phase ph \<le> ph_phase q"
    if "q \<in> set (pl_phases p)" "get_pending_subtasks q \<noteq> []" for q
  proof -
    have "\<not> is_complete q"
      using that(2) pending_incomplete [of "hd (get_pending_subtasks q)" q] by simp
    with that stalled show ?thesis
      by (auto simp: stalled_phases_def get_available_phases_def)
  qed
  ultimately show ?thesis
    using hd_pending stalled(3) by blast
qed

lemma next_subtask_complete:
  "get_next_subtask p = None \<longleftrightarrow> (\<forall>s \<in> set (all_items p). item_status s \<noteq> PENDING)"
proof -
  have "stalled_phases p = [] \<longleftrightarrow> (\<forall>ph \<in> set (pl_phases p). get_pending_subtasks ph = [])"
  proof -
    have "\<not> is_complete ph" if "get_pending_subtasks ph \<noteq> []" for ph
      using that pending_incomplete [of "hd (get_pending_subtasks ph)" ph] by simp
    then show ?thesis by (auto simp: stalled_phases_def filter_empty_conv)
  qed
  also have "\<dots> \<longleftrightarrow> (\<forall>s \<in> set (all_items p). item_status s \<noteq> PENDING)"
    by (auto simp: all_items_def get_pending_subtasks_def filter_empty_conv)
  finally show ?thesis by (simp add: next_subtask_None)
qed

text \<open>C29: the serial engine finds an item exactly when one is pending. What it picks is a pending item of
  the phase it names; the phase's dependencies are met, unless no phase with pending items has its dependencies
  met, and then it is the lowest-numbered such phase.\<close>

theorem next_subtask_correct:
  "case get_next_subtask p of
     None \<Rightarrow> \<forall>s \<in> set (all_items p). item_status s \<noteq> PENDING
   | Some (ph, s) \<Rightarrow> ph \<in> set (pl_phases p) \<and> s \<in> set (ph_subtasks ph) \<and> item_status s = PENDING \<and>
       (deps_met p ph \<or>
        (\<forall>q \<in> set (pl_phases p). get_pending_subtasks q \<noteq> [] \<longrightarrow> \<not> deps_met p q \<and> ph_phase ph \<le> ph_phase q))"
  using next_subtask_complete [of p] next_subtask_sound [of p]
  by (cases "get_next_subtask p") (auto simp del: next_subtask_complete)

text \<open>Deriving the status of a plan from its items twice is the same as deriving it once.\<close>

theorem update_status_idem:
  "update_status_from_subtasks (update_status_from_subtasks p) = update_status_from_subtasks p"
proof -
  note u = update_status_from_subtasks_def Let_def
  define q where "q = update_status_from_subtasks p"
  have frame: "all_items q = all_items p" "qa_approved q = qa_approved p"
    by (simp_all add: q_def)
  let ?xs = "all_items p"
  consider (empty) "?xs = []"
    | (approved) "?xs \<noteq> []" "count_status COMPLETED ?xs = length ?xs" "qa_approved p"
    | (review) "?xs \<noteq> []" "count_status COMPLETED ?xs = length ?xs" "\<not> qa_approved p"
    | (failed) "?xs \<noteq> []" "count_status COMPLETED ?xs \<noteq> length ?xs" "count_status FAILED ?xs > 0"
    | (running) "?xs \<noteq> []" "count_status COMPLETED ?xs \<noteq> length ?xs" "count_status FAILED ?xs = 0"
        "count_status IN_PROGRESS ?xs > 0 \<or> count_status COMPLETED ?xs > 0"
    | (idle) "?xs \<noteq> []" "count_status COMPLETED ?xs \<noteq> length ?xs" "count_status FAILED ?xs = 0"
        "count_status IN_PROGRESS ?xs = 0" "count_status COMPLETED ?xs = 0"
    by blast
  then have "update_status_from_subtasks q = q"
  proof cases
    case empty
    then have "truthy_str (pl_status q)" "truthy_str (pl_planStatus q)"
      by (simp_all add: q_def u truthy_str_def)
    then show ?thesis using empty frame by (simp add: u)
  next
    case approved
    then show ?thesis using frame by (simp add: u q_def)
  next
    case review
    then show ?thesis using frame by (simp add: u q_def)
  next
    case failed
    then show ?thesis using frame by (simp add: u q_def)
  next
    case running
    then have "q = p\<lparr>pl_status := Some ''in_progress'', pl_planStatus := Some ''in_progress''\<rparr>"
      by (simp add: u q_def)
    moreover have "update_status_from_subtasks q =
        q\<lparr>pl_status := Some ''in_progress'', pl_planStatus := Some ''in_progress''\<rparr>"
      using running frame by (simp add: u)
    ultimately show ?thesis by simp
  next
    case idle
    then show ?thesis using frame by (simp add: u q_def)
  qed
  then show ?thesis by (simp add: q_def)
qed

text \<open>A plan with items reaches human review through its items only when every item is completed
  and QA has approved it.\<close>

theorem completed_review_only_when_approved:
  assumes "all_items p \<noteq> []"
    and "\<not> (pl_status p = Some ''human_review'' \<and> pl_planStatus p = Some ''review'')"
  shows "pl_status (update_status_from_subtasks p) = Some ''human_review'' \<longleftrightarrow>
         (\<forall>s \<in> set (all_items p). item_status s = COMPLETED) \<and> qa_approved p"
  using assms by (auto simp: update_status_from_subtasks_def Let_def count_status_all)

lemma progress_complete_iff:
  "pg_is_complete (get_progress p) \<longleftrightarrow> (\<forall>s \<in> set (all_items p). item_status s = COMPLETED)"
proof -
  have "pg_is_complete (get_progress p) \<longleftrightarrow>
      count_status COMPLETED (all_items p) = length (all_items p) \<and> count_status FAILED (all_items p) = 0"
    using get_progress_counts [of p] by (auto simp: get_progress_def Let_def)
  then show ?thesis by (auto simp: count_status_all count_status_0)
qed

lemma percent_100_iff:
  assumes "d \<le> t" "0 < t" "t < 2000"
  shows "percent_tenths d t = 1000 \<longleftrightarrow> d = t"
proof
  assume h: "percent_tenths d t = 1000"
  show "d = t"
  proof (rule ccontr)
    assume "d \<noteq> t"
    with assms have lt: "1000 * d < 1000 * t" by simp
    then have q: "1000 * d div t < 1000" using assms(2) by (simp add: div_less_iff_less_mult mult.commute)
    from h q have "2 * (1000 * d mod t) \<ge> t" "1000 * d div t = 999"
      by (auto simp: percent_tenths_def Let_def split: if_splits)
    then have "1000 * d = 999 * t + 1000 * d mod t" using mult_div_mod_eq [of t "1000 * d"] by (metis mult.commute)
    moreover have "1000 * d + 1000 \<le> 1000 * t" using lt by simp
    ultimately have "1000 * d mod t + 1000 \<le> t" by linarith
    with \<open>2 * (1000 * d mod t) \<ge> t\<close> assms(3) show False by linarith
  qed
qed (use assms in \<open>simp add: percent_tenths_def Let_def\<close>)

text \<open>Below 2000 items the progress shows 100 percent exactly when the plan is complete: rounding never
  claims it early.\<close>

theorem progress_100_iff_complete:
  assumes "all_items p \<noteq> []" "length (all_items p) < 2000"
  shows "pg_percent_complete (get_progress p) = JFloat 100 \<longleftrightarrow> pg_is_complete (get_progress p)"
proof -
  let ?d = "count_status COMPLETED (all_items p)" and ?t = "length (all_items p)"
  have le: "?d \<le> ?t" by (simp add: count_status_def)
  have eq: "pg_percent_complete (get_progress p) = JFloat (of_nat (percent_tenths ?d ?t) / 10)"
    using get_progress_counts [of p] assms(1) by (auto simp: get_progress_def Let_def)
  have "(of_nat (percent_tenths ?d ?t) / 10 = (100::rat)) \<longleftrightarrow> of_nat (percent_tenths ?d ?t) = (1000::rat)"
    by auto
  also have "\<dots> \<longleftrightarrow> percent_tenths ?d ?t = 1000"
    by (metis of_nat_eq_iff of_nat_numeral)
  also have "\<dots> \<longleftrightarrow> ?d = ?t"
    by (rule percent_100_iff) (use le assms in auto)
  finally show ?thesis
    using eq by (auto simp: progress_complete_iff count_status_all)
qed

lemma followup_number_fresh:
  "followup_phase p name xs ty safe = ph \<Longrightarrow> ph_phase ph \<notin> set (map ph_phase (pl_phases p))"
proof
  assume "followup_phase p name xs ty safe = ph" and mem: "ph_phase ph \<in> set (map ph_phase (pl_phases p))"
  then have "ph_phase ph = Max (set (map ph_phase (pl_phases p))) + 1"
    by (cases "pl_phases p = []") (auto simp: followup_phase_def Let_def)
  moreover have "ph_phase ph \<le> Max (set (map ph_phase (pl_phases p)))"
    using mem by (intro Max_ge) auto
  ultimately show False by simp
qed

text \<open>A follow-up phase with work to do becomes available exactly when every earlier phase is complete.\<close>

theorem followup_gated:
  assumes "add_followup_phase p name xs ty safe = (p', ph)"
    and "\<exists>s \<in> set xs. item_status s \<noteq> COMPLETED"
    and "distinct (map ph_phase (pl_phases p))"
  shows "ph \<in> set (get_available_phases p') \<longleftrightarrow> (\<forall>q \<in> set (pl_phases p). is_complete q)"
proof -
  have ph: "ph = followup_phase p name xs ty safe" and phs: "pl_phases p' = pl_phases p @ [ph]"
    using assms(1) followup_frame [of p name xs ty safe] by (metis snd_conv fst_conv)+
  have inc: "\<not> is_complete ph"
    using assms(2) by (auto simp: ph followup_phase_def Let_def is_complete_def list_all_iff)
  have deps: "ph_depends_on ph = map (JInt \<circ> ph_phase) (pl_phases p)"
    by (simp add: ph followup_phase_def Let_def)
  have "deps_met p' ph \<longleftrightarrow> (\<forall>q \<in> set (pl_phases p). is_complete q)"
  proof -
    have "deps_met p' ph \<longleftrightarrow> (\<forall>q \<in> set (pl_phases p). ph_phase q \<in> ph_phase ` {r \<in> set (pl_phases p). is_complete r})"
      using inc by (simp add: deps_met_def deps list_all_iff resolve_dep_phase_number_def completed_numbers_def phs)
    also have "\<dots> \<longleftrightarrow> (\<forall>q \<in> set (pl_phases p). is_complete q)"
      using assms(3) by (auto simp: distinct_map inj_on_def image_iff) metis
    finally show ?thesis .
  qed
  then show ?thesis using inc by (auto simp: get_available_phases_def phs)
qed

lemma pending_not_completed:
  "s \<in> set (all_items p) \<Longrightarrow> item_status s \<noteq> COMPLETED \<Longrightarrow>
   count_status COMPLETED (all_items p) \<noteq> length (all_items p)"
  by (auto simp: count_status_all)

text \<open>After a reset and a follow-up phase with a pending item the plan is open again: an item is
  found to run, the QA approval is gone, and the derived status is not a review.\<close>

theorem reset_then_followup_reopens:
  assumes "x \<in> set xs" "item_status x = PENDING"
    and "add_followup_phase (fst (reset_for_followup p)) name xs ty safe = (p', ph)"
  shows "get_next_subtask p' \<noteq> None \<and> pl_qa_signoff p' = None \<and>
         pl_status (update_status_from_subtasks p') \<in> {Some ''in_progress'', Some ''backlog''}"
proof -
  have p': "p' = fst (add_followup_phase (fst (reset_for_followup p)) name xs ty safe)"
    using assms(3) by simp
  have x: "x \<in> set (all_items p')"
    using assms(1) by (simp add: p' all_items_def followup_frame) (simp add: followup_phase_def Let_def)
  have st: "pl_status p' = Some ''in_progress''" "pl_qa_signoff p' = None"
    by (simp_all add: p' add_followup_phase_def Let_def)
  have ne: "all_items p' \<noteq> []" using x by auto
  have "count_status COMPLETED (all_items p') \<noteq> length (all_items p')"
    using x assms(2) by (intro pending_not_completed [of x]) auto
  then have "pl_status (update_status_from_subtasks p') \<in> {Some ''in_progress'', Some ''backlog''}"
    using ne st by (simp add: update_status_from_subtasks_def Let_def)
  then show ?thesis
    using next_subtask_complete [of p'] x assms(2) st by blast
qed

text \<open>A dependency written as a slug with a number in it, such as phase-3-backend, resolves to that number.\<close>

theorem slug_resolves:
  assumes "\<forall>c \<in> set pre. \<not> is_digit c" "post = [] \<or> \<not> is_digit (hd post)"
  shows "resolve_dep_phase_number (JStr (pre @ digits_of_nat n @ post)) = Some (int n)"
proof -
  have "dropWhile (\<lambda>c. \<not> is_digit c) (pre @ digits_of_nat n @ post) = digits_of_nat n @ post"
    using assms(1) digits_of_nat_digits hd_in_set [OF digits_of_nat_not_Nil]
    by (subst dropWhile_append2) (auto simp: dropWhile_append dropWhile_eq_self_iff)
  moreover have "takeWhile is_digit (digits_of_nat n @ post) = digits_of_nat n"
    using assms(2) digits_of_nat_digits by (cases post) (auto simp: takeWhile_append)
  moreover obtain c cs where c: "digits_of_nat n = c # cs"
    using digits_of_nat_not_Nil [of n] by (cases "digits_of_nat n") auto
  moreover have "int_of_digits (c # cs) = int n"
    using c by (metis int_of_digits_of_nat)
  ultimately show ?thesis
    by (simp add: resolve_dep_phase_number_def first_int_def)
qed

section \<open>At concrete inputs\<close>

definition todo :: "string \<Rightarrow> subtask_status \<Rightarrow> item" where
  "todo i st = ISubtask ((new_subtask i ''work'')\<lparr>st_status := st\<rparr>)"

lemma todo_simps [simp]: "item_id (todo i st) = i" "item_status (todo i st) = st"
  by (simp_all add: todo_def new_subtask_def)

definition sample_phase_no :: "int \<Rightarrow> json list \<Rightarrow> item list \<Rightarrow> phase" where
  "sample_phase_no n deps xs = \<lparr>ph_phase = n, ph_name = ''phase'', ph_type = PT_IMPLEMENTATION, ph_subtasks = xs,
     ph_depends_on = deps, ph_parallel_safe = False\<rparr>"

definition sample_doc :: "phase list \<Rightarrow> obj option \<Rightarrow> plan" where
  "sample_doc phs signoff = \<lparr>pl_feature = ''f'', pl_workflow_type = WF_FEATURE, pl_services_involved = [],
     pl_phases = phs, pl_final_acceptance = [], pl_required_commands = [], pl_created_at = None, pl_updated_at = None,
     pl_spec_file = None, pl_status = None, pl_planStatus = None, pl_reviewReason = None, pl_recoveryNote = None,
     pl_contractHold = None, pl_qa_signoff = signoff\<rparr>"

definition done_doc :: plan where
  "done_doc = sample_doc [sample_phase_no 1 [] [todo ''a'' COMPLETED], sample_phase_no 2 [JStr ''phase-1''] [todo ''b'' COMPLETED]]
     (Some [(''status'', JStr ''approved'')])"

lemmas sample_defs = sample_doc_def sample_phase_no_def done_doc_def all_items_def

lemma next_subtask_correct_witness:
  "\<exists>ph s. get_next_subtask (sample_doc [sample_phase_no 7 [JInt 9] [todo ''b'' PENDING], sample_phase_no 8 [] [todo ''a'' PENDING]] None) =
     Some (ph, s) \<and> item_status s = PENDING \<and> item_id s = ''a''"
proof -
  let ?p = "sample_doc [sample_phase_no 7 [JInt 9] [todo ''b'' PENDING], sample_phase_no 8 [] [todo ''a'' PENDING]] None"
  have "get_next_subtask ?p = Some (sample_phase_no 8 [] [todo ''a'' PENDING], todo ''a'' PENDING)"
    by (simp add: sample_defs get_next_subtask_def get_available_phases_def is_complete_def deps_met_def
        resolve_dep_phase_number_def completed_numbers_def get_pending_subtasks_def)
  then show ?thesis using next_subtask_correct [of ?p] by auto
qed

lemma completed_review_only_when_approved_witness:
  "pl_status (update_status_from_subtasks done_doc) = Some ''human_review'' \<longleftrightarrow>
   (\<forall>s \<in> set (all_items done_doc). item_status s = COMPLETED) \<and> qa_approved done_doc"
  by (rule completed_review_only_when_approved) (simp_all add: sample_defs)

lemma progress_100_iff_complete_witness:
  "pg_percent_complete (get_progress done_doc) = JFloat 100 \<longleftrightarrow> pg_is_complete (get_progress done_doc)"
  by (rule progress_100_iff_complete) (simp_all add: sample_defs)

lemma followup_gated_witness:
  "snd (add_followup_phase done_doc ''more'' [todo ''c'' PENDING] PT_IMPLEMENTATION False) \<in>
     set (get_available_phases (fst (add_followup_phase done_doc ''more'' [todo ''c'' PENDING] PT_IMPLEMENTATION False)))
   \<longleftrightarrow> (\<forall>q \<in> set (pl_phases done_doc). is_complete q)"
  by (rule followup_gated [OF prod.collapse [symmetric]]) (simp_all add: sample_defs)

lemma reset_then_followup_reopens_witness:
  "get_next_subtask (fst (add_followup_phase (fst (reset_for_followup done_doc)) ''more'' [todo ''c'' PENDING]
     PT_IMPLEMENTATION False)) \<noteq> None"
  using reset_then_followup_reopens [OF _ _ prod.collapse [symmetric], of "todo ''c'' PENDING" "[todo ''c'' PENDING]"] by simp

lemma slug_resolves_witness: "resolve_dep_phase_number (JStr ''phase-3-backend'') = Some 3"
proof -
  have "digits_of_nat 3 = ''3''" by code_simp
  then show ?thesis using slug_resolves [of "''phase-''" "''-backend''" 3] by (simp add: is_digit_def)
qed

end
