(* ===== verification/Wave_Scheduler.thy ===== *)
theory Wave_Scheduler
  imports Plan_Items
begin

text \<open>
  The wave scheduler (\<open>implementation_plan/scheduler.py\<close>): which items of a phase may run at the
  same time. The source is duck-typed; here the scheduler sees an element through \<open>view\<close>, so that
  a caller may schedule items paired with their position in the phase.
\<close>

section \<open>Paths\<close>

text \<open>\<open>os.path.normpath\<close> of the standard library, for POSIX paths.\<close>

definition initial_slashes :: "string \<Rightarrow> nat" where
  "initial_slashes p =
     (if prefix ''/'' p then (if prefix ''//'' p \<and> \<not> prefix ''///'' p then 2 else 1) else 0)"

definition norm_step :: "bool \<Rightarrow> string list \<Rightarrow> string \<Rightarrow> string list" where
  "norm_step rooted comps c =
     (if c = [] \<or> c = ''.'' then comps
      else if c \<noteq> ''..'' \<or> (\<not> rooted \<and> comps = []) \<or> (comps \<noteq> [] \<and> last comps = ''..'')
      then comps @ [c]
      else if comps \<noteq> [] then butlast comps else comps)"

definition normpath :: "string \<Rightarrow> string" where
  "normpath p =
     (if p = [] then ''.''
      else let n = initial_slashes p;
               q = replicate n (CHR ''/'') @
                     py_join ''/'' (foldl (norm_step (n > 0)) [] (py_split_on (CHR ''/'') p))
           in if q = [] then ''.'' else q)"

definition norm_path :: "string \<Rightarrow> string" where
  "norm_path path = (let cleaned = py_strip path in if cleaned = [] then [] else normpath cleaned)"

definition file_set :: "item \<Rightarrow> string set" where
  "file_set s =
     set (filter (\<lambda>p. p \<noteq> []) (map norm_path (item_files_to_create s @ item_files_to_modify s)))"

definition conflicts :: "item \<Rightarrow> item \<Rightarrow> bool" where
  "conflicts a b = (let fa = file_set a; fb = file_set b
                    in if fa = {} \<or> fb = {} then True else fa \<inter> fb \<noteq> {})"

section \<open>The dependency graph\<close>

datatype color = WHITE | GREY | BLACK

type_synonym graph = "(string \<times> item) list"
type_synonym dfs = "(string \<rightharpoonup> color) \<times> string list"

definition by_id :: "item list \<Rightarrow> graph" where
  "by_id xs = fold (\<lambda>s d. AList.update (item_id s) s d) (filter (\<lambda>s. item_id s \<noteq> []) xs) []"

definition quoted :: "string \<Rightarrow> string" where
  "quoted s = [CHR 0x27] @ s @ [CHR 0x27]"

definition dep_errors :: "item list \<Rightarrow> string list" where
  "dep_errors xs = concat (map (\<lambda>s. concat (map (\<lambda>dep.
       if dep = item_id s then [''Subtask '' @ quoted (item_id s) @ '' depends on itself'']
       else if dep \<notin> item_id ` set xs
       then [''Subtask '' @ quoted (item_id s) @ '' depends on unknown subtask '' @ quoted dep]
       else []) (item_depends_on s))) xs)"

definition cycle_message :: "string list \<Rightarrow> string \<Rightarrow> string" where
  "cycle_message stack dep =
     ''Dependency cycle: '' @ py_join '' -> '' (dropWhile (\<lambda>n. n \<noteq> dep) stack @ [dep])"

text \<open>
  The depth-first search. Every recursive call colours a white node, so as much fuel as there
  are nodes is enough (\<open>dfs_returns\<close> below); running out of it is \<open>None\<close>.
\<close>

function visit :: "nat \<Rightarrow> graph \<Rightarrow> string \<Rightarrow> string list \<Rightarrow> dfs \<Rightarrow> dfs option"
  and visit_deps :: "nat \<Rightarrow> graph \<Rightarrow> string list \<Rightarrow> string list \<Rightarrow> dfs \<Rightarrow> dfs option" where
  "visit 0 g node stack st = None"
| "visit (Suc n) g node stack st =
     (case map_of g node of None \<Rightarrow> None
      | Some s \<Rightarrow>
        (case visit_deps n g (item_depends_on s) (stack @ [node]) ((fst st)(node \<mapsto> GREY), snd st) of
           None \<Rightarrow> None
         | Some st2 \<Rightarrow> Some ((fst st2)(node \<mapsto> BLACK), snd st2)))"
| "visit_deps n g [] stack st = Some st"
| "visit_deps n g (dep # deps) stack st =
     (if map_of g dep = None then visit_deps n g deps stack st
      else if fst st dep = Some GREY
      then visit_deps n g deps stack (fst st, snd st @ [cycle_message stack dep])
      else if fst st dep = Some WHITE
      then (case visit n g dep stack st of None \<Rightarrow> None
            | Some st2 \<Rightarrow> visit_deps n g deps stack st2)
      else visit_deps n g deps stack st)"
  by pat_completeness auto
termination
  by (relation "inv_image (less_than <*lex*> less_than)
        (\<lambda>x. case x of Inl (n, _) \<Rightarrow> (n, 0::nat) | Inr (n, _, deps, _) \<Rightarrow> (n, Suc (length deps)))") auto

fun visit_all :: "nat \<Rightarrow> graph \<Rightarrow> string list \<Rightarrow> dfs \<Rightarrow> dfs option" where
  "visit_all n g [] st = Some st"
| "visit_all n g (sid # sids) st =
     (if fst st sid = Some WHITE
      then (case visit n g sid [] st of None \<Rightarrow> None | Some st2 \<Rightarrow> visit_all n g sids st2)
      else visit_all n g sids st)"

definition white_all :: "graph \<Rightarrow> string \<rightharpoonup> color" where
  "white_all g = (\<lambda>k. if map_of g k = None then None else Some WHITE)"

fun dedupe_from :: "string list \<Rightarrow> string list \<Rightarrow> string list" where
  "dedupe_from seen [] = []"
| "dedupe_from seen (e # es) =
     (if e \<in> set seen then dedupe_from seen es else e # dedupe_from (e # seen) es)"

definition dedupe :: "string list \<Rightarrow> string list" where
  "dedupe = dedupe_from []"

definition validate_dependencies :: "item list \<Rightarrow> string list option" where
  "validate_dependencies xs =
     (let g = by_id xs
      in case visit_all (length g) g (map fst g) (white_all g, dep_errors xs) of
           None \<Rightarrow> None
         | Some st \<Rightarrow> Some (dedupe (snd st)))"

section \<open>Choosing a wave\<close>

fun pick_wave :: "('a \<Rightarrow> item) \<Rightarrow> string set \<Rightarrow> nat \<Rightarrow> 'a list \<Rightarrow> 'a list \<Rightarrow> 'a list \<Rightarrow> 'a list" where
  "pick_wave view completed free reserved picked [] = picked"
| "pick_wave view completed free reserved picked (s # ss) =
     (if length picked \<ge> free then picked
      else if item_status (view s) \<noteq> PENDING then pick_wave view completed free reserved picked ss
      else if item_id (view s) \<in> completed then pick_wave view completed free reserved picked ss
      else if list_ex (\<lambda>r. item_id (view s) = item_id (view r)) reserved
      then pick_wave view completed free reserved picked ss
      else if \<not> list_all (\<lambda>dep. dep \<in> completed) (item_depends_on (view s))
      then pick_wave view completed free reserved picked ss
      else if list_ex (\<lambda>r. conflicts (view s) (view r)) reserved
      then pick_wave view completed free reserved picked ss
      else pick_wave view completed free (reserved @ [s]) (picked @ [s]) ss)"

definition select_ready_wave ::
    "('a \<Rightarrow> item) \<Rightarrow> 'a list \<Rightarrow> string set \<Rightarrow> 'a list \<Rightarrow> int \<Rightarrow> 'a list" where
  "select_ready_wave view subtasks completed in_flight max_workers =
     (let free_slots = max 1 max_workers - int (length in_flight)
      in if free_slots \<le> 0 then []
         else pick_wave view completed (nat free_slots) in_flight [] subtasks)"

end
