(* ===== verification/Wave_Graph.thy ===== *)
theory Wave_Graph
  imports Wave_Scheduler
begin

text \<open>
  Correctness of the depth-first search of \<open>validate_dependencies\<close>: it returns, and it reports no
  cycle exactly when the dependency relation is acyclic.
\<close>

definition edges :: "graph \<Rightarrow> (string \<times> string) set" where
  "edges g = {(n, d). \<exists>s. map_of g n = Some s \<and> d \<in> set (item_depends_on s) \<and> map_of g d \<noteq> None}"

definition nodes_of :: "color \<Rightarrow> (string \<rightharpoonup> color) \<Rightarrow> string set" where
  "nodes_of c col = {k. col k = Some c}"

definition known :: "graph \<Rightarrow> (string \<rightharpoonup> color) \<Rightarrow> bool" where
  "known g col \<longleftrightarrow> dom col = dom (map_of g)"

lemma nodes_of_upd:
  "col k = Some c \<Longrightarrow> c \<noteq> d \<Longrightarrow> nodes_of c (col(k \<mapsto> d)) = nodes_of c col - {k}"
  "nodes_of c (col(k \<mapsto> c)) = insert k (nodes_of c col)"
  "c \<noteq> d \<Longrightarrow> col k \<noteq> Some c \<Longrightarrow> nodes_of c (col(k \<mapsto> d)) = nodes_of c col"
  by (auto simp: nodes_of_def)

lemma known_upd: "known g col \<Longrightarrow> map_of g k \<noteq> None \<Longrightarrow> known g (col(k \<mapsto> c))"
  by (auto simp: known_def)

lemma finite_nodes: "known g col \<Longrightarrow> finite (nodes_of c col)"
  by (rule finite_subset [of _ "dom col"]) (auto simp: nodes_of_def known_def finite_dom_map_of)

lemma visit_deps_unknown:
  "map_of g dep = None \<Longrightarrow> visit_deps n g (dep # deps) stack st = visit_deps n g deps stack st"
  by simp

lemma visit_deps_black:
  "\<lbrakk>map_of g dep \<noteq> None; fst st dep \<noteq> Some GREY; fst st dep \<noteq> Some WHITE\<rbrakk> \<Longrightarrow>
   visit_deps n g (dep # deps) stack st = visit_deps n g deps stack st"
  by (simp only: visit_deps.simps if_False)

lemma visit_deps_grey:
  "\<lbrakk>map_of g dep \<noteq> None; fst st dep = Some GREY\<rbrakk> \<Longrightarrow>
   visit_deps n g (dep # deps) stack st =
   visit_deps n g deps stack (fst st, snd st @ [cycle_message stack dep])"
  by (simp only: visit_deps.simps if_False if_True refl)

section \<open>The search returns\<close>

lemma dfs_returns:
  "\<lbrakk>fst st node = Some WHITE; known g (fst st); card (nodes_of WHITE (fst st)) \<le> n\<rbrakk> \<Longrightarrow>
     \<exists>st'. visit n g node stack st = Some st' \<and> known g (fst st') \<and>
           nodes_of WHITE (fst st') \<subseteq> nodes_of WHITE (fst st)"
  "\<lbrakk>known g (fst st); card (nodes_of WHITE (fst st)) \<le> n\<rbrakk> \<Longrightarrow>
     \<exists>st'. visit_deps n g deps stack st = Some st' \<and> known g (fst st') \<and>
           nodes_of WHITE (fst st') \<subseteq> nodes_of WHITE (fst st)"
proof (induction n g node stack st and n g deps stack st rule: visit_visit_deps.induct)
  case (1 g node stack st)
  have "node \<in> nodes_of WHITE (fst st)" using 1(1) by (simp add: nodes_of_def)
  with finite_nodes [OF 1(2)] have "card (nodes_of WHITE (fst st)) > 0"
    by (auto simp: card_gt_0_iff)
  with 1(3) show ?case by simp
next
  case (2 n g node stack st)
  let ?col = "(fst st)(node \<mapsto> GREY)"
  obtain s where s: "map_of g node = Some s"
    using 2(2,3) by (auto simp: known_def)
  have fin: "finite (nodes_of WHITE (fst st))" by (rule finite_nodes [OF 2(3)])
  have w: "nodes_of WHITE ?col = nodes_of WHITE (fst st) - {node}"
    using 2(2) by (simp add: nodes_of_upd)
  have k: "known g ?col" using 2(3) s by (simp add: known_upd)
  have "node \<in> nodes_of WHITE (fst st)" using 2(2) by (simp add: nodes_of_def)
  then have card: "card (nodes_of WHITE ?col) \<le> n"
    using 2(4) fin w by (simp add: card_Diff_singleton)
  obtain st2 where st2: "visit_deps n g (item_depends_on s) (stack @ [node]) (?col, snd st) = Some st2"
    "known g (fst st2)" "nodes_of WHITE (fst st2) \<subseteq> nodes_of WHITE ?col"
    using 2(1) [OF s] k card by (auto simp del: fun_upd_apply)
  moreover have "known g ((fst st2)(node \<mapsto> BLACK))"
    using st2(2) s by (simp add: known_upd)
  moreover have "nodes_of WHITE ((fst st2)(node \<mapsto> BLACK)) \<subseteq> nodes_of WHITE (fst st2)"
    by (auto simp: nodes_of_def)
  ultimately show ?case using s w by auto
next
  case (3 n g stack st)
  then show ?case by simp
next
  case (4 n g dep deps stack st)
  consider "map_of g dep = None" | "map_of g dep \<noteq> None" "fst st dep = Some GREY"
    | (white) "map_of g dep \<noteq> None" "fst st dep = Some WHITE"
    | "map_of g dep \<noteq> None" "fst st dep \<noteq> Some GREY" "fst st dep \<noteq> Some WHITE"
    by blast
  then show ?case
  proof cases
    case white
    obtain st2 where st2: "visit n g dep stack st = Some st2" "known g (fst st2)"
      "nodes_of WHITE (fst st2) \<subseteq> nodes_of WHITE (fst st)"
      using 4(3) [OF white(1) _ white(2)] white 4(6,7) by auto
    have "card (nodes_of WHITE (fst st2)) \<le> n"
      using card_mono [OF finite_nodes [OF 4(6)] st2(3)] 4(7) by simp
    then show ?thesis
      using 4(4) [OF white(1) _ white(2) st2(1)] white st2 by fastforce
  qed (use 4 in auto)
qed

lemma visit_all_returns:
  "\<lbrakk>known g (fst st); card (nodes_of WHITE (fst st)) \<le> n\<rbrakk> \<Longrightarrow> \<exists>st'. visit_all n g sids st = Some st'"
proof (induction sids arbitrary: st)
  case (Cons sid sids)
  show ?case
  proof (cases "fst st sid = Some WHITE")
    case True
    from dfs_returns(1) [OF True Cons(2,3), of "[]"] obtain st2 where st2:
      "visit n g sid [] st = Some st2" "known g (fst st2)"
      "nodes_of WHITE (fst st2) \<subseteq> nodes_of WHITE (fst st)" by blast
    moreover have "card (nodes_of WHITE (fst st2)) \<le> n"
      using card_mono [OF finite_nodes [OF Cons(2)] st2(3)] Cons(3) by simp
    ultimately show ?thesis using True Cons(1) by simp
  qed (use Cons in auto)
qed simp

section \<open>What the search establishes\<close>

definition good :: "graph \<Rightarrow> (string \<rightharpoonup> color) \<Rightarrow> bool" where
  "good g col \<longleftrightarrow> (\<forall>k \<in> nodes_of BLACK col. (\<forall>d. (k, d) \<in> edges g \<longrightarrow> d \<in> nodes_of BLACK col) \<and>
                 (k, k) \<notin> (edges g)\<^sup>+)"

definition dfs_rel :: "graph \<Rightarrow> dfs \<Rightarrow> dfs \<Rightarrow> bool" where
  "dfs_rel g st st' \<longleftrightarrow> known g (fst st') \<and> length (snd st) \<le> length (snd st') \<and>
     nodes_of BLACK (fst st) \<subseteq> nodes_of BLACK (fst st') \<and>
     nodes_of GREY (fst st') = nodes_of GREY (fst st) \<and>
     (good g (fst st) \<longrightarrow> length (snd st') = length (snd st) \<longrightarrow> good g (fst st'))"

lemma dfs_rel_trans: "dfs_rel g a b \<Longrightarrow> dfs_rel g b c \<Longrightarrow> dfs_rel g a c"
  by (auto simp: dfs_rel_def)

lemma dfs_rel_errors: "dfs_rel g (col, es @ [e]) b \<Longrightarrow> dfs_rel g (col, es) b \<and> length es < length (snd b)"
  by (auto simp: dfs_rel_def)

lemma black_closed:
  assumes "good g col" "k \<in> nodes_of BLACK col" "(k, m) \<in> (edges g)\<^sup>*"
  shows "m \<in> nodes_of BLACK col"
  using assms(3,2) assms(1) by induction (auto simp: good_def)

lemma good_blacken:
  assumes "good g col" "node \<notin> nodes_of BLACK col"
    and "\<And>d. (node, d) \<in> edges g \<Longrightarrow> d \<in> nodes_of BLACK col"
  shows "good g (col(node \<mapsto> BLACK))"
proof -
  have "(node, node) \<notin> (edges g)\<^sup>+"
  proof
    assume "(node, node) \<in> (edges g)\<^sup>+"
    then obtain d where "(node, d) \<in> edges g" "(d, node) \<in> (edges g)\<^sup>*"
      by (metis tranclD)
    then show False using black_closed [OF assms(1)] assms(2,3) by blast
  qed
  then show ?thesis using assms(1,3) by (auto simp: good_def nodes_of_upd)
qed

lemma dfs_sound:
  "\<lbrakk>visit n g node stack st = Some st'; fst st node = Some WHITE; known g (fst st)\<rbrakk> \<Longrightarrow>
     dfs_rel g st st' \<and> fst st' node = Some BLACK"
  "\<lbrakk>visit_deps n g deps stack st = Some st'; known g (fst st)\<rbrakk> \<Longrightarrow>
     dfs_rel g st st' \<and>
     (length (snd st') = length (snd st) \<longrightarrow>
        (\<forall>d \<in> set deps. map_of g d \<noteq> None \<longrightarrow> fst st' d = Some BLACK))"
proof (induction n g node stack st and n g deps stack st arbitrary: st' and st'
    rule: visit_visit_deps.induct)
  case (1 g node stack st)
  then show ?case by simp
next
  case (2 n g node stack st)
  let ?st1 = "((fst st)(node \<mapsto> GREY), snd st)"
  from 2(2) obtain s st2 where s: "map_of g node = Some s"
    and run: "visit_deps n g (item_depends_on s) (stack @ [node]) ?st1 = Some st2"
    and st': "st' = ((fst st2)(node \<mapsto> BLACK), snd st2)"
    by (auto split: option.splits)
  have k1: "known g (fst ?st1)" using 2(4) s by (simp add: known_upd)
  have rel: "dfs_rel g ?st1 st2"
    and deps: "length (snd st2) = length (snd st) \<longrightarrow>
        (\<forall>d \<in> set (item_depends_on s). map_of g d \<noteq> None \<longrightarrow> fst st2 d = Some BLACK)"
    using 2(1) [OF s run k1] by (simp_all del: fun_upd_apply)
  have grey2: "nodes_of GREY (fst st2) = insert node (nodes_of GREY (fst st))"
    using rel by (simp add: dfs_rel_def nodes_of_upd)
  then have node2: "fst st2 node = Some GREY" by (auto simp: nodes_of_def)
  have black1: "nodes_of BLACK (fst ?st1) = nodes_of BLACK (fst st)"
    using 2(3) by (simp add: nodes_of_upd)
  have "good g ((fst st2)(node \<mapsto> BLACK))"
    if "good g (fst st)" "length (snd st2) = length (snd st)"
  proof (rule good_blacken)
    show "good g (fst st2)"
      using that rel black1 by (simp add: dfs_rel_def good_def)
    show "node \<notin> nodes_of BLACK (fst st2)" using node2 by (simp add: nodes_of_def)
    show "d \<in> nodes_of BLACK (fst st2)" if "(node, d) \<in> edges g" for d
      using that s deps \<open>length (snd st2) = length (snd st)\<close> by (auto simp: edges_def nodes_of_def)
  qed
  moreover have "nodes_of GREY ((fst st2)(node \<mapsto> BLACK)) = nodes_of GREY (fst st)"
    using grey2 2(3) by (auto simp: nodes_of_def split: if_splits)
  moreover have "nodes_of BLACK (fst st) \<subseteq> nodes_of BLACK ((fst st2)(node \<mapsto> BLACK))"
    using rel black1 by (auto simp: dfs_rel_def nodes_of_upd)
  moreover have "known g ((fst st2)(node \<mapsto> BLACK))"
    using rel s by (simp add: dfs_rel_def known_upd)
  ultimately show ?case
    using rel by (simp add: dfs_rel_def st')
next
  case (3 n g stack st)
  then show ?case by (simp add: dfs_rel_def)
next
  case (4 n g dep deps stack st)
  consider (unknown) "map_of g dep = None" | (grey) "map_of g dep \<noteq> None" "fst st dep = Some GREY"
    | (white) "map_of g dep \<noteq> None" "fst st dep = Some WHITE"
    | (black) "map_of g dep \<noteq> None" "fst st dep \<noteq> Some GREY" "fst st dep \<noteq> Some WHITE"
    by blast
  then show ?case
  proof cases
    case unknown
    have "visit_deps n g deps stack st = Some st'"
      using 4(6) unfolding visit_deps_unknown [OF unknown] .
    then show ?thesis using 4(1) [OF unknown _ 4(7)] unknown by simp
  next
    case grey
    then have "dfs_rel g (fst st, snd st @ [cycle_message stack dep]) st'"
      using 4(2) [OF grey(1,2)] 4(6,7) unfolding visit_deps_grey [OF grey] by simp
    then have "dfs_rel g st st'" "length (snd st) < length (snd st')"
      using dfs_rel_errors [of g "fst st" "snd st" "cycle_message stack dep" st'] by simp_all
    then show ?thesis by simp
  next
    case white
    then obtain st2 where st2: "visit n g dep stack st = Some st2"
      and rest: "visit_deps n g deps stack st2 = Some st'"
      using 4(6) by (auto split: option.splits)
    have v: "dfs_rel g st st2 \<and> fst st2 dep = Some BLACK"
      using 4(3) [OF white(1) _ white(2)] st2 white 4(7) by auto
    then have k: "known g (fst st2)" by (simp add: dfs_rel_def)
    have d: "dfs_rel g st2 st' \<and> (length (snd st') = length (snd st2) \<longrightarrow>
        (\<forall>d \<in> set deps. map_of g d \<noteq> None \<longrightarrow> fst st' d = Some BLACK))"
      using 4(4) [OF white(1) _ white(2) st2] white rest k by simp
    have "fst st' dep = Some BLACK"
      using v d by (auto simp: dfs_rel_def nodes_of_def)
    moreover have "length (snd st') = length (snd st2)" if "length (snd st') = length (snd st)"
      using that v d by (auto simp: dfs_rel_def)
    ultimately show ?thesis
      using v d dfs_rel_trans [of g st st2 st'] by auto
  next
    case black
    have "fst st dep = Some BLACK"
    proof (cases "fst st dep")
      case None
      then show ?thesis using 4(7) black(1) by (auto simp: known_def)
    next
      case (Some c)
      then show ?thesis using black by (cases c) auto
    qed
    moreover have "dfs_rel g st st' \<and> (length (snd st') = length (snd st) \<longrightarrow>
        (\<forall>d \<in> set deps. map_of g d \<noteq> None \<longrightarrow> fst st' d = Some BLACK))"
      using 4(5) [OF black _ 4(7)] 4(6) unfolding visit_deps_black [OF black] .
    ultimately show ?thesis by (auto simp: dfs_rel_def nodes_of_def)
  qed
qed


text \<open>A cycle is reported only when there is one: the grey nodes are the ancestors of the current one.\<close>

lemma dfs_silent:
  "\<lbrakk>visit n g node stack st = Some st'; fst st node = Some WHITE; known g (fst st);
    \<forall>a \<in> nodes_of GREY (fst st). (a, node) \<in> (edges g)\<^sup>+; acyclic (edges g)\<rbrakk> \<Longrightarrow> snd st' = snd st"
  "\<lbrakk>visit_deps n g deps stack st = Some st'; known g (fst st);
    \<forall>a \<in> nodes_of GREY (fst st). (a, u) \<in> (edges g)\<^sup>*;
    \<forall>d \<in> set deps. map_of g d \<noteq> None \<longrightarrow> (u, d) \<in> edges g; acyclic (edges g)\<rbrakk> \<Longrightarrow> snd st' = snd st"
proof (induction n g node stack st and n g deps stack st arbitrary: st' and st' u
    rule: visit_visit_deps.induct)
  case (1 g node stack st)
  then show ?case by simp
next
  case (2 n g node stack st)
  let ?st1 = "((fst st)(node \<mapsto> GREY), snd st)"
  from 2(2) obtain s st2 where s: "map_of g node = Some s"
    and run: "visit_deps n g (item_depends_on s) (stack @ [node]) ?st1 = Some st2"
    and st': "st' = ((fst st2)(node \<mapsto> BLACK), snd st2)"
    by (auto split: option.splits)
  have k1: "known g (fst ?st1)" using 2(4) s by (simp add: known_upd)
  have "\<forall>a \<in> nodes_of GREY (fst ?st1). (a, node) \<in> (edges g)\<^sup>*"
    using 2(5) by (auto simp: nodes_of_upd dest: trancl_into_rtrancl)
  moreover have "\<forall>d \<in> set (item_depends_on s). map_of g d \<noteq> None \<longrightarrow> (node, d) \<in> edges g"
    using s by (auto simp: edges_def)
  ultimately show ?case
    using 2(1) [OF s run k1 _ _ 2(6)] st' by (simp del: fun_upd_apply)
next
  case (3 n g stack st)
  then show ?case by simp
next
  case (4 n g dep deps stack st)
  consider (unknown) "map_of g dep = None" | (grey) "map_of g dep \<noteq> None" "fst st dep = Some GREY"
    | (white) "map_of g dep \<noteq> None" "fst st dep = Some WHITE"
    | (black) "map_of g dep \<noteq> None" "fst st dep \<noteq> Some GREY" "fst st dep \<noteq> Some WHITE"
    by blast
  then show ?case
  proof cases
    case unknown
    then show ?thesis
      using 4(1) [OF unknown _ 4(7,8) _ 4(10)] 4(6,9) unfolding visit_deps_unknown [OF unknown] by simp
  next
    case grey
    then have "(dep, u) \<in> (edges g)\<^sup>*" "(u, dep) \<in> edges g"
      using 4(8,9) by (auto simp: nodes_of_def)
    then have "(dep, dep) \<in> (edges g)\<^sup>+" by (rule rtrancl_into_trancl1)
    then show ?thesis using 4(10) by (simp add: acyclic_def)
  next
    case white
    then obtain st2 where st2: "visit n g dep stack st = Some st2"
      and rest: "visit_deps n g deps stack st2 = Some st'"
      using 4(6) by (auto split: option.splits)
    have "(u, dep) \<in> edges g" using 4(9) white by simp
    then have anc: "\<forall>a \<in> nodes_of GREY (fst st). (a, dep) \<in> (edges g)\<^sup>+"
      using 4(8) by (auto intro: rtrancl_into_trancl1)
    have rel: "dfs_rel g st st2" using dfs_sound(1) [OF st2 white(2) 4(7)] by simp
    have "snd st2 = snd st"
      using 4(3) [OF white(1) _ white(2) st2 white(2) 4(7) anc 4(10)] white by simp
    moreover have "snd st' = snd st2"
      using 4(4) [OF white(1) _ white(2) st2 rest _ _ _ 4(10), of u] rel 4(8,9) white
      by (simp add: dfs_rel_def)
    ultimately show ?thesis by simp
  next
    case black
    then show ?thesis
      using 4(5) [OF black _ 4(7,8) _ 4(10)] 4(6,9) unfolding visit_deps_black [OF black] by simp
  qed
qed

lemma visit_all_sound:
  "\<lbrakk>visit_all n g sids st = Some st'; known g (fst st); nodes_of GREY (fst st) = {}\<rbrakk> \<Longrightarrow>
     dfs_rel g st st' \<and> (\<forall>sid \<in> set sids. map_of g sid \<noteq> None \<longrightarrow> fst st' sid = Some BLACK) \<and>
     (acyclic (edges g) \<longrightarrow> snd st' = snd st)"
proof (induction sids arbitrary: st)
  case Nil
  then show ?case by (simp add: dfs_rel_def)
next
  case (Cons sid sids)
  show ?case
  proof (cases "fst st sid = Some WHITE")
    case True
    then obtain st2 where st2: "visit n g sid [] st = Some st2"
      and rest: "visit_all n g sids st2 = Some st'"
      using Cons(2) by (auto split: option.splits)
    have v: "dfs_rel g st st2 \<and> fst st2 sid = Some BLACK"
      using dfs_sound(1) [OF st2 True Cons(3)] .
    then have "known g (fst st2)" "nodes_of GREY (fst st2) = {}"
      using Cons(4) by (simp_all add: dfs_rel_def)
    then have r: "dfs_rel g st2 st' \<and> (\<forall>sid \<in> set sids. map_of g sid \<noteq> None \<longrightarrow> fst st' sid = Some BLACK) \<and>
        (acyclic (edges g) \<longrightarrow> snd st' = snd st2)"
      using Cons(1) [OF rest] by simp
    moreover have "acyclic (edges g) \<longrightarrow> snd st2 = snd st"
      using dfs_silent(1) [OF st2 True Cons(3)] Cons(4) by simp
    moreover have "fst st' sid = Some BLACK" using v r by (auto simp: dfs_rel_def nodes_of_def)
    ultimately show ?thesis using v dfs_rel_trans [of g st st2 st'] by auto
  next
    case False
    have "fst st sid = Some BLACK" if known: "map_of g sid \<noteq> None"
    proof (cases "fst st sid")
      case None
      then show ?thesis using Cons(3) known by (auto simp: known_def)
    next
      case (Some c)
      then show ?thesis using False Cons(4) by (cases c) (auto simp: nodes_of_def)
    qed
    moreover have "visit_all n g sids st = Some st'" using False Cons(2) by simp
    ultimately show ?thesis using Cons(1) [of st] Cons(3,4) by (auto simp: dfs_rel_def nodes_of_def)
  qed
qed

lemma search_reports_cycles:
  obtains st where "visit_all (length g) g (map fst g) (white_all g, es) = Some st"
    "snd st = es \<longleftrightarrow> acyclic (edges g)" "es \<noteq> [] \<Longrightarrow> snd st \<noteq> []"
proof -
  have k: "known g (fst (white_all g, es))"
    by (auto simp: known_def white_all_def split: if_splits)
  have w: "nodes_of WHITE (white_all g) \<subseteq> fst ` set g"
    by (auto simp: nodes_of_def white_all_def map_of_eq_None_iff split: if_splits)
  have "card (nodes_of WHITE (white_all g)) \<le> length g"
    using card_mono [OF _ w] card_length [of "map fst g"] by (simp add: order_trans)
  then obtain st where st: "visit_all (length g) g (map fst g) (white_all g, es) = Some st"
    using visit_all_returns [OF k, of "length g" "map fst g"] by auto
  have g0: "nodes_of GREY (fst (white_all g, es)) = {}" and b0: "nodes_of BLACK (white_all g) = {}"
    by (auto simp: nodes_of_def white_all_def split: if_splits)
  note sound = visit_all_sound [OF st k g0]
  have "good g (white_all g)" using b0 by (simp add: good_def)
  then have "good g (fst st)" if "snd st = es" using that sound by (simp add: dfs_rel_def)
  moreover have "k \<in> nodes_of BLACK (fst st)" if "(k, m) \<in> edges g" for k m
  proof -
    have "map_of g k \<noteq> None" using that by (auto simp: edges_def)
    then have "k \<in> set (map fst g)" by (simp add: map_of_eq_None_iff)
    then show ?thesis using sound \<open>map_of g k \<noteq> None\<close> unfolding nodes_of_def by blast
  qed
  ultimately have "(k, k) \<notin> (edges g)\<^sup>+" if "snd st = es" for k
    using that unfolding good_def by (metis tranclD)
  then have "snd st = es \<longleftrightarrow> acyclic (edges g)"
    using sound unfolding acyclic_def by fastforce
  moreover have "es \<noteq> [] \<Longrightarrow> snd st \<noteq> []" using sound by (auto simp: dfs_rel_def)
  ultimately show ?thesis using that st by blast
qed

section \<open>The graph of a list of items\<close>

lemma dedupe_from_set: "set (dedupe_from seen es) = set es - set seen"
  by (induction es arbitrary: seen) auto

lemma dedupe_Nil [simp]: "dedupe es = [] \<longleftrightarrow> es = []"
  using dedupe_from_set [of "[]" es] by (auto simp: dedupe_def)

lemma by_id_None: "map_of (by_id xs) k = None \<longleftrightarrow> k = [] \<or> k \<notin> item_id ` set xs"
proof -
  have "dom (map_of (fold (\<lambda>s d. AList.update (item_id s) s d) ys d)) = item_id ` set ys \<union> dom (map_of d)"
    for ys and d :: graph
    by (induction ys arbitrary: d) (auto simp: update_conv')
  then have "dom (map_of (by_id xs)) = item_id ` {s \<in> set xs. item_id s \<noteq> []}"
    by (simp add: by_id_def)
  then have "k \<in> dom (map_of (by_id xs)) \<longleftrightarrow> k \<noteq> [] \<and> k \<in> item_id ` set xs" by auto
  then show ?thesis unfolding domIff by blast
qed

lemma by_id_Some:
  assumes "distinct (map item_id xs)" "s \<in> set xs" "item_id s \<noteq> []"
  shows "map_of (by_id xs) (item_id s) = Some s"
proof -
  have other: "map_of (fold (\<lambda>s d. AList.update (item_id s) s d) ys d) k = map_of d k"
    if "k \<notin> item_id ` set ys" for ys k and d :: graph
    using that by (induction ys arbitrary: d) (auto simp: dget_dset)
  have "map_of (fold (\<lambda>s d. AList.update (item_id s) s d) ys d) (item_id s) = Some s"
    if "distinct (map item_id ys)" "s \<in> set ys" for ys and d :: graph
    using that by (induction ys arbitrary: d) (auto simp: other dget_dset)
  moreover have "distinct (map item_id (filter (\<lambda>s. item_id s \<noteq> []) xs))"
    using assms(1) by (simp add: distinct_map_filter)
  ultimately show ?thesis using assms(2,3) by (simp add: by_id_def)
qed

lemma dep_errors_Nil: "dep_errors xs = [] \<longleftrightarrow>
  (\<forall>s \<in> set xs. \<forall>dep \<in> set (item_depends_on s). dep \<noteq> item_id s \<and> dep \<in> item_id ` set xs)"
  by (auto simp: dep_errors_def)

end
