(* ===== verification/Wave_Props.thy ===== *)
theory Wave_Props
  imports Wave_Graph
begin

text \<open>
  What the executor relies on: a wave consists of ready items that touch disjoint sets of files,
  and a phase whose dependencies validate never stalls.
\<close>

definition ready :: "('a \<Rightarrow> item) \<Rightarrow> string set \<Rightarrow> 'a \<Rightarrow> bool" where
  "ready view completed s \<longleftrightarrow> item_status (view s) = PENDING \<and> item_id (view s) \<notin> completed \<and>
     set (item_depends_on (view s)) \<subseteq> completed"

definition apart :: "('a \<Rightarrow> item) \<Rightarrow> 'a \<Rightarrow> 'a \<Rightarrow> bool" where
  "apart view a b \<longleftrightarrow> item_id (view a) \<noteq> item_id (view b) \<and> \<not> conflicts (view a) (view b)"

lemma conflicts_sym: "conflicts a b = conflicts b a"
  by (auto simp: conflicts_def Let_def)

lemma apart_sym: "apart view a b = apart view b a"
  by (auto simp: apart_def conflicts_sym)

lemma apart_disjoint: "apart view a b \<Longrightarrow> file_set (view a) \<inter> file_set (view b) = {}"
  by (auto simp: apart_def conflicts_def Let_def split: if_splits)

lemma pick_wave_cons:
  "pick_wave view completed free reserved picked (s # ss) =
     (if length picked \<ge> free then picked
      else if ready view completed s \<and> (\<forall>r \<in> set reserved. apart view s r)
      then pick_wave view completed free (reserved @ [s]) (picked @ [s]) ss
      else pick_wave view completed free reserved picked ss)"
  by (auto simp: ready_def apart_def list_all_iff list_ex_iff subset_iff)

declare pick_wave.simps(2) [simp del]

text \<open>One induction gives everything there is to know about the loop.\<close>

definition wave_ok :: "('a \<Rightarrow> item) \<Rightarrow> string set \<Rightarrow> nat \<Rightarrow> 'a list \<Rightarrow> 'a list \<Rightarrow> 'a list \<Rightarrow> bool" where
  "wave_ok view completed room reserved ss ws \<longleftrightarrow>
     subseq ws ss \<and> length ws \<le> room \<and> (\<forall>w \<in> set ws. ready view completed w) \<and>
     (\<forall>w \<in> set ws. \<forall>r \<in> set reserved. apart view w r) \<and> sorted_wrt (apart view) ws \<and>
     (length ws < room \<longrightarrow> (\<forall>s \<in> set ss. ready view completed s \<longrightarrow>
        s \<in> set ws \<or> (\<exists>r \<in> set (reserved @ ws). \<not> apart view s r)))"

lemma pick_wave_ok:
  "\<exists>ws. pick_wave view completed free reserved picked ss = picked @ ws \<and>
        wave_ok view completed (free - length picked) reserved ss ws"
proof (induction ss arbitrary: reserved picked)
  case Nil
  show ?case by (auto simp: wave_ok_def)
next
  case (Cons s ss)
  consider (full) "length picked \<ge> free"
    | (take) "length picked < free" "ready view completed s" "\<forall>r \<in> set reserved. apart view s r"
    | (skip) "length picked < free" "\<not> (ready view completed s \<and> (\<forall>r \<in> set reserved. apart view s r))"
    by linarith
  then show ?case
  proof cases
    case full
    then show ?thesis by (auto simp: pick_wave_cons wave_ok_def)
  next
    case take
    obtain ws where ws: "pick_wave view completed free (reserved @ [s]) (picked @ [s]) ss = (picked @ [s]) @ ws"
      "wave_ok view completed (free - length (picked @ [s])) (reserved @ [s]) ss ws"
      using Cons by blast
    have "wave_ok view completed (free - length picked) reserved (s # ss) (s # ws)"
      using ws(2) take apart_sym [of view] by (auto simp: wave_ok_def)
    then show ?thesis using ws(1) take by (auto simp: pick_wave_cons)
  next
    case skip
    obtain ws where ws: "pick_wave view completed free reserved picked ss = picked @ ws"
      "wave_ok view completed (free - length picked) reserved ss ws"
      using Cons by blast
    have "wave_ok view completed (free - length picked) reserved (s # ss) ws"
      using ws(2) skip(2) unfolding wave_ok_def by (auto intro: list_emb_Cons)
    moreover have "pick_wave view completed free reserved picked (s # ss) = picked @ ws"
      using ws(1) skip by (auto simp: pick_wave_cons)
    ultimately show ?thesis by blast
  qed
qed

lemma wave_spec:
  "wave_ok view completed (nat (max 1 w - int (length fl))) fl xs (select_ready_wave view xs completed fl w)"
proof (cases "max 1 w - int (length fl) \<le> 0")
  case True
  then show ?thesis by (simp add: select_ready_wave_def Let_def wave_ok_def)
next
  case False
  then show ?thesis
    using pick_wave_ok [of view completed "nat (max 1 w - int (length fl))" fl "[]" xs]
    by (auto simp: select_ready_wave_def Let_def)
qed

lemma wave_not_stalled:
  assumes "s \<in> set xs" "ready view completed s"
  shows "select_ready_wave view xs completed [] w \<noteq> []"
proof
  assume "select_ready_wave view xs completed [] w = []"
  then show False
    using wave_spec [of view completed w "[]" xs] assms by (auto simp: wave_ok_def)
qed

lemma subseq_set: "subseq xs ys \<Longrightarrow> set xs \<subseteq> set ys"
  by (induction rule: list_emb.induct) auto

lemma wave_members:
  assumes "s \<in> set (select_ready_wave view xs completed fl w)"
  shows "s \<in> set xs" "ready view completed s"
proof -
  note sp = wave_spec [of view completed w fl xs]
  then have "subseq (select_ready_wave view xs completed fl w) xs" by (simp add: wave_ok_def)
  then show "s \<in> set xs" using assms subseq_set by blast
  show "ready view completed s" using sp assms by (simp add: wave_ok_def)
qed

lemma wave_length: "length (select_ready_wave view xs completed fl w) \<le> nat (max 1 w - int (length fl))"
  using wave_spec [of view completed w fl xs] by (simp add: wave_ok_def)

lemma wave_apart: "sorted_wrt (apart view) (select_ready_wave view xs completed fl w)"
  using wave_spec [of view completed w fl xs] by (simp add: wave_ok_def)

section \<open>Validated dependencies\<close>

definition dep_relation :: "item list \<Rightarrow> (string \<times> string) set" where
  "dep_relation xs = {(item_id s, d) | s d. s \<in> set xs \<and> d \<in> set (item_depends_on s)}"

lemma edges_by_id:
  assumes "distinct (map item_id xs)" "[] \<notin> item_id ` set xs"
    and "\<forall>s \<in> set xs. set (item_depends_on s) \<subseteq> item_id ` set xs"
  shows "edges (by_id xs) = dep_relation xs"
proof (intro set_eqI iffI; clarify)
  fix n d
  assume "(n, d) \<in> edges (by_id xs)"
  then obtain s where s: "map_of (by_id xs) n = Some s" "d \<in> set (item_depends_on s)"
    by (auto simp: edges_def)
  then obtain t where t: "t \<in> set xs" "item_id t = n"
    using by_id_None [of xs n] by force
  then have "map_of (by_id xs) n = Some t"
    using by_id_Some [OF assms(1) t(1)] assms(2) t by (metis image_eqI)
  with s t show "(n, d) \<in> dep_relation xs" by (auto simp: dep_relation_def)
next
  fix n d
  assume "(n, d) \<in> dep_relation xs"
  then obtain s where s: "s \<in> set xs" "n = item_id s" "d \<in> set (item_depends_on s)"
    by (auto simp: dep_relation_def)
  moreover have "map_of (by_id xs) n = Some s"
    using by_id_Some [OF assms(1) s(1)] assms(2) s by (metis image_eqI)
  moreover have "map_of (by_id xs) d \<noteq> None"
    using s assms(2,3) by_id_None [of xs d] by blast
  ultimately show "(n, d) \<in> edges (by_id xs)" by (auto simp: edges_def)
qed

lemma validate_returns: "\<exists>es. validate_dependencies xs = Some es"
  by (rule search_reports_cycles [of "by_id xs" "dep_errors xs"])
    (simp add: validate_dependencies_def Let_def)

lemma validate_iff:
  assumes "distinct (map item_id xs)" "[] \<notin> item_id ` set xs"
  shows "validate_dependencies xs = Some [] \<longleftrightarrow>
    (\<forall>s \<in> set xs. set (item_depends_on s) \<subseteq> item_id ` set xs) \<and> acyclic (dep_relation xs)"
proof -
  obtain st where st: "visit_all (length (by_id xs)) (by_id xs) (map fst (by_id xs))
      (white_all (by_id xs), dep_errors xs) = Some st"
    "snd st = dep_errors xs \<longleftrightarrow> acyclic (edges (by_id xs))"
    "dep_errors xs \<noteq> [] \<Longrightarrow> snd st \<noteq> []"
    using search_reports_cycles [of "by_id xs" "dep_errors xs"] by blast
  have "validate_dependencies xs = Some [] \<longleftrightarrow> snd st = []"
    using st(1) by (simp add: validate_dependencies_def Let_def)
  also have "\<dots> \<longleftrightarrow> dep_errors xs = [] \<and> acyclic (edges (by_id xs))"
    using st(2,3) by auto
  also have "\<dots> \<longleftrightarrow> (\<forall>s \<in> set xs. set (item_depends_on s) \<subseteq> item_id ` set xs) \<and> acyclic (dep_relation xs)"
    (is "_ \<longleftrightarrow> ?known \<and> ?acyclic")
  proof (cases ?known)
    case True
    have "dep \<noteq> item_id s" if "?acyclic" "s \<in> set xs" "dep \<in> set (item_depends_on s)" for s dep
    proof
      assume "dep = item_id s"
      with that(2,3) have "(item_id s, item_id s) \<in> (dep_relation xs)\<^sup>+"
        by (auto simp: dep_relation_def)
      with that(1) show False by (auto simp: acyclic_def)
    qed
    with True show ?thesis
      using edges_by_id [OF assms True] by (auto simp: dep_errors_Nil)
  next
    case False
    then show ?thesis by (auto simp: dep_errors_Nil)
  qed
  finally show ?thesis .
qed

lemma acyclic_has_ready:
  assumes known: "\<forall>s \<in> set xs. set (item_depends_on s) \<subseteq> item_id ` set xs"
    and "acyclic (dep_relation xs)"
    and "\<forall>s \<in> set xs. item_id s \<notin> completed \<longrightarrow> item_status s = PENDING"
    and "\<exists>s \<in> set xs. item_id s \<notin> completed"
  shows "\<exists>s \<in> set xs. ready (\<lambda>s. s) completed s"
proof -
  have "dep_relation xs \<subseteq> (item_id ` set xs) \<times> (item_id ` set xs)"
    using known by (auto simp: dep_relation_def)
  then have "finite (dep_relation xs)" by (rule finite_subset) simp
  with assms(2) have "wf ((dep_relation xs)\<inverse>)"
    by (simp add: finite_acyclic_wf_converse)
  moreover obtain s0 where "s0 \<in> {s \<in> set xs. item_id s \<notin> completed}" using assms(4) by blast
  ultimately obtain k where k: "k \<in> item_id ` {s \<in> set xs. item_id s \<notin> completed}"
    and min: "\<And>d. (d, k) \<in> (dep_relation xs)\<inverse> \<Longrightarrow> d \<notin> item_id ` {s \<in> set xs. item_id s \<notin> completed}"
    using wfE_min [of "(dep_relation xs)\<inverse>" "item_id s0" "item_id ` {s \<in> set xs. item_id s \<notin> completed}"]
    by blast
  then obtain s where s: "s \<in> set xs" "item_id s = k" "k \<notin> completed" by blast
  have "set (item_depends_on s) \<subseteq> completed"
  proof
    fix d
    assume d: "d \<in> set (item_depends_on s)"
    then have "(k, d) \<in> dep_relation xs" using s by (auto simp: dep_relation_def)
    then have "d \<notin> item_id ` {s \<in> set xs. item_id s \<notin> completed}" using min by blast
    moreover have "d \<in> item_id ` set xs" using known s d by blast
    ultimately show "d \<in> completed" by blast
  qed
  then show ?thesis using s assms(3) by (auto simp: ready_def)
qed

section \<open>Properties\<close>

text \<open>C1: the wave the scheduler selects is a subsequence of the phase's items that fits in the free
  worker slots; each of its items is pending, not completed and has all its dependencies completed, and no
  two items of the wave, nor an item of the wave and one in flight, share an id or a file.\<close>

theorem wave_is_safe:
  assumes "wave = select_ready_wave view xs completed in_flight max_workers"
  shows "subseq wave xs \<and> (wave = [] \<or> int (length wave + length in_flight) \<le> max 1 max_workers) \<and>
    (\<forall>s \<in> set wave. item_status (view s) = PENDING \<and> item_id (view s) \<notin> completed \<and>
       set (item_depends_on (view s)) \<subseteq> completed \<and>
       (\<forall>r \<in> set in_flight. item_id (view s) \<noteq> item_id (view r) \<and> file_set (view s) \<inter> file_set (view r) = {})) \<and>
    sorted_wrt (\<lambda>a b. item_id (view a) \<noteq> item_id (view b) \<and> file_set (view a) \<inter> file_set (view b) = {}) wave"
proof -
  have ok: "wave_ok view completed (nat (max 1 max_workers - int (length in_flight))) in_flight xs wave"
    unfolding assms by (rule wave_spec)
  have "sorted_wrt (\<lambda>a b. item_id (view a) \<noteq> item_id (view b) \<and> file_set (view a) \<inter> file_set (view b) = {}) wave"
  proof (rule sorted_wrt_mono_rel [of wave "apart view"])
    show "sorted_wrt (apart view) wave" using ok by (simp add: wave_ok_def)
    fix a b assume "apart view a b"
    then show "item_id (view a) \<noteq> item_id (view b) \<and> file_set (view a) \<inter> file_set (view b) = {}"
      using apart_disjoint [of view a b] by (simp add: apart_def)
  qed
  moreover have "wave = [] \<or> int (length wave + length in_flight) \<le> max 1 max_workers"
    using ok by (cases wave) (auto simp: wave_ok_def)
  ultimately show ?thesis
    using ok apart_disjoint [of view] by (auto simp: wave_ok_def ready_def apart_def)
qed

text \<open>The scheduler leaves no worker idle without a reason: when the wave does not fill the free
  slots, every ready item is in it or shares an id with, or conflicts with, an item in flight or in the wave.\<close>

theorem wave_is_maximal:
  assumes "wave = select_ready_wave view xs completed in_flight max_workers"
    and "int (length wave + length in_flight) < max 1 max_workers"
    and "s \<in> set xs" "item_status (view s) = PENDING" "item_id (view s) \<notin> completed"
    and "set (item_depends_on (view s)) \<subseteq> completed"
  shows "s \<in> set wave \<or>
    (\<exists>r \<in> set (in_flight @ wave). item_id (view s) = item_id (view r) \<or> conflicts (view s) (view r))"
proof -
  have "wave_ok view completed (nat (max 1 max_workers - int (length in_flight))) in_flight xs wave"
    unfolding assms by (rule wave_spec)
  moreover have "ready view completed s" using assms by (simp add: ready_def)
  ultimately show ?thesis using assms(2,3) by (auto simp: wave_ok_def apart_def)
qed



subsection \<open>At concrete inputs\<close>

definition work :: "string \<Rightarrow> string list \<Rightarrow> string list \<Rightarrow> item" where
  "work i deps files =
     ISubtask ((new_subtask i ''work'')\<lparr>st_depends_on := deps, st_files_to_modify := files\<rparr>)"

lemma work_simps [simp]:
  "item_id (work i deps files) = i" "item_status (work i deps files) = PENDING"
  "item_depends_on (work i deps files) = deps"
  "file_set (work i deps files) = set (filter (\<lambda>p. p \<noteq> []) (map norm_path files))"
  by (simp_all add: work_def new_subtask_def file_set_def)

text \<open>Two spellings of one path, and a file of its own.\<close>

lemma sample_paths [simp]:
  "norm_path ''src/a.py'' = ''src/a.py''" "norm_path ''src/./a.py'' = ''src/a.py''" "norm_path ''b.py'' = ''b.py''"
  by (simp_all add: norm_path_def py_strip_def is_space_def normpath_def initial_slashes_def norm_step_def Let_def)

definition sample_phase :: "item list" where
  "sample_phase = [work ''a'' [] [''src/a.py''], work ''b'' [] [''src/./a.py''], work ''c'' [''a''] [''b.py''],
     work ''d'' [] [''b.py'']]"

lemma sample_wave: "select_ready_wave (\<lambda>s. s) sample_phase {} [] 3 =
    [work ''a'' [] [''src/a.py''], work ''d'' [] [''b.py'']]"
  by (simp add: sample_phase_def select_ready_wave_def Let_def pick_wave.simps conflicts_def)

lemma sample_validated: "validate_dependencies sample_phase = Some []"
  by (simp add: sample_phase_def validate_dependencies_def by_id_def dep_errors_def white_all_def Let_def dedupe_def)

lemma wave_is_safe_witness:
  "subseq [work ''a'' [] [''src/a.py''], work ''d'' [] [''b.py'']] sample_phase \<and>
   sorted_wrt (\<lambda>a b. item_id a \<noteq> item_id b \<and> file_set a \<inter> file_set b = {})
     [work ''a'' [] [''src/a.py''], work ''d'' [] [''b.py'']]"
  using wave_is_safe [OF sample_wave [symmetric]] by blast

lemma wave_is_maximal_witness:
  "work ''b'' [] [''src/./a.py''] \<in> set [work ''a'' [] [''src/a.py''], work ''d'' [] [''b.py'']] \<or>
   (\<exists>r \<in> set ([] @ [work ''a'' [] [''src/a.py''], work ''d'' [] [''b.py'']]).
      item_id (work ''b'' [] [''src/./a.py'']) = item_id r \<or> conflicts (work ''b'' [] [''src/./a.py'']) r)"
  by (rule wave_is_maximal [OF sample_wave [symmetric]]) (simp_all add: sample_phase_def)



end
