(* ===== verification/Parallel_Runner.thy ===== *)
theory Parallel_Runner
  imports Wave_Props Plan_Core "HOL-Library.List_Lexorder" "HOL-Library.Char_ord"
begin

text \<open>
  The executor of a phase (\<open>agents/parallel_runner.py\<close>). Its three awaited hooks and the clock are
  the record \<open>hooks\<close>, functions of an arbitrary outside world that they may change. The coroutines
  of a wave are run to their results in wave order before any merge, as \<open>asyncio.gather\<close> delivers
  them; merging and recording are sequential in the source already. Items are mutated in place:
  the wave holds positions of the phase's list.
\<close>

section \<open>Results and hooks\<close>

datatype run_result = Raised string | Ran bool "string option"

record phase_run_result =
  pr_completed_ids :: "string list"
  pr_failed_ids :: "string list"
  pr_stalled :: bool
  pr_remaining_ids :: "string list"
  pr_waves :: nat

definition pr_ok :: "phase_run_result \<Rightarrow> bool" where
  "pr_ok r \<longleftrightarrow> \<not> pr_stalled r \<and> pr_failed_ids r = [] \<and> pr_remaining_ids r = []"

record 'w hooks =
  hk_run :: "'w \<Rightarrow> item \<Rightarrow> nat \<Rightarrow> run_result \<times> 'w"
  hk_merge :: "'w \<Rightarrow> item \<Rightarrow> run_result \<Rightarrow> bool \<times> 'w"
  hk_mark_complete :: "'w \<Rightarrow> item \<Rightarrow> bool option \<times> 'w"
  hk_on_wave :: "nat \<Rightarrow> item list \<Rightarrow> 'w \<Rightarrow> 'w"
  hk_now :: "'w \<Rightarrow> string"

record 'w run_state =
  rs_items :: "item list"
  rs_completed :: "string set"
  rs_failed :: "string set"
  rs_waves :: nat
  rs_world :: 'w

section \<open>One wave\<close>

definition mark_failed :: "nat \<Rightarrow> string \<Rightarrow> 'w run_state \<Rightarrow> 'w run_state" where
  "mark_failed i reason st =
     (let s = rs_items st ! i
      in st\<lparr>rs_failed := insert (item_id s) (rs_failed st),
            rs_items := (rs_items st)[i := item_fail (Some reason) s]\<rparr>)"

definition or_default :: "string option \<Rightarrow> string \<Rightarrow> string" where
  "or_default e d = (if truthy_str e then the e else d)"

definition settle :: "'w hooks \<Rightarrow> nat \<Rightarrow> run_result \<Rightarrow> 'w run_state \<times> bool \<Rightarrow> 'w run_state \<times> bool" where
  "settle h i res acc =
     (let st = fst acc; progressed = snd acc; s = rs_items st ! i
      in case res of
           Raised msg \<Rightarrow> (mark_failed i msg st, progressed)
         | Ran ok err \<Rightarrow>
           if \<not> ok then (mark_failed i (or_default err ''session failed'') st, progressed)
           else
             (let (merged, w1) = hk_merge h (rs_world st) s res; st1 = st\<lparr>rs_world := w1\<rparr>
              in if \<not> merged then (mark_failed i ''merge failed'' st1, progressed)
                 else
                   (let (recorded, w2) = hk_mark_complete h w1 s; st2 = st1\<lparr>rs_world := w2\<rparr>
                    in if recorded = Some False
                       then (mark_failed i ''completion gate refused'' st2, progressed)
                       else (st2\<lparr>rs_items := (rs_items st2)[i := item_complete (hk_now h w2) None s],
                                 rs_completed := insert (item_id s) (rs_completed st2)\<rparr>, True))))"

fun settle_all :: "'w hooks \<Rightarrow> (nat \<times> run_result) list \<Rightarrow> 'w run_state \<times> bool \<Rightarrow> 'w run_state \<times> bool" where
  "settle_all h [] acc = acc"
| "settle_all h ((i, res) # rest) acc = settle_all h rest (settle h i res acc)"

fun run_all :: "'w hooks \<Rightarrow> nat \<Rightarrow> (nat \<times> item) list \<Rightarrow> 'w \<Rightarrow> (nat \<times> run_result) list \<times> 'w" where
  "run_all h k [] w = ([], w)"
| "run_all h k ((i, s) # wave) w =
     (let (res, w1) = hk_run h w s k; (rest, w2) = run_all h (Suc k) wave w1
      in ((i, res) # rest, w2))"

section \<open>The loop over waves\<close>

definition remaining_items :: "'w run_state \<Rightarrow> item list" where
  "remaining_items st = filter (\<lambda>s. item_id s \<notin> rs_completed st \<and> item_id s \<notin> rs_failed st \<and>
     item_status s \<noteq> COMPLETED) (rs_items st)"

definition next_wave :: "int \<Rightarrow> 'w run_state \<Rightarrow> (nat \<times> item) list" where
  "next_wave workers st =
     filter (\<lambda>x. item_id (snd x) \<notin> rs_failed st)
       (select_ready_wave snd (enumerate 0 (rs_items st)) (rs_completed st) [] workers)"

definition finish_run :: "'w run_state \<Rightarrow> bool \<Rightarrow> string list \<Rightarrow> phase_run_result" where
  "finish_run st stalled remaining =
     \<lparr>pr_completed_ids = sorted_list_of_set (rs_completed st),
      pr_failed_ids = sorted_list_of_set (rs_failed st), pr_stalled = stalled,
      pr_remaining_ids = remaining, pr_waves = rs_waves st\<rparr>"

definition run_wave :: "'w hooks \<Rightarrow> (nat \<times> item) list \<Rightarrow> 'w run_state \<Rightarrow> 'w run_state \<times> bool" where
  "run_wave h wave st =
     (let n = Suc (rs_waves st);
          w0 = hk_on_wave h n (map snd wave) (rs_world st);
          (results, w1) = run_all h 0 wave w0
      in settle_all h results (st\<lparr>rs_waves := n, rs_world := w1\<rparr>, False))"

fun run_loop :: "nat \<Rightarrow> 'w hooks \<Rightarrow> int \<Rightarrow> 'w run_state \<Rightarrow> ('w run_state \<times> phase_run_result) option" where
  "run_loop 0 h workers st = None"
| "run_loop (Suc n) h workers st =
     (if remaining_items st = [] then Some (st, finish_run st False [])
      else let wave = next_wave workers st
      in if wave = [] then Some (st, finish_run st True (map item_id (remaining_items st)))
      else let (st', progressed) = run_wave h wave st
      in if \<not> progressed
         then Some (st', finish_run st' True
                (map item_id (filter (\<lambda>s. item_id s \<notin> rs_completed st' \<and> item_status s \<noteq> COMPLETED)
                   (rs_items st'))))
         else run_loop n h workers st')"

definition initial_run :: "item list \<Rightarrow> 'w \<Rightarrow> 'w run_state" where
  "initial_run xs w =
     \<lparr>rs_items = xs, rs_completed = item_id ` set (filter (\<lambda>s. item_status s = COMPLETED) xs),
      rs_failed = {}, rs_waves = 0, rs_world = w\<rparr>"

definition run_parallel_phase ::
    "'w hooks \<Rightarrow> int \<Rightarrow> item list \<Rightarrow> 'w \<Rightarrow> ('w run_state \<times> phase_run_result) option" where
  "run_parallel_phase h workers xs w =
     run_loop (Suc (length xs)) h (max 1 workers) (initial_run xs w)"

section \<open>Which phases are run this way\<close>

fun some_pair :: "('a \<Rightarrow> 'a \<Rightarrow> bool) \<Rightarrow> 'a list \<Rightarrow> bool" where
  "some_pair P [] = False"
| "some_pair P (x # xs) = (list_ex (P x) xs \<or> some_pair P xs)"

definition may_pair :: "item \<Rightarrow> item \<Rightarrow> bool" where
  "may_pair a b \<longleftrightarrow> \<not> (item_id a \<in> set (item_depends_on b) \<or> item_id b \<in> set (item_depends_on a)) \<and>
     \<not> conflicts a b"

definition is_phase_parallel_eligible :: "phase \<Rightarrow> int \<Rightarrow> bool" where
  "is_phase_parallel_eligible ph workers =
     (if workers \<le> 1 then False
      else let pending = get_pending_subtasks ph
      in if length pending < 2 then False
         else if ph_parallel_safe ph then True
         else some_pair may_pair pending)"

section \<open>What settling a wave does to the state\<close>

definition ids :: "'w run_state \<Rightarrow> string list" where
  "ids st = map item_id (rs_items st)"

lemma settle_cases:
  assumes "i < length (rs_items st)"
  obtains (failed) w reason where
      "settle h i res (st, b) = (mark_failed i reason (st\<lparr>rs_world := w\<rparr>), b)"
  | (completed) now w1 w2 err where "res = Ran True err"
      "fst (hk_merge h (rs_world st) (rs_items st ! i) res)"
      "fst (hk_mark_complete h w1 (rs_items st ! i)) \<noteq> Some False"
      "settle h i res (st, b) =
         (st\<lparr>rs_world := w2, rs_items := (rs_items st)[i := item_complete now None (rs_items st ! i)],
            rs_completed := insert (item_id (rs_items st ! i)) (rs_completed st)\<rparr>, True)"
proof (cases res)
  case (Raised msg)
  then show ?thesis using failed [of msg "rs_world st"] by (simp add: settle_def Let_def)
next
  case (Ran ok err)
  obtain merged w1 where m: "hk_merge h (rs_world st) (rs_items st ! i) res = (merged, w1)" by fastforce
  obtain recd w2 where r: "hk_mark_complete h w1 (rs_items st ! i) = (recd, w2)" by fastforce
  consider "\<not> ok" | "ok" "\<not> merged" | "ok" "merged" "recd = Some False"
    | "ok" "merged" "recd \<noteq> Some False" by blast
  then show ?thesis
  proof cases
    case 1
    then show ?thesis using Ran failed [of _ "rs_world st"] by (simp add: settle_def Let_def)
  next
    case 2
    then show ?thesis using Ran m failed [of _ w1] by (simp add: settle_def Let_def)
  next
    case 3
    then show ?thesis using Ran m r failed [of _ w2] by (simp add: settle_def Let_def)
  next
    case 4
    then show ?thesis
      using Ran m r completed [of err w1 "hk_now h w2" w2] by (simp add: settle_def Let_def)
  qed
qed

end
