(* ===== verification/Parallel_Props.thy ===== *)
theory Parallel_Props
  imports Parallel_Runner
begin

text \<open>
  The parallel executor returns, never completes an item before its dependencies, never completes
  one a gate refused, and completes a validated phase whose hooks succeed.
\<close>

lemma mark_failed_frame [simp]:
  "rs_completed (mark_failed i reason st) = rs_completed st"
  "length (rs_items (mark_failed i reason st)) = length (rs_items st)"
  "i < length (rs_items st) \<Longrightarrow> ids (mark_failed i reason st) = ids st"
  "rs_items (mark_failed i reason st) = (rs_items st)[i := item_fail (Some reason) (rs_items st ! i)]"
  "rs_failed (mark_failed i reason st) = insert (item_id (rs_items st ! i)) (rs_failed st)"
  by (simp_all add: mark_failed_def Let_def ids_def map_update list_update_same_conv)

lemma settle_frame:
  assumes "i < length (rs_items st)"
  shows "ids (fst (settle h i res (st, b))) = ids st"
    "length (rs_items (fst (settle h i res (st, b)))) = length (rs_items st)"
    "rs_completed st \<subseteq> rs_completed (fst (settle h i res (st, b)))"
    "j \<noteq> i \<Longrightarrow> rs_items (fst (settle h i res (st, b))) ! j = rs_items st ! j"
    "snd (settle h i res (st, b)) \<Longrightarrow> b \<or> ids st ! i \<in> rs_completed (fst (settle h i res (st, b)))"
  using assms
  by (rule settle_cases [of i st h res b]; auto simp: ids_def map_update list_update_same_conv)+

text \<open>An item that is due for settling: in the wave, not yet settled.\<close>

definition due :: "'w run_state \<Rightarrow> nat \<Rightarrow> bool" where
  "due st i \<longleftrightarrow> i < length (rs_items st) \<and> item_status (rs_items st ! i) = PENDING \<and>
     set (item_depends_on (rs_items st ! i)) \<subseteq> rs_completed st"

lemma due_settle: "due st i \<Longrightarrow> due st j \<Longrightarrow> j \<noteq> i \<Longrightarrow> due (fst (settle h i res (st, b))) j"
  using settle_frame [where i = i and st = st and h = h and res = res and b = b] by (auto simp: due_def)

lemma settle_all_rule:
  assumes step: "\<And>st b i res. P st \<Longrightarrow> due st i \<Longrightarrow> R res \<Longrightarrow> P (fst (settle h i res (st, b)))"
    and "P st" "distinct (map fst rs)" "\<forall>i \<in> fst ` set rs. due st i" "\<forall>res \<in> snd ` set rs. R res"
  shows "P (fst (settle_all h rs (st, b)))"
  using assms(2-)
proof (induction rs arbitrary: st b)
  case (Cons x rs)
  obtain i res where x: "x = (i, res)" by fastforce
  obtain st1 b1 where s: "settle h i res (st, b) = (st1, b1)" by fastforce
  have "P st1" using step [of st i res b] Cons(2,4,5) s x by simp
  moreover have "\<forall>j \<in> fst ` set rs. due st1 j"
  proof
    fix j assume j: "j \<in> fst ` set rs"
    then have "j \<noteq> i" "due st j" using Cons(3,4) x by auto
    then show "due st1 j" using due_settle [of st i j h res b] Cons(4) s x by simp
  qed
  ultimately show ?case using Cons(1,3,5) s x by simp
qed simp

lemma settle_all_mono:
  assumes "\<forall>i \<in> fst ` set rs. i < length (rs_items st)"
  shows "ids (fst (settle_all h rs (st, b))) = ids st"
    "rs_completed st \<subseteq> rs_completed (fst (settle_all h rs (st, b)))"
    "rs_waves (fst (settle_all h rs (st, b))) = rs_waves st"
    "snd (settle_all h rs (st, b)) \<Longrightarrow>
       b \<or> (\<exists>i \<in> fst ` set rs. ids st ! i \<in> rs_completed (fst (settle_all h rs (st, b))))"
proof -
  have "ids (fst (settle_all h rs (st, b))) = ids st \<and>
    rs_completed st \<subseteq> rs_completed (fst (settle_all h rs (st, b))) \<and>
    rs_waves (fst (settle_all h rs (st, b))) = rs_waves st \<and>
    (snd (settle_all h rs (st, b)) \<longrightarrow>
       b \<or> (\<exists>i \<in> fst ` set rs. ids st ! i \<in> rs_completed (fst (settle_all h rs (st, b)))))"
    using assms
  proof (induction rs arbitrary: st b)
    case (Cons x rs)
    obtain i res where x: "x = (i, res)" by fastforce
    obtain st1 b1 where s: "settle h i res (st, b) = (st1, b1)" by fastforce
    have i: "i < length (rs_items st)" using Cons(2) x by simp
    note f = settle_frame [OF i, where h = h and res = res and b = b]
    have w: "rs_waves st1 = rs_waves st"
      by (rule settle_cases [OF i, of h res b]) (use s in \<open>auto simp: mark_failed_def Let_def\<close>)
    have "\<forall>i \<in> fst ` set rs. i < length (rs_items st1)" using f(2) s Cons(2) x by simp
    note ih = Cons(1) [OF this, of b1]
    show ?case using ih f(1,3,5) s w x by auto
  qed simp
  then show "ids (fst (settle_all h rs (st, b))) = ids st"
    "rs_completed st \<subseteq> rs_completed (fst (settle_all h rs (st, b)))"
    "rs_waves (fst (settle_all h rs (st, b))) = rs_waves st"
    "snd (settle_all h rs (st, b)) \<Longrightarrow>
       b \<or> (\<exists>i \<in> fst ` set rs. ids st ! i \<in> rs_completed (fst (settle_all h rs (st, b))))"
    by blast+
qed

section \<open>The wave\<close>

lemma run_all_fst: "map fst (fst (run_all h k wave w)) = map fst wave"
  by (induction wave arbitrary: k w) (auto simp: case_prod_beta)

lemma next_wave_members:
  assumes "(i, s) \<in> set (next_wave k st)"
  shows "i < length (rs_items st)" "s = rs_items st ! i" "due st i"
    "ids st ! i \<notin> rs_completed st" "ids st ! i \<notin> rs_failed st"
proof -
  from assms have mem: "(i, s) \<in> set (select_ready_wave snd (enumerate 0 (rs_items st)) (rs_completed st) [] k)"
    and nf: "item_id s \<notin> rs_failed st" by (simp_all add: next_wave_def)
  show i: "i < length (rs_items st)" and s: "s = rs_items st ! i"
    using wave_members(1) [OF mem] by (auto simp: in_set_enumerate_eq)
  show "due st i" "ids st ! i \<notin> rs_completed st" "ids st ! i \<notin> rs_failed st"
    using wave_members(2) [OF mem] i s nf by (auto simp: due_def ready_def ids_def)
qed

lemma next_wave_distinct: "distinct (map fst (next_wave k st))"
proof -
  let ?w = "next_wave k st"
  have "sorted_wrt (apart snd) ?w"
    unfolding next_wave_def by (intro sorted_wrt_filter wave_apart)
  moreover have "sorted_wrt (\<lambda>x y. fst x \<noteq> fst y) ?w"
    if "sorted_wrt (apart snd) ?w"
    using that
  proof (rule sorted_wrt_mono_rel [rotated])
    fix x y
    assume m: "x \<in> set ?w" "y \<in> set ?w" and a: "apart snd x y"
    show "fst x \<noteq> fst y"
    proof
      assume e: "fst x = fst y"
      have "snd x = snd y"
        using m next_wave_members(2) e by (metis prod.collapse)
      then show False using a by (simp add: apart_def)
    qed
  qed
  ultimately have "\<forall>i j. i < j \<longrightarrow> j < length ?w \<longrightarrow> fst (?w ! i) \<noteq> fst (?w ! j)"
    by (simp add: sorted_wrt_iff_nth_less)
  then show ?thesis by (simp add: distinct_conv_nth) (metis linorder_neqE_nat)
qed

definition wave_step :: "'w hooks \<Rightarrow> int \<Rightarrow> 'w run_state \<Rightarrow> 'w run_state" where
  "wave_step h k st = fst (run_wave h (next_wave k st) st)"

definition runs_to :: "'w hooks \<Rightarrow> run_result \<Rightarrow> bool" where
  "runs_to h res \<longleftrightarrow> (\<exists>w s k. res = fst (hk_run h w s k))"

lemma run_all_snd: "res \<in> snd ` set (fst (run_all h k wave w)) \<Longrightarrow> runs_to h res"
proof (induction wave arbitrary: k w)
  case (Cons x wave)
  obtain i s where x: "x = (i, s)" by fastforce
  obtain r w1 where r: "hk_run h w s k = (r, w1)" by fastforce
  then have "runs_to h r" by (metis fst_conv runs_to_def)
  with Cons x r show ?case by (auto simp: case_prod_beta)
qed simp

lemma run_wave_unfold:
  obtains w rs where "run_wave h (next_wave k st) st = settle_all h rs (st\<lparr>rs_waves := Suc (rs_waves st), rs_world := w\<rparr>, False)"
    "map fst rs = map fst (next_wave k st)" "\<forall>res \<in> snd ` set rs. runs_to h res"
proof -
  define w0 where "w0 = hk_on_wave h (Suc (rs_waves st)) (map snd (next_wave k st)) (rs_world st)"
  obtain rs w1 where ra: "run_all h 0 (next_wave k st) w0 = (rs, w1)" by fastforce
  show ?thesis
  proof (rule that [of rs w1])
    show "run_wave h (next_wave k st) st =
        settle_all h rs (st\<lparr>rs_waves := Suc (rs_waves st), rs_world := w1\<rparr>, False)"
      using ra by (simp add: run_wave_def Let_def w0_def)
    show "map fst rs = map fst (next_wave k st)"
      using run_all_fst [of h 0 "next_wave k st" w0] ra by simp
    show "\<forall>res \<in> snd ` set rs. runs_to h res"
      using run_all_snd [of _ h 0 "next_wave k st" w0] ra by simp
  qed
qed

lemma due_frame [simp]: "due (st\<lparr>rs_waves := n, rs_world := w\<rparr>) i = due st i"
  by (simp add: due_def)

lemma wave_step_rule:
  assumes step: "\<And>st b i res. P st \<Longrightarrow> due st i \<Longrightarrow> runs_to h res \<Longrightarrow> P (fst (settle h i res (st, b)))"
    and upd: "\<And>n w. P st \<Longrightarrow> P (st\<lparr>rs_waves := n, rs_world := w\<rparr>)" and "P st"
  shows "P (wave_step h k st)"
proof -
  obtain w rs where run: "run_wave h (next_wave k st) st =
      settle_all h rs (st\<lparr>rs_waves := Suc (rs_waves st), rs_world := w\<rparr>, False)"
    and fst: "map fst rs = map fst (next_wave k st)"
    and res: "\<forall>res \<in> snd ` set rs. runs_to h res" by (rule run_wave_unfold)
  have "\<forall>i \<in> fst ` set rs. due st i"
    using fst next_wave_members(3) [of _ _ k st] by (metis (no_types, lifting) imageE list.set_map prod.collapse)
  then show ?thesis
    unfolding wave_step_def run
    by (intro settle_all_rule [where P = P and R = "runs_to h"])
      (use step upd assms(3) fst res next_wave_distinct [of k st] in auto)
qed


lemma run_wave_frame:
  "ids (wave_step h k st) = ids st"
  "rs_completed st \<subseteq> rs_completed (wave_step h k st)"
  "rs_waves (wave_step h k st) = Suc (rs_waves st)"
  "snd (run_wave h (next_wave k st) st) \<Longrightarrow>
     \<exists>x \<in> set (ids st). x \<notin> rs_completed st \<and> x \<in> rs_completed (wave_step h k st)"
proof -
  obtain w rs where run: "run_wave h (next_wave k st) st =
      settle_all h rs (st\<lparr>rs_waves := Suc (rs_waves st), rs_world := w\<rparr>, False)"
    and fst: "map fst rs = map fst (next_wave k st)" by (rule run_wave_unfold)
  have set: "fst ` set rs = fst ` set (next_wave k st)" using fst by (metis list.set_map)
  then have lt: "\<forall>i \<in> fst ` set rs. i < length (rs_items (st\<lparr>rs_waves := Suc (rs_waves st), rs_world := w\<rparr>))"
    using next_wave_members(1) [of _ _ k st] by auto
  note m = settle_all_mono [OF lt, where h = h and b = False, folded run]
  show "ids (wave_step h k st) = ids st"
    "rs_completed st \<subseteq> rs_completed (wave_step h k st)"
    "rs_waves (wave_step h k st) = Suc (rs_waves st)"
    using m(1,2,3) by (simp_all add: wave_step_def ids_def)
  assume "snd (run_wave h (next_wave k st) st)"
  then obtain i s where "(i, s) \<in> set (next_wave k st)" "ids st ! i \<in> rs_completed (wave_step h k st)"
    using m(4) set by (auto simp: wave_step_def ids_def)
  then show "\<exists>x \<in> set (ids st). x \<notin> rs_completed st \<and> x \<in> rs_completed (wave_step h k st)"
    using next_wave_members(1,4) [of i s k st] by (auto simp: ids_def)
qed

section \<open>The loop\<close>

definition todo_count :: "'w run_state \<Rightarrow> nat" where
  "todo_count st = card (set (ids st) - rs_completed st)"

lemma todo_decreases:
  "snd (run_wave h (next_wave k st) st) \<Longrightarrow> todo_count (wave_step h k st) < todo_count st"
  using run_wave_frame [where h = h and k = k and st = st]
  unfolding todo_count_def by (intro psubset_card_mono) auto

lemma todo_positive:
  assumes "next_wave k st \<noteq> []"
  shows "0 < todo_count st"
proof -
  obtain i s where "(i, s) \<in> set (next_wave k st)" using assms by (cases "next_wave k st") auto
  then have "ids st ! i \<in> set (ids st) - rs_completed st"
    using next_wave_members(1,4) [of i s k st] by (simp add: ids_def)
  then show ?thesis by (auto simp: todo_count_def card_gt_0_iff)
qed

text \<open>
  The loop makes wave steps and then stops, for one of three reasons. The final state is reached
  by those steps, so every invariant of a step holds of it.
\<close>

lemma run_loop_ends:
  assumes "todo_count st < n"
  obtains st' r es where "run_loop n h k st = Some (st', r)" "st' = foldl (\<lambda>s _. wave_step h k s) st (es :: unit list)"
    "pr_completed_ids r = sorted_list_of_set (rs_completed st')"
    "pr_failed_ids r = sorted_list_of_set (rs_failed st')"
    "pr_waves r \<le> rs_waves st + todo_count st"
    "\<not> pr_stalled r \<Longrightarrow> remaining_items st' = [] \<and> pr_remaining_ids r = []"
proof -
  have "\<exists>st' r es. run_loop n h k st = Some (st', r) \<and> st' = foldl (\<lambda>s _. wave_step h k s) st (es :: unit list) \<and>
    pr_completed_ids r = sorted_list_of_set (rs_completed st') \<and>
    pr_failed_ids r = sorted_list_of_set (rs_failed st') \<and>
    pr_waves r \<le> rs_waves st + todo_count st \<and>
    (\<not> pr_stalled r \<longrightarrow> remaining_items st' = [] \<and> pr_remaining_ids r = [])"
    using assms
  proof (induction n arbitrary: st)
    case (Suc n)
    consider "remaining_items st = []" | "remaining_items st \<noteq> []" "next_wave k st = []"
      | (last) "remaining_items st \<noteq> []" "next_wave k st \<noteq> []" "\<not> snd (run_wave h (next_wave k st) st)"
      | (more) "remaining_items st \<noteq> []" "next_wave k st \<noteq> []" "snd (run_wave h (next_wave k st) st)"
      by blast
    then show ?case
    proof cases
      case last
      then obtain rem where "run_loop (Suc n) h k st = Some (wave_step h k st, finish_run (wave_step h k st) True rem)"
        by (simp add: Let_def case_prod_beta wave_step_def)
      moreover have "wave_step h k st = foldl (\<lambda>s _. wave_step h k s) st [()]" by simp
      moreover have "pr_waves (finish_run (wave_step h k st) True rem) \<le> rs_waves st + todo_count st"
        using todo_positive [OF last(2)] run_wave_frame(3) [of h k st] by (simp add: finish_run_def)
      ultimately show ?thesis by (fastforce simp: finish_run_def simp del: foldl_Cons foldl_Nil)
    next
      case more
      have less: "todo_count (wave_step h k st) < todo_count st" by (rule todo_decreases [OF more(3)])
      then obtain st' r es where ih: "run_loop n h k (wave_step h k st) = Some (st', r)"
        "st' = foldl (\<lambda>s _. wave_step h k s) (wave_step h k st) (es :: unit list)"
        "pr_completed_ids r = sorted_list_of_set (rs_completed st')"
        "pr_failed_ids r = sorted_list_of_set (rs_failed st')"
        "pr_waves r \<le> rs_waves (wave_step h k st) + todo_count (wave_step h k st)"
        "\<not> pr_stalled r \<longrightarrow> remaining_items st' = [] \<and> pr_remaining_ids r = []"
        using Suc by (meson Suc_less_eq less_le_trans less_Suc_eq_le)
      have "run_loop (Suc n) h k st = Some (st', r)"
        using more ih(1) by (simp add: Let_def case_prod_beta wave_step_def)
      moreover have "st' = foldl (\<lambda>s _. wave_step h k s) st (() # es)" using ih(2) by simp
      moreover have "pr_waves r \<le> rs_waves st + todo_count st"
        using ih(5) less run_wave_frame(3) [of h k st] by simp
      ultimately show ?thesis using ih(3,4,6) by blast
    qed (auto simp: finish_run_def intro!: exI [of _ "[]"])
  qed simp
  then show ?thesis using that by blast
qed

section \<open>The invariant of a run\<close>

definition run_ok :: "item list \<Rightarrow> 'w run_state \<Rightarrow> bool" where
  "run_ok xs st \<longleftrightarrow>
     ids st = map item_id xs \<and> map item_depends_on (rs_items st) = map item_depends_on xs \<and>
     rs_completed st \<subseteq> item_id ` set xs \<and> rs_failed st \<subseteq> item_id ` set xs \<and>
     (\<forall>j < length xs. (item_status (rs_items st ! j) = COMPLETED) = (item_id (xs ! j) \<in> rs_completed st)) \<and>
     (\<forall>j < length xs. item_id (xs ! j) \<in> rs_failed st \<longrightarrow> item_status (rs_items st ! j) = FAILED) \<and>
     (\<forall>j < length xs. item_id (xs ! j) \<in> rs_completed st \<longrightarrow>
        item_status (xs ! j) = COMPLETED \<or> set (item_depends_on (xs ! j)) \<subseteq> rs_completed st)"

lemma run_okD:
  assumes "run_ok xs st"
  shows "length (rs_items st) = length xs"
    "j < length xs \<Longrightarrow> item_id (rs_items st ! j) = item_id (xs ! j)"
    "j < length xs \<Longrightarrow> item_depends_on (rs_items st ! j) = item_depends_on (xs ! j)"
proof -
  have e: "map item_id (rs_items st) = map item_id xs"
    "map item_depends_on (rs_items st) = map item_depends_on xs"
    using assms by (simp_all add: run_ok_def ids_def)
  show l: "length (rs_items st) = length xs" using e(1) by (metis length_map)
  show "item_id (rs_items st ! j) = item_id (xs ! j)" "item_depends_on (rs_items st ! j) = item_depends_on (xs ! j)"
    if "j < length xs" using e l that by (metis nth_map)+
qed

lemma map_update_same: "i < length xs \<Longrightarrow> f y = f (xs ! i) \<Longrightarrow> map f (xs[i := y]) = map f xs"
  by (simp add: map_update list_update_same_conv)

lemma item_finished_status [simp]:
  "item_status (item_complete now out x) = COMPLETED" "item_status (item_fail reason x) = FAILED"
  using any_item.op_laws by simp_all

lemma item_deps_frame [simp]:
  "item_depends_on (item_complete now out x) = item_depends_on x"
  "item_depends_on (item_fail reason x) = item_depends_on x"
  by simp_all

lemma settle_run_ok:
  assumes ok: "run_ok xs st" and due: "due st i" and dist: "distinct (map item_id xs)"
  shows "run_ok xs (fst (settle h i res (st, b)))"
proof -
  note D = run_okD [OF ok]
  have i: "i < length xs" and li: "i < length (rs_items st)" and pend: "item_status (rs_items st ! i) = PENDING"
    and deps: "set (item_depends_on (xs ! i)) \<subseteq> rs_completed st"
    using due D by (auto simp: due_def)
  have x: "item_id (rs_items st ! i) = item_id (xs ! i)" using D(2) [OF i] .
  have other: "item_id (xs ! j) = item_id (xs ! i) \<longleftrightarrow> j = i" if "j < length xs" for j
    using dist that i by (metis distinct_conv_nth length_map nth_map)
  have nc: "item_id (xs ! i) \<notin> rs_completed st" and nf: "item_id (xs ! i) \<notin> rs_failed st"
    using ok i pend by (auto simp: run_ok_def)
  have mem: "item_id (xs ! i) \<in> item_id ` set xs" using i by simp
  show ?thesis
  proof (rule settle_cases [OF li, of h res b])
    fix w reason
    assume s: "settle h i res (st, b) = (mark_failed i reason (st\<lparr>rs_world := w\<rparr>), b)"
    show ?thesis
      using ok nc li D(1) other x mem unfolding s run_ok_def ids_def
      by (simp add: map_update_same nth_list_update)
  next
    fix now w1 w2 err
    assume s: "settle h i res (st, b) =
         (st\<lparr>rs_world := w2, rs_items := (rs_items st)[i := item_complete now None (rs_items st ! i)],
            rs_completed := insert (item_id (rs_items st ! i)) (rs_completed st)\<rparr>, True)"
    show ?thesis
      using ok nf li D(1) other x mem deps unfolding s run_ok_def ids_def
      by (simp add: map_update_same nth_list_update) (metis insertI2 subset_insertI2)
  qed
qed


lemma run_ok_upd: "run_ok xs st \<Longrightarrow> run_ok xs (st\<lparr>rs_waves := n, rs_world := w\<rparr>)"
  by (simp add: run_ok_def ids_def)

interpretation runner: machine "\<lambda>st (_ :: unit). wave_step h k st" "\<lambda>_. True"
    "\<lambda>st. distinct (map item_id xs) \<and> run_ok xs st"
  by unfold_locales (auto intro: wave_step_rule settle_run_ok run_ok_upd)

lemma initial_ok:
  assumes "distinct (map item_id xs)"
  shows "run_ok xs (initial_run xs w)"
proof -
  have "item_id (xs ! j) \<in> item_id ` {s \<in> set xs. item_status s = COMPLETED} \<longleftrightarrow> item_status (xs ! j) = COMPLETED"
    if "j < length xs" for j
  proof -
    have "inj_on item_id (set xs)" using assms by (simp add: distinct_map)
    then show ?thesis using nth_mem [OF that] by (auto dest: inj_onD)
  qed
  then show ?thesis by (auto simp: run_ok_def initial_run_def ids_def)
qed

lemma waves_initial [simp]: "rs_waves (initial_run xs w) = 0"
  by (simp add: initial_run_def)

lemma todo_initial: "todo_count (initial_run xs w) \<le> length xs"
proof -
  have "todo_count (initial_run xs w) \<le> card (set (map item_id xs))"
    unfolding todo_count_def by (intro card_mono) (auto simp: initial_run_def ids_def)
  also have "\<dots> \<le> length xs" using card_length [of "map item_id xs"] by simp
  finally show ?thesis .
qed

lemma run_phase_ends:
  obtains st r es where "run_parallel_phase h workers xs w = Some (st, r)"
    "st = foldl (\<lambda>s _. wave_step h (max 1 workers) s) (initial_run xs w) (es :: unit list)"
    "pr_completed_ids r = sorted_list_of_set (rs_completed st)"
    "pr_failed_ids r = sorted_list_of_set (rs_failed st)"
    "pr_waves r \<le> todo_count (initial_run xs w)"
    "\<not> pr_stalled r \<Longrightarrow> remaining_items st = [] \<and> pr_remaining_ids r = []"
proof -
  have "todo_count (initial_run xs w) < Suc (length xs)"
    using todo_initial [of xs w] by simp
  then obtain st r and es :: "unit list" where e: "run_loop (Suc (length xs)) h (max 1 workers) (initial_run xs w) = Some (st, r)"
    "st = foldl (\<lambda>s _. wave_step h (max 1 workers) s) (initial_run xs w) es"
    "pr_completed_ids r = sorted_list_of_set (rs_completed st)"
    "pr_failed_ids r = sorted_list_of_set (rs_failed st)"
    "pr_waves r \<le> rs_waves (initial_run xs w) + todo_count (initial_run xs w)"
    "\<not> pr_stalled r \<Longrightarrow> remaining_items st = [] \<and> pr_remaining_ids r = []"
    using run_loop_ends [where h = h and k = "max 1 workers"] by blast
  show ?thesis
    by (rule that [of st r es]) (use e in \<open>simp_all add: run_parallel_phase_def\<close>)
qed

lemma run_phase_ok:
  assumes "run_parallel_phase h workers xs w = Some (st, r)" "distinct (map item_id xs)"
  shows "run_ok xs st" "set (pr_completed_ids r) = rs_completed st" "set (pr_failed_ids r) = rs_failed st"
    "\<not> pr_stalled r \<Longrightarrow> remaining_items st = [] \<and> pr_remaining_ids r = []"
proof -
  obtain st' r' and es :: "unit list" where e: "run_parallel_phase h workers xs w = Some (st', r')"
    "st' = foldl (\<lambda>s _. wave_step h (max 1 workers) s) (initial_run xs w) es"
    "pr_completed_ids r' = sorted_list_of_set (rs_completed st')"
    "pr_failed_ids r' = sorted_list_of_set (rs_failed st')"
    "\<not> pr_stalled r' \<Longrightarrow> remaining_items st' = [] \<and> pr_remaining_ids r' = []"
    by (rule run_phase_ends [of h workers xs w]) blast
  then have same: "st' = st" "r' = r" using assms(1) by simp_all
  show ok: "run_ok xs st"
    using runner.run_inv [where s = "initial_run xs w" and es = es and h = h and k = "max 1 workers" and xs = xs]
      initial_ok [OF assms(2), of w] assms(2) e(2) same by simp
  have "finite (rs_completed st)" "finite (rs_failed st)"
    using ok by (auto simp: run_ok_def intro: finite_subset)
  then show "set (pr_completed_ids r) = rs_completed st" "set (pr_failed_ids r) = rs_failed st"
    using e same by simp_all
  show "\<not> pr_stalled r \<Longrightarrow> remaining_items st = [] \<and> pr_remaining_ids r = []"
    using e same by simp
qed

section \<open>What a caller may rely on\<close>

text \<open>C4: a run of a phase always ends with a report, whatever the sessions, the merges and the
  completion gate answer, after at most as many waves as there were items not completed at the start.\<close>

theorem runner_returns:
  "\<exists>st r. run_parallel_phase h workers xs w = Some (st, r) \<and>
          pr_waves r \<le> length (filter (\<lambda>s. item_status s \<noteq> COMPLETED) xs)"
proof -
  obtain st r where e: "run_parallel_phase h workers xs w = Some (st, r)"
    "pr_waves r \<le> todo_count (initial_run xs w)"
    by (rule run_phase_ends [of h workers xs w]) blast
  let ?open = "filter (\<lambda>s. item_status s \<noteq> COMPLETED) xs"
  have "set (ids (initial_run xs w)) - rs_completed (initial_run xs w) \<subseteq> set (map item_id ?open)"
    by (auto simp: initial_run_def ids_def)
  then have "todo_count (initial_run xs w) \<le> card (set (map item_id ?open))"
    unfolding todo_count_def by (intro card_mono) auto
  also have "\<dots> \<le> length ?open" using card_length [of "map item_id ?open"] by simp
  finally show ?thesis using e by auto
qed


lemma reported_items:
  assumes "run_parallel_phase h workers xs w = Some (st, r)" "distinct (map item_id xs)"
    and "s \<in> set (rs_items st)"
  shows "(item_status s = COMPLETED \<longleftrightarrow> item_id s \<in> set (pr_completed_ids r)) \<and>
         (item_id s \<in> set (pr_failed_ids r) \<longrightarrow> item_status s = FAILED)"
proof -
  note ok = run_phase_ok [OF assms(1,2)]
  note D = run_okD [OF ok(1)]
  obtain j where j: "j < length xs" "s = rs_items st ! j"
    using assms(3) D(1) by (metis in_set_conv_nth)
  then show ?thesis using ok D(2) [OF j(1)] by (auto simp: run_ok_def)
qed

lemma ok_means_completed:
  assumes "run_parallel_phase h workers xs w = Some (st, r)" "distinct (map item_id xs)" "pr_ok r"
    and "s \<in> set (rs_items st)"
  shows "item_status s = COMPLETED"
proof -
  note ok = run_phase_ok [OF assms(1,2)]
  have "remaining_items st = []" "pr_failed_ids r = []"
    using ok(4) assms(3) by (simp_all add: pr_ok_def)
  then have "item_id s \<in> set (pr_completed_ids r) \<or> item_status s = COMPLETED"
    using assms(4) ok(2,3) by (auto simp: remaining_items_def filter_empty_conv)
  then show ?thesis
    using reported_items [OF assms(1,2,4)] by blast
qed

text \<open>The report of a run is true of the items it leaves: they are the phase's items in their order,
  the completed ids are those of the items with status completed, a failed id belongs to a failed item, and a
  report that says ok means that every item is completed.\<close>

theorem runner_report_sound:
  assumes "run_parallel_phase h workers xs w = Some (st, r)" "distinct (map item_id xs)"
  shows "map item_id (rs_items st) = map item_id xs \<and>
    (\<forall>s \<in> set (rs_items st). (item_status s = COMPLETED \<longleftrightarrow> item_id s \<in> set (pr_completed_ids r)) \<and>
       (item_id s \<in> set (pr_failed_ids r) \<longrightarrow> item_status s = FAILED) \<and> (pr_ok r \<longrightarrow> item_status s = COMPLETED))"
proof (intro conjI ballI)
  show "map item_id (rs_items st) = map item_id xs"
    using run_phase_ok(1) [OF assms] by (simp add: run_ok_def ids_def)
qed (use reported_items [OF assms] ok_means_completed [OF assms] in blast)+

text \<open>An item whose session, merge or gate never says yes is not completed.\<close>

definition never_accepted :: "'w hooks \<Rightarrow> string \<Rightarrow> bool" where
  "never_accepted h i \<longleftrightarrow>
     (\<forall>s w err. item_id s = i \<longrightarrow> \<not> fst (hk_merge h w s (Ran True err))) \<or>
     (\<forall>s w. item_id s = i \<longrightarrow> fst (hk_mark_complete h w s) = Some False)"


interpretation refusing: machine "\<lambda>st (_ :: unit). wave_step h k st" "\<lambda>_. True"
    "\<lambda>st. never_accepted h i \<and> i \<notin> rs_completed st"
proof (unfold_locales, elim conjE, intro conjI)
  fix st :: "'a run_state" and e :: unit
  assume never: "never_accepted h i" and "i \<notin> rs_completed st"
  show "i \<notin> rs_completed (wave_step h k st)"
  proof (rule wave_step_rule)
    fix st :: "'a run_state" and b j res
    assume n: "i \<notin> rs_completed st" and "due st j"
    then have j: "j < length (rs_items st)" by (simp add: due_def)
    show "i \<notin> rs_completed (fst (settle h j res (st, b)))"
      by (rule settle_cases [OF j, of h res b]) (use n never in \<open>auto simp: never_accepted_def\<close>)
  qed (use \<open>i \<notin> rs_completed st\<close> in simp_all)
qed

text \<open>An item whose merge or completion gate never accepts it is never reported as completed,
  whatever its session says.\<close>

theorem refused_never_completed:
  assumes "run_parallel_phase h workers xs w = Some (st, r)" "never_accepted h (item_id s)"
    and "\<forall>x \<in> set xs. item_id x = item_id s \<longrightarrow> item_status x \<noteq> COMPLETED"
  shows "item_id s \<notin> set (pr_completed_ids r)"
proof -
  obtain st' r' and es :: "unit list" where e: "run_parallel_phase h workers xs w = Some (st', r')"
    "st' = foldl (\<lambda>s _. wave_step h (max 1 workers) s) (initial_run xs w) es"
    "pr_completed_ids r' = sorted_list_of_set (rs_completed st')"
    by (rule run_phase_ends [of h workers xs w]) blast
  have "item_id s \<notin> rs_completed (initial_run xs w)"
    using assms(3) by (auto simp: initial_run_def)
  then have "item_id s \<notin> rs_completed st'"
    using refusing.run_inv [where s = "initial_run xs w" and es = es and h = h and k = "max 1 workers"
        and i = "item_id s"] assms(2) e(2) by simp
  then show ?thesis
    using e assms(1) by (cases "finite (rs_completed st')") auto
qed


section \<open>A phase that can be completed is completed\<close>

definition accepting :: "'w hooks \<Rightarrow> bool" where
  "accepting h \<longleftrightarrow> (\<forall>w s k. \<exists>err. fst (hk_run h w s k) = Ran True err) \<and>
     (\<forall>w s res. fst (hk_merge h w s res)) \<and> (\<forall>w s. fst (hk_mark_complete h w s) \<noteq> Some False)"

lemma settle_accepting:
  assumes "accepting h" "runs_to h res" "i < length (rs_items st)"
  obtains now w where "settle h i res (st, b) =
    (st\<lparr>rs_world := w, rs_items := (rs_items st)[i := item_complete now None (rs_items st ! i)],
       rs_completed := insert (item_id (rs_items st ! i)) (rs_completed st)\<rparr>, True)"
proof -
  obtain err where res: "res = Ran True err"
    using assms(1,2) unfolding accepting_def runs_to_def by metis
  obtain merged w1 where m: "hk_merge h (rs_world st) (rs_items st ! i) res = (merged, w1)" by fastforce
  obtain recd w2 where r: "hk_mark_complete h w1 (rs_items st ! i) = (recd, w2)" by fastforce
  have "merged" "recd \<noteq> Some False"
    using assms(1) m r unfolding accepting_def by (metis fst_conv)+
  then show ?thesis using res m r that by (simp add: settle_def Let_def)
qed

lemma settle_all_accepting:
  assumes "accepting h" "rs \<noteq> []" "\<forall>res \<in> snd ` set rs. runs_to h res"
    and "\<forall>i \<in> fst ` set rs. i < length (rs_items st)"
  shows "snd (settle_all h rs (st, b))"
proof -
  have keep: "snd (settle_all h rs (st, True))"
    if "\<forall>res \<in> snd ` set rs. runs_to h res" "\<forall>i \<in> fst ` set rs. i < length (rs_items st)" for rs st
    using that
  proof (induction rs arbitrary: st)
    case (Cons x rs)
    obtain i res where x: "x = (i, res)" by fastforce
    obtain now w where s: "settle h i res (st, True) =
      (st\<lparr>rs_world := w, rs_items := (rs_items st)[i := item_complete now None (rs_items st ! i)],
         rs_completed := insert (item_id (rs_items st ! i)) (rs_completed st)\<rparr>, True)"
      using settle_accepting [OF assms(1), of res i st] Cons(2,3) x by auto
    show ?case using Cons(1) Cons(2,3) x by (simp add: s)
  qed simp
  obtain i res rs' where rs: "rs = (i, res) # rs'" using assms(2) by (cases rs) auto
  obtain now w where "settle h i res (st, b) =
    (st\<lparr>rs_world := w, rs_items := (rs_items st)[i := item_complete now None (rs_items st ! i)],
       rs_completed := insert (item_id (rs_items st ! i)) (rs_completed st)\<rparr>, True)"
    using settle_accepting [OF assms(1), of res i st] assms(3,4) rs by auto
  then show ?thesis using keep assms(3,4) rs by simp
qed

lemma run_loop_never_stalls:
  assumes "\<And>st. P st \<Longrightarrow> P (wave_step h k st)"
    and "\<And>st. P st \<Longrightarrow> remaining_items st \<noteq> [] \<Longrightarrow>
           next_wave k st \<noteq> [] \<and> snd (run_wave h (next_wave k st) st)"
    and "P st" "run_loop n h k st = Some (st', r)"
  shows "P st' \<and> \<not> pr_stalled r \<and> pr_failed_ids r = sorted_list_of_set (rs_failed st') \<and>
         pr_remaining_ids r = [] \<and> remaining_items st' = []"
  using assms(3,4)
proof (induction n arbitrary: st)
  case (Suc n)
  show ?case
  proof (cases "remaining_items st = []")
    case True
    then show ?thesis using Suc(2,3) by (auto simp: finish_run_def)
  next
    case False
    then have "next_wave k st \<noteq> [] \<and> snd (run_wave h (next_wave k st) st)"
      using assms(2) Suc(2) by blast
    then have "run_loop n h k (wave_step h k st) = Some (st', r)"
      using Suc(3) False by (simp add: Let_def case_prod_beta wave_step_def)
    then show ?thesis using Suc(1) assms(1) Suc(2) by blast
  qed
qed simp

definition all_open :: "item list \<Rightarrow> 'w run_state \<Rightarrow> bool" where
  "all_open xs st \<longleftrightarrow> run_ok xs st \<and> rs_failed st = {} \<and>
     (\<forall>j < length xs. item_status (rs_items st ! j) \<in> {PENDING, COMPLETED})"

lemma all_open_step:
  assumes "accepting h" "distinct (map item_id xs)" "all_open xs st"
  shows "all_open xs (wave_step h k st)"
proof (rule wave_step_rule)
  fix st :: "'a run_state" and b i res
  assume o: "all_open xs st" and due: "due st i" and res: "runs_to h res"
  have i: "i < length (rs_items st)" using due by (simp add: due_def)
  obtain now w where s: "settle h i res (st, b) =
    (st\<lparr>rs_world := w, rs_items := (rs_items st)[i := item_complete now None (rs_items st ! i)],
       rs_completed := insert (item_id (rs_items st ! i)) (rs_completed st)\<rparr>, True)"
    using settle_accepting [OF assms(1) res i] by blast
  have "run_ok xs (fst (settle h i res (st, b)))"
    using o due assms(2) by (simp add: all_open_def settle_run_ok)
  then show "all_open xs (fst (settle h i res (st, b)))"
    using o i run_okD(1) [of xs st] by (auto simp: all_open_def s nth_list_update)
qed (use assms(3) in \<open>simp_all add: all_open_def run_ok_upd\<close>)

lemma open_not_stalled:
  assumes "accepting h" "all_open xs st" "remaining_items st \<noteq> []"
    and "\<forall>s \<in> set xs. set (item_depends_on s) \<subseteq> item_id ` set xs" "acyclic (dep_relation xs)"
  shows "next_wave k st \<noteq> [] \<and> snd (run_wave h (next_wave k st) st)"
proof -
  have ok: "run_ok xs st" and nf: "rs_failed st = {}" using assms(2) by (simp_all add: all_open_def)
  note D = run_okD [OF ok]
  have st: "item_status s = (if item_id s \<in> rs_completed st then COMPLETED else PENDING)"
    if mem: "s \<in> set (rs_items st)" for s
  proof -
    obtain j where j: "j < length xs" "s = rs_items st ! j"
      using mem D(1) by (metis in_set_conv_nth)
    have "item_status (rs_items st ! j) \<in> {PENDING, COMPLETED}"
      using assms(2) j(1) unfolding all_open_def by blast
    moreover have "(item_status (rs_items st ! j) = COMPLETED) = (item_id (xs ! j) \<in> rs_completed st)"
      using ok j(1) unfolding run_ok_def by blast
    ultimately show ?thesis using D(2) [OF j(1)] j(2) by auto
  qed
  have img: "item_id ` set (rs_items st) = item_id ` set xs"
    using ok unfolding run_ok_def ids_def by (metis list.set_map)
  have deps: "\<exists>x \<in> set xs. item_id x = item_id s \<and> item_depends_on x = item_depends_on s"
    if mem: "s \<in> set (rs_items st)" for s
  proof -
    obtain j where "j < length xs" "s = rs_items st ! j"
      using mem D(1) by (metis in_set_conv_nth)
    then show ?thesis using D(2,3) [of j] by (intro bexI [of _ "xs ! j"]) simp_all
  qed
  have rel: "dep_relation (rs_items st) \<subseteq> dep_relation xs"
  proof
    fix p assume "p \<in> dep_relation (rs_items st)"
    then obtain s d where s: "s \<in> set (rs_items st)" "d \<in> set (item_depends_on s)" "p = (item_id s, d)"
      by (auto simp: dep_relation_def)
    moreover obtain x where "x \<in> set xs" "item_id x = item_id s" "item_depends_on x = item_depends_on s"
      using deps [OF s(1)] by blast
    ultimately show "p \<in> dep_relation xs" unfolding dep_relation_def by (metis (mono_tags, lifting) mem_Collect_eq)
  qed
  have "\<exists>s \<in> set (rs_items st). ready (\<lambda>s. s) (rs_completed st) s"
  proof (rule acyclic_has_ready)
    show "\<forall>s \<in> set (rs_items st). set (item_depends_on s) \<subseteq> item_id ` set (rs_items st)"
    proof
      fix s assume "s \<in> set (rs_items st)"
      then obtain x where "x \<in> set xs" "item_depends_on x = item_depends_on s" using deps by blast
      then show "set (item_depends_on s) \<subseteq> item_id ` set (rs_items st)"
        unfolding img using assms(4) by metis
    qed
    show "acyclic (dep_relation (rs_items st))" using rel assms(5) by (rule acyclic_subset [rotated])
    show "\<exists>s \<in> set (rs_items st). item_id s \<notin> rs_completed st"
      using assms(3) by (auto simp: remaining_items_def filter_empty_conv)
  qed (simp add: st)
  then obtain j where j: "j < length (rs_items st)" "ready (\<lambda>s. s) (rs_completed st) (rs_items st ! j)"
    by (metis in_set_conv_nth)
  then have "(j, rs_items st ! j) \<in> set (enumerate 0 (rs_items st))" by (simp add: in_set_enumerate_eq)
  moreover have "ready snd (rs_completed st) (j, rs_items st ! j)" using j(2) by (simp add: ready_def)
  ultimately have "select_ready_wave snd (enumerate 0 (rs_items st)) (rs_completed st) [] k \<noteq> []"
    by (rule wave_not_stalled)
  then have ne: "next_wave k st \<noteq> []" using nf by (simp add: next_wave_def)
  obtain w rs where run: "run_wave h (next_wave k st) st =
      settle_all h rs (st\<lparr>rs_waves := Suc (rs_waves st), rs_world := w\<rparr>, False)"
    and fst: "map fst rs = map fst (next_wave k st)"
    and res: "\<forall>res \<in> snd ` set rs. runs_to h res" by (rule run_wave_unfold)
  have "fst ` set rs = fst ` set (next_wave k st)" using fst by (metis list.set_map)
  then have "snd (run_wave h (next_wave k st) st)"
    unfolding run using ne fst res next_wave_members(1) [of _ _ k st]
    by (intro settle_all_accepting [OF assms(1)]) auto
  with ne show ?thesis by blast
qed

lemma accepted_phase_completes:
  assumes "accepting h" "distinct (map item_id xs)" "\<forall>s \<in> set xs. item_status s = PENDING"
    and v: "\<forall>s \<in> set xs. set (item_depends_on s) \<subseteq> item_id ` set xs" "acyclic (dep_relation xs)"
  shows "\<exists>st r. run_parallel_phase h workers xs w = Some (st, r) \<and> pr_ok r \<and>
                set (pr_completed_ids r) = item_id ` set xs"
proof -
  obtain st r where run: "run_parallel_phase h workers xs w = Some (st, r)"
    by (rule run_phase_ends [of h workers xs w]) blast
  have "all_open xs (initial_run xs w)"
    using initial_ok [OF assms(2), of w] assms(3) by (auto simp: all_open_def initial_run_def)
  then have fin: "all_open xs st \<and> \<not> pr_stalled r \<and> pr_failed_ids r = sorted_list_of_set (rs_failed st) \<and>
      pr_remaining_ids r = [] \<and> remaining_items st = []"
    using run_loop_never_stalls [of "all_open xs" h "max 1 workers"] all_open_step [OF assms(1,2)]
      open_not_stalled [OF assms(1) _ _ v] run unfolding run_parallel_phase_def by blast
  then have ok: "pr_ok r" by (simp add: pr_ok_def all_open_def)
  have "item_id ` set xs = item_id ` set (rs_items st)"
    using run_phase_ok(1) [OF run assms(2)] unfolding run_ok_def ids_def by (metis list.set_map)
  moreover have "item_id ` set (rs_items st) \<subseteq> set (pr_completed_ids r)"
    using ok_means_completed [OF run assms(2) ok] reported_items [OF run assms(2)]
    by blast
  moreover have "set (pr_completed_ids r) \<subseteq> item_id ` set xs"
    using run_phase_ok(1,2) [OF run assms(2)] by (simp add: run_ok_def)
  ultimately show ?thesis using run ok by blast
qed


section \<open>At concrete inputs\<close>

definition yes_hooks :: "nat hooks" where
  "yes_hooks = \<lparr>hk_run = (\<lambda>w s k. (Ran True None, w)), hk_merge = (\<lambda>w s res. (True, w)),
     hk_mark_complete = (\<lambda>w s. (None, w)), hk_on_wave = (\<lambda>n ss w. Suc w), hk_now = (\<lambda>w. ''now'')\<rparr>"

definition two_items :: "item list" where
  "two_items = [work ''a'' [] [''b.py''], work ''c'' [''a''] [''b.py'']]"

lemma yes_accepting [simp]: "accepting yes_hooks"
  by (simp add: accepting_def yes_hooks_def)

lemma two_run:
  obtains st r where "run_parallel_phase yes_hooks 2 two_items 0 = Some (st, r)"
    "set (pr_completed_ids r) = {''a'', ''c''}"
proof -
  have "validate_dependencies two_items = Some []"
    by (simp add: two_items_def validate_dependencies_def by_id_def dep_errors_def white_all_def Let_def dedupe_def)
  then have "acyclic (dep_relation two_items)"
    using validate_iff [of two_items] by (simp add: two_items_def)
  then show ?thesis
    using accepted_phase_completes [of yes_hooks two_items 2 0] that by (auto simp: two_items_def)
qed


lemma runner_report_sound_witness:
  "\<exists>st r. run_parallel_phase yes_hooks 2 two_items 0 = Some (st, r) \<and> map item_id (rs_items st) = map item_id two_items \<and>
    (\<forall>s \<in> set (rs_items st). item_status s = COMPLETED \<longleftrightarrow> item_id s \<in> set (pr_completed_ids r))"
proof -
  obtain st r where run: "run_parallel_phase yes_hooks 2 two_items 0 = Some (st, r)"
    by (rule two_run)
  have "distinct (map item_id two_items)" by (simp add: two_items_def)
  from runner_report_sound [OF run this] run show ?thesis by blast
qed

lemma refused_never_completed_witness:
  "\<exists>st r. run_parallel_phase (yes_hooks\<lparr>hk_mark_complete := (\<lambda>w s. (Some False, w))\<rparr>) 2 two_items 0 = Some (st, r) \<and>
     ''a'' \<notin> set (pr_completed_ids r)"
proof -
  let ?h = "yes_hooks\<lparr>hk_mark_complete := (\<lambda>w s. (Some False, w))\<rparr>"
  obtain st r where run: "run_parallel_phase ?h 2 two_items 0 = Some (st, r)"
    by (rule run_phase_ends) blast
  have "item_id (work ''a'' [] [''b.py'']) \<notin> set (pr_completed_ids r)"
    by (rule refused_never_completed [OF run]) (simp_all add: never_accepted_def two_items_def)
  with run show ?thesis by simp
qed


end
