(* ===== verification/Cost_Router.thy ===== *)
theory Cost_Router
  imports Prelude "HOL-Library.List_Lexorder" "HOL-Library.Char_ord" "HOL-Library.Product_Lexorder"
begin

text \<open>
  The cost router (\<open>core/cost_router_core.py\<close>): a catalog of models, a capability ladder, the
  cheapest model at or above a floor, and the admission of a job under a concurrency cap and a
  spending ceiling. Dollars are exact rationals.
\<close>

section \<open>The catalog\<close>

record price =
  pc_mode :: "string option"
  pc_in_per_mtok :: "rat option"
  pc_out_per_mtok :: "rat option"

record model_entry =
  me_provider :: "string option"
  me_class :: "string option"
  me_roles :: "string list option"
  me_price :: "price option"
  me_caps :: obj

type_synonym catalog = "(string \<times> model_entry) list"

definition get_num :: "string \<Rightarrow> obj \<Rightarrow> py_error + rat option" where
  "get_num k d = (case map_of d k of None \<Rightarrow> Inr None
     | Some (JInt i) \<Rightarrow> Inr (Some (of_int i)) | Some (JFloat q) \<Rightarrow> Inr (Some q)
     | Some _ \<Rightarrow> Inl (TypeError k))"

definition price_of_json :: "obj \<Rightarrow> py_error + price option" where
  "price_of_json d = (case map_of d ''price'' of None \<Rightarrow> Inr None | Some JNull \<Rightarrow> Inr None
     | Some (JObj p) \<Rightarrow>
         bindE (get_opt_str ''mode'' p) (\<lambda>mode.
         bindE (get_num ''in_per_mtok'' p) (\<lambda>i.
         bindE (get_num ''out_per_mtok'' p) (\<lambda>out.
           Inr (Some \<lparr>pc_mode = mode, pc_in_per_mtok = i, pc_out_per_mtok = out\<rparr>))))
     | Some _ \<Rightarrow> Inl (TypeError ''price''))"

definition entry_of_json :: "obj \<Rightarrow> py_error + model_entry" where
  "entry_of_json d =
     bindE (get_opt_str ''provider'' d) (\<lambda>provider.
     bindE (get_opt_str ''class'' d) (\<lambda>cls.
     bindE (if get_any ''roles'' d = JNull then Inr None
            else bindE (get_strs ''roles'' d) (\<lambda>rs. Inr (Some rs))) (\<lambda>roles.
     bindE (price_of_json d) (\<lambda>p.
     bindE (case get_any ''caps'' d of JObj c \<Rightarrow> Inr c | JNull \<Rightarrow> Inr [] | _ \<Rightarrow> Inl (TypeError ''caps''))
       (\<lambda>caps. Inr \<lparr>me_provider = provider, me_class = cls, me_roles = roles, me_price = p,
                   me_caps = caps\<rparr>)))))"

text \<open>Either the full document, with a \<open>models\<close> object, or a bare map; other entries are skipped.\<close>

fun catalog_rows :: "obj \<Rightarrow> py_error + catalog" where
  "catalog_rows [] = Inr []"
| "catalog_rows ((mid, JObj e) # rest) =
     bindE (entry_of_json e) (\<lambda>m. bindE (catalog_rows rest) (\<lambda>ms. Inr ((mid, m) # ms)))"
| "catalog_rows (_ # rest) = catalog_rows rest"

definition load_catalog :: "json \<Rightarrow> py_error + catalog" where
  "load_catalog data =
     (case data of
        JObj d \<Rightarrow> (case (case map_of d ''models'' of None \<Rightarrow> JObj d | Some m \<Rightarrow> m) of
            JObj raw \<Rightarrow> catalog_rows raw | _ \<Rightarrow> Inr [])
      | _ \<Rightarrow> Inr [])"

definition entry_class :: "model_entry \<Rightarrow> string" where
  "entry_class e = (case me_class e of None \<Rightarrow> [] | Some c \<Rightarrow> c)"

section \<open>Cost and capability\<close>

definition estimate_cost :: "string \<Rightarrow> int \<Rightarrow> int \<Rightarrow> catalog \<Rightarrow> rat option" where
  "estimate_cost model in_tokens out_tokens cat =
     (case map_of cat model of None \<Rightarrow> None
      | Some e \<Rightarrow>
        (case me_price e of None \<Rightarrow> None
         | Some p \<Rightarrow>
           if pc_mode p \<noteq> Some ''metered'' then None
           else let in_rate = (case pc_in_per_mtok p of None \<Rightarrow> 0 | Some r \<Rightarrow> r);
                    out_rate = (case pc_out_per_mtok p of None \<Rightarrow> 0 | Some r \<Rightarrow> r)
                in Some (of_int in_tokens / 1000000 * in_rate + of_int out_tokens / 1000000 * out_rate)))"

definition class_rank :: "(string \<times> int) list" where
  "class_rank = [(''local'', 0), (''cheap'', 1), (''balanced'', 2), (''subscription'', 2), (''frontier'', 3)]"

definition tier_floor :: "(string \<times> string) list" where
  "tier_floor = [(''low'', ''cheap''), (''medium'', ''balanced''), (''hard'', ''frontier'')]"

definition governed_planning_floor :: string where
  "governed_planning_floor = ''frontier''"

definition capability_floor_class :: "string \<Rightarrow> string" where
  "capability_floor_class tier = ddefault ''balanced'' tier_floor tier"

definition meets_floor :: "model_entry \<Rightarrow> string \<Rightarrow> bool" where
  "meets_floor e floor_class \<longleftrightarrow>
     ddefault (-1) class_rank (entry_class e) \<ge> ddefault (ddefault 0 class_rank ''balanced'') class_rank floor_class"

definition serves_role :: "model_entry \<Rightarrow> string \<Rightarrow> bool" where
  "serves_role e role = (case me_roles e of None \<Rightarrow> False | Some rs \<Rightarrow> role \<in> set rs)"

definition under_ceiling :: "rat option \<Rightarrow> rat option \<Rightarrow> bool" where
  "under_ceiling cost climit = (case (climit, cost) of
       (Some c, Some x) \<Rightarrow> x \<le> c | _ \<Rightarrow> True)"

definition route_key :: "int \<Rightarrow> int \<Rightarrow> string \<times> model_entry \<Rightarrow> rat \<times> int \<times> string" where
  "route_key in_tokens out_tokens it =
     (let cost = estimate_cost (fst it) in_tokens out_tokens [it]
      in (case cost of None \<Rightarrow> 0 | Some c \<Rightarrow> c, ddefault 99 class_rank (entry_class (snd it)), fst it))"

definition candidates :: "string \<Rightarrow> string \<Rightarrow> rat option \<Rightarrow> int \<Rightarrow> int \<Rightarrow> catalog \<Rightarrow> catalog" where
  "candidates role floor_class climit in_tokens out_tokens cat =
     filter (\<lambda>it. serves_role (snd it) role \<and> meets_floor (snd it) floor_class \<and>
                  under_ceiling (estimate_cost (fst it) in_tokens out_tokens [it]) climit) cat"

definition cheapest_capable_model ::
    "string \<Rightarrow> string \<Rightarrow> rat option \<Rightarrow> int \<times> int \<Rightarrow> catalog \<Rightarrow> string option" where
  "cheapest_capable_model role floor_class climit est_tokens cat =
     (let (in_tokens, out_tokens) = est_tokens;
          cands = candidates role floor_class climit in_tokens out_tokens cat
      in if cands = [] then None
         else Some (fst (hd (sort_key (route_key in_tokens out_tokens) cands))))"

definition planning_floor_class :: "string \<Rightarrow> string \<Rightarrow> string" where
  "planning_floor_class tier routing_class =
     (let base = capability_floor_class tier
      in if routing_class = ''governed'' \<and>
            ddefault 0 class_rank base < ddefault 0 class_rank governed_planning_floor
         then governed_planning_floor else base)"

section \<open>Admission\<close>

text \<open>\<open>f"${x:.2f}"\<close>: to the nearest cent, ties to even.\<close>

definition round_half_even :: "rat \<Rightarrow> int" where
  "round_half_even q =
     (let f = \<lfloor>q\<rfloor>; r = q - of_int f
      in if r < 1 / 2 then f else if r > 1 / 2 then f + 1 else if even f then f else f + 1)"

definition fmt_usd :: "rat \<Rightarrow> string" where
  "fmt_usd q =
     (let n = nat (round_half_even (\<bar>q\<bar> * 100))
      in ''$'' @ (if q < 0 then ''-'' else []) @ digits_of_nat (n div 100) @ ''.'' @
         digits_of_nat (n mod 100 div 10) @ digits_of_nat (n mod 10))"

datatype admission = Queue string | Deny string | Admit string

definition admit_within_budget ::
    "int \<Rightarrow> int option \<Rightarrow> rat \<Rightarrow> rat option \<Rightarrow> rat option \<Rightarrow> admission" where
  "admit_within_budget active_jobs max_concurrency spend climit est =
     (case max_concurrency of
        Some m \<Rightarrow> if m > 0 \<and> active_jobs \<ge> m
          then Queue (''concurrency cap reached ('' @ str_of_int active_jobs @ ''/'' @ str_of_int m @ '')'')
          else (case (climit, est) of
              (Some c, Some e) \<Rightarrow> if spend + e > c
                then Deny (''budget: '' @ fmt_usd (spend + e) @ '' would exceed '' @ fmt_usd c @ '' ceiling'')
                else Admit ''within concurrency cap and budget''
            | _ \<Rightarrow> Admit ''within concurrency cap and budget'')
      | None \<Rightarrow> (case (climit, est) of
              (Some c, Some e) \<Rightarrow> if spend + e > c
                then Deny (''budget: '' @ fmt_usd (spend + e) @ '' would exceed '' @ fmt_usd c @ '' ceiling'')
                else Admit ''within concurrency cap and budget''
            | _ \<Rightarrow> Admit ''within concurrency cap and budget''))"

section \<open>The cheapest capable model\<close>

lemma hd_sort_key_min:
  assumes "xs \<noteq> []"
  shows "hd (sort_key f xs) \<in> set xs \<and> (\<forall>x \<in> set xs. f (hd (sort_key f xs)) \<le> f x)"
proof -
  obtain y ys where y: "sort_key f xs = y # ys"
    using assms by (metis length_0_conv length_sort neq_Nil_conv)
  have "sorted (map f (y # ys))" using sorted_sort_key [of f xs] y by simp
  moreover have "set (y # ys) = set xs" using y by (metis set_sort)
  ultimately show ?thesis using y by auto
qed

lemma candidates_iff:
  "(mid, e) \<in> set (candidates role floor_class climit i out cat) \<longleftrightarrow>
   (mid, e) \<in> set cat \<and> serves_role e role \<and> meets_floor e floor_class \<and>
   under_ceiling (estimate_cost mid i out [(mid, e)]) climit"
  by (auto simp: candidates_def)

lemma cheapest_None:
  "cheapest_capable_model role floor_class climit (i, out) cat = None \<longleftrightarrow>
   candidates role floor_class climit i out cat = []"
  by (simp add: cheapest_capable_model_def Let_def)

lemma cheapest_Some:
  assumes "cheapest_capable_model role floor_class climit (i, out) cat = Some mid"
  obtains e where "(mid, e) \<in> set (candidates role floor_class climit i out cat)"
    "\<And>it. it \<in> set (candidates role floor_class climit i out cat) \<Longrightarrow>
       route_key i out (mid, e) \<le> route_key i out it"
proof -
  let ?c = "candidates role floor_class climit i out cat"
  have ne: "?c \<noteq> []" and mid: "mid = fst (hd (sort_key (route_key i out) ?c))"
    using assms by (auto simp: cheapest_capable_model_def Let_def split: if_splits)
  obtain e where "hd (sort_key (route_key i out) ?c) = (mid, e)" using mid by (metis prod.collapse)
  then show ?thesis using hd_sort_key_min [OF ne, of "route_key i out"] that [of e] by auto
qed

lemma route_key_cost:
  "route_key i out a \<le> route_key i out b \<Longrightarrow>
   fst (route_key i out a) \<le> fst (route_key i out b)"
  by (auto simp: less_eq_prod_def)

text \<open>With distinct ids, the price of the row is the price looked up in the catalog.\<close>

lemma estimate_cost_row:
  assumes "distinct (map fst cat)" "(mid, e) \<in> set cat"
  shows "estimate_cost mid i out [(mid, e)] = estimate_cost mid i out cat"
  using assms by (simp add: estimate_cost_def)

lemma admit_cases:
  assumes "admit_within_budget active m spend climit est = Admit why"
  shows "(\<forall>c. m = Some c \<longrightarrow> 0 < c \<longrightarrow> active < c) \<and>
         (\<forall>c e. climit = Some c \<longrightarrow> est = Some e \<longrightarrow> spend + e \<le> c)"
  using assms by (auto simp: admit_within_budget_def split: option.splits if_splits)

end
