(* ===== verification/Budget.thy ===== *)
theory Budget
  imports Cost_Router
begin

text \<open>
  Budget enforcement before a build (\<open>core/budget_enforcement.py\<close>): the contract's execution
  block is read, its phase models are priced, and an enforced ceiling lets the build proceed,
  downgrades it within the capability floors, or refuses it.
\<close>

section \<open>Reading the execution block\<close>

definition priced_roles :: "string list" where
  "priced_roles = [''planning'', ''coding'', ''qa'', ''test_gen'']"

definition role_tokens :: "(string \<times> (int \<times> int)) list" where
  "role_tokens = [(''planning'', (60000, 40000)), (''coding'', (120000, 120000)),
                  (''qa'', (60000, 30000)), (''test_gen'', (60000, 60000))]"

datatype budget_mode = Observe | Enforce

definition parse_budget_mode :: "obj option \<Rightarrow> budget_mode" where
  "parse_budget_mode ex = (case ex of None \<Rightarrow> Observe
     | Some d \<Rightarrow> if map_of d ''budget_mode'' = Some (JStr ''enforce'') then Enforce else Observe)"

definition routing :: "obj option \<Rightarrow> obj" where
  "routing ex = (case ex of None \<Rightarrow> []
     | Some d \<Rightarrow> (case map_of d ''routing'' of Some (JObj r) \<Rightarrow> r | _ \<Rightarrow> []))"

text \<open>\<open>isinstance(val, (int, float))\<close>, and \<open>float(val)\<close>: a Python boolean is an integer.\<close>

definition as_number :: "json option \<Rightarrow> rat option" where
  "as_number v = (case v of Some (JInt i) \<Rightarrow> Some (of_int i) | Some (JFloat q) \<Rightarrow> Some q
     | Some (JBool b) \<Rightarrow> Some (if b then 1 else 0) | _ \<Rightarrow> None)"

definition or_empty :: "obj option \<Rightarrow> obj" where
  "or_empty ex = (case ex of None \<Rightarrow> [] | Some d \<Rightarrow> d)"

definition cost_ceiling_usd :: "obj option \<Rightarrow> rat option" where
  "cost_ceiling_usd ex =
     (case as_number (map_of (routing ex) ''cost_ceiling_usd'') of
        Some q \<Rightarrow> Some q
      | None \<Rightarrow> as_number (map_of (or_empty ex) ''budget_usd''))"

definition routing_class :: "obj option \<Rightarrow> string" where
  "routing_class ex = (case map_of (routing ex) ''class'' of
       Some (JStr s) \<Rightarrow> if s \<noteq> [] then s else ''standard'' | _ \<Rightarrow> ''standard'')"

fun first_str :: "(obj \<times> string) list \<Rightarrow> string option" where
  "first_str [] = None"
| "first_str ((d, k) # rest) = (case map_of d k of
       Some (JStr s) \<Rightarrow> if s \<noteq> [] then Some s else first_str rest | _ \<Rightarrow> first_str rest)"

definition difficulty_tier :: "obj option \<Rightarrow> string" where
  "difficulty_tier ex =
     (case first_str [(routing ex, ''difficulty''), (or_empty ex, ''difficulty''), (or_empty ex, ''complexity'')] of
        Some s \<Rightarrow> s | None \<Rightarrow> ''medium'')"

fun str_entries :: "obj \<Rightarrow> (string \<times> string) list" where
  "str_entries [] = []"
| "str_entries ((k, JStr s) # rest) = (k, s) # str_entries rest"
| "str_entries (_ # rest) = str_entries rest"

definition phase_models :: "obj option \<Rightarrow> (string \<times> string) list" where
  "phase_models ex = (case ex of None \<Rightarrow> []
     | Some d \<Rightarrow> (case map_of d ''phase_models'' of Some (JObj raw) \<Rightarrow> str_entries raw | _ \<Rightarrow> []))"

definition shorthand_to_catalog :: "(string \<times> string) list" where
  "shorthand_to_catalog = [(''opus'', ''claude-opus-5-5''), (''sonnet'', ''claude-sonnet-5''),
     (''haiku'', ''claude-haiku-4-5-20251001'')]"

definition catalog_id :: "string \<Rightarrow> string" where
  "catalog_id model =
     (let name = py_strip model
      in case map_of shorthand_to_catalog name of
           Some full \<Rightarrow> full
         | None \<Rightarrow> if prefix ''ollama:'' name then ''ollama:'' @ ''<model>''
             else if prefix ''ollama-cloud:'' name then ''ollama-cloud:'' @ ''<model>''
             else name)"

section \<open>Pricing a build\<close>

type_synonym role_costs = "(string \<times> rat option) list"

definition role_cost :: "catalog \<Rightarrow> string \<Rightarrow> string \<Rightarrow> rat option" where
  "role_cost cat role model =
     (let (in_tok, out_tok) = ddefault (50000, 50000) role_tokens role
      in estimate_cost (catalog_id model) in_tok out_tok cat)"

fun price_roles :: "catalog \<Rightarrow> (string \<times> string) list \<Rightarrow> string list \<Rightarrow> rat option \<times> role_costs \<Rightarrow> rat option \<times> role_costs" where
  "price_roles cat models [] acc = acc"
| "price_roles cat models (role # roles) acc =
     (case map_of models role of
        None \<Rightarrow> price_roles cat models roles acc
      | Some model \<Rightarrow>
        (let cost = role_cost cat role model;
             total = (case cost of None \<Rightarrow> fst acc
                      | Some c \<Rightarrow> (case fst acc of None \<Rightarrow> Some c | Some t \<Rightarrow> Some (t + c)))
         in price_roles cat models roles (total, AList.update role cost (snd acc))))"

definition estimate_build_cost :: "obj option \<Rightarrow> catalog \<Rightarrow> rat option \<times> role_costs" where
  "estimate_build_cost ex cat = price_roles cat (phase_models ex) priced_roles (None, [])"

section \<open>The decision\<close>

datatype outcome = O_OBSERVE | O_WITHIN_BUDGET | O_DOWNGRADED | O_FAIL_FAST

record budget_decision =
  bd_proceed :: bool
  bd_outcome :: outcome
  bd_mode :: budget_mode
  bd_reason :: string
  bd_estimate_usd :: "rat option"
  bd_ceiling_usd :: "rat option"
  bd_phase_models :: "(string \<times> string) list"
  bd_per_role_usd :: role_costs

definition role_floor :: "string \<Rightarrow> string \<Rightarrow> string \<Rightarrow> string" where
  "role_floor tier cls role =
     (if role = ''planning'' then planning_floor_class tier cls else capability_floor_class tier)"

fun downgrade_roles :: "string \<Rightarrow> string \<Rightarrow> catalog \<Rightarrow> (string \<times> string) list \<Rightarrow> string list \<Rightarrow>
    (string \<times> string) list \<Rightarrow> (string \<times> string) list option" where
  "downgrade_roles tier cls cat current [] acc = Some acc"
| "downgrade_roles tier cls cat current (role # roles) acc =
     (if map_of current role = None then downgrade_roles tier cls cat current roles acc
      else case cheapest_capable_model role (role_floor tier cls role) None
               (ddefault (50000, 50000) role_tokens role) cat of
             None \<Rightarrow> None
           | Some pick \<Rightarrow> downgrade_roles tier cls cat current roles (AList.update role pick acc))"

definition downgrade_within_floor :: "obj option \<Rightarrow> catalog \<Rightarrow> (string \<times> string) list option" where
  "downgrade_within_floor ex cat =
     downgrade_roles (difficulty_tier ex) (routing_class ex) cat (phase_models ex) priced_roles []"

definition fmt_opt :: "rat option \<Rightarrow> string" where
  "fmt_opt v = (case v of None \<Rightarrow> ''n/a'' | Some q \<Rightarrow> fmt_usd q)"

definition models_block :: "(string \<times> string) list \<Rightarrow> obj" where
  "models_block ms = [(''phase_models'', JObj (map (\<lambda>(r, m). (r, JStr m)) ms))]"

definition enforce_budget :: "obj option \<Rightarrow> catalog \<Rightarrow> budget_decision" where
  "enforce_budget execution cat =
     (let ex = Some (or_empty execution);
          mode = parse_budget_mode ex;
          climit = cost_ceiling_usd ex;
          (estimate, per_role) = estimate_build_cost ex cat;
          current_models = phase_models ex
      in if mode = Observe then
           \<lparr>bd_proceed = True, bd_outcome = O_OBSERVE, bd_mode = mode,
            bd_reason = ''budget_mode=observe (informational); build proceeds'',
            bd_estimate_usd = estimate, bd_ceiling_usd = climit,
            bd_phase_models = current_models, bd_per_role_usd = per_role\<rparr>
         else if climit = None \<or> estimate = None \<or> the estimate \<le> the climit then
           \<lparr>bd_proceed = True, bd_outcome = O_WITHIN_BUDGET, bd_mode = mode,
            bd_reason = (if climit \<noteq> None
              then ''estimate '' @ fmt_opt estimate @ '' within ceiling '' @ fmt_opt climit
              else ''no cost ceiling set; build proceeds''),
            bd_estimate_usd = estimate, bd_ceiling_usd = climit,
            bd_phase_models = current_models, bd_per_role_usd = per_role\<rparr>
         else if routing_class ex = ''governed'' then
           \<lparr>bd_proceed = False, bd_outcome = O_FAIL_FAST, bd_mode = mode,
            bd_reason = ''governed task estimate '' @ fmt_opt estimate @ '' exceeds ceiling '' @
              fmt_opt climit @ ''; refusing to degrade a governed task below its capability floor (RFC-0014 S7)'',
            bd_estimate_usd = estimate, bd_ceiling_usd = climit,
            bd_phase_models = current_models, bd_per_role_usd = per_role\<rparr>
         else case downgrade_within_floor ex cat of
           None \<Rightarrow>
           \<lparr>bd_proceed = False, bd_outcome = O_FAIL_FAST, bd_mode = mode,
            bd_reason = ''estimate '' @ fmt_opt estimate @ '' exceeds ceiling '' @ fmt_opt climit @
              '' and no catalog model meets the capability floor for every role'',
            bd_estimate_usd = estimate, bd_ceiling_usd = climit,
            bd_phase_models = current_models, bd_per_role_usd = per_role\<rparr>
         | Some downgraded \<Rightarrow>
           (let (new_estimate, new_per_role) = estimate_build_cost (Some (models_block downgraded)) cat
            in if new_estimate \<noteq> None \<and> the new_estimate > the climit then
              \<lparr>bd_proceed = False, bd_outcome = O_FAIL_FAST, bd_mode = mode,
               bd_reason = ''floor-respecting selection still '' @ fmt_opt new_estimate @ '' > ceiling '' @
                 fmt_opt climit @ ''; failing fast rather than dropping below the capability floor'',
               bd_estimate_usd = new_estimate, bd_ceiling_usd = climit,
               bd_phase_models = downgraded, bd_per_role_usd = new_per_role\<rparr>
            else
              \<lparr>bd_proceed = True, bd_outcome = O_DOWNGRADED, bd_mode = mode,
               bd_reason = ''downgraded within capability floor: estimate '' @ fmt_opt estimate @ '' -> '' @
                 fmt_opt new_estimate @ '' under ceiling '' @ fmt_opt climit,
               bd_estimate_usd = new_estimate, bd_ceiling_usd = climit,
               bd_phase_models = downgraded, bd_per_role_usd = new_per_role\<rparr>))"

end
