(* ===== verification/Budget_Props.thy ===== *)
theory Budget_Props
  imports Budget
begin

text \<open>What the router and the budget gate promise.\<close>

lemma cheapest_capable_sound:
  assumes "cheapest_capable_model role floor_class climit (i, out) cat = Some mid" "distinct (map fst cat)"
  shows "\<exists>e. (mid, e) \<in> set cat \<and> serves_role e role \<and> meets_floor e floor_class \<and>
             under_ceiling (estimate_cost mid i out cat) climit \<and>
             (\<forall>mid' e'. (mid', e') \<in> set cat \<longrightarrow> serves_role e' role \<longrightarrow> meets_floor e' floor_class \<longrightarrow>
                under_ceiling (estimate_cost mid' i out cat) climit \<longrightarrow>
                route_key i out (mid, e) \<le> route_key i out (mid', e'))"
proof -
  obtain e where e: "(mid, e) \<in> set (candidates role floor_class climit i out cat)"
    "\<And>it. it \<in> set (candidates role floor_class climit i out cat) \<Longrightarrow>
       route_key i out (mid, e) \<le> route_key i out it"
    by (rule cheapest_Some [OF assms(1)]) blast
  have "route_key i out (mid, e) \<le> route_key i out (mid', e')"
    if "(mid', e') \<in> set cat" "serves_role e' role" "meets_floor e' floor_class"
      "under_ceiling (estimate_cost mid' i out cat) climit" for mid' e'
    using that e(2) [of "(mid', e')"] estimate_cost_row [OF assms(2) that(1)]
    by (simp add: candidates_iff)
  then show ?thesis
    using e(1) estimate_cost_row [OF assms(2)] by (auto simp: candidates_iff)
qed

lemma cheapest_capable_complete:
  "cheapest_capable_model role floor_class climit (i, out) cat = None \<longleftrightarrow>
   \<not> (\<exists>(mid, e) \<in> set cat. serves_role e role \<and> meets_floor e floor_class \<and>
        under_ceiling (estimate_cost mid i out [(mid, e)]) climit)"
  by (auto simp: cheapest_None candidates_def filter_empty_conv)

text \<open>The router's choice is optimal: over a catalog with distinct ids it returns nothing exactly when
  no model serves the role, reaches the capability floor and fits the ceiling; a model it returns does all
  three, and comes first by cost, then class, then id, among those that do.\<close>

theorem cheapest_capable_optimal:
  assumes "distinct (map fst cat)"
  shows "case cheapest_capable_model role floor_class climit (i, out) cat of
      None \<Rightarrow> \<not> (\<exists>(m, e) \<in> set cat. serves_role e role \<and> meets_floor e floor_class \<and>
        under_ceiling (estimate_cost m i out cat) climit)
    | Some mid \<Rightarrow> \<exists>e. (mid, e) \<in> set cat \<and> serves_role e role \<and> meets_floor e floor_class \<and>
        under_ceiling (estimate_cost mid i out cat) climit \<and>
        (\<forall>(m, e') \<in> set cat. serves_role e' role \<longrightarrow> meets_floor e' floor_class \<longrightarrow>
           under_ceiling (estimate_cost m i out cat) climit \<longrightarrow> route_key i out (mid, e) \<le> route_key i out (m, e'))"
proof (cases "cheapest_capable_model role floor_class climit (i, out) cat")
  case None
  note none = None
  have "\<forall>(m, e) \<in> set cat. \<not> (serves_role e role \<and> meets_floor e floor_class \<and>
      under_ceiling (estimate_cost m i out [(m, e)]) climit)"
    using none by (auto simp: cheapest_capable_complete)
  then show ?thesis
    using estimate_cost_row [OF assms] by (auto simp: none)
next
  case (Some mid)
  then show ?thesis
    using cheapest_capable_sound [OF Some assms] by (simp add: Some) fast
qed

lemma planning_floor_governed:
  "planning_floor_class tier ''governed'' = ''frontier'' \<and>
   (cls \<noteq> ''governed'' \<longrightarrow> planning_floor_class tier cls = capability_floor_class tier)"
  by (auto simp: planning_floor_class_def capability_floor_class_def governed_planning_floor_def
      ddefault_def tier_floor_def class_rank_def)

section \<open>The decision\<close>

lemma str_entries_map [simp]: "str_entries (map (\<lambda>(r, m). (r, JStr m)) ms) = ms"
  by (induction ms) auto

lemma phase_models_block [simp]: "phase_models (Some (models_block ms)) = ms"
  by (simp add: phase_models_def models_block_def)

lemma estimate_cong: "phase_models a = phase_models b \<Longrightarrow> estimate_build_cost a cat = estimate_build_cost b cat"
  by (simp add: estimate_build_cost_def)

text \<open>The five ways a decision comes about.\<close>

lemma enforce_cases:
  fixes execution cat
  defines "ex \<equiv> Some (or_empty execution)"
  obtains (observe) "parse_budget_mode ex = Observe" "bd_outcome (enforce_budget execution cat) = O_OBSERVE"
      "bd_proceed (enforce_budget execution cat)"
      "bd_phase_models (enforce_budget execution cat) = phase_models ex"
  | (within) "parse_budget_mode ex = Enforce" "bd_outcome (enforce_budget execution cat) = O_WITHIN_BUDGET"
      "bd_proceed (enforce_budget execution cat)"
      "bd_phase_models (enforce_budget execution cat) = phase_models ex"
      "cost_ceiling_usd ex = None \<or> fst (estimate_build_cost ex cat) = None \<or>
       the (fst (estimate_build_cost ex cat)) \<le> the (cost_ceiling_usd ex)"
  | (refused) c q where "parse_budget_mode ex = Enforce"
      "bd_outcome (enforce_budget execution cat) = O_FAIL_FAST" "\<not> bd_proceed (enforce_budget execution cat)"
      "bd_phase_models (enforce_budget execution cat) = phase_models ex"
      "cost_ceiling_usd ex = Some c" "fst (estimate_build_cost ex cat) = Some q" "q > c"
      "routing_class ex = ''governed'' \<or> downgrade_within_floor ex cat = None"
  | (still_over) c q ms q' where "parse_budget_mode ex = Enforce" "routing_class ex \<noteq> ''governed''"
      "bd_outcome (enforce_budget execution cat) = O_FAIL_FAST" "\<not> bd_proceed (enforce_budget execution cat)"
      "downgrade_within_floor ex cat = Some ms" "bd_phase_models (enforce_budget execution cat) = ms"
      "cost_ceiling_usd ex = Some c" "fst (estimate_build_cost ex cat) = Some q" "q > c"
      "fst (estimate_build_cost (Some (models_block ms)) cat) = Some q'" "q' > c"
  | (downgraded) c q ms where "parse_budget_mode ex = Enforce" "routing_class ex \<noteq> ''governed''"
      "bd_outcome (enforce_budget execution cat) = O_DOWNGRADED" "bd_proceed (enforce_budget execution cat)"
      "downgrade_within_floor ex cat = Some ms" "bd_phase_models (enforce_budget execution cat) = ms"
      "cost_ceiling_usd ex = Some c" "fst (estimate_build_cost ex cat) = Some q" "q > c"
      "\<And>q'. fst (estimate_build_cost (Some (models_block ms)) cat) = Some q' \<Longrightarrow> q' \<le> c"
proof -
  let ?d = "enforce_budget execution cat"
  obtain est per where est: "estimate_build_cost ex cat = (est, per)" by fastforce
  note D = enforce_budget_def [of execution cat, folded ex_def]
  show ?thesis
  proof (cases "parse_budget_mode ex")
    case Observe
    then show ?thesis by (intro observe) (simp_all add: D est Let_def)
  next
    case Enforce
    show ?thesis
    proof (cases "cost_ceiling_usd ex = None \<or> est = None \<or> the est \<le> the (cost_ceiling_usd ex)")
      case True
      then show ?thesis using Enforce by (intro within) (simp_all add: D est Let_def)
    next
      case False
      then obtain c q where c: "cost_ceiling_usd ex = Some c" and q: "est = Some q" and over: "q > c" by auto
      show ?thesis
      proof (cases "routing_class ex = ''governed'' \<or> downgrade_within_floor ex cat = None")
        case True
        then show ?thesis
          using Enforce c q over est by (intro refused [of c q]) (auto simp: D Let_def)
      next
        case False
        then obtain ms where ms: "downgrade_within_floor ex cat = Some ms"
          and ng: "routing_class ex \<noteq> ''governed''" by auto
        obtain e2 p2 where e2: "estimate_build_cost (Some (models_block ms)) cat = (e2, p2)" by fastforce
        show ?thesis
        proof (cases "\<exists>q'. e2 = Some q' \<and> q' > c")
          case True
          then obtain q' where "e2 = Some q'" "q' > c" by blast
          then show ?thesis
            using Enforce c q over est ms ng e2 by (intro still_over [of ms c q q']) (auto simp: D Let_def)
        next
          case False
          then show ?thesis
            using Enforce c q over est ms ng e2
            by (intro downgraded [of ms c q]; cases e2) (auto simp: D Let_def not_less)
        qed
      qed
    qed
  qed
qed

lemma decision_prices_its_models:
  "(bd_estimate_usd (enforce_budget execution cat), bd_per_role_usd (enforce_budget execution cat)) =
   estimate_build_cost (Some (models_block (bd_phase_models (enforce_budget execution cat)))) cat"
proof -
  let ?ex = "Some (or_empty execution)"
  obtain est per where e: "estimate_build_cost ?ex cat = (est, per)" by fastforce
  have "estimate_build_cost (Some (models_block (phase_models ?ex))) cat = (est, per)"
    using estimate_cong [of "Some (models_block (phase_models ?ex))" ?ex cat] e by simp
  then show ?thesis
    by (simp add: enforce_budget_def Let_def e split: option.split prod.split)
qed

text \<open>A build that an enforced budget lets proceed is estimated at no more than the ceiling, after a
  downgrade as well as without one.\<close>

theorem enforced_within_ceiling:
  assumes "bd_mode (enforce_budget execution cat) = Enforce" "bd_proceed (enforce_budget execution cat)"
    and "bd_ceiling_usd (enforce_budget execution cat) = Some c"
    and "bd_estimate_usd (enforce_budget execution cat) = Some q"
  shows "q \<le> c"
  using assms by (auto simp: enforce_budget_def Let_def split: if_splits option.splits prod.splits)

text \<open>A governed task keeps the models its contract names: the gate may refuse it but never downgrades it.\<close>

theorem governed_never_degraded:
  assumes "execution = Some d" "routing_class execution = ''governed''"
  shows "bd_phase_models (enforce_budget execution cat) = phase_models execution \<and>
         bd_outcome (enforce_budget execution cat) \<noteq> O_DOWNGRADED"
  by (cases rule: enforce_cases [where execution = execution and cat = cat]) (use assms in \<open>auto simp: or_empty_def\<close>)

text \<open>A build is refused only when the budget is enforced and the contract's own models are priced
  above its ceiling.\<close>

theorem refusal_is_over_budget:
  assumes "\<not> bd_proceed (enforce_budget (Some d) cat)"
  shows "parse_budget_mode (Some d) = Enforce \<and> bd_outcome (enforce_budget (Some d) cat) = O_FAIL_FAST \<and>
         (\<exists>c q. cost_ceiling_usd (Some d) = Some c \<and> fst (estimate_build_cost (Some d) cat) = Some q \<and> c < q)"
  by (cases rule: enforce_cases [where execution = "Some d" and cat = cat]) (use assms in \<open>auto simp: or_empty_def\<close>)

lemma downgrade_roles_floor:
  assumes "downgrade_roles tier cls cat current roles acc = Some ms" "map_of ms role = Some mid"
  shows "map_of acc role = Some mid \<or>
    (role \<in> set roles \<and> map_of current role \<noteq> None \<and>
     (\<exists>e. (mid, e) \<in> set cat \<and> serves_role e role \<and> meets_floor e (role_floor tier cls role)))"
  using assms
proof (induction roles arbitrary: acc)
  case (Cons r roles)
  show ?case
  proof (cases "map_of current r")
    case None
    then show ?thesis using Cons by auto
  next
    case (Some m)
    obtain i out where t: "ddefault (50000, 50000) role_tokens r = (i, out)" by fastforce
    from Cons(2) Some obtain pick where
      pick: "cheapest_capable_model r (role_floor tier cls r) None (i, out) cat = Some pick"
      and rest: "downgrade_roles tier cls cat current roles (AList.update r pick acc) = Some ms"
      by (auto simp: t split: option.splits)
    obtain e where "(pick, e) \<in> set (candidates r (role_floor tier cls r) None i out cat)"
      using cheapest_Some [OF pick] by blast
    then have "(pick, e) \<in> set cat \<and> serves_role e r \<and> meets_floor e (role_floor tier cls r)"
      by (simp add: candidates_iff)
    then show ?thesis using Cons(1) [OF rest Cons(3)] Some by (auto simp: dget_dset split: if_splits)
  qed
qed simp

text \<open>Every model of a downgraded build is in the catalog, serves its role and reaches the capability
  floor of that role.\<close>

theorem downgrade_meets_floors:
  assumes "bd_outcome (enforce_budget (Some d) cat) = O_DOWNGRADED"
    and "map_of (bd_phase_models (enforce_budget (Some d) cat)) role = Some mid"
  shows "\<exists>e. (mid, e) \<in> set cat \<and> serves_role e role \<and>
             meets_floor e (role_floor (difficulty_tier (Some d)) (routing_class (Some d)) role)"
proof (cases rule: enforce_cases [where execution = "Some d" and cat = cat])
  case (downgraded c q ms)
  then show ?thesis
    using downgrade_roles_floor [of "difficulty_tier (Some d)" "routing_class (Some d)" cat
        "phase_models (Some d)" priced_roles "[]" ms role mid] assms(2)
    by (simp add: downgrade_within_floor_def or_empty_def)
qed (use assms(1) in simp_all)

section \<open>At concrete inputs\<close>

definition metered :: "string \<Rightarrow> rat \<Rightarrow> model_entry" where
  "metered cls rate = \<lparr>me_provider = None, me_class = Some cls, me_roles = Some [''coding''],
     me_price = Some \<lparr>pc_mode = Some ''metered'', pc_in_per_mtok = Some rate, pc_out_per_mtok = Some rate\<rparr>, me_caps = []\<rparr>"

definition sample_catalog :: catalog where
  "sample_catalog = [(''big'', metered ''frontier'' 100), (''mid'', metered ''balanced'' 10), (''tiny'', metered ''cheap'' 1)]"

definition sample_contract :: "string \<Rightarrow> string \<Rightarrow> obj" where
  "sample_contract cls model = [(''budget_mode'', JStr ''enforce''), (''budget_usd'', JInt 5),
     (''routing'', JObj [(''class'', JStr cls)]), (''phase_models'', JObj [(''coding'', JStr model)])]"

lemma cheapest_capable_optimal_witness:
  "\<exists>e. (''mid'', e) \<in> set sample_catalog \<and> serves_role e ''coding'' \<and> meets_floor e ''balanced''"
proof -
  have d: "distinct (map fst sample_catalog)" by (simp add: sample_catalog_def)
  have c: "cheapest_capable_model ''coding'' ''balanced'' None (1000, 1000) sample_catalog = Some ''mid''"
    by code_simp
  show ?thesis
    using cheapest_capable_optimal [OF d, where role = "''coding''" and floor_class = "''balanced''"
      and climit = None and i = 1000 and out = 1000] unfolding c by auto
qed

definition decision_summary ::
    "budget_decision \<Rightarrow> outcome \<times> budget_mode \<times> bool \<times> rat option \<times> rat option \<times> (string \<times> string) list" where
  "decision_summary d = (bd_outcome d, bd_mode d, bd_proceed d, bd_ceiling_usd d, bd_estimate_usd d, bd_phase_models d)"

text \<open>The contract of 24 dollars is downgraded to one of 2.40, the governed one is refused.\<close>

lemma sample_standard:
  "decision_summary (enforce_budget (Some (sample_contract ''standard'' ''big'')) sample_catalog) =
   (O_DOWNGRADED, Enforce, True, Some 5, Some (12 / 5), [(''coding'', ''mid'')])"
  by code_simp

lemma sample_governed:
  "decision_summary (enforce_budget (Some (sample_contract ''governed'' ''big'')) sample_catalog) =
   (O_FAIL_FAST, Enforce, False, Some 5, Some 24, [(''coding'', ''big'')])"
  by code_simp

lemma sample_decisions:
  "bd_outcome (enforce_budget (Some (sample_contract ''standard'' ''big'')) sample_catalog) = O_DOWNGRADED"
  "bd_mode (enforce_budget (Some (sample_contract ''standard'' ''big'')) sample_catalog) = Enforce"
  "bd_proceed (enforce_budget (Some (sample_contract ''standard'' ''big'')) sample_catalog)"
  "bd_ceiling_usd (enforce_budget (Some (sample_contract ''standard'' ''big'')) sample_catalog) = Some 5"
  "bd_estimate_usd (enforce_budget (Some (sample_contract ''standard'' ''big'')) sample_catalog) = Some (12 / 5)"
  "bd_phase_models (enforce_budget (Some (sample_contract ''standard'' ''big'')) sample_catalog) = [(''coding'', ''mid'')]"
  "\<not> bd_proceed (enforce_budget (Some (sample_contract ''governed'' ''big'')) sample_catalog)"
  using sample_standard sample_governed by (simp_all add: decision_summary_def)

lemma sample_class: "routing_class (Some (sample_contract ''governed'' ''big'')) = ''governed''"
  by code_simp

lemma enforced_within_ceiling_witness:
  "bd_estimate_usd (enforce_budget (Some (sample_contract ''standard'' ''big'')) sample_catalog) = Some (12 / 5) \<and>
   (12 / 5 :: rat) \<le> 5"
  using enforced_within_ceiling [OF sample_decisions(2,3,4,5)] sample_decisions(5) by blast

lemma governed_never_degraded_witness:
  "bd_outcome (enforce_budget (Some (sample_contract ''governed'' ''big'')) sample_catalog) \<noteq> O_DOWNGRADED"
  using governed_never_degraded [OF refl sample_class] by blast

lemma refusal_is_over_budget_witness:
  "\<exists>c q. cost_ceiling_usd (Some (sample_contract ''governed'' ''big'')) = Some c \<and>
     fst (estimate_build_cost (Some (sample_contract ''governed'' ''big'')) sample_catalog) = Some q \<and> c < q"
  using refusal_is_over_budget [OF sample_decisions(7)] by blast

lemma downgrade_meets_floors_witness:
  "\<exists>e. (''mid'', e) \<in> set sample_catalog \<and> serves_role e ''coding'' \<and>
     meets_floor e (role_floor (difficulty_tier (Some (sample_contract ''standard'' ''big'')))
       (routing_class (Some (sample_contract ''standard'' ''big''))) ''coding'')"
  by (rule downgrade_meets_floors [OF sample_decisions(1)]) (simp add: sample_decisions)

end
