(* ===== verification/Issue_Lifecycle.thy ===== *)
theory Issue_Lifecycle
  imports Prelude
begin

text \<open>
  The life of a GitHub issue (\<open>runners/github/lifecycle.py\<close>): its states and transitions, the lock
  a component holds on it, its file, and the manager that keeps one file per issue. The directory
  is an association list from file names to the objects written there.
\<close>

section \<open>States\<close>

datatype issue_state =
    NEW | TRIAGING | TRIAGED | SPAM | DUPLICATE
  | PENDING_APPROVAL | APPROVED_FOR_FIX | REJECTED
  | SPEC_CREATING | SPEC_READY | BUILDING | BUILD_FAILED
  | PR_CREATING | PR_CREATED | PR_REVIEWING | PR_CHANGES_REQUESTED | PR_APPROVED
  | MERGED | CLOSED | WONT_FIX

fun state_value :: "issue_state \<Rightarrow> string" where
  "state_value NEW = ''new''"
| "state_value TRIAGING = ''triaging''"
| "state_value TRIAGED = ''triaged''"
| "state_value SPAM = ''spam''"
| "state_value DUPLICATE = ''duplicate''"
| "state_value PENDING_APPROVAL = ''pending_approval''"
| "state_value APPROVED_FOR_FIX = ''approved_for_fix''"
| "state_value REJECTED = ''rejected''"
| "state_value SPEC_CREATING = ''spec_creating''"
| "state_value SPEC_READY = ''spec_ready''"
| "state_value BUILDING = ''building''"
| "state_value BUILD_FAILED = ''build_failed''"
| "state_value PR_CREATING = ''pr_creating''"
| "state_value PR_CREATED = ''pr_created''"
| "state_value PR_REVIEWING = ''pr_reviewing''"
| "state_value PR_CHANGES_REQUESTED = ''pr_changes_requested''"
| "state_value PR_APPROVED = ''pr_approved''"
| "state_value MERGED = ''merged''"
| "state_value CLOSED = ''closed''"
| "state_value WONT_FIX = ''wont_fix''"

definition issue_states :: "issue_state list" where
  "issue_states = [NEW, TRIAGING, TRIAGED, SPAM, DUPLICATE, PENDING_APPROVAL, APPROVED_FOR_FIX,
     REJECTED, SPEC_CREATING, SPEC_READY, BUILDING, BUILD_FAILED, PR_CREATING, PR_CREATED,
     PR_REVIEWING, PR_CHANGES_REQUESTED, PR_APPROVED, MERGED, CLOSED, WONT_FIX]"

definition state_of :: "string \<Rightarrow> py_error + issue_state" where
  "state_of s = (case filter (\<lambda>x. state_value x = s) issue_states of
     x # _ \<Rightarrow> Inr x | [] \<Rightarrow> Inl (ValueError s))"

definition terminal_states :: "issue_state list" where
  "terminal_states = [MERGED, CLOSED, WONT_FIX, SPAM, DUPLICATE]"

definition blocks_auto_fix :: "issue_state list" where
  "blocks_auto_fix = [SPAM, DUPLICATE, REJECTED, WONT_FIX]"

definition requires_triage_first :: "issue_state list" where
  "requires_triage_first = [NEW, TRIAGING]"

fun valid_transitions :: "issue_state \<Rightarrow> issue_state list" where
  "valid_transitions NEW = [TRIAGING, CLOSED]"
| "valid_transitions TRIAGING = [TRIAGED, SPAM, DUPLICATE]"
| "valid_transitions TRIAGED = [PENDING_APPROVAL, APPROVED_FOR_FIX, REJECTED, CLOSED]"
| "valid_transitions SPAM = [TRIAGED, CLOSED]"
| "valid_transitions DUPLICATE = [TRIAGED, CLOSED]"
| "valid_transitions PENDING_APPROVAL = [APPROVED_FOR_FIX, REJECTED]"
| "valid_transitions APPROVED_FOR_FIX = [SPEC_CREATING, REJECTED]"
| "valid_transitions REJECTED = [PENDING_APPROVAL, CLOSED]"
| "valid_transitions SPEC_CREATING = [SPEC_READY, BUILD_FAILED]"
| "valid_transitions SPEC_READY = [BUILDING, REJECTED]"
| "valid_transitions BUILDING = [PR_CREATING, BUILD_FAILED]"
| "valid_transitions BUILD_FAILED = [SPEC_CREATING, CLOSED]"
| "valid_transitions PR_CREATING = [PR_CREATED, BUILD_FAILED]"
| "valid_transitions PR_CREATED = [PR_REVIEWING, CLOSED]"
| "valid_transitions PR_REVIEWING = [PR_APPROVED, PR_CHANGES_REQUESTED]"
| "valid_transitions PR_CHANGES_REQUESTED = [BUILDING, CLOSED]"
| "valid_transitions PR_APPROVED = [MERGED, CLOSED]"
| "valid_transitions MERGED = []"
| "valid_transitions CLOSED = []"
| "valid_transitions WONT_FIX = []"

section \<open>Conflicts, transitions, lifecycles\<close>

datatype conflict_type = TRIAGE_REQUIRED | BLOCKED_BY_CLASSIFICATION | INVALID_TRANSITION
  | CONCURRENT_OPERATION | STALE_STATE | REVIEW_REQUIRED

record conflict_result =
  cr_has_conflict :: bool
  cr_conflict_type :: "conflict_type option"
  cr_message :: string
  cr_blocking_state :: "issue_state option"
  cr_resolution_hint :: "string option"

fun conflict_value :: "conflict_type \<Rightarrow> string" where
  "conflict_value TRIAGE_REQUIRED = ''triage_required''"
| "conflict_value BLOCKED_BY_CLASSIFICATION = ''blocked_by_classification''"
| "conflict_value INVALID_TRANSITION = ''invalid_transition''"
| "conflict_value CONCURRENT_OPERATION = ''concurrent_operation''"
| "conflict_value STALE_STATE = ''stale_state''"
| "conflict_value REVIEW_REQUIRED = ''review_required''"

definition conflict_to_dict :: "conflict_result \<Rightarrow> obj" where
  "conflict_to_dict c =
     [(''has_conflict'', JBool (cr_has_conflict c)),
      (''conflict_type'', jopt (map_option conflict_value (cr_conflict_type c))),
      (''message'', JStr (cr_message c)),
      (''blocking_state'', jopt (map_option state_value (cr_blocking_state c))),
      (''resolution_hint'', jopt (cr_resolution_hint c))]"

definition no_conflict :: conflict_result where
  "no_conflict = \<lparr>cr_has_conflict = False, cr_conflict_type = None, cr_message = [],
                  cr_blocking_state = None, cr_resolution_hint = None\<rparr>"

definition conflict :: "conflict_type \<Rightarrow> string \<Rightarrow> issue_state option \<Rightarrow> string \<Rightarrow> conflict_result" where
  "conflict ty msg st hint =
     \<lparr>cr_has_conflict = True, cr_conflict_type = Some ty, cr_message = msg,
      cr_blocking_state = st, cr_resolution_hint = Some hint\<rparr>"

record state_transition =
  tr_from_state :: issue_state
  tr_to_state :: issue_state
  tr_timestamp :: string
  tr_actor :: string
  tr_reason :: "string option"
  tr_metadata :: obj

definition transition_to_dict :: "state_transition \<Rightarrow> obj" where
  "transition_to_dict t =
     [(''from_state'', JStr (state_value (tr_from_state t))),
      (''to_state'', JStr (state_value (tr_to_state t))),
      (''timestamp'', JStr (tr_timestamp t)), (''actor'', JStr (tr_actor t)),
      (''reason'', jopt (tr_reason t)), (''metadata'', JObj (tr_metadata t))]"

definition get_obj :: "string \<Rightarrow> obj \<Rightarrow> py_error + obj" where
  "get_obj k d = (case map_of d k of None \<Rightarrow> Inr []
     | Some (JObj x) \<Rightarrow> Inr x | Some _ \<Rightarrow> Inl (TypeError k))"

definition transition_from_dict :: "obj \<Rightarrow> py_error + state_transition" where
  "transition_from_dict d =
     bindE (req_str ''from_state'' d) (\<lambda>a. bindE (state_of a) (\<lambda>from.
     bindE (req_str ''to_state'' d) (\<lambda>b. bindE (state_of b) (\<lambda>to.
     bindE (req_str ''timestamp'' d) (\<lambda>ts.
     bindE (req_str ''actor'' d) (\<lambda>actor.
     bindE (get_opt_str ''reason'' d) (\<lambda>reason.
     bindE (get_obj ''metadata'' d) (\<lambda>meta.
       Inr \<lparr>tr_from_state = from, tr_to_state = to, tr_timestamp = ts, tr_actor = actor,
            tr_reason = reason, tr_metadata = meta\<rparr>))))))))"

record lifecycle =
  lc_issue_number :: int
  lc_repo :: string
  lc_current_state :: issue_state
  lc_triage_result :: "obj option"
  lc_spec_id :: "string option"
  lc_pr_number :: "int option"
  lc_transitions :: "state_transition list"
  lc_locked_by :: "string option"
  lc_locked_at :: "string option"
  lc_created_at :: string
  lc_updated_at :: string

definition new_lifecycle :: "string \<Rightarrow> string \<Rightarrow> int \<Rightarrow> lifecycle" where
  "new_lifecycle now repo n =
     \<lparr>lc_issue_number = n, lc_repo = repo, lc_current_state = NEW, lc_triage_result = None,
      lc_spec_id = None, lc_pr_number = None, lc_transitions = [], lc_locked_by = None,
      lc_locked_at = None, lc_created_at = now, lc_updated_at = now\<rparr>"

definition can_transition_to :: "lifecycle \<Rightarrow> issue_state \<Rightarrow> bool" where
  "can_transition_to lc new_state \<longleftrightarrow> new_state \<in> set (valid_transitions (lc_current_state lc))"

text \<open>
  \<open>repr\<close> of a list of strings. In the hint the names come out of a set, whose order Python leaves
  open; the model lists them in the order of the table.
\<close>

definition repr_strs :: "string list \<Rightarrow> string" where
  "repr_strs xs = ''['' @ py_join '', '' (map (\<lambda>s. [CHR 0x27] @ s @ [CHR 0x27]) xs) @ '']''"

definition issue_transition :: "string \<Rightarrow> issue_state \<Rightarrow> string \<Rightarrow> string option \<Rightarrow> obj option \<Rightarrow>
    lifecycle \<Rightarrow> conflict_result \<times> lifecycle" where
  "issue_transition now new_state actor reason metadata lc =
     (if \<not> can_transition_to lc new_state then
        (conflict INVALID_TRANSITION
           (''Cannot transition from '' @ state_value (lc_current_state lc) @ '' to '' @ state_value new_state)
           (Some (lc_current_state lc))
           (''Valid transitions: '' @ repr_strs (map state_value (valid_transitions (lc_current_state lc)))), lc)
      else
        (no_conflict,
         lc\<lparr>lc_transitions := lc_transitions lc @
              [\<lparr>tr_from_state = lc_current_state lc, tr_to_state = new_state, tr_timestamp = now,
                tr_actor = actor, tr_reason = reason,
                tr_metadata = (case metadata of None \<Rightarrow> [] | Some m \<Rightarrow> m)\<rparr>],
            lc_current_state := new_state, lc_updated_at := now\<rparr>))"

definition check_auto_fix_allowed :: "lifecycle \<Rightarrow> conflict_result" where
  "check_auto_fix_allowed lc =
     (if lc_current_state lc \<in> set blocks_auto_fix then
        conflict BLOCKED_BY_CLASSIFICATION
          (''Auto-fix blocked: issue is marked as '' @ state_value (lc_current_state lc))
          (Some (lc_current_state lc)) ''Override classification to enable auto-fix''
      else if lc_current_state lc \<in> set requires_triage_first then
        conflict TRIAGE_REQUIRED ''Triage required before auto-fix'' (Some (lc_current_state lc))
          ''Run triage first''
      else no_conflict)"

definition check_pr_review_required :: "lifecycle \<Rightarrow> conflict_result" where
  "check_pr_review_required lc =
     (if lc_current_state lc = PR_CREATED then
        conflict REVIEW_REQUIRED ''AI review required before human notification'' None
          ''Run AI review on the PR''
      else no_conflict)"

definition lc_acquire_lock :: "string \<Rightarrow> string \<Rightarrow> lifecycle \<Rightarrow> bool \<times> lifecycle" where
  "lc_acquire_lock now component lc =
     (if lc_locked_by lc \<noteq> None then (False, lc)
      else (True, lc\<lparr>lc_locked_by := Some component, lc_locked_at := Some now\<rparr>))"

definition lc_release_lock :: "string \<Rightarrow> lifecycle \<Rightarrow> bool \<times> lifecycle" where
  "lc_release_lock component lc =
     (if lc_locked_by lc \<noteq> Some component then (False, lc)
      else (True, lc\<lparr>lc_locked_by := None, lc_locked_at := None\<rparr>))"

definition lc_is_locked :: "lifecycle \<Rightarrow> bool" where
  "lc_is_locked lc \<longleftrightarrow> lc_locked_by lc \<noteq> None"

definition jopt_obj :: "obj option \<Rightarrow> json" where
  "jopt_obj x = (case x of None \<Rightarrow> JNull | Some d \<Rightarrow> JObj d)"

definition jopt_num :: "int option \<Rightarrow> json" where
  "jopt_num x = (case x of None \<Rightarrow> JNull | Some n \<Rightarrow> JInt n)"

definition lifecycle_to_dict :: "lifecycle \<Rightarrow> obj" where
  "lifecycle_to_dict lc =
     [(''issue_number'', JInt (lc_issue_number lc)), (''repo'', JStr (lc_repo lc)),
      (''current_state'', JStr (state_value (lc_current_state lc))),
      (''triage_result'', jopt_obj (lc_triage_result lc)), (''spec_id'', jopt (lc_spec_id lc)),
      (''pr_number'', jopt_num (lc_pr_number lc)),
      (''transitions'', JList (map (JObj \<circ> transition_to_dict) (lc_transitions lc))),
      (''locked_by'', jopt (lc_locked_by lc)), (''locked_at'', jopt (lc_locked_at lc)),
      (''created_at'', JStr (lc_created_at lc)), (''updated_at'', JStr (lc_updated_at lc))]"

definition get_opt_obj :: "string \<Rightarrow> obj \<Rightarrow> py_error + obj option" where
  "get_opt_obj k d = (case map_of d k of None \<Rightarrow> Inr None | Some JNull \<Rightarrow> Inr None
     | Some (JObj x) \<Rightarrow> Inr (Some x) | Some _ \<Rightarrow> Inl (TypeError k))"

definition lifecycle_from_dict :: "string \<Rightarrow> obj \<Rightarrow> py_error + lifecycle" where
  "lifecycle_from_dict now d =
     bindE (req_int ''issue_number'' d) (\<lambda>n.
     bindE (req_str ''repo'' d) (\<lambda>repo.
     bindE (get_str ''current_state'' ''new'' d) (\<lambda>s. bindE (state_of s) (\<lambda>st.
     bindE (get_opt_obj ''triage_result'' d) (\<lambda>triage.
     bindE (get_opt_str ''spec_id'' d) (\<lambda>spec.
     bindE (get_opt_int ''pr_number'' d) (\<lambda>pr.
     bindE (get_list ''transitions'' d) (\<lambda>ts.
     bindE (mapE (\<lambda>t. bindE (as_obj ''transitions'' t) transition_from_dict) ts) (\<lambda>trs.
     bindE (get_opt_str ''locked_by'' d) (\<lambda>lb.
     bindE (get_opt_str ''locked_at'' d) (\<lambda>la.
     bindE (get_str ''created_at'' now d) (\<lambda>ca.
     bindE (get_str ''updated_at'' now d) (\<lambda>ua.
       Inr \<lparr>lc_issue_number = n, lc_repo = repo, lc_current_state = st, lc_triage_result = triage,
            lc_spec_id = spec, lc_pr_number = pr, lc_transitions = trs, lc_locked_by = lb,
            lc_locked_at = la, lc_created_at = ca, lc_updated_at = ua\<rparr>)))))))))))))"

section \<open>The manager\<close>

type_synonym lc_dir = "(string \<times> obj) list"

definition lc_file :: "string \<Rightarrow> int \<Rightarrow> string" where
  "lc_file repo n = py_replace_char (CHR ''/'') (CHR ''_'') repo @ ''_'' @ str_of_int n @ ''.json''"

definition lm_get :: "string \<Rightarrow> string \<Rightarrow> int \<Rightarrow> lc_dir \<Rightarrow> py_error + lifecycle option" where
  "lm_get now repo n dir = (case map_of dir (lc_file repo n) of None \<Rightarrow> Inr None
     | Some d \<Rightarrow> bindE (lifecycle_from_dict now d) (\<lambda>lc. Inr (Some lc)))"

definition lm_save :: "lifecycle \<Rightarrow> lc_dir \<Rightarrow> lc_dir" where
  "lm_save lc dir = AList.update (lc_file (lc_repo lc) (lc_issue_number lc)) (lifecycle_to_dict lc) dir"

definition lm_get_or_create :: "string \<Rightarrow> string \<Rightarrow> int \<Rightarrow> lc_dir \<Rightarrow> py_error + (lifecycle \<times> lc_dir)" where
  "lm_get_or_create now repo n dir =
     bindE (lm_get now repo n dir) (\<lambda>found. case found of
         Some lc \<Rightarrow> Inr (lc, dir)
       | None \<Rightarrow> (let lc = new_lifecycle now repo n in Inr (lc, lm_save lc dir)))"

definition lm_transition :: "string \<Rightarrow> string \<Rightarrow> int \<Rightarrow> issue_state \<Rightarrow> string \<Rightarrow> string option \<Rightarrow>
    obj option \<Rightarrow> lc_dir \<Rightarrow> py_error + (conflict_result \<times> lc_dir)" where
  "lm_transition now repo n new_state actor reason metadata dir =
     bindE (lm_get_or_create now repo n dir) (\<lambda>(lc, dir1).
       let (result, lc') = issue_transition now new_state actor reason metadata lc
       in Inr (result, if cr_has_conflict result then dir1 else lm_save lc' dir1))"

definition lm_check_conflict :: "string \<Rightarrow> string \<Rightarrow> int \<Rightarrow> string \<Rightarrow> lc_dir \<Rightarrow>
    py_error + (conflict_result \<times> lc_dir)" where
  "lm_check_conflict now repo n operation dir =
     bindE (lm_get_or_create now repo n dir) (\<lambda>(lc, dir1).
       Inr (if lc_is_locked lc
            then conflict CONCURRENT_OPERATION (''Issue locked by '' @ the (lc_locked_by lc)) None
                   ''Wait for current operation to complete''
            else if operation = ''auto_fix'' then check_auto_fix_allowed lc
            else if operation = ''notify_human'' then check_pr_review_required lc
            else no_conflict, dir1))"

definition lm_acquire_lock :: "string \<Rightarrow> string \<Rightarrow> int \<Rightarrow> string \<Rightarrow> lc_dir \<Rightarrow> py_error + (bool \<times> lc_dir)" where
  "lm_acquire_lock now repo n component dir =
     bindE (lm_get_or_create now repo n dir) (\<lambda>(lc, dir1).
       let (got, lc') = lc_acquire_lock now component lc
       in Inr (if got then (True, lm_save lc' dir1) else (False, dir1)))"

definition lm_release_lock :: "string \<Rightarrow> string \<Rightarrow> int \<Rightarrow> string \<Rightarrow> lc_dir \<Rightarrow> py_error + (bool \<times> lc_dir)" where
  "lm_release_lock now repo n component dir =
     bindE (lm_get now repo n dir) (\<lambda>found. case found of
         None \<Rightarrow> Inr (False, dir)
       | Some lc \<Rightarrow>
         (let (released, lc') = lc_release_lock component lc
          in Inr (if released then (True, lm_save lc' dir) else (False, dir))))"

text \<open>The glob \<open>f"{safe_repo}_*.json"\<close>, in the order the directory lists its entries.\<close>

definition glob_match :: "string \<Rightarrow> string \<Rightarrow> bool" where
  "glob_match repo name =
     (let pre = py_replace_char (CHR ''/'') (CHR ''_'') repo @ ''_''
      in prefix pre name \<and> suffix ''.json'' (drop (length pre) name))"

definition repo_files :: "string \<Rightarrow> lc_dir \<Rightarrow> obj list" where
  "repo_files repo dir = map snd (filter (\<lambda>x. glob_match repo (fst x)) dir)"

definition get_all_in_state :: "string \<Rightarrow> string \<Rightarrow> issue_state \<Rightarrow> lc_dir \<Rightarrow> py_error + lifecycle list" where
  "get_all_in_state now repo st dir =
     bindE (mapE (lifecycle_from_dict now) (repo_files repo dir)) (\<lambda>lcs.
       Inr (filter (\<lambda>lc. lc_current_state lc = st) lcs))"

definition get_summary :: "string \<Rightarrow> lc_dir \<Rightarrow> py_error + (string \<times> int) list" where
  "get_summary repo dir =
     bindE (mapE (get_str ''current_state'' ''new'') (repo_files repo dir)) (\<lambda>sts.
       Inr (fold (\<lambda>s counts. AList.update s (ddefault 0 counts s + 1) counts) sts []))"

end
