(* ===== verification/Lifecycle_Props.thy ===== *)
theory Lifecycle_Props
  imports Issue_Lifecycle
begin

text \<open>
  What the lifecycle guarantees: its log is a path of valid transitions, nothing is built before it
  is approved, a lock keeps everyone else out, a file holds what was saved.
\<close>

section \<open>Round trips\<close>

lemma state_of_value [simp]: "state_of (state_value s) = Inr s"
  by (cases s) (simp_all add: state_of_def issue_states_def)

lemma transition_roundtrip: "transition_from_dict (transition_to_dict t) = Inr t"
proof -
  have "get_opt_str ''reason'' (transition_to_dict t) = Inr (tr_reason t)"
    by (rule get_opt_str_jopt) (simp add: transition_to_dict_def)
  then show ?thesis
    by (simp add: transition_from_dict_def) (simp add: transition_to_dict_def req_str_def get_obj_def)
qed

lemma lifecycle_roundtrip: "lifecycle_from_dict now (lifecycle_to_dict lc) = Inr lc"
proof -
  let ?d = "lifecycle_to_dict lc"
  have "get_opt_str ''spec_id'' ?d = Inr (lc_spec_id lc)"
    "get_opt_str ''locked_by'' ?d = Inr (lc_locked_by lc)"
    "get_opt_str ''locked_at'' ?d = Inr (lc_locked_at lc)"
    by (rule get_opt_str_jopt, simp add: lifecycle_to_dict_def)+
  moreover have "get_opt_obj ''triage_result'' ?d = Inr (lc_triage_result lc)"
    by (simp add: get_opt_obj_def lifecycle_to_dict_def jopt_obj_def split: option.split)
  moreover have "get_opt_int ''pr_number'' ?d = Inr (lc_pr_number lc)"
    by (simp add: get_opt_int_def lifecycle_to_dict_def jopt_num_def split: option.split)
  moreover have "req_int ''issue_number'' ?d = Inr (lc_issue_number lc)" "req_str ''repo'' ?d = Inr (lc_repo lc)"
    "get_str ''current_state'' ''new'' ?d = Inr (state_value (lc_current_state lc))"
    "get_str ''created_at'' now ?d = Inr (lc_created_at lc)"
    "get_str ''updated_at'' now ?d = Inr (lc_updated_at lc)"
    "get_list ''transitions'' ?d = Inr (map (JObj \<circ> transition_to_dict) (lc_transitions lc))"
    by (simp_all add: lifecycle_to_dict_def req_int_def req_str_def get_str_def get_list_def)
  moreover have "mapE (\<lambda>t. bindE (as_obj ''transitions'' t) transition_from_dict)
      (map (JObj \<circ> transition_to_dict) (lc_transitions lc)) = Inr (map (\<lambda>t. t) (lc_transitions lc))"
    by (rule mapE_map) (simp add: as_obj_def transition_roundtrip)
  ultimately show ?thesis by (simp add: lifecycle_from_dict_def)
qed

section \<open>The log\<close>

fun linked :: "issue_state \<Rightarrow> state_transition list \<Rightarrow> issue_state \<Rightarrow> bool" where
  "linked a [] b = (a = b)"
| "linked a (t # ts) b = (tr_from_state t = a \<and> tr_to_state t \<in> set (valid_transitions a) \<and> linked (tr_to_state t) ts b)"

lemma linked_snoc:
  "linked a (ts @ [t]) b \<longleftrightarrow> (\<exists>c. linked a ts c \<and> tr_from_state t = c \<and>
     tr_to_state t \<in> set (valid_transitions c) \<and> tr_to_state t = b)"
  by (induction ts arbitrary: a) auto

definition log_ok :: "lifecycle \<Rightarrow> bool" where
  "log_ok lc \<longleftrightarrow> linked NEW (lc_transitions lc) (lc_current_state lc)"

text \<open>The operations on one lifecycle, and the machine they make.\<close>

datatype lc_op = Move string issue_state string "string option" "obj option"
  | Acquire string string | Release string

fun lc_step :: "lifecycle \<Rightarrow> lc_op \<Rightarrow> lifecycle" where
  "lc_step lc (Move now s actor reason metadata) = snd (issue_transition now s actor reason metadata lc)"
| "lc_step lc (Acquire now c) = snd (lc_acquire_lock now c lc)"
| "lc_step lc (Release c) = snd (lc_release_lock c lc)"

lemma log_ok_transition: "log_ok lc \<Longrightarrow> log_ok (snd (issue_transition now s actor reason metadata lc))"
  by (auto simp: log_ok_def issue_transition_def can_transition_to_def linked_snoc)

interpretation lc_log: machine lc_step "\<lambda>_. True" log_ok
proof unfold_locales
  fix lc :: lifecycle and e :: lc_op
  assume "log_ok lc"
  then show "log_ok (lc_step lc e)"
    by (cases e) (simp_all add: log_ok_transition, auto simp: log_ok_def lc_acquire_lock_def lc_release_lock_def)
qed

interpretation lc_lock: machine lc_step "\<lambda>e. e \<noteq> Release c" "\<lambda>lc. lc_locked_by lc = Some c"
proof unfold_locales
  fix lc :: lifecycle and e :: lc_op
  assume "lc_locked_by lc = Some c" "e \<noteq> Release c"
  then show "lc_locked_by (lc_step lc e) = Some c"
    by (cases e) (auto simp: issue_transition_def lc_acquire_lock_def lc_release_lock_def)
qed

lemma log_valid_path:
  "linked NEW (lc_transitions (foldl lc_step (new_lifecycle now repo n) ops))
     (lc_current_state (foldl lc_step (new_lifecycle now repo n) ops))"
  using lc_log.run_inv [of "new_lifecycle now repo n" ops] by (simp add: log_ok_def new_lifecycle_def)

lemma lock_excludes:
  assumes "lc_locked_by lc = Some c" "Release c \<notin> set ops"
  shows "fst (lc_acquire_lock now d (foldl lc_step lc ops)) = False \<and>
         (d \<noteq> c \<longrightarrow> fst (lc_release_lock d (foldl lc_step lc ops)) = False)"
proof -
  have "lc_locked_by (foldl lc_step lc ops) = Some c"
    by (rule lc_lock.run_inv) (use assms in auto)
  then show ?thesis by (simp add: lc_acquire_lock_def lc_release_lock_def)
qed

section \<open>What the graph of transitions excludes\<close>

definition visited :: "lifecycle \<Rightarrow> issue_state set" where
  "visited lc = tr_to_state ` set (lc_transitions lc)"

text \<open>A region that is entered only through one gate cannot be reached around it.\<close>

definition gate_of :: "issue_state list \<Rightarrow> issue_state \<Rightarrow> bool" where
  "gate_of R g \<longleftrightarrow> list_all (\<lambda>s. s \<in> set R \<or>
     list_all (\<lambda>t. t \<in> set R \<longrightarrow> t = g) (valid_transitions s)) issue_states"

lemma issue_states_all: "s \<in> set issue_states"
  by (cases s) (simp_all add: issue_states_def)

lemma gate_ofD: "gate_of R g \<Longrightarrow> s \<notin> set R \<Longrightarrow> t \<in> set (valid_transitions s) \<Longrightarrow> t \<in> set R \<Longrightarrow> t = g"
  using issue_states_all [of s] unfolding gate_of_def list_all_iff by blast

lemma linked_gate:
  assumes "linked a ts b" "a \<notin> set R" "b \<in> set R" "gate_of R g"
  shows "g \<in> tr_to_state ` set ts"
  using assms(1-3)
proof (induction ts arbitrary: a)
  case (Cons t ts)
  show ?case
  proof (cases "tr_to_state t \<in> set R")
    case True
    have "tr_to_state t \<in> set (valid_transitions a)" using Cons(2) by simp
    then have "tr_to_state t = g" using gate_ofD [OF assms(4) Cons(3) _ True] by blast
    then show ?thesis by auto
  next
    case False
    have "linked (tr_to_state t) ts b" using Cons(2) by simp
    then have "g \<in> tr_to_state ` set ts" using Cons(1) False Cons(4) by blast
    then show ?thesis by simp
  qed
qed simp

definition build_states :: "issue_state list" where
  "build_states = [APPROVED_FOR_FIX, SPEC_CREATING, SPEC_READY, BUILDING, BUILD_FAILED, PR_CREATING,
     PR_CREATED, PR_REVIEWING, PR_CHANGES_REQUESTED, PR_APPROVED, MERGED]"

definition reviewed_states :: "issue_state list" where
  "reviewed_states = [PR_APPROVED, MERGED]"

definition triaged_states :: "issue_state list" where
  "triaged_states = filter (\<lambda>s. s \<notin> set [NEW, TRIAGING, SPAM, DUPLICATE, CLOSED, WONT_FIX]) issue_states"

lemma gates:
  "gate_of build_states APPROVED_FOR_FIX" "gate_of reviewed_states PR_APPROVED"
  "gate_of triaged_states TRIAGED"
  by (simp_all add: gate_of_def issue_states_def build_states_def reviewed_states_def triaged_states_def)

lemma built_only_after_approval:
  assumes "log_ok lc" "lc_current_state lc \<in> set build_states"
  shows "APPROVED_FOR_FIX \<in> visited lc"
  using linked_gate [OF _ _ assms(2) gates(1), of NEW] assms(1)
  by (simp add: log_ok_def visited_def build_states_def)

lemma merged_only_after_review:
  assumes "log_ok lc" "lc_current_state lc = MERGED"
  shows "{TRIAGED, APPROVED_FOR_FIX, PR_APPROVED} \<subseteq> visited lc"
proof -
  have l: "linked NEW (lc_transitions lc) MERGED" using assms by (simp add: log_ok_def)
  have "PR_APPROVED \<in> visited lc"
    using linked_gate [OF l _ _ gates(2)] by (simp add: visited_def reviewed_states_def)
  moreover have "TRIAGED \<in> visited lc"
    using linked_gate [OF l _ _ gates(3)] by (simp add: visited_def triaged_states_def issue_states_def)
  ultimately show ?thesis
    using built_only_after_approval [OF assms(1)] assms(2) by (simp add: build_states_def)
qed

lemma no_transition_to_wont_fix: "WONT_FIX \<notin> set (valid_transitions s)"
proof -
  have "list_all (\<lambda>s. WONT_FIX \<notin> set (valid_transitions s)) issue_states"
    by (simp add: issue_states_def)
  then show ?thesis using issue_states_all [of s] by (auto simp: list_all_iff)
qed

lemma wont_fix_unreachable: "log_ok lc \<Longrightarrow> lc_current_state lc \<noteq> WONT_FIX"
  using no_transition_to_wont_fix
  by (cases "lc_transitions lc" rule: rev_cases) (auto simp: log_ok_def linked_snoc)

text \<open>An issue whose log is valid is cleared for auto-fix only after it went through triage, unless it is
  already closed.\<close>

theorem auto_fix_only_after_triage:
  assumes "log_ok lc" "\<not> cr_has_conflict (check_auto_fix_allowed lc)" "lc_current_state lc \<noteq> CLOSED"
  shows "TRIAGED \<in> visited lc"
proof -
  have "lc_current_state lc \<in> set triaged_states"
    using assms(2,3) wont_fix_unreachable [OF assms(1)] issue_states_all [of "lc_current_state lc"]
    by (auto simp: check_auto_fix_allowed_def blocks_auto_fix_def triaged_states_def
        requires_triage_first_def conflict_def split: if_splits)
  then show ?thesis
    using linked_gate [OF _ _ _ gates(3), of NEW] assms(1)
    by (simp add: log_ok_def visited_def triaged_states_def)
qed

section \<open>The directory of lifecycles\<close>

lemma lm_get_save:
  "lm_get now (lc_repo lc) (lc_issue_number lc) (lm_save lc dir) = Inr (Some lc)"
  by (simp add: lm_get_def lm_save_def pydict.get_put_same lifecycle_roundtrip)

lemma lm_get_save_other:
  "lc_file repo n \<noteq> lc_file (lc_repo lc) (lc_issue_number lc) \<Longrightarrow>
   lm_get now repo n (lm_save lc dir) = lm_get now repo n dir"
  by (simp add: lm_get_def lm_save_def pydict.get_put_other)

text \<open>Owners of repositories have no underscore, which keeps the file names apart.\<close>

definition repo_name :: "string \<Rightarrow> string \<Rightarrow> bool" where
  "repo_name owner name \<longleftrightarrow> CHR ''_'' \<notin> set owner \<and> CHR ''/'' \<notin> set owner \<and> CHR ''/'' \<notin> set name"

lemma str_of_int_chars: "c \<in> set (str_of_int n) \<Longrightarrow> c \<noteq> CHR ''_''"
proof -
  have "\<not> is_digit (CHR ''_'')" by (simp add: is_digit_def)
  then show "c \<in> set (str_of_int n) \<Longrightarrow> c \<noteq> CHR ''_''"
    using digits_of_nat_digits by (auto simp: str_of_int_def split: if_splits)
qed

lemma str_of_int_inj: "str_of_int m = str_of_int n \<longleftrightarrow> m = n"
proof -
  have "\<not> is_digit (CHR ''-'')" by (simp add: is_digit_def)
  then have "CHR ''-'' \<noteq> hd (digits_of_nat k)" for k
    using digits_of_nat_digits [of "hd (digits_of_nat k)" k] by (metis digits_of_nat_not_Nil hd_in_set)
  then show ?thesis
    by (auto simp: str_of_int_def digits_of_nat_inj split: if_splits) (metis list.sel(1))+
qed

lemma split_first:
  assumes "a @ c # x = b @ c # y" "c \<notin> set a" "c \<notin> set b"
  shows "a = b \<and> x = y"
  using assms by (induction a arbitrary: b) (case_tac b; auto)+

lemma split_last:
  assumes "x @ c # a = y @ c # b" "c \<notin> set a" "c \<notin> set b"
  shows "a = b \<and> x = y"
  using split_first [of "rev a" c "rev x" "rev b" "rev y"] assms
  by (metis append.assoc append_Cons append_Nil rev_append rev_rev_ident rev_singleton_conv set_rev rev.simps(2))

lemma lc_file_inj:
  assumes "repo_name o1 n1" "repo_name o2 n2"
    and "lc_file (o1 @ ''/'' @ n1) i = lc_file (o2 @ ''/'' @ n2) j"
  shows "o1 = o2 \<and> n1 = n2 \<and> i = j"
proof -
  have keep: "py_replace_char (CHR ''/'') (CHR ''_'') s = s" if "CHR ''/'' \<notin> set s" for s
    using that by (induction s) (auto simp: py_replace_char_def)
  have e: "(o1 @ ''_'' @ n1) @ CHR ''_'' # str_of_int i @ ''.json'' =
           (o2 @ ''_'' @ n2) @ CHR ''_'' # str_of_int j @ ''.json''"
    using assms keep [of o1] keep [of n1] keep [of o2] keep [of n2]
    by (simp add: lc_file_def py_replace_char_def repo_name_def)
  have "CHR ''_'' \<notin> set (str_of_int k @ ''.json'')" for k
    using str_of_int_chars by auto
  then have "str_of_int i @ ''.json'' = str_of_int j @ ''.json'' \<and> o1 @ ''_'' @ n1 = o2 @ ''_'' @ n2"
    using split_last [OF e] by blast
  moreover then have "o1 = o2 \<and> n1 = n2"
    using split_first [of o1 "CHR ''_''" n1 o2 n2] assms(1,2) by (simp add: repo_name_def)
  ultimately show ?thesis by (simp add: str_of_int_inj)
qed


section \<open>The manager\<close>

datatype lm_op =
    MTransition string string int issue_state string "string option" "obj option"
  | MCheck string string int string
  | MAcquire string string int string
  | MRelease string string int string

definition dir_after :: "lc_dir \<Rightarrow> py_error + ('a \<times> lc_dir) \<Rightarrow> lc_dir" where
  "dir_after dir r = (case r of Inl _ \<Rightarrow> dir | Inr (_, dir') \<Rightarrow> dir')"

fun lm_step :: "lc_dir \<Rightarrow> lm_op \<Rightarrow> lc_dir" where
  "lm_step dir (MTransition now repo n st actor reason metadata) =
     dir_after dir (lm_transition now repo n st actor reason metadata dir)"
| "lm_step dir (MCheck now repo n op) = dir_after dir (lm_check_conflict now repo n op dir)"
| "lm_step dir (MAcquire now repo n c) = dir_after dir (lm_acquire_lock now repo n c dir)"
| "lm_step dir (MRelease now repo n c) = dir_after dir (lm_release_lock now repo n c dir)"

text \<open>Every file holds a saved lifecycle, under its own name, with a valid log.\<close>

definition stored :: "lc_dir \<Rightarrow> string \<Rightarrow> lifecycle \<Rightarrow> bool" where
  "stored dir f lc \<longleftrightarrow> map_of dir f = Some (lifecycle_to_dict lc) \<and>
     lc_file (lc_repo lc) (lc_issue_number lc) = f \<and> log_ok lc"

definition dir_ok :: "lc_dir \<Rightarrow> bool" where
  "dir_ok dir \<longleftrightarrow> (\<forall>f. map_of dir f = None \<or> (\<exists>lc. stored dir f lc))"

lemma stored_get: "stored dir (lc_file repo n) lc \<Longrightarrow> lm_get now repo n dir = Inr (Some lc)"
  by (simp add: stored_def lm_get_def lifecycle_roundtrip)

lemma stored_save:
  "stored (lm_save lc dir) f lc' \<longleftrightarrow>
   (if f = lc_file (lc_repo lc) (lc_issue_number lc) then lc' = lc \<and> log_ok lc else stored dir f lc')"
proof -
  have "lifecycle_to_dict lc = lifecycle_to_dict lc' \<longleftrightarrow> lc = lc'"
    by (metis lifecycle_roundtrip sum.inject(2))
  then show ?thesis by (auto simp: stored_def lm_save_def dget_dset)
qed

lemma dir_ok_save: "dir_ok dir \<Longrightarrow> log_ok lc \<Longrightarrow> dir_ok (lm_save lc dir)"
  by (auto simp: dir_ok_def stored_save) (auto simp: lm_save_def dget_dset)

lemma new_lifecycle_ok [simp]: "log_ok (new_lifecycle now repo n)"
  by (simp add: log_ok_def new_lifecycle_def)

text \<open>What the manager finds: the stored lifecycle, or a new one that it stores.\<close>

lemma get_or_create_cases:
  assumes "dir_ok dir"
  obtains (found) lc where "stored dir (lc_file repo n) lc" "lm_get now repo n dir = Inr (Some lc)"
      "lm_get_or_create now repo n dir = Inr (lc, dir)"
  | (created) "map_of dir (lc_file repo n) = None" "lm_get now repo n dir = Inr None"
      "lm_get_or_create now repo n dir =
         Inr (new_lifecycle now repo n, lm_save (new_lifecycle now repo n) dir)"
proof (cases "map_of dir (lc_file repo n)")
  case None
  then show ?thesis by (intro created) (simp_all add: lm_get_def lm_get_or_create_def Let_def)
next
  case (Some d)
  then obtain lc where "stored dir (lc_file repo n) lc" using assms unfolding dir_ok_def by force
  then show ?thesis using stored_get by (intro found) (auto simp: lm_get_or_create_def)
qed

lemma get_or_create_stored:
  assumes "dir_ok dir"
  obtains lc dir1 where "lm_get_or_create now repo n dir = Inr (lc, dir1)" "dir_ok dir1"
    "stored dir1 (lc_file repo n) lc"
    "\<And>f lc'. stored dir f lc' \<Longrightarrow> stored dir1 f lc'"
    "stored dir (lc_file repo n) lc \<or> (lc = new_lifecycle now repo n \<and> map_of dir (lc_file repo n) = None)"
proof (cases rule: get_or_create_cases [OF assms, of repo n now])
  case (1 lc)
  then show ?thesis using that assms by blast
next
  case 2
  let ?lc = "new_lifecycle now repo n"
  have f: "lc_file (lc_repo ?lc) (lc_issue_number ?lc) = lc_file repo n" by (simp add: new_lifecycle_def)
  have keep: "stored (lm_save ?lc dir) f lc'" if st: "stored dir f lc'" for f lc'
  proof -
    have "f \<noteq> lc_file repo n" using st 2(1) by (auto simp: stored_def)
    then show ?thesis using st f by (simp add: stored_save)
  qed
  show ?thesis
  proof (rule that [OF 2(3)])
    show "dir_ok (lm_save ?lc dir)" by (rule dir_ok_save [OF assms]) simp
    show "stored (lm_save ?lc dir) (lc_file repo n) ?lc" by (simp add: stored_save f)
  qed (use keep 2(1) in auto)
qed

lemma issue_transition_frame:
  "lc_repo (snd (issue_transition now s a r m lc)) = lc_repo lc"
  "lc_issue_number (snd (issue_transition now s a r m lc)) = lc_issue_number lc"
  "lc_locked_by (snd (issue_transition now s a r m lc)) = lc_locked_by lc"
  "cr_has_conflict (fst (issue_transition now s a r m lc)) \<longleftrightarrow> \<not> can_transition_to lc s"
  by (simp_all add: issue_transition_def conflict_def no_conflict_def)

lemma lock_frame:
  "lc_repo (snd (lc_acquire_lock now c lc)) = lc_repo lc"
  "lc_issue_number (snd (lc_acquire_lock now c lc)) = lc_issue_number lc"
  "lc_repo (snd (lc_release_lock c lc)) = lc_repo lc"
  "lc_issue_number (snd (lc_release_lock c lc)) = lc_issue_number lc"
  "log_ok lc \<Longrightarrow> log_ok (snd (lc_acquire_lock now c lc))"
  "log_ok lc \<Longrightarrow> log_ok (snd (lc_release_lock c lc))"
  by (simp_all add: lc_acquire_lock_def lc_release_lock_def log_ok_def)

text \<open>
  One step of the manager rewrites at most one file, from the lifecycle \<open>get_or_create\<close> gives to
  the result of one operation on it.
\<close>

fun target :: "lm_op \<Rightarrow> string" where
  "target (MTransition now repo n st actor reason metadata) = lc_file repo n"
| "target (MCheck now repo n op) = lc_file repo n"
| "target (MAcquire now repo n c) = lc_file repo n"
| "target (MRelease now repo n c) = lc_file repo n"

fun lc_of_op :: "lm_op \<Rightarrow> lifecycle \<Rightarrow> lifecycle" where
  "lc_of_op (MTransition now repo n st actor reason metadata) lc = snd (issue_transition now st actor reason metadata lc)"
| "lc_of_op (MCheck now repo n op) lc = lc"
| "lc_of_op (MAcquire now repo n c) lc = snd (lc_acquire_lock now c lc)"
| "lc_of_op (MRelease now repo n c) lc = snd (lc_release_lock c lc)"

lemma lc_of_op_ok: "log_ok lc \<Longrightarrow> log_ok (lc_of_op e lc)"
  "lc_file (lc_repo (lc_of_op e lc)) (lc_issue_number (lc_of_op e lc)) = lc_file (lc_repo lc) (lc_issue_number lc)"
  by (cases e; simp add: log_ok_transition lock_frame issue_transition_frame)+

definition same_or_saved :: "lc_dir \<Rightarrow> lifecycle \<Rightarrow> lc_dir \<Rightarrow> lifecycle \<Rightarrow> bool" where
  "same_or_saved dir lc dir' lc' \<longleftrightarrow> dir' = lm_save lc' dir \<or> (dir' = dir \<and> lc' = lc)"

lemma lm_step_cases:
  assumes "dir_ok dir"
  obtains (step) lc dir1 where "dir_ok dir1" "stored dir1 (target e) lc"
      "\<And>f lc'. stored dir f lc' \<Longrightarrow> stored dir1 f lc'" "same_or_saved dir1 lc (lm_step dir e) (lc_of_op e lc)"
  | (idle) "lm_step dir e = dir" "map_of dir (target e) = None"
proof (cases e)
  case (MTransition now repo n st actor reason metadata)
  obtain lc dir1 where g: "lm_get_or_create now repo n dir = Inr (lc, dir1)" "dir_ok dir1"
    "stored dir1 (lc_file repo n) lc" "\<And>f lc'. stored dir f lc' \<Longrightarrow> stored dir1 f lc'"
    by (rule get_or_create_stored [OF assms, of now repo n]) blast
  have "same_or_saved dir1 lc (lm_step dir e) (lc_of_op e lc)"
    using MTransition g(1) issue_transition_frame(4) [of now st actor reason metadata lc]
    by (auto simp: same_or_saved_def lm_transition_def dir_after_def case_prod_beta issue_transition_def)
  then show ?thesis using g MTransition by (intro step) simp_all
next
  case (MCheck now repo n op)
  obtain lc dir1 where g: "lm_get_or_create now repo n dir = Inr (lc, dir1)" "dir_ok dir1"
    "stored dir1 (lc_file repo n) lc" "\<And>f lc'. stored dir f lc' \<Longrightarrow> stored dir1 f lc'"
    by (rule get_or_create_stored [OF assms, of now repo n]) blast
  have "same_or_saved dir1 lc (lm_step dir e) (lc_of_op e lc)"
    using MCheck g(1) by (simp add: same_or_saved_def lm_check_conflict_def dir_after_def)
  then show ?thesis using g MCheck by (intro step) simp_all
next
  case (MAcquire now repo n c)
  obtain lc dir1 where g: "lm_get_or_create now repo n dir = Inr (lc, dir1)" "dir_ok dir1"
    "stored dir1 (lc_file repo n) lc" "\<And>f lc'. stored dir f lc' \<Longrightarrow> stored dir1 f lc'"
    by (rule get_or_create_stored [OF assms, of now repo n]) blast
  have "same_or_saved dir1 lc (lm_step dir e) (lc_of_op e lc)"
    using MAcquire g(1)
    by (auto simp: same_or_saved_def lm_acquire_lock_def dir_after_def lc_acquire_lock_def)
  then show ?thesis using g MAcquire by (intro step) simp_all
next
  case (MRelease now repo n c)
  show ?thesis
  proof (cases rule: get_or_create_cases [OF assms, of repo n now])
    case (1 lc)
    have "same_or_saved dir lc (lm_step dir e) (lc_of_op e lc)"
      using MRelease 1
      by (auto simp: same_or_saved_def lm_release_lock_def dir_after_def lc_release_lock_def)
    then show ?thesis using 1 MRelease assms by (intro step) simp_all
  next
    case 2
    then show ?thesis using MRelease by (intro idle) (simp_all add: lm_release_lock_def dir_after_def)
  qed
qed

lemma lm_step_stored:
  assumes "dir_ok dir"
  shows "dir_ok (lm_step dir e)"
    "stored dir f lc \<Longrightarrow> stored (lm_step dir e) f (if f = target e then lc_of_op e lc else lc)"
proof -
  show "dir_ok (lm_step dir e)"
  proof (cases rule: lm_step_cases [OF assms, of e])
    case (1 lc dir1)
    then show ?thesis
      using dir_ok_save [of dir1 "lc_of_op e lc"] lc_of_op_ok(1) [of lc e]
      by (auto simp: same_or_saved_def stored_def)
  qed (use assms in simp)
  assume st: "stored dir f lc"
  show "stored (lm_step dir e) f (if f = target e then lc_of_op e lc else lc)"
  proof (cases rule: lm_step_cases [OF assms, of e])
    case (1 lc1 dir1)
    have d1: "stored dir1 f lc" using 1(3) st .
    have uniq: "lc1 = lc" if "f = target e"
      using 1(2) d1 that stored_save [of lc1 dir1 f lc] by (metis lifecycle_roundtrip stored_def option.inject sum.inject(2))
    have "lc_file (lc_repo lc1) (lc_issue_number lc1) = target e" "log_ok lc1"
      using 1(2) by (simp_all add: stored_def)
    then show ?thesis
      using 1(4) d1 uniq lc_of_op_ok [where e = e and lc = lc1] by (auto simp: same_or_saved_def stored_save)
  next
    case 2
    then show ?thesis using st by (auto simp: stored_def)
  qed
qed

interpretation lc_manager: machine lm_step "\<lambda>_. True" dir_ok
  by unfold_locales (rule lm_step_stored(1))

lemma reachable_directories_ok: "dir_ok (foldl lm_step [] ops)"
  by (rule lc_manager.run_inv) (simp_all add: dir_ok_def)

definition held :: "string \<Rightarrow> string \<Rightarrow> lc_dir \<Rightarrow> bool" where
  "held f c dir \<longleftrightarrow> dir_ok dir \<and> (\<exists>lc. stored dir f lc \<and> lc_locked_by lc = Some c)"

definition releases :: "string \<Rightarrow> string \<Rightarrow> lm_op \<Rightarrow> bool" where
  "releases f c e \<longleftrightarrow> target e = f \<and> (\<exists>now repo n. e = MRelease now repo n c)"

interpretation lc_held: machine lm_step "\<lambda>e. \<not> releases f c e" "held f c"
proof unfold_locales
  fix dir e
  assume h: "held f c dir" and e: "\<not> releases f c e"
  then obtain lc where lc: "dir_ok dir" "stored dir f lc" "lc_locked_by lc = Some c" by (auto simp: held_def)
  have "lc_locked_by (lc_of_op e lc) = Some c" if "f = target e"
    using that e lc(3)
    by (cases e) (auto simp: releases_def issue_transition_frame lc_acquire_lock_def lc_release_lock_def)
  then show "held f c (lm_step dir e)"
    using lm_step_stored(1) [OF lc(1), of e] lm_step_stored(2) [OF lc(1,2), of e] lc(3)
    by (auto simp: held_def)
qed

lemma lock_excludes_others:
  assumes "dir_ok dir" "lm_acquire_lock now repo n c dir = Inr (True, dir1)"
    and "\<forall>e \<in> set ops. \<not> releases (lc_file repo n) c e"
  shows "lm_acquire_lock now' repo n d (foldl lm_step dir1 ops) = Inr (False, foldl lm_step dir1 ops)"
proof -
  obtain lc dir0 where g: "lm_get_or_create now repo n dir = Inr (lc, dir0)" "dir_ok dir0"
    "stored dir0 (lc_file repo n) lc" by (rule get_or_create_stored [OF assms(1), of now repo n]) blast
  let ?lc = "snd (lc_acquire_lock now c lc)"
  have got: "fst (lc_acquire_lock now c lc)" and d1: "dir1 = lm_save ?lc dir0"
    using assms(2) g(1) by (auto simp: lm_acquire_lock_def case_prod_beta split: if_splits)
  have f: "lc_file (lc_repo ?lc) (lc_issue_number ?lc) = lc_file repo n"
    using g(3) by (simp add: stored_def lock_frame)
  have "log_ok ?lc" using g(3) by (simp add: stored_def lock_frame)
  moreover have "lc_locked_by ?lc = Some c" using got by (auto simp: lc_acquire_lock_def split: if_splits)
  ultimately have "held (lc_file repo n) c dir1"
    unfolding held_def d1 using dir_ok_save [OF g(2)] f by (auto simp: stored_save)
  then have "held (lc_file repo n) c (foldl lm_step dir1 ops)"
    by (rule lc_held.run_inv) (use assms(3) in auto)
  then obtain lc2 where "stored (foldl lm_step dir1 ops) (lc_file repo n) lc2" "lc_locked_by lc2 = Some c"
    by (auto simp: held_def)
  then show ?thesis
    using stored_get by (simp add: lm_acquire_lock_def lm_get_or_create_def lc_acquire_lock_def)
qed

section \<open>Properties of the manager\<close>


text \<open>Every file the manager writes holds a lifecycle whose log starts at new and moves by valid transitions
  to the current state; an issue that is being built was approved for a fix, and one that is merged was triaged,
  approved for a fix and approved in review.\<close>

theorem stored_lifecycles_are_valid:
  assumes "map_of (foldl lm_step [] ops) f = Some d"
  shows "\<exists>lc. d = lifecycle_to_dict lc \<and> lifecycle_from_dict now d = Inr lc \<and>
      lc_file (lc_repo lc) (lc_issue_number lc) = f \<and>
      linked NEW (lc_transitions lc) (lc_current_state lc) \<and>
      (lc_current_state lc \<in> set build_states \<longrightarrow> APPROVED_FOR_FIX \<in> tr_to_state ` set (lc_transitions lc)) \<and>
      (lc_current_state lc = MERGED \<longrightarrow>
         {TRIAGED, APPROVED_FOR_FIX, PR_APPROVED} \<subseteq> tr_to_state ` set (lc_transitions lc))"
proof -
  obtain lc where lc: "stored (foldl lm_step [] ops) f lc"
    using reachable_directories_ok [of ops] assms unfolding dir_ok_def by (metis option.distinct(1))
  then have "log_ok lc" "d = lifecycle_to_dict lc" "lc_file (lc_repo lc) (lc_issue_number lc) = f"
    using assms by (simp_all add: stored_def)
  then show ?thesis
    using built_only_after_approval merged_only_after_review
    by (intro exI [of _ lc]) (auto simp: log_ok_def lifecycle_roundtrip visited_def)
qed

text \<open>A saved lifecycle is what the manager finds for its issue, and saving it leaves every other issue of
  every repository as it was, for owner names without an underscore.\<close>

theorem saved_lifecycle_is_found:
  assumes "lc_repo lc = owner @ ''/'' @ name" "repo_name owner name" "repo_name owner' name'"
  shows "lm_get now (owner' @ ''/'' @ name') n (lm_save lc dir) =
    (if owner' = owner \<and> name' = name \<and> n = lc_issue_number lc then Inr (Some lc)
     else lm_get now (owner' @ ''/'' @ name') n dir)"
proof (cases "owner' = owner \<and> name' = name \<and> n = lc_issue_number lc")
  case True
  then show ?thesis using lm_get_save [of now lc dir] assms(1) by simp
next
  case False
  then have "lc_file (owner' @ ''/'' @ name') n \<noteq> lc_file (lc_repo lc) (lc_issue_number lc)"
    using lc_file_inj [OF assms(3,2)] assms(1) by metis
  from lm_get_save_other [OF this] show ?thesis unfolding if_not_P [OF False] .
qed

section \<open>File names that meet\<close>

text \<open>
  Outside that restriction the two repositories share a file, and the glob of one repository also
  lists files of another.
\<close>

lemma file_names_collide: "lc_file ''a/b_c'' n = lc_file ''a_b/c'' n"
  by (simp add: lc_file_def py_replace_char_def)

lemma glob_lists_other_repository: "glob_match ''o/a'' (lc_file ''o/a_b'' 5) \<and> lc_file ''o/a'' n \<noteq> lc_file ''o/a_b'' n"
proof -
  have "glob_match ''o/a'' (lc_file ''o/a_b'' 5)" by code_simp
  moreover have "lc_file ''o/a'' n \<noteq> lc_file ''o/a_b'' n"
    using lc_file_inj [of "''o''" "''a''" "''o''" "''a_b''" n n] by (auto simp: repo_name_def)
  ultimately show ?thesis by blast
qed

section \<open>At concrete inputs\<close>

definition sample_ops :: "lm_op list" where
  "sample_ops = [MTransition ''t1'' ''o/r'' 7 TRIAGING ''bot'' None None, MTransition ''t2'' ''o/r'' 7 TRIAGED ''bot'' None None]"

definition sample_lifecycle :: lifecycle where
  "sample_lifecycle = (new_lifecycle ''t1'' ''o/r'' 7)\<lparr>lc_current_state := TRIAGED, lc_updated_at := ''t2'',
     lc_transitions := [\<lparr>tr_from_state = NEW, tr_to_state = TRIAGING, tr_timestamp = ''t1'', tr_actor = ''bot'',
         tr_reason = None, tr_metadata = []\<rparr>,
       \<lparr>tr_from_state = TRIAGING, tr_to_state = TRIAGED, tr_timestamp = ''t2'', tr_actor = ''bot'',
         tr_reason = None, tr_metadata = []\<rparr>]\<rparr>"

lemma sample_directory:
  "lm_get ''t3'' ''o/r'' 7 (foldl lm_step [] sample_ops) = Inr (Some sample_lifecycle)"
  by code_simp

lemma stored_lifecycles_are_valid_witness:
  "\<exists>d lc. map_of (foldl lm_step [] sample_ops) (lc_file ''o/r'' 7) = Some d \<and> d = lifecycle_to_dict lc \<and>
     linked NEW (lc_transitions lc) (lc_current_state lc)"
proof -
  obtain d where d: "map_of (foldl lm_step [] sample_ops) (lc_file ''o/r'' 7) = Some d"
    using sample_directory by (auto simp: lm_get_def split: option.splits)
  then show ?thesis using stored_lifecycles_are_valid [OF d] by blast
qed


lemma auto_fix_only_after_triage_witness: "TRIAGED \<in> visited sample_lifecycle"
proof (rule auto_fix_only_after_triage)
  show "log_ok sample_lifecycle" by code_simp
  show "\<not> cr_has_conflict (check_auto_fix_allowed sample_lifecycle)" by code_simp
  show "lc_current_state sample_lifecycle \<noteq> CLOSED" by code_simp
qed

lemma saved_lifecycle_is_found_witness:
  "lm_get ''t'' ''o/r'' 7 (lm_save sample_lifecycle []) = Inr (Some sample_lifecycle)"
  using saved_lifecycle_is_found [of sample_lifecycle "''o''" "''r''" "''o''" "''r''" "''t''" 7 "[]"]
  by (simp add: sample_lifecycle_def new_lifecycle_def repo_name_def)

end
