(* ===== verification/Recovery.thy ===== *)
theory Recovery
  imports Prelude
begin

text \<open>
  Recovery from failed attempts (\<open>services/recovery.py\<close>): the attempt history and the good commits
  kept under the spec's \<open>memory\<close> directory, the classification of an error, and the action taken.
  A file that is missing or does not parse is \<open>None\<close> in the store; a timestamp is the instant it
  denotes in microseconds, \<open>None\<close> when it is missing or malformed.
\<close>

definition attempt_window :: int where "attempt_window = 7200 * 1000000"
definition max_attempt_history :: nat where "max_attempt_history = 50"

datatype failure_type = BROKEN_BUILD | VERIFICATION_FAILED | CIRCULAR_FIX | CONTEXT_EXHAUSTED | UNKNOWN

record recovery_action =
  ra_action :: string
  ra_target :: string
  ra_reason :: string

section \<open>The files\<close>

record attempt =
  at_session :: int
  at_timestamp :: "int option"
  at_approach :: string
  at_success :: bool
  at_error :: "string option"

record subtask_history =
  sh_attempts :: "attempt list"
  sh_status :: string

record stuck_entry =
  se_subtask_id :: string
  se_reason :: string
  se_escalated_at :: int
  se_attempt_count :: nat

record history =
  hi_subtasks :: "(string \<times> subtask_history) list"
  hi_stuck :: "stuck_entry list"
  hi_created_at :: int
  hi_last_updated :: int

record commit_record =
  co_hash :: string
  co_subtask_id :: string
  co_timestamp :: int

record commits =
  cm_commits :: "commit_record list"
  cm_last_good_commit :: "string option"
  cm_created_at :: int
  cm_last_updated :: int

record store =
  sto_history :: "history option"
  sto_commits :: "commits option"
  sto_plan :: "obj option"

definition init_history :: "int \<Rightarrow> history" where
  "init_history now = \<lparr>hi_subtasks = [], hi_stuck = [], hi_created_at = now, hi_last_updated = now\<rparr>"

definition init_commits :: "int \<Rightarrow> commits" where
  "init_commits now =
     \<lparr>cm_commits = [], cm_last_good_commit = None, cm_created_at = now, cm_last_updated = now\<rparr>"

text \<open>A file that cannot be read is initialised, on disk too.\<close>

definition load_history :: "int \<Rightarrow> store \<Rightarrow> history \<times> store" where
  "load_history now sto = (case sto_history sto of
       Some h \<Rightarrow> (h, sto)
     | None \<Rightarrow> (init_history now, sto\<lparr>sto_history := Some (init_history now)\<rparr>))"

definition save_history :: "int \<Rightarrow> history \<Rightarrow> store \<Rightarrow> store" where
  "save_history now h sto = sto\<lparr>sto_history := Some (h\<lparr>hi_last_updated := now\<rparr>)\<rparr>"

definition load_commits :: "int \<Rightarrow> store \<Rightarrow> commits \<times> store" where
  "load_commits now sto = (case sto_commits sto of
       Some c \<Rightarrow> (c, sto)
     | None \<Rightarrow> (init_commits now, sto\<lparr>sto_commits := Some (init_commits now)\<rparr>))"

definition save_commits :: "int \<Rightarrow> commits \<Rightarrow> store \<Rightarrow> store" where
  "save_commits now c sto = sto\<lparr>sto_commits := Some (c\<lparr>cm_last_updated := now\<rparr>)\<rparr>"

definition new_manager :: "int \<Rightarrow> store \<Rightarrow> store" where
  "new_manager now sto = snd (load_commits now (snd (load_history now sto)))"

section \<open>Attempts\<close>

definition no_history :: subtask_history where
  "no_history = \<lparr>sh_attempts = [], sh_status = ''pending''\<rparr>"

definition attempts_of :: "string \<Rightarrow> history \<Rightarrow> attempt list" where
  "attempts_of sid h = sh_attempts (ddefault no_history (hi_subtasks h) sid)"

definition recent :: "int \<Rightarrow> attempt \<Rightarrow> bool" where
  "recent now a = (case at_timestamp a of None \<Rightarrow> True | Some t \<Rightarrow> t \<ge> now - attempt_window)"

definition get_attempt_count :: "int \<Rightarrow> string \<Rightarrow> store \<Rightarrow> nat \<times> store" where
  "get_attempt_count now sid sto =
     (let (h, sto1) = load_history now sto
      in (length (filter (recent now) (attempts_of sid h)), sto1))"

definition last_n :: "nat \<Rightarrow> 'a list \<Rightarrow> 'a list" where
  "last_n n xs = drop (length xs - n) xs"

definition record_attempt ::
    "int \<Rightarrow> string \<Rightarrow> int \<Rightarrow> bool \<Rightarrow> string \<Rightarrow> string option \<Rightarrow> store \<Rightarrow> store" where
  "record_attempt now sid session success approach error sto =
     (let (h, sto1) = load_history now sto;
          sub = ddefault no_history (hi_subtasks h) sid;
          a = \<lparr>at_session = session, at_timestamp = Some now, at_approach = approach,
               at_success = success, at_error = error\<rparr>;
          attempts = sh_attempts sub @ [a];
          trimmed = (if length attempts > max_attempt_history then last_n max_attempt_history attempts else attempts);
          sub2 = \<lparr>sh_attempts = trimmed, sh_status = (if success then ''completed'' else ''failed'')\<rparr>
      in save_history now (h\<lparr>hi_subtasks := AList.update sid sub2 (hi_subtasks h)\<rparr>) sto1)"

definition stop_words :: "string list" where
  "stop_words = [''with'', ''using'', ''the'', ''a'', ''an'', ''and'', ''or'', ''but'', ''in'', ''on'',
     ''at'', ''to'', ''for'', ''trying'']"

definition word_set :: "string \<Rightarrow> string list" where
  "word_set s = remdups (filter (\<lambda>w. w \<notin> set stop_words) (py_split_ws (py_lower s)))"

definition similar :: "string \<Rightarrow> string \<Rightarrow> bool" where
  "similar a b =
     (let ka = word_set a; kb = word_set b;
          overlap = length (filter (\<lambda>w. w \<in> set kb) ka);
          tot = length (remdups (ka @ kb))
      in tot > 0 \<and> of_nat overlap / of_nat tot > (3 / 10 :: rat))"

definition circular :: "attempt list \<Rightarrow> string \<Rightarrow> bool" where
  "circular attempts current =
     (if length attempts < 2 then False
      else length (filter (\<lambda>a. similar current (at_approach a)) (last_n 3 attempts)) \<ge> 2)"

definition is_circular_fix :: "int \<Rightarrow> string \<Rightarrow> string \<Rightarrow> store \<Rightarrow> bool \<times> store" where
  "is_circular_fix now sid current sto =
     (let (h, sto1) = load_history now sto in (circular (attempts_of sid h) current, sto1))"

section \<open>Classification and action\<close>

definition build_errors :: "string list" where
  "build_errors = [''syntax error'', ''compilation error'', ''module not found'', ''import error'',
     ''cannot find module'', ''unexpected token'', ''indentation error'', ''parse error'']"

definition verification_errors :: "string list" where
  "verification_errors = [''verification failed'', ''expected'', ''assertion'', ''test failed'', ''status code'']"

definition context_errors :: "string list" where
  "context_errors = [''context'', ''token limit'', ''maximum length'']"

definition classify_failure :: "int \<Rightarrow> string \<Rightarrow> string \<Rightarrow> store \<Rightarrow> failure_type \<times> store" where
  "classify_failure now error sid sto =
     (let error_lower = py_lower error
      in if list_ex (\<lambda>n. py_in n error_lower) build_errors then (BROKEN_BUILD, sto)
         else if list_ex (\<lambda>n. py_in n error_lower) verification_errors then (VERIFICATION_FAILED, sto)
         else if list_ex (\<lambda>n. py_in n error_lower) context_errors then (CONTEXT_EXHAUSTED, sto)
         else let (circ, sto1) = is_circular_fix now sid error sto
              in (if circ then CIRCULAR_FIX else UNKNOWN, sto1))"

definition get_last_good_commit :: "int \<Rightarrow> store \<Rightarrow> string option \<times> store" where
  "get_last_good_commit now sto =
     (let (c, sto1) = load_commits now sto in (cm_last_good_commit c, sto1))"

definition record_good_commit :: "int \<Rightarrow> string \<Rightarrow> string \<Rightarrow> store \<Rightarrow> store" where
  "record_good_commit now hash sid sto =
     (let (c, sto1) = load_commits now sto
      in save_commits now
           (c\<lparr>cm_commits := cm_commits c @ [\<lparr>co_hash = hash, co_subtask_id = sid, co_timestamp = now\<rparr>],
              cm_last_good_commit := Some hash\<rparr>) sto1)"

definition action :: "string \<Rightarrow> string \<Rightarrow> string \<Rightarrow> recovery_action" where
  "action a t r = \<lparr>ra_action = a, ra_target = t, ra_reason = r\<rparr>"

definition determine_recovery_action ::
    "int \<Rightarrow> failure_type \<Rightarrow> string \<Rightarrow> store \<Rightarrow> recovery_action \<times> store" where
  "determine_recovery_action now ft sid sto =
     (let (n, sto1) = get_attempt_count now sid sto
      in case ft of
           BROKEN_BUILD \<Rightarrow>
             (let (good, sto2) = get_last_good_commit now sto1
              in (if truthy_str good
                  then action ''rollback'' (the good)
                    (''Build broken in subtask '' @ sid @ '', rolling back to working state'')
                  else action ''escalate'' sid ''Build broken and no good commit found to rollback to'', sto2))
         | VERIFICATION_FAILED \<Rightarrow>
             (if n < 3
              then action ''retry'' sid (''Verification failed, retry with different approach (attempt '' @
                     digits_of_nat (n + 1) @ ''/3)'')
              else action ''skip'' sid (''Verification failed after '' @ digits_of_nat n @
                     '' attempts, marking as stuck''), sto1)
         | CIRCULAR_FIX \<Rightarrow>
             (action ''skip'' sid ''Circular fix detected - same approach tried multiple times'', sto1)
         | CONTEXT_EXHAUSTED \<Rightarrow>
             (action ''continue'' sid ''Context exhausted, will commit progress and continue in next session'', sto1)
         | UNKNOWN \<Rightarrow>
             (if n < 2
              then action ''retry'' sid (''Unknown error, retrying (attempt '' @ digits_of_nat (n + 1) @ ''/2)'')
              else action ''escalate'' sid (''Unknown error persists after '' @ digits_of_nat n @ '' attempts''),
              sto1))"

section \<open>Stuck subtasks\<close>

definition stick_note :: "string \<Rightarrow> obj \<Rightarrow> py_error + obj" where
  "stick_note reason d =
     bindE (get_opt_str ''actual_output'' d) (\<lambda>out.
       let note = ''Marked as stuck: '' @ reason;
           text = (if truthy_str out then note @ [CHR 0x0A] @ the out else note)
       in Inr (AList.update ''actual_output'' (JStr text) (AList.update ''status'' (JStr ''failed'') d)))"

text \<open>The first entry with the id is rewritten; \<open>None\<close> when there is none.\<close>

fun stick_items :: "string \<Rightarrow> string \<Rightarrow> json list \<Rightarrow> py_error + json list option" where
  "stick_items sid reason [] = Inr None"
| "stick_items sid reason (j # js) =
     bindE (as_obj ''subtasks'' j) (\<lambda>d.
       if map_of d ''id'' = Some (JStr sid)
       then bindE (stick_note reason d) (\<lambda>d'. Inr (Some (JObj d' # js)))
       else bindE (stick_items sid reason js) (\<lambda>r. Inr (map_option (\<lambda>js'. j # js') r)))"

fun stick_phases :: "string \<Rightarrow> string \<Rightarrow> json list \<Rightarrow> py_error + json list option" where
  "stick_phases sid reason [] = Inr None"
| "stick_phases sid reason (j # js) =
     bindE (as_obj ''phases'' j) (\<lambda>ph.
     bindE (get_list ''subtasks'' ph) (\<lambda>items.
     bindE (stick_items sid reason items) (\<lambda>r. case r of
         Some items' \<Rightarrow> Inr (Some (JObj (AList.update ''subtasks'' (JList items') ph) # js))
       | None \<Rightarrow> bindE (stick_phases sid reason js) (\<lambda>r. Inr (map_option (\<lambda>js'. j # js') r)))))"

definition stick_plan :: "string \<Rightarrow> string \<Rightarrow> obj \<Rightarrow> py_error + obj" where
  "stick_plan sid reason plan =
     bindE (get_list ''phases'' plan) (\<lambda>phases.
     bindE (stick_phases sid reason phases) (\<lambda>r. case r of
         None \<Rightarrow> Inr plan
       | Some phases' \<Rightarrow> Inr (AList.update ''phases'' (JList phases') plan)))"

definition mark_history_stuck :: "int \<Rightarrow> string \<Rightarrow> string \<Rightarrow> store \<Rightarrow> store" where
  "mark_history_stuck now sid reason sto =
     (let (h, sto1) = load_history now sto;
          (n, sto2) = get_attempt_count now sid sto1;
          e = \<lparr>se_subtask_id = sid, se_reason = reason, se_escalated_at = now, se_attempt_count = n\<rparr>;
          stuck = (if list_ex (\<lambda>s. se_subtask_id s = sid) (hi_stuck h) then hi_stuck h else hi_stuck h @ [e]);
          subs = (case map_of (hi_subtasks h) sid of None \<Rightarrow> hi_subtasks h
                  | Some s \<Rightarrow> AList.update sid (s\<lparr>sh_status := ''stuck''\<rparr>) (hi_subtasks h))
      in save_history now (h\<lparr>hi_stuck := stuck, hi_subtasks := subs\<rparr>) sto2)"

definition mark_subtask_stuck :: "int \<Rightarrow> string \<Rightarrow> string \<Rightarrow> store \<Rightarrow> py_error + store" where
  "mark_subtask_stuck now sid reason sto =
     (let sto1 = mark_history_stuck now sid reason sto
      in case sto_plan sto1 of
           None \<Rightarrow> Inr sto1
         | Some plan \<Rightarrow> bindE (stick_plan sid reason plan) (\<lambda>plan'. Inr (sto1\<lparr>sto_plan := Some plan'\<rparr>)))"

definition get_stuck_subtasks :: "int \<Rightarrow> store \<Rightarrow> stuck_entry list \<times> store" where
  "get_stuck_subtasks now sto = (let (h, sto1) = load_history now sto in (hi_stuck h, sto1))"

definition get_subtask_history :: "int \<Rightarrow> string \<Rightarrow> store \<Rightarrow> subtask_history \<times> store" where
  "get_subtask_history now sid sto =
     (let (h, sto1) = load_history now sto in (ddefault no_history (hi_subtasks h) sid, sto1))"

fun attempt_hints :: "nat \<Rightarrow> attempt list \<Rightarrow> string list" where
  "attempt_hints i [] = []"
| "attempt_hints i (a # rest) =
     (''Attempt '' @ digits_of_nat i @ '': '' @ at_approach a @ '' - '' @
        (if at_success a then ''SUCCESS'' else ''FAILED'')) #
     (if truthy_str (at_error a) then [''  Error: '' @ take 100 (the (at_error a))] else []) @
     attempt_hints (Suc i) rest"

definition get_recovery_hints :: "int \<Rightarrow> string \<Rightarrow> store \<Rightarrow> string list \<times> store" where
  "get_recovery_hints now sid sto =
     (let (s, sto1) = get_subtask_history now sid sto; attempts = sh_attempts s
      in (if attempts = [] then [''This is the first attempt at this subtask'']
          else [''Previous attempts: '' @ digits_of_nat (length attempts)] @
               attempt_hints 1 (last_n 3 attempts) @
               (if length attempts \<ge> 2
                then [CHR 0x0A # ''IMPORTANT: Try a DIFFERENT approach than previous attempts'',
                      ''Consider: different library, different pattern, or simpler implementation'']
                else []), sto1))"

definition clear_stuck_subtasks :: "int \<Rightarrow> store \<Rightarrow> store" where
  "clear_stuck_subtasks now sto =
     (let (h, sto1) = load_history now sto in save_history now (h\<lparr>hi_stuck := []\<rparr>) sto1)"

definition reset_subtask :: "int \<Rightarrow> string \<Rightarrow> store \<Rightarrow> store" where
  "reset_subtask now sid sto =
     (let (h, sto1) = load_history now sto;
          subs = (case map_of (hi_subtasks h) sid of None \<Rightarrow> hi_subtasks h
                  | Some _ \<Rightarrow> AList.update sid no_history (hi_subtasks h))
      in save_history now (h\<lparr>hi_subtasks := subs,
           hi_stuck := filter (\<lambda>s. se_subtask_id s \<noteq> sid) (hi_stuck h)\<rparr>) sto1)"

definition check_and_recover ::
    "int \<Rightarrow> string \<Rightarrow> string option \<Rightarrow> store \<Rightarrow> recovery_action option \<times> store" where
  "check_and_recover now sid error sto =
     (if \<not> truthy_str error then (None, sto)
      else let (ft, sto2) = classify_failure now (the error) sid (new_manager now sto);
               (a, sto3) = determine_recovery_action now ft sid sto2
           in (Some a, sto3))"

record recovery_context =
  rc_attempt_count :: nat
  rc_hints :: "string list"
  rc_subtask_history :: subtask_history
  rc_stuck_subtasks :: "stuck_entry list"

definition get_recovery_context :: "int \<Rightarrow> string \<Rightarrow> store \<Rightarrow> recovery_context \<times> store" where
  "get_recovery_context now sid sto =
     (let (n, s1) = get_attempt_count now sid (new_manager now sto);
          (hints, s2) = get_recovery_hints now sid s1;
          (hist, s3) = get_subtask_history now sid s2;
          (stuck, s4) = get_stuck_subtasks now s3
      in (\<lparr>rc_attempt_count = n, rc_hints = hints, rc_subtask_history = hist, rc_stuck_subtasks = stuck\<rparr>, s4))"

section \<open>Lemmas\<close>

definition current :: "int \<Rightarrow> store \<Rightarrow> history" where
  "current now sto = (case sto_history sto of Some h \<Rightarrow> h | None \<Rightarrow> init_history now)"

lemma load_history_eq: "load_history now sto = (current now sto, sto\<lparr>sto_history := Some (current now sto)\<rparr>)"
  by (cases sto) (simp add: load_history_def current_def split: option.split)

lemma current_simps [simp]:
  "current now (sto\<lparr>sto_history := Some h\<rparr>) = h"
  "current now (save_history now' h sto) = h\<lparr>hi_last_updated := now'\<rparr>"
  "current now (sto\<lparr>sto_plan := p\<rparr>) = current now sto"
  by (simp_all add: current_def save_history_def)

lemma last_n_length: "length (last_n n xs) = min n (length xs)"
  by (simp add: last_n_def)

lemma last_n_snoc: "0 < n \<Longrightarrow> last_n n (xs @ [x]) = last_n (n - 1) xs @ [x]"
  by (cases "length xs < n") (auto simp: last_n_def Suc_diff_le not_less)

lemma record_attempt_attempts:
  "attempts_of s (current t (record_attempt now sid session ok approach err sto)) =
   (if s = sid then last_n max_attempt_history
      (attempts_of sid (current now sto) @
        [\<lparr>at_session = session, at_timestamp = Some now, at_approach = approach,
          at_success = ok, at_error = err\<rparr>])
    else attempts_of s (current now sto))"
  by (simp add: record_attempt_def load_history_eq Let_def attempts_of_def ddefault_def dget_dset last_n_def)

lemma get_attempt_count_eq:
  "fst (get_attempt_count now sid sto) = length (filter (recent now) (attempts_of sid (current now sto)))"
  by (simp add: get_attempt_count_def load_history_eq)

lemma mark_stuck_history:
  "current t (mark_history_stuck now sid reason sto) =
   (let h = current now sto
    in h\<lparr>hi_stuck := (if list_ex (\<lambda>s. se_subtask_id s = sid) (hi_stuck h) then hi_stuck h
           else hi_stuck h @ [\<lparr>se_subtask_id = sid, se_reason = reason, se_escalated_at = now,
             se_attempt_count = length (filter (recent now) (attempts_of sid h))\<rparr>]),
         hi_subtasks := (case map_of (hi_subtasks h) sid of None \<Rightarrow> hi_subtasks h
           | Some s \<Rightarrow> AList.update sid (s\<lparr>sh_status := ''stuck''\<rparr>) (hi_subtasks h)),
         hi_last_updated := now\<rparr>)"
  by (simp add: mark_history_stuck_def load_history_eq get_attempt_count_def Let_def)

end
