(* ===== verification/Recovery_Props.thy ===== *)
theory Recovery_Props
  imports Recovery
begin

text \<open>
  The history stays bounded, retries run out, a repeated approach is recognised, a rollback goes to
  the last good commit, and a subtask is escalated once.
\<close>

datatype rec_op =
    Attempted int string int bool string "string option"
  | Good int string string
  | Stuck int string string
  | Clear int
  | Reset int string
  | Check int string "string option"

fun rec_step :: "store \<Rightarrow> rec_op \<Rightarrow> store" where
  "rec_step sto (Attempted now sid session ok approach err) = record_attempt now sid session ok approach err sto"
| "rec_step sto (Good now hash sid) = record_good_commit now hash sid sto"
| "rec_step sto (Stuck now sid reason) =
     (case mark_subtask_stuck now sid reason sto of Inr s \<Rightarrow> s | Inl _ \<Rightarrow> mark_history_stuck now sid reason sto)"
| "rec_step sto (Clear now) = clear_stuck_subtasks now sto"
| "rec_step sto (Reset now sid) = reset_subtask now sid sto"
| "rec_step sto (Check now sid err) = snd (check_and_recover now sid err sto)"

definition history_ok :: "history \<Rightarrow> bool" where
  "history_ok h \<longleftrightarrow> (\<forall>sid. length (attempts_of sid h) \<le> max_attempt_history) \<and>
     distinct (map se_subtask_id (hi_stuck h))"

definition store_ok :: "store \<Rightarrow> bool" where
  "store_ok sto \<longleftrightarrow> (\<forall>h. sto_history sto = Some h \<longrightarrow> history_ok h)"

lemma init_history_ok: "history_ok (init_history now)"
  by (simp add: history_ok_def init_history_def attempts_of_def ddefault_def no_history_def)

lemma store_ok_current: "store_ok sto \<Longrightarrow> history_ok (current now sto)"
  using init_history_ok by (auto simp: store_ok_def current_def split: option.split)

lemma history_ok_stamp [simp]: "history_ok (h\<lparr>hi_last_updated := n\<rparr>) = history_ok h"
  by (simp add: history_ok_def attempts_of_def)

lemma store_ok_save: "history_ok h \<Longrightarrow> store_ok (save_history now h sto)"
  by (simp add: store_ok_def save_history_def)

lemma store_ok_load: "store_ok sto \<Longrightarrow> store_ok (snd (load_history now sto))"
  using store_ok_current by (simp add: load_history_eq store_ok_def)

lemma store_ok_commits: "store_ok sto \<Longrightarrow> store_ok (snd (load_commits now sto))"
  by (simp add: load_commits_def store_ok_def split: option.split)

lemma attempts_of_update:
  "attempts_of s (h\<lparr>hi_subtasks := AList.update sid x (hi_subtasks h)\<rparr>) =
   (if s = sid then sh_attempts x else attempts_of s h)"
  by (simp add: attempts_of_def ddefault_def dget_dset)

lemma record_ok:
  assumes "store_ok sto"
  shows "store_ok (record_attempt now sid session ok approach err sto)"
proof -
  have h: "history_ok (current now sto)" by (rule store_ok_current [OF assms])
  let ?s = "record_attempt now sid session ok approach err sto"
  have "hi_stuck (current now ?s) = hi_stuck (current now sto)"
    by (simp add: record_attempt_def load_history_eq Let_def)
  then have "history_ok (current now ?s)"
    using h by (simp add: history_ok_def record_attempt_attempts last_n_length)
  moreover have "sto_history ?s \<noteq> None"
    by (simp add: record_attempt_def load_history_eq Let_def save_history_def)
  ultimately show ?thesis by (auto simp: store_ok_def current_def)
qed

lemma stuck_ok:
  assumes "store_ok sto"
  shows "store_ok (mark_history_stuck now sid reason sto)"
proof -
  have h: "history_ok (current now sto)" by (rule store_ok_current [OF assms])
  have a: "attempts_of s (current now (mark_history_stuck now sid reason sto)) = attempts_of s (current now sto)" for s
    by (simp add: mark_stuck_history Let_def attempts_of_def ddefault_def dget_dset split: option.split)
  have "distinct (map se_subtask_id (hi_stuck (current now (mark_history_stuck now sid reason sto))))"
    using h by (auto simp: mark_stuck_history Let_def history_ok_def list_ex_iff)
  with a h have "history_ok (current now (mark_history_stuck now sid reason sto))"
    by (simp add: history_ok_def)
  moreover have "sto_history (mark_history_stuck now sid reason sto) \<noteq> None"
    by (simp add: mark_history_stuck_def load_history_eq Let_def case_prod_beta save_history_def)
  ultimately show ?thesis by (auto simp: store_ok_def current_def)
qed

lemma check_ok: "store_ok sto \<Longrightarrow> store_ok (snd (check_and_recover now sid err sto))"
proof -
  assume s: "store_ok sto"
  have n: "store_ok (new_manager now sto)"
    using s by (simp add: new_manager_def store_ok_load store_ok_commits)
  have c: "store_ok (snd (classify_failure now e sid s0))" if "store_ok s0" for e s0
    using store_ok_load [OF that, of now]
    by (simp add: classify_failure_def is_circular_fix_def Let_def case_prod_beta that)
  have d: "store_ok (snd (determine_recovery_action now ft sid s0))" if "store_ok s0" for ft s0
    using store_ok_load [OF that, of now] store_ok_commits [of "snd (load_history now s0)" now]
    by (cases ft) (simp_all add: determine_recovery_action_def get_attempt_count_def
        get_last_good_commit_def Let_def case_prod_beta)
  show "store_ok (snd (check_and_recover now sid err sto))"
    using s n c d by (simp add: check_and_recover_def Let_def case_prod_beta)
qed

interpretation recovery: machine rec_step "\<lambda>_. True" store_ok
proof unfold_locales
  fix sto :: store and e :: rec_op
  assume s: "store_ok sto"
  have h: "history_ok (current now sto)" for now by (rule store_ok_current [OF s])
  show "store_ok (rec_step sto e)"
  proof (cases e)
    case (Good now hash sid)
    then show ?thesis using s store_ok_commits [OF s, of now]
      by (simp add: record_good_commit_def case_prod_beta save_commits_def store_ok_def)
  next
    case (Stuck now sid reason)
    then show ?thesis using stuck_ok [OF s, of now sid reason]
      by (auto simp: mark_subtask_stuck_def Let_def bindE_def store_ok_def split: sum.split option.split)
  next
    case (Clear now)
    have "history_ok ((current now sto)\<lparr>hi_stuck := []\<rparr>)"
      using h [of now] by (simp add: history_ok_def attempts_of_def)
    then show ?thesis using Clear by (simp add: clear_stuck_subtasks_def load_history_eq store_ok_save)
  next
    case (Reset now sid)
    let ?h = "current now sto"
    have "attempts_of s (?h\<lparr>hi_subtasks := (case map_of (hi_subtasks ?h) sid of None \<Rightarrow> hi_subtasks ?h
        | Some _ \<Rightarrow> AList.update sid no_history (hi_subtasks ?h)), hi_stuck := x\<rparr>) =
        (if s = sid then [] else attempts_of s ?h)" for s x
      by (simp add: attempts_of_def ddefault_def dget_dset no_history_def split: option.split)
    then have "history_ok (?h\<lparr>hi_subtasks := (case map_of (hi_subtasks ?h) sid of None \<Rightarrow> hi_subtasks ?h
        | Some _ \<Rightarrow> AList.update sid no_history (hi_subtasks ?h)),
        hi_stuck := filter (\<lambda>s. se_subtask_id s \<noteq> sid) (hi_stuck ?h)\<rparr>)"
      using h [of now] by (simp add: history_ok_def distinct_map_filter)
    then show ?thesis using Reset by (simp add: reset_subtask_def load_history_eq Let_def store_ok_save)
  qed (use s in \<open>simp_all add: record_ok check_ok\<close>)
qed

text \<open>Whatever is recorded, reset, cleared or escalated, and in any order, a subtask never has more than
  50 attempts on file and is escalated at most once.\<close>

theorem history_stays_bounded:
  assumes "sto_history sto = None" "sto_history (foldl rec_step sto ops) = Some h"
  shows "length (attempts_of sid h) \<le> max_attempt_history \<and> distinct (map se_subtask_id (hi_stuck h))"
proof -
  have "store_ok (foldl rec_step sto ops)"
    by (rule recovery.run_inv) (use assms(1) in \<open>simp_all add: store_ok_def\<close>)
  then show ?thesis using assms(2) by (simp add: store_ok_def history_ok_def)
qed

section \<open>Retries run out\<close>

lemma last_n_last_n: "m \<le> n \<Longrightarrow> last_n m (last_n n xs) = last_n m xs"
  by (auto simp: last_n_def intro: arg_cong2 [where f = drop])

lemma last_n_subset: "m \<le> n \<Longrightarrow> set (last_n m xs) \<subseteq> set (last_n n xs)"
  by (simp add: last_n_def set_drop_subset_set_drop)

definition record_all :: "string \<Rightarrow> (int \<times> int \<times> bool \<times> string \<times> string option) list \<Rightarrow> store \<Rightarrow> store" where
  "record_all sid es sto = foldl (\<lambda>s (now, session, ok, approach, err). record_attempt now sid session ok approach err s) sto es"

lemma record_all_recent:
  assumes "\<forall>e \<in> set es. fst e \<ge> now - attempt_window"
  shows "min (length es) max_attempt_history \<le> length (attempts_of sid (current t (record_all sid es sto))) \<and>
    (\<forall>a \<in> set (last_n (min (length es) max_attempt_history) (attempts_of sid (current t (record_all sid es sto)))). recent now a)"
  using assms
proof (induction es arbitrary: t rule: rev_induct)
  case Nil
  show ?case by (simp add: last_n_def)
next
  case (snoc e es)
  obtain n session ok approach err where e: "e = (n, session, ok, approach, err)" by (cases e) auto
  let ?s = "record_all sid es sto" and ?m = "min (length es) max_attempt_history"
    and ?m' = "min (Suc (length es)) max_attempt_history"
  let ?a = "\<lparr>at_session = session, at_timestamp = Some n, at_approach = approach, at_success = ok, at_error = err\<rparr>"
  let ?A = "attempts_of sid (current n ?s)"
  have new: "attempts_of sid (current t (record_all sid (es @ [e]) sto)) = last_n max_attempt_history (?A @ [?a])"
    by (simp add: record_all_def e record_attempt_attempts)
  have ih: "?m \<le> length ?A" "\<forall>a \<in> set (last_n ?m ?A). recent now a"
    using snoc(1) [of n] snoc(2) by auto
  have a: "recent now ?a" using snoc(2) e by (simp add: recent_def)
  have "last_n ?m' (last_n max_attempt_history (?A @ [?a])) = last_n ?m' (?A @ [?a])"
    by (rule last_n_last_n) simp
  also have "\<dots> = last_n (?m' - 1) ?A @ [?a]"
    by (rule last_n_snoc) (simp add: max_attempt_history_def)
  finally have l: "last_n ?m' (last_n max_attempt_history (?A @ [?a])) = last_n (?m' - 1) ?A @ [?a]" .
  have "set (last_n (?m' - 1) ?A) \<subseteq> set (last_n ?m ?A)" by (rule last_n_subset) (simp add: max_attempt_history_def)
  then have "\<forall>x \<in> set (last_n ?m' (last_n max_attempt_history (?A @ [?a]))). recent now x"
    unfolding l using ih(2) a by auto
  moreover have "?m' \<le> length (last_n max_attempt_history (?A @ [?a]))"
    using ih(1) by (simp add: last_n_length)
  ultimately show ?case by (simp add: new)
qed

lemma filter_last_n: "\<forall>a \<in> set (last_n m xs). P a \<Longrightarrow> m \<le> length xs \<Longrightarrow> m \<le> length (filter P xs)"
proof -
  assume p: "\<forall>a \<in> set (last_n m xs). P a" and m: "m \<le> length xs"
  have "xs = take (length xs - m) xs @ last_n m xs" by (simp add: last_n_def)
  then have "length (filter P xs) = length (filter P (take (length xs - m) xs)) + length (filter P (last_n m xs))"
    by (metis filter_append length_append)
  moreover have "filter P (last_n m xs) = last_n m xs" using p by (simp add: filter_id_conv)
  ultimately show ?thesis using m by (simp add: last_n_length)
qed

lemma recorded_attempts_count:
  assumes "\<forall>e \<in> set es. fst e \<ge> now - attempt_window"
  shows "min (length es) max_attempt_history \<le> fst (get_attempt_count now sid (record_all sid es sto))"
  using record_all_recent [OF assms, of sid now sto]
  by (simp only: get_attempt_count_eq) (intro filter_last_n; blast)

text \<open>After three recorded attempts within the window a failed verification is no longer retried but
  skipped, and an unknown failure is escalated.\<close>

theorem retries_run_out:
  assumes "\<forall>e \<in> set es. fst e \<ge> now - attempt_window" "length es \<ge> 3"
  shows "ra_action (fst (determine_recovery_action now VERIFICATION_FAILED sid (record_all sid es sto))) = ''skip'' \<and>
         ra_action (fst (determine_recovery_action now UNKNOWN sid (record_all sid es sto))) = ''escalate''"
proof -
  have "3 \<le> fst (get_attempt_count now sid (record_all sid es sto))"
    using recorded_attempts_count [OF assms(1), of sid sto] assms(2) by (simp add: max_attempt_history_def)
  then show ?thesis by (simp add: determine_recovery_action_def Let_def case_prod_beta action_def)
qed

section \<open>Circular fixes\<close>

lemma similar_refl: "word_set a \<noteq> [] \<Longrightarrow> similar a a"
proof -
  assume ne: "word_set a \<noteq> []"
  have d: "distinct (word_set a)" by (simp add: word_set_def)
  have "length (remdups (word_set a @ word_set a)) = length (word_set a)"
    using d by (metis distinct_card distinct_remdups set_append set_remdups sup.idem)
  with ne show ?thesis by (simp add: similar_def Let_def)
qed

text \<open>An approach recorded twice in a row is recognised as a circular fix when it is tried again.\<close>

theorem repeated_approach_is_circular:
  assumes "word_set approach \<noteq> []" "length es \<ge> 2" "\<forall>(n, session, ok, a, err) \<in> set es. a = approach"
  shows "fst (is_circular_fix now sid approach (record_all sid es sto))"
proof -
  obtain es0 e1 e2 where es: "es = es0 @ [e1, e2]"
  proof -
    obtain e2 r where "es = r @ [e2]" using assms(2) by (cases es rule: rev_cases) auto
    moreover then obtain e1 r' where "r = r' @ [e1]" using assms(2) by (cases r rule: rev_cases) auto
    ultimately show ?thesis using that by simp
  qed
  obtain n1 s1 ok1 err1 where e1: "e1 = (n1, s1, ok1, approach, err1)" using assms(3) es by (cases e1) auto
  obtain n2 s2 ok2 err2 where e2: "e2 = (n2, s2, ok2, approach, err2)" using assms(3) es by (cases e2) auto
  let ?m = "max_attempt_history"
  let ?A = "attempts_of sid (current n1 (record_all sid es0 sto))"
  let ?a1 = "\<lparr>at_session = s1, at_timestamp = Some n1, at_approach = approach, at_success = ok1, at_error = err1\<rparr>"
  let ?a2 = "\<lparr>at_session = s2, at_timestamp = Some n2, at_approach = approach, at_success = ok2, at_error = err2\<rparr>"
  have "attempts_of sid (current now (record_all sid es sto)) = last_n ?m (last_n ?m (?A @ [?a1]) @ [?a2])"
    by (simp add: es e1 e2 record_all_def record_attempt_attempts)
  also have "\<dots> = last_n (?m - 1) (last_n ?m (?A @ [?a1])) @ [?a2]"
    by (rule last_n_snoc) (simp add: max_attempt_history_def)
  also have "\<dots> = last_n (?m - 1) (?A @ [?a1]) @ [?a2]"
    by (subst last_n_last_n) simp_all
  also have "\<dots> = last_n (?m - 2) ?A @ [?a1, ?a2]"
    by (subst last_n_snoc) (simp_all add: max_attempt_history_def)
  finally have eq: "attempts_of sid (current now (record_all sid es sto)) = last_n (?m - 2) ?A @ [?a1, ?a2]" .
  have "last_n 3 (xs @ [?a1, ?a2]) = last_n 1 xs @ [?a1, ?a2]" for xs
    using last_n_snoc [of 3 "xs @ [?a1]" ?a2] last_n_snoc [of 2 xs ?a1] by simp
  then have "circular (attempts_of sid (current now (record_all sid es sto))) approach"
    using similar_refl [OF assms(1)] by (simp add: circular_def eq)
  then show ?thesis by (simp add: is_circular_fix_def load_history_eq)
qed

section \<open>Rollback and escalation\<close>

lemma rollback_to_last_good:
  assumes "hash \<noteq> []"
  shows "fst (determine_recovery_action now BROKEN_BUILD sid (record_good_commit now' hash sid' sto)) =
         action ''rollback'' hash (''Build broken in subtask '' @ sid @ '', rolling back to working state'')"
  using assms
  by (simp add: determine_recovery_action_def Let_def case_prod_beta get_attempt_count_def load_history_eq
      get_last_good_commit_def load_commits_def record_good_commit_def save_commits_def truthy_str_def)

lemma rollback_only_when_broken:
  assumes "ra_action (fst (determine_recovery_action now ft sid sto)) = ''rollback''"
  shows "ft = BROKEN_BUILD \<and> Some (ra_target (fst (determine_recovery_action now ft sid sto))) =
           fst (get_last_good_commit now (snd (get_attempt_count now sid sto)))"
  using assms
  by (cases ft) (auto simp: determine_recovery_action_def Let_def case_prod_beta action_def truthy_str_def
      split: if_splits option.splits)

text \<open>A broken build is rolled back to the commit recorded last; and whenever the chosen action is a
  rollback, the build was broken and the target is the last good commit on file.\<close>

theorem rollback_is_to_a_good_commit:
  assumes "hash \<noteq> []"
  shows "ra_action (fst (determine_recovery_action now BROKEN_BUILD sid (record_good_commit now' hash sid' sto))) = ''rollback'' \<and>
    ra_target (fst (determine_recovery_action now BROKEN_BUILD sid (record_good_commit now' hash sid' sto))) = hash \<and>
    (\<forall>ft sid2 sto2. ra_action (fst (determine_recovery_action now ft sid2 sto2)) = ''rollback'' \<longrightarrow>
       ft = BROKEN_BUILD \<and> Some (ra_target (fst (determine_recovery_action now ft sid2 sto2))) =
         fst (get_last_good_commit now (snd (get_attempt_count now sid2 sto2))))"
  using rollback_to_last_good [OF assms] rollback_only_when_broken by (simp add: action_def)

lemma stick_items_effect:
  assumes "stick_items sid reason js = Inr (Some js')"
  shows "\<exists>pre d d' post. js = pre @ JObj d # post \<and> js' = pre @ JObj d' # post \<and>
    map_of d ''id'' = Some (JStr sid) \<and> stick_note reason d = Inr d'"
  using assms
proof (induction js arbitrary: js')
  case (Cons j js)
  from Cons(2) obtain d where d: "j = JObj d" by (cases j) (auto simp: as_obj_def)
  show ?case
  proof (cases "map_of d ''id'' = Some (JStr sid)")
    case True
    with Cons(2) d obtain d' where "stick_note reason d = Inr d'" "js' = JObj d' # js"
      by (auto simp: as_obj_def bindE_Inr_iff)
    then show ?thesis using True d
      by (intro exI [of _ "[]"] exI [of _ d] exI [of _ d'] exI [of _ js]) simp
  next
    case False
    with Cons(2) d obtain r where r: "stick_items sid reason js = Inr (Some r)" "js' = j # r"
      by (auto simp: as_obj_def bindE_Inr_iff)
    obtain pre e e' post where "js = pre @ JObj e # post" "r = pre @ JObj e' # post"
      "map_of e ''id'' = Some (JStr sid)" "stick_note reason e = Inr e'" using Cons(1) [OF r(1)] by blast
    then show ?thesis using r(2) by (intro exI [of _ "j # pre"]) auto
  qed
qed simp

lemma stick_note_effect:
  assumes "stick_note reason d = Inr d'"
  shows "map_of d' ''status'' = Some (JStr ''failed'')"
    "k \<noteq> ''status'' \<Longrightarrow> k \<noteq> ''actual_output'' \<Longrightarrow> map_of d' k = map_of d k"
  using assms by (auto simp: stick_note_def bindE_Inr_iff Let_def dget_dset)

section \<open>At concrete inputs\<close>

definition empty_store :: store where
  "empty_store = \<lparr>sto_history = None, sto_commits = None, sto_plan = None\<rparr>"

definition three_tries :: "(int \<times> int \<times> bool \<times> string \<times> string option) list" where
  "three_tries = replicate 3 (5, 1, False, ''Use regex'', Some ''failed'')"

lemma history_stays_bounded_witness:
  "\<exists>h. sto_history (foldl rec_step empty_store [Clear 7]) = Some h \<and> length (attempts_of ''a'' h) \<le> max_attempt_history"
proof -
  have "sto_history (foldl rec_step empty_store [Clear 7]) =
      Some ((init_history 7)\<lparr>hi_stuck := [], hi_last_updated := 7\<rparr>)"
    by (simp add: empty_store_def clear_stuck_subtasks_def load_history_def save_history_def)
  then show ?thesis using history_stays_bounded [of empty_store "[Clear 7]"] by (auto simp: empty_store_def)
qed

lemma retries_run_out_witness:
  "ra_action (fst (determine_recovery_action 9 VERIFICATION_FAILED ''a'' (record_all ''a'' three_tries empty_store))) = ''skip''"
  using retries_run_out [of three_tries 9 "''a''" empty_store] by (simp add: three_tries_def attempt_window_def)

lemma repeated_approach_is_circular_witness:
  "fst (is_circular_fix 9 ''a'' ''Use regex'' (record_all ''a'' three_tries empty_store))"
proof -
  have "word_set ''Use regex'' \<noteq> []" by code_simp
  then show ?thesis by (rule repeated_approach_is_circular) (simp_all add: three_tries_def)
qed

lemma rollback_is_to_a_good_commit_witness:
  "ra_target (fst (determine_recovery_action 9 BROKEN_BUILD ''a'' (record_good_commit 5 ''c0ffee'' ''b'' empty_store))) = ''c0ffee''"
  using rollback_is_to_a_good_commit [where hash = "''c0ffee''"] by simp

end
