(* ===== verification/Merge_Types.thy ===== *)
theory Merge_Types
  imports Prelude
begin

text \<open>
  The vocabulary of the merge system (\<open>merge/types.py\<close>): kinds of semantic change, conflict
  severities and merge strategies, the analysis of a file, conflict regions, snapshots and results.
  A Python set is the list of its elements without repetition; a \<open>datetime\<close> is the instant it
  denotes.
\<close>

section \<open>Enumerations\<close>

datatype change_type =
    ADD_IMPORT | REMOVE_IMPORT | MODIFY_IMPORT | ADD_FUNCTION | REMOVE_FUNCTION
  | MODIFY_FUNCTION | RENAME_FUNCTION | ADD_HOOK_CALL | REMOVE_HOOK_CALL | WRAP_JSX
  | UNWRAP_JSX | ADD_JSX_ELEMENT | MODIFY_JSX_PROPS | ADD_VARIABLE | REMOVE_VARIABLE
  | MODIFY_VARIABLE | ADD_CONSTANT | ADD_CLASS | REMOVE_CLASS | MODIFY_CLASS
  | ADD_METHOD | REMOVE_METHOD | MODIFY_METHOD | ADD_PROPERTY | ADD_TYPE
  | MODIFY_TYPE | ADD_INTERFACE | MODIFY_INTERFACE | ADD_DECORATOR | REMOVE_DECORATOR
  | ADD_COMMENT | MODIFY_COMMENT | FORMATTING_ONLY | UNKNOWN

fun ct_value :: "change_type \<Rightarrow> string" where
  "ct_value ADD_IMPORT = ''add_import''"
| "ct_value REMOVE_IMPORT = ''remove_import''"
| "ct_value MODIFY_IMPORT = ''modify_import''"
| "ct_value ADD_FUNCTION = ''add_function''"
| "ct_value REMOVE_FUNCTION = ''remove_function''"
| "ct_value MODIFY_FUNCTION = ''modify_function''"
| "ct_value RENAME_FUNCTION = ''rename_function''"
| "ct_value ADD_HOOK_CALL = ''add_hook_call''"
| "ct_value REMOVE_HOOK_CALL = ''remove_hook_call''"
| "ct_value WRAP_JSX = ''wrap_jsx''"
| "ct_value UNWRAP_JSX = ''unwrap_jsx''"
| "ct_value ADD_JSX_ELEMENT = ''add_jsx_element''"
| "ct_value MODIFY_JSX_PROPS = ''modify_jsx_props''"
| "ct_value ADD_VARIABLE = ''add_variable''"
| "ct_value REMOVE_VARIABLE = ''remove_variable''"
| "ct_value MODIFY_VARIABLE = ''modify_variable''"
| "ct_value ADD_CONSTANT = ''add_constant''"
| "ct_value ADD_CLASS = ''add_class''"
| "ct_value REMOVE_CLASS = ''remove_class''"
| "ct_value MODIFY_CLASS = ''modify_class''"
| "ct_value ADD_METHOD = ''add_method''"
| "ct_value REMOVE_METHOD = ''remove_method''"
| "ct_value MODIFY_METHOD = ''modify_method''"
| "ct_value ADD_PROPERTY = ''add_property''"
| "ct_value ADD_TYPE = ''add_type''"
| "ct_value MODIFY_TYPE = ''modify_type''"
| "ct_value ADD_INTERFACE = ''add_interface''"
| "ct_value MODIFY_INTERFACE = ''modify_interface''"
| "ct_value ADD_DECORATOR = ''add_decorator''"
| "ct_value REMOVE_DECORATOR = ''remove_decorator''"
| "ct_value ADD_COMMENT = ''add_comment''"
| "ct_value MODIFY_COMMENT = ''modify_comment''"
| "ct_value FORMATTING_ONLY = ''formatting_only''"
| "ct_value UNKNOWN = ''unknown''"

definition ct_members :: "change_type list" where
  "ct_members = [ADD_IMPORT, REMOVE_IMPORT, MODIFY_IMPORT, ADD_FUNCTION, REMOVE_FUNCTION,
     MODIFY_FUNCTION, RENAME_FUNCTION, ADD_HOOK_CALL, REMOVE_HOOK_CALL, WRAP_JSX,
     UNWRAP_JSX, ADD_JSX_ELEMENT, MODIFY_JSX_PROPS, ADD_VARIABLE, REMOVE_VARIABLE,
     MODIFY_VARIABLE, ADD_CONSTANT, ADD_CLASS, REMOVE_CLASS, MODIFY_CLASS,
     ADD_METHOD, REMOVE_METHOD, MODIFY_METHOD, ADD_PROPERTY, ADD_TYPE,
     MODIFY_TYPE, ADD_INTERFACE, MODIFY_INTERFACE, ADD_DECORATOR, REMOVE_DECORATOR,
     ADD_COMMENT, MODIFY_COMMENT, FORMATTING_ONLY, UNKNOWN]"

datatype conflict_severity =
    SEV_NONE | SEV_LOW | SEV_MEDIUM | SEV_HIGH | SEV_CRITICAL

fun sev_value :: "conflict_severity \<Rightarrow> string" where
  "sev_value SEV_NONE = ''none''"
| "sev_value SEV_LOW = ''low''"
| "sev_value SEV_MEDIUM = ''medium''"
| "sev_value SEV_HIGH = ''high''"
| "sev_value SEV_CRITICAL = ''critical''"

definition sev_members :: "conflict_severity list" where
  "sev_members = [SEV_NONE, SEV_LOW, SEV_MEDIUM, SEV_HIGH, SEV_CRITICAL]"

datatype merge_strategy =
    MS_COMBINE_IMPORTS | MS_HOOKS_FIRST | MS_HOOKS_THEN_WRAP | MS_APPEND_STATEMENTS | MS_APPEND_FUNCTIONS
  | MS_APPEND_METHODS | MS_COMBINE_PROPS | MS_ORDER_BY_DEPENDENCY | MS_ORDER_BY_TIME | MS_AI_REQUIRED
  | MS_HUMAN_REQUIRED

fun ms_value :: "merge_strategy \<Rightarrow> string" where
  "ms_value MS_COMBINE_IMPORTS = ''combine_imports''"
| "ms_value MS_HOOKS_FIRST = ''hooks_first''"
| "ms_value MS_HOOKS_THEN_WRAP = ''hooks_then_wrap''"
| "ms_value MS_APPEND_STATEMENTS = ''append_statements''"
| "ms_value MS_APPEND_FUNCTIONS = ''append_functions''"
| "ms_value MS_APPEND_METHODS = ''append_methods''"
| "ms_value MS_COMBINE_PROPS = ''combine_props''"
| "ms_value MS_ORDER_BY_DEPENDENCY = ''order_by_dependency''"
| "ms_value MS_ORDER_BY_TIME = ''order_by_time''"
| "ms_value MS_AI_REQUIRED = ''ai_required''"
| "ms_value MS_HUMAN_REQUIRED = ''human_required''"

definition ms_members :: "merge_strategy list" where
  "ms_members = [MS_COMBINE_IMPORTS, MS_HOOKS_FIRST, MS_HOOKS_THEN_WRAP, MS_APPEND_STATEMENTS, MS_APPEND_FUNCTIONS,
     MS_APPEND_METHODS, MS_COMBINE_PROPS, MS_ORDER_BY_DEPENDENCY, MS_ORDER_BY_TIME, MS_AI_REQUIRED,
     MS_HUMAN_REQUIRED]"

datatype merge_decision =
    MD_AUTO_MERGED | MD_AI_MERGED | MD_NEEDS_HUMAN_REVIEW | MD_FAILED

fun md_value :: "merge_decision \<Rightarrow> string" where
  "md_value MD_AUTO_MERGED = ''auto_merged''"
| "md_value MD_AI_MERGED = ''ai_merged''"
| "md_value MD_NEEDS_HUMAN_REVIEW = ''needs_human_review''"
| "md_value MD_FAILED = ''failed''"

definition md_members :: "merge_decision list" where
  "md_members = [MD_AUTO_MERGED, MD_AI_MERGED, MD_NEEDS_HUMAN_REVIEW, MD_FAILED]"

definition ct_of :: "string \<Rightarrow> py_error + change_type" where
  "ct_of = enum_of ct_value ct_members"

definition sev_of :: "string \<Rightarrow> py_error + conflict_severity" where
  "sev_of = enum_of sev_value sev_members"

definition ms_of :: "string \<Rightarrow> py_error + merge_strategy" where
  "ms_of = enum_of ms_value ms_members"

section \<open>Semantic changes\<close>

record semantic_change =
  sc_change_type :: change_type
  sc_target :: string
  sc_location :: string
  sc_line_start :: int
  sc_line_end :: int
  sc_content_before :: "string option"
  sc_content_after :: "string option"
  sc_metadata :: obj

definition change_to_dict :: "semantic_change \<Rightarrow> obj" where
  "change_to_dict c =
     [(''change_type'', JStr (ct_value (sc_change_type c))), (''target'', JStr (sc_target c)),
      (''location'', JStr (sc_location c)), (''line_start'', JInt (sc_line_start c)),
      (''line_end'', JInt (sc_line_end c)), (''content_before'', jopt (sc_content_before c)),
      (''content_after'', jopt (sc_content_after c)), (''metadata'', JObj (sc_metadata c))]"

definition change_from_dict :: "obj \<Rightarrow> py_error + semantic_change" where
  "change_from_dict d =
     bindE (req_str ''change_type'' d) (\<lambda>t. bindE (ct_of t) (\<lambda>ty.
     bindE (req_str ''target'' d) (\<lambda>target.
     bindE (req_str ''location'' d) (\<lambda>location.
     bindE (req_int ''line_start'' d) (\<lambda>a.
     bindE (req_int ''line_end'' d) (\<lambda>b.
     bindE (get_opt_str ''content_before'' d) (\<lambda>before.
     bindE (get_opt_str ''content_after'' d) (\<lambda>after.
     bindE (case map_of d ''metadata'' of None \<Rightarrow> Inr [] | Some (JObj m) \<Rightarrow> Inr m
            | Some _ \<Rightarrow> Inl (TypeError ''metadata'')) (\<lambda>meta.
       Inr \<lparr>sc_change_type = ty, sc_target = target, sc_location = location, sc_line_start = a,
            sc_line_end = b, sc_content_before = before, sc_content_after = after,
            sc_metadata = meta\<rparr>)))))))))"

definition overlaps_with :: "semantic_change \<Rightarrow> semantic_change \<Rightarrow> bool" where
  "overlaps_with a b =
     (if sc_location a = sc_location b then True
      else if sc_line_end a \<ge> sc_line_start b \<and> sc_line_end b \<ge> sc_line_start a then True
      else False)"

definition additive_types :: "change_type list" where
  "additive_types = [ADD_IMPORT, ADD_FUNCTION, ADD_HOOK_CALL, ADD_VARIABLE, ADD_CONSTANT, ADD_CLASS,
     ADD_METHOD, ADD_PROPERTY, ADD_TYPE, ADD_INTERFACE, ADD_DECORATOR, ADD_JSX_ELEMENT, ADD_COMMENT]"

definition is_additive :: "semantic_change \<Rightarrow> bool" where
  "is_additive c \<longleftrightarrow> sc_change_type c \<in> set additive_types"

section \<open>File analyses\<close>

record file_analysis =
  fa_file_path :: string
  fa_changes :: "semantic_change list"
  fa_functions_modified :: "string list"
  fa_functions_added :: "string list"
  fa_imports_added :: "string list"
  fa_imports_removed :: "string list"
  fa_classes_modified :: "string list"
  fa_total_lines_changed :: int

definition analysis_to_dict :: "file_analysis \<Rightarrow> obj" where
  "analysis_to_dict a =
     [(''file_path'', JStr (fa_file_path a)),
      (''changes'', JList (map (JObj \<circ> change_to_dict) (fa_changes a))),
      (''functions_modified'', jstrs (fa_functions_modified a)),
      (''functions_added'', jstrs (fa_functions_added a)),
      (''imports_added'', jstrs (fa_imports_added a)),
      (''imports_removed'', jstrs (fa_imports_removed a)),
      (''classes_modified'', jstrs (fa_classes_modified a)),
      (''total_lines_changed'', JInt (fa_total_lines_changed a))]"

definition get_set :: "string \<Rightarrow> obj \<Rightarrow> py_error + string list" where
  "get_set k d = bindE (get_strs k d) (\<lambda>xs. Inr (remdups xs))"

definition analysis_from_dict :: "obj \<Rightarrow> py_error + file_analysis" where
  "analysis_from_dict d =
     bindE (req_str ''file_path'' d) (\<lambda>path.
     bindE (get_list ''changes'' d) (\<lambda>cs.
     bindE (mapE (\<lambda>c. bindE (as_obj ''changes'' c) change_from_dict) cs) (\<lambda>changes.
     bindE (get_set ''functions_modified'' d) (\<lambda>fm.
     bindE (get_set ''functions_added'' d) (\<lambda>fad.
     bindE (get_set ''imports_added'' d) (\<lambda>ia.
     bindE (get_set ''imports_removed'' d) (\<lambda>ir.
     bindE (get_set ''classes_modified'' d) (\<lambda>cm.
     bindE (get_int ''total_lines_changed'' 0 d) (\<lambda>n.
       Inr \<lparr>fa_file_path = path, fa_changes = changes, fa_functions_modified = fm,
            fa_functions_added = fad, fa_imports_added = ia, fa_imports_removed = ir,
            fa_classes_modified = cm, fa_total_lines_changed = n\<rparr>)))))))))"

definition get_changes_at_location :: "file_analysis \<Rightarrow> string \<Rightarrow> semantic_change list" where
  "get_changes_at_location a location = filter (\<lambda>c. sc_location c = location) (fa_changes a)"

definition is_additive_only :: "file_analysis \<Rightarrow> bool" where
  "is_additive_only a = list_all is_additive (fa_changes a)"

definition locations_changed :: "file_analysis \<Rightarrow> string set" where
  "locations_changed a = sc_location ` set (fa_changes a)"

section \<open>Conflict regions\<close>

record conflict_region =
  cg_file_path :: string
  cg_location :: string
  cg_tasks_involved :: "string list"
  cg_change_types :: "change_type list"
  cg_severity :: conflict_severity
  cg_can_auto_merge :: bool
  cg_merge_strategy :: "merge_strategy option"
  cg_reason :: string

definition region_to_dict :: "conflict_region \<Rightarrow> obj" where
  "region_to_dict r =
     [(''file_path'', JStr (cg_file_path r)), (''location'', JStr (cg_location r)),
      (''tasks_involved'', jstrs (cg_tasks_involved r)),
      (''change_types'', jstrs (map ct_value (cg_change_types r))),
      (''severity'', JStr (sev_value (cg_severity r))), (''can_auto_merge'', JBool (cg_can_auto_merge r)),
      (''merge_strategy'', jopt (map_option ms_value (cg_merge_strategy r))),
      (''reason'', JStr (cg_reason r))]"

definition req_bool :: "string \<Rightarrow> obj \<Rightarrow> py_error + bool" where
  "req_bool k d = (case map_of d k of None \<Rightarrow> Inl (KeyError k)
     | Some (JBool b) \<Rightarrow> Inr b | Some _ \<Rightarrow> Inl (TypeError k))"

definition req_strs :: "string \<Rightarrow> obj \<Rightarrow> py_error + string list" where
  "req_strs k d = (if map_of d k = None then Inl (KeyError k) else get_strs k d)"

definition region_from_dict :: "obj \<Rightarrow> py_error + conflict_region" where
  "region_from_dict d =
     bindE (req_str ''file_path'' d) (\<lambda>path.
     bindE (req_str ''location'' d) (\<lambda>location.
     bindE (req_strs ''tasks_involved'' d) (\<lambda>tasks.
     bindE (req_strs ''change_types'' d) (\<lambda>ts. bindE (mapE ct_of ts) (\<lambda>types.
     bindE (req_str ''severity'' d) (\<lambda>s. bindE (sev_of s) (\<lambda>sev.
     bindE (req_bool ''can_auto_merge'' d) (\<lambda>auto.
     bindE (get_opt_str ''merge_strategy'' d) (\<lambda>m.
     bindE (if truthy_str m then bindE (ms_of (the m)) (\<lambda>x. Inr (Some x)) else Inr None) (\<lambda>strategy.
     bindE (get_str ''reason'' [] d) (\<lambda>reason.
       Inr \<lparr>cg_file_path = path, cg_location = location, cg_tasks_involved = tasks,
            cg_change_types = types, cg_severity = sev, cg_can_auto_merge = auto,
            cg_merge_strategy = strategy, cg_reason = reason\<rparr>)))))))))))"

section \<open>Snapshots and the evolution of a file\<close>

record task_snapshot =
  ts_task_id :: string
  ts_task_intent :: string
  ts_started_at :: int
  ts_completed_at :: "int option"
  ts_content_hash_before :: string
  ts_content_hash_after :: string
  ts_semantic_changes :: "semantic_change list"
  ts_raw_diff :: "string option"

record file_evolution =
  fe_file_path :: string
  fe_baseline_commit :: string
  fe_baseline_captured_at :: int
  fe_baseline_content_hash :: string
  fe_baseline_snapshot_path :: string
  fe_task_snapshots :: "task_snapshot list"

definition get_task_snapshot :: "file_evolution \<Rightarrow> string \<Rightarrow> task_snapshot option" where
  "get_task_snapshot e task_id = find (\<lambda>s. ts_task_id s = task_id) (fe_task_snapshots e)"

definition add_task_snapshot :: "task_snapshot \<Rightarrow> file_evolution \<Rightarrow> file_evolution" where
  "add_task_snapshot s e =
     e\<lparr>fe_task_snapshots := sort_key ts_started_at
         (filter (\<lambda>t. ts_task_id t \<noteq> ts_task_id s) (fe_task_snapshots e) @ [s])\<rparr>"

definition fe_tasks_involved :: "file_evolution \<Rightarrow> string list" where
  "fe_tasks_involved e = map ts_task_id (fe_task_snapshots e)"

section \<open>Results\<close>

record merge_result =
  mr_decision :: merge_decision
  mr_file_path :: string
  mr_merged_content :: "string option"
  mr_conflicts_resolved :: "conflict_region list"
  mr_conflicts_remaining :: "conflict_region list"
  mr_ai_calls_made :: int
  mr_tokens_used :: int
  mr_explanation :: string
  mr_error :: "string option"

definition result_to_dict :: "merge_result \<Rightarrow> obj" where
  "result_to_dict r =
     [(''decision'', JStr (md_value (mr_decision r))), (''file_path'', JStr (mr_file_path r)),
      (''merged_content'', jopt (mr_merged_content r)),
      (''conflicts_resolved'', JList (map (JObj \<circ> region_to_dict) (mr_conflicts_resolved r))),
      (''conflicts_remaining'', JList (map (JObj \<circ> region_to_dict) (mr_conflicts_remaining r))),
      (''ai_calls_made'', JInt (mr_ai_calls_made r)), (''tokens_used'', JInt (mr_tokens_used r)),
      (''explanation'', JStr (mr_explanation r)), (''error'', jopt (mr_error r))]"

definition mr_success :: "merge_result \<Rightarrow> bool" where
  "mr_success r \<longleftrightarrow> mr_decision r \<in> set [MD_AUTO_MERGED, MD_AI_MERGED]"

definition mr_needs_human_review :: "merge_result \<Rightarrow> bool" where
  "mr_needs_human_review r \<longleftrightarrow>
     length (mr_conflicts_remaining r) > 0 \<or> mr_decision r = MD_NEEDS_HUMAN_REVIEW"

definition sanitize_path_for_storage :: "string \<Rightarrow> string" where
  "sanitize_path_for_storage p =
     py_replace_char (CHR ''.'') (CHR ''_'') (py_replace_char (CHR 0x5C) (CHR ''_'')
       (py_replace_char (CHR ''/'') (CHR ''_'') p))"

section \<open>Lemmas\<close>

lemma ct_of_value [simp]: "ct_of (ct_value c) = Inr c"
  by (cases c) (simp_all add: ct_of_def enum_of_def ct_members_def)

lemma sev_of_value [simp]: "sev_of (sev_value c) = Inr c"
  by (cases c) (simp_all add: sev_of_def enum_of_def sev_members_def)

lemma ms_of_value [simp]: "ms_of (ms_value c) = Inr c"
  by (cases c) (simp_all add: ms_of_def enum_of_def ms_members_def)

lemma change_roundtrip: "change_from_dict (change_to_dict c) = Inr c"
proof -
  let ?d = "change_to_dict c"
  have "get_opt_str ''content_before'' ?d = Inr (sc_content_before c)"
    "get_opt_str ''content_after'' ?d = Inr (sc_content_after c)"
    by (rule get_opt_str_jopt, simp add: change_to_dict_def)+
  moreover have "req_str ''change_type'' ?d = Inr (ct_value (sc_change_type c))"
    "req_str ''target'' ?d = Inr (sc_target c)" "req_str ''location'' ?d = Inr (sc_location c)"
    "req_int ''line_start'' ?d = Inr (sc_line_start c)" "req_int ''line_end'' ?d = Inr (sc_line_end c)"
    "map_of ?d ''metadata'' = Some (JObj (sc_metadata c))"
    by (simp_all add: change_to_dict_def req_str_def req_int_def)
  ultimately show ?thesis by (simp add: change_from_dict_def)
qed

lemma changes_from_to:
  "mapE (\<lambda>c. bindE (as_obj k c) change_from_dict) (map (JObj \<circ> change_to_dict) cs) = Inr cs"
  using mapE_map [of cs "\<lambda>c. bindE (as_obj k c) change_from_dict" "JObj \<circ> change_to_dict" "\<lambda>c. c"]
  by (simp add: as_obj_def change_roundtrip)

lemma get_set_jstrs: "map_of d k = Some (jstrs xs) \<Longrightarrow> get_set k d = Inr (remdups xs)"
  by (simp add: get_set_def get_strs_jstrs)

definition sets_distinct :: "file_analysis \<Rightarrow> bool" where
  "sets_distinct a \<longleftrightarrow> distinct (fa_functions_modified a) \<and> distinct (fa_functions_added a) \<and>
     distinct (fa_imports_added a) \<and> distinct (fa_imports_removed a) \<and> distinct (fa_classes_modified a)"

lemma analysis_roundtrip:
  assumes "sets_distinct a"
  shows "analysis_from_dict (analysis_to_dict a) = Inr a"
proof -
  let ?d = "analysis_to_dict a"
  have "get_set ''functions_modified'' ?d = Inr (remdups (fa_functions_modified a))"
    "get_set ''functions_added'' ?d = Inr (remdups (fa_functions_added a))"
    "get_set ''imports_added'' ?d = Inr (remdups (fa_imports_added a))"
    "get_set ''imports_removed'' ?d = Inr (remdups (fa_imports_removed a))"
    "get_set ''classes_modified'' ?d = Inr (remdups (fa_classes_modified a))"
    by (rule get_set_jstrs, simp add: analysis_to_dict_def)+
  moreover have "req_str ''file_path'' ?d = Inr (fa_file_path a)"
    "get_int ''total_lines_changed'' 0 ?d = Inr (fa_total_lines_changed a)"
    "get_list ''changes'' ?d = Inr (map (JObj \<circ> change_to_dict) (fa_changes a))"
    by (simp_all add: analysis_to_dict_def req_str_def get_int_def get_list_def)
  ultimately show ?thesis
    using assms by (simp add: analysis_from_dict_def changes_from_to sets_distinct_def distinct_remdups_id)
qed

lemma ms_value_not_Nil [simp]: "ms_value m \<noteq> []"
  by (cases m) simp_all

lemma region_roundtrip: "region_from_dict (region_to_dict r) = Inr r"
proof -
  let ?d = "region_to_dict r"
  have "get_opt_str ''merge_strategy'' ?d = Inr (map_option ms_value (cg_merge_strategy r))"
    by (rule get_opt_str_jopt) (simp add: region_to_dict_def)
  moreover have "req_strs ''tasks_involved'' ?d = Inr (cg_tasks_involved r)"
    "req_strs ''change_types'' ?d = Inr (map ct_value (cg_change_types r))"
    by (simp_all add: req_strs_def region_to_dict_def get_strs_jstrs)
  moreover have "mapE ct_of (map ct_value (cg_change_types r)) = Inr (map (\<lambda>c. c) (cg_change_types r))"
    by (rule mapE_map) simp
  moreover have "req_str ''file_path'' ?d = Inr (cg_file_path r)" "req_str ''location'' ?d = Inr (cg_location r)"
    "req_str ''severity'' ?d = Inr (sev_value (cg_severity r))"
    "req_bool ''can_auto_merge'' ?d = Inr (cg_can_auto_merge r)"
    "get_str ''reason'' [] ?d = Inr (cg_reason r)"
    by (simp_all add: region_to_dict_def req_str_def req_bool_def get_str_def)
  ultimately show ?thesis
    by (cases "cg_merge_strategy r") (simp_all add: region_from_dict_def truthy_str_def)
qed

text \<open>The snapshots of a file: one per task, in the order the tasks started.\<close>

definition evolution_ok :: "file_evolution \<Rightarrow> bool" where
  "evolution_ok e \<longleftrightarrow> distinct (fe_tasks_involved e) \<and> sorted (map ts_started_at (fe_task_snapshots e))"

interpretation evolution: machine "\<lambda>e s. add_task_snapshot s e" "\<lambda>_. True" evolution_ok
  by unfold_locales
    (auto simp: evolution_ok_def add_task_snapshot_def fe_tasks_involved_def distinct_map inj_on_def)

lemma find_distinct:
  "distinct (map f xs) \<Longrightarrow> x \<in> set xs \<Longrightarrow> f x = k \<Longrightarrow> find (\<lambda>y. f y = k) xs = Some x"
  by (induction xs) (auto simp: image_iff)

lemma get_added_snapshot:
  assumes "evolution_ok e"
  shows "get_task_snapshot (add_task_snapshot s e) t =
         (if t = ts_task_id s then Some s else get_task_snapshot e t)"
proof -
  let ?e = "add_task_snapshot s e"
  have ok: "distinct (map ts_task_id (fe_task_snapshots ?e))"
    using evolution.step_inv [OF assms, of s] by (simp add: evolution_ok_def fe_tasks_involved_def)
  have set: "set (fe_task_snapshots ?e) = insert s {x \<in> set (fe_task_snapshots e). ts_task_id x \<noteq> ts_task_id s}"
    by (auto simp: add_task_snapshot_def)
  show ?thesis
  proof (cases "t = ts_task_id s")
    case True
    then show ?thesis using find_distinct [OF ok, of s] set by (simp add: get_task_snapshot_def)
  next
    case False
    show ?thesis
    proof (cases "find (\<lambda>x. ts_task_id x = t) (fe_task_snapshots e)")
      case None
      then have "find (\<lambda>x. ts_task_id x = t) (fe_task_snapshots ?e) = None"
        using False set by (auto simp: find_None_iff)
      then show ?thesis using None False by (simp add: get_task_snapshot_def)
    next
      case (Some x)
      then have "x \<in> set (fe_task_snapshots e)" "ts_task_id x = t"
        by (auto simp: find_Some_iff)
      then show ?thesis
        using find_distinct [OF ok, of x t] set False Some by (simp add: get_task_snapshot_def)
    qed
  qed
qed

end
