(* ===== verification/Conflict_Analysis.thy ===== *)
theory Conflict_Analysis
  imports Merge_Types "HOL-Library.Product_Lexorder" "HOL-Library.Multiset"
begin

text \<open>
  Compatibility rules (\<open>merge/compatibility_rules.py\<close>) and the detection of conflicts between the
  changes several tasks made to one file (\<open>merge/conflict_analysis.py\<close>).
\<close>

section \<open>Rules\<close>

record compatibility_rule =
  ru_type_a :: change_type
  ru_type_b :: change_type
  ru_compatible :: bool
  ru_strategy :: "merge_strategy option"
  ru_reason :: string
  ru_bidirectional :: bool

definition rule :: "change_type \<Rightarrow> change_type \<Rightarrow> bool \<Rightarrow> merge_strategy \<Rightarrow> string \<Rightarrow> compatibility_rule" where
  "rule a b ok strategy reason =
     \<lparr>ru_type_a = a, ru_type_b = b, ru_compatible = ok, ru_strategy = Some strategy,
      ru_reason = reason, ru_bidirectional = True\<rparr>"

definition import_rules :: "compatibility_rule list" where
  "import_rules =
    [rule ADD_IMPORT ADD_IMPORT True MS_COMBINE_IMPORTS ''Adding different imports is always compatible'',
     rule ADD_IMPORT REMOVE_IMPORT False MS_AI_REQUIRED ''Import add/remove may conflict if same module'']"

definition function_rules :: "compatibility_rule list" where
  "function_rules =
    [rule ADD_FUNCTION ADD_FUNCTION True MS_APPEND_FUNCTIONS ''Adding different functions is compatible'',
     rule ADD_FUNCTION MODIFY_FUNCTION True MS_APPEND_FUNCTIONS (''Adding a function doesn'' @ [CHR 0x27] @ ''t affect modifications to other functions''),
     rule MODIFY_FUNCTION MODIFY_FUNCTION False MS_AI_REQUIRED ''Multiple modifications to same function need analysis'']"

definition hook_rules :: "compatibility_rule list" where
  "hook_rules =
    [rule ADD_HOOK_CALL ADD_HOOK_CALL True MS_ORDER_BY_DEPENDENCY ''Multiple hooks can be added with correct ordering'',
     rule ADD_HOOK_CALL WRAP_JSX True MS_HOOKS_THEN_WRAP ''Hooks are added at function start, wrap is on return'',
     rule ADD_HOOK_CALL MODIFY_FUNCTION True MS_HOOKS_FIRST ''Hooks go at start, other modifications likely elsewhere'']"

definition jsx_rules :: "compatibility_rule list" where
  "jsx_rules =
    [rule WRAP_JSX WRAP_JSX True MS_ORDER_BY_DEPENDENCY ''Multiple wraps can be nested in correct order'',
     rule WRAP_JSX ADD_JSX_ELEMENT True MS_APPEND_STATEMENTS ''Wrapping and adding elements are independent'',
     rule MODIFY_JSX_PROPS MODIFY_JSX_PROPS True MS_COMBINE_PROPS ''Props can usually be combined if different'']"

definition class_rules :: "compatibility_rule list" where
  "class_rules =
    [rule ADD_METHOD ADD_METHOD True MS_APPEND_METHODS ''Adding different methods is compatible'',
     rule MODIFY_METHOD MODIFY_METHOD False MS_AI_REQUIRED ''Multiple modifications to same method need analysis'',
     rule ADD_CLASS MODIFY_CLASS True MS_APPEND_FUNCTIONS (''New classes don'' @ [CHR 0x27] @ ''t conflict with modifications'')]"

definition variable_rules :: "compatibility_rule list" where
  "variable_rules =
    [rule ADD_VARIABLE ADD_VARIABLE True MS_APPEND_STATEMENTS ''Adding different variables is compatible'',
     rule ADD_CONSTANT ADD_VARIABLE True MS_APPEND_STATEMENTS ''Constants and variables are independent'']"

definition type_rules :: "compatibility_rule list" where
  "type_rules =
    [rule ADD_TYPE ADD_TYPE True MS_APPEND_FUNCTIONS ''Adding different types is compatible'',
     rule ADD_INTERFACE ADD_INTERFACE True MS_APPEND_FUNCTIONS ''Adding different interfaces is compatible'',
     rule MODIFY_INTERFACE MODIFY_INTERFACE False MS_AI_REQUIRED ''Multiple interface modifications need analysis'']"

definition decorator_comment_rules :: "compatibility_rule list" where
  "decorator_comment_rules =
    [rule ADD_DECORATOR ADD_DECORATOR True MS_ORDER_BY_DEPENDENCY ''Decorators can be stacked with correct order'',
     rule ADD_COMMENT ADD_COMMENT True MS_APPEND_STATEMENTS ''Comments are independent'',
     rule FORMATTING_ONLY FORMATTING_ONLY True MS_ORDER_BY_TIME (''Formatting doesn'' @ [CHR 0x27] @ ''t affect semantics'')]"

definition build_default_rules :: "compatibility_rule list" where
  "build_default_rules = import_rules @ function_rules @ hook_rules @ jsx_rules @ class_rules @
     variable_rules @ type_rules @ decorator_comment_rules"

type_synonym rule_index = "((change_type \<times> change_type) \<times> compatibility_rule) list"

definition index_rule :: "compatibility_rule \<Rightarrow> rule_index \<Rightarrow> rule_index" where
  "index_rule r idx =
     (let idx1 = AList.update (ru_type_a r, ru_type_b r) r idx
      in if ru_bidirectional r \<and> ru_type_a r \<noteq> ru_type_b r
         then AList.update (ru_type_b r, ru_type_a r) r idx1 else idx1)"

definition index_rules :: "compatibility_rule list \<Rightarrow> rule_index" where
  "index_rules rules = fold index_rule rules []"

section \<open>Severity\<close>

definition modify_types :: "change_type list" where
  "modify_types = [MODIFY_FUNCTION, MODIFY_METHOD, MODIFY_CLASS]"

definition structural_types :: "change_type list" where
  "structural_types = [WRAP_JSX, UNWRAP_JSX, REMOVE_FUNCTION, REMOVE_CLASS]"

fun adjacent_overlap :: "(int \<times> int) list \<Rightarrow> bool" where
  "adjacent_overlap (r # s # rest) = (snd r \<ge> fst s \<or> adjacent_overlap (s # rest))"
| "adjacent_overlap _ = False"

definition ranges_overlap :: "(int \<times> int) list \<Rightarrow> bool" where
  "ranges_overlap ranges = adjacent_overlap (sort ranges)"

definition assess_severity :: "change_type list \<Rightarrow> semantic_change list \<Rightarrow> conflict_severity" where
  "assess_severity types changes =
     (let modify_count = length (filter (\<lambda>t. t \<in> set modify_types) types)
      in if modify_count \<ge> 2 \<and> ranges_overlap (map (\<lambda>c. (sc_line_start c, sc_line_end c)) changes)
         then SEV_CRITICAL
         else if list_ex (\<lambda>t. t \<in> set structural_types) types then SEV_HIGH
         else if modify_count \<ge> 1 then SEV_MEDIUM
         else SEV_LOW)"

section \<open>Conflicts at a location\<close>

type_synonym verdict = "bool \<times> merge_strategy option \<times> string list"

definition judge :: "rule_index \<Rightarrow> change_type \<Rightarrow> change_type \<Rightarrow> verdict \<Rightarrow> verdict" where
  "judge idx a b v =
     (case v of (ok, strategy, reasons) \<Rightarrow>
       (case map_of idx (a, b) of
          Some r \<Rightarrow> if \<not> ru_compatible r then (False, strategy, reasons @ [ru_reason r])
                    else if ru_strategy r \<noteq> None then (ok, ru_strategy r, reasons) else (ok, strategy, reasons)
        | None \<Rightarrow> (False, strategy, reasons @ [''No rule for '' @ ct_value a @ '' + '' @ ct_value b])))"

fun judge_pairs :: "rule_index \<Rightarrow> change_type list \<Rightarrow> verdict \<Rightarrow> verdict" where
  "judge_pairs idx [] v = v"
| "judge_pairs idx (a # rest) v = judge_pairs idx rest (foldl (\<lambda>w b. judge idx a b w) v rest)"

definition analyze_location_conflict ::
    "string \<Rightarrow> string \<Rightarrow> (string \<times> semantic_change) list \<Rightarrow> rule_index \<Rightarrow> conflict_region option" where
  "analyze_location_conflict file_path location task_changes idx =
     (let tasks = map fst task_changes; changes = map snd task_changes;
          types = map sc_change_type changes
      in if length (remdups (map sc_target changes)) > 1 then None
         else
           (let (all_compatible, final_strategy, reasons) = judge_pairs idx types (True, None, [])
            in Some \<lparr>cg_file_path = file_path, cg_location = location, cg_tasks_involved = tasks,
                     cg_change_types = types,
                     cg_severity = (if all_compatible then SEV_NONE else assess_severity types changes),
                     cg_can_auto_merge = all_compatible,
                     cg_merge_strategy = (if all_compatible then final_strategy else Some MS_AI_REQUIRED),
                     cg_reason = (if reasons \<noteq> [] then py_join '' | '' reasons else ''Changes are compatible'')\<rparr>))"

definition task_changes_of :: "(string \<times> file_analysis) list \<Rightarrow> (string \<times> semantic_change) list" where
  "task_changes_of analyses = concat (map (\<lambda>(t, a). map (\<lambda>c. (t, c)) (fa_changes a)) analyses)"

definition group_by_location ::
    "(string \<times> semantic_change) list \<Rightarrow> (string \<times> (string \<times> semantic_change) list) list" where
  "group_by_location tcs =
     fold (\<lambda>tc d. AList.update (sc_location (snd tc)) (ddefault [] d (sc_location (snd tc)) @ [tc]) d) tcs []"

definition detect_implicit_conflicts :: "(string \<times> file_analysis) list \<Rightarrow> conflict_region list" where
  "detect_implicit_conflicts analyses = []"

definition detect_conflicts :: "(string \<times> file_analysis) list \<Rightarrow> rule_index \<Rightarrow> conflict_region list" where
  "detect_conflicts analyses idx =
     (if length analyses \<le> 1 then []
      else
        List.map_filter (\<lambda>(location, tcs).
            if length tcs \<le> 1 then None
            else analyze_location_conflict (fa_file_path (snd (hd analyses))) location tcs idx)
          (group_by_location (task_changes_of analyses)) @ detect_implicit_conflicts analyses)"

definition analyze_compatibility ::
    "semantic_change \<Rightarrow> semantic_change \<Rightarrow> rule_index \<Rightarrow> bool \<times> merge_strategy option \<times> string" where
  "analyze_compatibility a b idx =
     (case map_of idx (sc_change_type a, sc_change_type b) of
        Some r \<Rightarrow> (ru_compatible r, ru_strategy r, ru_reason r)
      | None \<Rightarrow> (False, Some MS_AI_REQUIRED, ''No compatibility rule defined''))"

section \<open>The index\<close>

lemma index_rule_symmetric:
  assumes "ru_bidirectional r" "\<forall>a b. map_of idx (a, b) = map_of idx (b, a)"
  shows "map_of (index_rule r idx) (a, b) = map_of (index_rule r idx) (b, a)"
proof -
  let ?hit = "\<lambda>a b. (a = ru_type_a r \<and> b = ru_type_b r) \<or> (a = ru_type_b r \<and> b = ru_type_a r)"
  have "map_of (index_rule r idx) (a, b) = (if ?hit a b then Some r else map_of idx (a, b))" for a b
    using assms(1) by (auto simp: index_rule_def Let_def dget_dset)
  moreover have "?hit a b \<longleftrightarrow> ?hit b a" by blast
  ultimately show ?thesis by (metis assms(2))
qed

lemma index_rules_symmetric:
  assumes "\<forall>r \<in> set rules. ru_bidirectional r"
  shows "map_of (index_rules rules) (a, b) = map_of (index_rules rules) (b, a)"
proof -
  have "\<forall>a b. map_of (fold index_rule rs idx) (a, b) = map_of (fold index_rule rs idx) (b, a)"
    if "\<forall>r \<in> set rs. ru_bidirectional r" "\<forall>a b. map_of idx (a, b) = map_of idx (b, a)" for rs idx
    using that
  proof (induction rs arbitrary: idx)
    case (Cons r rs)
    have "\<forall>a b. map_of (index_rule r idx) (a, b) = map_of (index_rule r idx) (b, a)"
      using index_rule_symmetric [of r idx] Cons(2,3) by simp
    then show ?case using Cons(1) [of "index_rule r idx"] Cons(2) by simp
  qed simp
  then show ?thesis using assms by (simp add: index_rules_def)
qed

lemma rule_simps [simp]:
  "ru_bidirectional (rule a b ok strategy reason)" "ru_type_a (rule a b ok strategy reason) = a"
  "ru_type_b (rule a b ok strategy reason) = b" "ru_compatible (rule a b ok strategy reason) = ok"
  "ru_strategy (rule a b ok strategy reason) = Some strategy" "ru_reason (rule a b ok strategy reason) = reason"
  by (simp_all add: rule_def)

lemmas default_rules = build_default_rules_def import_rules_def function_rules_def hook_rules_def
  jsx_rules_def class_rules_def variable_rules_def type_rules_def decorator_comment_rules_def

lemma default_rules_bidirectional: "list_all ru_bidirectional build_default_rules"
  by (simp add: default_rules)

section \<open>Overlapping ranges\<close>

definition touch :: "int \<times> int \<Rightarrow> int \<times> int \<Rightarrow> bool" where
  "touch r s \<longleftrightarrow> fst r \<le> snd s \<and> fst s \<le> snd r"

lemma adjacent_overlap_iff:
  assumes "sorted rs" "\<forall>r \<in> set rs. fst r \<le> snd r"
  shows "adjacent_overlap rs \<longleftrightarrow> (\<exists>i j. i < j \<and> j < length rs \<and> touch (rs ! i) (rs ! j))"
  using assms
proof (induction rs rule: adjacent_overlap.induct)
  case (1 r s rest)
  have le: "fst r \<le> fst x" if "x \<in> set (s # rest)" for x
    using 1(2) that by (auto simp: less_eq_prod_def)
  have s_le: "fst s \<le> fst x" if "x \<in> set (s # rest)" for x
    using 1(2) that by (auto simp: less_eq_prod_def)
  have "(\<exists>i j. i < j \<and> j < length (r # s # rest) \<and> touch ((r # s # rest) ! i) ((r # s # rest) ! j)) \<longleftrightarrow>
        (\<exists>x \<in> set (s # rest). touch r x) \<or>
        (\<exists>i j. i < j \<and> j < length (s # rest) \<and> touch ((s # rest) ! i) ((s # rest) ! j))" (is "?L \<longleftrightarrow> ?R")
  proof
    assume ?L
    then obtain i j where ij: "i < j" "j < length (r # s # rest)" "touch ((r # s # rest) ! i) ((r # s # rest) ! j)"
      by blast
    show ?R
    proof (cases i)
      case 0
      then have "(s # rest) ! (j - 1) \<in> set (s # rest)" "touch r ((s # rest) ! (j - 1))"
        using ij by (auto simp: nth_Cons' intro!: nth_mem)
      then show ?thesis by blast
    next
      case (Suc i')
      then have "i' < j - 1 \<and> j - 1 < length (s # rest) \<and> touch ((s # rest) ! i') ((s # rest) ! (j - 1))"
        using ij by (cases j) auto
      then show ?thesis by blast
    qed
  next
    assume ?R
    then show ?L
    proof
      assume "\<exists>x \<in> set (s # rest). touch r x"
      then obtain k where "k < length (s # rest)" "touch r ((s # rest) ! k)" by (metis in_set_conv_nth)
      then show ?L by (intro exI [of _ 0] exI [of _ "Suc k"]) simp
    next
      assume "\<exists>i j. i < j \<and> j < length (s # rest) \<and> touch ((s # rest) ! i) ((s # rest) ! j)"
      then obtain i j where "i < j" "j < length (s # rest)" "touch ((s # rest) ! i) ((s # rest) ! j)" by blast
      then show ?L by (intro exI [of _ "Suc i"] exI [of _ "Suc j"]) simp
    qed
  qed
  also have "(\<exists>x \<in> set (s # rest). touch r x) \<longleftrightarrow> snd r \<ge> fst s"
  proof
    assume "\<exists>x \<in> set (s # rest). touch r x"
    then show "snd r \<ge> fst s" using s_le by (force simp: touch_def)
  next
    assume "snd r \<ge> fst s"
    moreover have "fst r \<le> snd s" using le [of s] 1(3) by force
    ultimately show "\<exists>x \<in> set (s # rest). touch r x" by (auto simp: touch_def)
  qed
  finally show ?case using 1 by simp
qed auto

lemma touch_sym: "touch r s = touch s r"
  by (auto simp: touch_def)

lemma ranges_overlap_iff:
  assumes "\<forall>r \<in> set rs. fst r \<le> snd r"
  shows "ranges_overlap rs \<longleftrightarrow> (\<exists>i j. i < j \<and> j < length rs \<and> touch (rs ! i) (rs ! j))"
proof -
  have pairs: "(\<exists>i j. i < j \<and> j < length xs \<and> touch (xs ! i) (xs ! j)) \<longleftrightarrow>
      \<not> sorted_wrt (\<lambda>a b. \<not> touch a b) xs" for xs
    by (auto simp: sorted_wrt_iff_nth_less)
  have perm: "sorted_wrt (\<lambda>a b. \<not> touch a b) xs \<longleftrightarrow> sorted_wrt (\<lambda>a b. \<not> touch a b) ys"
    if "mset xs = mset ys" for xs ys :: "(int \<times> int) list"
    using that
  proof (induction xs arbitrary: ys)
    case (Cons x xs)
    then have "x \<in> set ys" by (metis list.set_intros(1) mset_eq_setD)
    then obtain as bs where ys: "ys = as @ x # bs" by (meson split_list)
    then have m: "mset xs = mset (as @ bs)" using Cons(2) by simp
    then have "set xs = set as \<union> set bs" by (metis set_append mset_eq_setD)
    then show ?case
      using Cons(1) [OF m] touch_sym by (auto simp: ys sorted_wrt_append)
  qed simp
  have "ranges_overlap rs \<longleftrightarrow> \<not> sorted_wrt (\<lambda>a b. \<not> touch a b) (sort rs)"
    unfolding ranges_overlap_def using assms by (subst adjacent_overlap_iff) (simp_all only: pairs, simp_all)
  also have "\<dots> \<longleftrightarrow> \<not> sorted_wrt (\<lambda>a b. \<not> touch a b) rs"
    using perm [of "sort rs" rs] by simp
  finally show ?thesis using pairs [of rs] by blast
qed

end
