(* ===== verification/Conflict_Props.thy ===== *)
theory Conflict_Props
  imports Conflict_Analysis
begin

text \<open>What a conflict region says about the changes it was made from.\<close>

definition compatible_pair :: "rule_index \<Rightarrow> change_type \<Rightarrow> change_type \<Rightarrow> bool" where
  "compatible_pair idx a b \<longleftrightarrow> (\<exists>r. map_of idx (a, b) = Some r \<and> ru_compatible r)"

lemma judge_ok: "fst (judge idx a b v) \<longleftrightarrow> fst v \<and> compatible_pair idx a b"
  by (auto simp: judge_def compatible_pair_def split: option.split prod.split)

lemma judge_row_ok:
  "fst (foldl (\<lambda>w b. judge idx a b w) v bs) \<longleftrightarrow> fst v \<and> (\<forall>b \<in> set bs. compatible_pair idx a b)"
  by (induction bs arbitrary: v) (auto simp: judge_ok)

lemma judge_pairs_ok: "fst (judge_pairs idx ts v) \<longleftrightarrow> fst v \<and> sorted_wrt (compatible_pair idx) ts"
  by (induction ts arbitrary: v) (auto simp: judge_row_ok)

lemma assess_severity_not_none: "assess_severity types changes \<noteq> SEV_NONE"
  by (simp add: assess_severity_def Let_def)

lemma analyze_location_cases:
  assumes "analyze_location_conflict path loc tcs idx = Some r"
  shows "cg_location r = loc" "cg_tasks_involved r = map fst tcs"
    "cg_change_types r = map (sc_change_type \<circ> snd) tcs"
    "cg_can_auto_merge r \<longleftrightarrow> sorted_wrt (compatible_pair idx) (cg_change_types r)"
    "cg_can_auto_merge r \<longleftrightarrow> cg_severity r = SEV_NONE"
    "\<not> cg_can_auto_merge r \<Longrightarrow> cg_merge_strategy r = Some MS_AI_REQUIRED"
    "\<forall>x \<in> set tcs. \<forall>y \<in> set tcs. sc_target (snd x) = sc_target (snd y)"
proof -
  let ?types = "map sc_change_type (map snd tcs)"
  have one: "length (remdups (map sc_target (map snd tcs))) \<le> 1"
    using assms by (auto simp: analyze_location_conflict_def Let_def split: if_splits)
  obtain ok strategy reasons where j: "judge_pairs idx ?types (True, None, []) = (ok, strategy, reasons)"
    by (metis prod_cases3)
  have ok: "ok \<longleftrightarrow> sorted_wrt (compatible_pair idx) ?types"
    using judge_pairs_ok [of idx ?types "(True, None, [])"] j by simp
  have r: "r = \<lparr>cg_file_path = path, cg_location = loc, cg_tasks_involved = map fst tcs,
      cg_change_types = ?types, cg_severity = (if ok then SEV_NONE else assess_severity ?types (map snd tcs)),
      cg_can_auto_merge = ok, cg_merge_strategy = (if ok then strategy else Some MS_AI_REQUIRED),
      cg_reason = (if reasons \<noteq> [] then py_join '' | '' reasons else ''Changes are compatible'')\<rparr>"
    using assms one j by (simp add: analyze_location_conflict_def Let_def del: map_map)
  show "cg_location r = loc" "cg_tasks_involved r = map fst tcs"
    "cg_change_types r = map (sc_change_type \<circ> snd) tcs" by (simp_all add: r)
  show "cg_can_auto_merge r \<longleftrightarrow> sorted_wrt (compatible_pair idx) (cg_change_types r)"
    unfolding r using ok by simp
  show "cg_can_auto_merge r \<longleftrightarrow> cg_severity r = SEV_NONE"
    by (simp add: r assess_severity_not_none)
  show "\<not> cg_can_auto_merge r \<Longrightarrow> cg_merge_strategy r = Some MS_AI_REQUIRED" by (simp add: r)
  have "card (set (map sc_target (map snd tcs))) \<le> 1" using one by (simp add: length_remdups_card_conv)
  then have eq: "\<forall>a \<in> set (map sc_target (map snd tcs)). \<forall>b \<in> set (map sc_target (map snd tcs)). a = b"
    using card_le_Suc0_iff_eq [of "set (map sc_target (map snd tcs))"] by (simp only: One_nat_def List.finite_set simp_thms)
  show "\<forall>x \<in> set tcs. \<forall>y \<in> set tcs. sc_target (snd x) = sc_target (snd y)"
  proof (intro ballI)
    fix x y assume "x \<in> set tcs" "y \<in> set tcs"
    then have "sc_target (snd x) \<in> set (map sc_target (map snd tcs))"
      "sc_target (snd y) \<in> set (map sc_target (map snd tcs))" by simp_all
    with eq show "sc_target (snd x) = sc_target (snd y)" by blast
  qed
qed

lemma group_lookup:
  "ddefault [] (group_by_location tcs) loc = filter (\<lambda>tc. sc_location (snd tc) = loc) tcs"
proof -
  have "ddefault [] (fold (\<lambda>tc d. AList.update (sc_location (snd tc)) (ddefault [] d (sc_location (snd tc)) @ [tc]) d) tcs d) loc
      = ddefault [] d loc @ filter (\<lambda>tc. sc_location (snd tc) = loc) tcs" for d
    by (induction tcs arbitrary: d) (auto simp: ddefault_def dget_dset)
  from this [of "[]"] show ?thesis by (simp add: group_by_location_def ddefault_def)
qed

lemma group_distinct: "distinct (map fst (group_by_location tcs))"
proof -
  have "distinct (map fst d) \<Longrightarrow> distinct (map fst
      (fold (\<lambda>tc d. AList.update (sc_location (snd tc)) (ddefault [] d (sc_location (snd tc)) @ [tc]) d) tcs d))" for d
    by (induction tcs arbitrary: d) (simp_all add: distinct_update)
  then show ?thesis by (simp add: group_by_location_def)
qed

lemma group_entry:
  assumes "(loc, g) \<in> set (group_by_location tcs)"
  shows "g = filter (\<lambda>tc. sc_location (snd tc) = loc) tcs"
proof -
  have "map_of (group_by_location tcs) loc = Some g"
    using group_distinct assms by (rule map_of_is_SomeI)
  then show ?thesis using group_lookup [of tcs loc] by (simp add: ddefault_def)
qed

lemma region_from:
  assumes "r \<in> set (detect_conflicts analyses idx)"
  shows "\<exists>loc g. (loc, g) \<in> set (group_by_location (task_changes_of analyses)) \<and> length g > 1 \<and>
    analyze_location_conflict (fa_file_path (snd (hd analyses))) loc g idx = Some r"
proof -
  from assms obtain loc g where "(loc, g) \<in> set (group_by_location (task_changes_of analyses))"
    "length g > 1" "analyze_location_conflict (fa_file_path (snd (hd analyses))) loc g idx = Some r"
    by (auto simp: detect_conflicts_def detect_implicit_conflicts_def List.map_filter_def split: if_splits)
  then show ?thesis by blast
qed

lemma conflict_detected:
  assumes "length analyses \<ge> 2"
    and "g = filter (\<lambda>tc. sc_location (snd tc) = loc) (task_changes_of analyses)" "length g \<ge> 2"
    and "\<forall>x \<in> set g. sc_target (snd x) = t"
  shows "\<exists>r \<in> set (detect_conflicts analyses idx). cg_location r = loc \<and> cg_tasks_involved r = map fst g"
proof -
  let ?G = "group_by_location (task_changes_of analyses)"
  have "ddefault [] ?G loc = g" using group_lookup assms(2) by metis
  then have "map_of ?G loc = Some g" using assms(3) by (auto simp: ddefault_def split: option.splits)
  then have mem: "(loc, g) \<in> set ?G" by (rule map_of_SomeD)
  have "set (map sc_target (map snd g)) \<subseteq> {t}" using assms(4) by auto
  then have "card (set (map sc_target (map snd g))) \<le> card {t}" by (intro card_mono) auto
  then have "length (remdups (map sc_target (map snd g))) \<le> 1" by (simp add: length_remdups_card_conv)
  then obtain r where r: "analyze_location_conflict (fa_file_path (snd (hd analyses))) loc g idx = Some r"
    by (cases "judge_pairs idx (map sc_change_type (map snd g)) (True, None, [])")
      (simp add: analyze_location_conflict_def Let_def del: map_map)
  then have "r \<in> set (detect_conflicts analyses idx)"
    using mem assms(1,3) by (auto simp: detect_conflicts_def List.map_filter_def intro!: image_eqI [of _ _ "(loc, g)"])
  then show ?thesis using analyze_location_cases(1,2) [OF r] by blast
qed

section \<open>Properties\<close>

text \<open>C30: every reported region stands for all the changes at its location, at least two, to one target; it
  may be merged automatically exactly when a rule declares every two of them compatible, and exactly when its
  severity is none; otherwise its strategy asks for AI.\<close>

theorem regions_are_sound:
  assumes "r \<in> set (detect_conflicts analyses idx)"
  shows "\<exists>g. g = filter (\<lambda>tc. sc_location (snd tc) = cg_location r) (task_changes_of analyses) \<and>
      length g \<ge> 2 \<and> cg_tasks_involved r = map fst g \<and> cg_change_types r = map (sc_change_type \<circ> snd) g \<and>
      (\<forall>x \<in> set g. \<forall>y \<in> set g. sc_target (snd x) = sc_target (snd y)) \<and>
      (cg_can_auto_merge r \<longleftrightarrow>
         sorted_wrt (\<lambda>a b. \<exists>u. map_of idx (a, b) = Some u \<and> ru_compatible u) (cg_change_types r)) \<and>
      (cg_can_auto_merge r \<longleftrightarrow> cg_severity r = SEV_NONE) \<and>
      (\<not> cg_can_auto_merge r \<longrightarrow> cg_merge_strategy r = Some MS_AI_REQUIRED)"
proof -
  obtain loc g where g: "(loc, g) \<in> set (group_by_location (task_changes_of analyses))" "length g > 1"
    "analyze_location_conflict (fa_file_path (snd (hd analyses))) loc g idx = Some r"
    using region_from [OF assms] by blast
  note c = analyze_location_cases [OF g(3)]
  have "compatible_pair idx = (\<lambda>a b. \<exists>u. map_of idx (a, b) = Some u \<and> ru_compatible u)"
    by (simp add: compatible_pair_def fun_eq_iff)
  then show ?thesis
    using c group_entry [OF g(1)] g(2) by (intro exI [of _ g]) simp
qed

text \<open>When two tasks were analysed, two or more changes to one target at one location are reported,
  with all the tasks that made them.\<close>

theorem changes_to_one_target_are_reported:
  assumes "length analyses \<ge> 2"
    and "g = filter (\<lambda>tc. sc_location (snd tc) = loc) (task_changes_of analyses)" "length g \<ge> 2"
    and "\<forall>x \<in> set g. sc_target (snd x) = t"
  shows "\<exists>r \<in> set (detect_conflicts analyses idx). cg_location r = loc \<and> cg_tasks_involved r = map fst g"
  by (rule conflict_detected [OF assms])

text \<open>A conflict is critical exactly when two of its changes modify code and two of its line ranges
  touch, whatever the order of the changes: looking at neighbours after sorting loses no overlap.\<close>

theorem critical_iff_modifications_touch:
  assumes "\<forall>c \<in> set changes. sc_line_start c \<le> sc_line_end c"
  shows "assess_severity types changes = SEV_CRITICAL \<longleftrightarrow>
    length (filter (\<lambda>t. t \<in> set modify_types) types) \<ge> 2 \<and>
    (\<exists>i j. i < j \<and> j < length changes \<and> sc_line_start (changes ! i) \<le> sc_line_end (changes ! j) \<and>
       sc_line_start (changes ! j) \<le> sc_line_end (changes ! i))"
proof -
  let ?rs = "map (\<lambda>c. (sc_line_start c, sc_line_end c)) changes"
  have "ranges_overlap ?rs \<longleftrightarrow> (\<exists>i j. i < j \<and> j < length ?rs \<and> touch (?rs ! i) (?rs ! j))"
    by (rule ranges_overlap_iff) (use assms in auto)
  also have "\<dots> \<longleftrightarrow> (\<exists>i j. i < j \<and> j < length changes \<and> sc_line_start (changes ! i) \<le> sc_line_end (changes ! j) \<and>
       sc_line_start (changes ! j) \<le> sc_line_end (changes ! i))"
    by (intro ex_cong1) (auto simp: touch_def)
  finally show ?thesis by (simp add: assess_severity_def Let_def)
qed

section \<open>What is missed\<close>

definition modify_at :: "string \<Rightarrow> string \<Rightarrow> semantic_change" where
  "modify_at loc target =
     \<lparr>sc_change_type = MODIFY_FUNCTION, sc_target = target, sc_location = loc, sc_line_start = 1,
      sc_line_end = 9, sc_content_before = None, sc_content_after = None, sc_metadata = []\<rparr>"

definition analysis_of :: "semantic_change list \<Rightarrow> file_analysis" where
  "analysis_of cs = \<lparr>fa_file_path = ''f'', fa_changes = cs, fa_functions_modified = [],
     fa_functions_added = [], fa_imports_added = [], fa_imports_removed = [], fa_classes_modified = [],
     fa_total_lines_changed = 0\<rparr>"

text \<open>
  Two tasks rewrite the same function at the same place; an unrelated change at that place makes
  the report empty.
\<close>

lemma third_target_hides_conflict:
  "detect_conflicts [(''t1'', analysis_of [modify_at ''L'' ''f'']), (''t2'', analysis_of [modify_at ''L'' ''f''])]
     (index_rules build_default_rules) \<noteq> [] \<and>
   detect_conflicts [(''t1'', analysis_of [modify_at ''L'' ''f'', modify_at ''L'' ''g'']),
       (''t2'', analysis_of [modify_at ''L'' ''f''])] (index_rules build_default_rules) = []"
  (is "?some \<and> ?none")
proof
  let ?two = "[(''t1'', analysis_of [modify_at ''L'' ''f'']), (''t2'', analysis_of [modify_at ''L'' ''f''])]"
  have "\<exists>r \<in> set (detect_conflicts ?two (index_rules build_default_rules)).
      cg_location r = ''L'' \<and> cg_tasks_involved r = map fst [(''t1'', modify_at ''L'' ''f''), (''t2'', modify_at ''L'' ''f'')]"
    by (rule conflict_detected [where t = "''f''"]) (simp_all add: task_changes_of_def analysis_of_def modify_at_def)
  then show ?some by (metis empty_iff empty_set)
  show ?none
    by (simp add: detect_conflicts_def task_changes_of_def analysis_of_def modify_at_def group_by_location_def
        ddefault_def analyze_location_conflict_def detect_implicit_conflicts_def List.map_filter_def)
qed

text \<open>Two changes of one task are reported as a conflict once a second task touched the file.\<close>

lemma one_task_conflicts_with_itself:
  "\<exists>r \<in> set (detect_conflicts [(''t1'', analysis_of [modify_at ''L'' ''f'', modify_at ''L'' ''f'']),
       (''t2'', analysis_of [])] idx). cg_tasks_involved r = [''t1'', ''t1'']"
proof -
  let ?one = "[(''t1'', analysis_of [modify_at ''L'' ''f'', modify_at ''L'' ''f'']), (''t2'', analysis_of [])]"
  have "\<exists>r \<in> set (detect_conflicts ?one idx).
      cg_location r = ''L'' \<and> cg_tasks_involved r = map fst [(''t1'', modify_at ''L'' ''f''), (''t1'', modify_at ''L'' ''f'')]"
    by (rule conflict_detected [where t = "''f''"]) (simp_all add: task_changes_of_def analysis_of_def modify_at_def)
  then obtain r where "r \<in> set (detect_conflicts ?one idx)" "cg_tasks_involved r = [''t1'', ''t1'']"
    by (simp only: list.map prod.sel) blast
  then show ?thesis by (rule bexI [rotated])
qed

section \<open>At concrete inputs\<close>

definition two_tasks :: "(string \<times> file_analysis) list" where
  "two_tasks = [(''t1'', analysis_of [modify_at ''L'' ''f'']), (''t2'', analysis_of [modify_at ''L'' ''f''])]"

lemma two_tasks_changes:
  "task_changes_of two_tasks = [(''t1'', modify_at ''L'' ''f''), (''t2'', modify_at ''L'' ''f'')]"
  by (simp add: two_tasks_def task_changes_of_def analysis_of_def)

lemma changes_to_one_target_are_reported_witness:
  "\<exists>r \<in> set (detect_conflicts two_tasks (index_rules build_default_rules)).
     cg_location r = ''L'' \<and> cg_tasks_involved r = map fst (task_changes_of two_tasks)"
  by (rule changes_to_one_target_are_reported [where t = "''f''"])
    (simp_all add: two_tasks_changes, simp_all add: two_tasks_def modify_at_def)

lemma regions_are_sound_witness:
  "\<exists>r \<in> set (detect_conflicts two_tasks (index_rules build_default_rules)). length (cg_change_types r) \<ge> 2"
proof -
  have "\<exists>r \<in> set (detect_conflicts two_tasks (index_rules build_default_rules)). cg_location r = ''L'' \<and>
      cg_tasks_involved r = map fst (task_changes_of two_tasks)"
    by (rule conflict_detected [where t = "''f''"])
      (simp_all add: two_tasks_changes, simp_all add: two_tasks_def modify_at_def)
  then obtain r where r: "r \<in> set (detect_conflicts two_tasks (index_rules build_default_rules))" by blast
  have "length (cg_change_types r) \<ge> 2" using regions_are_sound [OF r] by auto
  with r show ?thesis by blast
qed

lemma critical_iff_modifications_touch_witness:
  "assess_severity [MODIFY_FUNCTION, MODIFY_FUNCTION] [modify_at ''L'' ''f'', modify_at ''L'' ''f''] = SEV_CRITICAL"
proof -
  have "\<exists>i j. i < j \<and> j < length [modify_at ''L'' ''f'', modify_at ''L'' ''f''] \<and>
     sc_line_start ([modify_at ''L'' ''f'', modify_at ''L'' ''f''] ! i) \<le> sc_line_end ([modify_at ''L'' ''f'', modify_at ''L'' ''f''] ! j) \<and>
     sc_line_start ([modify_at ''L'' ''f'', modify_at ''L'' ''f''] ! j) \<le> sc_line_end ([modify_at ''L'' ''f'', modify_at ''L'' ''f''] ! i)"
    by (intro exI [of _ 0] exI [of _ 1]) (simp add: modify_at_def)
  then show ?thesis
    by (subst critical_iff_modifications_touch) (simp_all add: modify_at_def modify_types_def)
qed

end
