(* ===== verification/Py_Json.thy ===== *)
theory Py_Json
  imports Prelude
begin

text \<open>
  Python's conversions of a JSON value: \<open>str\<close>, \<open>int\<close> and \<open>list\<close>. The text of a float, a list or a dictionary is
  the argument \<open>shown\<close>. A moment is its number of microseconds since the epoch; writing it in ISO format and
  reading such a text belong to \<open>datetime\<close> and are arguments, bundled in \<open>py_env\<close>.
\<close>

definition py_str :: "(json \<Rightarrow> string) \<Rightarrow> json \<Rightarrow> string" where
  "py_str shown v = (case v of JStr s \<Rightarrow> s | JInt i \<Rightarrow> str_of_int i | JNull \<Rightarrow> ''None''
     | JBool b \<Rightarrow> (if b then ''True'' else ''False'') | _ \<Rightarrow> shown v)"

lemma py_str_JStr [simp]: "py_str shown (JStr s) = s"
  by (simp add: py_str_def)

text \<open>\<open>int\<close> of a text: white space around, a sign, groups of digits separated by single underscores.\<close>

definition unsigned_int :: "string \<Rightarrow> py_error + int" where
  "unsigned_int ds =
     (let groups = py_split_on (CHR ''_'') ds
      in if list_all (\<lambda>g. g \<noteq> [] \<and> list_all is_digit g) groups then Inr (int_of_digits (concat groups))
         else Inl (ValueError ds))"

definition int_of_text :: "string \<Rightarrow> py_error + int" where
  "int_of_text s =
     (case py_strip s of
        [] \<Rightarrow> Inl (ValueError s)
      | c # cs \<Rightarrow>
          if c = CHR ''-'' then bindE (unsigned_int cs) (\<lambda>i. Inr (- i))
          else if c = CHR ''+'' then unsigned_int cs else unsigned_int (c # cs))"

definition py_int :: "json \<Rightarrow> py_error + int" where
  "py_int v =
     (case v of
        JInt i \<Rightarrow> Inr i
      | JBool b \<Rightarrow> Inr (if b then 1 else 0)
      | JFloat q \<Rightarrow> Inr (if q \<ge> 0 then \<lfloor>q\<rfloor> else \<lceil>q\<rceil>)
      | JStr s \<Rightarrow> int_of_text s
      | _ \<Rightarrow> Inl (TypeError ''int''))"

lemma py_int_JInt [simp]: "py_int (JInt i) = Inr i"
  by (simp add: py_int_def)

definition py_list :: "json \<Rightarrow> py_error + json list" where
  "py_list v =
     (case v of
        JList xs \<Rightarrow> Inr xs
      | JStr s \<Rightarrow> Inr (map (\<lambda>c. JStr [c]) s)
      | JObj d \<Rightarrow> Inr (map (JStr \<circ> fst) d)
      | _ \<Rightarrow> Inl (TypeError ''list''))"

lemma py_list_JList [simp]: "py_list (JList xs) = Inr xs"
  by (simp add: py_list_def)

text \<open>\<open>d.get(k, default)\<close> on a dictionary.\<close>

definition get_or :: "string \<Rightarrow> json \<Rightarrow> obj \<Rightarrow> json" where
  "get_or k v d = (case map_of d k of None \<Rightarrow> v | Some w \<Rightarrow> w)"

record py_env =
  pe_shown :: "json \<Rightarrow> string"
  pe_iso :: "int \<Rightarrow> string"
  pe_fromiso :: "string \<Rightarrow> int option"

text \<open>What \<open>datetime\<close> documents of the two: a moment is read back from its ISO text, which is not empty.\<close>

definition iso_reads_back :: "py_env \<Rightarrow> bool" where
  "iso_reads_back env \<longleftrightarrow> (\<forall>t. pe_fromiso env (pe_iso env t) = Some t \<and> pe_iso env t \<noteq> [])"

lemma fromiso_iso [simp]: "iso_reads_back env \<Longrightarrow> pe_fromiso env (pe_iso env t) = Some t"
  by (simp add: iso_reads_back_def)

lemma iso_not_Nil [simp]: "iso_reads_back env \<Longrightarrow> pe_iso env t \<noteq> []"
  by (simp add: iso_reads_back_def)

text \<open>An instance: a moment written as its number.\<close>

definition plain_env :: py_env where
  "plain_env = \<lparr>pe_shown = (\<lambda>_. []), pe_iso = str_of_int,
     pe_fromiso = (\<lambda>s. case int_of_text s of Inr i \<Rightarrow> Some i | Inl _ \<Rightarrow> None)\<rparr>"

lemma strip_no_space:
  assumes "\<And>c. c \<in> set s \<Longrightarrow> \<not> is_space c"
  shows "py_strip s = s"
proof -
  have *: "dropWhile is_space xs = xs" if "set xs \<subseteq> set s" for xs
    using that assms by (cases xs) auto
  show ?thesis by (simp add: py_strip_def *)
qed

lemma digit_no_space: "is_digit c \<Longrightarrow> \<not> is_space c"
  by (auto simp: is_digit_def is_space_def Let_def)

lemma split_without_sep: "sep \<notin> set s \<Longrightarrow> py_split_on sep s = [s]"
  by (induction s) auto

lemma int_of_text_digits: "unsigned_int (digits_of_nat n) = Inr (int n)"
proof -
  have "CHR ''_'' \<notin> set (digits_of_nat n)"
    using digits_of_nat_digits [of "CHR ''_''" n] by (auto simp: is_digit_def Let_def)
  then show ?thesis
    using digits_of_nat_digits [of _ n] by (simp add: unsigned_int_def split_without_sep list_all_iff)
qed

lemma int_of_text_str_of_int: "int_of_text (str_of_int i) = Inr i"
proof (cases "i < 0")
  case True
  have "py_strip (CHR ''-'' # digits_of_nat (nat (- i))) = CHR ''-'' # digits_of_nat (nat (- i))"
    by (rule strip_no_space) (use digits_of_nat_digits digit_no_space in \<open>auto simp: is_space_def\<close>)
  then show ?thesis using True by (simp add: str_of_int_def int_of_text_def int_of_text_digits)
next
  case False
  obtain c cs where d: "digits_of_nat (nat i) = c # cs" by (cases "digits_of_nat (nat i)") simp_all
  then have "is_digit c" using digits_of_nat_digits [of c "nat i"] by simp
  then have "c \<noteq> CHR ''-''" "c \<noteq> CHR ''+''" by (auto simp: is_digit_def Let_def)
  then show ?thesis
    using False d strip_no_space [of "digits_of_nat (nat i)"] digits_of_nat_digits [of _ "nat i"] digit_no_space int_of_text_digits [of "nat i"]
    by (simp add: str_of_int_def int_of_text_def)
qed

lemma plain_env_ok: "iso_reads_back plain_env"
proof -
  have "str_of_int t \<noteq> []" for t by (simp add: str_of_int_def)
  then show ?thesis by (simp add: iso_reads_back_def plain_env_def int_of_text_str_of_int)
qed

end
