(* ===== verification/Merge_Policy.thy ===== *)
theory Merge_Policy
  imports Py_Json "HOL-Library.List_Lexorder" "HOL-Library.Char_ord"
begin

text \<open>
  Who may merge: the classification of a plan into a review tier (\<open>review_tier.py\<close>) and the
  merge-gate decision (\<open>merge/merge_policy.py\<close>). Arguments typed \<open>object\<close> in the source are JSON
  values here (and the arrow in one reason is written \<open>->\<close>). \<open>str\<close> of a float or of a container is the argument \<open>show\<close>: nothing proved below
  depends on how Python prints those.
\<close>

section \<open>High-risk paths\<close>

definition high_risk_patterns :: "string list" where
  "high_risk_patterns = [''auth'', ''login'', ''session'', ''password'', ''secret'', ''credential'',
     ''token'', ''oauth'', ''iam'', ''rbac'', ''permission'', ''migration'', ''alembic'',
     ''schema.prisma'', ''terraform'', ''.tf'', ''dockerfile'', ''docker-compose'', ''k8s'',
     ''kubernetes'', ''helm'', ''.github/workflows'', ''ci.yml'', ''deploy'', ''payment'', ''billing'']"

text \<open>\<open>_RISK_RE.search\<close>: some pattern occurs, ignoring case.\<close>

definition risk_match :: "string \<Rightarrow> bool" where
  "risk_match path = list_ex (\<lambda>p. py_in p (py_lower path)) high_risk_patterns"

section \<open>The plan's review tier\<close>

datatype review_tier = RT_AUTO | RT_ASYNC | RT_BLOCKING

record assessment =
  ra_tier :: review_tier
  ra_pre_merge_gate :: bool
  ra_reasons :: "string list"
  ra_high_risk_files :: "string list"

definition trivial_max_subtasks :: nat where "trivial_max_subtasks = 2"
definition trivial_max_files :: nat where "trivial_max_files = 3"
definition low_confidence_threshold :: rat where "low_confidence_threshold = 1 / 2"

text \<open>\<open>d.get(k, []) or []\<close>, and the entries of it that are objects.\<close>

definition list_or_empty :: "string \<Rightarrow> obj \<Rightarrow> py_error + json list" where
  "list_or_empty k d = (case map_of d k of None \<Rightarrow> Inr []
     | Some (JList xs) \<Rightarrow> Inr xs | Some v \<Rightarrow> if truthy v then Inl (TypeError k) else Inr [])"

fun objects :: "json list \<Rightarrow> obj list" where
  "objects [] = []"
| "objects (JObj d # js) = d # objects js"
| "objects (_ # js) = objects js"

definition files_of :: "obj \<Rightarrow> py_error + string list" where
  "files_of st =
     bindE (list_or_empty ''files_to_create'' st) (\<lambda>a. bindE (mapE (as_str ''files_to_create'') a) (\<lambda>xs.
     bindE (list_or_empty ''files_to_modify'' st) (\<lambda>b. bindE (mapE (as_str ''files_to_modify'') b) (\<lambda>ys.
       Inr (xs @ ys)))))"

definition subtasks_of :: "obj \<Rightarrow> py_error + json list" where
  "subtasks_of ph = list_or_empty ''subtasks'' ph"

definition all_files :: "obj \<Rightarrow> py_error + string list" where
  "all_files plan =
     bindE (list_or_empty ''phases'' plan) (\<lambda>phs.
     bindE (mapE subtasks_of (objects phs)) (\<lambda>sts.
     bindE (mapE files_of (objects (concat sts))) (\<lambda>fs. Inr (concat fs))))"

definition count_subtasks :: "obj \<Rightarrow> py_error + nat" where
  "count_subtasks plan =
     bindE (list_or_empty ''phases'' plan) (\<lambda>phs.
     bindE (mapE subtasks_of (objects phs)) (\<lambda>sts. Inr (sum_list (map length sts))))"

definition classify_review_tier ::
    "(rat \<Rightarrow> string) \<Rightarrow> obj \<Rightarrow> bool \<Rightarrow> bool \<Rightarrow> rat option \<Rightarrow> py_error + assessment" where
  "classify_review_tier show_float plan trusted solo confidence =
     bindE (all_files plan) (\<lambda>files.
     bindE (count_subtasks plan) (\<lambda>n_subtasks.
       let high_risk_files = sorted_list_of_set (set (filter risk_match files));
           high_risk = (high_risk_files \<noteq> []);
           low_confidence = (case confidence of None \<Rightarrow> False | Some c \<Rightarrow> c < low_confidence_threshold);
           risk_reasons = (if high_risk
             then [''touches high-risk paths: '' @ py_join '', '' (take 5 high_risk_files)] else []);
           result = (\<lambda>tier more. \<lparr>ra_tier = tier, ra_pre_merge_gate = high_risk,
             ra_reasons = risk_reasons @ more, ra_high_risk_files = high_risk_files\<rparr>)
       in Inr (if trusted then result RT_AUTO [''trusted (#390 signed plan)'']
               else if high_risk \<or> low_confidence then
                 result RT_BLOCKING (if low_confidence
                   then [''planner confidence '' @ show_float (the confidence) @ '' < 0.5''] else [])
               else if solo then result RT_AUTO [''solo mode'']
               else if n_subtasks \<le> trivial_max_subtasks \<and> length files \<le> trivial_max_files then
                 result RT_AUTO [''trivial ('' @ digits_of_nat n_subtasks @ '' subtasks, '' @
                   digits_of_nat (length files) @ '' files)'']
               else result RT_ASYNC [''standard change -> async artifact review''])))"

section \<open>Tiers and dispositions\<close>

definition AUTO_MERGE :: string where "AUTO_MERGE = ''auto-merge''"
definition HOLD_ASYNC :: string where "HOLD_ASYNC = ''hold-async''"
definition HOLD_BLOCKING :: string where "HOLD_BLOCKING = ''hold-blocking''"

definition human_only_gates :: "string list" where "human_only_gates = [''human-approval'']"
definition non_autonomous_risk :: "string list" where "non_autonomous_risk = [''high'']"

definition tier_aliases :: "(string \<times> string) list" where
  "tier_aliases = [(''low'', ''low''), (''auto'', ''low''), (''medium'', ''medium''),
     (''async'', ''medium''), (''hard'', ''hard''), (''blocking'', ''hard'')]"

definition bucket_rank :: "(string \<times> int) list" where
  "bucket_rank = [(''low'', 0), (''medium'', 1), (''hard'', 2)]"

definition norm_text :: "string \<Rightarrow> string" where
  "norm_text s = py_lower (py_strip s)"

definition text_or_empty :: "string option \<Rightarrow> string" where
  "text_or_empty s = (case s of None \<Rightarrow> [] | Some t \<Rightarrow> t)"

definition tier_bucket :: "string option \<Rightarrow> string option" where
  "tier_bucket tier = map_of tier_aliases (norm_text (text_or_empty tier))"

definition tier_rank :: "string option \<Rightarrow> int" where
  "tier_rank tier = ddefault (-1) bucket_rank (case tier_bucket tier of None \<Rightarrow> [] | Some b \<Rightarrow> b)"

text \<open>\<open>importable\<close>: whether the pattern table can be imported at run time.\<close>

definition floor_from_paths :: "bool \<Rightarrow> json \<Rightarrow> string" where
  "floor_from_paths importable changed =
     (if \<not> importable then ''blocking''
      else case (case changed of JList xs \<Rightarrow> xs | JObj kvs \<Rightarrow> map (JStr \<circ> fst) kvs | _ \<Rightarrow> []) of
        paths \<Rightarrow> if list_ex (\<lambda>p. case p of JStr s \<Rightarrow> py_strip s \<noteq> [] \<and> risk_match s | _ \<Rightarrow> False) paths
                then ''blocking'' else ''auto'')"

definition raise_review_tier :: "string option \<Rightarrow> string option \<Rightarrow> string option" where
  "raise_review_tier tier flr = (let t = tier_rank tier; f = tier_rank flr in if f > t then flr else tier)"

section \<open>The gates\<close>

definition verdict_pass :: "json \<Rightarrow> bool" where
  "verdict_pass v = (case v of JBool b \<Rightarrow> b
     | JStr s \<Rightarrow> norm_text s \<in> set [''pass'', ''passed'', ''green'', ''ok''] | _ \<Rightarrow> False)"

definition val_rank :: "json \<Rightarrow> int option" where
  "val_rank v = (case v of JInt i \<Rightarrow> Some i | JStr s \<Rightarrow> first_int s | _ \<Rightarrow> None)"

definition floor_absent :: "json \<Rightarrow> bool" where
  "floor_absent v = (case v of JNull \<Rightarrow> True | JStr s \<Rightarrow> py_strip s = [] | _ \<Rightarrow> False)"

definition val_meets_floor :: "json \<Rightarrow> json \<Rightarrow> bool" where
  "val_meets_floor achieved flr =
     (case val_rank achieved of None \<Rightarrow> False
      | Some a \<Rightarrow> (case val_rank flr of None \<Rightarrow> floor_absent flr | Some f \<Rightarrow> a \<ge> f))"

definition str_set :: "(json \<Rightarrow> string) \<Rightarrow> json \<Rightarrow> string set" where
  "str_set show values =
     (case values of
        JList xs \<Rightarrow> set (filter (\<lambda>s. s \<noteq> []) (map (\<lambda>v. norm_text (py_str show v)) xs))
      | JObj kvs \<Rightarrow> set (filter (\<lambda>s. s \<noteq> []) (map (\<lambda>kv. norm_text (fst kv)) kvs))
      | _ \<Rightarrow> {})"

definition gate_reason :: "string \<Rightarrow> string" where
  "gate_reason gate =
     ''required system gate '' @ [CHR 0x27] @ gate @ [CHR 0x27] @ '' is not satisfied'' @
     (if gate \<in> set human_only_gates then '' (only a human can clear it)'' else [])"

definition get_text :: "(json \<Rightarrow> string) \<Rightarrow> string \<Rightarrow> obj \<Rightarrow> string" where
  "get_text show k d = (case map_of d k of None \<Rightarrow> [] | Some v \<Rightarrow> norm_text (py_str show v))"

definition deployment_block_reasons :: "(json \<Rightarrow> string) \<Rightarrow> obj option \<Rightarrow> json \<Rightarrow> string list" where
  "deployment_block_reasons show deployment satisfied_gates =
     (case deployment of None \<Rightarrow> []
      | Some d \<Rightarrow>
        (let risk_class = get_text show ''risk_class'' d;
             prod_class = get_text show ''production_classification'' d;
             required = str_set show (get_any ''system_gates'' d);
             have = str_set show satisfied_gates
         in (if risk_class \<in> set non_autonomous_risk
             then [''deployment risk_class='' @ risk_class @ '' is never auto-merged''] else []) @
            (if prod_class = ''production''
             then [''production change is VAL-4 / never autonomous (human-approval required)''] else []) @
            map gate_reason (sorted_list_of_set (required - have))))"

section \<open>The decision\<close>

definition decide_merge :: "(json \<Rightarrow> string) \<Rightarrow> string option \<Rightarrow> bool \<Rightarrow> json \<Rightarrow> json \<Rightarrow> json \<Rightarrow> bool \<Rightarrow>
    obj option \<Rightarrow> json \<Rightarrow> string" where
  "decide_merge show tier host_ci_green verdict achieved flr ci_parity deployment satisfied =
     (case tier_bucket tier of
        None \<Rightarrow> HOLD_BLOCKING
      | Some bucket \<Rightarrow>
          if deployment_block_reasons show deployment satisfied \<noteq> [] then HOLD_BLOCKING
          else if bucket = ''hard'' then HOLD_BLOCKING
          else if bucket = ''medium'' then HOLD_ASYNC
          else if host_ci_green \<and> verdict_pass verdict \<and> val_meets_floor achieved flr \<and> ci_parity
          then AUTO_MERGE
          else HOLD_ASYNC)"

definition blank :: "string option \<Rightarrow> bool" where
  "blank s = (case s of None \<Rightarrow> True | Some t \<Rightarrow> py_strip t = [])"

definition tier_permits_auto_merge :: "string option \<Rightarrow> bool" where
  "tier_permits_auto_merge tier = (if blank tier then True else tier_bucket tier = Some ''low'')"

definition bucket_disposition :: "(string \<times> string) list" where
  "bucket_disposition = [(''low'', AUTO_MERGE), (''medium'', HOLD_ASYNC), (''hard'', HOLD_BLOCKING)]"

definition disposition_rank :: "(string \<times> int) list" where
  "disposition_rank = [(AUTO_MERGE, 0), (HOLD_ASYNC, 1), (HOLD_BLOCKING, 2)]"

definition cap_disposition :: "string \<Rightarrow> string option \<Rightarrow> string" where
  "cap_disposition decision climit =
     (case map_of disposition_rank decision of
        None \<Rightarrow> HOLD_BLOCKING
      | Some d \<Rightarrow>
        if blank climit then decision
        else case tier_bucket climit of
             None \<Rightarrow> HOLD_BLOCKING
           | Some bucket \<Rightarrow>
             (let cap = ddefault HOLD_BLOCKING bucket_disposition bucket
              in if ddefault 0 disposition_rank cap > d then cap else decision))"

section \<open>Lemmas\<close>

definition disp_rank :: "string \<Rightarrow> int" where
  "disp_rank s = ddefault (-1) disposition_rank s"

lemmas dispositions = AUTO_MERGE_def HOLD_ASYNC_def HOLD_BLOCKING_def

lemma disp_rank_simps [simp]:
  "disp_rank AUTO_MERGE = 0" "disp_rank HOLD_ASYNC = 1" "disp_rank HOLD_BLOCKING = 2"
  by (simp_all add: disp_rank_def disposition_rank_def ddefault_def dispositions)

lemma dispositions_distinct [simp]:
  "AUTO_MERGE \<noteq> HOLD_ASYNC" "AUTO_MERGE \<noteq> HOLD_BLOCKING" "HOLD_ASYNC \<noteq> HOLD_BLOCKING"
  "HOLD_ASYNC \<noteq> AUTO_MERGE" "HOLD_BLOCKING \<noteq> AUTO_MERGE" "HOLD_BLOCKING \<noteq> HOLD_ASYNC"
  by (simp_all add: dispositions)

lemma disposition_rank_lookup:
  "map_of disposition_rank s = (if s = AUTO_MERGE then Some 0 else if s = HOLD_ASYNC then Some 1
     else if s = HOLD_BLOCKING then Some 2 else None)"
  by (simp add: disposition_rank_def)

lemma tier_bucket_cases:
  "tier_bucket t = None \<or> tier_bucket t = Some ''low'' \<or> tier_bucket t = Some ''medium'' \<or> tier_bucket t = Some ''hard''"
  by (simp add: tier_bucket_def tier_aliases_def)

lemma tier_rank_bucket:
  "tier_rank t = (case tier_bucket t of None \<Rightarrow> -1 | Some b \<Rightarrow> if b = ''low'' then 0 else if b = ''medium'' then 1 else 2)"
  using tier_bucket_cases [of t] by (auto simp: tier_rank_def bucket_rank_def ddefault_def)

lemma norm_text_Nil: "py_strip s = [] \<Longrightarrow> norm_text s = []"
  by (simp add: norm_text_def py_lower_def)

lemma norm_text_empty [simp]: "norm_text [] = []"
  by (simp add: norm_text_Nil py_strip_def)

lemma blank_no_bucket: "blank t \<Longrightarrow> tier_bucket t = None"
  by (auto simp: blank_def tier_bucket_def text_or_empty_def norm_text_Nil tier_aliases_def split: option.splits)

end
