(* ===== verification/Merge_Policy_Props.thy ===== *)
theory Merge_Policy_Props
  imports Merge_Policy
begin

text \<open>Exactly when a change merges by itself, and what can and cannot loosen that.\<close>

lemma auto_merge_iff:
  "decide_merge show tier ci verdict achieved flr parity deployment satisfied = AUTO_MERGE \<longleftrightarrow>
   tier_bucket tier = Some ''low'' \<and> deployment_block_reasons show deployment satisfied = [] \<and>
   ci \<and> verdict_pass verdict \<and> val_meets_floor achieved flr \<and> parity"
  using tier_bucket_cases [of tier] by (elim disjE) (simp_all add: decide_merge_def)

lemma decide_merge_range:
  "decide_merge show tier ci verdict achieved flr parity deployment satisfied \<in> {AUTO_MERGE, HOLD_ASYNC, HOLD_BLOCKING}"
  by (auto simp: decide_merge_def split: option.split)

lemma deployment_only_tightens:
  "disp_rank (decide_merge show tier ci verdict achieved flr parity None satisfied) \<le>
   disp_rank (decide_merge show tier ci verdict achieved flr parity deployment satisfied)"
  by (auto simp: decide_merge_def deployment_block_reasons_def split: option.split)

lemma str_set_finite: "finite (str_set show v)"
  by (cases v) (simp_all add: str_set_def)

lemma block_reasons_Nil:
  "deployment_block_reasons show (Some d) satisfied = [] \<longleftrightarrow>
   get_text show ''risk_class'' d \<noteq> ''high'' \<and> get_text show ''production_classification'' d \<noteq> ''production'' \<and>
   str_set show (get_any ''system_gates'' d) \<subseteq> str_set show satisfied"
proof -
  have "sorted_list_of_set (str_set show (get_any ''system_gates'' d) - str_set show satisfied) = [] \<longleftrightarrow>
        str_set show (get_any ''system_gates'' d) \<subseteq> str_set show satisfied"
    using str_set_finite by (simp add: Diff_eq_empty_iff)
  then show ?thesis
    by (auto simp: deployment_block_reasons_def Let_def non_autonomous_risk_def)
qed

text \<open>A change with deployment metadata merges by itself exactly when its tier is low, host CI is
  green and in parity, its verdict passes, its validation reaches the floor, it is neither high-risk nor a
  production change, and every system gate it requires is satisfied.\<close>

theorem auto_merge_only_with_every_gate:
  "decide_merge show tier ci verdict achieved flr parity (Some d) satisfied = AUTO_MERGE \<longleftrightarrow>
   tier_bucket tier = Some ''low'' \<and> ci \<and> parity \<and> verdict_pass verdict \<and> val_meets_floor achieved flr \<and>
   get_text show ''risk_class'' d \<noteq> ''high'' \<and> get_text show ''production_classification'' d \<noteq> ''production'' \<and>
   str_set show (get_any ''system_gates'' d) \<subseteq> str_set show satisfied"
  by (auto simp: auto_merge_iff block_reasons_Nil)

text \<open>More evidence can only help, and never against a production or high-risk change.\<close>

text \<open>Satisfying more system gates never makes the decision stricter, for any change.\<close>

theorem evidence_monotone:
  assumes "str_set show satisfied \<subseteq> str_set show satisfied'"
  shows "disp_rank (decide_merge show tier ci verdict achieved flr parity deployment satisfied') \<le>
         disp_rank (decide_merge show tier ci verdict achieved flr parity deployment satisfied)"
proof (cases deployment)
  case (Some d)
  have "deployment_block_reasons show (Some d) satisfied = [] \<Longrightarrow>
        deployment_block_reasons show (Some d) satisfied' = []"
    using assms by (auto simp: block_reasons_Nil)
  then show ?thesis
    using Some tier_bucket_cases [of tier] by (auto simp: decide_merge_def)
qed (simp add: decide_merge_def deployment_block_reasons_def split: option.split)

lemma production_never_auto:
  assumes "get_text show ''production_classification'' d = ''production'' \<or> get_text show ''risk_class'' d = ''high''"
  shows "decide_merge show tier ci verdict achieved flr parity (Some d) satisfied = HOLD_BLOCKING"
proof -
  have "deployment_block_reasons show (Some d) satisfied \<noteq> []" using assms by (auto simp: block_reasons_Nil)
  then show ?thesis by (simp add: decide_merge_def split: option.split)
qed

section \<open>Raising and capping\<close>

lemma raise_rank: "tier_rank (raise_review_tier tier flr) = max (tier_rank tier) (tier_rank flr)"
  by (simp add: raise_review_tier_def Let_def)

lemma bucket_of_rank:
  "tier_rank a = tier_rank b \<longleftrightarrow> tier_bucket a = tier_bucket b"
  using tier_bucket_cases [of a] tier_bucket_cases [of b] by (auto simp: tier_rank_bucket)

lemma decide_by_rank:
  assumes "tier_bucket a \<noteq> None" "tier_rank a \<le> tier_rank b"
  shows "disp_rank (decide_merge show a ci verdict achieved flr parity deployment satisfied) \<le>
         disp_rank (decide_merge show b ci verdict achieved flr parity deployment satisfied)"
  using assms tier_bucket_cases [of a] tier_bucket_cases [of b]
  by (auto simp: decide_merge_def tier_rank_bucket)

text \<open>Raising a recognised tier to a floor never loosens the decision, for any evidence.\<close>

theorem raise_never_loosens:
  assumes "tier_bucket tier \<noteq> None"
  shows "disp_rank (decide_merge show tier ci verdict achieved flr parity deployment satisfied) \<le>
         disp_rank (decide_merge show (raise_review_tier tier f) ci verdict achieved flr parity deployment satisfied)"
  by (rule decide_by_rank [OF assms]) (simp add: raise_rank)

text \<open>
  The hypothesis is needed: a tier nobody recognises is held, and raising it to the floor of a
  harmless change makes it mergeable.
\<close>

lemma raise_loosens_unrecognised:
  "decide_merge show (Some ''critical'') True (JBool True) (JInt 2) JNull True None JNull = HOLD_BLOCKING \<and>
   decide_merge show (raise_review_tier (Some ''critical'') (Some (floor_from_paths True (JList []))))
     True (JBool True) (JInt 2) JNull True None JNull = AUTO_MERGE"
proof -
  have c: "tier_bucket (Some ''critical'') = None" and a: "tier_bucket (Some ''auto'') = Some ''low''"
    by (simp_all add: tier_bucket_def text_or_empty_def norm_text_def py_strip_def is_space_def py_lower_def
        lower_char_def tier_aliases_def Let_def)
  have "floor_from_paths True (JList []) = ''auto''" by (simp add: floor_from_paths_def)
  moreover have "raise_review_tier (Some ''critical'') (Some ''auto'') = Some ''auto''"
    by (simp add: raise_review_tier_def tier_rank_bucket a c)
  ultimately show ?thesis
    using a c by (simp add: decide_merge_def deployment_block_reasons_def verdict_pass_def val_meets_floor_def
        val_rank_def floor_absent_def)
qed

lemma floor_blocking:
  assumes "JStr s \<in> set paths" "py_strip s \<noteq> []" "risk_match s"
  shows "floor_from_paths importable (JList paths) = ''blocking''"
  using assms by (auto simp: floor_from_paths_def list_ex_iff intro: bexI [of _ "JStr s"])

text \<open>A change that touches a high-risk path is held for blocking review once its tier is raised
  to the floor of its paths, whatever its tier was and whatever evidence it carries.\<close>

theorem risky_change_never_auto:
  assumes "JStr s \<in> set paths" "py_strip s \<noteq> []" "risk_match s"
  shows "decide_merge show (raise_review_tier tier (Some (floor_from_paths importable (JList paths))))
           ci verdict achieved flr parity deployment satisfied = HOLD_BLOCKING"
proof -
  have b: "tier_bucket (Some ''blocking'') = Some ''hard''"
    by (simp add: tier_bucket_def text_or_empty_def norm_text_def py_strip_def is_space_def py_lower_def
        lower_char_def tier_aliases_def Let_def)
  then have f: "tier_rank (Some ''blocking'') = 2" by (simp add: tier_rank_bucket)
  have "tier_rank tier \<le> 2" using tier_bucket_cases [of tier] by (auto simp: tier_rank_bucket)
  with f have "tier_rank (raise_review_tier tier (Some ''blocking'')) = tier_rank (Some ''blocking'')"
    by (simp add: raise_rank)
  then have "tier_bucket (raise_review_tier tier (Some ''blocking'')) = Some ''hard''"
    using b by (simp add: bucket_of_rank)
  then show ?thesis
    using floor_blocking [OF assms] by (simp add: decide_merge_def)
qed

text \<open>Capping a disposition by a tier's ceiling only tightens it, stays within the three dispositions, and
  lets a change merge by itself only if it was to do so before and the ceiling permits it.\<close>

theorem cap_only_tightens:
  assumes "decision \<in> {AUTO_MERGE, HOLD_ASYNC, HOLD_BLOCKING}"
  shows "disp_rank decision \<le> disp_rank (cap_disposition decision climit) \<and>
         cap_disposition decision climit \<in> {AUTO_MERGE, HOLD_ASYNC, HOLD_BLOCKING} \<and>
         (cap_disposition decision climit = AUTO_MERGE \<longleftrightarrow> decision = AUTO_MERGE \<and> tier_permits_auto_merge climit)"
  using assms tier_bucket_cases [of climit] blank_no_bucket [of climit]
  by (auto simp: cap_disposition_def disposition_rank_lookup bucket_disposition_def ddefault_def Let_def
      tier_permits_auto_merge_def)

lemma auto_merge_needs_tier:
  "decide_merge show tier ci verdict achieved flr parity deployment satisfied = AUTO_MERGE \<Longrightarrow>
   tier_permits_auto_merge tier"
  using blank_no_bucket [of tier] by (auto simp: auto_merge_iff tier_permits_auto_merge_def)

section \<open>The classifier\<close>

lemma mapE_Inr_concat:
  "mapE f xs = Inr ys \<Longrightarrow> x \<in> set xs \<Longrightarrow> \<exists>y \<in> set ys. f x = Inr y"
  by (induction xs arbitrary: ys) (auto simp: bindE_Inr_iff)

text \<open>The classifier opens the pre-merge gate exactly for a plan that names a high-risk file,
  reports exactly those files, and then demands blocking review unless the plan is trusted.\<close>

theorem classify_gates_risk:
  assumes "classify_review_tier show_float plan trusted solo confidence = Inr a" "all_files plan = Inr files"
  shows "(ra_pre_merge_gate a \<longleftrightarrow> (\<exists>f \<in> set files. risk_match f)) \<and>
         (ra_pre_merge_gate a \<longrightarrow> \<not> trusted \<longrightarrow> ra_tier a = RT_BLOCKING) \<and>
         set (ra_high_risk_files a) = {f \<in> set files. risk_match f}"
proof -
  define hr where "hr = sorted_list_of_set (set (filter risk_match files))"
  have ne: "hr \<noteq> [] \<longleftrightarrow> (\<exists>f \<in> set files. risk_match f)" and set: "set hr = {f \<in> set files. risk_match f}"
    by (auto simp: hr_def filter_empty_conv)
  obtain n where n: "count_subtasks plan = Inr n"
    using assms by (auto simp: classify_review_tier_def bindE_Inr_iff)
  note c = assms(1) [unfolded classify_review_tier_def assms(2) n bindE_simps Let_def, folded hr_def, symmetric]
  have "ra_pre_merge_gate a = (hr \<noteq> [])" "ra_high_risk_files a = hr"
    using c by (simp_all split: if_splits)
  moreover have "hr \<noteq> [] \<Longrightarrow> \<not> trusted \<Longrightarrow> ra_tier a = RT_BLOCKING"
    using c by (simp split: if_splits)
  ultimately show ?thesis using ne set by auto
qed

section \<open>At concrete inputs\<close>

lemma sample_risk: "risk_match ''src/Auth.py''" "py_strip ''src/Auth.py'' = ''src/Auth.py''"
  by code_simp+

lemma risky_change_never_auto_witness:
  "\<forall>sh. decide_merge sh (raise_review_tier (Some ''low'') (Some (floor_from_paths True (JList [JStr ''src/Auth.py'']))))
     True (JBool True) (JInt 4) JNull True None JNull = HOLD_BLOCKING"
  by (intro allI risky_change_never_auto [of "''src/Auth.py''"]) (simp_all add: sample_risk)

lemma evidence_monotone_witness:
  "\<forall>sh. disp_rank (decide_merge sh (Some ''low'') True (JBool True) (JInt 4) JNull True
       (Some [(''system_gates'', JList [JStr ''ci''])]) (JList [JStr ''ci''])) \<le>
     disp_rank (decide_merge sh (Some ''low'') True (JBool True) (JInt 4) JNull True
       (Some [(''system_gates'', JList [JStr ''ci''])]) (JList []))"
  by (intro allI evidence_monotone) (simp add: str_set_def)

lemma raise_never_loosens_witness:
  "\<forall>sh. disp_rank (decide_merge sh (Some '' Low '') True (JBool True) (JInt 4) JNull True None JNull) \<le>
     disp_rank (decide_merge sh (raise_review_tier (Some '' Low '') (Some ''async'')) True (JBool True) (JInt 4) JNull True None JNull)"
  by (intro allI raise_never_loosens)
    code_simp

lemma cap_only_tightens_witness:
  "cap_disposition HOLD_ASYNC (Some ''low'') \<in> {AUTO_MERGE, HOLD_ASYNC, HOLD_BLOCKING} \<and>
   disp_rank HOLD_ASYNC \<le> disp_rank (cap_disposition HOLD_ASYNC (Some ''low''))"
  using cap_only_tightens [of HOLD_ASYNC "Some ''low''"] by blast

definition sample_plan :: obj where
  "sample_plan = [(''phases'', JList [JObj [(''subtasks'', JList [JObj
     [(''files_to_modify'', JList [JStr ''src/Auth.py'', JStr ''b.py''])]])]])]"

lemma sample_plan_files:
  "all_files sample_plan = Inr [''src/Auth.py'', ''b.py'']" "count_subtasks sample_plan = Inr 1"
  by (simp_all add: sample_plan_def all_files_def count_subtasks_def list_or_empty_def subtasks_of_def files_of_def as_str_def)

lemma classify_gates_risk_witness:
  "\<exists>a. classify_review_tier (\<lambda>c. []) sample_plan False True None = Inr a \<and> ra_tier a = RT_BLOCKING \<and>
       ''src/Auth.py'' \<in> set (ra_high_risk_files a)"
proof -
  obtain a where a: "classify_review_tier (\<lambda>c. []) sample_plan False True None = Inr a"
    by (simp add: classify_review_tier_def sample_plan_files Let_def)
  then show ?thesis using classify_gates_risk [OF a sample_plan_files(1)] sample_risk by auto
qed

end
