(* ===== verification/Audit_Chain.thy ===== *)
theory Audit_Chain
  imports Prelude "HOL-Library.Product_Lexorder"
begin

text \<open>
  The hash-chained audit log of the web server (\<open>services/audit_chain.py\<close>), what writes it
  (\<open>services/audit_service.py\<close>), the erasure of a user (\<open>services/gdpr.py\<close>) and the retention job
  (\<open>jobs/audit_retention.py\<close>). The hexadecimal SHA-256 of a byte string is the argument \<open>sha\<close>; a
  string is its own UTF-8 encoding, as for ASCII. The table is the list of its rows in the order they
  were inserted.
\<close>

section \<open>Rows\<close>

text \<open>Year, month, day, hour, minute, second, microsecond of a naive \<open>datetime\<close>.\<close>

datatype datetime = Datetime nat nat nat nat nat nat nat

fun parts :: "datetime \<Rightarrow> nat \<times> nat \<times> nat \<times> nat \<times> nat \<times> nat \<times> nat" where
  "parts (Datetime y mo d h mi s us) = (y, mo, d, h, mi, s, us)"

lemma parts_inject: "parts a = parts b \<longleftrightarrow> a = b"
  by (cases a; cases b) simp

instantiation datetime :: linorder
begin

definition less_eq_datetime :: "datetime \<Rightarrow> datetime \<Rightarrow> bool" where
  "a \<le> b \<longleftrightarrow> parts a \<le> parts b"

definition less_datetime :: "datetime \<Rightarrow> datetime \<Rightarrow> bool" where
  "a < b \<longleftrightarrow> parts a < parts b"

instance
proof
  fix a b c :: datetime
  show "(a < b) = (a \<le> b \<and> \<not> b \<le> a)" unfolding less_eq_datetime_def less_datetime_def by (rule less_le_not_le)
  show "a \<le> a" unfolding less_eq_datetime_def by (rule order_refl)
  show "a \<le> b \<Longrightarrow> b \<le> c \<Longrightarrow> a \<le> c" unfolding less_eq_datetime_def by (rule order_trans)
  show "a \<le> b \<Longrightarrow> b \<le> a \<Longrightarrow> a = b"
    unfolding less_eq_datetime_def using order_antisym [of "parts a" "parts b"] by (simp add: parts_inject)
  show "a \<le> b \<or> b \<le> a" unfolding less_eq_datetime_def by (rule linear)
qed

end

datatype instant = Text string | At datetime

record audit_row =
  ar_id :: string
  ar_action :: string
  ar_user_id :: "string option"
  ar_org_id :: "string option"
  ar_resource_type :: "string option"
  ar_resource_id :: "string option"
  ar_created_at :: "instant option"
  ar_details_json :: "string option"
  ar_prev_hash :: "string option"
  ar_ip :: "string option"
  ar_retention_until :: "datetime option"
  ar_classification :: string

definition pad :: "nat \<Rightarrow> nat \<Rightarrow> string" where
  "pad w n = (let ds = digits_of_nat n in replicate (w - length ds) (CHR ''0'') @ ds)"

text \<open>\<open>datetime.isoformat\<close> without a time zone.\<close>

fun isoformat :: "datetime \<Rightarrow> string" where
  "isoformat (Datetime y mo d h mi s us) =
     pad 4 y @ ''-'' @ pad 2 mo @ ''-'' @ pad 2 d @ ''T'' @ pad 2 h @ '':'' @ pad 2 mi @ '':'' @ pad 2 s @
     (if us = 0 then [] else ''.'' @ pad 6 us)"

definition iso :: "instant option \<Rightarrow> string" where
  "iso v = (case v of None \<Rightarrow> [] | Some (Text s) \<Rightarrow> s | Some (At t) \<Rightarrow> isoformat t)"

definition or_str :: "string option \<Rightarrow> string" where
  "or_str v = (case v of None \<Rightarrow> [] | Some s \<Rightarrow> s)"

section \<open>The chain\<close>

definition GENESIS :: string where "GENESIS = ''GENESIS''"
definition genesis_tenant_prefix :: string where "genesis_tenant_prefix = ''GENESIS-T-''"
definition SEP :: char where "SEP = CHR 0x1F"

definition tenant_genesis :: "string \<Rightarrow> string" where
  "tenant_genesis org_id = genesis_tenant_prefix @ org_id"

definition expected_genesis_for :: "string option \<Rightarrow> string \<Rightarrow> string" where
  "expected_genesis_for org_id chain_mode =
     (if chain_mode = ''tenant'' \<and> truthy_str org_id then tenant_genesis (the org_id) else GENESIS)"

definition row_fields :: "audit_row \<Rightarrow> string list" where
  "row_fields row = [ar_id row, ar_action row, or_str (ar_user_id row), or_str (ar_org_id row),
     or_str (ar_resource_type row), or_str (ar_resource_id row), iso (ar_created_at row),
     or_str (ar_details_json row)]"

definition canonical :: "audit_row \<Rightarrow> string" where
  "canonical row = py_join [SEP] (row_fields row)"

definition prev_or :: "string \<Rightarrow> string option \<Rightarrow> string" where
  "prev_or genesis prev = (if truthy_str prev then the prev else genesis)"

definition compute_hash :: "(string \<Rightarrow> string) \<Rightarrow> string option \<Rightarrow> audit_row \<Rightarrow> string" where
  "compute_hash sha prev_hash row = sha (prev_or GENESIS prev_hash @ [SEP] @ canonical row)"

definition tenant_domain :: "string \<Rightarrow> string" where
  "tenant_domain org_id = ''tenant:'' @ org_id"

definition compute_tenant_hash :: "(string \<Rightarrow> string) \<Rightarrow> string option \<Rightarrow> audit_row \<Rightarrow> string \<Rightarrow> string" where
  "compute_tenant_hash sha prev_hash row org_id =
     sha (tenant_domain org_id @ [SEP] @ prev_or (tenant_genesis org_id) prev_hash @ [SEP] @ canonical row)"

type_synonym verdict = "bool \<times> nat option \<times> string option"

text \<open>\<open>repr\<close> of a string without quotes or escapes.\<close>

definition repr_str :: "string \<Rightarrow> string" where
  "repr_str s = [CHR 0x27] @ s @ [CHR 0x27]"

definition break_reason :: "nat \<Rightarrow> string \<Rightarrow> string \<Rightarrow> string" where
  "break_reason i stored expected =
     ''row['' @ digits_of_nat i @ ''].prev_hash='' @ repr_str stored @ '' != expected '' @ repr_str expected"

text \<open>The loop both verifiers run, over the genesis and the hash of their chain.\<close>

fun verify_from :: "string \<Rightarrow> (string \<Rightarrow> audit_row \<Rightarrow> string) \<Rightarrow> nat \<Rightarrow> string \<Rightarrow> audit_row list \<Rightarrow> verdict" where
  "verify_from genesis link i expected_prev [] = (True, None, None)"
| "verify_from genesis link i expected_prev (row # rows) =
     (let stored_prev = prev_or genesis (ar_prev_hash row)
      in if stored_prev \<noteq> expected_prev
         then (False, Some i, Some (break_reason i stored_prev expected_prev))
         else verify_from genesis link (Suc i) (link stored_prev row) rows)"

definition verify_chain :: "(string \<Rightarrow> string) \<Rightarrow> audit_row list \<Rightarrow> verdict" where
  "verify_chain sha rows = verify_from GENESIS (\<lambda>p row. compute_hash sha (Some p) row) 0 GENESIS rows"

definition verify_tenant_chain :: "(string \<Rightarrow> string) \<Rightarrow> audit_row list \<Rightarrow> string \<Rightarrow> verdict" where
  "verify_tenant_chain sha rows org_id =
     verify_from (tenant_genesis org_id) (\<lambda>p row. compute_tenant_hash sha (Some p) row org_id) 0
       (tenant_genesis org_id) rows"

text \<open>\<open>loads\<close> parses JSON text.\<close>

definition serialize_for_export :: "(string \<Rightarrow> json option) \<Rightarrow> audit_row \<Rightarrow> obj" where
  "serialize_for_export loads row =
     [(''id'', JStr (ar_id row)), (''action'', JStr (ar_action row)), (''user_id'', jopt (ar_user_id row)),
      (''org_id'', jopt (ar_org_id row)), (''resource_type'', jopt (ar_resource_type row)),
      (''resource_id'', jopt (ar_resource_id row)), (''created_at'', JStr (iso (ar_created_at row))),
      (''details_json'', jopt (ar_details_json row)), (''prev_hash'', jopt (ar_prev_hash row))] @
     entry (truthy_str (ar_details_json row)) ''details''
       (case loads (the (ar_details_json row)) of None \<Rightarrow> JNull | Some v \<Rightarrow> v)"

section \<open>Writing the log\<close>

definition row_time :: "audit_row \<Rightarrow> datetime" where
  "row_time row = (case ar_created_at row of Some (At t) \<Rightarrow> t | _ \<Rightarrow> Datetime 0 0 0 0 0 0 0)"

text \<open>
  \<open>ORDER BY created_at DESC LIMIT 1\<close>. Among rows of the same instant the database may return any;
  here it is the one inserted last.
\<close>

definition latest :: "audit_row list \<Rightarrow> audit_row option" where
  "latest rows = (if rows = [] then None else Some (last (sort_key row_time rows)))"

definition next_prev_hash :: "(string \<Rightarrow> string) \<Rightarrow> audit_row list \<Rightarrow> string" where
  "next_prev_hash sha rows =
     (case latest rows of None \<Rightarrow> GENESIS | Some row \<Rightarrow> compute_hash sha (ar_prev_hash row) row)"

record audit_event =
  ev_id :: string
  ev_user_id :: "string option"
  ev_org_id :: "string option"
  ev_action :: string
  ev_resource_type :: string
  ev_resource_id :: "string option"
  ev_details_json :: "string option"
  ev_ip :: "string option"
  ev_retention_until :: datetime

text \<open>
  The insert runs in a savepoint: when the database refuses it, the table is as before and the
  caller does not notice.
\<close>

definition log_audit_event ::
    "(string \<Rightarrow> string) \<Rightarrow> bool \<Rightarrow> datetime \<Rightarrow> audit_event \<Rightarrow> audit_row list \<Rightarrow> audit_row list" where
  "log_audit_event sha accepted now ev rows =
     (let prev = next_prev_hash sha rows;
          row = \<lparr>ar_id = ev_id ev, ar_action = ev_action ev, ar_user_id = ev_user_id ev,
                 ar_org_id = ev_org_id ev, ar_resource_type = Some (ev_resource_type ev),
                 ar_resource_id = ev_resource_id ev, ar_created_at = Some (At now),
                 ar_details_json = ev_details_json ev, ar_prev_hash = Some prev, ar_ip = ev_ip ev,
                 ar_retention_until = Some (ev_retention_until ev), ar_classification = ''internal''\<rparr>
      in if accepted then rows @ [row] else rows)"

section \<open>Retention\<close>

definition expired :: "datetime \<Rightarrow> audit_row \<Rightarrow> bool" where
  "expired now row = (case ar_retention_until row of None \<Rightarrow> False | Some t \<Rightarrow> t \<le> now)"

definition run_retention :: "datetime \<Rightarrow> audit_row list \<Rightarrow> (nat \<times> nat) \<times> audit_row list" where
  "run_retention now rows =
     (let kept = filter (\<lambda>row. \<not> expired now row) rows
      in ((length (filter (expired now) rows), length kept), kept))"

end
