(* ===== verification/Gdpr_Erasure.thy ===== *)
theory Gdpr_Erasure
  imports Audit_Chain
begin

text \<open>
  The erasure of a user (\<open>services/gdpr.py\<close>) over the tables it touches. Parsing and printing JSON
  text are the arguments \<open>loads\<close> and \<open>dumps\<close>. The audit table's \<open>user_id\<close> is a foreign key of
  \<open>users.id\<close> (\<open>database/models.py\<close>); whether the database enforces it is the argument \<open>enforced\<close>.
\<close>

record user_row =
  gu_id :: string
  gu_email :: "string option"
  gu_name :: "string option"
  gu_avatar_url :: "string option"
  gu_erased_at :: "datetime option"

record email_account =
  gm_id :: string
  gm_user_id :: string

record audit_db =
  db_users :: "user_row list"
  db_rows :: "audit_row list"
  db_accounts :: "email_account list"

datatype erase_error = InputRejected string | IntegrityError

record erase_summary =
  er_user_id :: string
  er_hashed_user_id :: string
  er_audit_rows_anonymized :: nat
  er_email_accounts_deleted :: nat
  er_erased_at :: string
  er_idempotent :: bool

definition hash_user_id :: "(string \<Rightarrow> string) \<Rightarrow> string \<Rightarrow> string" where
  "hash_user_id sha user_id = take 36 (sha user_id)"

section \<open>Redaction\<close>

text \<open>\<open>s.replace(old, new)\<close>; an empty \<open>old\<close> matches between all characters.\<close>

function replace_all :: "string \<Rightarrow> string \<Rightarrow> string \<Rightarrow> string" where
  "replace_all old new s =
     (if old = [] then new @ concat (map (\<lambda>c. [c] @ new) s)
      else case s of [] \<Rightarrow> []
           | c # cs \<Rightarrow> if prefix old s then new @ replace_all old new (drop (length old) s)
                       else c # replace_all old new cs)"
  by pat_completeness auto
termination
  by (relation "measure (\<lambda>(old, new, s). length s)") auto

declare replace_all.simps [simp del]

definition pii_substrings :: "string list" where
  "pii_substrings = [''email'', ''name'', ''ip'', ''phone'', ''address'', ''ssn'']"

definition is_pii_key :: "string \<Rightarrow> bool" where
  "is_pii_key k = list_ex (\<lambda>s. py_in s (py_lower k)) pii_substrings"

fun walk :: "json \<Rightarrow> json" where
  "walk (JObj kvs) = JObj (map (\<lambda>kv. (fst kv,
     if is_pii_key (fst kv) \<and> truthy (snd kv) then JStr ''<redacted>'' else walk (snd kv))) kvs)"
| "walk (JList xs) = JList (map walk xs)"
| "walk v = v"

definition redact_details_json ::
    "(string \<Rightarrow> json option) \<Rightarrow> (json \<Rightarrow> string) \<Rightarrow> string option \<Rightarrow> string \<Rightarrow> string \<Rightarrow> string option" where
  "redact_details_json loads dumps s original hashed =
     (case s of None \<Rightarrow> None
      | Some t \<Rightarrow>
        (let t' = replace_all original hashed t
         in case loads t' of None \<Rightarrow> Some t' | Some obj \<Rightarrow> Some (dumps (walk obj))))"

section \<open>The erasure\<close>

text \<open>Every row gets the hash of the one before it, in the order of \<open>created_at\<close>.\<close>

fun rechain :: "(string \<Rightarrow> string) \<Rightarrow> string \<Rightarrow> audit_row list \<Rightarrow> audit_row list" where
  "rechain sha prev [] = []"
| "rechain sha prev (row # rows) =
     (let row' = row\<lparr>ar_prev_hash := Some prev\<rparr>
      in row' # rechain sha (compute_hash sha (Some prev) row') rows)"

definition anonymize ::
    "(string \<Rightarrow> string) \<Rightarrow> (string \<Rightarrow> json option) \<Rightarrow> (json \<Rightarrow> string) \<Rightarrow> string \<Rightarrow> audit_row \<Rightarrow> audit_row" where
  "anonymize sha loads dumps uid row =
     (if ar_user_id row = Some uid
      then row\<lparr>ar_user_id := Some (hash_user_id sha uid),
               ar_details_json := redact_details_json loads dumps (ar_details_json row) uid (hash_user_id sha uid)\<rparr>
      else row)"

definition references_ok :: "audit_db \<Rightarrow> bool" where
  "references_ok db = list_all (\<lambda>row. case ar_user_id row of None \<Rightarrow> True
     | Some u \<Rightarrow> u \<in> gu_id ` set (db_users db)) (db_rows db)"

definition tombstone :: "datetime \<Rightarrow> user_row \<Rightarrow> user_row" where
  "tombstone now u = u\<lparr>gu_email := None, gu_name := None, gu_avatar_url := None, gu_erased_at := Some now\<rparr>"

definition erase_user :: "(string \<Rightarrow> string) \<Rightarrow> (string \<Rightarrow> json option) \<Rightarrow> (json \<Rightarrow> string) \<Rightarrow> bool \<Rightarrow>
    datetime \<Rightarrow> string \<Rightarrow> audit_db \<Rightarrow> erase_error + (erase_summary \<times> audit_db)" where
  "erase_user sha loads dumps enforced now uid db =
     (case find (\<lambda>u. gu_id u = uid) (db_users db) of
        None \<Rightarrow> Inl (InputRejected (''user_id '' @ repr_str uid @ '' not found''))
      | Some user \<Rightarrow>
        (case gu_erased_at user of
           Some t \<Rightarrow> Inr (\<lparr>er_user_id = gu_id user, er_hashed_user_id = hash_user_id sha uid,
             er_audit_rows_anonymized = 0, er_email_accounts_deleted = 0, er_erased_at = isoformat t,
             er_idempotent = True\<rparr>, db)
         | None \<Rightarrow>
           (let rows = map (anonymize sha loads dumps uid) (db_rows db);
                db' = \<lparr>db_users = map (\<lambda>u. if gu_id u = uid then tombstone now u else u) (db_users db),
                       db_rows = rechain sha GENESIS (sort_key row_time rows),
                       db_accounts = filter (\<lambda>a. gm_user_id a \<noteq> uid) (db_accounts db)\<rparr>
            in if enforced \<and> \<not> references_ok db' then Inl IntegrityError
               else Inr (\<lparr>er_user_id = uid, er_hashed_user_id = hash_user_id sha uid,
                 er_audit_rows_anonymized = length (filter (\<lambda>row. ar_user_id row = Some uid) (db_rows db)),
                 er_email_accounts_deleted = length (filter (\<lambda>a. gm_user_id a = uid) (db_accounts db)),
                 er_erased_at = isoformat now, er_idempotent = False\<rparr>, db'))))"

end
