(* ===== verification/Audit_Props.thy ===== *)
theory Audit_Props
  imports Gdpr_Erasure
begin

text \<open>
  What the chain detects and what it does not: the verifier's exact meaning, logs written and erased
  by the code verify, two logs with the same head have the same content unless two different byte
  strings that were hashed collide, and the changes that go unnoticed.
\<close>

section \<open>The verifier\<close>

lemma prev_or_simps [simp]: "prev_or g None = g" "prev_or g (Some []) = g" "prev_or g (Some (c # cs)) = c # cs"
  by (simp_all add: prev_or_def truthy_str_def)

text \<open>The hash a row's successor must carry, and the chain as a predicate.\<close>

fun chained :: "string \<Rightarrow> (string \<Rightarrow> audit_row \<Rightarrow> string) \<Rightarrow> string \<Rightarrow> audit_row list \<Rightarrow> bool" where
  "chained g link p [] = True"
| "chained g link p (r # rs) = (prev_or g (ar_prev_hash r) = p \<and> chained g link (link p r) rs)"

fun head_from :: "(string \<Rightarrow> audit_row \<Rightarrow> string) \<Rightarrow> string \<Rightarrow> audit_row list \<Rightarrow> string" where
  "head_from link p [] = p"
| "head_from link p (r # rs) = head_from link (link p r) rs"

lemma head_from_append [simp]: "head_from link p (xs @ ys) = head_from link (head_from link p xs) ys"
  by (induction xs arbitrary: p) auto

lemma chained_append:
  "chained g link p (xs @ ys) \<longleftrightarrow> chained g link p xs \<and> chained g link (head_from link p xs) ys"
  by (induction xs arbitrary: p) auto

lemma verify_from_ok: "verify_from g link i p rows = (True, None, None) \<longleftrightarrow> chained g link p rows"
  by (induction rows arbitrary: i p) (auto simp: Let_def)

lemma verify_from_cases:
  obtains (valid) "verify_from g link i p rows = (True, None, None)" "chained g link p rows"
  | (broken) k why where "verify_from g link i p rows = (False, Some (i + k), Some why)" "k < length rows"
      "chained g link p (take k rows)" "\<not> chained g link p (take (Suc k) rows)"
proof -
  have "(verify_from g link i p rows = (True, None, None) \<and> chained g link p rows) \<or>
    (\<exists>k why. verify_from g link i p rows = (False, Some (i + k), Some why) \<and> k < length rows \<and>
       chained g link p (take k rows) \<and> \<not> chained g link p (take (Suc k) rows))"
  proof (induction rows arbitrary: i p)
    case (Cons r rs)
    show ?case
    proof (cases "prev_or g (ar_prev_hash r) = p")
      case False
      then show ?thesis by (intro disjI2 exI [of _ 0]) (simp add: Let_def)
    next
      case True
      consider "verify_from g link (Suc i) (link p r) rs = (True, None, None)" "chained g link (link p r) rs"
        | k why where "verify_from g link (Suc i) (link p r) rs = (False, Some (Suc i + k), Some why)"
          "k < length rs" "chained g link (link p r) (take k rs)" "\<not> chained g link (link p r) (take (Suc k) rs)"
        using Cons [of "Suc i" "link p r"] by blast
      then show ?thesis
      proof cases
        case 1
        then show ?thesis using True by (simp add: Let_def)
      next
        case 2
        then show ?thesis using True by (intro disjI2 exI [of _ "Suc k"]) (simp add: Let_def)
      qed
    qed
  qed simp
  then show ?thesis using valid broken by blast
qed

lemma verify_chain_ok:
  "verify_chain sha rows = (True, None, None) \<longleftrightarrow> chained GENESIS (\<lambda>p. compute_hash sha (Some p)) GENESIS rows"
  by (simp add: verify_chain_def verify_from_ok)

section \<open>Collisions\<close>

definition plain :: "audit_row \<Rightarrow> bool" where
  "plain r \<longleftrightarrow> (\<forall>f \<in> set (row_fields r). SEP \<notin> set f)"

text \<open>What \<open>hexdigest\<close> returns: 64 lower-case hexadecimal digits.\<close>

definition hex64 :: "string \<Rightarrow> bool" where
  "hex64 s \<longleftrightarrow> length s = 64 \<and> set s \<subseteq> set ''0123456789abcdef''"

text \<open>The byte strings that are hashed along a chain.\<close>

fun hashed :: "(string \<Rightarrow> audit_row \<Rightarrow> string) \<Rightarrow> (string \<Rightarrow> string) \<Rightarrow> string \<Rightarrow> audit_row list \<Rightarrow> string set" where
  "hashed input sha p [] = {}"
| "hashed input sha p (r # rs) = insert (input p r) (hashed input sha (sha (input p r)) rs)"

lemma hashed_append:
  "hashed input sha p (xs @ ys) =
   hashed input sha p xs \<union> hashed input sha (head_from (\<lambda>p r. sha (input p r)) p xs) ys"
  by (induction xs arbitrary: p) auto

definition collision :: "(string \<Rightarrow> string) \<Rightarrow> string set \<Rightarrow> string set \<Rightarrow> bool" where
  "collision sha A B \<longleftrightarrow> (\<exists>a \<in> A. \<exists>b \<in> B. a \<noteq> b \<and> sha a = sha b)"

lemma collision_mono: "collision sha A B \<Longrightarrow> A \<subseteq> A' \<Longrightarrow> B \<subseteq> B' \<Longrightarrow> collision sha A' B'"
  by (auto simp: collision_def)

lemma hex64D: "hex64 s \<Longrightarrow> s \<noteq> [] \<and> SEP \<notin> set s"
  by (auto simp: hex64_def SEP_def)

text \<open>
  A chain: from the previous hash and a row to the bytes that are hashed, in a way from which
  both can be read back.
\<close>

locale hash_chain =
  fixes input :: "string \<Rightarrow> audit_row \<Rightarrow> string"
    and genesis :: string
  assumes input_inj: "p \<noteq> [] \<Longrightarrow> q \<noteq> [] \<Longrightarrow> SEP \<notin> set p \<Longrightarrow> SEP \<notin> set q \<Longrightarrow> plain r \<Longrightarrow> plain s \<Longrightarrow>
      input p r = input q s \<Longrightarrow> p = q \<and> row_fields r = row_fields s"
    and genesis_not_hash: "genesis \<noteq> [] \<and> \<not> hex64 genesis"
begin

lemma head_shape:
  assumes "\<forall>x. hex64 (sha x)"
  shows "(xs = [] \<and> head_from (\<lambda>p r. sha (input p r)) genesis xs = genesis) \<or>
         (xs \<noteq> [] \<and> hex64 (head_from (\<lambda>p r. sha (input p r)) genesis xs))"
  using assms by (cases xs rule: rev_cases) auto

lemma same_head:
  assumes "\<forall>x. hex64 (sha x)" "SEP \<notin> set genesis"
    and "\<forall>r \<in> set xs. plain r" "\<forall>r \<in> set ys. plain r"
    and "head_from (\<lambda>p r. sha (input p r)) genesis xs = head_from (\<lambda>p r. sha (input p r)) genesis ys"
  shows "map row_fields xs = map row_fields ys \<or> collision sha (hashed input sha genesis xs) (hashed input sha genesis ys)"
  using assms(3-5)
proof (induction xs arbitrary: ys rule: rev_induct)
  case Nil
  then show ?case using head_shape [OF assms(1), of ys] genesis_not_hash by (cases ys) auto
next
  case (snoc r xs)
  let ?h = "head_from (\<lambda>p r. sha (input p r)) genesis"
  show ?case
  proof (cases ys rule: rev_cases)
    case Nil
    then show ?thesis
      using snoc(4) head_shape [OF assms(1), of "xs @ [r]"] genesis_not_hash by auto
  next
    case (snoc ys' s)
    have sep: "?h zs \<noteq> [] \<and> SEP \<notin> set (?h zs)" for zs
      using head_shape [OF assms(1), of zs] hex64D assms(2) genesis_not_hash by auto
    have eq: "sha (input (?h xs) r) = sha (input (?h ys') s)"
      using snoc.prems(3) snoc by simp
    show ?thesis
    proof (cases "input (?h xs) r = input (?h ys') s")
      case True
      have "plain r" "plain s" using snoc.prems(1,2) snoc by auto
      then have "?h xs = ?h ys'" "row_fields r = row_fields s"
        using input_inj [OF _ _ _ _ _ _ True] sep by blast+
      moreover have "map row_fields xs = map row_fields ys' \<or>
          collision sha (hashed input sha genesis xs) (hashed input sha genesis ys')"
        by (rule snoc.IH) (use snoc.prems(1,2) snoc \<open>?h xs = ?h ys'\<close> in auto)
      moreover have "hashed input sha genesis xs \<subseteq> hashed input sha genesis (xs @ [r])"
        "hashed input sha genesis ys' \<subseteq> hashed input sha genesis ys"
        by (auto simp: hashed_append snoc)
      ultimately show ?thesis using snoc collision_mono by (simp, blast)
    next
      case False
      then show ?thesis using eq snoc by (auto simp: hashed_append collision_def)
    qed
  qed
qed

end

section \<open>The two chains of the program\<close>

lemma join_inj:
  assumes "length xs = length ys" "\<forall>x \<in> set xs. c \<notin> set x" "\<forall>y \<in> set ys. c \<notin> set y"
    and "py_join [c] xs = py_join [c] ys"
  shows "xs = ys"
  using assms
proof (induction xs ys rule: list_induct2)
  case (Cons x xs y ys)
  show ?case
  proof (cases xs)
    case Nil
    then show ?thesis using Cons by simp
  next
    case (Cons x' xs')
    then obtain y' ys' where ys: "ys = y' # ys'" using Cons.hyps by (cases ys) auto
    have "x @ c # py_join [c] xs = y @ c # py_join [c] ys"
      using Cons.prems(3) Cons ys by simp
    then have "x = y \<and> py_join [c] xs = py_join [c] ys"
      using Cons.prems(1,2) by (auto simp: append_eq_append_conv2 append_eq_Cons_conv Cons_eq_append_conv)
    then show ?thesis using Cons.IH Cons.prems by simp
  qed
qed simp

lemma split_sep:
  assumes "a @ c # x = b @ c # y" "c \<notin> set a" "c \<notin> set b"
  shows "a = b \<and> x = y"
  using assms by (auto simp: append_eq_append_conv2 append_eq_Cons_conv Cons_eq_append_conv)

lemma row_fields_length [simp]: "length (row_fields r) = 8"
  by (simp add: row_fields_def)

lemma canonical_inj: "plain r \<Longrightarrow> plain s \<Longrightarrow> canonical r = canonical s \<Longrightarrow> row_fields r = row_fields s"
  unfolding canonical_def by (rule join_inj [where c = SEP]) (simp_all add: plain_def fields_def)

definition chain_input :: "string \<Rightarrow> audit_row \<Rightarrow> string" where
  "chain_input p r = prev_or GENESIS (Some p) @ SEP # canonical r"

definition tenant_input :: "string \<Rightarrow> string \<Rightarrow> audit_row \<Rightarrow> string" where
  "tenant_input org p r = tenant_domain org @ SEP # prev_or (tenant_genesis org) (Some p) @ SEP # canonical r"

lemma prev_or_nonempty [simp]: "p \<noteq> [] \<Longrightarrow> prev_or g (Some p) = p"
  by (simp add: prev_or_def truthy_str_def)

lemma hash_inputs:
  "compute_hash sha (Some p) r = sha (chain_input p r)"
  "compute_tenant_hash sha (Some p) r org = sha (tenant_input org p r)"
  by (simp_all add: compute_hash_def chain_input_def compute_tenant_hash_def tenant_input_def)

lemma link_input: "(\<lambda>p. compute_hash sha (Some p)) = (\<lambda>p r. sha (chain_input p r))"
  by (simp add: hash_inputs fun_eq_iff)

interpretation shared: hash_chain chain_input GENESIS
proof unfold_locales
  fix p q r s
  assume a: "p \<noteq> []" "q \<noteq> []" "SEP \<notin> set p" "SEP \<notin> set q" "plain r" "plain s"
    "chain_input p r = chain_input q s"
  then have "p @ SEP # canonical r = q @ SEP # canonical s" by (simp add: chain_input_def)
  from split_sep [OF this a(3,4)] show "p = q \<and> row_fields r = row_fields s"
    using canonical_inj [OF a(5,6)] by blast
qed (simp add: GENESIS_def hex64_def)

interpretation tenant: hash_chain "tenant_input org" "tenant_genesis org"
proof unfold_locales
  fix p q r s
  assume a: "p \<noteq> []" "q \<noteq> []" "SEP \<notin> set p" "SEP \<notin> set q" "plain r" "plain s"
    "tenant_input org p r = tenant_input org q s"
  then have "p @ SEP # canonical r = q @ SEP # canonical s" by (simp add: tenant_input_def)
  from split_sep [OF this a(3,4)] show "p = q \<and> row_fields r = row_fields s"
    using canonical_inj [OF a(5,6)] by blast
qed (simp add: tenant_genesis_def genesis_tenant_prefix_def hex64_def)

section \<open>What the code writes\<close>

lemma chained_head:
  assumes "chained GENESIS (\<lambda>p. compute_hash sha (Some p)) GENESIS rows" "rows \<noteq> []"
  shows "head_from (\<lambda>p r. sha (chain_input p r)) GENESIS rows = compute_hash sha (ar_prev_hash (last rows)) (last rows)"
proof -
  obtain xs r where rows: "rows = xs @ [r]" using assms(2) by (cases rows rule: rev_cases) auto
  have "prev_or GENESIS (ar_prev_hash r) = head_from (\<lambda>p r. sha (chain_input p r)) GENESIS xs"
    using assms(1) by (simp add: rows chained_append link_input)
  moreover have "chain_input (prev_or GENESIS (ar_prev_hash r)) r = prev_or GENESIS (ar_prev_hash r) @ [SEP] @ canonical r"
    by (simp add: chain_input_def prev_or_def truthy_str_def GENESIS_def split: option.split)
  ultimately show ?thesis by (simp add: rows compute_hash_def)
qed

lemma tombstone_simps [simp]:
  "gu_id (tombstone now u) = gu_id u" "gu_email (tombstone now u) = None" "gu_name (tombstone now u) = None"
  "gu_avatar_url (tombstone now u) = None"
  by (simp_all add: tombstone_def)

lemma erased_users:
  assumes "u \<in> set (map (\<lambda>u. if gu_id u = uid then tombstone now u else u) us)" "gu_id u = uid"
  shows "gu_email u = None \<and> gu_name u = None \<and> gu_avatar_url u = None"
proof -
  obtain x where "u = (if gu_id x = uid then tombstone now x else x)"
    using assms(1) unfolding set_map by blast
  then show ?thesis using assms(2) by (cases "gu_id x = uid") simp_all
qed

lemma dangling:
  "x \<in> set (db_rows db) \<Longrightarrow> ar_user_id x = Some h \<Longrightarrow> h \<notin> gu_id ` set (db_users db) \<Longrightarrow> \<not> references_ok db"
  by (force simp: references_ok_def list_all_iff)

lemma rechain_chained: "p \<noteq> [] \<Longrightarrow> \<forall>x. sha x \<noteq> [] \<Longrightarrow>
    chained GENESIS (\<lambda>p. compute_hash sha (Some p)) p (rechain sha p rows)"
  by (induction rows arbitrary: p) (simp_all add: Let_def hash_inputs)

lemma row_time_prev [simp]: "row_time (r\<lparr>ar_prev_hash := x\<rparr>) = row_time r"
  by (simp add: row_time_def)

lemma canonical_prev [simp]: "canonical (r\<lparr>ar_prev_hash := x\<rparr>) = canonical r"
  by (simp add: canonical_def row_fields_def)

lemma rechain_times [simp]: "map row_time (rechain sha p rows) = map row_time rows"
  by (induction rows arbitrary: p) (simp_all add: Let_def)

lemma rechain_users [simp]: "map ar_user_id (rechain sha p rows) = map ar_user_id rows"
  by (induction rows arbitrary: p) (simp_all add: Let_def)

text \<open>The head of a log: the hash the next row will carry.\<close>

definition next_head :: "(string \<Rightarrow> string) \<Rightarrow> audit_row list \<Rightarrow> string" where
  "next_head sha rows =
     (if rows = [] then GENESIS else compute_hash sha (ar_prev_hash (last rows)) (last rows))"

datatype log_op = Logged bool datetime audit_event | Erased bool datetime string

fun op_time :: "log_op \<Rightarrow> datetime" where
  "op_time (Logged accepted now ev) = now"
| "op_time (Erased enforced now uid) = now"

fun audit_step :: "(string \<Rightarrow> string) \<Rightarrow> (string \<Rightarrow> json option) \<Rightarrow> (json \<Rightarrow> string) \<Rightarrow> audit_db \<Rightarrow> log_op \<Rightarrow> audit_db" where
  "audit_step sha loads dumps db (Logged accepted now ev) =
     db\<lparr>db_rows := log_audit_event sha accepted now ev (db_rows db)\<rparr>"
| "audit_step sha loads dumps db (Erased enforced now uid) =
     (case erase_user sha loads dumps enforced now uid db of Inl e \<Rightarrow> db | Inr (summary, db') \<Rightarrow> db')"

definition log_ok :: "(string \<Rightarrow> string) \<Rightarrow> datetime option \<Rightarrow> audit_row list \<Rightarrow> bool" where
  "log_ok sha t rows \<longleftrightarrow> chained GENESIS (\<lambda>p. compute_hash sha (Some p)) GENESIS rows \<and>
     sorted_wrt (<) (map row_time rows) \<and> (\<forall>r \<in> set rows. \<exists>u. t = Some u \<and> row_time r \<le> u)"

lemma sort_sorted: "sorted_wrt (<) (map row_time rows) \<Longrightarrow> sort_key row_time rows = rows"
  by (rule sort_key_id_if_sorted) (rule strict_sorted_imp_sorted, simp)

lemma log_ok_logged:
  assumes "log_ok sha t rows" "\<forall>u. t = Some u \<longrightarrow> u < now" "\<forall>x. sha x \<noteq> []"
  shows "log_ok sha (Some now) (log_audit_event sha accepted now ev rows)"
proof -
  have s: "sort_key row_time rows = rows" using assms(1) sort_sorted by (simp add: log_ok_def)
  have old: "\<forall>r \<in> set rows. row_time r < now"
    using assms(1,2) by (fastforce simp: log_ok_def)
  have c: "chained GENESIS (\<lambda>p. compute_hash sha (Some p)) GENESIS rows" using assms(1) by (simp add: log_ok_def)
  have prev: "next_prev_hash sha rows = head_from (\<lambda>p. compute_hash sha (Some p)) GENESIS rows"
    using chained_head [OF c] s by (cases "rows = []") (simp_all add: next_prev_hash_def latest_def link_input)
  have "head_from (\<lambda>p. compute_hash sha (Some p)) GENESIS rows \<noteq> []"
    using assms(3) by (cases rows rule: rev_cases) (simp_all add: link_input GENESIS_def assms(3))
  then show ?thesis
    using assms(1) old c prev
    by (auto simp: log_ok_def log_audit_event_def Let_def chained_append sorted_wrt_append row_time_def less_imp_le)
qed

lemma log_ok_erased:
  assumes "log_ok sha t (db_rows db)" "\<forall>x. sha x \<noteq> []" "erase_user sha loads dumps enforced now uid db = Inr (summary, db')"
  shows "log_ok sha t (db_rows db')"
proof (cases "er_idempotent summary")
  case True
  then show ?thesis
    using assms(1,3) by (auto simp: erase_user_def Let_def split: option.splits if_splits)
next
  case False
  let ?rows = "map (anonymize sha loads dumps uid) (db_rows db)"
  have t: "row_time (anonymize sha loads dumps uid r) = row_time r" for r
    by (simp add: anonymize_def row_time_def)
  then have times: "map row_time ?rows = map row_time (db_rows db)" by simp
  then have "sorted_wrt (<) (map row_time ?rows)" using assms(1) unfolding times by (simp only: log_ok_def)
  then have "sort_key row_time ?rows = ?rows" by (rule sort_sorted)
  then have rows: "db_rows db' = rechain sha GENESIS ?rows"
    using assms(3) False by (auto simp: erase_user_def Let_def split: option.splits if_splits)
  have bound: "\<forall>r \<in> set ?rows. \<exists>u. t = Some u \<and> row_time r \<le> u"
    using assms(1) t by (fastforce simp: log_ok_def)
  have "row_time ` set (rechain sha GENESIS ?rows) = row_time ` set ?rows"
    by (metis rechain_times list.set_map)
  then have "\<exists>r0 \<in> set ?rows. row_time r0 = row_time r" if "r \<in> set (rechain sha GENESIS ?rows)" for r
    using that by (metis imageE imageI)
  then have "\<forall>r \<in> set (rechain sha GENESIS ?rows). \<exists>u. t = Some u \<and> row_time r \<le> u"
    using bound by metis
  moreover have "chained GENESIS (\<lambda>p. compute_hash sha (Some p)) GENESIS (rechain sha GENESIS ?rows)"
    by (rule rechain_chained) (simp_all add: GENESIS_def assms(2))
  moreover have "sorted_wrt (<) (map row_time (rechain sha GENESIS ?rows))"
    using assms(1) by (simp only: rechain_times times log_ok_def)
  ultimately show ?thesis unfolding rows log_ok_def by blast
qed

lemma log_ok_run:
  assumes "\<forall>x. sha x \<noteq> []" "sorted_wrt (<) (map op_time ops)" "\<forall>op \<in> set ops. \<forall>u. t = Some u \<longrightarrow> u < op_time op"
    and "log_ok sha t (db_rows db)"
  shows "\<exists>t'. log_ok sha t' (db_rows (foldl (audit_step sha loads dumps) db ops))"
  using assms(2-4)
proof (induction ops arbitrary: t db)
  case (Cons op ops)
  have later: "\<forall>op' \<in> set ops. op_time op < op_time op'" using Cons.prems(1) by auto
  show ?case
  proof (cases op)
    case (Logged accepted now ev)
    have "log_ok sha (Some now) (db_rows (audit_step sha loads dumps db op))"
      using log_ok_logged [OF Cons.prems(3) _ assms(1)] Cons.prems(2) by (simp add: Logged)
    then show ?thesis using Cons.IH [of "Some now"] Cons.prems(1) later by (simp add: Logged)
  next
    case (Erased enforced now uid)
    have "log_ok sha t (db_rows (audit_step sha loads dumps db op))"
      using Cons.prems(3) log_ok_erased [OF Cons.prems(3) assms(1), of loads dumps enforced now uid]
      by (auto simp: Erased split: sum.split)
    then show ?thesis using Cons.IH [of t] Cons.prems(1,2) by simp
  qed
qed auto

section \<open>Properties\<close>

text \<open>C34: the verifier accepts a log exactly when every row carries the hash of the row before it and the first
  row the genesis; otherwise it reports the first row that does not.\<close>

theorem verify_chain_exact:
  "case verify_chain sha rows of
     (True, k, why) \<Rightarrow> k = None \<and> why = None \<and> (\<forall>i < length rows. prev_or GENESIS (ar_prev_hash (rows ! i)) =
       (if i = 0 then GENESIS else compute_hash sha (ar_prev_hash (rows ! (i - 1))) (rows ! (i - 1))))
   | (False, k, why) \<Rightarrow> \<exists>j < length rows. k = Some j \<and>
       prev_or GENESIS (ar_prev_hash (rows ! j)) \<noteq>
         (if j = 0 then GENESIS else compute_hash sha (ar_prev_hash (rows ! (j - 1))) (rows ! (j - 1))) \<and>
       (\<forall>i < j. prev_or GENESIS (ar_prev_hash (rows ! i)) =
         (if i = 0 then GENESIS else compute_hash sha (ar_prev_hash (rows ! (i - 1))) (rows ! (i - 1))))"
proof -
  let ?c = "\<lambda>rows i. prev_or GENESIS (ar_prev_hash (rows ! i)) =
     (if i = 0 then GENESIS else compute_hash sha (ar_prev_hash (rows ! (i - 1))) (rows ! (i - 1)))"
  have nth: "chained GENESIS (\<lambda>p. compute_hash sha (Some p)) GENESIS xs \<longleftrightarrow> (\<forall>i < length xs. ?c xs i)" for xs
  proof (induction xs rule: rev_induct)
    case (snoc r xs)
    have "(\<forall>i < length (xs @ [r]). ?c (xs @ [r]) i) \<longleftrightarrow> (\<forall>i < length xs. ?c xs i) \<and> ?c (xs @ [r]) (length xs)"
      by (auto simp: nth_append less_Suc_eq)
    moreover have "?c (xs @ [r]) (length xs) \<longleftrightarrow>
        prev_or GENESIS (ar_prev_hash r) = head_from (\<lambda>p. compute_hash sha (Some p)) GENESIS xs"
      if "chained GENESIS (\<lambda>p. compute_hash sha (Some p)) GENESIS xs"
      using chained_head [OF that] by (cases "xs = []") (simp_all add: nth_append last_conv_nth link_input)
    ultimately show ?case using snoc by (auto simp: chained_append)
  qed simp
  show ?thesis
  proof (cases rule: verify_from_cases [of GENESIS "\<lambda>p. compute_hash sha (Some p)" 0 GENESIS rows])
    case valid
    then show ?thesis by (simp add: verify_chain_def nth)
  next
    case (broken k why)
    have tk: "?c (take n rows) i \<longleftrightarrow> ?c rows i" if "i < n" for i n
      using that by (cases i) simp_all
    have ok: "\<forall>i < k. ?c rows i" using broken(2,3) tk by (simp only: nth length_take min_less_iff_conj) auto
    moreover have "\<exists>i < Suc k. \<not> ?c (take (Suc k) rows) i"
      using broken(2,4) by (simp only: nth length_take min_less_iff_conj) blast
    then have "\<exists>i < Suc k. \<not> ?c rows i" using tk by blast
    then have "\<not> (\<forall>i < Suc k. ?c rows i)" by blast
    ultimately have "\<not> ?c rows k" using less_Suc_eq by blast
    then show ?thesis using broken(1,2) ok by (simp add: verify_chain_def)
  qed
qed


text \<open>Tampering shows in the head: two logs that verify and end in the same hash have the same rows, in every
  field of the canonical encoding, unless two different byte strings hashed on the way have the same hash.\<close>

theorem equal_heads_equal_logs:
  assumes "\<forall>x. hex64 (sha x)" "\<forall>r \<in> set xs. plain r" "\<forall>r \<in> set ys. plain r"
    and "fst (verify_chain sha xs)" "fst (verify_chain sha ys)" "next_head sha xs = next_head sha ys"
  shows "map row_fields xs = map row_fields ys \<or>
    (\<exists>a \<in> hashed chain_input sha GENESIS xs. \<exists>b \<in> hashed chain_input sha GENESIS ys. a \<noteq> b \<and> sha a = sha b)"
proof -
  have c: "chained GENESIS (\<lambda>p. compute_hash sha (Some p)) GENESIS zs"
    if "fst (verify_chain sha zs)" for zs
    using that by (cases rule: verify_from_cases [of GENESIS "\<lambda>p. compute_hash sha (Some p)" 0 GENESIS zs])
      (simp_all add: verify_chain_def)
  have "next_head sha zs = head_from (\<lambda>p r. sha (chain_input p r)) GENESIS zs"
    if "fst (verify_chain sha zs)" for zs
    using chained_head [OF c [OF that]] by (cases "zs = []") (simp_all add: next_head_def)
  then have "head_from (\<lambda>p r. sha (chain_input p r)) GENESIS xs = head_from (\<lambda>p r. sha (chain_input p r)) GENESIS ys"
    using assms(4-6) by simp
  moreover have "SEP \<notin> set GENESIS" by (simp add: GENESIS_def SEP_def)
  ultimately show ?thesis
    using shared.same_head [OF assms(1) _ assms(2,3)] by (simp add: collision_def)
qed

text \<open>Two tenants' chains do not mix: two or more rows that verify as the chain of one organisation and as that of
  another exhibit two different byte strings with the same hash.\<close>

theorem tenant_chains_do_not_mix:
  assumes "\<forall>x. hex64 (sha x)" "SEP \<notin> set a" "SEP \<notin> set b" "a \<noteq> b" "length rows \<ge> 2"
    and "fst (verify_tenant_chain sha rows a)" "fst (verify_tenant_chain sha rows b)"
  shows "\<exists>x \<in> hashed (tenant_input a) sha (tenant_genesis a) rows.
         \<exists>y \<in> hashed (tenant_input b) sha (tenant_genesis b) rows. x \<noteq> y \<and> sha x = sha y"
proof -
  obtain r s rest where rows: "rows = r # s # rest"
    using assms(5) by (cases rows rule: list.exhaust; cases "tl rows") auto
  have link: "(\<lambda>p row. compute_tenant_hash sha (Some p) row org) = (\<lambda>p row. sha (tenant_input org p row))" for org
    by (simp add: hash_inputs)
  have second: "prev_or (tenant_genesis org) (ar_prev_hash s) = sha (tenant_input org (tenant_genesis org) r)"
    if "fst (verify_tenant_chain sha rows org)" for org
    using that by (simp add: verify_tenant_chain_def rows link Let_def split: if_splits)
  have "ar_prev_hash s = Some (sha (tenant_input org (tenant_genesis org) r))"
    if "fst (verify_tenant_chain sha rows org)" for org
  proof -
    have "tenant_genesis org \<noteq> sha (tenant_input org (tenant_genesis org) r)"
      using assms(1) tenant.genesis_not_hash by metis
    then show ?thesis
      using second [OF that] by (auto simp: prev_or_def truthy_str_def split: if_splits option.splits)
  qed
  then have "sha (tenant_input a (tenant_genesis a) r) = sha (tenant_input b (tenant_genesis b) r)"
    using assms(6,7) by (metis option.inject)
  moreover have "tenant_input a p r \<noteq> tenant_input b q r" for p q
  proof
    assume eq: "tenant_input a p r = tenant_input b q r"
    have "SEP \<notin> set (tenant_domain a)" "SEP \<notin> set (tenant_domain b)"
      using assms(2,3) by (simp_all add: tenant_domain_def SEP_def)
    then have "tenant_domain a = tenant_domain b"
      using split_sep [OF eq [unfolded tenant_input_def]] by blast
    with assms(4) show False by (simp add: tenant_domain_def)
  qed
  ultimately show ?thesis by (auto simp: rows)
qed

text \<open>Erasing a user leaves no audit row and no email account of the user and no personal field in the user row,
  and the log verifies afterwards whatever it was before.\<close>

theorem erasure_anonymizes:
  assumes "erase_user sha loads dumps enforced now uid db = Inr (summary, db')" "\<not> er_idempotent summary"
    and "hash_user_id sha uid \<noteq> uid" "\<forall>x. sha x \<noteq> []"
  shows "(\<forall>r \<in> set (db_rows db'). ar_user_id r \<noteq> Some uid) \<and> (\<forall>m \<in> set (db_accounts db'). gm_user_id m \<noteq> uid) \<and>
    (\<forall>u \<in> set (db_users db'). gu_id u = uid \<longrightarrow> gu_email u = None \<and> gu_name u = None \<and> gu_avatar_url u = None) \<and>
    fst (verify_chain sha (db_rows db')) \<and> length (db_rows db') = length (db_rows db)"
proof -
  let ?rows = "sort_key row_time (map (anonymize sha loads dumps uid) (db_rows db))"
  have db': "db_rows db' = rechain sha GENESIS ?rows" "db_accounts db' = filter (\<lambda>m. gm_user_id m \<noteq> uid) (db_accounts db)"
    "db_users db' = map (\<lambda>u. if gu_id u = uid then tombstone now u else u) (db_users db)"
    using assms(1,2) by (auto simp: erase_user_def Let_def split: option.splits if_splits)
  have "\<forall>r \<in> set ?rows. ar_user_id r \<noteq> Some uid" using assms(3) by (auto simp: anonymize_def)
  then have "Some uid \<notin> set (map ar_user_id ?rows)" by force
  then have "Some uid \<notin> set (map ar_user_id (db_rows db'))" unfolding db' rechain_users .
  then have "\<forall>r \<in> set (db_rows db'). ar_user_id r \<noteq> Some uid" by force
  moreover have "verify_chain sha (db_rows db') = (True, None, None)"
    unfolding verify_chain_ok db' by (rule rechain_chained) (simp_all add: GENESIS_def assms(4))
  moreover have "length (db_rows db') = length (db_rows db)"
    unfolding db' by (metis rechain_times length_map length_sort)
  moreover have "\<forall>m \<in> set (db_accounts db'). gm_user_id m \<noteq> uid" by (simp add: db'(2))
  moreover have "\<forall>u \<in> set (db_users db'). gu_id u = uid \<longrightarrow> gu_email u = None \<and> gu_name u = None \<and> gu_avatar_url u = None"
    using erased_users unfolding db'(3) by blast
  ultimately show ?thesis by simp
qed

section \<open>What goes unnoticed or fails\<close>

text \<open>A log stripped of its newest rows verifies, and so does one whose last row was rewritten.\<close>

lemma tail_not_protected:
  assumes "fst (verify_chain sha (xs @ [r]))" "ar_prev_hash r' = ar_prev_hash r"
  shows "fst (verify_chain sha xs) \<and> fst (verify_chain sha (xs @ [r']))"
proof -
  have "chained GENESIS (\<lambda>p. compute_hash sha (Some p)) GENESIS (xs @ [r])"
    using assms(1) by (cases rule: verify_from_cases [of GENESIS "\<lambda>p. compute_hash sha (Some p)" 0 GENESIS "xs @ [r]"])
      (simp_all add: verify_chain_def)
  then have "verify_chain sha xs = (True, None, None)" "verify_chain sha (xs @ [r']) = (True, None, None)"
    using assms(2) by (simp_all add: verify_chain_ok chained_append)
  then show ?thesis by simp
qed

text \<open>The classification and the address of a row are outside the encoding.\<close>

lemma classification_not_protected:
  "verify_chain sha (map (\<lambda>r. r\<lparr>ar_classification := c r, ar_ip := i r\<rparr>) rows) = verify_chain sha rows"
proof -
  have "compute_hash sha p (r\<lparr>ar_classification := x, ar_ip := y\<rparr>) = compute_hash sha p r" for p r x y
    by (simp add: compute_hash_def canonical_def row_fields_def)
  then have "verify_from GENESIS (\<lambda>p. compute_hash sha (Some p)) n q (map (\<lambda>r. r\<lparr>ar_classification := c r, ar_ip := i r\<rparr>) rows) =
      verify_from GENESIS (\<lambda>p. compute_hash sha (Some p)) n q rows" for n q
    by (induction rows arbitrary: n q) (simp_all add: Let_def)
  then show ?thesis by (simp add: verify_chain_def)
qed

text \<open>A pruned log does not verify.\<close>

lemma pruned_log_fails:
  assumes "\<forall>x. hex64 (sha x)" "fst (verify_chain sha (pre @ r # post))" "pre \<noteq> []"
    and "\<forall>x \<in> set pre. expired now x" "\<not> expired now r" "\<forall>x \<in> set post. \<not> expired now x"
  shows "\<exists>why. verify_chain sha (snd (run_retention now (pre @ r # post))) = (False, Some 0, why)"
proof -
  have "chained GENESIS (\<lambda>p. compute_hash sha (Some p)) GENESIS (pre @ r # post)"
    using assms(2) by (cases rule: verify_from_cases [of GENESIS "\<lambda>p. compute_hash sha (Some p)" 0 GENESIS "pre @ r # post"])
      (simp_all add: verify_chain_def)
  then have "prev_or GENESIS (ar_prev_hash r) = head_from (\<lambda>p r. sha (chain_input p r)) GENESIS pre"
    by (simp add: chained_append link_input)
  then have "prev_or GENESIS (ar_prev_hash r) \<noteq> GENESIS"
    using shared.head_shape [OF assms(1), of pre] shared.genesis_not_hash assms(3) by auto
  moreover have "snd (run_retention now (pre @ r # post)) = r # post"
    using assms(4-6) by (simp add: run_retention_def Let_def filter_empty_conv)
  ultimately show ?thesis by (simp add: verify_chain_def Let_def)
qed

text \<open>With the foreign key enforced, a user with an audit row cannot be erased.\<close>

lemma erasure_blocked_by_foreign_key:
  assumes "find (\<lambda>u. gu_id u = uid) (db_users db) = Some user" "gu_erased_at user = None"
    and "r \<in> set (db_rows db)" "ar_user_id r = Some uid" "hash_user_id sha uid \<notin> gu_id ` set (db_users db)"
  shows "erase_user sha loads dumps True now uid db = Inl IntegrityError"
proof -
  let ?rows = "sort_key row_time (map (anonymize sha loads dumps uid) (db_rows db))"
  have "ar_user_id (anonymize sha loads dumps uid r) = Some (hash_user_id sha uid)"
    using assms(4) by (simp add: anonymize_def)
  then have "Some (hash_user_id sha uid) \<in> set (map ar_user_id ?rows)" using assms(3) by (force simp: image_iff)
  then have "Some (hash_user_id sha uid) \<in> ar_user_id ` set (rechain sha GENESIS ?rows)"
    by (metis rechain_users list.set_map)
  then obtain x where "x \<in> set (rechain sha GENESIS ?rows)" "ar_user_id x = Some (hash_user_id sha uid)" by force
  moreover have "map gu_id (map (\<lambda>u. if gu_id u = uid then tombstone now u else u) (db_users db)) = map gu_id (db_users db)"
    unfolding map_map by (rule map_cong) simp_all
  then have "gu_id ` set (map (\<lambda>u. if gu_id u = uid then tombstone now u else u) (db_users db)) = gu_id ` set (db_users db)"
    by (metis list.set_map)
  ultimately have "\<not> references_ok \<lparr>db_users = map (\<lambda>u. if gu_id u = uid then tombstone now u else u) (db_users db),
      db_rows = rechain sha GENESIS ?rows, db_accounts = filter (\<lambda>a. gm_user_id a \<noteq> uid) (db_accounts db)\<rparr>"
    by (intro dangling [of x _ "hash_user_id sha uid"]) (use assms(5) in \<open>simp_all only: audit_db.select_convs simp_thms\<close>)
  then show ?thesis using assms(1,2) by (simp add: erase_user_def Let_def)
qed

section \<open>At concrete inputs\<close>

text \<open>A stand-in for the digest with its shape, which tells odd from even lengths.\<close>

definition toy_sha :: "string \<Rightarrow> string" where
  "toy_sha s = replicate 63 (CHR ''0'') @ (if even (length s) then ''0'' else ''1'')"

lemma toy_sha_hex: "hex64 (toy_sha s)"
  by (auto simp: hex64_def toy_sha_def)

definition sample_event :: "string \<Rightarrow> string \<Rightarrow> audit_event" where
  "sample_event i user = \<lparr>ev_id = i, ev_user_id = Some user, ev_org_id = None, ev_action = ''user.login'',
     ev_resource_type = ''user'', ev_resource_id = None, ev_details_json = None, ev_ip = None,
     ev_retention_until = Datetime 2027 1 1 0 0 0 0\<rparr>"

definition sample_log :: "audit_row list" where
  "sample_log = log_audit_event toy_sha True (Datetime 2026 1 2 0 0 0 0) (sample_event ''2'' ''v'')
     (log_audit_event toy_sha True (Datetime 2026 1 1 0 0 0 0) (sample_event ''1'' ''u'') [])"

definition sample_db :: audit_db where
  "sample_db = \<lparr>db_users = [\<lparr>gu_id = ''u'', gu_email = Some ''u@x'', gu_name = None, gu_avatar_url = None, gu_erased_at = None\<rparr>],
     db_rows = sample_log, db_accounts = []\<rparr>"

lemma verify_chain_exact_witness: "\<exists>j < length (tl sample_log). fst (snd (verify_chain toy_sha (tl sample_log))) = Some j"
proof -
  have "fst (verify_chain toy_sha (tl sample_log)) = False" by code_simp
  then show ?thesis using verify_chain_exact [where sha = toy_sha and rows = "tl sample_log"] by (auto split: prod.splits bool.splits)
qed


lemma sample_log_plain: "\<forall>r \<in> set sample_log. plain r"
  by code_simp

lemma equal_heads_equal_logs_witness:
  "map row_fields sample_log = map row_fields sample_log \<or>
   (\<exists>a \<in> hashed chain_input toy_sha GENESIS sample_log. \<exists>b \<in> hashed chain_input toy_sha GENESIS sample_log. a \<noteq> b \<and> toy_sha a = toy_sha b)"
proof (rule equal_heads_equal_logs)
  show "fst (verify_chain toy_sha sample_log)" "fst (verify_chain toy_sha sample_log)" by code_simp+
qed (use toy_sha_hex sample_log_plain in auto)

text \<open>The digest that is always the same has the collision the theorem promises.\<close>

definition flat_sha :: "string \<Rightarrow> string" where "flat_sha s = replicate 64 (CHR ''0'')"

definition spliced :: "audit_row list" where
  "spliced = (let r = hd sample_log\<lparr>ar_prev_hash := None\<rparr> in [r, r\<lparr>ar_prev_hash := Some (flat_sha [])\<rparr>])"

lemma tenant_chains_do_not_mix_witness:
  "\<exists>x \<in> hashed (tenant_input ''a'') flat_sha (tenant_genesis ''a'') spliced.
   \<exists>y \<in> hashed (tenant_input ''b'') flat_sha (tenant_genesis ''b'') spliced. x \<noteq> y \<and> flat_sha x = flat_sha y"
proof (rule tenant_chains_do_not_mix)
  show "\<forall>x. hex64 (flat_sha x)" by (simp add: flat_sha_def hex64_def)
  show "fst (verify_tenant_chain flat_sha spliced ''a'')" "fst (verify_tenant_chain flat_sha spliced ''b'')" by code_simp+
qed (simp_all add: spliced_def SEP_def Let_def)

lemma erasure_anonymizes_witness:
  "\<exists>summary db'. erase_user toy_sha (\<lambda>s. None) (\<lambda>v. []) False (Datetime 2026 2 1 0 0 0 0) ''u'' sample_db = Inr (summary, db') \<and>
     (\<forall>r \<in> set (db_rows db'). ar_user_id r \<noteq> Some ''u'') \<and> fst (verify_chain toy_sha (db_rows db'))"
proof -
  obtain summary db' where e: "erase_user toy_sha (\<lambda>s. None) (\<lambda>v. []) False (Datetime 2026 2 1 0 0 0 0) ''u'' sample_db =
      Inr (summary, db')" and i: "\<not> er_idempotent summary"
    by (simp add: erase_user_def sample_db_def Let_def)
  have "hash_user_id toy_sha ''u'' \<noteq> ''u''" by code_simp
  moreover have "\<forall>x. toy_sha x \<noteq> []" using toy_sha_hex hex64D by blast
  ultimately show ?thesis using erasure_anonymizes [OF e i] e by blast
qed

end
