(* ===== verification/Py_Text.thy ===== *)
theory Py_Text
  imports Prelude
begin

text \<open>
  The parts of Python's standard library on text that the shell checks call: methods of \<open>str\<close>, \<open>os.path\<close> on
  POSIX, and \<open>shlex\<close>, with the round trip of \<open>shlex.join\<close> and \<open>shlex.split\<close>.
\<close>

section \<open>Methods of \<open>str\<close>\<close>

definition upper_char :: "char \<Rightarrow> char" where
  "upper_char c = (let n = (of_char c :: nat) in if 97 \<le> n \<and> n \<le> 122 then char_of (n - 32) else c)"

definition py_upper :: "string \<Rightarrow> string" where
  "py_upper = map upper_char"

text \<open>\<open>s.split("=", 1)[0]\<close>, which is also the head of \<open>s.partition("=")\<close>, and what follows the separator.\<close>

definition before :: "char \<Rightarrow> string \<Rightarrow> string" where
  "before c s = takeWhile (\<lambda>d. d \<noteq> c) s"

definition after :: "char \<Rightarrow> string \<Rightarrow> string" where
  "after c s = tl (dropWhile (\<lambda>d. d \<noteq> c) s)"

text \<open>\<open>s.rsplit(c, 1)[-1]\<close>.\<close>

definition after_last :: "char \<Rightarrow> string \<Rightarrow> string" where
  "after_last c s = rev (takeWhile (\<lambda>d. d \<noteq> c) (rev s))"

text \<open>\<open>s.find(t, i)\<close>.\<close>

fun find_from :: "nat \<Rightarrow> string \<Rightarrow> string \<Rightarrow> nat \<Rightarrow> nat option" where
  "find_from 0 t s i = None"
| "find_from (Suc n) t s i = (if prefix t (drop i s) then Some i else find_from n t s (Suc i))"

definition py_find :: "string \<Rightarrow> string \<Rightarrow> nat \<Rightarrow> nat option" where
  "py_find t s i = find_from (Suc (length s) - i) t s i"

definition py_lstrip :: "string \<Rightarrow> string \<Rightarrow> string" where
  "py_lstrip cs s = dropWhile (\<lambda>c. c \<in> set cs) s"

definition is_alpha :: "char \<Rightarrow> bool" where
  "is_alpha c = (let n = (of_char c :: nat) in 65 \<le> n \<and> n \<le> 90 \<or> 97 \<le> n \<and> n \<le> 122)"

definition name_start :: "char \<Rightarrow> bool" where
  "name_start c = (is_alpha c \<or> c = CHR ''_'')"

definition name_char :: "char \<Rightarrow> bool" where
  "name_char c = (name_start c \<or> is_digit c)"

definition py_isidentifier :: "string \<Rightarrow> bool" where
  "py_isidentifier s = (case s of [] \<Rightarrow> False | c # cs \<Rightarrow> name_start c \<and> list_all name_char cs)"

definition py_isdigit :: "string \<Rightarrow> bool" where
  "py_isdigit s = (s \<noteq> [] \<and> list_all is_digit s)"

definition ellipsis :: string where
  "ellipsis = [CHR 0xE2, CHR 0x80, CHR 0xA6]"

section \<open>\<open>os.path\<close>\<close>

definition path_basename :: "string \<Rightarrow> string" where
  "path_basename = after_last (CHR ''/'')"

definition isabs :: "string \<Rightarrow> bool" where
  "isabs s = prefix ''/'' s"

definition path_join :: "string \<Rightarrow> string \<Rightarrow> string" where
  "path_join a b = (if prefix ''/'' b then b else if a = [] \<or> suffix ''/'' a then a @ b else a @ ''/'' @ b)"

text \<open>The components kept so far are in reverse order.\<close>

fun norm_comps :: "bool \<Rightarrow> string list \<Rightarrow> string list \<Rightarrow> string list" where
  "norm_comps rooted acc [] = rev acc"
| "norm_comps rooted acc (c # cs) =
     (if c = [] \<or> c = ''.'' then norm_comps rooted acc cs
      else if c \<noteq> ''..'' \<or> \<not> rooted \<and> acc = [] \<or> acc \<noteq> [] \<and> hd acc = ''..''
      then norm_comps rooted (c # acc) cs
      else norm_comps rooted (tl acc) cs)"

definition initial_slashes :: "string \<Rightarrow> nat" where
  "initial_slashes s = (if \<not> prefix ''/'' s then 0 else if prefix ''//'' s \<and> \<not> prefix ''///'' s then 2 else 1)"

definition normpath :: "string \<Rightarrow> string" where
  "normpath s =
     (if s = [] then ''.''
      else let n = initial_slashes s;
               r = replicate n (CHR ''/'') @ py_join ''/'' (norm_comps (n > 0) [] (py_split_on (CHR ''/'') s))
           in if r = [] then ''.'' else r)"

definition abspath :: "string \<Rightarrow> string \<Rightarrow> string" where
  "abspath getcwd s = normpath (if isabs s then s else path_join getcwd s)"

fun common_prefix :: "'a list \<Rightarrow> 'a list \<Rightarrow> 'a list" where
  "common_prefix (x # xs) (y # ys) = (if x = y then x # common_prefix xs ys else [])"
| "common_prefix _ _ = []"

definition path_comps :: "string \<Rightarrow> string list" where
  "path_comps s = filter (\<lambda>c. c \<noteq> [] \<and> c \<noteq> ''.'') (py_split_on (CHR ''/'') s)"

definition commonpath :: "string \<Rightarrow> string \<Rightarrow> py_error + string" where
  "commonpath p q =
     (if isabs p \<noteq> isabs q then Inl (ValueError ''Can't mix absolute and relative paths'')
      else Inr ((if isabs p then ''/'' else []) @ py_join ''/'' (common_prefix (path_comps p) (path_comps q))))"

section \<open>\<open>shlex\<close>\<close>

definition SQ :: char where "SQ = CHR 0x27"
definition DQ :: char where "DQ = CHR 0x22"
definition BS :: char where "BS = CHR 0x5C"

text \<open>
  The states of \<open>shlex.read_token\<close> in POSIX mode with \<open>whitespace_split\<close>: between words, in a word, inside a
  quote, after a backslash that was met in a word (\<open>None\<close>) or inside a quote.
\<close>

datatype lexer = Between | In_Word | In_Quote char | In_Escape "char option"

definition shlex_white :: "char \<Rightarrow> bool" where
  "shlex_white c = (c \<in> {CHR '' '', CHR 0x09, CHR 0x0D, CHR 0x0A})"

fun shlex_read :: "lexer \<Rightarrow> bool \<Rightarrow> string \<Rightarrow> string \<Rightarrow> py_error + string list" where
  "shlex_read Between quoted token [] = Inr []"
| "shlex_read In_Word quoted token [] = Inr (if token \<noteq> [] \<or> quoted then [token] else [])"
| "shlex_read (In_Quote q) quoted token [] = Inl (ValueError ''No closing quotation'')"
| "shlex_read (In_Escape e) quoted token [] = Inl (ValueError ''No escaped character'')"
| "shlex_read Between quoted token (c # cs) =
     (if shlex_white c then
        (if token \<noteq> [] \<or> quoted then bindE (shlex_read Between False [] cs) (\<lambda>ts. Inr (token # ts))
         else shlex_read Between quoted token cs)
      else if c = BS then shlex_read (In_Escape None) quoted token cs
      else if c = SQ \<or> c = DQ then shlex_read (In_Quote c) quoted token cs
      else shlex_read In_Word quoted [c] cs)"
| "shlex_read In_Word quoted token (c # cs) =
     (if shlex_white c then
        (if token \<noteq> [] \<or> quoted then bindE (shlex_read Between False [] cs) (\<lambda>ts. Inr (token # ts))
         else shlex_read Between quoted token cs)
      else if c = SQ \<or> c = DQ then shlex_read (In_Quote c) quoted token cs
      else if c = BS then shlex_read (In_Escape None) quoted token cs
      else shlex_read In_Word quoted (token @ [c]) cs)"
| "shlex_read (In_Quote q) quoted token (c # cs) =
     (if c = q then shlex_read In_Word True token cs
      else if c = BS \<and> q = DQ then shlex_read (In_Escape (Some q)) True token cs
      else shlex_read (In_Quote q) True (token @ [c]) cs)"
| "shlex_read (In_Escape e) quoted token (c # cs) =
     (case e of None \<Rightarrow> shlex_read In_Word quoted (token @ [c]) cs
      | Some q \<Rightarrow> shlex_read (In_Quote q) quoted
          ((if c \<noteq> BS \<and> c \<noteq> q then token @ [BS] else token) @ [c]) cs)"

definition shlex_split :: "string \<Rightarrow> py_error + string list" where
  "shlex_split s = shlex_read Between False [] s"

definition shlex_safe :: "char \<Rightarrow> bool" where
  "shlex_safe c = (name_char c \<or> c \<in> set ''@%+=:,./-'')"

definition quote_body :: "string \<Rightarrow> string" where
  "quote_body s = concat (map (\<lambda>c. if c = SQ then [SQ, DQ, SQ, DQ, SQ] else [c]) s)"

definition shlex_quote :: "string \<Rightarrow> string" where
  "shlex_quote s = (if s = [] then [SQ, SQ] else if list_all shlex_safe s then s else SQ # quote_body s @ [SQ])"

definition shlex_join :: "string list \<Rightarrow> string" where
  "shlex_join ts = py_join '' '' (map shlex_quote ts)"

lemma shlex_safe_plain: "shlex_safe c \<Longrightarrow> \<not> shlex_white c \<and> c \<noteq> SQ \<and> c \<noteq> DQ \<and> c \<noteq> BS"
  unfolding shlex_safe_def name_char_def name_start_def is_alpha_def is_digit_def shlex_white_def SQ_def DQ_def BS_def
  by auto

lemma read_safe: "list_all shlex_safe s \<Longrightarrow> shlex_read In_Word b t (s @ r) = shlex_read In_Word b (t @ s) r"
  by (induction s arbitrary: t) (simp_all add: shlex_safe_plain)

lemma chars_differ [simp]: "SQ \<noteq> DQ" "SQ \<noteq> BS" "DQ \<noteq> BS" "DQ \<noteq> SQ" "BS \<noteq> SQ" "BS \<noteq> DQ"
    "\<not> shlex_white SQ" "\<not> shlex_white DQ" "\<not> shlex_white BS" "shlex_white (CHR '' '')"
  by (simp_all add: SQ_def DQ_def BS_def shlex_white_def)

lemma read_quote_body:
  "shlex_read (In_Quote SQ) b t (quote_body s @ SQ # r) = shlex_read In_Word True (t @ s) r"
  by (induction s arbitrary: b t) (simp_all add: quote_body_def)

lemma read_quoted: "\<exists>b. (t \<noteq> [] \<or> b) \<and> (\<forall>r. shlex_read Between False [] (shlex_quote t @ r) = shlex_read In_Word b t r)"
proof -
  consider "t = []" | "t \<noteq> []" "list_all shlex_safe t" | "t \<noteq> []" "\<not> list_all shlex_safe t" by blast
  then show ?thesis
  proof cases
    case 1
    then show ?thesis by (intro exI [of _ True]) (simp add: shlex_quote_def)
  next
    case 2
    then obtain c cs where "t = c # cs" by (cases t) simp_all
    with 2 show ?thesis
      by (intro exI [of _ False]) (simp add: shlex_quote_def shlex_safe_plain read_safe)
  next
    case 3
    then show ?thesis
      by (intro exI [of _ True]) (simp add: shlex_quote_def read_quote_body)
  qed
qed

lemma shlex_split_join: "shlex_split (shlex_join ts) = Inr ts"
proof (induction ts)
  case Nil
  show ?case by (simp add: shlex_join_def shlex_split_def)
next
  case (Cons t ts)
  obtain b where b: "t \<noteq> [] \<or> b" "\<And>r. shlex_read Between False [] (shlex_quote t @ r) = shlex_read In_Word b t r"
    using read_quoted [of t] by blast
  show ?case
  proof (cases ts)
    case Nil
    with b b(2) [of "[]"] show ?thesis by (auto simp: shlex_join_def shlex_split_def)
  next
    case (Cons u us)
    with Cons.IH b show ?thesis by (auto simp: shlex_join_def shlex_split_def)
  qed
qed

end
