(* ===== verification/Py_Regex.thy ===== *)
theory Py_Regex
  imports Prelude
begin

text \<open>
  The regular expressions of Python's \<open>re\<close> that the program uses: a backtracking matcher whose results
  are listed in the order in which \<open>re\<close> tries them, so that the first is the match that \<open>re\<close> reports. A
  result is the end of the match and the spans of its groups.
\<close>

datatype rx =
    Eps
  | Chr "char \<Rightarrow> bool"
  | Seq rx rx
  | Alt rx rx
  | Star rx
  | Lazy rx
  | Grp nat rx
  | Bos
  | Eos
  | Dollar
  | Word_Boundary
  | Ahead rx
  | Not_Ahead rx
  | Not_Behind "char \<Rightarrow> bool"

type_synonym groups = "(nat \<times> nat \<times> nat) list"

definition word_char :: "char \<Rightarrow> bool" where
  "word_char c = (let n = (of_char c :: nat) in
     48 \<le> n \<and> n \<le> 57 \<or> 65 \<le> n \<and> n \<le> 90 \<or> n = 95 \<or> 97 \<le> n \<and> n \<le> 122)"

definition char_at :: "string \<Rightarrow> nat \<Rightarrow> (char \<Rightarrow> bool) \<Rightarrow> bool" where
  "char_at s i P = (i < length s \<and> P (s ! i))"

text \<open>
  A greedy loop: a further round first, then to stop. A round has to consume something, so \<open>n\<close>, what is
  left of the subject, bounds the rounds.
\<close>

fun star_m :: "nat \<Rightarrow> (nat \<Rightarrow> groups \<Rightarrow> (nat \<times> groups) list) \<Rightarrow> nat \<Rightarrow> groups \<Rightarrow> (nat \<times> groups) list" where
  "star_m 0 f i g = [(i, g)]"
| "star_m (Suc n) f i g =
     concat (map (\<lambda>(j, h). if i < j then star_m n f j h else []) (f i g)) @ [(i, g)]"

text \<open>A lazy loop: to stop first, then a further round.\<close>

fun lazy_m :: "nat \<Rightarrow> (nat \<Rightarrow> groups \<Rightarrow> (nat \<times> groups) list) \<Rightarrow> nat \<Rightarrow> groups \<Rightarrow> (nat \<times> groups) list" where
  "lazy_m 0 f i g = [(i, g)]"
| "lazy_m (Suc n) f i g =
     (i, g) # concat (map (\<lambda>(j, h). if i < j then lazy_m n f j h else []) (f i g))"

primrec rx_m :: "rx \<Rightarrow> string \<Rightarrow> nat \<Rightarrow> groups \<Rightarrow> (nat \<times> groups) list" where
  "rx_m Eps s i g = [(i, g)]"
| "rx_m (Chr P) s i g = (if char_at s i P then [(Suc i, g)] else [])"
| "rx_m (Seq r q) s i g = concat (map (\<lambda>(j, h). rx_m q s j h) (rx_m r s i g))"
| "rx_m (Alt r q) s i g = rx_m r s i g @ rx_m q s i g"
| "rx_m (Star r) s i g = star_m (length s - i) (rx_m r s) i g"
| "rx_m (Lazy r) s i g = lazy_m (length s - i) (rx_m r s) i g"
| "rx_m (Grp k r) s i g = map (\<lambda>(j, h). (j, (k, i, j) # h)) (rx_m r s i g)"
| "rx_m Bos s i g = (if i = 0 then [(i, g)] else [])"
| "rx_m Eos s i g = (if i = length s then [(i, g)] else [])"
| "rx_m Dollar s i g = (if i = length s \<or> Suc i = length s \<and> s ! i = CHR 0x0A then [(i, g)] else [])"
| "rx_m Word_Boundary s i g =
     (if (0 < i \<and> char_at s (i - 1) word_char) \<noteq> char_at s i word_char then [(i, g)] else [])"
| "rx_m (Ahead r) s i g = (if rx_m r s i g \<noteq> [] then [(i, g)] else [])"
| "rx_m (Not_Ahead r) s i g = (if rx_m r s i g = [] then [(i, g)] else [])"
| "rx_m (Not_Behind P) s i g = (if 0 < i \<and> char_at s (i - 1) P then [] else [(i, g)])"

text \<open>\<open>start, end, groups\<close> of a match.\<close>

type_synonym rx_match = "nat \<times> nat \<times> groups"

definition sub_str :: "string \<Rightarrow> nat \<Rightarrow> nat \<Rightarrow> string" where
  "sub_str s i j = take (j - i) (drop i s)"

definition grp :: "string \<Rightarrow> rx_match \<Rightarrow> nat \<Rightarrow> string option" where
  "grp s m k = (case m of (_, _, g) \<Rightarrow> map_option (\<lambda>(i, j). sub_str s i j) (map_of g k))"

definition re_match :: "rx \<Rightarrow> string \<Rightarrow> rx_match option" where
  "re_match r s = (case rx_m r s 0 [] of [] \<Rightarrow> None | (j, g) # _ \<Rightarrow> Some (0, j, g))"

definition re_fullmatch :: "rx \<Rightarrow> string \<Rightarrow> rx_match option" where
  "re_fullmatch r s = (case filter (\<lambda>(j, g). j = length s) (rx_m r s 0 []) of
     [] \<Rightarrow> None | (j, g) # _ \<Rightarrow> Some (0, j, g))"

fun search_from :: "nat \<Rightarrow> rx \<Rightarrow> string \<Rightarrow> nat \<Rightarrow> rx_match option" where
  "search_from 0 r s i = None"
| "search_from (Suc n) r s i = (case rx_m r s i [] of
     [] \<Rightarrow> search_from n r s (Suc i) | (j, g) # _ \<Rightarrow> Some (i, j, g))"

definition re_search_at :: "rx \<Rightarrow> string \<Rightarrow> nat \<Rightarrow> rx_match option" where
  "re_search_at r s i = search_from (Suc (length s) - i) r s i"

definition re_search :: "rx \<Rightarrow> string \<Rightarrow> bool" where
  "re_search r s = (re_search_at r s 0 \<noteq> None)"

text \<open>The successive matches that do not overlap, for expressions that never match the empty string.\<close>

fun finditer_from :: "nat \<Rightarrow> rx \<Rightarrow> string \<Rightarrow> nat \<Rightarrow> rx_match list" where
  "finditer_from 0 r s i = []"
| "finditer_from (Suc n) r s i = (case re_search_at r s i of
     None \<Rightarrow> [] | Some (a, b, g) \<Rightarrow> (a, b, g) # finditer_from n r s (max b (Suc i)))"

definition re_finditer :: "rx \<Rightarrow> string \<Rightarrow> rx_match list" where
  "re_finditer r s = finditer_from (Suc (length s)) r s 0"

text \<open>\<open>pattern.sub(f, s)\<close> with the replacement computed from the match.\<close>

fun sub_matches :: "(rx_match \<Rightarrow> string) \<Rightarrow> string \<Rightarrow> nat \<Rightarrow> rx_match list \<Rightarrow> string" where
  "sub_matches f s pos [] = drop pos s"
| "sub_matches f s pos ((a, b, g) # ms) = sub_str s pos a @ f (a, b, g) @ sub_matches f s b ms"

definition re_sub :: "rx \<Rightarrow> (rx_match \<Rightarrow> string) \<Rightarrow> string \<Rightarrow> string" where
  "re_sub r f s = sub_matches f s 0 (re_finditer r s)"

text \<open>\<open>re.split\<close> of a pattern without groups.\<close>

fun split_matches :: "string \<Rightarrow> nat \<Rightarrow> rx_match list \<Rightarrow> string list" where
  "split_matches s pos [] = [drop pos s]"
| "split_matches s pos ((a, b, g) # ms) = sub_str s pos a # split_matches s b ms"

definition re_split :: "rx \<Rightarrow> string \<Rightarrow> string list" where
  "re_split r s = split_matches s 0 (re_finditer r s)"

section \<open>Building blocks\<close>

definition one_of :: "string \<Rightarrow> rx" where "one_of cs = Chr (\<lambda>c. c \<in> set cs)"
definition none_of :: "string \<Rightarrow> rx" where "none_of cs = Chr (\<lambda>c. c \<notin> set cs)"
definition ch :: "char \<Rightarrow> rx" where "ch a = Chr (\<lambda>c. c = a)"
definition plus :: "rx \<Rightarrow> rx" where "plus r = Seq r (Star r)"
definition opt :: "rx \<Rightarrow> rx" where "opt r = Alt r Eps"
definition any_char :: rx where "any_char = Chr (\<lambda>c. True)"
definition digitc :: rx where "digitc = Chr is_digit"
definition wordc :: rx where "wordc = Chr word_char"
definition spacec :: rx where "spacec = Chr is_space"
definition non_spacec :: rx where "non_spacec = Chr (\<lambda>c. \<not> is_space c)"

fun lit :: "string \<Rightarrow> rx" where
  "lit [] = Eps"
| "lit [c] = ch c"
| "lit (c # cs) = Seq (ch c) (lit cs)"

text \<open>A literal under \<open>re.IGNORECASE\<close>.\<close>

fun ilit :: "string \<Rightarrow> rx" where
  "ilit [] = Eps"
| "ilit (c # cs) = Seq (Chr (\<lambda>d. lower_char d = lower_char c)) (ilit cs)"

fun seqs :: "rx list \<Rightarrow> rx" where
  "seqs [] = Eps"
| "seqs [r] = r"
| "seqs (r # rs) = Seq r (seqs rs)"

fun alts :: "rx list \<Rightarrow> rx" where
  "alts [] = Chr (\<lambda>c. False)"
| "alts [r] = r"
| "alts (r # rs) = Alt r (alts rs)"

text \<open>At most \<open>n\<close> rounds, greedily.\<close>

fun upto :: "nat \<Rightarrow> rx \<Rightarrow> rx" where
  "upto 0 r = Eps"
| "upto (Suc n) r = Alt (Seq r (upto n r)) Eps"

end
