(* ===== verification/Shell_Ast.thy ===== *)
theory Shell_Ast
  imports Py_Text Py_Regex
begin

text \<open>
  The first half of \<open>security/ast_parser.py\<close>: the syntax trees that \<open>bashlex\<close> returns, the words of a command
  and when one stands for itself, the variables that may be set, parameter expansions, the walk that collects
  the commands of a tree, and the rewriting of \<open>time\<close> and of quoted heredoc delimiters.

  \<open>bashlex\<close> is the argument \<open>parse\<close>: it returns trees, or the text of the exception it raised.
\<close>

section \<open>Errors and folds that may raise\<close>

text \<open>\<open>UnparseableCommand\<close> with its message, and any other exception, which the callers do not catch.\<close>

datatype shell_error = Unparseable string | Crash string

definition ensure :: "bool \<Rightarrow> string \<Rightarrow> shell_error + unit" where
  "ensure b msg = (if b then Inr () else Inl (Unparseable msg))"

lemma ensure_Inr [simp]: "ensure b msg = Inr u \<longleftrightarrow> b"
  by (simp add: ensure_def)

fun foldE :: "('s \<Rightarrow> 'a \<Rightarrow> 'e + 's) \<Rightarrow> 's \<Rightarrow> 'a list \<Rightarrow> 'e + 's" where
  "foldE f s [] = Inr s"
| "foldE f s (x # xs) = bindE (f s x) (\<lambda>t. foldE f t xs)"

lemma foldE_cong [fundef_cong]:
  "xs = ys \<Longrightarrow> s = t \<Longrightarrow> (\<And>x a. x \<in> set ys \<Longrightarrow> f a x = g a x) \<Longrightarrow> foldE f s xs = foldE g t ys"
  by (induction ys arbitrary: xs s t) (auto intro!: arg_cong2 [where f = bindE])

fun all_ok :: "('a \<Rightarrow> 'e + unit) \<Rightarrow> 'a list \<Rightarrow> 'e + unit" where
  "all_ok f [] = Inr ()"
| "all_ok f (x # xs) = bindE (f x) (\<lambda>_. all_ok f xs)"

lemma all_ok_cong [fundef_cong]:
  "xs = ys \<Longrightarrow> (\<And>x. x \<in> set ys \<Longrightarrow> f x = g x) \<Longrightarrow> all_ok f xs = all_ok g ys"
  by (induction ys arbitrary: xs) auto

lemma all_ok_iff: "all_ok f xs = Inr u \<longleftrightarrow> (\<forall>x \<in> set xs. f x = Inr ())"
  by (induction xs) (auto simp: bindE_Inr_iff)

section \<open>Trees\<close>

text \<open>
  A \<open>bashlex\<close> node is an object with an identity (\<open>id(node)\<close>), a kind and the rest of \<open>vars(node)\<close> in order: strings,
  positions, nodes, lists of nodes, and values the checks do not look into.
\<close>

datatype node = Node nat string "(string \<times> attr) list"
  and attr = AStr string | APos nat nat | ANode node | ANodes "node list" | AOther

fun nid :: "node \<Rightarrow> nat" where "nid (Node i k as) = i"
fun nkind :: "node \<Rightarrow> string" where "nkind (Node i k as) = k"
fun nattrs :: "node \<Rightarrow> (string \<times> attr) list" where "nattrs (Node i k as) = as"

definition nattr :: "node \<Rightarrow> string \<Rightarrow> attr option" where
  "nattr n a = map_of (nattrs n) a"

fun attr_nodes :: "attr \<Rightarrow> node list" where
  "attr_nodes (ANode m) = [m]"
| "attr_nodes (ANodes ms) = ms"
| "attr_nodes _ = []"

definition children :: "node \<Rightarrow> node list" where
  "children n = concat (map (\<lambda>(_, a). attr_nodes a) (nattrs n))"

definition nparts :: "node \<Rightarrow> node list" where
  "nparts n = (case nattr n ''parts'' of Some (ANodes ms) \<Rightarrow> ms | _ \<Rightarrow> [])"

definition nstr :: "node \<Rightarrow> string \<Rightarrow> shell_error + string" where
  "nstr n a = (case nattr n a of Some (AStr s) \<Rightarrow> Inr s | _ \<Rightarrow> Inl (Crash a))"

lemma attr_nodes_size: "m \<in> set (attr_nodes a) \<Longrightarrow> size m < size a"
  by (cases a) (auto dest: size_list_estimation' [where f = size, OF _ le_refl])

lemma children_size: "m \<in> set (children n) \<Longrightarrow> size m < size n"
proof -
  assume "m \<in> set (children n)"
  then obtain a v where av: "(a, v) \<in> set (nattrs n)" "m \<in> set (attr_nodes v)"
    by (auto simp: children_def)
  obtain i k as where n: "n = Node i k as" by (cases n)
  have "size_prod (\<lambda>x. 0) size (a, v) \<le> size_list (size_prod (\<lambda>x. 0) size) as"
    by (rule size_list_estimation' [OF _ le_refl]) (use av n in simp)
  with attr_nodes_size [OF av(2)] n show ?thesis by simp
qed

lemma children_sizes [termination_simp]:
  "m \<in> set (children n) \<Longrightarrow> size m < size n"
  by (rule children_size)

section \<open>Variables that may be set\<close>

definition SAFE_UNQUOTED :: string where
  "SAFE_UNQUOTED = ''ABCDEFGHIJKLMNOPQRSTUVWXYZabcdefghijklmnopqrstuvwxyz0123456789_./=:@%+,-''"

definition DQ_UNSAFE :: string where
  "DQ_UNSAFE = [CHR ''$'', CHR 0x60, BS]"

definition SAFE_GIT_KEYS :: "string list" where
  "SAFE_GIT_KEYS = [''GIT_AUTHOR_NAME'', ''GIT_AUTHOR_EMAIL'', ''GIT_AUTHOR_DATE'', ''GIT_COMMITTER_NAME'',
     ''GIT_COMMITTER_EMAIL'', ''GIT_COMMITTER_DATE'', ''GIT_TERMINAL_PROMPT'', ''GIT_OPTIONAL_LOCKS'',
     ''GIT_FLUSH'', ''GIT_MERGE_AUTOEDIT'', ''GIT_LFS_SKIP_SMUDGE'']"

definition PROGRAM_KEYS :: "string list" where
  "PROGRAM_KEYS = [''GIT_PAGER'', ''GIT_EDITOR'', ''GIT_SEQUENCE_EDITOR'', ''PAGER'', ''EDITOR'', ''VISUAL'']"

definition NOOP_PROGRAMS :: "string list" where
  "NOOP_PROGRAMS = [[], ''cat'', ''true'', '':'']"

definition REFUSED_KEYS :: "string list" where
  "REFUSED_KEYS = [''SSH_ASKPASS'']"

definition VAR_SETTERS :: "string list" where
  "VAR_SETTERS = [''export'', ''read'', ''unset'', ''declare'', ''typeset'', ''local'', ''readonly'', ''mapfile'',
     ''readarray'', ''getopts'']"

definition NAMEREF_SETTERS :: "string list" where
  "NAMEREF_SETTERS = [''declare'', ''typeset'', ''local'']"

definition UNKNOWN_VALUE_SETTERS :: "string list" where
  "UNKNOWN_VALUE_SETTERS = [''read'', ''mapfile'', ''readarray'', ''getopts'']"

definition env_name :: "string \<Rightarrow> string" where
  "env_name assignment = (let r = before (CHR ''='') assignment in if suffix ''+'' r then butlast r else r)"

definition env_key_allowed :: "string \<Rightarrow> bool" where
  "env_key_allowed assignment = (let name = env_name assignment in
     if prefix ''LD_'' name then False
     else if name \<in> set PROGRAM_KEYS
     then CHR ''='' \<notin> set assignment \<or> after (CHR ''='') assignment \<in> set NOOP_PROGRAMS
     else name \<notin> set REFUSED_KEYS \<and> (\<not> prefix ''GIT_'' name \<or> name \<in> set SAFE_GIT_KEYS))"

definition env_key_refusal :: "string \<Rightarrow> shell_error + unit" where
  "env_key_refusal assignment = (let name = env_name assignment in
     if CHR ''['' \<in> set name
     then Inl (Unparseable (''array subscript in '' @ name @ '' is not permitted''))
     else ensure (env_key_allowed assignment)
       (''setting '' @ name @ '' can change git config or what git runs; not permitted''))"

section \<open>Words\<close>

text \<open>A word node with the source text that \<open>_extract\<close> attaches to it, and the kinds of its parts.\<close>

record wd =
  w_word :: string
  w_raw :: string
  w_parts :: "string list"

lemma after_length: "length (after c s) \<le> length s"
  by (simp add: after_def le_trans [OF diff_le_self length_dropWhile_le])

text \<open>\<open>_static_shape\<close>, from the position of the loop.\<close>

function static_from :: "string \<Rightarrow> bool" where
  "static_from raw = (case raw of
     [] \<Rightarrow> True
   | c # cs \<Rightarrow>
       if c = SQ \<or> c = DQ
       then c \<in> set cs \<and> (c = DQ \<longrightarrow> set DQ_UNSAFE \<inter> set (before c cs) = {}) \<and> static_from (after c cs)
       else if prefix ''{}'' raw \<or> c = BS \<and> cs \<noteq> [] then static_from (tl cs)
       else c \<in> set SAFE_UNQUOTED \<and> static_from cs)"
  by pat_completeness auto

termination
  by (relation "measure length") (auto simp: less_Suc_eq_le after_length le_trans [OF diff_le_self])

declare static_from.simps [simp del]

definition static_shape :: "string \<Rightarrow> bool" where
  "static_shape raw = (raw \<in> {''['', '']''} \<or> static_from raw)"

definition word_parts_are_literal :: "wd \<Rightarrow> bool" where
  "word_parts_are_literal w = (static_shape (w_raw w) \<and>
     list_all (\<lambda>k. k \<notin> {''commandsubstitution'', ''parameter'', ''arithmetic'', ''processsubstitution''}) (w_parts w))"

text \<open>\<open>words[start:stop]\<close>.\<close>

definition slice :: "'a list \<Rightarrow> nat \<Rightarrow> nat \<Rightarrow> 'a list" where
  "slice xs i j = take (j - i) (drop i xs)"

definition require_literal :: "wd list \<Rightarrow> nat \<Rightarrow> nat \<Rightarrow> shell_error + unit" where
  "require_literal ws start stop =
     ensure (list_all word_parts_are_literal (slice ws start stop))
       ''wrapper argument is not a static literal; cannot validate''"

definition NAME_ASSIGN :: rx where
  "NAME_ASSIGN = seqs [Chr name_start, Star (Chr name_char), opt (ch (CHR ''+'')), ch (CHR ''='')]"

definition dynamic_name :: string where
  "dynamic_name = ''variable name is not a static literal; cannot validate''"

definition check_var_word :: "wd \<Rightarrow> bool \<Rightarrow> shell_error + unit" where
  "check_var_word w unknown_value =
     bindE (ensure (static_shape (w_raw w) \<or> re_match NAME_ASSIGN (w_raw w) \<noteq> None) dynamic_name)
     (\<lambda>_. env_key_refusal (if unknown_value \<and> CHR ''='' \<notin> set (w_word w) then w_word w @ ''=?'' else w_word w))"

definition setter_word :: "string \<Rightarrow> wd \<Rightarrow> shell_error + unit" where
  "setter_word setter w =
     (if prefix ''-'' (w_word w)
      then bindE (require_literal [w] 0 1) (\<lambda>_.
           bindE (ensure (\<not> (setter \<in> set NAMEREF_SETTERS \<and> \<not> prefix ''--'' (w_word w)
                   \<and> CHR ''n'' \<in> set (tl (w_word w)))) ''nameref is not permitted'') (\<lambda>_.
           bindE (ensure (\<not> (setter \<in> set NAMEREF_SETTERS \<and> \<not> prefix ''--'' (w_word w)
                   \<and> CHR ''i'' \<in> set (tl (w_word w)))) ''integer attribute is not permitted'') (\<lambda>_.
           ensure (\<not> (setter \<in> {''mapfile'', ''readarray''} \<and> CHR ''C'' \<in> set (tl (w_word w))))
             ''mapfile callback is not permitted'')))
      else check_var_word w (setter \<in> set UNKNOWN_VALUE_SETTERS))"

definition check_var_setter :: "wd list \<Rightarrow> nat \<Rightarrow> string \<Rightarrow> shell_error + unit" where
  "check_var_setter ws idx setter = all_ok (setter_word setter) (drop (Suc idx) ws)"

text \<open>The loop of \<open>_check_printf\<close>, on the words it has left.\<close>

fun check_printf :: "wd list \<Rightarrow> shell_error + unit" where
  "check_printf [] = Inr ()"
| "check_printf (w # ws) = (let tok = w_word w in
     if tok = ''--'' \<or> \<not> prefix ''-'' tok \<or> tok = ''-'' then Inr ()
     else bindE (require_literal [w] 0 1) (\<lambda>_.
       if tok = ''-v'' then
         (case ws of [] \<Rightarrow> Inl (Unparseable ''printf -v missing variable name'')
          | x # xs \<Rightarrow> bindE (check_var_word x False) (\<lambda>_. check_printf xs))
       else if prefix ''-v'' tok then
         bindE (ensure (static_shape (w_raw w)) dynamic_name) (\<lambda>_.
         bindE (env_key_refusal (drop 2 tok)) (\<lambda>_. check_printf ws))
       else check_printf ws))"

text \<open>The operands of \<open>test -v\<close>, and the words of \<open>set\<close> up to \<open>--\<close>.\<close>

fun check_test :: "wd list \<Rightarrow> shell_error + unit" where
  "check_test (w # x # ws) =
     bindE (if w_word w = ''-v'' then check_var_word x False else Inr ()) (\<lambda>_. check_test (x # ws))"
| "check_test ws = Inr ()"

definition set_word :: "wd \<Rightarrow> shell_error + unit" where
  "set_word w = bindE (require_literal [w] 0 1) (\<lambda>_.
     ensure (\<not> (w_word w = ''allexport'' \<or> prefix ''-'' (w_word w) \<and> CHR ''a'' \<in> set (tl (w_word w))))
       ''set allexport is not permitted'')"

definition check_builtin :: "wd list \<Rightarrow> nat \<Rightarrow> string \<Rightarrow> shell_error + unit" where
  "check_builtin ws idx name =
     bindE (ensure (name \<noteq> ''let'') ''let arithmetic cannot be validated'') (\<lambda>_.
     bindE (if name \<in> {''test'', ''[''} then check_test (drop (Suc idx) ws) else Inr ()) (\<lambda>_.
     bindE (if name = ''set''
            then all_ok set_word (takeWhile (\<lambda>w. w_word w \<noteq> ''--'') (drop (Suc idx) ws)) else Inr ()) (\<lambda>_.
     if name \<in> set VAR_SETTERS then check_var_setter ws idx name
     else if name = ''printf'' then check_printf (drop (Suc idx) ws)
     else Inr ())))"

section \<open>Parameter expansions\<close>

definition RUNS_COMMAND :: rx where
  "RUNS_COMMAND = alts [lit ''$('', ch (CHR 0x60), lit ''$['']"

definition PARAM_RE :: rx where
  "PARAM_RE = seqs
     [Grp 1 (opt (one_of ''#!'')),
      Grp 2 (alts [Seq (Chr name_start) (Star (Chr name_char)), plus digitc, one_of ''@*#?$!-'']),
      opt (seqs [ch (CHR ''[''), Grp 3 (Alt (Seq (opt (ch (CHR ''-''))) (plus digitc)) (one_of ''@*'')),
                 ch (CHR '']'')]),
      Alt Eos (Ahead (one_of ''-*@#%/^,:?+='')),
      Grp 4 (Star any_char)]"

definition OFFSET_RE :: rx where
  "OFFSET_RE = (let num = seqs [ch (CHR '':''), Star spacec, opt (ch (CHR ''-'')), plus digitc] in Seq num (opt num))"

definition the_grp :: "string \<Rightarrow> rx_match \<Rightarrow> nat \<Rightarrow> string" where
  "the_grp s m k = (case grp s m k of None \<Rightarrow> [] | Some t \<Rightarrow> t)"

text \<open>The form of an expansion that may evaluate text.\<close>

definition param_form_refused :: "string \<Rightarrow> rx_match \<Rightarrow> bool" where
  "param_form_refused value m =
     (let pre = the_grp value m 1; name = the_grp value m 2; sub = grp value m 3; rest = the_grp value m 4 in
      pre = ''!'' \<and> (\<not> py_isidentifier name \<or>
        (sub, rest) \<notin> {(None, ''*''), (None, ''@''), (Some ''@'', []), (Some ''*'', [])})
      \<or> pre \<noteq> ''!'' \<and> prefix ''*'' rest
      \<or> prefix ''@P'' rest \<or> prefix ''@E'' rest \<or> prefix ''@A'' rest
      \<or> prefix '':'' rest \<and> take 2 rest \<notin> {'':-'', '':='', '':?'', '':+''} \<and> re_fullmatch OFFSET_RE rest = None)"

text \<open>The text up to the brace that closes the one just opened, and what follows it.\<close>

fun close_brace :: "nat \<Rightarrow> string \<Rightarrow> string \<Rightarrow> (string \<times> string) option" where
  "close_brace d body [] = None"
| "close_brace d body [c] =
     (if c = CHR ''}'' \<and> d = 1 then Some (body, []) else None)"
| "close_brace d body (c # e # cs) =
     (if c = BS then close_brace d (body @ [c, e]) cs
      else if c = CHR ''{'' then close_brace (Suc d) (body @ [c]) (e # cs)
      else if c = CHR ''}'' then (if d = 1 then Some (body, e # cs) else close_brace (d - 1) (body @ [c]) (e # cs))
      else close_brace d (body @ [c]) (e # cs))"

lemma close_brace_length:
  "close_brace d b s = Some (body, rest) \<Longrightarrow> length body + length rest < length b + length s"
  by (induction d b s rule: close_brace.induct) (auto split: if_splits)

text \<open>The bodies of the expansions in a text, and whether the last one is left open.\<close>

function brace_bodies :: "string \<Rightarrow> string list \<times> bool" where
  "brace_bodies [] = ([], False)"
| "brace_bodies (c # cs) =
     (if prefix ''${'' (c # cs)
      then (case close_brace 1 [] (tl cs) of
         None \<Rightarrow> ([], True)
       | Some (body, rest) \<Rightarrow> (case brace_bodies rest of (bs, o') \<Rightarrow> (body # bs, o')))
      else brace_bodies cs)"
  by pat_completeness auto

termination
  by (relation "measure length") (auto dest!: close_brace_length simp: prefix_def)

lemma brace_bodies_length: "b \<in> set (fst (brace_bodies s)) \<Longrightarrow> length b < length s"
proof (induction s rule: brace_bodies.induct)
  case (2 c cs)
  show ?case
  proof (cases "prefix ''${'' (c # cs)")
    case False
    with 2 show ?thesis by fastforce
  next
    case True
    then obtain body rest where cl: "close_brace 1 [] (tl cs) = Some (body, rest)"
      using 2(3) by (cases "close_brace 1 [] (tl cs)") auto
    have l: "length body + length rest < length (tl cs)"
      using close_brace_length [OF cl] by simp
    have "b = body \<or> b \<in> set (fst (brace_bodies rest))"
      using 2(3) True cl by (auto split: prod.splits)
    then show ?thesis
    proof
      assume "b \<in> set (fst (brace_bodies rest))"
      from 2(1) [OF True cl refl this] l show ?thesis by simp
    qed (use l in simp)
  qed
qed simp

definition expansion_refused :: "string \<Rightarrow> string" where
  "expansion_refused value = ''parameter expansion ${'' @ value @ ''} cannot be validated''"

text \<open>What \<open>_check_parameter\<close> scans for further expansions: the rest of the parameter, or the heredoc body.\<close>

definition parameter_rest :: "bool \<Rightarrow> string \<Rightarrow> shell_error + string" where
  "parameter_rest heredoc value =
     (if heredoc then Inr value
      else case re_fullmatch PARAM_RE value of
          None \<Rightarrow> Inl (Unparseable (expansion_refused value))
        | Some m \<Rightarrow> bindE (ensure (\<not> param_form_refused value m) (expansion_refused value))
            (\<lambda>_. Inr (the_grp value m 4)))"

lemma parameter_rest_length: "parameter_rest h v = Inr r \<Longrightarrow> length r \<le> length v"
  by (auto simp: parameter_rest_def bindE_Inr_iff the_grp_def grp_def sub_str_def
      split: if_splits option.splits prod.splits)

function check_parameter :: "bool \<Rightarrow> string \<Rightarrow> shell_error + unit" where
  "check_parameter heredoc value =
     (if re_search RUNS_COMMAND value
      then Inl (Unparseable (''command substitution inside ${'' @ ellipsis @ ''} or a heredoc body cannot be validated''))
      else case parameter_rest heredoc value of
          Inl e \<Rightarrow> Inl e
        | Inr rest \<Rightarrow>
            bindE (all_ok (check_parameter False) (fst (brace_bodies rest)))
              (\<lambda>_. ensure (\<not> snd (brace_bodies rest)) ''unclosed ${ in parameter or heredoc''))"
  by pat_completeness auto

termination
  by (relation "measure (\<lambda>(h, v). length v)")
     (auto dest!: brace_bodies_length parameter_rest_length)

declare check_parameter.simps [simp del]

section \<open>The walk over a tree\<close>

definition node_checks :: "node \<Rightarrow> shell_error + unit" where
  "node_checks n =
     bindE (if nkind n = ''for''
            then (case nparts n of _ # p # _ \<Rightarrow> bindE (nstr p ''word'') (\<lambda>w. env_key_refusal (w @ ''=?''))
                  | _ \<Rightarrow> Inl (Crash ''parts''))
            else Inr ()) (\<lambda>_.
     if nkind n \<in> {''parameter'', ''heredoc''}
     then (case nattr n ''value'' of
             Some (AStr v) \<Rightarrow> check_parameter (nkind n = ''heredoc'') v
           | None \<Rightarrow> check_parameter (nkind n = ''heredoc'') []
           | Some _ \<Rightarrow> Inl (Crash ''value''))
     else Inr ())"

text \<open>\<open>_collect_command_nodes\<close>: the state is what was collected and the identities that were visited.\<close>

fun collect :: "node list \<times> nat list \<Rightarrow> node \<Rightarrow> shell_error + node list \<times> nat list" where
  "collect (out, seen) n =
     (if nid n \<in> set seen then Inr (out, seen)
      else bindE (node_checks n) (\<lambda>_.
        foldE collect (out @ (if nkind n = ''command'' then [n] else []), nid n # seen) (children n)))"

declare collect.simps [simp del]

section \<open>Rewriting before the parse\<close>

definition TIME_KEYWORD :: rx where
  "TIME_KEYWORD = seqs [Grp 1 (Alt Bos (one_of ('';&|({!'' @ [CHR 0x0A]))), Grp 2 (Star (one_of [CHR '' '', CHR 0x09])),
     lit ''time'', Ahead (Alt (one_of ([CHR '' '', CHR 0x09, CHR 0x0A] @ '';&|)'')) Eos)]"

definition escape_time :: "string \<Rightarrow> string" where
  "escape_time s = re_sub TIME_KEYWORD (\<lambda>m. the_grp s m 1 @ the_grp s m 2 @ BS # ''time'') s"

definition delim_char :: "char \<Rightarrow> bool" where
  "delim_char c = (is_alpha c \<or> is_digit c \<or> c \<in> set ''_.-'')"

definition QUOTED_HEREDOC :: rx where
  "QUOTED_HEREDOC = seqs [Not_Behind (\<lambda>c. c = CHR ''<''), Grp 1 (Seq (lit ''<<'') (opt (ch (CHR ''-'')))),
     Not_Ahead (ch (CHR ''<'')), Grp 2 (Star (one_of [CHR '' '', CHR 0x09])),
     Grp 3 (plus (alts [Chr delim_char, seqs [ch SQ, Star (Chr delim_char), ch SQ],
        seqs [ch DQ, Star (Chr delim_char), ch DQ], Seq (ch BS) (Chr delim_char)])),
     Ahead (Alt (Chr (\<lambda>c. is_space c \<or> c \<in> set '';&|<>()'')) Eos)]"

text \<open>The loop of \<open>_unquote_heredocs\<close>: the text written so far, the offsets, the end of the last match used.\<close>

fun unquote_loop :: "string \<Rightarrow> string \<Rightarrow> nat list \<Rightarrow> nat \<Rightarrow> rx_match list \<Rightarrow> string \<times> nat list" where
  "unquote_loop text out offsets upto_pos [] = (out @ drop upto_pos text, offsets)"
| "unquote_loop text out offsets upto_pos ((a, b, g) # ms) =
     (let w = the_grp text (a, b, g) 3 in
      if list_all (\<lambda>c. c \<notin> {SQ, DQ, BS}) w then unquote_loop text out offsets upto_pos ms
      else (let out' = out @ sub_str text upto_pos a @ the_grp text (a, b, g) 1 @ the_grp text (a, b, g) 2 in
            unquote_loop text (out' @ filter (\<lambda>c. c \<notin> {SQ, DQ, BS}) w) (offsets @ [length out']) b ms))"

definition unquote_heredocs :: "string \<Rightarrow> string \<times> nat list" where
  "unquote_heredocs text = unquote_loop text [] [] 0 (re_finditer QUOTED_HEREDOC text)"

text \<open>
  \<open>_blank_quoted_bodies\<close> walks the tree and sets the value of heredoc nodes to the empty string. The walk reads
  no value, so it is split: the offsets that were confirmed with the identities of the nodes to blank, and
  the assignment.
\<close>

definition quoted_body :: "nat list \<Rightarrow> node \<Rightarrow> shell_error + (nat \<times> nat) list" where
  "quoted_body offsets n =
     (if nkind n = ''redirect'' then
        bindE (nstr n ''type'') (\<lambda>t.
        if t \<in> {''<<'', ''<<-''} then
          (case nattr n ''output'' of
             Some (ANode out) \<Rightarrow> (case (nattr out ''pos'', nattr n ''heredoc'') of
                 (Some (APos start _), Some (ANode h)) \<Rightarrow>
                   Inr (if start \<in> set offsets then [(start, nid h)] else [])
               | _ \<Rightarrow> Inr [])
           | _ \<Rightarrow> Inr [])
        else Inr [])
      else Inr [])"

fun quoted_bodies :: "nat list \<Rightarrow> node \<Rightarrow> shell_error + (nat \<times> nat) list" where
  "quoted_bodies offsets n =
     bindE (quoted_body offsets n) (\<lambda>q.
     bindE (mapE (quoted_bodies offsets) (children n)) (\<lambda>qs. Inr (q @ concat qs)))"

declare quoted_bodies.simps [simp del]

function blank :: "nat set \<Rightarrow> node \<Rightarrow> node" where
  "blank ids (Node i k as) = Node i k (map (\<lambda>(a, v).
     (a, case v of ANode m \<Rightarrow> ANode (blank ids m)
         | ANodes ms \<Rightarrow> ANodes (map (blank ids) ms)
         | AStr s \<Rightarrow> AStr (if i \<in> ids \<and> a = ''value'' then [] else s)
         | APos p q \<Rightarrow> APos p q
         | AOther \<Rightarrow> AOther)) as)"
  by pat_completeness auto

termination
proof (relation "measure (\<lambda>(ids, n). size n)", goal_cases)
  case 1 then show ?case by simp
next
  case (2 ids i k as av a v m)
  then have "m \<in> set (children (Node i k as))" by (force simp: children_def)
  then show ?case using children_size [of m "Node i k as"] by simp
next
  case (3 ids i k as av a v ms m)
  then have "m \<in> set (children (Node i k as))" by (force simp: children_def)
  then show ?case using children_size [of m "Node i k as"] by simp
qed

declare blank.simps [simp del]

definition parse_trees :: "(string \<Rightarrow> string + node list) \<Rightarrow> string \<Rightarrow> shell_error + node list" where
  "parse_trees parse text = (case parse text of
     Inl exc \<Rightarrow> Inl (Unparseable (''could not parse command: '' @ exc))
   | Inr trees \<Rightarrow> Inr trees)"

text \<open>
  The first half of \<open>_extract\<close>: the text the positions refer to, and its trees. When the rewriting of a
  delimiter does not parse or is not confirmed, the text is parsed as it was.
\<close>

definition confirmed_trees :: "(string \<Rightarrow> string + node list) \<Rightarrow> string \<Rightarrow> nat list \<Rightarrow> shell_error + node list" where
  "confirmed_trees parse text offsets =
     bindE (parse_trees parse text) (\<lambda>trees.
     bindE (mapE (quoted_bodies offsets) trees) (\<lambda>qs.
       let found = concat qs in
       if fst ` set found = set offsets then Inr (map (blank (snd ` set found)) trees)
       else Inl (Unparseable ''heredoc rewrite not confirmed'')))"

definition parsed :: "(string \<Rightarrow> string + node list) \<Rightarrow> string \<Rightarrow> shell_error + (string \<times> node list)" where
  "parsed parse command_string =
     (let timed = escape_time command_string; (text, offsets) = unquote_heredocs timed in
      case confirmed_trees parse text offsets of
        Inr trees \<Rightarrow> Inr (text, trees)
      | Inl (Unparseable msg) \<Rightarrow>
          if offsets = [] then Inl (Unparseable msg)
          else bindE (parse_trees parse timed) (\<lambda>trees. Inr (timed, trees))
      | Inl (Crash e) \<Rightarrow> Inl (Crash e))"

definition DEFAULT_ASSIGN :: rx where
  "DEFAULT_ASSIGN = seqs [lit ''${'', Grp 1 (Seq (Chr name_start) (Star (Chr name_char))), opt (ch (CHR '':'')), ch (CHR ''='')]"

definition default_assigns :: "string \<Rightarrow> shell_error + unit" where
  "default_assigns s = all_ok (\<lambda>m. env_key_refusal (the_grp s m 1 @ ''=?'')) (re_finditer DEFAULT_ASSIGN s)"

section \<open>The words of a command node\<close>

definition mk_word :: "string \<Rightarrow> node \<Rightarrow> shell_error + wd" where
  "mk_word s n = bindE (nstr n ''word'') (\<lambda>w. case nattr n ''pos'' of
     Some (APos a b) \<Rightarrow> Inr \<lparr>w_word = w, w_raw = slice s a b, w_parts = map nkind (nparts n)\<rparr>
   | _ \<Rightarrow> Inl (Crash ''pos''))"

definition command_words :: "string \<Rightarrow> node \<Rightarrow> shell_error + wd list" where
  "command_words s n = mapE (mk_word s) (filter (\<lambda>p. nkind p = ''word'') (nparts n))"

definition assignments_ok :: "node \<Rightarrow> shell_error + unit" where
  "assignments_ok n =
     all_ok (\<lambda>p. bindE (nstr p ''word'') env_key_refusal) (filter (\<lambda>p. nkind p = ''assignment'') (nparts n))"

end
