(* ===== verification/Shell_Literal.thy ===== *)
theory Shell_Literal
  imports Shell_Ast
begin

text \<open>
  The words that count as static literals (\<open>_static_shape\<close> of \<open>security/ast_parser.py\<close>): such a word is one word
  for \<open>shlex\<close>, and \<open>bash\<close> interprets no character of it.
\<close>

text \<open>The characters of a word that \<open>bash\<close> interprets: those outside quotes and escapes, and \<open>$\<close> and backquotes inside
  double quotes.\<close>

datatype quoting = Plain | Single | Double

fun live :: "quoting \<Rightarrow> string \<Rightarrow> string" where
  "live q [] = []"
| "live Plain (c # cs) =
     (if c = SQ then live Single cs else if c = DQ then live Double cs
      else if c = BS then live Plain (drop 1 cs) else c # live Plain cs)"
| "live Single (c # cs) = (if c = SQ then live Plain cs else live Single cs)"
| "live Double (c # cs) =
     (if c = DQ then live Plain cs else if c = BS then c # live Double (drop 1 cs)
      else if c = CHR ''$'' \<or> c = CHR 0x60 then c # live Double cs else live Double cs)"

lemma live_single: "live Single cs = live Plain (after SQ cs)" if "SQ \<in> set cs"
  using that by (induction cs) (auto simp: after_def)

lemma live_double: "DQ \<in> set cs \<Longrightarrow> set DQ_UNSAFE \<inter> set (before DQ cs) = {} \<Longrightarrow> live Double cs = live Plain (after DQ cs)"
  by (induction cs) (auto simp: after_def before_def DQ_UNSAFE_def)

lemma safe_plain: "c \<in> set SAFE_UNQUOTED \<Longrightarrow> \<not> shlex_white c \<and> c \<noteq> SQ \<and> c \<noteq> DQ \<and> c \<noteq> BS"
  unfolding SAFE_UNQUOTED_def shlex_white_def SQ_def DQ_def BS_def by auto

lemma brace_plain: "\<not> shlex_white (CHR ''{'') \<and> CHR ''{'' \<noteq> SQ \<and> CHR ''{'' \<noteq> DQ \<and> CHR ''{'' \<noteq> BS"
    "\<not> shlex_white (CHR ''}'') \<and> CHR ''}'' \<noteq> SQ \<and> CHR ''}'' \<noteq> DQ \<and> CHR ''}'' \<noteq> BS"
  unfolding shlex_white_def SQ_def DQ_def BS_def by auto

lemma static_from_Cons:
  "static_from (c # cs) = (if c = SQ \<or> c = DQ
     then c \<in> set cs \<and> (c = DQ \<longrightarrow> set DQ_UNSAFE \<inter> set (before c cs) = {}) \<and> static_from (after c cs)
     else if prefix ''{}'' (c # cs) \<or> c = BS \<and> cs \<noteq> [] then static_from (tl cs)
     else c \<in> set SAFE_UNQUOTED \<and> static_from cs)"
  by (subst static_from.simps) simp

lemma static_induct [consumes 1, case_names nil quote braces escape safe]:
  assumes "static_from raw" and nil: "P []"
    and quote: "\<And>q cs. q = SQ \<or> q = DQ \<and> set DQ_UNSAFE \<inter> set (before q cs) = {} \<Longrightarrow> q \<in> set cs
      \<Longrightarrow> P (after q cs) \<Longrightarrow> P (q # cs)"
    and braces: "\<And>cs. P cs \<Longrightarrow> P (CHR ''{'' # CHR ''}'' # cs)"
    and escape: "\<And>c cs. P cs \<Longrightarrow> P (BS # c # cs)"
    and safe: "\<And>c cs. c \<in> set SAFE_UNQUOTED \<Longrightarrow> P cs \<Longrightarrow> P (c # cs)"
  shows "P raw"
  using assms(1)
proof (induction "length raw" arbitrary: raw rule: less_induct)
  case less
  show ?case
  proof (cases raw)
    case (Cons c cs)
    consider "c = SQ \<or> c = DQ" | "c \<noteq> SQ" "c \<noteq> DQ" "prefix ''{}'' (c # cs)"
      | "c = BS" "\<not> prefix ''{}'' (c # cs)" "cs \<noteq> []"
      | "c \<noteq> SQ" "c \<noteq> DQ" "\<not> (prefix ''{}'' (c # cs) \<or> c = BS \<and> cs \<noteq> [])" by (auto simp: BS_def SQ_def DQ_def)
    then show ?thesis
    proof cases
      case 1
      with less.prems Cons have f: "c \<in> set cs" "c = DQ \<longrightarrow> set DQ_UNSAFE \<inter> set (before c cs) = {}" "static_from (after c cs)"
        by (simp_all add: static_from_Cons)
      have "P (after c cs)" by (rule less.hyps) (use f(3) after_length [of c cs] Cons in simp_all)
      with 1 f show ?thesis unfolding Cons by (intro quote) auto
    next
      case 2
      then obtain ds where ds: "c = CHR ''{''" "cs = CHR ''}'' # ds" by (auto simp: prefix_def)
      with less.prems Cons 2 have "static_from ds" by (simp add: static_from_Cons)
      then have "P ds" by (intro less.hyps) (simp_all add: Cons ds)
      then show ?thesis unfolding Cons ds by (rule braces)
    next
      case 3
      then obtain d ds where ds: "cs = d # ds" by (cases cs) simp_all
      with less.prems Cons 3 have "static_from ds" by (simp add: static_from_Cons)
      then have "P ds" by (intro less.hyps) (simp_all add: Cons ds)
      then show ?thesis unfolding Cons ds 3(1) by (rule escape)
    next
      case 4
      with less.prems Cons have f: "c \<in> set SAFE_UNQUOTED" "static_from cs"
        by (simp_all add: static_from_Cons split: if_splits)
      have "P cs" by (rule less.hyps) (use f Cons in simp_all)
      with f show ?thesis unfolding Cons by (intro safe)
    qed
  qed (simp add: nil)
qed

lemma static_live: "static_from raw \<Longrightarrow> set (live Plain raw) \<subseteq> set SAFE_UNQUOTED \<union> {CHR ''{'', CHR ''}''}"
proof (induction raw rule: static_induct)
  case (quote q cs)
  then have "live Plain (q # cs) = live Plain (after q cs)" by (auto simp: live_single live_double)
  with quote show ?case by simp
qed (use brace_plain in \<open>auto dest!: safe_plain\<close>)

lemma read_to_quote:
  "q \<in> set cs \<Longrightarrow> q = SQ \<or> q = DQ \<and> set DQ_UNSAFE \<inter> set (before q cs) = {} \<Longrightarrow>
   shlex_read (In_Quote q) b t cs = shlex_read In_Word True (t @ before q cs) (after q cs)"
proof (induction cs arbitrary: b t)
  case (Cons c cs)
  show ?case
  proof (cases "c = q")
    case False
    with Cons.prems have "q \<in> set cs" "q = SQ \<or> q = DQ \<and> set DQ_UNSAFE \<inter> set (before q cs) = {}"
        "\<not> (c = BS \<and> q = DQ)"
      by (auto simp: before_def DQ_UNSAFE_def)
    with Cons.IH [of True "t @ [c]"] False show ?thesis by (auto simp: before_def after_def)
  qed (simp add: before_def after_def)
qed simp

lemma static_one_word:
  "static_from raw \<Longrightarrow> raw \<noteq> [] \<or> t \<noteq> [] \<or> b \<Longrightarrow> \<exists>w. shlex_read In_Word b t raw = Inr [w]"
proof (induction raw arbitrary: b t rule: static_induct)
  case (quote q cs)
  have "shlex_read In_Word b t (q # cs) = shlex_read In_Word True (t @ before q cs) (after q cs)"
    using read_to_quote [OF quote(2,1), of b t] quote(1) by auto
  with quote.IH show ?case by simp
next
  case (braces cs)
  show ?case using braces.IH [of "t @ ''{}''" b] brace_plain by simp
next
  case (escape c cs)
  show ?case using escape.IH [of "t @ [c]" b] by simp
next
  case (safe c cs)
  show ?case using safe.IH [of "t @ [c]" b] safe_plain [OF safe(1)] by simp
qed auto

lemma static_first: "static_from (c # cs) \<Longrightarrow> \<not> shlex_white c"
proof (cases "c = SQ \<or> c = DQ \<or> c = BS \<or> c = CHR ''{''")
  case False
  assume "static_from (c # cs)"
  with False have "c \<in> set SAFE_UNQUOTED" by (simp add: static_from_Cons split: if_splits)
  then show ?thesis using safe_plain by blast
qed (use brace_plain in \<open>elim disjE, simp_all\<close>)

text \<open>A word that counts as a static literal is one word: lexing its source text gives exactly one word, and no
  character that bash interprets in it is a dollar sign, a backquote, a glob, a tilde, white space or an operator.
  Only letters, digits, a few signs and braces stand outside quotes.\<close>

theorem literal_is_one_word:
  assumes "static_shape raw" and "raw \<noteq> []"
  shows "\<exists>w. shlex_split raw = Inr [w] \<and>
     set (live Plain raw) \<subseteq> set SAFE_UNQUOTED \<union> {CHR ''{'', CHR ''}'', CHR ''['', CHR '']''}"
proof (cases "raw \<in> {''['', '']''}")
  case True
  then show ?thesis by (elim insertE emptyE) (simp_all add: shlex_split_def shlex_white_def SQ_def DQ_def BS_def)
next
  case False
  with assms have s: "static_from raw" by (simp add: static_shape_def)
  obtain c cs where raw: "raw = c # cs" using assms(2) by (cases raw) simp_all
  then have "shlex_split raw = shlex_read In_Word False [] raw"
    using static_first [of c cs] s by (simp add: shlex_split_def)
  with static_one_word [OF s, of "[]" False] assms(2) static_live [OF s] show ?thesis by auto
qed

lemma literal_is_one_word_witness:
  "\<exists>w. shlex_split (DQ # ''a b'' @ [DQ] @ ''.txt'') = Inr [w]"
proof -
  have "static_shape (DQ # ''a b'' @ [DQ] @ ''.txt'')" by code_simp
  from literal_is_one_word [OF this] show ?thesis by blast
qed

end
