(* ===== verification/Shell_Unwrap.thy ===== *)
theory Shell_Unwrap
  imports Shell_Ast
begin

text \<open>
  The second half of \<open>security/ast_parser.py\<close>: the wrappers (\<open>bash -c\<close>, \<open>env\<close>, \<open>xargs\<close>, \<open>find -exec\<close>, \<open>command\<close>,
  package runners and others) and the mutual recursion of \<open>_emit\<close> and \<open>_extract\<close>.

  An unwrapper of the code checks its words and then calls \<open>_emit\<close> on a position, or \<open>_extract\<close> on a text. Here
  it returns these targets, with the flag it passes on as \<open>dynamic_args\<close>; \<open>emit\<close> visits them in order. What
  \<open>emit\<close> and \<open>extract_in\<close> return is what the code appends to its accumulator.
\<close>

datatype target = Run nat bool | Script string bool

type_synonym 'a result = "shell_error + 'a"

definition refuse :: "string \<Rightarrow> 'a result" where
  "refuse msg = Inl (Unparseable msg)"

definition toks :: "wd list \<Rightarrow> string list" where
  "toks ws = map w_word ws"

section \<open>Shells\<close>

definition SHELL_INTERPRETERS :: "string list" where
  "SHELL_INTERPRETERS = [''bash'', ''sh'', ''zsh'', ''dash'', ''ksh'']"

definition SHELL_FLAGS :: string where "SHELL_FLAGS = ''eulxv''"

definition DASH_C_SHELLS :: "string list" where
  "DASH_C_SHELLS = [''bash'', ''sh'', ''dash'']"

definition STDIN_SCRIPT :: rx where
  "STDIN_SCRIPT = alts [lit ''-'', Seq (lit ''/dev/'') (Star (none_of [CHR 0x0A])),
     Seq (lit ''/proc/'') (Star (none_of [CHR 0x0A]))]"

definition one_slash :: "string \<Rightarrow> string" where
  "one_slash s = (if prefix ''/'' s then CHR ''/'' # dropWhile (\<lambda>c. c = CHR ''/'') s else s)"

definition is_stdin_path :: "string \<Rightarrow> bool" where
  "is_stdin_path tok = (re_fullmatch STDIN_SCRIPT (one_slash (normpath tok)) \<noteq> None)"

text \<open>The loop over the options of a shell: the operand's position and whether \<open>-c\<close> was among them.\<close>

fun shell_opts :: "wd list \<Rightarrow> nat \<Rightarrow> bool \<Rightarrow> (nat \<times> bool) result" where
  "shell_opts [] j dash_c = Inr (j, dash_c)"
| "shell_opts (w # ws) j dash_c =
     bindE (require_literal [w] 0 1) (\<lambda>_.
       let tok = w_word w in
       if tok = ''--'' then Inr (Suc j, dash_c)
       else if take 1 tok \<notin> {''-'', ''+''} \<or> tok = ''-'' then Inr (j, dash_c)
       else let c = (prefix ''-'' tok \<and> CHR ''c'' \<in> set (tl tok));
                flags = (if c then set (tl tok) - {CHR ''c''} else set (tl tok)) in
            if \<not> flags \<subseteq> set SHELL_FLAGS \<or> tl tok = []
            then refuse (''shell option '' @ tok @ '' cannot be validated'')
            else shell_opts ws (Suc j) (dash_c \<or> c))"

definition unwrap_dash_c :: "wd list \<Rightarrow> nat \<Rightarrow> bool \<Rightarrow> target list result" where
  "unwrap_dash_c ws idx dyn =
     bindE (shell_opts (drop (Suc idx) ws) (Suc idx) False) (\<lambda>(j, dash_c).
     if length ws \<le> j then refuse ''shell has no command or script; cannot validate''
     else bindE (require_literal ws j (Suc j)) (\<lambda>_.
       if dash_c then
         (if path_basename (toks ws ! idx) \<notin> set DASH_C_SHELLS
          then refuse (toks ws ! idx @ '' -c cannot be validated'')
          else Inr [Script (toks ws ! j) dyn])
       else if is_stdin_path (toks ws ! j)
       then refuse (''shell operand '' @ toks ws ! j @ '' cannot be validated'')
       else Inr []))"

section \<open>\<open>env\<close>\<close>

definition ENV_VALUE_LONG :: "string list" where
  "ENV_VALUE_LONG = [''--unset'', ''--chdir'', ''--argv0'']"

definition ENV_FLAG_LONG :: "string list" where
  "ENV_FLAG_LONG = [
     ''--ignore-environment'', ''--null'', ''--debug'', ''--default-signal'', ''--ignore-signal'',
     ''--block-signal'', ''--list-signal-handling'']"

text \<open>The letters of a short option group of \<open>env\<close>, with the word that follows it if there is one.\<close>

fun env_letters :: "string \<Rightarrow> string option \<Rightarrow> unit result" where
  "env_letters [] nxt = Inr ()"
| "env_letters (c # cs) nxt =
     (if c = CHR ''i'' then refuse ''env -i clears environment pins''
      else if c = CHR ''u'' then
        (if cs \<noteq> [] then env_key_refusal cs
         else case nxt of None \<Rightarrow> refuse ''env -u missing variable name'' | Some v \<Rightarrow> env_key_refusal v)
      else if c = CHR ''C'' \<or> c = CHR ''a'' then Inr ()
      else env_letters cs nxt)"

definition check_env_opt :: "string list \<Rightarrow> nat \<Rightarrow> unit result" where
  "check_env_opt ts j = (let tok = ts ! j; nxt = (if Suc j < length ts then Some (ts ! Suc j) else None) in
     if prefix ''--'' tok then
       (let opt' = before (CHR ''='') tok; eq = (CHR ''='' \<in> set tok) in
        if opt' \<noteq> ''--'' \<and> prefix opt' ''--ignore-environment''
        then refuse ''env --ignore-environment clears environment pins''
        else if opt' \<noteq> ''--'' \<and> prefix opt' ''--unset'' then
          (if eq then env_key_refusal (after (CHR ''='') tok)
           else case nxt of None \<Rightarrow> refuse ''env --unset missing variable name'' | Some v \<Rightarrow> env_key_refusal v)
        else Inr ())
     else env_letters (tl tok) nxt)"

text \<open>\<open>_skip_env_opt\<close>: whether the option takes the next word as its value.\<close>

fun letter_value :: "string \<Rightarrow> bool" where
  "letter_value [] = False"
| "letter_value (c # cs) = (if c \<in> {CHR ''u'', CHR ''C'', CHR ''a''} then cs = [] else letter_value cs)"

definition skip_env_opt :: "string \<Rightarrow> bool result" where
  "skip_env_opt tok =
     (if prefix ''--s'' tok \<or> CHR ''S'' \<in> set (tl tok) \<and> \<not> prefix ''--'' tok
      then refuse ''env -S/--split-string cannot be validated''
      else if prefix ''--'' tok then
        (let name = before (CHR ''='') tok in
         if name \<noteq> ''--'' \<and> list_ex (\<lambda>v. prefix name v) ENV_VALUE_LONG then Inr (CHR ''='' \<notin> set tok)
         else if name \<in> set ENV_FLAG_LONG \<or> tok = ''--'' then Inr False
         else refuse (''env option '' @ tok @ '' cannot be validated''))
      else Inr (letter_value (tl tok)))"

definition step_over :: "nat \<Rightarrow> bool \<Rightarrow> nat" where
  "step_over j takes_value = (if takes_value then j + 2 else j + 1)"

text \<open>The loop of \<open>_unwrap_env\<close>: the position of the command.\<close>

function env_loop :: "string list \<Rightarrow> nat \<Rightarrow> bool \<Rightarrow> nat result" where
  "env_loop ts j opts =
     (if length ts \<le> j then Inr j
      else let tok = ts ! j in
        if opts \<and> tok = ''-'' then refuse ''env - clears environment pins''
        else if opts \<and> tok = ''--'' then env_loop ts (j + 1) False
        else if opts \<and> prefix ''-'' tok then
          (case bindE (check_env_opt ts j) (\<lambda>_. skip_env_opt tok) of
             Inl e \<Rightarrow> Inl e | Inr v \<Rightarrow> env_loop ts (step_over j v) opts)
        else if CHR ''='' \<in> set tok \<and> \<not> prefix ''='' tok then
          (case env_key_refusal tok of Inl e \<Rightarrow> Inl e | Inr _ \<Rightarrow> env_loop ts (j + 1) False)
        else Inr j)"
  by pat_completeness auto

termination
  by (relation "measure (\<lambda>(ts, j, opts). length ts - j)") (auto simp: step_over_def)

declare env_loop.simps [simp del]

definition run_at :: "wd list \<Rightarrow> nat \<Rightarrow> bool \<Rightarrow> target list" where
  "run_at ws j dyn = (if j < length ws then [Run j dyn] else [])"

definition unwrap_env :: "wd list \<Rightarrow> nat \<Rightarrow> bool \<Rightarrow> target list result" where
  "unwrap_env ws idx dyn =
     bindE (env_loop (toks ws) (Suc idx) True) (\<lambda>j.
     bindE (require_literal ws (Suc idx) j) (\<lambda>_. Inr (run_at ws j dyn)))"

section \<open>\<open>xargs\<close> and \<open>find\<close>\<close>

definition XARGS_VALUE_SHORT :: string where "XARGS_VALUE_SHORT = ''InPdEsLa''"
definition XARGS_ATTACHED_SHORT :: string where "XARGS_ATTACHED_SHORT = ''iel''"

definition XARGS_FLAG_LONG :: "string list" where
  "XARGS_FLAG_LONG = [
     ''--null'', ''--open-tty'', ''--exit'', ''--no-run-if-empty'', ''--verbose'', ''--interactive'',
     ''--show-limits'', ''--help'', ''--version'', ''--eof'', ''--replace'', ''--max-lines'']"

definition skip_xargs_opt :: "string \<Rightarrow> bool result" where
  "skip_xargs_opt tok =
     (if prefix ''--'' tok then
        (if CHR ''='' \<in> set tok \<or> tok \<in> set XARGS_FLAG_LONG \<or> tok = ''--'' then Inr False
         else refuse (''xargs option '' @ tok @ '' cannot be validated''))
      else case tl tok of
        c # cs \<Rightarrow>
          if c \<in> set XARGS_VALUE_SHORT then Inr (cs = [])
          else if c \<notin> set XARGS_ATTACHED_SHORT \<and>
            list_ex (\<lambda>d. d \<in> set (XARGS_VALUE_SHORT @ XARGS_ATTACHED_SHORT)) cs
          then refuse (''xargs options '' @ tok @ '' cannot be validated'')
          else Inr False
      | [] \<Rightarrow> Inr False)"

function xargs_loop :: "string list \<Rightarrow> nat \<Rightarrow> nat result" where
  "xargs_loop ts j =
     (if length ts \<le> j then Inr j
      else if ts ! j = ''--'' then Inr (j + 1)
      else if prefix ''-'' (ts ! j) \<and> ts ! j \<noteq> ''-'' then
        (case skip_xargs_opt (ts ! j) of Inl e \<Rightarrow> Inl e | Inr v \<Rightarrow> xargs_loop ts (step_over j v))
      else Inr j)"
  by pat_completeness auto

termination
  by (relation "measure (\<lambda>(ts, j). length ts - j)") (auto simp: step_over_def)

declare xargs_loop.simps [simp del]

definition unwrap_xargs :: "wd list \<Rightarrow> nat \<Rightarrow> bool \<Rightarrow> target list result" where
  "unwrap_xargs ws idx dyn =
     bindE (xargs_loop (toks ws) (Suc idx)) (\<lambda>j.
     bindE (require_literal ws (Suc idx) j) (\<lambda>_. Inr (run_at ws j True)))"

definition FIND_EXEC_ACTIONS :: "string list" where
  "FIND_EXEC_ACTIONS = [''-exec'', ''-execdir'', ''-ok'', ''-okdir'']"

definition unwrap_find_exec :: "wd list \<Rightarrow> nat \<Rightarrow> bool \<Rightarrow> target list result" where
  "unwrap_find_exec ws idx dyn =
     bindE (require_literal ws (Suc idx) (length ws)) (\<lambda>_.
       Inr (map (\<lambda>j. Run (Suc j) True)
         (filter (\<lambda>j. toks ws ! j \<in> set FIND_EXEC_ACTIONS) [Suc idx ..< length ws - 1])))"

section \<open>\<open>command\<close>, \<open>exec\<close>, \<open>timeout\<close>, \<open>time\<close>, \<open>source\<close>\<close>

definition is_opt :: "string \<Rightarrow> bool" where
  "is_opt tok = (prefix ''-'' tok \<and> tok \<noteq> ''-'')"

function skip_command_opts :: "string list \<Rightarrow> nat \<Rightarrow> nat option result" where
  "skip_command_opts ts j =
     (if j < length ts \<and> is_opt (ts ! j) then
        (if ts ! j = ''--'' then Inr (Some (j + 1))
         else if \<not> prefix ''--'' (ts ! j) \<and> {CHR ''v'', CHR ''V''} \<inter> set (tl (ts ! j)) \<noteq> {} then Inr None
         else skip_command_opts ts (j + 1))
      else Inr (Some j))"
  by pat_completeness auto
termination by (relation "measure (\<lambda>(ts, j). length ts - j)") auto

function skip_exec_opts :: "string list \<Rightarrow> nat \<Rightarrow> nat option result" where
  "skip_exec_opts ts j =
     (if j < length ts \<and> is_opt (ts ! j) then
        (if \<not> prefix ''--'' (ts ! j) \<and> CHR ''c'' \<in> set (tl (ts ! j))
         then refuse ''exec -c clears environment pins''
         else if ts ! j = ''--'' then Inr (Some (j + 1))
         else skip_exec_opts ts (step_over j
           (\<not> prefix ''--'' (ts ! j) \<and> py_find ''a'' (ts ! j) 0 = Some (length (ts ! j) - 1))))
      else Inr (Some j))"
  by pat_completeness auto
termination by (relation "measure (\<lambda>(ts, j). length ts - j)") (auto simp: step_over_def)

function skip_timeout_opts :: "string list \<Rightarrow> nat \<Rightarrow> nat option result" where
  "skip_timeout_opts ts j =
     (if j < length ts \<and> prefix ''-'' (ts ! j) then
        skip_timeout_opts ts (step_over j (ts ! j \<in> {''-s'', ''--signal'', ''-k'', ''--kill-after''}))
      else Inr (Some (j + 1)))"
  by pat_completeness auto
termination by (relation "measure (\<lambda>(ts, j). length ts - j)") (auto simp: step_over_def)

definition TIME_VALUE_OPTS :: "string list" where
  "TIME_VALUE_OPTS = [''-f'', ''-o'', ''--format'', ''--output'']"

definition TIME_FLAG_OPTS :: "string list" where
  "TIME_FLAG_OPTS = [''-p'', ''-a'', ''-v'', ''-q'', ''--portability'', ''--append'', ''--verbose'', ''--quiet'']"

function skip_time_opts :: "string list \<Rightarrow> nat \<Rightarrow> nat option result" where
  "skip_time_opts ts j =
     (if j < length ts \<and> prefix ''-'' (ts ! j) then
        (if ts ! j = ''--'' then Inr (Some (j + 1))
         else if ts ! j \<in> set TIME_VALUE_OPTS then skip_time_opts ts (j + 2)
         else if ts ! j \<in> set TIME_FLAG_OPTS \<or> prefix ''--format='' (ts ! j) \<or> prefix ''--output='' (ts ! j)
         then skip_time_opts ts (j + 1)
         else refuse (''time option '' @ ts ! j @ '' cannot be validated''))
      else Inr (Some j))"
  by pat_completeness auto
termination by (relation "measure (\<lambda>(ts, j). length ts - j)") auto

declare skip_command_opts.simps [simp del] skip_exec_opts.simps [simp del]
  skip_timeout_opts.simps [simp del] skip_time_opts.simps [simp del]

definition PREFIXES :: "string list" where
  "PREFIXES = [''command'', ''exec'', ''timeout'', ''time'']"

definition prefix_opt_skipper :: "string \<Rightarrow> string list \<Rightarrow> nat \<Rightarrow> nat option result" where
  "prefix_opt_skipper name ts j =
     (if name = ''command'' then skip_command_opts ts j
      else if name = ''exec'' then skip_exec_opts ts j
      else if name = ''timeout'' then skip_timeout_opts ts j
      else if name = ''time'' then skip_time_opts ts j
      else Inl (Crash name))"

definition unwrap_prefix :: "wd list \<Rightarrow> nat \<Rightarrow> bool \<Rightarrow> target list result" where
  "unwrap_prefix ws idx dyn =
     (let opts_end = Suc idx + length (takeWhile is_opt (drop (Suc idx) (toks ws))) in
      bindE (require_literal ws (Suc idx) opts_end) (\<lambda>_.
      bindE (prefix_opt_skipper (path_basename (toks ws ! idx)) (toks ws) (Suc idx)) (\<lambda>r. case r of
          None \<Rightarrow> Inr []
        | Some j \<Rightarrow> bindE (require_literal ws (Suc idx) j) (\<lambda>_. Inr (run_at ws j dyn)))))"

definition unwrap_source :: "wd list \<Rightarrow> nat \<Rightarrow> bool \<Rightarrow> target list result" where
  "unwrap_source ws idx dyn =
     (if Suc idx < length ws then
        bindE (require_literal ws (Suc idx) (idx + 2)) (\<lambda>_. let script = toks ws ! Suc idx in
          if prefix ''-'' script \<or> is_stdin_path script
          then refuse (''source operand '' @ script @ '' cannot be validated'') else Inr [])
      else Inr [])"

section \<open>Package runners\<close>

definition RUNNER_FLAGS :: "string list" where
  "RUNNER_FLAGS = [
     ''--no'', ''-q'', ''--quiet'', ''--ignore-existing'', ''--no-install'', ''--include-workspace-root'',
     ''--workspaces'', ''-ws'']"

definition RUNNER_VALUE_OPTS :: "string list" where
  "RUNNER_VALUE_OPTS = [''-w'', ''--workspace'']"

definition RUNNER_SUBCOMMANDS :: "(string \<times> string list list) list" where
  "RUNNER_SUBCOMMANDS = [
     (''pnpm'', [[''exec''], [''dlx'']]),
     (''yarn'', [[''exec''], [''dlx'']]),
     (''bun'', [[''x''], [''run'']]),
     (''uv'', [[''tool'', ''run''], [''run'']]),
     (''pipx'', [[''run'']])]"

definition RUNNER_GLOBALS :: "(string \<times> string list \<times> string list) list" where
  "RUNNER_GLOBALS = [
     (''pnpm'', ([''-r'', ''--recursive'', ''-w'', ''--workspace-root'', ''-s'', ''--silent'', ''--parallel'', ''--stream''],
        [''--filter'', ''-F'', ''-C'', ''--dir''])),
     (''yarn'', ([''-s'', ''--silent''], [''--cwd''])),
     (''bun'', ([''--bun'', ''--silent''], [''--cwd'']))]"

definition YARN_FOREACH_FLAGS :: "string list" where
  "YARN_FOREACH_FLAGS = [
     ''-A'', ''--all'', ''-R'', ''--recursive'', ''-W'', ''--worktree'', ''-p'', ''--parallel'', ''-i'',
     ''--interlaced'', ''-t'', ''--topological'', ''--topological-dev'', ''-v'', ''--verbose'']"

definition YARN_FOREACH_VALUES :: "string list" where
  "YARN_FOREACH_VALUES = [''--include'', ''--exclude'', ''--from'', ''-j'', ''--jobs'']"

definition pnpm_builtins :: "string list" where
  "pnpm_builtins = [
     ''add'', ''approve-builds'', ''audit'', ''bin'', ''c'', ''cache'', ''cat-file'', ''cat-index'',
     ''config'', ''create'', ''dedupe'', ''deploy'', ''doctor'', ''env'', ''fetch'', ''find-hash'',
     ''help'', ''i'', ''ignored-builds'', ''import'', ''init'', ''install'', ''install-test'', ''it'',
     ''la'', ''licenses'', ''link'', ''list'', ''ll'', ''ln'', ''ls'', ''outdated'', ''pack'', ''patch'',
     ''patch-commit'', ''patch-remove'', ''prune'', ''publish'', ''rb'', ''rebuild'', ''remove'', ''rm'',
     ''root'', ''run'', ''run-script'', ''self-update'', ''server'', ''setup'', ''start'', ''store'',
     ''t'', ''test'', ''tst'', ''un'', ''uninstall'', ''unlink'', ''up'', ''update'', ''upgrade'', ''why'']"

definition yarn_builtins :: "string list" where
  "yarn_builtins = [
     ''add'', ''audit'', ''autoclean'', ''bin'', ''cache'', ''check'', ''config'', ''constraints'',
     ''create'', ''dedupe'', ''explain'', ''generate-lock-entry'', ''global'', ''help'', ''import'',
     ''info'', ''init'', ''install'', ''licenses'', ''link'', ''list'', ''login'', ''logout'', ''npm'',
     ''outdated'', ''owner'', ''pack'', ''patch'', ''patch-commit'', ''plugin'', ''policies'', ''publish'',
     ''rebuild'', ''remove'', ''run'', ''search'', ''set'', ''stage'', ''tag'', ''team'', ''test'',
     ''unlink'', ''unplug'', ''up'', ''upgrade'', ''upgrade-interactive'', ''version'', ''versions'',
     ''why'', ''workspaces'']"

definition bun_builtins :: "string list" where
  "bun_builtins = [
     ''a'', ''add'', ''audit'', ''build'', ''c'', ''completions'', ''create'', ''help'', ''i'', ''info'',
     ''init'', ''install'', ''link'', ''outdated'', ''patch'', ''patch-commit'', ''pm'', ''publish'',
     ''remove'', ''repl'', ''rm'', ''test'', ''unlink'', ''update'', ''upgrade'', ''why'']"

definition RUNNER_BUILTINS :: "(string \<times> string list) list" where
  "RUNNER_BUILTINS = [(''pnpm'', pnpm_builtins), (''yarn'', yarn_builtins), (''bun'', bun_builtins)]"

definition NPM_GLOBAL_FLAGS :: "string list" where
  "NPM_GLOBAL_FLAGS = [
     ''-g'', ''--global'', ''-s'', ''--silent'', ''-q'', ''--quiet'', ''-d'', ''--verbose'', ''-y'',
     ''--yes'', ''-ws'', ''--workspaces'', ''--include-workspace-root'', ''-v'', ''--version'', ''-h'',
     ''--help'']"

definition NPM_GLOBAL_VALUE_OPTS :: "string list" where
  "NPM_GLOBAL_VALUE_OPTS = [''-w'', ''--workspace'', ''--prefix'', ''--loglevel'', ''--registry'']"

definition NPM_SUBCOMMAND_OPTS :: "string list" where
  "NPM_SUBCOMMAND_OPTS = [
     ''--save'', ''-S'', ''--save-dev'', ''-D'', ''--save-exact'', ''-E'', ''--save-optional'', ''-O'',
     ''--save-peer'', ''--no-save'', ''--omit'', ''--include'', ''--production'', ''--only'',
     ''--legacy-peer-deps'', ''--strict-peer-deps'', ''--ignore-scripts'', ''--no-audit'', ''--no-fund'',
     ''--force'', ''-f'', ''--dry-run'', ''--json'', ''--parseable'', ''--depth'', ''--all'', ''-a'',
     ''--audit-level'', ''--if-present'', ''--long'', ''-l'', ''--prefer-offline'', ''--prefer-online'',
     ''--offline'', ''--no-package-lock'', ''--package-lock-only'', ''--frozen-lockfile'',
     ''--no-git-tag-version'']"

text \<open>
  \<open>_check_package_runner\<close> with the option sets its callers choose: \<open>npm_opts\<close> stands for the runner's own sets,
  its absence for empty ones.
\<close>

function runner_loop :: "string list \<Rightarrow> string list \<Rightarrow> wd list \<Rightarrow> nat \<Rightarrow> nat result" where
  "runner_loop flags value_opts ws j =
     (if length ws \<le> j then Inr j
      else let tok = toks ws ! j; name = before (CHR ''='') tok in
        if tok = ''--'' then Inr (j + 1)
        else if \<not> prefix ''-'' tok then Inr j
        else if name \<in> set value_opts \<or> tok \<in> set flags then
          (let nxt = step_over j (name \<in> set value_opts \<and> CHR ''='' \<notin> set tok) in
           case require_literal ws j nxt of Inl e \<Rightarrow> Inl e | Inr _ \<Rightarrow> runner_loop flags value_opts ws nxt)
        else if name \<in> {''-c'', ''--call'', ''--shell-mode''}
        then refuse (''package runner option '' @ tok @ '' runs a shell command string'')
        else refuse (''package runner option '' @ tok @ '' cannot be validated''))"
  by pat_completeness auto

termination
  by (relation "measure (\<lambda>(f, v, ws, j). length ws - j)") (auto simp: step_over_def Let_def)

declare runner_loop.simps [simp del]

definition check_package_runner :: "string list \<Rightarrow> string list \<Rightarrow> wd list \<Rightarrow> nat \<Rightarrow> nat result" where
  "check_package_runner flags value_opts ws start =
     bindE (runner_loop flags value_opts ws start) (\<lambda>j.
     if j < length ws then bindE (require_literal ws j (Suc j)) (\<lambda>_. Inr j) else Inr j)"

lemma runner_loop_ge: "runner_loop flags value_opts ws j = Inr k \<Longrightarrow> j \<le> k"
proof (induction flags value_opts ws j rule: runner_loop.induct)
  case (1 flags value_opts ws j)
  show ?case
    using 1(2) 1(1) [OF _ refl refl _ _ _ refl]
    by (subst (asm) runner_loop.simps)
       (fastforce simp: Let_def refuse_def step_over_def split: if_splits sum.splits)
qed

lemma check_package_runner_ge: "check_package_runner flags value_opts ws j = Inr k \<Longrightarrow> j \<le> k"
  by (auto simp: check_package_runner_def bindE_Inr_iff dest: runner_loop_ge split: if_splits)

definition unwrap_npx :: "wd list \<Rightarrow> nat \<Rightarrow> bool \<Rightarrow> target list result" where
  "unwrap_npx ws idx dyn =
     bindE (if path_basename (toks ws ! idx) = ''npx''
            then check_package_runner RUNNER_FLAGS RUNNER_VALUE_OPTS ws (Suc idx)
            else check_package_runner [] [] ws (Suc idx)) (\<lambda>j. Inr (run_at ws j dyn))"

definition skip_runner_prefix :: "wd list \<Rightarrow> nat \<Rightarrow> string \<Rightarrow> nat option result" where
  "skip_runner_prefix ws k tool = (let w = toks ws ! k in
     if tool = ''pnpm'' \<and> w \<in> {''recursive'', ''multi'', ''m''} then
       bindE (check_package_runner [] [] ws (k + 1)) (\<lambda>j. Inr (Some j))
     else if tool = ''yarn'' \<and> w = ''workspace'' then
       bindE (require_literal ws (k + 1) (k + 2)) (\<lambda>_.
       bindE (check_package_runner [] [] ws (k + 2)) (\<lambda>j. Inr (Some j)))
     else if tool = ''yarn'' \<and> w = ''workspaces'' \<and> k + 1 < length ws then
       bindE (require_literal ws (k + 1) (k + 2)) (\<lambda>_.
       if toks ws ! (k + 1) = ''foreach''
       then bindE (check_package_runner YARN_FOREACH_FLAGS YARN_FOREACH_VALUES ws (k + 2)) (\<lambda>j. Inr (Some j))
       else Inr None)
     else Inr None)"

fun subcommand_target :: "wd list \<Rightarrow> nat \<Rightarrow> string list list \<Rightarrow> nat option result" where
  "subcommand_target ws k [] = Inr None"
| "subcommand_target ws k (sub # subs) =
     (if sub \<noteq> [] \<and> toks ws ! k = hd sub then
        bindE (require_literal ws k (k + length sub)) (\<lambda>_.
        let got = slice (toks ws) k (k + length sub) in
        if got = sub then bindE (check_package_runner [] [] ws (k + length sub)) (\<lambda>j. Inr (Some j))
        else if list_ex (\<lambda>w. prefix ''-'' w) (tl got)
        then refuse ''package runner option inside a subcommand cannot be validated''
        else subcommand_target ws k subs)
      else subcommand_target ws k subs)"

lemma skip_runner_prefix_gt: "skip_runner_prefix ws k tool = Inr (Some j) \<Longrightarrow> k < j"
  by (auto simp: skip_runner_prefix_def Let_def bindE_Inr_iff dest!: check_package_runner_ge split: if_splits)

text \<open>The loop of \<open>_unwrap_subcommand_runner\<close>.\<close>

function runner_words :: "wd list \<Rightarrow> string \<Rightarrow> nat \<Rightarrow> bool \<Rightarrow> target list result" where
  "runner_words ws tool k dyn =
     (if length ws \<le> k then Inr []
      else case skip_runner_prefix ws k tool of
        Inl e \<Rightarrow> Inl e
      | Inr (Some nxt) \<Rightarrow> runner_words ws tool nxt dyn
      | Inr None \<Rightarrow>
          (let w = toks ws ! k in
           if tool = ''bun'' \<and> w = ''exec'' then
             (if k + 2 \<noteq> length ws then refuse ''bun exec requires one shell command string''
              else bindE (require_literal ws (k + 1) (k + 2)) (\<lambda>_. Inr [Script (toks ws ! (k + 1)) dyn]))
           else bindE (require_literal ws k (k + 1)) (\<lambda>_.
             bindE (subcommand_target ws k (ddefault [] RUNNER_SUBCOMMANDS tool)) (\<lambda>r. case r of
                 Some j \<Rightarrow> Inr (run_at ws j dyn)
               | None \<Rightarrow> (case map_of RUNNER_BUILTINS tool of
                     Some bs \<Rightarrow> Inr (if w \<notin> set bs then [Run k dyn] else [])
                   | None \<Rightarrow> Inr [])))))"
  by pat_completeness auto

termination
  by (relation "measure (\<lambda>(ws, tool, k, dyn). length ws - k)") (auto dest!: skip_runner_prefix_gt)

declare runner_words.simps [simp del]

definition unwrap_subcommand_runner :: "wd list \<Rightarrow> nat \<Rightarrow> bool \<Rightarrow> target list result" where
  "unwrap_subcommand_runner ws idx dyn =
     (if length ws \<le> Suc idx then Inr []
      else let tool = path_basename (toks ws ! idx) in
        case map_of RUNNER_GLOBALS tool of
          Some (flags, value_opts) \<Rightarrow>
            bindE (check_package_runner flags value_opts ws (Suc idx)) (\<lambda>k. runner_words ws tool k dyn)
        | None \<Rightarrow>
            if prefix ''-'' (toks ws ! Suc idx) then
              bindE (require_literal ws (Suc idx) (length ws)) (\<lambda>_.
                if list_ex (\<lambda>t. list_ex (\<lambda>sub. sub \<noteq> [] \<and> t = hd sub) (ddefault [] RUNNER_SUBCOMMANDS tool))
                     (drop (Suc idx) (toks ws))
                then refuse ''package runner subcommand after global option cannot be validated''
                else Inr [])
            else runner_words ws tool (Suc idx) dyn)"

section \<open>\<open>npm\<close> and \<open>cargo\<close>\<close>

function npm_globals :: "wd list \<Rightarrow> nat \<Rightarrow> nat result" where
  "npm_globals ws k =
     (if length ws \<le> k then Inr k
      else let tok = toks ws ! k; name = before (CHR ''='') tok in
        if tok = ''--'' then Inr (k + 1)
        else if \<not> prefix ''-'' tok then Inr k
        else if name \<in> set NPM_GLOBAL_VALUE_OPTS \<or> tok \<in> set NPM_GLOBAL_FLAGS then
          (let nxt = step_over k (name \<in> set NPM_GLOBAL_VALUE_OPTS \<and> CHR ''='' \<notin> set tok) in
           case require_literal ws k nxt of Inl e \<Rightarrow> Inl e | Inr _ \<Rightarrow> npm_globals ws nxt)
        else refuse (''npm option '' @ tok @ '' cannot be validated''))"
  by pat_completeness auto

termination
  by (relation "measure (\<lambda>(ws, k). length ws - k)") (auto simp: step_over_def Let_def)

declare npm_globals.simps [simp del]

definition npm_allowed :: "bool \<Rightarrow> string \<Rightarrow> bool" where
  "npm_allowed is_exec name =
     (name \<in> set NPM_GLOBAL_FLAGS \<and> (is_exec \<longrightarrow> name \<notin> {''-y'', ''--yes''}) \<or>
      name \<in> set NPM_GLOBAL_VALUE_OPTS \<or> name \<in> set NPM_SUBCOMMAND_OPTS \<or>
      is_exec \<and> (name \<in> set RUNNER_FLAGS \<or> name \<in> set RUNNER_VALUE_OPTS))"

definition npm_word :: "bool \<Rightarrow> wd \<Rightarrow> unit result" where
  "npm_word is_exec w =
     bindE (require_literal [w] 0 1) (\<lambda>_.
     ensure (\<not> (prefix ''-'' (w_word w) \<and> \<not> npm_allowed is_exec (before (CHR ''='') (w_word w))))
       (''npm option '' @ w_word w @ '' cannot be validated''))"

definition unwrap_npm :: "wd list \<Rightarrow> nat \<Rightarrow> bool \<Rightarrow> target list result" where
  "unwrap_npm ws idx dyn =
     bindE (npm_globals ws (Suc idx)) (\<lambda>k.
     if length ws \<le> k then Inr []
     else bindE (require_literal ws k (Suc k)) (\<lambda>_.
       let is_exec = (toks ws ! k \<in> {''exec'', ''x''}) in
       bindE (all_ok (npm_word is_exec)
         (takeWhile (\<lambda>w. w_word w \<noteq> ''--'') (drop (if is_exec then Suc idx else Suc k) ws))) (\<lambda>_.
       if is_exec
       then bindE (check_package_runner RUNNER_FLAGS RUNNER_VALUE_OPTS ws (Suc k)) (\<lambda>j. Inr (run_at ws j dyn))
       else Inr [])))"

definition TOML_PATH :: rx where
  "TOML_PATH = Seq (plus (Chr (\<lambda>c. word_char c \<or> c \<in> set ''./-''))) (lit ''.toml'')"

fun cargo_words :: "wd list \<Rightarrow> unit result" where
  "cargo_words [] = Inr ()"
| "cargo_words (w # ws) = (let tok = w_word w in
     bindE (ensure (tok \<noteq> ''watch'')
       ''cargo watch runs shell commands from a long-running watcher; not permitted'') (\<lambda>_.
     bindE (if tok = ''--config'' \<or> prefix ''--config='' tok then
              (let has_eq = (CHR ''='' \<in> set tok) in
               bindE (ensure (has_eq \<or> ws \<noteq> []) ''cargo --config without value cannot be validated'') (\<lambda>_.
               bindE (require_literal (w # ws) 0 (if has_eq then 1 else 2)) (\<lambda>_.
               let val = (if has_eq then after (CHR ''='') tok else w_word (hd ws)) in
               ensure (re_fullmatch TOML_PATH val \<noteq> None)
                 (''cargo --config '' @ val @ '' is not a .toml file path''))))
            else Inr ()) (\<lambda>_. cargo_words ws)))"

definition unwrap_cargo :: "wd list \<Rightarrow> nat \<Rightarrow> bool \<Rightarrow> target list result" where
  "unwrap_cargo ws idx dyn = bindE (cargo_words (drop (Suc idx) ws)) (\<lambda>_. Inr [])"

section \<open>Emission and extraction\<close>

definition unwrap :: "string \<Rightarrow> wd list \<Rightarrow> nat \<Rightarrow> bool \<Rightarrow> target list result" where
  "unwrap name ws idx dyn =
     (if name \<in> set SHELL_INTERPRETERS then unwrap_dash_c ws idx dyn
      else if name = ''env'' then unwrap_env ws idx dyn
      else if name = ''xargs'' then unwrap_xargs ws idx dyn
      else if name = ''find'' then unwrap_find_exec ws idx dyn
      else if name \<in> set PREFIXES then unwrap_prefix ws idx dyn
      else if name \<in> {''source'', ''.''} then unwrap_source ws idx dyn
      else if name \<in> {''npx'', ''pnpx'', ''bunx'', ''uvx''} then unwrap_npx ws idx dyn
      else if name = ''npm'' then unwrap_npm ws idx dyn
      else if name \<in> fst ` set RUNNER_SUBCOMMANDS then unwrap_subcommand_runner ws idx dyn
      else if name = ''cargo'' then unwrap_cargo ws idx dyn
      else Inr [])"

definition MAX_DEPTH :: nat where "MAX_DEPTH = 25"

type_synonym entry = "string \<times> string \<times> bool"

text \<open>What \<open>_emit\<close> does with one command before it turns to the targets.\<close>

definition emit_here :: "nat \<Rightarrow> wd list \<Rightarrow> nat \<Rightarrow> bool \<Rightarrow> (entry \<times> target list) result" where
  "emit_here depth ws idx dyn =
     bindE (ensure (depth \<le> MAX_DEPTH) ''command nesting too deep to validate'') (\<lambda>_.
     case drop idx ws of
       [] \<Rightarrow> Inl (Crash ''list index out of range'')
     | w # _ \<Rightarrow>
         bindE (ensure (word_parts_are_literal w) ''command word is not a static literal; cannot validate'') (\<lambda>_.
         let name = path_basename (w_word w) in
         bindE (check_builtin ws idx name) (\<lambda>_.
         bindE (unwrap name ws idx dyn) (\<lambda>ts. Inr ((name, shlex_join (drop idx (toks ws)), dyn), ts)))))"

lemma emit_here_depth: "emit_here depth ws idx dyn = Inr r \<Longrightarrow> depth \<le> MAX_DEPTH"
  by (auto simp: emit_here_def bindE_Inr_iff)

text \<open>The second half of \<open>_extract\<close>, up to the calls of \<open>_emit\<close>: the commands of a text in order.\<close>

definition node_words :: "string \<Rightarrow> node \<Rightarrow> wd list list result" where
  "node_words text n =
     bindE (assignments_ok n) (\<lambda>_. bindE (command_words text n) (\<lambda>ws. Inr (if ws = [] then [] else [ws])))"

fun collect_all :: "node list \<Rightarrow> node list result" where
  "collect_all [] = Inr []"
| "collect_all (t # ts) = bindE (collect ([], []) t) (\<lambda>(out, _). bindE (collect_all ts) (\<lambda>ns. Inr (out @ ns)))"

definition command_nodes :: "(string \<Rightarrow> string + node list) \<Rightarrow> string \<Rightarrow> (string \<times> node list) result" where
  "command_nodes parse command_string =
     bindE (parsed parse command_string) (\<lambda>(text, trees).
     bindE (default_assigns text) (\<lambda>_.
     bindE (collect_all trees) (\<lambda>nodes. Inr (text, nodes))))"

function emit :: "(string \<Rightarrow> string + node list) \<Rightarrow> nat \<Rightarrow> wd list \<Rightarrow> nat \<Rightarrow> bool \<Rightarrow> entry list result"
  and extract_in :: "(string \<Rightarrow> string + node list) \<Rightarrow> nat \<Rightarrow> string \<Rightarrow> bool \<Rightarrow> entry list result" where
  "emit parse depth ws idx dyn =
     (case emit_here depth ws idx dyn of
        Inl e \<Rightarrow> Inl e
      | Inr (e, ts) \<Rightarrow>
          bindE (mapE (\<lambda>t. case t of Run j d \<Rightarrow> emit parse (Suc depth) ws j d
                           | Script s d \<Rightarrow> extract_in parse (Suc depth) s d) ts)
            (\<lambda>rs. Inr (e # concat rs)))"
| "extract_in parse depth command_string dyn =
     (case command_nodes parse command_string of
        Inl e \<Rightarrow> Inl e
      | Inr (text, nodes) \<Rightarrow>
          bindE (mapE (\<lambda>n. bindE (node_words text n)
                   (\<lambda>wss. bindE (mapE (\<lambda>ws. emit parse depth ws 0 dyn) wss) (\<lambda>rs. Inr (concat rs)))) nodes)
            (\<lambda>rs. Inr (concat rs)))"
  by pat_completeness auto

termination
  by (relation "measure (\<lambda>x. case x of Inl (parse, depth, ws, idx, dyn) \<Rightarrow> 2 * (Suc MAX_DEPTH - depth)
        | Inr (parse, depth, s, dyn) \<Rightarrow> Suc (2 * (Suc MAX_DEPTH - depth)))")
     (auto dest!: emit_here_depth)

declare emit.simps [simp del] extract_in.simps [simp del]

definition extract_command_segments_ast :: "(string \<Rightarrow> string + node list) \<Rightarrow> string \<Rightarrow> entry list result" where
  "extract_command_segments_ast parse command_string =
     (if command_string = [] \<or> py_strip command_string = [] then Inr []
      else extract_in parse 0 command_string False)"

definition extract_commands_ast :: "(string \<Rightarrow> string + node list) \<Rightarrow> string \<Rightarrow> string list result" where
  "extract_commands_ast parse command_string =
     bindE (extract_command_segments_ast parse command_string) (\<lambda>es. Inr (map fst es))"

end
