(* ===== verification/Shell_Spec.thy ===== *)
theory Shell_Spec
  imports Shell_Unwrap
begin

text \<open>
  What a command string runs, stated without the code: the commands of its tree, the commands behind wrappers,
  and those of the scripts handed to a shell with \<open>-c\<close>; and the proof that the extraction misses none of them.
\<close>

section \<open>The nodes of a tree\<close>

fun nodes_of :: "node \<Rightarrow> node list" where
  "nodes_of n = n # concat (map nodes_of (children n))"

declare nodes_of.simps [simp del]

lemma self_in_nodes_of: "n \<in> set (nodes_of n)"
  by (subst nodes_of.simps) simp

lemma nodes_of_iff: "m \<in> set (nodes_of n) \<longleftrightarrow> m = n \<or> (\<exists>c \<in> set (children n). m \<in> set (nodes_of c))"
  by (subst nodes_of.simps) auto

lemma child_in_nodes_of: "m \<in> set (nodes_of n) \<Longrightarrow> c \<in> set (children m) \<Longrightarrow> c \<in> set (nodes_of n)"
proof (induction n rule: nodes_of.induct)
  case (1 n)
  from 1(2) show ?case unfolding nodes_of_iff [of m n]
  proof
    assume "m = n"
    with 1(3) show ?thesis unfolding nodes_of_iff [of c n] using self_in_nodes_of by blast
  next
    assume "\<exists>k \<in> set (children n). m \<in> set (nodes_of k)"
    with 1(1,3) show ?thesis unfolding nodes_of_iff [of c n] by blast
  qed
qed

text \<open>An object graph: one identity, one object.\<close>

definition ids_ok :: "node \<Rightarrow> bool" where
  "ids_ok t = (\<forall>a \<in> set (nodes_of t). \<forall>b \<in> set (nodes_of t). nid a = nid b \<longrightarrow> a = b)"

section \<open>The walk visits every node\<close>

definition visited_ok :: "node set \<Rightarrow> nat set \<Rightarrow> nat set \<Rightarrow> node set \<Rightarrow> bool" where
  "visited_ok R old new out = (\<forall>m \<in> R. nid m \<in> new - old \<longrightarrow>
     nid ` set (children m) \<subseteq> new \<and> (nkind m = ''command'' \<longrightarrow> m \<in> out) \<and> node_checks m = Inr ())"

lemma visited_ok_trans:
  "visited_ok R a b out \<Longrightarrow> visited_ok R b c out' \<Longrightarrow> b \<subseteq> c \<Longrightarrow> out \<subseteq> out' \<Longrightarrow> visited_ok R a c out'"
  unfolding visited_ok_def by blast

lemma foldE_induct:
  assumes "foldE f s xs = Inr t" and "I [] s"
    and "\<And>ys x u v. x \<in> set xs \<Longrightarrow> I ys u \<Longrightarrow> f u x = Inr v \<Longrightarrow> I (x # ys) v"
  shows "\<exists>ys. set ys = set xs \<and> I ys t"
  using assms
proof (induction xs arbitrary: s I)
  case Nil
  then show ?case by (intro exI [of _ "[]"]) simp
next
  case (Cons x xs)
  from Cons.prems(1) obtain v where v: "f s x = Inr v" "foldE f v xs = Inr t"
    by (auto simp: bindE_Inr_iff)
  have "\<exists>ys. set ys = set xs \<and> I (ys @ [x]) t"
  proof (rule Cons.IH [of v "\<lambda>ys. I (ys @ [x])", OF v(2)])
    show "I ([] @ [x]) v" using Cons.prems(3) [OF _ Cons.prems(2) v(1)] by simp
  next
    fix ys y u w assume "y \<in> set xs" "I (ys @ [x]) u" "f u y = Inr w"
    then show "I ((y # ys) @ [x]) w" using Cons.prems(3) [of y "ys @ [x]" u w] by simp
  qed
  then obtain ys where "set ys = set xs" "I (ys @ [x]) t" by blast
  then show ?case by (intro exI [of _ "ys @ [x]"]) auto
qed

definition walk_ok :: "node set \<Rightarrow> node list \<times> nat list \<Rightarrow> node list \<times> nat list \<Rightarrow> bool" where
  "walk_ok R st st' = (set (fst st) \<subseteq> set (fst st') \<and> set (snd st) \<subseteq> set (snd st') \<and>
     visited_ok R (set (snd st)) (set (snd st')) (set (fst st')))"

lemma walk_ok_refl: "walk_ok R st st"
  by (simp add: walk_ok_def visited_ok_def)

lemma walk_ok_trans: "walk_ok R a b \<Longrightarrow> walk_ok R b c \<Longrightarrow> walk_ok R a c"
  unfolding walk_ok_def using visited_ok_trans by (meson subset_trans)

lemma walk_seen: "walk_ok R a b \<Longrightarrow> i \<in> set (snd a) \<Longrightarrow> i \<in> set (snd b)"
  unfolding walk_ok_def by blast

lemma collect_walk:
  assumes uniq: "\<forall>a \<in> R. \<forall>b \<in> R. nid a = nid b \<longrightarrow> a = b"
    and closed: "\<forall>a \<in> R. set (children a) \<subseteq> R"
  shows "n \<in> R \<Longrightarrow> collect st n = Inr st' \<Longrightarrow> walk_ok R st st' \<and> nid n \<in> set (snd st')"
proof (induction "size n" arbitrary: n st st' rule: less_induct)
  case less
  obtain out seen where st: "st = (out, seen)" by (cases st)
  show ?case
  proof (cases "nid n \<in> set seen")
    case True
    with less.prems st have "st' = st" by (simp add: collect.simps)
    with True st show ?thesis by (simp add: walk_ok_refl)
  next
    case False
    define st0 where "st0 = (out @ (if nkind n = ''command'' then [n] else []), nid n # seen)"
    from False less.prems st have ck: "node_checks n = Inr ()" and
      fo: "foldE collect st0 (children n) = Inr st'"
      by (auto simp: collect.simps bindE_Inr_iff st0_def)
    have "\<exists>ys. set ys = set (children n) \<and> (walk_ok R st0 st' \<and> nid ` set ys \<subseteq> set (snd st'))"
    proof (rule foldE_induct [OF fo, of "\<lambda>ys u. walk_ok R st0 u \<and> nid ` set ys \<subseteq> set (snd u)"])
      show "walk_ok R st0 st0 \<and> nid ` set [] \<subseteq> set (snd st0)" by (simp add: walk_ok_refl)
    next
      fix ys x u v
      assume x: "x \<in> set (children n)" and I: "walk_ok R st0 u \<and> nid ` set ys \<subseteq> set (snd u)"
        and c: "collect u x = Inr v"
      have "x \<in> R" using closed less.prems(1) x by blast
      from less.hyps [OF children_size [OF x] this c]
      have "walk_ok R u v" "nid x \<in> set (snd v)" by simp_all
      with I show "walk_ok R st0 v \<and> nid ` set (x # ys) \<subseteq> set (snd v)"
        using walk_ok_trans [of R st0 u v] walk_seen [of R u v] by auto
    qed
    then have w: "walk_ok R st0 st'" and ch: "nid ` set (children n) \<subseteq> set (snd st')" by auto
    have n': "nid n \<in> set (snd st')" using walk_seen [OF w] by (simp add: st0_def)
    have cmd: "nkind n = ''command'' \<longrightarrow> n \<in> set (fst st')" using w by (auto simp: walk_ok_def st0_def)
    have "visited_ok R (set (snd st)) (set (snd st')) (set (fst st'))"
      unfolding visited_ok_def
    proof (intro ballI impI)
      fix m assume m: "m \<in> R" "nid m \<in> set (snd st') - set (snd st)"
      show "nid ` set (children m) \<subseteq> set (snd st') \<and> (nkind m = ''command'' \<longrightarrow> m \<in> set (fst st'))
        \<and> node_checks m = Inr ()"
      proof (cases "nid m = nid n")
        case True
        with uniq m(1) less.prems(1) have "m = n" by blast
        with ch cmd ck show ?thesis by simp
      next
        case False
        with m(2) st have "nid m \<in> set (snd st') - set (snd st0)" by (auto simp: st0_def)
        with w m(1) show ?thesis unfolding walk_ok_def visited_ok_def by blast
      qed
    qed
    with w n' show ?thesis by (auto simp: walk_ok_def st0_def st)
  qed
qed

lemma collect_complete:
  assumes "ids_ok t" and "collect ([], []) t = Inr (out, seen)" and "m \<in> set (nodes_of t)"
  shows "node_checks m = Inr () \<and> (nkind m = ''command'' \<longrightarrow> m \<in> set out)"
proof -
  define R where "R = set (nodes_of t)"
  have closed: "\<forall>a \<in> R. set (children a) \<subseteq> R" unfolding R_def using child_in_nodes_of by blast
  have uniq: "\<forall>a \<in> R. \<forall>b \<in> R. nid a = nid b \<longrightarrow> a = b" using assms(1) by (simp add: ids_ok_def R_def)
  have w: "walk_ok R ([], []) (out, seen)" and t: "nid t \<in> set seen"
    using collect_walk [OF uniq closed _ assms(2)] self_in_nodes_of by (auto simp: R_def)
  then have v: "visited_ok R {} (set seen) (set out)" by (simp add: walk_ok_def)
  have "k \<in> set (nodes_of n) \<Longrightarrow> n \<in> R \<Longrightarrow> nid n \<in> set seen \<Longrightarrow> nid k \<in> set seen \<and> k \<in> R" for k n
  proof (induction n rule: nodes_of.induct)
    case (1 n)
    from 1(2) consider "k = n" | c where "c \<in> set (children n)" "k \<in> set (nodes_of c)"
      unfolding nodes_of_iff [of k n] by blast
    then show ?case
    proof cases
      case 2
      then have "c \<in> R" "nid c \<in> set seen" using v 1(3,4) closed unfolding visited_ok_def by blast+
      with 1(1) 2 show ?thesis by blast
    qed (use 1(3,4) in simp)
  qed
  from this [OF assms(3)] t self_in_nodes_of have "nid m \<in> set seen" "m \<in> R" by (auto simp: R_def)
  with v show ?thesis unfolding visited_ok_def by blast
qed

end
