(* ===== verification/Shell_Wrap.thy ===== *)
theory Shell_Wrap
  imports Shell_Spec
begin

text \<open>
  How a command line runs another command, in the words of the wrappers' manuals, and that the unwrappers of
  the code return every such command as a target.
\<close>

section \<open>The wrappers\<close>

definition assignment :: "string \<Rightarrow> bool" where
  "assignment t = (CHR ''='' \<in> set t \<and> \<not> prefix ''='' t \<and> \<not> prefix ''-'' t)"

definition operand :: "string \<Rightarrow> bool" where
  "operand t = (\<not> prefix ''-'' t \<and> \<not> prefix ''+'' t)"

text \<open>The options of \<open>env\<close>: flags, and options that take the next word.\<close>

inductive env_options :: "string list \<Rightarrow> nat \<Rightarrow> nat \<Rightarrow> bool" for ts :: "string list" where
  none: "env_options ts j j"
| flag: "j < length ts \<Longrightarrow> ts ! j \<in> {''-0'', ''-v'', ''--null'', ''--debug''} \<Longrightarrow> env_options ts (Suc j) k
    \<Longrightarrow> env_options ts j k"
| value_: "Suc j < length ts \<Longrightarrow> ts ! j \<in> {''-u'', ''-C'', ''--unset'', ''--chdir''} \<Longrightarrow> env_options ts (j + 2) k
    \<Longrightarrow> env_options ts j k"

definition all_between :: "(string \<Rightarrow> bool) \<Rightarrow> string list \<Rightarrow> nat \<Rightarrow> nat \<Rightarrow> bool" where
  "all_between P ts i j = (i \<le> j \<and> (\<forall>k. i \<le> k \<and> k < j \<longrightarrow> k < length ts \<and> P (ts ! k)))"

text \<open>\<open>wrapped ts i j\<close>: the command at word \<open>i\<close> runs the command at word \<open>j\<close>.\<close>

inductive wrapped :: "string list \<Rightarrow> nat \<Rightarrow> nat \<Rightarrow> bool" for ts :: "string list" where
  env: "path_basename (ts ! i) = ''env'' \<Longrightarrow> env_options ts (Suc i) k \<Longrightarrow> all_between assignment ts k j
    \<Longrightarrow> j < length ts \<Longrightarrow> \<not> assignment (ts ! j) \<Longrightarrow> operand (ts ! j) \<Longrightarrow> ts ! j \<noteq> [] \<Longrightarrow> CHR ''='' \<notin> set (ts ! j)
    \<Longrightarrow> wrapped ts i j"
| find: "path_basename (ts ! i) = ''find'' \<Longrightarrow> i < k \<Longrightarrow> ts ! k \<in> {''-exec'', ''-execdir'', ''-ok'', ''-okdir''}
    \<Longrightarrow> Suc k < length ts \<Longrightarrow> wrapped ts i (Suc k)"
| xargs: "path_basename (ts ! i) = ''xargs'' \<Longrightarrow> all_between (\<lambda>t. t \<in> {''-0'', ''-r'', ''-t'', ''-x'', ''-p''}) ts (Suc i) j
    \<Longrightarrow> j < length ts \<Longrightarrow> operand (ts ! j) \<Longrightarrow> wrapped ts i j"
| command: "path_basename (ts ! i) \<in> {''command'', ''time''} \<Longrightarrow> all_between (\<lambda>t. t = ''-p'') ts (Suc i) j
    \<Longrightarrow> j < length ts \<Longrightarrow> operand (ts ! j) \<Longrightarrow> wrapped ts i j"
| timeout: "path_basename (ts ! i) = ''timeout'' \<Longrightarrow> i + 2 < length ts \<Longrightarrow> operand (ts ! Suc i) \<Longrightarrow> wrapped ts i (i + 2)"
| exec: "path_basename (ts ! i) = ''exec'' \<Longrightarrow> Suc i < length ts \<Longrightarrow> operand (ts ! Suc i) \<Longrightarrow> wrapped ts i (Suc i)"
| npx: "path_basename (ts ! i) \<in> {''npx'', ''pnpx'', ''bunx'', ''uvx''} \<Longrightarrow> Suc i < length ts \<Longrightarrow> operand (ts ! Suc i)
    \<Longrightarrow> wrapped ts i (Suc i)"
| run: "path_basename (ts ! i) \<in> {''uv'', ''pipx'', ''bun''} \<Longrightarrow> ts ! Suc i = ''run'' \<Longrightarrow> i + 2 < length ts
    \<Longrightarrow> operand (ts ! (i + 2)) \<Longrightarrow> wrapped ts i (i + 2)"

text \<open>\<open>shell_payload ts i j\<close>: the shell at word \<open>i\<close> runs the text of word \<open>j\<close> as a script.\<close>

definition shell_option :: "string \<Rightarrow> bool" where
  "shell_option t = ((prefix ''-'' t \<or> prefix ''+'' t) \<and> t \<notin> {''-'', ''--''})"

inductive shell_payload :: "string list \<Rightarrow> nat \<Rightarrow> nat \<Rightarrow> bool" for ts :: "string list" where
  dash_c: "path_basename (ts ! i) \<in> {''bash'', ''sh'', ''dash'', ''zsh'', ''ksh''} \<Longrightarrow> all_between shell_option ts (Suc i) j
    \<Longrightarrow> i < k \<Longrightarrow> k < j \<Longrightarrow> prefix ''-'' (ts ! k) \<Longrightarrow> CHR ''c'' \<in> set (ts ! k) \<Longrightarrow> j < length ts \<Longrightarrow> operand (ts ! j)
    \<Longrightarrow> shell_payload ts i j"
| bun: "path_basename (ts ! i) = ''bun'' \<Longrightarrow> ts ! Suc i = ''exec'' \<Longrightarrow> i + 2 < length ts \<Longrightarrow> shell_payload ts i (i + 2)"

section \<open>The unwrappers return them\<close>

lemma toks_length [simp]: "length (toks ws) = length ws"
  by (simp add: toks_def)

lemma toks_nth [simp]: "i < length ws \<Longrightarrow> toks ws ! i = w_word (ws ! i)"
  by (simp add: toks_def)

lemma all_between_same [simp]: "all_between P ts i i"
  by (auto simp: all_between_def)

lemma all_between_step: "all_between P ts i j \<Longrightarrow> i \<noteq> j \<Longrightarrow> i < j \<and> i < length ts \<and> P (ts ! i) \<and> all_between P ts (Suc i) j"
  by (auto simp: all_between_def)

lemma operandD: "operand t \<Longrightarrow> \<not> prefix ''-'' t \<and> t \<noteq> ''-'' \<and> t \<noteq> ''--'' \<and> \<not> is_opt t"
  by (auto simp: operand_def is_opt_def)

lemma run_at_in: "j < length ws \<Longrightarrow> run_at ws j dyn = [Run j dyn]"
  by (simp add: run_at_def)

lemma env_loop_assignments:
  "all_between assignment ts k j \<Longrightarrow> j < length ts \<Longrightarrow> operand (ts ! j) \<Longrightarrow> CHR ''='' \<notin> set (ts ! j)
   \<Longrightarrow> env_loop ts k opts = Inr r \<Longrightarrow> r = j"
proof (induction "j - k" arbitrary: k opts)
  case 0
  then have "k = j" by (simp add: all_between_def)
  with 0 show ?case by (subst (asm) env_loop.simps) (simp add: operandD Let_def)
next
  case (Suc n)
  then have k: "k < length ts" "assignment (ts ! k)" "all_between assignment ts (Suc k) j" "n = j - Suc k"
    using all_between_step [of assignment ts k j] by auto
  have "ts ! k \<noteq> ''-''" "ts ! k \<noteq> ''--''" using k(2) by (auto simp: assignment_def)
  with k(1,2) have "\<exists>opts. env_loop ts (Suc k) opts = Inr r"
    using Suc.prems(5)
    by (subst (asm) env_loop.simps) (auto simp: assignment_def Let_def split: if_splits sum.splits)
  with Suc.hyps(1) [OF k(4) k(3) Suc.prems(2,3,4)] show ?case by blast
qed

lemma env_flag_skip: "t \<in> {''-0'', ''-v'', ''--null'', ''--debug''} \<Longrightarrow> skip_env_opt t = Inr v \<Longrightarrow> \<not> v"
  by (elim insertE emptyE) (simp_all add: skip_env_opt_def before_def ENV_VALUE_LONG_def ENV_FLAG_LONG_def)

lemma env_value_skip: "t \<in> {''-u'', ''-C'', ''--unset'', ''--chdir''} \<Longrightarrow> skip_env_opt t = Inr v \<Longrightarrow> v"
  by (elim insertE emptyE) (simp_all add: skip_env_opt_def before_def ENV_VALUE_LONG_def ENV_FLAG_LONG_def)

lemma env_loop_options:
  "env_options ts j k \<Longrightarrow> env_loop ts j True = Inr r \<Longrightarrow> env_loop ts k True = Inr r"
proof (induction rule: env_options.induct)
  case (flag j k)
  then have "env_loop ts (Suc j) True = Inr r"
    by (subst (asm) (3) env_loop.simps)
       (auto simp: step_over_def bindE_Inr_iff dest!: env_flag_skip [rotated] split: sum.splits)
  then show ?case by (rule flag.IH)
next
  case (value_ j k)
  then have "env_loop ts (j + 2) True = Inr r"
    by (subst (asm) (3) env_loop.simps)
       (auto simp: step_over_def bindE_Inr_iff dest!: env_value_skip [rotated] split: sum.splits)
  then show ?case by (rule value_.IH)
qed


lemma env_target:
  assumes "env_options (toks ws) (Suc i) k" "all_between assignment (toks ws) k j" "j < length ws"
    and "operand (toks ws ! j)" "CHR ''='' \<notin> set (toks ws ! j)" and u: "unwrap_env ws i dyn = Inr ts"
  shows "Run j dyn \<in> set ts"
proof -
  from u obtain r where r: "env_loop (toks ws) (Suc i) True = Inr r" "ts = run_at ws r dyn"
    by (auto simp: unwrap_env_def bindE_Inr_iff)
  have "r = j"
    by (rule env_loop_assignments [OF assms(2) _ assms(4,5) env_loop_options [OF assms(1) r(1)]]) (simp add: assms)
  with r assms(3) show ?thesis by (simp add: run_at_def)
qed

lemma find_target:
  assumes "i < k" "toks ws ! k \<in> {''-exec'', ''-execdir'', ''-ok'', ''-okdir''}" "Suc k < length ws"
    and "unwrap_find_exec ws i dyn = Inr ts"
  shows "Run (Suc k) True \<in> set ts"
proof -
  have "k \<in> set (filter (\<lambda>j. toks ws ! j \<in> set FIND_EXEC_ACTIONS) [Suc i ..< length ws - 1])"
    using assms(1-3) by (simp add: FIND_EXEC_ACTIONS_def)
  then show ?thesis using assms(4) unfolding unwrap_find_exec_def bindE_Inr_iff by fastforce
qed

lemma xargs_flag: "t \<in> {''-0'', ''-r'', ''-t'', ''-x'', ''-p''} \<Longrightarrow> prefix ''-'' t \<and> t \<noteq> ''-'' \<and> t \<noteq> ''--'' \<and> skip_xargs_opt t = Inr False"
  by (elim insertE emptyE) (simp_all add: skip_xargs_opt_def XARGS_VALUE_SHORT_def XARGS_ATTACHED_SHORT_def)

lemma xargs_loop_flags:
  "all_between (\<lambda>t. t \<in> {''-0'', ''-r'', ''-t'', ''-x'', ''-p''}) ts k j \<Longrightarrow> j < length ts \<Longrightarrow> operand (ts ! j)
   \<Longrightarrow> xargs_loop ts k = Inr r \<Longrightarrow> r = j"
proof (induction "j - k" arbitrary: k)
  case 0
  then have "k = j" by (simp add: all_between_def)
  with 0 show ?case by (subst (asm) xargs_loop.simps) (auto simp: operand_def split: if_splits)
next
  case (Suc n)
  then have k: "k < length ts" "ts ! k \<in> {''-0'', ''-r'', ''-t'', ''-x'', ''-p''}" "n = j - Suc k"
      "all_between (\<lambda>t. t \<in> {''-0'', ''-r'', ''-t'', ''-x'', ''-p''}) ts (Suc k) j"
    using all_between_step [OF Suc.prems(1)] by auto
  have "xargs_loop ts (Suc k) = Inr r"
    using Suc.prems(4) k(1) xargs_flag [OF k(2)]
    by (subst (asm) xargs_loop.simps) (simp add: step_over_def)
  with Suc.hyps(1) [OF k(3,4) Suc.prems(2,3)] show ?case by blast
qed

lemma xargs_target:
  assumes "all_between (\<lambda>t. t \<in> {''-0'', ''-r'', ''-t'', ''-x'', ''-p''}) (toks ws) (Suc i) j" "j < length ws"
    and "operand (toks ws ! j)" "unwrap_xargs ws i dyn = Inr ts"
  shows "Run j True \<in> set ts"
proof -
  from assms(4) obtain r where r: "xargs_loop (toks ws) (Suc i) = Inr r" "ts = run_at ws r True"
    by (auto simp: unwrap_xargs_def bindE_Inr_iff)
  have "r = j" by (rule xargs_loop_flags [OF assms(1) _ assms(3) r(1)]) (simp add: assms)
  with r assms(2) show ?thesis by (simp add: run_at_def)
qed

lemma command_opts_flags:
  "all_between (\<lambda>t. t = ''-p'') ts k j \<Longrightarrow> j < length ts \<Longrightarrow> operand (ts ! j)
   \<Longrightarrow> skip_command_opts ts k = Inr (Some j) \<and> skip_time_opts ts k = Inr (Some j)"
proof (induction "j - k" arbitrary: k)
  case 0
  then have "k = j" by (simp add: all_between_def)
  with 0 show ?case
    by (subst skip_command_opts.simps, subst skip_time_opts.simps) (simp add: operand_def is_opt_def)
next
  case (Suc n)
  then have k: "k < length ts" "ts ! k = ''-p''" "n = j - Suc k" "all_between (\<lambda>t. t = ''-p'') ts (Suc k) j"
    using all_between_step [OF Suc.prems(1)] by auto
  from Suc.hyps(1) [OF k(3,4) Suc.prems(2,3)] k(1,2) show ?case
    by (subst skip_command_opts.simps, subst skip_time_opts.simps)
       (simp add: is_opt_def TIME_VALUE_OPTS_def TIME_FLAG_OPTS_def)
qed

lemma skip_operand:
  "i < length ts \<Longrightarrow> operand (ts ! i) \<Longrightarrow>
     skip_exec_opts ts i = Inr (Some i) \<and> skip_timeout_opts ts i = Inr (Some (i + 1))"
  by (subst skip_exec_opts.simps, subst skip_timeout_opts.simps) (simp add: operand_def is_opt_def)

lemma prefix_target:
  assumes "unwrap_prefix ws i dyn = Inr ts" "j < length ws"
    and "prefix_opt_skipper (path_basename (toks ws ! i)) (toks ws) (Suc i) = Inr (Some j)"
  shows "Run j dyn \<in> set ts"
  using assms by (auto simp: unwrap_prefix_def Let_def bindE_Inr_iff run_at_def)

lemma runner_loop_operand: "i < length ws \<Longrightarrow> operand (toks ws ! i) \<Longrightarrow> runner_loop f v ws i = Inr i"
  by (subst runner_loop.simps) (auto simp: operand_def Let_def)

lemma package_runner_operand:
  "i < length ws \<Longrightarrow> operand (toks ws ! i) \<Longrightarrow> check_package_runner f v ws i = Inr k \<Longrightarrow> k = i"
  by (auto simp: check_package_runner_def runner_loop_operand bindE_Inr_iff split: if_splits)

lemma npx_target:
  assumes "Suc i < length ws" "operand (toks ws ! Suc i)" "unwrap_npx ws i dyn = Inr ts"
  shows "Run (Suc i) dyn \<in> set ts"
  using assms
  by (auto simp: unwrap_npx_def bindE_Inr_iff run_at_def split: if_splits
      dest!: package_runner_operand [OF assms(1,2)])

lemma slice_one: "k < length xs \<Longrightarrow> slice xs k (Suc k) = [xs ! k]"
  by (simp add: slice_def Cons_nth_drop_Suc [symmetric])

lemma runner_words_run:
  assumes "tool \<in> {''uv'', ''pipx'', ''bun''}" "Suc k < length ws" "toks ws ! k = ''run''"
    and "operand (toks ws ! Suc k)" and r: "runner_words ws tool k dyn = Inr ts"
  shows "Run (Suc k) dyn \<in> set ts"
proof -
  have skip: "skip_runner_prefix ws k tool = Inr None"
    using assms(1) by (auto simp: skip_runner_prefix_def Let_def)
  have sub: "subcommand_target ws k (ddefault [] RUNNER_SUBCOMMANDS tool) =
      bindE (require_literal ws k (Suc k)) (\<lambda>_. bindE (check_package_runner [] [] ws (Suc k)) (\<lambda>j. Inr (Some j)))"
    using assms(1,2) assms(3) slice_one [of k "toks ws"]
    by (auto simp: ddefault_def RUNNER_SUBCOMMANDS_def Let_def)
  from r assms(2) have "\<exists>j. check_package_runner [] [] ws (Suc k) = Inr j \<and> ts = run_at ws j dyn"
    by (subst (asm) runner_words.simps) (auto simp: skip sub assms(3)[simplified] Let_def bindE_Inr_iff split: option.splits)
  with assms(2) show ?thesis by (auto simp: run_at_def dest!: package_runner_operand [OF assms(2,4)])
qed

lemma run_target:
  assumes "path_basename (toks ws ! i) \<in> {''uv'', ''pipx'', ''bun''}" "i + 2 < length ws"
    and "toks ws ! Suc i = ''run''" "operand (toks ws ! (i + 2))" "unwrap_subcommand_runner ws i dyn = Inr ts"
  shows "Run (i + 2) dyn \<in> set ts"
proof -
  have op: "operand (toks ws ! Suc i)" using assms(3) by (simp add: operand_def)
  have "runner_words ws (path_basename (toks ws ! i)) (Suc i) dyn = Inr ts"
    using assms(1,2,3,5)
    by (auto simp: unwrap_subcommand_runner_def RUNNER_GLOBALS_def Let_def bindE_Inr_iff
        dest!: package_runner_operand [OF _ op, rotated])
  from runner_words_run [OF assms(1) _ assms(3) _ this] assms(2,4) show ?thesis by simp
qed

lemma wrapped_target:
  assumes "wrapped (toks ws) i j" and u: "unwrap (path_basename (toks ws ! i)) ws i dyn = Inr ts"
  shows "\<exists>d. Run j d \<in> set ts"
  using assms(1)
proof cases
  case (env k)
  with u have "unwrap_env ws i dyn = Inr ts" by (simp add: unwrap_def SHELL_INTERPRETERS_def)
  from env_target [OF env(2,3) _ env(6,8) this] env(4) show ?thesis by auto
next
  case (find k)
  with u have "unwrap_find_exec ws i dyn = Inr ts" by (simp add: unwrap_def SHELL_INTERPRETERS_def)
  from find_target [OF find(3,4) _ this] find show ?thesis by auto
next
  case xargs
  with u have "unwrap_xargs ws i dyn = Inr ts" by (simp add: unwrap_def SHELL_INTERPRETERS_def)
  from xargs_target [OF xargs(2) _ xargs(4) this] xargs(3) show ?thesis by auto
next
  case command
  with u have p: "unwrap_prefix ws i dyn = Inr ts" by (auto simp: unwrap_def SHELL_INTERPRETERS_def PREFIXES_def)
  have "prefix_opt_skipper (path_basename (toks ws ! i)) (toks ws) (Suc i) = Inr (Some j)"
    using command_opts_flags [OF command(2,3,4)] command(1) by (auto simp: prefix_opt_skipper_def)
  from prefix_target [OF p _ this] command(3) show ?thesis by auto
next
  case timeout
  with u have p: "unwrap_prefix ws i dyn = Inr ts" by (auto simp: unwrap_def SHELL_INTERPRETERS_def PREFIXES_def)
  have "prefix_opt_skipper (path_basename (toks ws ! i)) (toks ws) (Suc i) = Inr (Some j)"
    using skip_operand [of "Suc i" "toks ws"] timeout by (auto simp: prefix_opt_skipper_def)
  from prefix_target [OF p _ this] timeout show ?thesis by auto
next
  case exec
  with u have p: "unwrap_prefix ws i dyn = Inr ts" by (auto simp: unwrap_def SHELL_INTERPRETERS_def PREFIXES_def)
  have "prefix_opt_skipper (path_basename (toks ws ! i)) (toks ws) (Suc i) = Inr (Some j)"
    using skip_operand [of "Suc i" "toks ws"] exec by (auto simp: prefix_opt_skipper_def)
  from prefix_target [OF p _ this] exec show ?thesis by auto
next
  case npx
  with u have "unwrap_npx ws i dyn = Inr ts" by (auto simp: unwrap_def SHELL_INTERPRETERS_def PREFIXES_def)
  from npx_target [OF _ _ this] npx show ?thesis by auto
next
  case run
  with u have "unwrap_subcommand_runner ws i dyn = Inr ts"
    by (auto simp: unwrap_def SHELL_INTERPRETERS_def PREFIXES_def RUNNER_SUBCOMMANDS_def)
  from run_target [OF run(2) _ run(3) _ this] run show ?thesis by auto
qed

lemma take_one: "take (Suc 0) s = [c] \<longleftrightarrow> prefix [c] s"
  by (cases s) auto

lemma shell_opts_operand:
  "all_between shell_option (toks ws) k j \<Longrightarrow> j < length ws \<Longrightarrow> operand (toks ws ! j)
   \<Longrightarrow> shell_opts (drop k ws) k d = Inr (r, c)
   \<Longrightarrow> r = j \<and> (d \<or> (\<exists>m. k \<le> m \<and> m < j \<and> prefix ''-'' (toks ws ! m) \<and> CHR ''c'' \<in> set (toks ws ! m)) \<longrightarrow> c)"
proof (induction "j - k" arbitrary: k d)
  case 0
  then have "k = j" by (simp add: all_between_def)
  moreover have "drop k ws = ws ! k # drop (Suc k) ws" using 0 \<open>k = j\<close> by (simp add: Cons_nth_drop_Suc)
  moreover have "take 1 (w_word (ws ! j)) \<notin> {''-'', ''+''}" "w_word (ws ! j) \<noteq> ''--''"
    using 0 operandD [of "w_word (ws ! j)"] by (auto simp: operand_def take_one)
  ultimately show ?case using 0 by (auto simp: bindE_Inr_iff Let_def)
next
  case (Suc n)
  then have k: "k < length ws" "shell_option (w_word (ws ! k))" "n = j - Suc k"
      "all_between shell_option (toks ws) (Suc k) j"
    using all_between_step [OF Suc.prems(1)] by auto
  define cc where "cc = (prefix ''-'' (w_word (ws ! k)) \<and> CHR ''c'' \<in> set (tl (w_word (ws ! k))))"
  have e: "drop k ws = ws ! k # drop (Suc k) ws" using k(1) by (simp add: Cons_nth_drop_Suc)
  have "shell_opts (drop (Suc k) ws) (Suc k) (d \<or> cc) = Inr (r, c)"
    using Suc.prems(4) k(2) unfolding e cc_def
    by (auto simp: bindE_Inr_iff Let_def shell_option_def refuse_def prefix_def split: if_splits)
  note ih = Suc.hyps(1) [OF k(3,4) Suc.prems(2,3) this]
  have cc: "cc" if "prefix ''-'' (toks ws ! k)" "CHR ''c'' \<in> set (toks ws ! k)"
    using that k(1) by (auto simp: cc_def prefix_def)
  show ?case
  proof (intro conjI impI)
    show "r = j" using ih by blast
    assume "d \<or> (\<exists>m. k \<le> m \<and> m < j \<and> prefix ''-'' (toks ws ! m) \<and> CHR ''c'' \<in> set (toks ws ! m))"
    then consider "d" | m where "k = m" "prefix ''-'' (toks ws ! m)" "CHR ''c'' \<in> set (toks ws ! m)"
      | m where "Suc k \<le> m" "m < j" "prefix ''-'' (toks ws ! m)" "CHR ''c'' \<in> set (toks ws ! m)"
      by (metis Suc_leI le_neq_implies_less)
    then show c using ih cc by cases blast+
  qed
qed

lemma payload_target:
  assumes "shell_payload (toks ws) i j" and u: "unwrap (path_basename (toks ws ! i)) ws i dyn = Inr ts"
  shows "\<exists>d. Script (toks ws ! j) d \<in> set ts"
  using assms(1)
proof cases
  case (dash_c k)
  with u have "unwrap_dash_c ws i dyn = Inr ts" by (auto simp: unwrap_def SHELL_INTERPRETERS_def)
  then obtain r c where r: "shell_opts (drop (Suc i) ws) (Suc i) False = Inr (r, c)"
    and rest: "c \<Longrightarrow> ts = [Script (toks ws ! r) dyn]"
    by (auto simp: unwrap_dash_c_def bindE_Inr_iff refuse_def split: if_splits)
  from shell_opts_operand [OF dash_c(2) _ dash_c(8) r] dash_c have "r = j" "c" by auto
  with rest show ?thesis by auto
next
  case bun
  have op: "operand (toks ws ! Suc i)" using bun(3) by (simp add: operand_def)
  from u bun(2) have "unwrap_subcommand_runner ws i dyn = Inr ts"
    by (simp add: unwrap_def SHELL_INTERPRETERS_def PREFIXES_def RUNNER_SUBCOMMANDS_def)
  with bun have "runner_words ws ''bun'' (Suc i) dyn = Inr ts"
    by (auto simp: unwrap_subcommand_runner_def RUNNER_GLOBALS_def Let_def bindE_Inr_iff
        dest!: package_runner_operand [OF _ op, rotated])
  with bun show ?thesis
    by (subst (asm) runner_words.simps)
       (auto simp: skip_runner_prefix_def Let_def bindE_Inr_iff refuse_def split: if_splits)
qed

end
