(* ===== verification/Shell_Complete.thy ===== *)
theory Shell_Complete
  imports Shell_Wrap
begin

text \<open>
  Which commands a string runs and which variables it sets, as relations, and that an accepted string holds
  none that the extraction did not see.
\<close>

section \<open>What a string runs\<close>

text \<open>
  \<open>script parse s t\<close>: running \<open>s\<close> may run the script \<open>t\<close>. \<open>runs parse s ws i\<close>: it may run the command at word \<open>i\<close>
  of the words \<open>ws\<close>.
\<close>

inductive script :: "(string \<Rightarrow> string + node list) \<Rightarrow> string \<Rightarrow> string \<Rightarrow> bool"
  and runs :: "(string \<Rightarrow> string + node list) \<Rightarrow> string \<Rightarrow> wd list \<Rightarrow> nat \<Rightarrow> bool" for parse s where
  self: "script parse s s"
| payload: "runs parse s ws i \<Longrightarrow> shell_payload (toks ws) i j \<Longrightarrow> script parse s (toks ws ! j)"
| direct: "script parse s t \<Longrightarrow> parsed parse t = Inr (text, trees) \<Longrightarrow> tree \<in> set trees \<Longrightarrow> n \<in> set (nodes_of tree)
    \<Longrightarrow> nkind n = ''command'' \<Longrightarrow> command_words text n = Inr ws \<Longrightarrow> ws \<noteq> [] \<Longrightarrow> runs parse s ws 0"
| wrap: "runs parse s ws i \<Longrightarrow> wrapped (toks ws) i j \<Longrightarrow> runs parse s ws j"

section \<open>Blanking keeps the graph\<close>

lemma blank_children: "children (blank ids n) = map (blank ids) (children n)"
proof -
  obtain i k as where n: "n = Node i k as" by (cases n)
  have "concat (map (\<lambda>(_, a). attr_nodes a) (map (\<lambda>(a, v). (a, case v of ANode m \<Rightarrow> ANode (blank ids m)
         | ANodes ms \<Rightarrow> ANodes (map (blank ids) ms)
         | AStr s \<Rightarrow> AStr (if i \<in> ids \<and> a = ''value'' then [] else s)
         | APos p q \<Rightarrow> APos p q
         | AOther \<Rightarrow> AOther)) as)) = map (blank ids) (concat (map (\<lambda>(_, a). attr_nodes a) as))"
    by (induction as) (auto split: attr.splits)
  then show ?thesis by (simp add: n children_def blank.simps)
qed

lemma blank_nid: "nid (blank ids n) = nid n"
  by (cases n) (simp add: blank.simps)

lemma blank_nodes_of: "nodes_of (blank ids n) = map (blank ids) (nodes_of n)"
proof (induction n rule: nodes_of.induct)
  case (1 n)
  have "map (nodes_of \<circ> blank ids) (children n) = map (map (blank ids) \<circ> nodes_of) (children n)"
    by (rule map_cong [OF refl]) (simp add: 1)
  then have "concat (map (nodes_of \<circ> blank ids) (children n)) = concat (map (map (blank ids) \<circ> nodes_of) (children n))"
    by (rule arg_cong)
  then show ?case
    unfolding nodes_of.simps [of "blank ids n"] nodes_of.simps [of n] by (simp add: blank_children map_concat)
qed

lemma blank_ids_ok: "ids_ok t \<Longrightarrow> ids_ok (blank ids t)"
  by (auto simp: ids_ok_def blank_nodes_of blank_nid)

definition graphs_ok :: "(string \<Rightarrow> string + node list) \<Rightarrow> bool" where
  "graphs_ok parse = (\<forall>t trees. parse t = Inr trees \<longrightarrow> list_all ids_ok trees)"

lemma parsed_ids_ok:
  assumes "graphs_ok parse" and "parsed parse t = Inr (text, trees)"
  shows "list_all ids_ok trees"
proof -
  have p: "parse_trees parse u = Inr ts \<Longrightarrow> list_all ids_ok ts" for u ts
    using assms(1) by (auto simp: parse_trees_def graphs_ok_def split: sum.splits)
  have c: "confirmed_trees parse u os = Inr ts \<Longrightarrow> list_all ids_ok ts" for u os ts
    by (auto simp: confirmed_trees_def bindE_Inr_iff Let_def list_all_iff split: if_splits
        dest!: p intro!: blank_ids_ok)
  from assms(2) show ?thesis
    by (auto simp: parsed_def Let_def bindE_Inr_iff split: prod.splits sum.splits shell_error.splits if_splits
        dest: p c)
qed

section \<open>Extraction sees every command\<close>

lemma mapE_member: "mapE f xs = Inr ys \<Longrightarrow> x \<in> set xs \<Longrightarrow> \<exists>y. f x = Inr y \<and> y \<in> set ys"
  by (induction xs arbitrary: ys) (auto simp: bindE_Inr_iff)

lemma collect_all_member:
  "collect_all ts = Inr ns \<Longrightarrow> t \<in> set ts \<Longrightarrow> \<exists>out seen. collect ([], []) t = Inr (out, seen) \<and> set out \<subseteq> set ns"
proof (induction ts arbitrary: ns)
  case (Cons a ts)
  from Cons.prems(1) obtain out seen ms where a: "collect ([], []) a = Inr (out, seen)"
    and m: "collect_all ts = Inr ms" "ns = out @ ms"
    by (auto simp: bindE_Inr_iff)
  show ?case
  proof (cases "t = a")
    case True
    with a m show ?thesis by auto
  next
    case False
    with Cons.IH [OF m(1)] Cons.prems(2) m(2) show ?thesis by auto
  qed
qed simp

text \<open>What it means that a run of \<open>_extract\<close> or \<open>_emit\<close> within another one succeeded.\<close>

definition seen_text :: "(string \<Rightarrow> string + node list) \<Rightarrow> string \<Rightarrow> entry list \<Rightarrow> bool" where
  "seen_text parse t es = (\<exists>d dyn es'. extract_in parse d t dyn = Inr es' \<and> set es' \<subseteq> set es)"

definition seen_command :: "(string \<Rightarrow> string + node list) \<Rightarrow> wd list \<Rightarrow> nat \<Rightarrow> entry list \<Rightarrow> bool" where
  "seen_command parse ws i es = (\<exists>d dyn es'. emit parse d ws i dyn = Inr es' \<and> set es' \<subseteq> set es)"

lemma seen_text_node:
  assumes g: "graphs_ok parse" and s: "seen_text parse t es" and p: "parsed parse t = Inr (text, trees)"
    and t: "tree \<in> set trees" and n: "n \<in> set (nodes_of tree)"
  shows "node_checks n = Inr ()"
    and "nkind n = ''command'' \<Longrightarrow> assignments_ok n = Inr ()"
    and "nkind n = ''command'' \<Longrightarrow> command_words text n = Inr ws \<Longrightarrow> ws \<noteq> [] \<Longrightarrow> seen_command parse ws 0 es"
proof -
  from s obtain d dyn es' where e: "extract_in parse d t dyn = Inr es'" and sub: "set es' \<subseteq> set es"
    by (auto simp: seen_text_def)
  from e p obtain nodes rs where nodes: "collect_all trees = Inr nodes"
    and rs: "mapE (\<lambda>n. bindE (node_words text n)
        (\<lambda>wss. bindE (mapE (\<lambda>ws. emit parse d ws 0 dyn) wss) (\<lambda>rs. Inr (concat rs)))) nodes = Inr rs"
    and es': "es' = concat rs"
    by (auto simp: extract_in.simps command_nodes_def bindE_Inr_iff split: sum.splits)
  from collect_all_member [OF nodes t] obtain out seen where
    c: "collect ([], []) tree = Inr (out, seen)" "set out \<subseteq> set nodes" by blast
  have "ids_ok tree" using parsed_ids_ok [OF g p] t by (simp add: list_all_iff)
  from collect_complete [OF this c(1) n] c(2)
  have ck: "node_checks n = Inr ()" and inn: "nkind n = ''command'' \<Longrightarrow> n \<in> set nodes" by auto
  show "node_checks n = Inr ()" by (rule ck)
  have step: "\<exists>wss qs. node_words text n = Inr wss \<and> mapE (\<lambda>ws. emit parse d ws 0 dyn) wss = Inr qs \<and> set (concat qs) \<subseteq> set es"
    if k: "nkind n = ''command''"
  proof -
    from mapE_member [OF rs inn [OF k]] obtain y wss qs where "node_words text n = Inr wss"
      "mapE (\<lambda>ws. emit parse d ws 0 dyn) wss = Inr qs" "y = concat qs" "y \<in> set rs"
      by (auto simp: bindE_Inr_iff)
    moreover have "set y \<subseteq> set es" if "y \<in> set rs" for y using that es' sub by (simp add: UN_subset_iff)
    ultimately show ?thesis by (intro exI [of _ wss] exI [of _ qs]) blast
  qed
  show "assignments_ok n = Inr ()" if "nkind n = ''command''"
    using step [OF that] by (auto simp: node_words_def bindE_Inr_iff)
  show "seen_command parse ws 0 es"
    if k: "nkind n = ''command''" "command_words text n = Inr ws" "ws \<noteq> []"
  proof -
    from step [OF k(1)] k(2,3) obtain qs where
      "mapE (\<lambda>ws. emit parse d ws 0 dyn) [ws] = Inr qs" "set (concat qs) \<subseteq> set es"
      by (auto simp: node_words_def bindE_Inr_iff)
    then show ?thesis
      unfolding seen_command_def by (intro exI [of _ d] exI [of _ dyn]) (auto simp: bindE_Inr_iff)
  qed
qed

lemma seen_command_parts:
  assumes "seen_command parse ws i es"
  shows "\<exists>d dyn ts. emit_here d ws i dyn = Inr ((path_basename (toks ws ! i), shlex_join (drop i (toks ws)), dyn), ts)
    \<and> (path_basename (toks ws ! i), shlex_join (drop i (toks ws)), dyn) \<in> set es
    \<and> i < length ws \<and> word_parts_are_literal (ws ! i)
    \<and> check_builtin ws i (path_basename (toks ws ! i)) = Inr ()
    \<and> unwrap (path_basename (toks ws ! i)) ws i dyn = Inr ts
    \<and> (\<forall>j e. Run j e \<in> set ts \<longrightarrow> seen_command parse ws j es)
    \<and> (\<forall>t e. Script t e \<in> set ts \<longrightarrow> seen_text parse t es)"
proof -
  from assms obtain d dyn es' where e: "emit parse d ws i dyn = Inr es'" and sub: "set es' \<subseteq> set es"
    by (auto simp: seen_command_def)
  then obtain en ts rs where h: "emit_here d ws i dyn = Inr (en, ts)"
    and m: "mapE (\<lambda>t. case t of Run j d' \<Rightarrow> emit parse (Suc d) ws j d' | Script s d' \<Rightarrow> extract_in parse (Suc d) s d') ts = Inr rs"
    and es': "es' = en # concat rs"
    by (auto simp: emit.simps bindE_Inr_iff split: sum.splits)
  from h have "drop i ws \<noteq> []" by (auto simp: emit_here_def bindE_Inr_iff)
  then have i: "i < length ws" by simp
  then have dr: "drop i ws = ws ! i # drop (Suc i) ws" by (simp add: Cons_nth_drop_Suc)
  have facts: "word_parts_are_literal (ws ! i)" "check_builtin ws i (path_basename (toks ws ! i)) = Inr ()"
      "unwrap (path_basename (toks ws ! i)) ws i dyn = Inr ts"
      "en = (path_basename (toks ws ! i), shlex_join (drop i (toks ws)), dyn)"
    using h i by (auto simp: emit_here_def bindE_Inr_iff dr Let_def)
  have run: "seen_command parse ws j es" if r: "Run j e' \<in> set ts" for j e'
    using mapE_member [OF m r] es' sub unfolding seen_command_def by auto blast
  have scr: "seen_text parse t es" if r: "Script t e' \<in> set ts" for t e'
    using mapE_member [OF m r] es' sub unfolding seen_text_def by auto blast
  show ?thesis
    using h facts i es' sub run scr by (intro exI [of _ d] exI [of _ dyn] exI [of _ ts]) auto
qed

lemma seen_everything:
  assumes g: "graphs_ok parse" and top: "seen_text parse s es"
  shows "script parse s t \<Longrightarrow> seen_text parse t es" and "runs parse s ws i \<Longrightarrow> seen_command parse ws i es"
proof (induction rule: script_runs.inducts)
  case self
  show ?case by (rule top)
next
  case (payload ws i j)
  from seen_command_parts [OF payload(2)] payload_target [OF payload(3)] show ?case by blast
next
  case (direct t body trees tree n ws)
  from seen_text_node(3) [OF g direct(2) direct(3) direct(4) direct(5) direct(6) direct(7) direct(8)] show ?case .
next
  case (wrap ws i j)
  from seen_command_parts [OF wrap(2)] wrapped_target [OF wrap(3)] show ?case by blast
qed

lemma accepted_seen: "extract_command_segments_ast parse s = Inr es \<Longrightarrow> es \<noteq> [] \<Longrightarrow> seen_text parse s es"
  by (auto simp: extract_command_segments_ast_def seen_text_def split: if_splits)

section \<open>Variables\<close>

lemma env_loop_checks:
  "all_between assignment ts k m \<Longrightarrow> m < length ts \<Longrightarrow> assignment (ts ! m) \<Longrightarrow> env_loop ts k opts = Inr r
   \<Longrightarrow> env_key_refusal (ts ! m) = Inr ()"
proof (induction "m - k" arbitrary: k opts)
  case 0
  then have "k = m" by (simp add: all_between_def)
  have "ts ! m \<noteq> ''-''" "ts ! m \<noteq> ''--''" using 0(4) by (auto simp: assignment_def)
  with 0 \<open>k = m\<close> show ?case
    by (subst (asm) env_loop.simps) (auto simp: assignment_def Let_def split: if_splits sum.splits)
next
  case (Suc n)
  then have k: "k < length ts" "assignment (ts ! k)" "n = m - Suc k" "all_between assignment ts (Suc k) m"
    using all_between_step [OF Suc.prems(1)] by auto
  have "ts ! k \<noteq> ''-''" "ts ! k \<noteq> ''--''" using k(2) by (auto simp: assignment_def)
  with k(1,2) Suc.prems(4) have "\<exists>opts. env_loop ts (Suc k) opts = Inr r"
    by (subst (asm) env_loop.simps) (auto simp: assignment_def Let_def split: if_splits sum.splits)
  with Suc.hyps(1) [OF k(3,4) Suc.prems(2,3)] show ?case by blast
qed

text \<open>\<open>sets parse s a\<close>: running \<open>s\<close> may carry out the assignment \<open>a\<close>.\<close>

inductive sets :: "(string \<Rightarrow> string + node list) \<Rightarrow> string \<Rightarrow> string \<Rightarrow> bool" for parse s where
  before_command: "script parse s t \<Longrightarrow> parsed parse t = Inr (text, trees) \<Longrightarrow> tree \<in> set trees
    \<Longrightarrow> n \<in> set (nodes_of tree) \<Longrightarrow> nkind n = ''command'' \<Longrightarrow> p \<in> set (nparts n) \<Longrightarrow> nkind p = ''assignment''
    \<Longrightarrow> nstr p ''word'' = Inr a \<Longrightarrow> sets parse s a"
| by_env: "runs parse s ws i \<Longrightarrow> path_basename (toks ws ! i) = ''env'' \<Longrightarrow> env_options (toks ws) (Suc i) k
    \<Longrightarrow> all_between assignment (toks ws) k m \<Longrightarrow> m < length ws \<Longrightarrow> assignment (toks ws ! m)
    \<Longrightarrow> sets parse s (toks ws ! m)"
| by_builtin: "runs parse s ws i
    \<Longrightarrow> path_basename (toks ws ! i) \<in> {''export'', ''declare'', ''typeset'', ''local'', ''readonly''}
    \<Longrightarrow> i < m \<Longrightarrow> m < length ws \<Longrightarrow> assignment (toks ws ! m) \<Longrightarrow> sets parse s (toks ws ! m)"

lemma sets_checked:
  assumes g: "graphs_ok parse" and top: "seen_text parse s es" and "sets parse s a"
  shows "env_key_refusal a = Inr ()"
  using assms(3)
proof cases
  case (before_command t body trees tree n p)
  note st = seen_everything(1) [OF g top before_command(1)]
  from seen_text_node(2) [OF g st before_command(2,3,4,5)] before_command(6-8)
  show ?thesis by (auto simp: assignments_ok_def all_ok_iff bindE_Inr_iff)
next
  case (by_env ws i k m)
  from seen_command_parts [OF seen_everything(2) [OF g top by_env(2)]] by_env(3)
  obtain dyn ts where "unwrap ''env'' ws i dyn = Inr ts" by auto
  then obtain r where "env_loop (toks ws) (Suc i) True = Inr r"
    by (auto simp: unwrap_def SHELL_INTERPRETERS_def unwrap_env_def bindE_Inr_iff)
  from env_loop_checks [OF by_env(5) _ by_env(7) env_loop_options [OF by_env(4) this]] by_env(1,6)
  show ?thesis by simp
next
  case (by_builtin ws i m)
  define nm where "nm = path_basename (toks ws ! i)"
  from seen_command_parts [OF seen_everything(2) [OF g top by_builtin(2)]]
  have "check_builtin ws i nm = Inr ()" by (auto simp: nm_def)
  moreover have "nm \<in> set VAR_SETTERS" "nm \<notin> set UNKNOWN_VALUE_SETTERS"
    using by_builtin(3) by (auto simp: nm_def VAR_SETTERS_def UNKNOWN_VALUE_SETTERS_def)
  ultimately have all: "\<forall>w \<in> set (drop (Suc i) ws). setter_word nm w = Inr ()"
    by (auto simp: check_builtin_def bindE_Inr_iff check_var_setter_def all_ok_iff)
  have "ws ! m \<in> set (drop (Suc i) ws)"
    using by_builtin(4,5) by (auto simp: in_set_conv_nth intro!: exI [of _ "m - Suc i"])
  with all have "setter_word nm (ws ! m) = Inr ()" by blast
  with by_builtin \<open>nm \<notin> set UNKNOWN_VALUE_SETTERS\<close> show ?thesis
    by (auto simp: setter_word_def check_var_word_def assignment_def bindE_Inr_iff split: if_splits)
qed

end
