(* ===== verification/Cmd_Validators.thy ===== *)
theory Cmd_Validators
  imports Shell_Unwrap "HOL-Library.List_Lexorder" "HOL-Library.Char_ord"
begin

text \<open>
  The validators that look at the arguments of one command: \<open>security/process_validators.py\<close>,
  \<open>filesystem_validators.py\<close> with \<open>exec_context.py\<close>, \<open>git_validators.py\<close>, \<open>database_validators.py\<close>.

  A validator returns whether the command is allowed and the reason, or the exception it does not catch. The
  worktree root is the argument \<open>wroot\<close> (the context variable the hook sets), \<open>getcwd\<close> the working directory of
  the process. What \<open>git\<close> has staged is a list of paths that a commit may shorten; the secret scanner is the
  argument \<open>scan\<close>, absent when it cannot be imported.
\<close>

type_synonym verdict = "bool \<times> string"

definition yes :: "verdict result" where "yes = Inr (True, [])"
definition no :: "string \<Rightarrow> verdict result" where "no msg = Inr (False, msg)"

lemma no_not_True [simp]: "no msg \<noteq> Inr (True, r)"
  by (simp add: no_def)

text \<open>\<open>repr\<close> of a string of printable ASCII characters, and of a list of them.\<close>

definition py_repr :: "string \<Rightarrow> string" where
  "py_repr s = (let esc = concat (map (\<lambda>c. if c = BS then [BS, BS]
       else if c = CHR 0x0A then [BS, CHR ''n''] else if c = CHR 0x0D then [BS, CHR ''r'']
       else if c = CHR 0x09 then [BS, CHR ''t''] else [c]) s) in
     if SQ \<notin> set s then SQ # esc @ [SQ]
     else if DQ \<notin> set s then DQ # esc @ [DQ]
     else SQ # concat (map (\<lambda>c. if c = SQ then [BS, SQ] else [c]) esc) @ [SQ])"

definition py_repr_list :: "string list \<Rightarrow> string" where
  "py_repr_list xs = ''['' @ py_join '', '' (map py_repr xs) @ '']''"

text \<open>\<open>try: tokens = shlex.split(command)\<close> with the refusal of its handler.\<close>

definition with_tokens :: "string \<Rightarrow> string \<Rightarrow> (string list \<Rightarrow> verdict result) \<Rightarrow> verdict result" where
  "with_tokens cmd msg k = (case shlex_split cmd of Inl _ \<Rightarrow> no msg | Inr tokens \<Rightarrow> k tokens)"

section \<open>Processes\<close>

definition ALLOWED_PROCESS_NAMES :: "string list" where
  "ALLOWED_PROCESS_NAMES = [
     ''node'', ''npm'', ''npx'', ''yarn'', ''pnpm'', ''bun'', ''deno'', ''vite'', ''next'', ''nuxt'',
     ''webpack'', ''esbuild'', ''rollup'', ''tsx'', ''ts-node'', ''python'', ''python3'', ''flask'',
     ''uvicorn'', ''gunicorn'', ''django'', ''celery'', ''streamlit'', ''gradio'', ''pytest'', ''mypy'',
     ''ruff'', ''cargo'', ''rustc'', ''go'', ''ruby'', ''rails'', ''php'', ''postgres'', ''mysql'',
     ''mongod'', ''redis-server'']"

definition validate_pkill_command :: "string \<Rightarrow> verdict result" where
  "validate_pkill_command command_string =
     with_tokens command_string ''Could not parse pkill command'' (\<lambda>tokens.
       if tokens = [] then no ''Empty pkill command''
       else let args = filter (\<lambda>t. \<not> prefix ''-'' t) (tl tokens) in
         if args = [] then no ''pkill requires a process name''
         else bindE (if CHR '' '' \<in> set (last args)
                     then (case py_split_ws (last args) of [] \<Rightarrow> Inl (Crash ''list index out of range'') | w # _ \<Rightarrow> Inr w)
                     else Inr (last args)) (\<lambda>target.
           if target \<in> set ALLOWED_PROCESS_NAMES then yes
           else no (''pkill only allowed for dev processes: '' @
                    py_repr_list (take 10 (sort ALLOWED_PROCESS_NAMES)) @ ''...'')))"

definition kill_operands :: "string list \<Rightarrow> string list" where
  "kill_operands tokens =
     (let i = (if 1 < length tokens \<and> tokens ! 1 \<noteq> ''--'' \<and> prefix ''-'' (tokens ! 1)
               then (if tokens ! 1 \<in> {''-s'', ''--signal'', ''-n''} then 3 else 2) else 1);
          j = (if i < length tokens \<and> tokens ! i = ''--'' then Suc i else i)
      in drop j tokens)"

definition positive_pid :: "string \<Rightarrow> bool" where
  "positive_pid pid = (py_isdigit pid \<and> int_of_digits pid > 0)"

definition validate_kill_command :: "string \<Rightarrow> verdict result" where
  "validate_kill_command command_string =
     with_tokens command_string ''Could not parse kill command'' (\<lambda>tokens.
       let pids = kill_operands tokens in
       if pids = [] then no ''kill requires a target PID''
       else case find (\<lambda>p. \<not> positive_pid p) pids of
           Some pid \<Rightarrow> no (''kill target '' @ py_repr pid @ '' must be a single positive PID '' @
             [CHR 0xE2, CHR 0x80, CHR 0x94] @
             '' process groups, -1 and 0 (which signal all processes) are not allowed'')
         | None \<Rightarrow> yes)"

definition validate_killall_command :: "string \<Rightarrow> verdict result" where
  "validate_killall_command = validate_pkill_command"

section \<open>Files\<close>

definition target_escapes_worktree :: "string \<Rightarrow> string \<Rightarrow> string option \<Rightarrow> bool" where
  "target_escapes_worktree getcwd path_str wroot =
     (if path_str = [] then False
      else case wroot of
        None \<Rightarrow> prefix ''/'' path_str \<or> prefix ''~'' path_str \<or>
          ''..'' \<in> set (py_split_on (CHR ''/'') (py_replace_char BS (CHR ''/'') path_str))
      | Some r \<Rightarrow>
          (let root_norm = normpath (abspath getcwd r);
               target = (if isabs path_str then path_str else path_join root_norm path_str)
           in case commonpath root_norm (normpath target) of Inl _ \<Rightarrow> True | Inr c \<Rightarrow> c \<noteq> root_norm))"

definition SAFE_CHMOD_MODES :: "string list" where
  "SAFE_CHMOD_MODES = [''+x'', ''a+x'', ''u+x'', ''g+x'', ''o+x'', ''ug+x'', ''755'', ''644'', ''700'', ''600'', ''775'', ''664'']"

definition PLUS_X :: rx where
  "PLUS_X = seqs [Bos, Star (one_of ''ugoa''), lit ''+x'', Dollar]"

text \<open>The loop over the words of \<open>chmod\<close>: the mode and the files so far, or the refusal.\<close>

fun chmod_words :: "string list \<Rightarrow> string option \<Rightarrow> string list \<Rightarrow> string + (string option \<times> string list)" where
  "chmod_words [] mode files = Inr (mode, files)"
| "chmod_words (t # ts) mode files =
     (if t \<in> {''-R'', ''--recursive''} then chmod_words ts mode files
      else if prefix ''-'' t then Inl (''chmod flag '' @ [SQ] @ t @ [SQ] @ '' is not allowed'')
      else if mode = None then chmod_words ts (Some t) files
      else chmod_words ts mode (files @ [t]))"

definition validate_chmod_command :: "string \<Rightarrow> string option \<Rightarrow> string \<Rightarrow> verdict result" where
  "validate_chmod_command getcwd wroot command_string =
     with_tokens command_string ''Could not parse chmod command'' (\<lambda>tokens.
       if tokens = [] \<or> hd tokens \<noteq> ''chmod'' then no ''Not a chmod command''
       else case chmod_words (tl tokens) None [] of
           Inl msg \<Rightarrow> no msg
         | Inr (None, files) \<Rightarrow> no ''chmod requires a mode''
         | Inr (Some mode, files) \<Rightarrow>
             if files = [] then no ''chmod requires at least one file''
             else if mode \<notin> set SAFE_CHMOD_MODES \<and> re_match PLUS_X mode = None
             then no (''chmod only allowed with executable modes (+x, 755, etc.), got: '' @ mode)
             else case find (\<lambda>f. target_escapes_worktree getcwd f wroot) files of
                 Some f \<Rightarrow> no (''chmod target '' @ [SQ] @ f @ [SQ] @ '' is outside the worktree and not allowed'')
               | None \<Rightarrow> yes)"

definition DANGEROUS_RM_PATTERNS :: "rx list" where
  "DANGEROUS_RM_PATTERNS =
     map (\<lambda>s. seqs [Bos, lit s, Dollar]) [''/'', ''..'', ''~'', ''*'', ''/*''] @ [Seq Bos (lit ''../'')] @
     map (\<lambda>s. seqs [Bos, lit s, Dollar]) [''/home'', ''/usr'', ''/etc'', ''/var'', ''/bin'', ''/lib'', ''/opt'']"

definition rm_word_refusal :: "string \<Rightarrow> string option \<Rightarrow> string \<Rightarrow> string option" where
  "rm_word_refusal getcwd wroot t =
     (if prefix ''-'' t then
        (if t = ''--no-preserve-wroot'' then Some ''rm --no-preserve-wroot is not allowed'' else None)
      else if list_ex (\<lambda>p. re_match p t \<noteq> None) DANGEROUS_RM_PATTERNS
      then Some (''rm target '' @ [SQ] @ t @ [SQ] @ '' is not allowed for safety'')
      else if target_escapes_worktree getcwd t wroot
      then Some (''rm target '' @ [SQ] @ t @ [SQ] @ '' is outside the worktree and not allowed'')
      else None)"

fun first_some :: "('a \<Rightarrow> 'b option) \<Rightarrow> 'a list \<Rightarrow> 'b option" where
  "first_some f [] = None"
| "first_some f (x # xs) = (case f x of None \<Rightarrow> first_some f xs | Some y \<Rightarrow> Some y)"

lemma first_some_None: "first_some f xs = None \<longleftrightarrow> (\<forall>x \<in> set xs. f x = None)"
  by (induction xs) (auto split: option.splits)

definition validate_rm_command :: "string \<Rightarrow> string option \<Rightarrow> string \<Rightarrow> verdict result" where
  "validate_rm_command getcwd wroot command_string =
     with_tokens command_string ''Could not parse rm command'' (\<lambda>tokens.
       if tokens = [] then no ''Empty rm command''
       else case first_some (rm_word_refusal getcwd wroot) (tl tokens) of Some msg \<Rightarrow> no msg | None \<Rightarrow> yes)"

definition validate_init_script :: "string \<Rightarrow> verdict result" where
  "validate_init_script command_string =
     with_tokens command_string ''Could not parse init script command'' (\<lambda>tokens.
       case tokens of [] \<Rightarrow> no ''Empty command''
       | script # _ \<Rightarrow> if script = ''./init.sh'' \<or> suffix ''/init.sh'' script then yes
                       else no (''Only ./init.sh is allowed, got: '' @ script))"

section \<open>Git\<close>

definition DANGEROUS_GIT_FLAGS :: "string list" where
  "DANGEROUS_GIT_FLAGS = [''--exec-path'', ''--upload-pack'', ''--receive-pack'']"

definition CONFIG_FLAGS :: "string list" where
  "CONFIG_FLAGS = [''-c'', ''--config-env'']"

definition is_dangerous_git_config :: "string \<Rightarrow> bool" where
  "is_dangerous_git_config key = (let k = py_lower (py_strip key) in
     prefix ''alias.'' k \<or> suffix ''command'' k \<or> k = ''core.pager'' \<or> suffix ''.pager'' k \<or> prefix ''pager.'' k
     \<or> k = ''core.editor'' \<or> suffix ''.editor'' k \<or> k = ''sequence.editor'' \<or> py_in ''fsmonitor'' k
     \<or> suffix ''hookspath'' k \<or> prefix ''uploadpack.'' k \<or> prefix ''receive.'' k \<or> suffix ''.program'' k
     \<or> prefix ''credential.'' k \<or> k \<in> {''core.askpass'', ''core.gitproxy'', ''diff.external'', ''include.path''}
     \<or> suffix ''.driver'' k \<or> suffix ''.textconv'' k \<or> suffix ''.uploadpack'' k \<or> suffix ''.receivepack'' k
     \<or> prefix ''includeif.'' k \<or> prefix ''protocol.'' k)"

definition ARG_OPTIONS :: "string list" where
  "ARG_OPTIONS = [''-C'', ''-c'', ''--config-env'', ''--git-dir'', ''--work-tree'', ''--namespace'', ''--attr-source'']"

definition CONFIG_EDIT_MODES :: "string list" where
  "CONFIG_EDIT_MODES = [''-e'', ''--edit'', ''edit'', ''--rename-section'', ''rename-section'', ''--copy-section'']"

definition git_is :: "string \<Rightarrow> bool" where
  "git_is t = (after_last (CHR ''/'') (py_lstrip (''({$!'' @ [CHR 0x60]) t) = ''git'')"

text \<open>The words after the global options of \<open>git\<close>.\<close>

fun skip_git_opts :: "string list \<Rightarrow> string list" where
  "skip_git_opts [] = []"
| "skip_git_opts (t # ts) =
     (if prefix ''-'' t then skip_git_opts (if t \<in> set ARG_OPTIONS then drop 1 ts else ts) else t # ts)"

definition config_word_refusal :: "string \<Rightarrow> string option" where
  "config_word_refusal tok =
     (if tok \<in> set CONFIG_EDIT_MODES
      then Some (''git blocked: `git config '' @ tok @ ''` can rewrite config to execute an arbitrary command. Not permitted.'')
      else if CHR ''$'' \<in> set tok \<or> CHR 0x60 \<in> set tok
      then Some ''git blocked: `git config` with a non-literal argument could set a command-executing key. Not permitted.''
      else let key = before (CHR ''='') tok in
        if \<not> prefix ''-'' tok \<and> is_dangerous_git_config key
        then Some (''git blocked: `git config` on `'' @ key @
          ''` can execute an arbitrary command (config injection). Not permitted.'')
        else None)"

fun git_config_refusal :: "string list \<Rightarrow> string option" where
  "git_config_refusal [] = None"
| "git_config_refusal (t # ts) =
     (case (if git_is t then (case skip_git_opts ts of
                c # args \<Rightarrow> if c = ''config'' then first_some config_word_refusal args else None
              | [] \<Rightarrow> None) else None) of
        Some msg \<Rightarrow> Some msg
      | None \<Rightarrow> git_config_refusal ts)"

text \<open>The loop of \<open>validate_git\<close> over every word.\<close>

fun git_flag_refusal :: "string list \<Rightarrow> string option" where
  "git_flag_refusal [] = None"
| "git_flag_refusal (tok # ts) =
     (let base = before (CHR ''='') tok in
      if base \<in> set CONFIG_FLAGS then
        (let val = (if CHR ''='' \<in> set tok then after (CHR ''='') tok else (case ts of [] \<Rightarrow> [] | t # _ \<Rightarrow> t));
             key = before (CHR ''='') val in
         if is_dangerous_git_config key
         then Some (''git blocked: `-c '' @ key @ ''='' @ ellipsis @
           ''` can execute an arbitrary command (config injection). Remove the inline config.'')
         else git_flag_refusal ts)
      else if base \<in> set DANGEROUS_GIT_FLAGS
      then Some (''git blocked: `'' @ base @ ''` runs an arbitrary program (transport/exec hijack). Not permitted.'')
      else git_flag_refusal ts)"

record secret_match =
  sm_file_path :: string
  sm_line_number :: int
  sm_pattern_name :: string
  sm_matched_text :: string

text \<open>\<open>_format_secret_error\<close>: the matches grouped by file in the order of their first match.\<close>

definition match_lines :: "(string \<Rightarrow> string) \<Rightarrow> secret_match \<Rightarrow> string list" where
  "match_lines fingerprint m =
     [''  Line '' @ str_of_int (sm_line_number m) @ '': '' @ sm_pattern_name m,
      ''    Found: '' @ fingerprint (sm_matched_text m)]"

definition format_secret_error :: "(string \<Rightarrow> string) \<Rightarrow> secret_match list \<Rightarrow> verdict" where
  "format_secret_error fingerprint matches =
     (False, py_join [CHR 0x0A]
       ([''SECRETS DETECTED - COMMIT BLOCKED'', [], ''The following potential secrets were found in staged files:'', []] @
        concat (map (\<lambda>f. (''File: '' @ f) #
          concat (map (match_lines fingerprint) (filter (\<lambda>m. sm_file_path m = f) matches)) @ [[]])
          (rev (remdups (rev (map sm_file_path matches))))) @
        [''ACTION REQUIRED:'', [], ''1. Move secrets to environment variables:'',
         ''   - Add the secret value to .env (create if needed)'',
         ''   - Update the code to use os.environ.get('' @ [SQ] @ ''VAR_NAME'' @ [SQ] @ '') or process.env.VAR_NAME'',
         ''   - Add the variable name (not value) to .env.example'', [], ''2. Example fix:'',
         ''   BEFORE: api_key = '' @ [SQ] @ ''sk-abc123...'' @ [SQ],
         ''   AFTER:  api_key = os.environ.get('' @ [SQ] @ ''API_KEY'' @ [SQ] @ '')'', [],
         ''3. If this is a FALSE POSITIVE (test data, example, mock):'',
         ''   - Add the file pattern to .secretsignore'',
         ''   - Example: echo '' @ [SQ] @ ''tests/fixtures/'' @ [SQ] @ '' >> .secretsignore'', [],
         ''After fixing, stage the changes with '' @ [SQ] @ ''git add .'' @ [SQ] @ '' and retry the commit.'']))"

text \<open>
  The world of a commit: the staged paths, and the scanner with its fingerprint. \<open>git reset HEAD --\<close> takes the
  named paths out of the index.
\<close>

record commit_world =
  cw_staged :: "string list"
  cw_scan :: "(string list \<Rightarrow> secret_match list) option"
  cw_fingerprint :: "string \<Rightarrow> string"

definition unstage_spec_artifacts :: "commit_world \<Rightarrow> commit_world" where
  "unstage_spec_artifacts w = w\<lparr>cw_staged := filter (\<lambda>f. \<not> prefix ''.aifactory/'' f) (cw_staged w)\<rparr>"

definition scan_staged :: "commit_world \<Rightarrow> verdict result" where
  "scan_staged w = (case cw_scan w of
     None \<Rightarrow> yes
   | Some scan \<Rightarrow>
       if cw_staged w = [] then yes
       else if scan (cw_staged w) = [] then yes
       else Inr (format_secret_error (cw_fingerprint w) (scan (cw_staged w))))"

definition validate_git_commit :: "commit_world \<Rightarrow> string \<Rightarrow> verdict result \<times> commit_world" where
  "validate_git_commit w command_string =
     (case shlex_split command_string of
        Inl _ \<Rightarrow>
          (let stripped = py_strip command_string in
           if prefix ''git commit'' stripped \<or> prefix ''git -c'' stripped
           then (let w' = unstage_spec_artifacts w in (scan_staged w', w'))
           else (no ''Could not parse git command'', w))
      | Inr tokens \<Rightarrow>
          if tokens = [] \<or> hd tokens \<noteq> ''git'' then (yes, w)
          else if length tokens < 2 \<or> tokens ! 1 \<noteq> ''commit'' then (yes, w)
          else (let w' = unstage_spec_artifacts w in (scan_staged w', w')))"

definition unparsed_git_refused :: "string \<Rightarrow> bool" where
  "unparsed_git_refused command_string = (let lowered = py_lower command_string in
     py_in '' -c '' ('' '' @ lowered @ '' '') \<or> list_ex (\<lambda>f. py_in f lowered) DANGEROUS_GIT_FLAGS
     \<or> py_in '' config '' ('' '' @ lowered @ '' '') \<and> list_ex is_dangerous_git_config (py_split_ws lowered))"

definition validate_git :: "commit_world \<Rightarrow> string \<Rightarrow> verdict result \<times> commit_world" where
  "validate_git w command_string =
     (case shlex_split command_string of
        Inl _ \<Rightarrow>
          if unparsed_git_refused command_string
          then (no ''git blocked: command uses a config/exec option that can run arbitrary code and could not be parsed for validation.'', w)
          else validate_git_commit w command_string
      | Inr tokens \<Rightarrow>
          (case git_flag_refusal tokens of
             Some msg \<Rightarrow> (no msg, w)
           | None \<Rightarrow> (case git_config_refusal tokens of
                 Some msg \<Rightarrow> (no msg, w)
               | None \<Rightarrow> validate_git_commit w command_string)))"

section \<open>Databases\<close>

definition DESTRUCTIVE_SQL_PATTERNS :: "rx list" where
  "DESTRUCTIVE_SQL_PATTERNS = [
     seqs [Word_Boundary, ilit ''DROP'', plus spacec,
       alts (map ilit [''DATABASE'', ''SCHEMA'', ''TABLE'', ''INDEX'', ''VIEW'', ''FUNCTION'', ''PROCEDURE'', ''TRIGGER'']),
       Word_Boundary],
     seqs [Word_Boundary, ilit ''TRUNCATE'', plus spacec, opt (Seq (ilit ''TABLE'') (plus spacec)), plus wordc],
     seqs [Word_Boundary, ilit ''DELETE'', plus spacec, ilit ''FROM'', plus spacec, plus wordc, Star spacec,
       Alt (ch (CHR '';'')) Dollar],
     seqs [Word_Boundary, ilit ''DROP'', plus spacec, ilit ''ALL'', Word_Boundary],
     seqs [Word_Boundary, ilit ''DESTROY'', Word_Boundary]]"

definition SAFE_DATABASE_PATTERNS :: "rx list" where
  "SAFE_DATABASE_PATTERNS = [Seq Bos (lit ''test''), Seq (lit ''_test'') Dollar, Seq Bos (lit ''dev''),
     Seq (lit ''_dev'') Dollar, Seq Bos (lit ''local''), Seq (lit ''_local'') Dollar, Seq Bos (lit ''tmp''),
     Seq (lit ''_tmp'') Dollar, Seq Bos (lit ''temp''), Seq (lit ''_temp'') Dollar, Seq Bos (lit ''scratch''),
     Seq Bos (lit ''sandbox''), Seq Bos (lit ''mock''), Seq (lit ''_mock'') Dollar]"

definition is_safe_database_name :: "string \<Rightarrow> bool" where
  "is_safe_database_name db_name = list_ex (\<lambda>p. re_search p (py_lower db_name)) SAFE_DATABASE_PATTERNS"

definition contains_destructive_sql :: "string \<Rightarrow> string option" where
  "contains_destructive_sql sql = first_some (\<lambda>p. case re_search_at p (py_upper sql) 0 of
     None \<Rightarrow> None | Some (i, j, _) \<Rightarrow> Some (sub_str (py_upper sql) i j)) DESTRUCTIVE_SQL_PATTERNS"

text \<open>The last word that is neither a flag nor the word after a flag in \<open>valued\<close>.\<close>

fun last_operand :: "string list \<Rightarrow> string list \<Rightarrow> string option \<Rightarrow> string option" where
  "last_operand valued [] r = r"
| "last_operand valued (t # ts) r =
     (if t \<in> set valued then last_operand valued (drop 1 ts) r
      else if prefix ''-'' t then last_operand valued ts r
      else last_operand valued ts (Some t))"

definition DROPUSER_VALUED :: "string list" where
  "DROPUSER_VALUED = [''-h'', ''--host'', ''-p'', ''--port'', ''-U'', ''--username'', ''-w'', ''--no-password'', ''-W'', ''--password'']"

definition DROPDB_VALUED :: "string list" where
  "DROPDB_VALUED = DROPUSER_VALUED @ [''--maintenance-db'']"

definition validate_dropdb_command :: "string \<Rightarrow> verdict result" where
  "validate_dropdb_command command_string =
     with_tokens command_string ''Could not parse dropdb command'' (\<lambda>tokens.
       if tokens = [] then no ''Empty dropdb command''
       else let db_name = last_operand DROPDB_VALUED (tl tokens) None in
         if \<not> truthy_str db_name then no ''dropdb requires a database name''
         else if is_safe_database_name (the db_name) then yes
         else no (''dropdb '' @ [SQ] @ the db_name @ [SQ] @
           '' blocked for safety. Only test/dev databases can be dropped autonomously. Safe patterns: test*, *_test, dev*, *_dev, local*, tmp*, temp*, scratch*, sandbox*, mock*''))"

definition safe_user_patterns :: "rx list" where
  "safe_user_patterns = [Seq Bos (lit ''test''), Seq (lit ''_test'') Dollar, Seq Bos (lit ''dev''),
     Seq (lit ''_dev'') Dollar, Seq Bos (lit ''tmp''), Seq Bos (lit ''temp''), Seq Bos (lit ''mock'')]"

definition validate_dropuser_command :: "string \<Rightarrow> verdict result" where
  "validate_dropuser_command command_string =
     with_tokens command_string ''Could not parse dropuser command'' (\<lambda>tokens.
       if tokens = [] then no ''Empty dropuser command''
       else let username = last_operand DROPUSER_VALUED (tl tokens) None in
         if \<not> truthy_str username then no ''dropuser requires a username''
         else if list_ex (\<lambda>p. re_search p (py_lower (the username))) safe_user_patterns then yes
         else no (''dropuser '' @ [SQ] @ the username @ [SQ] @
           '' blocked for safety. Only test/dev users can be dropped autonomously. Safe patterns: test*, *_test, dev*, *_dev, tmp*, temp*, mock*''))"

text \<open>The text after the first \<open>-c\<close> of \<open>psql\<close>, and after the first \<open>-e\<close> or \<open>--execute\<close> of \<open>mysql\<close>.\<close>

fun psql_command :: "string list \<Rightarrow> string option" where
  "psql_command [] = None"
| "psql_command (t # ts) =
     (if t = ''-c'' \<and> ts \<noteq> [] then Some (hd ts)
      else if prefix ''-c'' t then Some (drop 2 t)
      else psql_command ts)"

fun mysql_command :: "string list \<Rightarrow> string option" where
  "mysql_command [] = None"
| "mysql_command (t # ts) =
     (if t = ''-e'' \<and> ts \<noteq> [] then Some (hd ts)
      else if prefix ''-e'' t then Some (drop 2 t)
      else if t = ''--execute'' \<and> ts \<noteq> [] then Some (hd ts)
      else mysql_command ts)"

definition sql_verdict :: "string \<Rightarrow> string option \<Rightarrow> verdict result" where
  "sql_verdict tool sql_command =
     (if truthy_str sql_command then
        (case contains_destructive_sql (the sql_command) of
           Some matched \<Rightarrow> no (tool @ '' command contains destructive SQL: '' @ [SQ] @ matched @ [SQ] @
             ''. DROP/TRUNCATE/DELETE operations require manual confirmation.'')
         | None \<Rightarrow> yes)
      else yes)"

definition validate_psql_command :: "string \<Rightarrow> verdict result" where
  "validate_psql_command command_string =
     with_tokens command_string ''Could not parse psql command'' (\<lambda>tokens.
       if tokens = [] then no ''Empty psql command'' else sql_verdict ''psql'' (psql_command tokens))"

definition validate_mysql_command :: "string \<Rightarrow> verdict result" where
  "validate_mysql_command command_string =
     with_tokens command_string ''Could not parse mysql command'' (\<lambda>tokens.
       if tokens = [] then no ''Empty mysql command'' else sql_verdict ''mysql'' (mysql_command tokens))"

definition validate_mysqladmin_command :: "string \<Rightarrow> verdict result" where
  "validate_mysqladmin_command command_string =
     with_tokens command_string ''Could not parse mysqladmin command'' (\<lambda>tokens.
       if tokens = [] then no ''Empty mysqladmin command''
       else case find (\<lambda>t. py_lower t \<in> {''drop'', ''shutdown'', ''kill''}) (tl tokens) of
           Some t \<Rightarrow> no (''mysqladmin '' @ [SQ] @ t @ [SQ] @
             '' is blocked for safety. Destructive operations require manual confirmation.'')
         | None \<Rightarrow> yes)"

definition dangerous_redis_commands :: "string list" where
  "dangerous_redis_commands = [''FLUSHALL'', ''FLUSHDB'', ''DEBUG'', ''SHUTDOWN'', ''SLAVEOF'', ''REPLICAOF'', ''CONFIG'',
     ''BGSAVE'', ''BGREWRITEAOF'', ''CLUSTER'']"

fun redis_word :: "string list \<Rightarrow> string option" where
  "redis_word [] = None"
| "redis_word (t # ts) =
     (if t \<in> {''-h'', ''-p'', ''-a'', ''-n'', ''--pass'', ''--user'', ''-u''} then redis_word (drop 1 ts)
      else if prefix ''-'' t then redis_word ts
      else Some (py_upper t))"

definition validate_redis_cli_command :: "string \<Rightarrow> verdict result" where
  "validate_redis_cli_command command_string =
     with_tokens command_string ''Could not parse redis-cli command'' (\<lambda>tokens.
       if tokens = [] then no ''Empty redis-cli command''
       else case redis_word (tl tokens) of
           Some c \<Rightarrow> if c \<in> set dangerous_redis_commands
             then no (''redis-cli command '' @ [SQ] @ c @ [SQ] @
               '' is blocked for safety. Destructive Redis operations require manual confirmation.'')
             else yes
         | None \<Rightarrow> yes)"

definition dangerous_mongo_patterns :: "(string \<times> rx) list" where
  "dangerous_mongo_patterns = [
     (BS # ''.dropDatabase'' @ BS # ''s*'' @ BS # ''('', seqs [ilit ''.dropDatabase'', Star spacec, ch (CHR ''('')]),
     (BS # ''.drop'' @ BS # ''s*'' @ BS # ''('', seqs [ilit ''.drop'', Star spacec, ch (CHR ''('')]),
     (BS # ''.deleteMany'' @ BS # ''s*'' @ BS # ''('' @ BS # ''s*'' @ BS # ''{'' @ BS # ''s*'' @ BS # ''}'' @ BS # ''s*'' @ BS # '')'',
      seqs [ilit ''.deleteMany'', Star spacec, ch (CHR ''(''), Star spacec, ch (CHR ''{''), Star spacec, ch (CHR ''}''),
        Star spacec, ch (CHR '')'')]),
     (BS # ''.remove'' @ BS # ''s*'' @ BS # ''('' @ BS # ''s*'' @ BS # ''{'' @ BS # ''s*'' @ BS # ''}'' @ BS # ''s*'' @ BS # '')'',
      seqs [ilit ''.remove'', Star spacec, ch (CHR ''(''), Star spacec, ch (CHR ''{''), Star spacec, ch (CHR ''}''),
        Star spacec, ch (CHR '')'')]),
     (''db'' @ BS # ''.dropAllUsers'' @ BS # ''s*'' @ BS # ''('', seqs [ilit ''db.dropAllUsers'', Star spacec, ch (CHR ''('')]),
     (''db'' @ BS # ''.dropAllRoles'' @ BS # ''s*'' @ BS # ''('', seqs [ilit ''db.dropAllRoles'', Star spacec, ch (CHR ''('')])]"

fun eval_script :: "string list \<Rightarrow> string option" where
  "eval_script [] = None"
| "eval_script (t # ts) = (if t = ''--eval'' \<and> ts \<noteq> [] then Some (hd ts) else eval_script ts)"

definition validate_mongosh_command :: "string \<Rightarrow> verdict result" where
  "validate_mongosh_command command_string =
     with_tokens command_string ''Could not parse mongosh command'' (\<lambda>tokens.
       if tokens = [] then no ''Empty mongosh command''
       else if truthy_str (eval_script tokens) then
         (case find (\<lambda>(_, r). re_search r (the (eval_script tokens))) dangerous_mongo_patterns of
            Some (pattern, _) \<Rightarrow> no (''mongosh command contains destructive operation matching '' @ [SQ] @ pattern @ [SQ] @
              ''. Database drop/delete operations require manual confirmation.'')
          | None \<Rightarrow> yes)
       else yes)"

section \<open>The registry\<close>

definition VALIDATORS :: "string list" where
  "VALIDATORS = [''pkill'', ''kill'', ''killall'', ''chmod'', ''rm'', ''init.sh'', ''git'', ''dropdb'', ''dropuser'', ''psql'',
     ''mysql'', ''mariadb'', ''mysqladmin'', ''redis-cli'', ''mongosh'', ''mongo'']"

definition run_validator ::
    "string \<Rightarrow> string option \<Rightarrow> commit_world \<Rightarrow> string \<Rightarrow> string \<Rightarrow> verdict result \<times> commit_world" where
  "run_validator getcwd wroot w name seg =
     (if name = ''git'' then validate_git w seg
      else (if name = ''pkill'' then validate_pkill_command seg
            else if name = ''kill'' then validate_kill_command seg
            else if name = ''killall'' then validate_killall_command seg
            else if name = ''chmod'' then validate_chmod_command getcwd wroot seg
            else if name = ''rm'' then validate_rm_command getcwd wroot seg
            else if name = ''init.sh'' then validate_init_script seg
            else if name = ''dropdb'' then validate_dropdb_command seg
            else if name = ''dropuser'' then validate_dropuser_command seg
            else if name = ''psql'' then validate_psql_command seg
            else if name \<in> {''mysql'', ''mariadb''} then validate_mysql_command seg
            else if name = ''mysqladmin'' then validate_mysqladmin_command seg
            else if name = ''redis-cli'' then validate_redis_cli_command seg
            else if name \<in> {''mongosh'', ''mongo''} then validate_mongosh_command seg
            else Inl (Crash name), w))"

end
