(* ===== verification/Plan_Progress.thy ===== *)
theory Plan_Progress
  imports Prelude
begin

text \<open>
  The keys of a plan that only record progress (\<open>plan_progress.py\<close>). The hash of an approval and the commands a
  plan may grant are both read from what is left without them.
\<close>

definition PLAN_PROGRESS_KEYS :: "string list" where
  "PLAN_PROGRESS_KEYS = [
     ''status'', ''planStatus'', ''reviewReason'', ''recoveryNote'', ''contractHold'', ''qa_signoff'',
     ''qa_iteration_history'', ''qa_stats'', ''last_updated'', ''created_at'', ''updated_at'', ''phase'']"

definition SUBTASK_PROGRESS_KEYS :: "string list" where
  "SUBTASK_PROGRESS_KEYS = [
     ''status'', ''notes'', ''updated_at'', ''started_at'', ''completed_at'', ''actual_output'',
     ''critique_result'']"

definition strip_subtask :: "json \<Rightarrow> json" where
  "strip_subtask st = (case st of JObj d \<Rightarrow> JObj (filter (\<lambda>(k, v). k \<notin> set SUBTASK_PROGRESS_KEYS) d) | _ \<Rightarrow> st)"

definition strip_list :: "string \<Rightarrow> obj \<Rightarrow> obj" where
  "strip_list key phase = (case map_of phase key of
     Some (JList xs) \<Rightarrow> AList.update key (JList (map strip_subtask xs)) phase | _ \<Rightarrow> phase)"

definition strip_phase :: "json \<Rightarrow> json" where
  "strip_phase raw = (case raw of
     JObj phase \<Rightarrow>
       (let p = (case map_of phase ''subtasks'' of Some (JList _) \<Rightarrow> AList.delete ''chunks'' phase | _ \<Rightarrow> phase)
        in JObj (strip_list ''chunks'' (strip_list ''subtasks'' p)))
   | _ \<Rightarrow> raw)"

definition strip_plan_progress :: "obj \<Rightarrow> obj" where
  "strip_plan_progress plan =
     (let content = filter (\<lambda>(k, v). k \<notin> set PLAN_PROGRESS_KEYS) plan in
      case map_of content ''phases'' of
        Some (JList phases) \<Rightarrow> AList.update ''phases'' (JList (map strip_phase phases)) content
      | _ \<Rightarrow> content)"

end
