(* ===== verification/Bash_Hook.thy ===== *)
theory Bash_Hook
  imports Cmd_Validators Plan_Progress
begin

text \<open>
  The allow list and its hooks: \<open>project/models.py\<close> and \<open>project/__init__.py\<close> (the profile and its test),
  \<open>security/egress.py\<close>, \<open>security/parser.py\<close>, \<open>security/plan_commands.py\<close> (what a plan may
  grant), and \<open>security/hooks.py\<close> (the checks before a tool runs), with the write guards of
  \<open>security/filesystem_validators.py\<close>.

  The environment variables are arguments (\<open>extra\<close>, \<open>policy\<close>, \<open>hosts\<close>), as are the parser of \<open>bashlex\<close>, the
  check of outbound addresses (\<open>ssrf\<close>, the message of its exception), and the two operations of \<open>pathlib\<close> that
  read the file system (\<open>expand\<close>, \<open>resolve\<close>, absent when they raise).
\<close>

section \<open>The profile\<close>

definition BASE_COMMANDS :: "string list" where
  "BASE_COMMANDS = [
     ''echo'', ''printf'', ''cat'', ''head'', ''tail'', ''less'', ''more'', ''ls'', ''pwd'', ''cd'',
     ''pushd'', ''popd'', ''cp'', ''mv'', ''mkdir'', ''rmdir'', ''touch'', ''ln'', ''find'', ''fd'',
     ''grep'', ''egrep'', ''fgrep'', ''rg'', ''ag'', ''sort'', ''uniq'', ''cut'', ''tr'', ''sed'', ''awk'',
     ''gawk'', ''wc'', ''diff'', ''cmp'', ''comm'', ''tee'', ''xargs'', ''read'', ''file'', ''stat'',
     ''tree'', ''du'', ''df'', ''which'', ''whereis'', ''type'', ''command'', ''date'', ''time'',
     ''sleep'', ''timeout'', ''true'', ''false'', ''test'', ''['', ''[['', ''env'', ''printenv'',
     ''export'', ''unset'', ''set'', ''source'', ''.'', ''exec'', ''exit'', ''return'', ''break'',
     ''continue'', ''sh'', ''bash'', ''zsh'', ''tar'', ''zip'', ''unzip'', ''gzip'', ''gunzip'', ''curl'',
     ''wget'', ''ping'', ''host'', ''dig'', ''git'', ''gh'', ''ps'', ''pgrep'', ''lsof'', ''jobs'',
     ''kill'', ''pkill'', ''killall'', ''rm'', ''chmod'', ''paste'', ''join'', ''split'', ''fold'',
     ''fmt'', ''nl'', ''rev'', ''shuf'', ''column'', ''expand'', ''unexpand'', ''iconv'', ''clear'',
     ''reset'', ''man'', ''help'', ''uname'', ''whoami'', ''id'', ''basename'', ''dirname'', ''realpath'',
     ''readlink'', ''mktemp'', ''bc'', ''expr'', ''seq'', ''yes'', ''jq'', ''yq'']"

definition EXTRA_CMD_DENY :: "string list" where
  "EXTRA_CMD_DENY = [
     ''sudo'', ''su'', ''doas'', ''pkexec'', ''shutdown'', ''reboot'', ''halt'', ''poweroff'', ''mkfs'',
     ''fdisk'', ''dd'']"

definition alnum :: "char \<Rightarrow> bool" where
  "alnum c = (is_alpha c \<or> is_digit c)"

definition COMMAND_NAME :: rx where
  "COMMAND_NAME = seqs [Bos, Chr alnum, upto 63 (Chr (\<lambda>c. alnum c \<or> c \<in> set ''._-'')), Dollar]"

definition extra_allowed_commands :: "string \<Rightarrow> string list" where
  "extra_allowed_commands raw =
     (if py_strip raw = [] then []
      else filter (\<lambda>name. name \<noteq> [] \<and> re_match COMMAND_NAME name \<noteq> None \<and> name \<notin> set EXTRA_CMD_DENY)
        (map py_strip (re_split (plus (Chr (\<lambda>c. c = CHR '','' \<or> is_space c))) (py_strip raw))))"

record profile =
  pr_base :: "string set"
  pr_stack :: "string set"
  pr_script :: "string set"
  pr_custom :: "string set"
  pr_shell_scripts :: "string list"

definition get_all_allowed_commands :: "string \<Rightarrow> profile \<Rightarrow> string set" where
  "get_all_allowed_commands extra p =
     pr_base p \<union> pr_stack p \<union> pr_script p \<union> pr_custom p \<union> set (extra_allowed_commands extra)"

definition is_command_allowed :: "string \<Rightarrow> string \<Rightarrow> profile \<Rightarrow> verdict" where
  "is_command_allowed extra command p =
     (if command \<in> get_all_allowed_commands extra p then (True, [])
      else if (prefix ''./'' command \<or> prefix ''/'' command)
        \<and> (path_basename command \<in> set (pr_shell_scripts p) \<or> command \<in> pr_script p) then (True, [])
      else (False, ''Command '' @ [SQ] @ command @ [SQ] @ '' is not in the allowed commands for this project''))"

section \<open>Egress\<close>

definition EGRESS_COMMANDS :: "string list" where
  "EGRESS_COMMANDS = [
     ''curl'', ''wget'', ''nc'', ''ncat'', ''netcat'', ''telnet'', ''ssh'', ''scp'', ''sftp'', ''ftp'',
     ''ftps'', ''tftp'', ''rsync'', ''socat'', ''lynx'', ''links'', ''aria2c'', ''httpie'']"

definition URL_RE :: rx where
  "URL_RE = seqs [Word_Boundary, Chr is_alpha, Star (Chr (\<lambda>c. alnum c \<or> c \<in> set ''+.-'')), lit ''://'',
     Grp 1 (plus (Chr (\<lambda>c. \<not> is_space c \<and> c \<notin> set ''/:?#'')))]"

definition USERHOST_RE :: rx where
  "USERHOST_RE = seqs [Word_Boundary, plus (Chr (\<lambda>c. word_char c \<or> c \<in> set ''.-'')), ch (CHR ''@''),
     Grp 1 (plus (Chr (\<lambda>c. alnum c \<or> c \<in> set ''.-'')))]"

definition HOSTPORT_RE :: rx where
  "HOSTPORT_RE = seqs [Word_Boundary,
     Grp 1 (seqs [Chr alnum, plus (Chr (\<lambda>c. alnum c \<or> c \<in> set ''.-'')), ch (CHR ''.''), Chr is_alpha, plus (Chr is_alpha)]),
     ch (CHR '':''), plus digitc]"

definition egress_policy :: "string \<Rightarrow> string" where
  "egress_policy policy = (let v = py_lower (py_strip policy) in if v \<in> {''deny'', ''allowlist''} then v else ''off'')"

definition allowed_hosts :: "string \<Rightarrow> string list" where
  "allowed_hosts hosts = map (\<lambda>h. py_lower (py_strip h)) (filter (\<lambda>h. py_strip h \<noteq> []) (py_split_on (CHR '','') hosts))"

definition host_of :: "string \<Rightarrow> string" where
  "host_of m = py_lower (py_strip (before (CHR '':'') (after_last (CHR ''@'') m)))"

definition extract_hosts :: "string \<Rightarrow> string list" where
  "extract_hosts command = filter (\<lambda>h. h \<noteq> []) (concat (map (\<lambda>rx'.
     map (\<lambda>m. host_of (the_grp command m 1)) (re_finditer rx' command)) [URL_RE, USERHOST_RE, HOSTPORT_RE]))"

definition host_allowed :: "string \<Rightarrow> string list \<Rightarrow> bool" where
  "host_allowed host allow = list_ex (\<lambda>a. py_lower host = a \<or> suffix (''.'' @ a) (py_lower host)) allow"

definition check_egress :: "string \<Rightarrow> string \<Rightarrow> string \<Rightarrow> string list \<Rightarrow> verdict" where
  "check_egress policy hosts command commands =
     (let pol = egress_policy policy;
          present = sort (remdups (filter (\<lambda>c. c \<in> set EGRESS_COMMANDS) commands)) in
      if pol = ''off'' then (True, [])
      else if present = [] then (True, [])
      else if pol = ''deny'' then (False, ''Egress command(s) '' @ py_repr_list present @
        '' blocked by AIFACTORY_EGRESS_POLICY=deny. Network access from agent commands is disabled.'')
      else let allow = allowed_hosts hosts; found = extract_hosts command in
        if found = [] then (False, ''Egress command(s) '' @ py_repr_list present @
          '' blocked: no target host could be parsed for allowlist verification (AIFACTORY_EGRESS_POLICY=allowlist, fail-closed).'')
        else let disallowed = sort (remdups (filter (\<lambda>h. \<not> host_allowed h allow) found)) in
          if disallowed \<noteq> [] then (False, ''Egress to '' @ py_repr_list disallowed @
            '' blocked: not in AIFACTORY_EGRESS_ALLOWED_HOSTS ('' @
            (if allow = [] then ''empty'' else py_repr_list (sort (remdups allow))) @ '').'')
          else (True, []))"

section \<open>The parser of command strings\<close>

definition not_quote :: "char \<Rightarrow> bool" where
  "not_quote c = (c = SQ \<or> c = DQ)"

definition SEMICOLON :: rx where
  "SEMICOLON = seqs [Not_Behind not_quote, Star spacec, ch (CHR '';''), Star spacec, Not_Ahead (Chr not_quote)]"

definition AND_OR :: rx where
  "AND_OR = seqs [Star spacec, Alt (lit ''&&'') (lit ''||''), Star spacec]"

definition split_command_segments :: "string \<Rightarrow> string list" where
  "split_command_segments command_string =
     filter (\<lambda>s. s \<noteq> []) (map py_strip (concat (map (re_split SEMICOLON) (re_split AND_OR command_string))))"

definition LEADING_WORD :: rx where
  "LEADING_WORD = seqs [Bos, Star spacec,
     Star (seqs [plus wordc, ch (CHR ''=''), Star non_spacec, plus spacec]), Grp 1 (plus non_spacec)]"

definition SHELL_KEYWORDS :: "string list" where
  "SHELL_KEYWORDS = [''if'', ''then'', ''else'', ''elif'', ''fi'', ''for'', ''while'', ''until'', ''do'', ''done'', ''case'',
     ''esac'', ''in'', ''!'', ''{'', ''}'', ''('', '')'', ''function'']"

text \<open>The loop over the words of a segment.\<close>

fun command_tokens :: "bool \<Rightarrow> string list \<Rightarrow> string list" where
  "command_tokens expect [] = []"
| "command_tokens expect (t # ts) =
     (if t \<in> {''|'', ''||'', ''&&'', ''&''} then command_tokens True ts
      else if t \<in> set SHELL_KEYWORDS \<or> prefix ''-'' t \<or> CHR ''='' \<in> set t \<and> \<not> prefix ''='' t
        \<or> t \<in> {''<<'', ''<<<'', ''>>'', ''>'', ''<'', ''2>'', ''2>&1'', ''&>''}
      then command_tokens expect ts
      else if expect then path_basename t # command_tokens False ts
      else command_tokens expect ts)"

definition segment_commands :: "string \<Rightarrow> string list" where
  "segment_commands segment =
     (if segment = [] then []
      else case shlex_split segment of
          Inr tokens \<Rightarrow> command_tokens True tokens
        | Inl _ \<Rightarrow> (case re_match LEADING_WORD segment of
              None \<Rightarrow> []
            | Some m \<Rightarrow> (let cmd = path_basename (the_grp segment m 1) in
                if cmd \<noteq> [] \<and> \<not> prefix ''-'' cmd then [cmd] else [])))"

definition extract_commands :: "string \<Rightarrow> string list" where
  "extract_commands command_string =
     concat (map (\<lambda>s. segment_commands (py_strip s)) (re_split SEMICOLON command_string))"

definition get_command_for_validation :: "string \<Rightarrow> string list \<Rightarrow> string" where
  "get_command_for_validation cmd segments =
     (case find (\<lambda>s. cmd \<in> set (extract_commands s)) segments of None \<Rightarrow> [] | Some s \<Rightarrow> s)"

definition get_segments_for_validation :: "string \<Rightarrow> string list \<Rightarrow> string list" where
  "get_segments_for_validation cmd segments = filter (\<lambda>s. cmd \<in> set (extract_commands s)) segments"

section \<open>What a plan may grant\<close>

definition DENY_COMMANDS :: "string list" where
  "DENY_COMMANDS = [
     ''sudo'', ''su'', ''doas'', ''pkexec'', ''ssh'', ''scp'', ''sftp'', ''rsync'', ''telnet'', ''nc'',
     ''ncat'', ''netcat'', ''dd'', ''mkfs'', ''fdisk'', ''parted'', ''mount'', ''umount'', ''shutdown'',
     ''reboot'', ''halt'', ''poweroff'', ''systemctl'', ''service'', ''chown'', ''chgrp'', ''passwd'',
     ''useradd'', ''usermod'', ''visudo'', ''iptables'', ''nft'', ''ufw'']"

definition PLAN_GRANTABLE_COMMANDS :: "string list" where
  "PLAN_GRANTABLE_COMMANDS = [
     ''uv'', ''uvx'', ''poetry'', ''pdm'', ''pipenv'', ''pip'', ''pip3'', ''pytest'', ''py.test'', ''tox'',
     ''nox'', ''coverage'', ''ruff'', ''mypy'', ''pyright'', ''black'', ''isort'', ''flake8'', ''pylint'',
     ''bandit'', ''npm'', ''npx'', ''pnpm'', ''yarn'', ''bun'', ''node'', ''deno'', ''jest'', ''vitest'',
     ''mocha'', ''eslint'', ''prettier'', ''tsc'', ''playwright'', ''cypress'', ''cargo'', ''rustc'',
     ''gofmt'', ''go'', ''golangci-lint'', ''bundle'', ''rspec'', ''rake'', ''mvn'', ''gradle'',
     ''dotnet'', ''make'', ''just'', ''task'']"

definition COMMAND_STRING_KEYS :: "string list" where
  "COMMAND_STRING_KEYS = [''command'', ''dev_command'', ''test_command'', ''lint_command'', ''run'']"

definition names_from_command_string :: "(string \<Rightarrow> string + node list) \<Rightarrow> string \<Rightarrow> string list" where
  "names_from_command_string parse command_string =
     (if command_string = [] then []
      else filter (\<lambda>c. c \<noteq> []) (case extract_commands_ast parse command_string of
          Inr names \<Rightarrow> names | Inl _ \<Rightarrow> extract_commands command_string))"

fun json_str :: "json \<Rightarrow> string list" where
  "json_str (JStr s) = [s]"
| "json_str _ = []"

definition required_commands :: "obj \<Rightarrow> string list" where
  "required_commands d = (case map_of d ''required_commands'' of Some (JList xs) \<Rightarrow> concat (map json_str xs) | _ \<Rightarrow> [])"

definition command_fields :: "obj \<Rightarrow> string list" where
  "command_fields d = concat (map (\<lambda>k. case map_of d k of Some v \<Rightarrow> json_str v | None \<Rightarrow> []) COMMAND_STRING_KEYS)"

function collect_strings :: "json \<Rightarrow> string list" where
  "collect_strings (JObj d) = required_commands d @ command_fields d @
     concat (map (\<lambda>(k, v). if k \<in> set COMMAND_STRING_KEYS \<or> k = ''required_commands'' then [] else collect_strings v) d)"
| "collect_strings (JList xs) = concat (map collect_strings xs)"
| "collect_strings JNull = []"
| "collect_strings (JBool b) = []"
| "collect_strings (JInt i) = []"
| "collect_strings (JFloat q) = []"
| "collect_strings (JStr s) = []"
  by pat_completeness auto

termination
proof (relation "measure size", goal_cases)
  case (2 d kv k v)
  have "size_prod (\<lambda>x. 0) size (k, v) \<le> size_list (size_prod (\<lambda>x. 0) size) d"
    by (rule size_list_estimation' [OF _ le_refl]) (use 2 in simp)
  then show ?case by simp
next
  case (3 xs x)
  then show ?case by (auto dest: size_list_estimation' [where f = size, OF _ le_refl])
qed simp

definition extract_command_names :: "(string \<Rightarrow> string + node list) \<Rightarrow> json \<Rightarrow> string list" where
  "extract_command_names parse plan = (case plan of
     JObj d \<Rightarrow> concat (map (names_from_command_string parse) (collect_strings (JObj (strip_plan_progress d))))
   | _ \<Rightarrow> [])"

definition plan_name_ok :: "string \<Rightarrow> bool" where
  "plan_name_ok name = (re_match COMMAND_NAME name \<noteq> None \<and> name \<notin> set DENY_COMMANDS \<and> name \<in> set PLAN_GRANTABLE_COMMANDS)"

definition sanitize_command_names :: "string list \<Rightarrow> string set \<times> string list" where
  "sanitize_command_names names =
     (let ns = filter (\<lambda>n. n \<noteq> []) (map py_strip names) in
      (set (filter plan_name_ok ns), sort (remdups (filter (\<lambda>n. \<not> plan_name_ok n) ns))))"

definition grantable_commands_from_plan :: "(string \<Rightarrow> string + node list) \<Rightarrow> json \<Rightarrow> string set \<times> string list" where
  "grantable_commands_from_plan parse plan = sanitize_command_names (extract_command_names parse plan)"

text \<open>
  \<open>seed_profile_with_plan_commands\<close> on the profile in memory: \<open>fresh\<close> is what a new detection found. It returns
  the profile and the newly granted names.
\<close>

definition seed_profile :: "(string \<Rightarrow> string + node list) \<Rightarrow> profile \<Rightarrow> profile \<Rightarrow> json \<Rightarrow> profile \<times> string set" where
  "seed_profile parse p fresh plan =
     (let q = p\<lparr>pr_stack := pr_stack p \<union> (pr_stack fresh - set DENY_COMMANDS),
                pr_script := pr_script p \<union> (pr_script fresh - set DENY_COMMANDS),
                pr_custom := pr_custom p \<union> (pr_custom fresh - set DENY_COMMANDS)\<rparr>;
          granted = fst (grantable_commands_from_plan parse plan)
      in (q\<lparr>pr_custom := pr_custom q \<union> granted\<rparr>, granted - pr_custom q))"

section \<open>The hook of \<open>Bash\<close>\<close>

definition extract_commands_fail_closed :: "(string \<Rightarrow> string + node list) \<Rightarrow> string \<Rightarrow> shell_error + (string + entry list)" where
  "extract_commands_fail_closed parse command =
     (case extract_command_segments_ast parse command of
        Inr es \<Rightarrow> Inr (Inr es)
      | Inl (Unparseable exc) \<Rightarrow> Inr (Inl (''Command blocked: could not be safely parsed for security validation ('' @ exc @
          ''). Rewrite it without dynamic shell payloads (e.g. avoid `bash -c '' @ [DQ] @ ''$VAR'' @ [DQ] @ ''`).''))
      | Inl (Crash e) \<Rightarrow> Inl (Crash e))"

fun validator_refusal ::
    "string \<Rightarrow> string option \<Rightarrow> commit_world \<Rightarrow> entry list \<Rightarrow> (shell_error + string option) \<times> commit_world" where
  "validator_refusal getcwd wroot w [] = (Inr None, w)"
| "validator_refusal getcwd wroot w ((name, seg, dynamic_args) # es) =
     (if name \<notin> set VALIDATORS then validator_refusal getcwd wroot w es
      else (case run_validator getcwd wroot w name seg of
          (Inl e, w') \<Rightarrow> (Inl e, w')
        | (Inr (allowed, reason), w') \<Rightarrow>
            if \<not> allowed then (Inr (Some reason), w')
            else if dynamic_args
            then (Inr (Some (''`'' @ name @ ''` run by xargs or find -exec takes arguments the '' @ name @
                '' validator cannot check. Pass explicit arguments instead (or use `find -delete`).'')), w')
            else validator_refusal getcwd wroot w' es))"

record hook_env =
  he_parse :: "string \<Rightarrow> string + node list"
  he_getcwd :: string
  he_profile :: "string \<Rightarrow> profile option"
  he_extra :: string
  he_policy :: string
  he_hosts :: string

definition fallback_profile :: profile where
  "fallback_profile = \<lparr>pr_base = set BASE_COMMANDS, pr_stack = {}, pr_script = {}, pr_custom = {}, pr_shell_scripts = []\<rparr>"

definition profile_for :: "hook_env \<Rightarrow> string \<Rightarrow> profile" where
  "profile_for h cwd = (case he_profile h cwd of Some p \<Rightarrow> p | None \<Rightarrow> fallback_profile)"

definition PROFILE_FILENAMES :: "string list" where
  "PROFILE_FILENAMES = [''.aifactory-security.json'', ''.aifactory-allowlist'']"

text \<open>What the hook returns: nothing, or the reason of a block.\<close>

type_synonym decision = "string option"

definition check_commands ::
    "hook_env \<Rightarrow> profile \<Rightarrow> string \<Rightarrow> commit_world \<Rightarrow> string \<Rightarrow> entry list \<Rightarrow> (shell_error + decision) \<times> commit_world" where
  "check_commands h p cwd w command es =
     (case find (\<lambda>n. \<not> fst (is_command_allowed (he_extra h) n p)) (map fst es) of
        Some n \<Rightarrow> (Inr (Some (snd (is_command_allowed (he_extra h) n p))), w)
      | None \<Rightarrow>
          (case validator_refusal (he_getcwd h) (Some cwd) w es of
             (Inl e, w') \<Rightarrow> (Inl e, w')
           | (Inr r, w') \<Rightarrow>
               if truthy_str r then (Inr r, w')
               else (let (egress_ok, reason) = check_egress (he_policy h) (he_hosts h) command (map fst es) in
                     (Inr (if egress_ok then None else Some reason), w'))))"

definition bash_command_check ::
    "hook_env \<Rightarrow> string \<Rightarrow> commit_world \<Rightarrow> string \<Rightarrow> (shell_error + decision) \<times> commit_world" where
  "bash_command_check h cwd w command =
     (if list_ex (\<lambda>n. py_in n (py_lower command)) PROFILE_FILENAMES
      then (Inr (Some ''Refused: the security profile is managed by AIFactory.''), w)
      else case extract_commands_fail_closed (he_parse h) command of
          Inl e \<Rightarrow> (Inl e, w)
        | Inr (Inl reason) \<Rightarrow> (Inr (Some reason), w)
        | Inr (Inr es) \<Rightarrow>
            if es = [] then (Inr (Some (''Could not parse command for security validation: '' @ command)), w)
            else check_commands h (profile_for h cwd) cwd w command es)"

definition json_type_name :: "json \<Rightarrow> string" where
  "json_type_name v = (case v of JNull \<Rightarrow> ''NoneType'' | JBool _ \<Rightarrow> ''bool'' | JInt _ \<Rightarrow> ''int'' | JFloat _ \<Rightarrow> ''float''
     | JStr _ \<Rightarrow> ''str'' | JList _ \<Rightarrow> ''list'' | JObj _ \<Rightarrow> ''dict'')"

definition hook_cwd :: "hook_env \<Rightarrow> obj \<Rightarrow> shell_error + string" where
  "hook_cwd h input = (let v = get_any ''cwd'' input in
     if \<not> truthy v then Inr (he_getcwd h) else case v of JStr s \<Rightarrow> Inr s | _ \<Rightarrow> Inl (Crash ''cwd''))"

definition bash_security_hook :: "hook_env \<Rightarrow> commit_world \<Rightarrow> obj \<Rightarrow> (shell_error + decision) \<times> commit_world" where
  "bash_security_hook h w input =
     (if map_of input ''tool_name'' \<noteq> Some (JStr ''Bash'') then (Inr None, w)
      else case get_any ''tool_input'' input of
          JNull \<Rightarrow> (Inr (Some ''Bash tool_input is None - malformed tool call from SDK''), w)
        | JObj tool_input \<Rightarrow>
            (case (case map_of tool_input ''command'' of None \<Rightarrow> JStr [] | Some v \<Rightarrow> v) of
               JStr command \<Rightarrow>
                 if command = [] then (Inr None, w)
                 else (case hook_cwd h input of
                     Inl e \<Rightarrow> (Inl e, w) | Inr cwd \<Rightarrow> bash_command_check h cwd w command)
             | v \<Rightarrow> if truthy v then (Inl (Crash ''command''), w) else (Inr None, w))
        | v \<Rightarrow> (Inr (Some (''Bash tool_input must be dict, got '' @ json_type_name v)), w))"

definition validate_command :: "hook_env \<Rightarrow> string \<Rightarrow> commit_world \<Rightarrow> string \<Rightarrow> (shell_error + verdict) \<times> commit_world" where
  "validate_command h project_dir w command =
     (case extract_commands_fail_closed (he_parse h) command of
        Inl e \<Rightarrow> (Inl e, w)
      | Inr (Inl reason) \<Rightarrow> (Inr (False, reason), w)
      | Inr (Inr es) \<Rightarrow>
          if es = [] then (Inr (False, ''Could not parse command''), w)
          else (case he_profile h project_dir of
              None \<Rightarrow> (Inl (Crash ''profile''), w)
            | Some p \<Rightarrow>
                (case find (\<lambda>n. \<not> fst (is_command_allowed (he_extra h) n p)) (map fst es) of
                   Some n \<Rightarrow> (Inr (False, snd (is_command_allowed (he_extra h) n p)), w)
                 | None \<Rightarrow> (case validator_refusal (he_getcwd h) (Some project_dir) w es of
                       (Inl e, w') \<Rightarrow> (Inl e, w')
                     | (Inr r, w') \<Rightarrow> (Inr (if truthy_str r then (False, the r) else (True, [])), w')))))"

section \<open>The hooks of the web and of file writes\<close>

definition web_fetch_security_hook :: "(string \<Rightarrow> string option) \<Rightarrow> obj \<Rightarrow> decision" where
  "web_fetch_security_hook ssrf input =
     (if map_of input ''tool_name'' \<notin> {Some (JStr ''WebFetch''), Some (JStr ''WebSearch'')} then None
      else case get_any ''tool_input'' input of
          JObj tool_input \<Rightarrow>
            (case get_any ''url'' tool_input of
               JStr url \<Rightarrow>
                 if url = [] then None
                 else (case ssrf url of
                     None \<Rightarrow> None
                   | Some exc \<Rightarrow> Some (''WebFetch blocked: '' @ exc @
                       ''. Only public http(s) URLs are permitted; private/loopback/link-local/metadata hosts and non-http schemes are refused.''))
             | _ \<Rightarrow> None)
        | _ \<Rightarrow> None)"

record path_env =
  pe_expand :: "string \<Rightarrow> string option"
  pe_resolve :: "string \<Rightarrow> string option"
  pe_getcwd :: string

text \<open>The path taken relative to \<open>base\<close> when it is not absolute, and its lexical and resolved forms.\<close>

definition absolute_path :: "path_env \<Rightarrow> string \<Rightarrow> string \<Rightarrow> string option" where
  "absolute_path e base path = (case pe_expand e path of
     None \<Rightarrow> None | Some p \<Rightarrow> Some (if isabs p then p else path_join base p))"

definition both_forms :: "path_env \<Rightarrow> string \<Rightarrow> (string \<times> string) option" where
  "both_forms e q = (case pe_resolve e q of None \<Rightarrow> None | Some r \<Rightarrow> Some (normpath q, r))"

definition path_forms :: "path_env \<Rightarrow> string \<Rightarrow> string \<Rightarrow> (string \<times> string) option" where
  "path_forms e base path = Option.bind (absolute_path e base path) (both_forms e)"

definition cwd_or :: "path_env \<Rightarrow> string option \<Rightarrow> string" where
  "cwd_or e cwd = (if truthy_str cwd then the cwd else pe_getcwd e)"

definition git_metadata_write_refusal :: "path_env \<Rightarrow> string \<Rightarrow> string option \<Rightarrow> string option" where
  "git_metadata_write_refusal e path cwd =
     (let refusal = Some ''Refused: writes into git metadata (.git) are not allowed.'' in
      case path_forms e (cwd_or e cwd) path of
        None \<Rightarrow> refusal
      | Some (lexical, resolved) \<Rightarrow>
          if ''.git'' \<in> set (map py_lower (path_comps lexical @ path_comps resolved)) then refusal else None)"

definition WORKTREE_MARKERS :: "string list" where
  "WORKTREE_MARKERS = [''/.aifactory/worktrees/tasks/'', ''/.aifactory/github/pr/worktrees/'']"

text \<open>\<open>s.rsplit(t, 1)\<close> of a text that contains \<open>t\<close>.\<close>

fun rsplit_at :: "nat \<Rightarrow> string \<Rightarrow> string \<Rightarrow> string \<times> string" where
  "rsplit_at 0 t s = ([], drop (length t) s)"
| "rsplit_at (Suc n) t s =
     (if prefix t (drop (Suc n) s) then (take (Suc n) s, drop (Suc n + length t) s) else rsplit_at n t s)"

text \<open>A directory is whether it is absolute, and its components.\<close>

type_synonym dir = "bool \<times> string list"

definition worktree_source :: "string \<Rightarrow> (dir \<times> dir) option" where
  "worktree_source p =
     (let s = p @ ''/'' in
      case find (\<lambda>m. py_in m s) WORKTREE_MARKERS of
        None \<Rightarrow> None
      | Some marker \<Rightarrow> (let (pre, rest) = rsplit_at (length s) marker s; name = before (CHR ''/'') rest in
          Some ((isabs pre, path_comps pre @ [''.aifactory'']), (True, path_comps (pre @ marker @ name)))))"

definition relative_to :: "string \<Rightarrow> dir \<Rightarrow> bool" where
  "relative_to target d = (isabs target = fst d \<and> prefix (snd d) (path_comps target))"

definition outside_worktree :: "string \<Rightarrow> string \<Rightarrow> bool" where
  "outside_worktree start target = (case worktree_source start of
     None \<Rightarrow> False
   | Some (source, worktree) \<Rightarrow> relative_to target source \<and> \<not> relative_to target worktree)"

definition source_aifactory_write_refusal ::
    "path_env \<Rightarrow> string \<Rightarrow> string option \<Rightarrow> string option \<Rightarrow> string option" where
  "source_aifactory_write_refusal e path cwd wroot =
     (let base = (if truthy_str wroot then wroot else cwd) in
      if \<not> truthy_str base then None
      else let refusal = Some (''Refused: the source project'' @ [SQ] @ ''s .aifactory/ is read-only for agents.'');
               start = absolute_path e (pe_getcwd e) (the base);
               target = Option.bind (pe_expand e path) (\<lambda>p. if isabs p then Some p
                 else Option.bind (absolute_path e (pe_getcwd e) (if truthy_str cwd then the cwd else the base))
                   (\<lambda>here. Some (path_join here p))) in
        case (Option.bind start (both_forms e), Option.bind target (both_forms e)) of
          (Some (start_lexical, start_resolved), Some (lexical, resolved)) \<Rightarrow>
            if outside_worktree start_lexical lexical \<or> outside_worktree start_resolved resolved
            then refusal else None
        | _ \<Rightarrow> refusal)"

definition protected_write_refusal :: "path_env \<Rightarrow> string \<Rightarrow> string option \<Rightarrow> string option \<Rightarrow> string option" where
  "protected_write_refusal e path cwd wroot =
     (case git_metadata_write_refusal e path cwd of
        Some r \<Rightarrow> Some r
      | None \<Rightarrow> (case source_aifactory_write_refusal e path cwd wroot of
            Some r \<Rightarrow> Some r
          | None \<Rightarrow>
              (let refusal = Some ''Refused: the security profile is managed by AIFactory and cannot be written.'' in
               case path_forms e (cwd_or e cwd) path of
                 None \<Rightarrow> refusal
               | Some (lexical, resolved) \<Rightarrow>
                   if py_lower (path_basename lexical) \<in> set PROFILE_FILENAMES
                     \<or> py_lower (path_basename resolved) \<in> set PROFILE_FILENAMES
                   then refusal else None)))"

text \<open>The values of the two path keys that are present. A \<open>cwd\<close> that is not a string counts as absent.\<close>

definition write_paths :: "obj \<Rightarrow> string list option" where
  "write_paths tool_input =
     (let vs = concat (map (\<lambda>k. case map_of tool_input k of None \<Rightarrow> [] | Some v \<Rightarrow> [v]) [''file_path'', ''notebook_path'']) in
      if vs = [] \<or> list_ex (\<lambda>v. json_str v = [] \<or> json_str v = [[]]) vs then None
      else Some (concat (map json_str vs)))"

definition git_dir_write_hook :: "path_env \<Rightarrow> string option \<Rightarrow> obj \<Rightarrow> decision" where
  "git_dir_write_hook e project_dir input =
     (if map_of input ''tool_name'' \<notin> (\<lambda>t. Some (JStr t)) ` {''Write'', ''Edit'', ''MultiEdit'', ''NotebookEdit''} then None
      else case get_any ''tool_input'' input of
          JObj tool_input \<Rightarrow>
            (case write_paths tool_input of
               None \<Rightarrow> Some ''Missing or invalid file path.''
             | Some paths \<Rightarrow> first_some (\<lambda>p. protected_write_refusal e p
                 (case get_any ''cwd'' input of JStr s \<Rightarrow> Some s | _ \<Rightarrow> None) project_dir) paths)
        | _ \<Rightarrow> Some ''Malformed tool input.'')"

end
