(* ===== verification/Shell_Vetted.thy ===== *)
theory Shell_Vetted
  imports Shell_Complete Bash_Hook
begin

text \<open>
  Lemmas on the hook of \<open>Bash\<close>: what an allowed call went through, what an accepting validator has checked, and
  paths that stay under a directory.
\<close>

section \<open>Every entry is emitted for a command\<close>

lemma mapE_back: "mapE f xs = Inr ys \<Longrightarrow> y \<in> set ys \<Longrightarrow> \<exists>x. x \<in> set xs \<and> f x = Inr y"
  by (induction xs arbitrary: ys) (fastforce simp: bindE_Inr_iff)+

definition from_words :: "entry \<Rightarrow> bool" where
  "from_words e = (\<exists>ws i. i < length ws \<and> fst e = path_basename (toks ws ! i) \<and> fst (snd e) = shlex_join (drop i (toks ws)))"

lemma emit_here_entry: "emit_here d ws i dyn = Inr (e, ts) \<Longrightarrow> from_words e"
proof -
  assume h: "emit_here d ws i dyn = Inr (e, ts)"
  then have "drop i ws \<noteq> []" by (auto simp: emit_here_def bindE_Inr_iff)
  then have i: "i < length ws" by simp
  then have dr: "drop i ws = ws ! i # drop (Suc i) ws" by (simp add: Cons_nth_drop_Suc)
  show ?thesis unfolding from_words_def
    using h i by (intro exI [of _ ws] exI [of _ i]) (auto simp: emit_here_def dr bindE_Inr_iff Let_def)
qed

lemma emitted_from_words:
  "emit parse d ws i dyn = Inr es \<Longrightarrow> e \<in> set es \<Longrightarrow> from_words e"
  "extract_in parse d s dyn = Inr es \<Longrightarrow> e \<in> set es \<Longrightarrow> from_words e"
proof (induction parse d ws i dyn and parse d s dyn arbitrary: es e and es e rule: emit_extract_in.induct)
  case (1 parse d ws i dyn)
  from 1(3) obtain en ts rs where h: "emit_here d ws i dyn = Inr (en, ts)"
    and m: "mapE (\<lambda>t. case t of Run j d' \<Rightarrow> emit parse (Suc d) ws j d' | Script s d' \<Rightarrow> extract_in parse (Suc d) s d') ts = Inr rs"
    and es: "es = en # concat rs"
    by (auto simp: emit.simps bindE_Inr_iff split: sum.splits)
  show ?case
  proof (cases "e = en")
    case True
    with emit_here_entry [OF h] show ?thesis by simp
  next
    case False
    with 1(4) es obtain r where r: "r \<in> set rs" "e \<in> set r" by auto
    from mapE_back [OF m r(1)] obtain t where t: "t \<in> set ts"
      "(case t of Run j d' \<Rightarrow> emit parse (Suc d) ws j d' | Script s d' \<Rightarrow> extract_in parse (Suc d) s d') = Inr r" by blast
    show ?thesis
    proof (cases t)
      case (Run j d')
      with 1(1) [OF h refl t(1) Run] t(2) r(2) show ?thesis by simp
    next
      case (Script s d')
      with 1(2) [OF h refl t(1) Script] t(2) r(2) show ?thesis by simp
    qed
  qed
next
  case (2 parse d s dyn)
  from 2(2) obtain body nodes rs where c: "command_nodes parse s = Inr (body, nodes)"
    and rs: "mapE (\<lambda>n. bindE (node_words body n)
        (\<lambda>wss. bindE (mapE (\<lambda>ws. emit parse d ws 0 dyn) wss) (\<lambda>rs. Inr (concat rs)))) nodes = Inr rs"
    and es: "es = concat rs"
    by (auto simp: extract_in.simps bindE_Inr_iff split: sum.splits)
  from 2(3) es obtain r where r: "r \<in> set rs" "e \<in> set r" by auto
  from mapE_back [OF rs r(1)] obtain n wss qs where n: "n \<in> set nodes"
    and q: "mapE (\<lambda>ws. emit parse d ws 0 dyn) wss = Inr qs" "r = concat qs"
    by (auto simp: bindE_Inr_iff)
  from r(2) q(2) obtain q' where q': "q' \<in> set qs" "e \<in> set q'" by auto
  from mapE_back [OF q(1) q'(1)] obtain ws where ws: "ws \<in> set wss" "emit parse d ws 0 dyn = Inr q'" by blast
  from 2(1) [OF c refl n ws(1) ws(2) q'(2)] show ?case .
qed

lemma segment_words: "from_words (name, seg, dyn) \<Longrightarrow> \<exists>ts. ts \<noteq> [] \<and> shlex_split seg = Inr ts \<and> name = path_basename (hd ts)"
  unfolding from_words_def
proof (elim exE conjE, goal_cases)
  case (1 ws i)
  then show ?case by (intro exI [of _ "drop i (toks ws)"]) (simp add: shlex_split_join hd_drop_conv_nth)
qed

section \<open>An allowed call\<close>

definition bash_call :: "obj \<Rightarrow> string \<Rightarrow> bool" where
  "bash_call input s = (map_of input ''tool_name'' = Some (JStr ''Bash'') \<and> s \<noteq> [] \<and>
     (\<exists>ti. map_of input ''tool_input'' = Some (JObj ti) \<and> map_of ti ''command'' = Some (JStr s)))"

definition vetted :: "hook_env \<Rightarrow> string \<Rightarrow> string \<Rightarrow> entry list \<Rightarrow> bool" where
  "vetted h cwd s es = (extract_command_segments_ast (he_parse h) s = Inr es \<and> es \<noteq> [] \<and>
     (\<forall>e \<in> set es. fst (is_command_allowed (he_extra h) (fst e) (profile_for h cwd))) \<and>
     (\<exists>w w' r. validator_refusal (he_getcwd h) (Some cwd) w es = (Inr r, w') \<and> \<not> truthy_str r) \<and>
     fst (check_egress (he_policy h) (he_hosts h) s (map fst es)))"

lemma allowed_is_vetted:
  assumes "bash_call input s" and "bash_security_hook h w input = (Inr None, w')"
  shows "\<exists>cwd es. hook_cwd h input = Inr cwd \<and> vetted h cwd s es"
proof -
  from assms obtain cwd where cwd: "hook_cwd h input = Inr cwd" and
    b: "bash_command_check h cwd w s = (Inr None, w')"
    by (auto simp: bash_security_hook_def bash_call_def get_any_def split: sum.splits)
  from b obtain es where es: "extract_command_segments_ast (he_parse h) s = Inr es" "es \<noteq> []"
    and c: "check_commands h (profile_for h cwd) cwd w s es = (Inr None, w')"
    by (auto simp: bash_command_check_def extract_commands_fail_closed_def
        split: if_splits sum.splits shell_error.splits)
  from c have "find (\<lambda>n. \<not> fst (is_command_allowed (he_extra h) n (profile_for h cwd))) (map fst es) = None"
    by (auto simp: check_commands_def split: option.splits)
  then have all: "\<forall>e \<in> set es. fst (is_command_allowed (he_extra h) (fst e) (profile_for h cwd))"
    by (auto simp: find_None_iff)
  from c obtain r w'' where v: "validator_refusal (he_getcwd h) (Some cwd) w es = (Inr r, w'')"
    "\<not> truthy_str r" "fst (check_egress (he_policy h) (he_hosts h) s (map fst es))"
    by (auto simp: check_commands_def truthy_str_def split: option.splits sum.splits prod.splits if_splits)
  from cwd es all v show ?thesis unfolding vetted_def by blast
qed

section \<open>Reasons are never empty\<close>

lemma no_False: "no msg = Inr (False, r) \<longleftrightarrow> r = msg"
  by (auto simp: no_def)

lemma yes_not_False [simp]: "yes \<noteq> Inr (False, r)"
  by (simp add: yes_def)

lemma with_tokens_reason:
  "with_tokens cmd msg k = Inr (False, r) \<Longrightarrow> msg \<noteq> [] \<Longrightarrow> (\<And>ts. k ts = Inr (False, r) \<Longrightarrow> r \<noteq> []) \<Longrightarrow> r \<noteq> []"
  by (auto simp: with_tokens_def no_False split: sum.splits)

lemma scan_reason: "scan_staged w = Inr (False, r) \<Longrightarrow> r \<noteq> []"
  by (auto simp: scan_staged_def format_secret_error_def split: option.splits if_splits)

lemma git_commit_reason: "validate_git_commit w s = (Inr (False, r), w') \<Longrightarrow> r \<noteq> []"
  by (auto simp: validate_git_commit_def no_False Let_def dest: scan_reason split: sum.splits if_splits)

lemma config_word_reason: "config_word_refusal t = Some r \<Longrightarrow> r \<noteq> []"
  by (auto simp: config_word_refusal_def Let_def split: if_splits)

lemma first_some_reason: "(\<And>x y. f x = Some y \<Longrightarrow> y \<noteq> []) \<Longrightarrow> first_some f xs = Some r \<Longrightarrow> r \<noteq> []"
  by (induction xs) (auto split: option.splits)

lemma config_words_reason: "first_some config_word_refusal ts = Some r \<Longrightarrow> r \<noteq> []"
  using first_some_reason [of config_word_refusal ts r] config_word_reason by blast

lemma git_config_reason: "git_config_refusal ts = Some r \<Longrightarrow> r \<noteq> []"
  by (induction ts) (auto split: option.splits list.splits if_splits dest!: config_words_reason)

lemma git_flag_reason: "git_flag_refusal ts = Some r \<Longrightarrow> r \<noteq> []"
  by (induction ts) (auto simp: Let_def split: if_splits)

lemma git_reason: "validate_git w s = (Inr (False, r), w') \<Longrightarrow> r \<noteq> []"
  by (auto simp: validate_git_def no_False split: sum.splits if_splits option.splits
      dest: git_commit_reason git_config_reason git_flag_reason)

lemma chmod_words_reason: "chmod_words ts m fs = Inl r \<Longrightarrow> r \<noteq> []"
  by (induction ts m fs rule: chmod_words.induct) (auto split: if_splits)

lemma rm_word_reason: "rm_word_refusal g rt t = Some r \<Longrightarrow> r \<noteq> []"
  by (auto simp: rm_word_refusal_def split: if_splits)

lemma rm_words_reason: "first_some (rm_word_refusal g rt) ts = Some r \<Longrightarrow> r \<noteq> []"
  using first_some_reason [of "rm_word_refusal g rt" ts r] rm_word_reason by blast

lemma sql_reason: "tool \<noteq> [] \<Longrightarrow> sql_verdict tool c = Inr (False, r) \<Longrightarrow> r \<noteq> []"
  by (auto simp: sql_verdict_def no_False split: if_splits option.splits)

lemma run_validator_reason: "run_validator g rt w name seg = (Inr (False, r), w') \<Longrightarrow> r \<noteq> []"
proof -
  assume a: "run_validator g rt w name seg = (Inr (False, r), w')"
  have pk: "validate_pkill_command s = Inr (False, r) \<Longrightarrow> r \<noteq> []" for s
    unfolding validate_pkill_command_def
    by (erule with_tokens_reason) (auto simp: no_False Let_def bindE_Inr_iff split: if_splits list.splits)
  have ki: "validate_kill_command s = Inr (False, r) \<Longrightarrow> r \<noteq> []" for s
    unfolding validate_kill_command_def
    by (erule with_tokens_reason) (auto simp: no_False Let_def split: if_splits option.splits)
  have ch: "validate_chmod_command g rt s = Inr (False, r) \<Longrightarrow> r \<noteq> []" for s
    unfolding validate_chmod_command_def
    by (erule with_tokens_reason)
       (auto simp: no_False Let_def split: if_splits option.splits sum.splits dest: chmod_words_reason)
  have rm: "validate_rm_command g rt s = Inr (False, r) \<Longrightarrow> r \<noteq> []" for s
    unfolding validate_rm_command_def
    by (erule with_tokens_reason)
       (auto simp: no_False split: if_splits option.splits dest!: rm_words_reason)
  have ini: "validate_init_script s = Inr (False, r) \<Longrightarrow> r \<noteq> []" for s
    unfolding validate_init_script_def
    by (erule with_tokens_reason) (auto simp: no_False split: if_splits list.splits)
  have db: "validate_dropdb_command s = Inr (False, r) \<Longrightarrow> r \<noteq> []" for s
    unfolding validate_dropdb_command_def
    by (erule with_tokens_reason) (auto simp: no_False Let_def split: if_splits)
  have us: "validate_dropuser_command s = Inr (False, r) \<Longrightarrow> r \<noteq> []" for s
    unfolding validate_dropuser_command_def
    by (erule with_tokens_reason) (auto simp: no_False Let_def split: if_splits)
  have ps: "validate_psql_command s = Inr (False, r) \<Longrightarrow> r \<noteq> []" for s
    unfolding validate_psql_command_def
    by (erule with_tokens_reason) (auto simp: no_False split: if_splits dest!: sql_reason [rotated])
  have my: "validate_mysql_command s = Inr (False, r) \<Longrightarrow> r \<noteq> []" for s
    unfolding validate_mysql_command_def
    by (erule with_tokens_reason) (auto simp: no_False split: if_splits dest!: sql_reason [rotated])
  have ma: "validate_mysqladmin_command s = Inr (False, r) \<Longrightarrow> r \<noteq> []" for s
    unfolding validate_mysqladmin_command_def
    by (erule with_tokens_reason) (auto simp: no_False split: if_splits option.splits)
  have re: "validate_redis_cli_command s = Inr (False, r) \<Longrightarrow> r \<noteq> []" for s
    unfolding validate_redis_cli_command_def
    by (erule with_tokens_reason) (auto simp: no_False split: if_splits option.splits)
  have mo: "validate_mongosh_command s = Inr (False, r) \<Longrightarrow> r \<noteq> []" for s
    unfolding validate_mongosh_command_def
    by (erule with_tokens_reason) (auto simp: no_False split: if_splits option.splits)
  from a have "validate_git w seg = (Inr (False, r), w') \<or> validate_pkill_command seg = Inr (False, r) \<or>
      validate_kill_command seg = Inr (False, r) \<or> validate_chmod_command g rt seg = Inr (False, r) \<or>
      validate_rm_command g rt seg = Inr (False, r) \<or> validate_init_script seg = Inr (False, r) \<or>
      validate_dropdb_command seg = Inr (False, r) \<or> validate_dropuser_command seg = Inr (False, r) \<or>
      validate_psql_command seg = Inr (False, r) \<or> validate_mysql_command seg = Inr (False, r) \<or>
      validate_mysqladmin_command seg = Inr (False, r) \<or> validate_redis_cli_command seg = Inr (False, r) \<or>
      validate_mongosh_command seg = Inr (False, r)"
    by (simp add: run_validator_def validate_killall_command_def split: if_splits)
  then show ?thesis
    by (elim disjE) (erule git_reason pk ki ch rm ini db us ps my ma re mo)+
qed

lemma validators_accepted:
  "validator_refusal g rt w es = (Inr r, w') \<Longrightarrow> \<not> truthy_str r \<Longrightarrow> (name, seg, dyn) \<in> set es \<Longrightarrow> name \<in> set VALIDATORS
   \<Longrightarrow> \<not> dyn \<and> (\<exists>w1 w2 msg. run_validator g rt w1 name seg = (Inr (True, msg), w2))"
proof (induction es arbitrary: w)
  case (Cons e es)
  obtain n s d where e: "e = (n, s, d)" by (cases e)
  show ?case
  proof (cases "n \<in> set VALIDATORS")
    case False
    with Cons e show ?thesis by auto
  next
    case True
    obtain res w1 where rv: "run_validator g rt w n s = (res, w1)" by fastforce
    with Cons.prems(1) True e obtain allowed msg where res: "res = Inr (allowed, msg)"
      by (cases res) auto
    have al: "allowed"
    proof (rule ccontr)
      assume "\<not> allowed"
      with Cons.prems(1) True e rv res have "r = Some msg" by auto
      with Cons.prems(2) have "msg = []" by (simp add: truthy_str_def)
      with run_validator_reason [of g rt w n s msg w1] rv res \<open>\<not> allowed\<close> show False by simp
    qed
    have nd: "\<not> d"
    proof
      assume "d"
      with Cons.prems(1) True e rv res al have "truthy_str r" by (auto simp: truthy_str_def)
      with Cons.prems(2) show False by simp
    qed
    from Cons.prems(1) True e rv res al nd have rest: "validator_refusal g rt w1 es = (Inr r, w')" by simp
    show ?thesis
    proof (cases "(name, seg, dyn) = e")
      case True
      with e rv res al nd show ?thesis by auto
    next
      case False
      with Cons.IH [OF rest Cons.prems(2)] Cons.prems(3,4) show ?thesis by auto
    qed
  qed
qed simp

text \<open>What holds of every command an allowed call may run.\<close>

lemma vetted_command:
  assumes g: "graphs_ok (he_parse h)" and v: "vetted h cwd s es" and r: "runs (he_parse h) s ws i"
  shows "i < length ws" and "word_parts_are_literal (ws ! i)"
    and "fst (is_command_allowed (he_extra h) (path_basename (toks ws ! i)) (profile_for h cwd))"
    and "path_basename (toks ws ! i) \<in> set VALIDATORS \<Longrightarrow> \<exists>w1 w2 msg.
      run_validator (he_getcwd h) (Some cwd) w1 (path_basename (toks ws ! i)) (shlex_join (drop i (toks ws))) = (Inr (True, msg), w2)"
proof -
  from v have "seen_text (he_parse h) s es" unfolding vetted_def by (blast intro: accepted_seen)
  from seen_command_parts [OF seen_everything(2) [OF g this r]] obtain dyn where
    e: "(path_basename (toks ws ! i), shlex_join (drop i (toks ws)), dyn) \<in> set es"
    and "i < length ws" "word_parts_are_literal (ws ! i)" by blast
  then show "i < length ws" "word_parts_are_literal (ws ! i)" by simp_all
  show "fst (is_command_allowed (he_extra h) (path_basename (toks ws ! i)) (profile_for h cwd))"
    using v e unfolding vetted_def by (metis fst_conv)
  show "\<exists>w1 w2 msg. run_validator (he_getcwd h) (Some cwd) w1 (path_basename (toks ws ! i)) (shlex_join (drop i (toks ws))) = (Inr (True, msg), w2)"
    if "path_basename (toks ws ! i) \<in> set VALIDATORS"
    using v validators_accepted [OF _ _ e that] unfolding vetted_def by blast
qed

section \<open>Paths\<close>

lemma split_parts: "p \<in> set (py_split_on c s) \<Longrightarrow> c \<notin> set p"
  by (induction s arbitrary: p) (auto split: list.splits if_splits)

lemma split_append: "c \<notin> set p \<Longrightarrow> py_split_on c (p @ c # s) = p # py_split_on c s"
  by (induction p) auto

lemma split_single: "c \<notin> set p \<Longrightarrow> py_split_on c p = [p]"
  by (induction p) auto

lemma split_join: "xs \<noteq> [] \<Longrightarrow> (\<forall>x \<in> set xs. c \<notin> set x) \<Longrightarrow> py_split_on c (py_join [c] xs) = xs"
proof (induction xs)
  case (Cons x xs)
  then show ?case by (cases xs) (auto simp: split_single split_append)
qed simp

definition comps_ok :: "string list \<Rightarrow> bool" where
  "comps_ok xs = (\<forall>x \<in> set xs. x \<noteq> [] \<and> x \<noteq> ''.'' \<and> CHR ''/'' \<notin> set x)"

lemma path_comps_ok: "comps_ok (path_comps s)"
  by (auto simp: comps_ok_def path_comps_def dest: split_parts)

lemma path_comps_slash: "path_comps (CHR ''/'' # s) = path_comps s"
  by (simp add: path_comps_def)

lemma path_comps_join: "comps_ok xs \<Longrightarrow> path_comps (py_join ''/'' xs) = xs"
proof (cases "xs = []")
  case True
  then show ?thesis by (simp add: path_comps_def)
next
  case False
  assume "comps_ok xs"
  with False show ?thesis
    unfolding path_comps_def by (subst split_join) (auto simp: comps_ok_def intro!: filter_True)
qed

lemma path_comps_replicate: "path_comps (replicate n (CHR ''/'') @ s) = path_comps s"
  by (induction n) (simp_all add: path_comps_slash)

lemma norm_comps_rooted:
  "''..'' \<notin> set acc \<Longrightarrow> comps_ok acc \<Longrightarrow> (\<forall>c \<in> set cs. CHR ''/'' \<notin> set c) \<Longrightarrow>
   comps_ok (norm_comps True acc cs) \<and> ''..'' \<notin> set (norm_comps True acc cs)"
proof (induction cs arbitrary: acc)
  case (Cons c cs)
  have tl: "''..'' \<notin> set (tl acc)" "comps_ok (tl acc)"
    using Cons.prems(1,2) by (cases acc; simp add: comps_ok_def)+
  consider "c = [] \<or> c = ''.''" | "c \<noteq> []" "c \<noteq> ''.''" "c = ''..''" | "c \<noteq> []" "c \<noteq> ''.''" "c \<noteq> ''..''" by blast
  then show ?case
  proof cases
    case 1
    with Cons.IH [OF Cons.prems(1,2)] Cons.prems(3) show ?thesis by auto
  next
    case 2
    have "norm_comps True acc (c # cs) = norm_comps True (tl acc) cs"
      using 2 Cons.prems(1) by (cases acc) auto
    with Cons.IH [OF tl] Cons.prems(3) show ?thesis by simp
  next
    case 3
    have "''..'' \<notin> set (c # acc)" "comps_ok (c # acc)"
      using 3 Cons.prems by (auto simp: comps_ok_def)
    from Cons.IH [OF this] Cons.prems(3) 3 show ?thesis by simp
  qed
qed (simp add: comps_ok_def)

lemma norm_comps_id: "comps_ok xs \<Longrightarrow> ''..'' \<notin> set xs \<Longrightarrow> norm_comps r acc xs = rev acc @ xs"
  by (induction xs arbitrary: acc) (auto simp: comps_ok_def)

lemma norm_comps_slashes: "norm_comps r acc (py_split_on (CHR ''/'') (replicate n (CHR ''/'') @ s)) = norm_comps r acc (py_split_on (CHR ''/'') s)"
  by (induction n) simp_all

lemma norm_comps_join:
  "comps_ok cs \<Longrightarrow> ''..'' \<notin> set cs \<Longrightarrow> norm_comps r [] (py_split_on (CHR ''/'') (py_join ''/'' cs)) = cs"
  using split_join [of cs "CHR ''/''"] norm_comps_id [of cs r "[]"] by (cases "cs = []") (auto simp: comps_ok_def)

lemma join_no_slash: "comps_ok cs \<Longrightarrow> \<not> prefix ''/'' (py_join ''/'' cs)"
proof (cases cs)
  case (Cons c ds)
  assume "comps_ok cs"
  with Cons obtain a as where "c = a # as" "a \<noteq> CHR ''/''" by (cases c) (auto simp: comps_ok_def)
  with Cons show ?thesis by (cases ds) auto
qed simp

lemma initial_slashes_kept: "n \<in> {1, 2} \<Longrightarrow> \<not> prefix ''/'' s \<Longrightarrow> initial_slashes (replicate n (CHR ''/'') @ s) = n"
  by (auto simp: initial_slashes_def numeral_2_eq_2)

lemma norm_absolute:
  assumes "isabs s"
  shows "isabs (normpath s)" and "''..'' \<notin> set (path_comps (normpath s))" and "normpath (normpath s) = normpath s"
proof -
  define n where "n = initial_slashes s"
  define cs where "cs = norm_comps True [] (py_split_on (CHR ''/'') s)"
  have n: "n > 0" using assms by (simp add: n_def initial_slashes_def isabs_def)
  have "s \<noteq> []" using assms by (auto simp: isabs_def)
  with n have np: "normpath s = replicate n (CHR ''/'') @ py_join ''/'' cs"
    by (simp add: normpath_def Let_def n_def cs_def)
  obtain m where m: "n = Suc m" using n by (cases n) simp_all
  show "isabs (normpath s)" by (simp add: np m isabs_def)
  have "comps_ok cs \<and> ''..'' \<notin> set cs" unfolding cs_def
    by (rule norm_comps_rooted) (auto simp: comps_ok_def dest: split_parts)
  then have cs: "comps_ok cs" "''..'' \<notin> set cs" by simp_all
  then show "''..'' \<notin> set (path_comps (normpath s))"
    by (simp add: np path_comps_replicate path_comps_join)
  have "n \<in> {1, 2}" using assms by (auto simp: n_def initial_slashes_def isabs_def)
  from initial_slashes_kept [OF this join_no_slash [OF cs(1)]]
  show "normpath (normpath s) = normpath s"
    using n by (simp add: np normpath_def [of "replicate n _ @ _"] Let_def norm_comps_slashes norm_comps_join [OF cs])
qed

lemma common_prefix_left: "common_prefix xs ys = xs \<Longrightarrow> prefix xs ys"
  by (induction xs ys rule: common_prefix.induct) (auto split: if_splits)

lemma common_prefix_subset: "set (common_prefix xs ys) \<subseteq> set xs"
  by (induction xs ys rule: common_prefix.induct) auto

text \<open>\<open>inside d t\<close>: the path \<open>t\<close>, taken from the directory \<open>d\<close>, lies in \<open>d\<close> when its \<open>..\<close> are resolved.\<close>

definition resolved_from :: "string \<Rightarrow> string \<Rightarrow> string" where
  "resolved_from d t = normpath (if isabs t then t else path_join (normpath d) t)"

definition inside :: "string \<Rightarrow> string \<Rightarrow> bool" where
  "inside d t = (prefix (path_comps (normpath d)) (path_comps (resolved_from d t)) \<and> ''..'' \<notin> set (path_comps (resolved_from d t)))"

lemma resolved_absolute: "isabs d \<Longrightarrow> isabs (if isabs t then t else path_join (normpath d) t)"
  using norm_absolute(1) [of d] by (auto simp: path_join_def isabs_def prefix_def)

lemma not_escaping_inside:
  assumes d: "isabs d" and t: "t \<noteq> []" and e: "\<not> target_escapes_worktree g t (Some d)"
  shows "inside d t"
proof -
  define tn where "tn = resolved_from d t"
  have a: "isabs (normpath d)" "isabs tn" "''..'' \<notin> set (path_comps tn)"
    unfolding tn_def resolved_from_def
    using norm_absolute(1) [OF d] norm_absolute(1,2) [OF resolved_absolute [OF d]] by simp_all
  have "normpath (abspath g d) = normpath d" using d norm_absolute(3) [OF d] by (simp add: abspath_def)
  with e t have c: "commonpath (normpath d) tn = Inr (normpath d)"
    by (auto simp: target_escapes_worktree_def Let_def tn_def resolved_from_def split: sum.splits)
  define cp where "cp = common_prefix (path_comps (normpath d)) (path_comps tn)"
  have "comps_ok cp" unfolding cp_def
    using path_comps_ok [of "normpath d"] common_prefix_subset by (fastforce simp: comps_ok_def)
  moreover have "normpath d = CHR ''/'' # py_join ''/'' cp"
    using c a by (simp add: commonpath_def cp_def)
  ultimately have "path_comps (normpath d) = cp" by (simp add: path_comps_slash path_comps_join)
  then have "prefix (path_comps (normpath d)) (path_comps tn)"
    unfolding cp_def by (metis common_prefix_left)
  with a(3) show ?thesis by (simp add: inside_def tn_def)
qed

end
