(* ===== verification/Shell_Props.thy ===== *)
theory Shell_Props
  imports Shell_Vetted
begin

text \<open>
  What the checks of shell commands guarantee: nothing runs unseen, what a validator reads is what runs, an
  allowed command is vetted, deletions stay in the worktree, pinned variables stay, a plan grants no denied
  command; and what they miss.
\<close>

section \<open>A sample\<close>

text \<open>The tree of \<open>env A=1 rm x\<close>, a hook that allows the two commands, and a call.\<close>

definition sample_word :: "nat \<Rightarrow> string \<Rightarrow> nat \<Rightarrow> nat \<Rightarrow> node" where
  "sample_word i s a b = Node i ''word'' [(''word'', AStr s), (''pos'', APos a b)]"

definition sample_text :: string where "sample_text = ''env A=1 rm x''"

definition sample_tree :: node where
  "sample_tree = Node 0 ''command'' [(''parts'', ANodes
     [sample_word 1 ''env'' 0 3, sample_word 2 ''A=1'' 4 7, sample_word 3 ''rm'' 8 10, sample_word 4 ''x'' 11 12])]"

definition sample_words :: "wd list" where
  "sample_words = map (\<lambda>s. \<lparr>w_word = s, w_raw = s, w_parts = []\<rparr>) [''env'', ''A=1'', ''rm'', ''x'']"

definition git_text :: string where "git_text = ''git -c user.name=x log''"

definition git_tree :: node where
  "git_tree = Node 0 ''command'' [(''parts'', ANodes
     [sample_word 1 ''git'' 0 3, sample_word 2 ''-c'' 4 6, sample_word 3 ''user.name=x'' 7 18, sample_word 4 ''log'' 19 22])]"

definition git_words :: "wd list" where
  "git_words = map (\<lambda>s. \<lparr>w_word = s, w_raw = s, w_parts = []\<rparr>) [''git'', ''-c'', ''user.name=x'', ''log'']"

definition sample_parse :: "string \<Rightarrow> string + node list" where
  "sample_parse s = (if s = sample_text then Inr [sample_tree] else if s = git_text then Inr [git_tree] else Inl ''unexpected'')"

definition sample_hook :: hook_env where
  "sample_hook = \<lparr>he_parse = sample_parse, he_getcwd = ''/'',
     he_profile = \<lambda>_. Some \<lparr>pr_base = set [''env'', ''rm'', ''git''], pr_stack = {}, pr_script = {}, pr_custom = {}, pr_shell_scripts = []\<rparr>,
     he_extra = [], he_policy = ''off'', he_hosts = []\<rparr>"

definition sample_call :: "string \<Rightarrow> obj" where
  "sample_call s = [(''tool_name'', JStr ''Bash''), (''tool_input'', JObj [(''command'', JStr s)]), (''cwd'', JStr ''/w'')]"

definition sample_world :: commit_world where
  "sample_world = \<lparr>cw_staged = [], cw_scan = None, cw_fingerprint = id\<rparr>"

lemma sample_graphs: "graphs_ok sample_parse"
proof -
  have "ids_ok sample_tree" "ids_ok git_tree" by code_simp+
  then show ?thesis by (auto simp: graphs_ok_def sample_parse_def split: if_splits)
qed

lemma sample_parsed: "parsed sample_parse sample_text = Inr (sample_text, [sample_tree])"
    "parsed sample_parse git_text = Inr (git_text, [git_tree])"
  by code_simp+

lemma sample_entries:
    "extract_command_segments_ast sample_parse sample_text = Inr [(''env'', ''env A=1 rm x'', False), (''rm'', ''rm x'', False)]"
    "extract_command_segments_ast sample_parse git_text = Inr [(''git'', git_text, False)]"
  by code_simp+

lemma sample_command_words: "command_words sample_text sample_tree = Inr sample_words"
    "command_words git_text git_tree = Inr git_words"
  by code_simp+

lemma sample_toks: "toks sample_words = [''env'', ''A=1'', ''rm'', ''x'']"
    "toks git_words = [''git'', ''-c'', ''user.name=x'', ''log'']"
  by code_simp+

lemma sample_runs_env: "runs sample_parse sample_text sample_words 0"
  by (rule direct [OF self sample_parsed(1) _ self_in_nodes_of _ sample_command_words(1)])
     (simp_all add: sample_tree_def sample_words_def)

lemma sample_runs_git: "runs sample_parse git_text git_words 0"
  by (rule direct [OF self sample_parsed(2) _ self_in_nodes_of _ sample_command_words(2)])
     (simp_all add: git_tree_def git_words_def)

lemma sample_runs_rm: "runs sample_parse sample_text sample_words 2"
proof (rule wrap [OF sample_runs_env], rule wrapped.env)
  show "env_options (toks sample_words) (Suc 0) 1" using env_options.none [of _ 1] by simp
  show "all_between assignment (toks sample_words) 1 2"
    by (auto simp: all_between_def sample_toks assignment_def less_Suc_eq numeral_2_eq_2)
qed (code_simp | simp add: sample_toks operand_def assignment_def)+

lemma sample_allowed: "fst (bash_security_hook sample_hook sample_world (sample_call sample_text)) = Inr None"
    "fst (bash_security_hook sample_hook sample_world (sample_call git_text)) = Inr None"
  by code_simp+

lemma sample_is_call: "bash_call (sample_call sample_text) sample_text" "bash_call (sample_call git_text) git_text"
  by (simp_all add: bash_call_def sample_call_def sample_text_def git_text_def)

lemma sample_cwd: "hook_cwd sample_hook (sample_call s) = Inr ''/w''"
  by (simp add: hook_cwd_def sample_call_def get_any_def)

lemma sample_hook_parse [simp]: "he_parse sample_hook = sample_parse"
  by (simp add: sample_hook_def)

section \<open>Extraction\<close>



text \<open>What a validator reads is what runs. The segment of every entry, a command line joined with quotes,
  splits back into the words of the command, the first of which names it.\<close>

theorem segments_split_back:
  assumes "extract_command_segments_ast parse s = Inr es" and "(name, seg, dyn) \<in> set es"
  shows "\<exists>ts. ts \<noteq> [] \<and> shlex_split seg = Inr ts \<and> name = path_basename (hd ts)"
proof -
  from assms have "extract_in parse 0 s False = Inr es"
    by (auto simp: extract_command_segments_ast_def split: if_splits)
  from segment_words [OF emitted_from_words(2) [OF this assms(2)]] show ?thesis .
qed

lemma segments_split_back_witness:
  "\<exists>ts. ts \<noteq> [] \<and> shlex_split ''rm x'' = Inr ts \<and> ''rm'' = path_basename (hd ts)"
  using segments_split_back [OF sample_entries(1), of "''rm''" "''rm x''" False] by simp



section \<open>The hook\<close>





text \<open>Configuration is not injected into git. When an allowed call runs git, at any nesting, no -c sets a key
  that can make git run a program, and no word names the program of a transport or the directory of helpers.\<close>

theorem git_config_not_injected:
  assumes "graphs_ok (he_parse h)" and "bash_call input s" and "fst (bash_security_hook h w input) = Inr None"
    and "runs (he_parse h) s ws i" and "path_basename (toks ws ! i) = ''git''" and "i \<le> k" and "k < length ws"
  shows "(toks ws ! k = ''-c'' \<and> Suc k < length ws \<longrightarrow> \<not> is_dangerous_git_config (before (CHR ''='') (toks ws ! Suc k))) \<and>
     before (CHR ''='') (toks ws ! k) \<notin> set DANGEROUS_GIT_FLAGS"
proof -
  from allowed_is_vetted [OF assms(2)] assms(3) obtain cwd es where v: "vetted h cwd s es"
    by (metis prod.collapse)
  have "path_basename (toks ws ! i) \<in> set VALIDATORS" using assms(5) by (simp add: VALIDATORS_def)
  from vetted_command(4) [OF assms(1) v assms(4) this] assms(5) obtain w1 w2 msg where
    "validate_git w1 (shlex_join (drop i (toks ws))) = (Inr (True, msg), w2)"
    by (auto simp: run_validator_def)
  then have f: "git_flag_refusal (drop i (toks ws)) = None"
    by (auto simp: validate_git_def shlex_split_join split: option.splits)
  have flags: "git_flag_refusal ts = None \<Longrightarrow> j < length ts \<Longrightarrow>
      (ts ! j = ''-c'' \<and> Suc j < length ts \<longrightarrow> \<not> is_dangerous_git_config (before (CHR ''='') (ts ! Suc j))) \<and>
      before (CHR ''='') (ts ! j) \<notin> set DANGEROUS_GIT_FLAGS" for ts j
  proof (induction ts arbitrary: j)
    case (Cons t ts)
    show ?case
    proof (cases j)
      case 0
      with Cons.prems show ?thesis
        by (cases ts) (auto simp: Let_def CONFIG_FLAGS_def DANGEROUS_GIT_FLAGS_def before_def split: if_splits)
    next
      case (Suc l)
      have "git_flag_refusal ts = None" using Cons.prems(1) by (auto simp: Let_def split: if_splits)
      from Cons.IH [OF this, of l] Cons.prems(2) Suc show ?thesis by simp
    qed
  qed simp
  have "Suc (k - i) < length ws - i \<longleftrightarrow> Suc k < length ws" using assms(6) by auto
  with flags [OF f, of "k - i"] assms(6,7) show ?thesis by simp
qed

lemma git_config_not_injected_witness: "\<not> is_dangerous_git_config (before (CHR ''='') ''user.name=x'')"
  using git_config_not_injected [OF _ sample_is_call(2) sample_allowed(2), of git_words 0 1]
    sample_graphs sample_runs_git
  by (simp add: sample_toks path_basename_def after_last_def git_words_def)

section \<open>Plans\<close>

definition denied :: "profile \<Rightarrow> string set" where
  "denied p = (pr_stack p \<union> pr_script p \<union> pr_custom p) \<inter> set DENY_COMMANDS"

lemma granted_not_denied: "fst (grantable_commands_from_plan parse plan) \<inter> set DENY_COMMANDS = {}"
  by (auto simp: grantable_commands_from_plan_def sanitize_command_names_def Let_def plan_name_ok_def)

lemma granted_is_grantable: "fst (grantable_commands_from_plan parse plan) \<subseteq> set PLAN_GRANTABLE_COMMANDS"
  by (auto simp: grantable_commands_from_plan_def sanitize_command_names_def Let_def plan_name_ok_def)

lemma seed_denied: "denied (fst (seed_profile parse p fresh plan)) = denied p"
  using granted_not_denied [of parse plan] by (auto simp: denied_def seed_profile_def Let_def)

interpretation seeding: machine "\<lambda>p (fresh, plan). fst (seed_profile parse p fresh plan)" "\<lambda>_. True" "\<lambda>p. denied p = D"
  for parse D
  by unfold_locales (auto simp: seed_denied)

text \<open>C11: no plan grants a denied command. Whatever plans are seeded into a profile, in whatever order, with whatever
  the detection finds each time, the denied commands of the profile are the ones it had before.\<close>

theorem plans_grant_no_denied_command:
  "denied (foldl (\<lambda>p (fresh, plan). fst (seed_profile parse p fresh plan)) p jobs) = denied p"
  by (rule seeding.run_inv) simp_all

section \<open>What the checks miss\<close>

text \<open>
  \<open>bash\<close> expands a leading tilde to the home directory, which is outside the worktree; the check of \<open>rm\<close> takes the
  word as a name in the worktree once it knows the root.
\<close>

lemma tilde_target_accepted:
  "validate_rm_command ''/'' (Some ''/w'') ''rm -rf ~/documents'' = yes"
  "validate_rm_command ''/'' None ''rm -rf ~/documents'' \<noteq> yes"
  by code_simp+

text \<open>Only the first \<open>-c\<close> of \<open>psql\<close> is read, and neither \<open>--command=\<close>, \<open>--execute=\<close> nor \<open>--eval=\<close> at all.\<close>

lemma sql_not_read:
  "psql_command [''psql'', ''-c'', ''select 1'', ''-c'', ''drop table t''] = Some ''select 1''"
  "psql_command [''psql'', ''--command=drop table t''] = None"
  "mysql_command [''mysql'', ''--execute=drop table t''] = None"
  "eval_script [''mongosh'', ''--eval=db.dropDatabase()''] = None"
  by simp_all

text \<open>The value of an option the check of \<open>redis-cli\<close> does not know is taken for the command.\<close>

lemma redis_repeat_accepted:
  "validate_redis_cli_command ''redis-cli -r 1 FLUSHALL'' = yes"
  "validate_redis_cli_command ''redis-cli FLUSHALL'' \<noteq> yes"
  by code_simp+

text \<open>A target of white space makes the check of \<open>pkill\<close> raise.\<close>

lemma pkill_space_crashes:
  "validate_pkill_command (''pkill '' @ [SQ] @ '' '' @ [SQ]) = Inl (Crash ''list index out of range'')"
  by code_simp

text \<open>Git accepts a unique prefix of a long option, and \<open>clone -u\<close> for \<open>--upload-pack\<close>; the check does not.\<close>

lemma abbreviated_option_accepted:
  "git_flag_refusal [''git'', ''fetch'', ''--upload-pac=./x''] = None"
  "git_flag_refusal [''git'', ''clone'', ''-u'', ''./x''] = None"
  "git_flag_refusal [''git'', ''fetch'', ''--upload-pack=./x''] \<noteq> None"
  by code_simp+

text \<open>One allowed address hides a bare host name from the allow list of egress.\<close>

lemma bare_host_not_checked:
  "check_egress ''allowlist'' ''a'' ''curl x://a b'' [''curl''] = (True, [])"
  by code_simp

end
