(* ===== verification/Py_Edit.thy ===== *)
theory Py_Edit
  imports Py_Text Py_Regex
begin

text \<open>
  The methods of \<open>str\<close> and \<open>list\<close> that edit a file's text: \<open>replace\<close>, \<open>splitlines\<close>, \<open>insert\<close>, and
  \<open>Path.suffix\<close>.
\<close>

definition LF :: char where "LF = CHR 0x0A"
definition CR :: char where "CR = CHR 0x0D"

section \<open>Replacement\<close>

text \<open>\<open>s.replace(old, new)\<close> and \<open>s.replace(old, new, 1)\<close> for an \<open>old\<close> that is not empty.\<close>

fun py_replace :: "string \<Rightarrow> string \<Rightarrow> string \<Rightarrow> string" where
  "py_replace old new [] = []"
| "py_replace old new (c # s) =
     (if old \<noteq> [] \<and> prefix old (c # s) then new @ py_replace old new (drop (length old - 1) s)
      else c # py_replace old new s)"

fun py_replace1 :: "string \<Rightarrow> string \<Rightarrow> string \<Rightarrow> string" where
  "py_replace1 old new [] = []"
| "py_replace1 old new (c # s) =
     (if old \<noteq> [] \<and> prefix old (c # s) then new @ drop (length old - 1) s
      else c # py_replace1 old new s)"

section \<open>Lines\<close>

definition line_break :: "char \<Rightarrow> bool" where
  "line_break c = (let n = (of_char c :: nat) in 10 \<le> n \<and> n \<le> 13 \<or> 28 \<le> n \<and> n \<le> 30 \<or> n = 133)"

text \<open>\<open>s.splitlines()\<close>: \<open>cur\<close> is the line read so far; a carriage return takes a line feed with it.\<close>

fun lines_from :: "string \<Rightarrow> string \<Rightarrow> string list" where
  "lines_from cur [] = (if cur = [] then [] else [cur])"
| "lines_from cur (c # s) =
     (if c = CR \<and> s \<noteq> [] \<and> hd s = LF then cur # lines_from [] (tl s)
      else if line_break c then cur # lines_from [] s
      else lines_from (cur @ [c]) s)"

definition splitlines :: "string \<Rightarrow> string list" where
  "splitlines = lines_from []"

definition join_lines :: "string list \<Rightarrow> string" where
  "join_lines = py_join [LF]"

text \<open>\<open>xs.insert(i, x)\<close>: a position past the end appends.\<close>

definition list_insert :: "nat \<Rightarrow> 'a \<Rightarrow> 'a list \<Rightarrow> 'a list" where
  "list_insert i x xs = take i xs @ x # drop i xs"

section \<open>Paths\<close>

text \<open>\<open>Path(p).name\<close> and \<open>Path(p).suffix.lower()\<close>.\<close>

definition path_name :: "string \<Rightarrow> string" where
  "path_name p = (case rev (filter (\<lambda>c. c \<noteq> [] \<and> c \<noteq> ''.'') (py_split_on (CHR ''/'') p)) of
     [] \<Rightarrow> [] | n # _ \<Rightarrow> n)"

definition path_suffix :: "string \<Rightarrow> string" where
  "path_suffix p =
     (let n = path_name p; e = after_last (CHR ''.'') n
      in if CHR ''.'' \<in> set n \<and> e \<noteq> [] \<and> Suc (length e) < length n then CHR ''.'' # e else [])"

definition lower_suffix :: "string \<Rightarrow> string" where
  "lower_suffix p = py_lower (path_suffix p)"

section \<open>Lemmas\<close>

lemma line_break_LF [simp]: "line_break LF" by code_simp

lemma set_list_insert [simp]: "set (list_insert i x xs) = insert x (set xs)"
proof -
  have "set (take i xs) \<union> set (drop i xs) = set xs" by (metis append_take_drop_id set_append)
  then show ?thesis by (auto simp: list_insert_def)
qed

lemma length_list_insert [simp]: "length (list_insert i x xs) = Suc (length xs)"
  by (simp add: list_insert_def)

lemma subseq_list_insert: "subseq xs (list_insert i x xs)"
proof -
  have "subseq (take i xs @ drop i xs) (take i xs @ x # drop i xs)"
    by (intro list_emb_append_mono) auto
  then show ?thesis by (simp add: list_insert_def)
qed

lemma py_join_append:
  "xs \<noteq> [] \<Longrightarrow> ys \<noteq> [] \<Longrightarrow> py_join sep (xs @ ys) = py_join sep xs @ sep @ py_join sep ys"
proof (induction xs)
  case (Cons x xs) then show ?case by (cases xs; cases ys) auto
qed simp

lemma sublist_join: "x \<in> set xs \<Longrightarrow> sublist x (py_join sep xs)"
proof (induction xs)
  case (Cons a xs)
  show ?case
  proof (cases "x = a")
    case True
    then have "prefix x (py_join sep (a # xs))" by (cases xs) auto
    then show ?thesis by (rule prefix_imp_sublist)
  next
    case False
    then obtain y ys where xs: "xs = y # ys" and x: "x \<in> set xs" using Cons.prems by (cases xs) auto
    have "suffix (py_join sep xs) (py_join sep (a # xs))" by (simp add: xs suffix_def)
    then show ?thesis using Cons.IH [OF x] suffix_imp_sublist sublist_order.order.trans by metis
  qed
qed simp

lemma sublist_append_left: "sublist x s \<Longrightarrow> sublist x (s @ t)"
  using sublist_order.order.trans prefix_imp_sublist by (metis prefixI)

lemma sublist_append_right: "sublist x t \<Longrightarrow> sublist x (s @ t)"
  using sublist_order.order.trans suffix_imp_sublist by (metis suffixI)

end
