(* ===== verification/File_Merger.thy ===== *)
theory File_Merger
  imports Py_Edit Merge_Types
begin

text \<open>
  \<open>merge/file_merger.py\<close>: the changes of one task applied to the baseline, the changes of several tasks
  combined, and the region of a file that a conflict's location names.
\<close>

section \<open>Where the imports end\<close>

definition js_exts :: "string list" where
  "js_exts = [''.js'', ''.jsx'', ''.ts'', ''.tsx'']"

definition starts_import :: "string \<Rightarrow> string \<Rightarrow> bool" where
  "starts_import ext stripped =
     (if ext = ''.py'' then prefix ''import '' stripped \<or> prefix ''from '' stripped
      else ext \<in> set js_exts \<and> prefix ''import '' stripped)"

fun import_end_from :: "string \<Rightarrow> nat \<Rightarrow> nat \<Rightarrow> string list \<Rightarrow> nat" where
  "import_end_from ext i last_import [] = last_import"
| "import_end_from ext i last_import (line # lines) =
     import_end_from ext (Suc i) (if starts_import ext (py_strip line) then Suc i else last_import) lines"

definition find_import_end :: "string list \<Rightarrow> string \<Rightarrow> nat" where
  "find_import_end lines file_path = import_end_from (lower_suffix file_path) 0 0 lines"

section \<open>The changes of one task\<close>

definition apply_change :: "string \<Rightarrow> string \<Rightarrow> semantic_change \<Rightarrow> string" where
  "apply_change file_path content c =
     (if truthy_str (sc_content_before c) \<and> truthy_str (sc_content_after c)
      then py_replace (the (sc_content_before c)) (the (sc_content_after c)) content
      else if truthy_str (sc_content_after c) \<and> \<not> truthy_str (sc_content_before c)
      then (if sc_change_type c = ADD_IMPORT
            then (let ls = splitlines content
                  in join_lines (list_insert (find_import_end ls file_path) (the (sc_content_after c)) ls))
            else if sc_change_type c = ADD_FUNCTION then content @ [LF, LF] @ the (sc_content_after c)
            else content)
      else content)"

definition apply_single_task_changes :: "string \<Rightarrow> task_snapshot \<Rightarrow> string \<Rightarrow> string" where
  "apply_single_task_changes baseline snapshot file_path =
     foldl (apply_change file_path) baseline (ts_semantic_changes snapshot)"

section \<open>The changes of several tasks\<close>

definition all_changes :: "task_snapshot list \<Rightarrow> semantic_change list" where
  "all_changes snapshots = concat (map ts_semantic_changes snapshots)"

datatype change_group = Import_Group | Function_Group | Modification_Group | Other_Group

definition group_of :: "semantic_change \<Rightarrow> change_group" where
  "group_of c =
     (if sc_change_type c = ADD_IMPORT then Import_Group
      else if sc_change_type c = ADD_FUNCTION then Function_Group
      else if py_in ''MODIFY'' (ct_value (sc_change_type c)) then Modification_Group
      else Other_Group)"

definition in_group :: "change_group \<Rightarrow> task_snapshot list \<Rightarrow> semantic_change list" where
  "in_group g snapshots = filter (\<lambda>c. group_of c = g) (all_changes snapshots)"

text \<open>The lines with the imports that the text does not hold yet, and where the next one goes.\<close>

definition add_import :: "string \<Rightarrow> semantic_change \<Rightarrow> string list \<times> nat \<Rightarrow> string list \<times> nat" where
  "add_import content imp p =
     (if truthy_str (sc_content_after imp) \<and> \<not> py_in (the (sc_content_after imp)) content
      then (list_insert (snd p) (the (sc_content_after imp)) (fst p), Suc (snd p)) else p)"

definition add_imports :: "string \<Rightarrow> semantic_change list \<Rightarrow> string \<Rightarrow> string" where
  "add_imports file_path imports content =
     (if imports = [] then content
      else join_lines (fst (fold (add_import content) imports
             (splitlines content, find_import_end (splitlines content) file_path))))"

definition replace_change :: "string \<Rightarrow> semantic_change \<Rightarrow> string" where
  "replace_change content c =
     (if truthy_str (sc_content_before c) \<and> truthy_str (sc_content_after c)
      then py_replace (the (sc_content_before c)) (the (sc_content_after c)) content else content)"

definition append_function :: "string \<Rightarrow> semantic_change \<Rightarrow> string" where
  "append_function content c =
     (if truthy_str (sc_content_after c) then content @ [LF, LF] @ the (sc_content_after c) else content)"

definition apply_other :: "string \<Rightarrow> semantic_change \<Rightarrow> string" where
  "apply_other content c =
     (if truthy_str (sc_content_after c) \<and> \<not> truthy_str (sc_content_before c)
      then content @ [LF] @ the (sc_content_after c) else replace_change content c)"

definition combine_non_conflicting_changes :: "string \<Rightarrow> task_snapshot list \<Rightarrow> string \<Rightarrow> string" where
  "combine_non_conflicting_changes baseline snapshots file_path =
     (let c1 = add_imports file_path (in_group Import_Group snapshots) baseline;
          c2 = foldl replace_change c1 (in_group Modification_Group snapshots);
          c3 = foldl append_function c2 (in_group Function_Group snapshots)
      in foldl apply_other c3 (in_group Other_Group snapshots))"

section \<open>The region at a location\<close>

text \<open>
  The name of the location is put into the expressions as it stands. \<open>re\<close> reads a name of word characters
  literally; what it makes of any other name, the error for one that is no expression included, is the
  argument \<open>compile\<close>.
\<close>

datatype region_pattern = Function_Statement | Function_Constant | Class_Statement

type_synonym compile = "region_pattern \<Rightarrow> string \<Rightarrow> py_error + rx"

definition keyword_let :: rx where
  "keyword_let = alts [lit ''const'', lit ''let'', lit ''var'']"

definition to_closing_brace :: "rx list" where
  "to_closing_brace = [Lazy any_char, ch LF, ch (CHR ''}'')]"

definition params :: "rx list" where
  "params = [ch (CHR ''(''), Star (none_of '')''), ch (CHR '')'')]"

fun plain_pattern :: "region_pattern \<Rightarrow> string \<Rightarrow> rx" where
  "plain_pattern Function_Statement name =
     Grp 1 (seqs ([lit ''function'', plus spacec, lit name, Star spacec] @ params
       @ [Star spacec, ch (CHR ''{'')] @ to_closing_brace))"
| "plain_pattern Function_Constant name =
     Grp 1 (seqs ([keyword_let, plus spacec, lit name, Star spacec, ch (CHR ''='')]
       @ to_closing_brace @ [opt (ch (CHR '';''))]))"
| "plain_pattern Class_Statement name =
     Grp 1 (seqs ([lit ''class'', plus spacec, lit name, Star spacec,
       opt (seqs [lit ''extends'', plus spacec, plus wordc]), Star spacec, ch (CHR ''{'')] @ to_closing_brace))"

definition region_rx :: "compile \<Rightarrow> region_pattern \<Rightarrow> string \<Rightarrow> py_error + rx" where
  "region_rx compile p name =
     (if list_all word_char name then Inr (plain_pattern p name) else compile p name)"

definition search_region :: "compile \<Rightarrow> region_pattern \<Rightarrow> string \<Rightarrow> string \<Rightarrow> py_error + string option" where
  "search_region compile p name content =
     bindE (region_rx compile p name) (\<lambda>r.
       Inr (case re_search_at r content 0 of None \<Rightarrow> None | Some m \<Rightarrow> grp content m 1))"

definition or_else :: "py_error + string option \<Rightarrow> py_error + string \<Rightarrow> py_error + string" where
  "or_else m k = bindE m (\<lambda>r. case r of Some s \<Rightarrow> Inr s | None \<Rightarrow> k)"

definition extract_location_content :: "compile \<Rightarrow> string \<Rightarrow> string \<Rightarrow> py_error + string" where
  "extract_location_content compile content location =
     (if CHR '':'' \<notin> set location then Inr content
      else (let loc_type = before (CHR '':'') location; loc_name = after (CHR '':'') location
            in if loc_type = ''function''
               then or_else (search_region compile Function_Statement loc_name content)
                      (or_else (search_region compile Function_Constant loc_name content) (Inr content))
               else if loc_type = ''class''
               then or_else (search_region compile Class_Statement loc_name content) (Inr content)
               else Inr content))"

definition apply_ai_merge :: "compile \<Rightarrow> string \<Rightarrow> string \<Rightarrow> string \<Rightarrow> py_error + string" where
  "apply_ai_merge compile content location merged_region =
     (if merged_region = [] then Inr content
      else bindE (extract_location_content compile content location) (\<lambda>original.
        Inr (if original \<noteq> [] \<and> original \<noteq> content then py_replace original merged_region content
             else content)))"

end
