(* ===== verification/Auto_Merger.thy ===== *)
theory Auto_Merger
  imports File_Merger
begin

text \<open>
  \<open>merge/auto_merger/\<close>: the helpers and the nine strategies that merge without AI, and \<open>AutoMerger.merge\<close>,
  which looks the handler of a strategy up. The handlers raise nothing, so its \<open>except\<close> is not reached.
\<close>

record merge_context =
  mc_file_path :: string
  mc_baseline_content :: string
  mc_task_snapshots :: "task_snapshot list"
  mc_conflict :: conflict_region

text \<open>A \<open>MergeResult\<close> with its defaults.\<close>

definition merge_result_of :: "merge_decision \<Rightarrow> string \<Rightarrow> merge_result" where
  "merge_result_of decision file_path =
     \<lparr>mr_decision = decision, mr_file_path = file_path, mr_merged_content = None, mr_conflicts_resolved = [],
      mr_conflicts_remaining = [], mr_ai_calls_made = 0, mr_tokens_used = 0, mr_explanation = [], mr_error = None\<rparr>"

definition merged :: "merge_context \<Rightarrow> string \<Rightarrow> string \<Rightarrow> merge_result" where
  "merged ctx content explanation =
     (merge_result_of MD_AUTO_MERGED (mc_file_path ctx))
       \<lparr>mr_merged_content := Some content, mr_conflicts_resolved := [mc_conflict ctx],
        mr_explanation := explanation\<rparr>"

definition count_str :: "'a list \<Rightarrow> string" where
  "count_str xs = str_of_int (int (length xs))"

section \<open>Helpers\<close>

definition is_import_line :: "string \<Rightarrow> string \<Rightarrow> bool" where
  "is_import_line line ext =
     (if ext = ''.py'' then prefix ''import '' line \<or> prefix ''from '' line
      else if ext \<in> set js_exts then prefix ''import '' line \<or> prefix ''export '' line
      else False)"

fun section_end_from :: "string \<Rightarrow> nat \<Rightarrow> nat \<Rightarrow> string list \<Rightarrow> nat" where
  "section_end_from ext i last_import [] = last_import"
| "section_end_from ext i last_import (line # lines) =
     (let stripped = py_strip line
      in if is_import_line stripped ext then section_end_from ext (Suc i) (Suc i) lines
         else if stripped \<noteq> [] \<and> \<not> prefix ''#'' stripped \<and> \<not> prefix ''//'' stripped \<and> last_import > 0
         then last_import
         else section_end_from ext (Suc i) last_import lines)"

definition find_import_section_end :: "string list \<Rightarrow> string \<Rightarrow> nat" where
  "find_import_section_end lines ext = section_end_from ext 0 0 lines"

definition call_rx :: rx where
  "call_rx = seqs [lit ''use'', plus wordc, ch (CHR ''(''), Star (none_of '')''), ch (CHR '')''), opt (ch (CHR '';''))]"

definition hook_rx :: rx where
  "hook_rx = Seq (opt (Grp 1 (seqs [lit ''const'', plus spacec, ch (CHR ''{''), plus (none_of ''}''), ch (CHR ''}''),
     Star spacec, ch (CHR ''=''), Star spacec]))) call_rx"

definition group0 :: "string \<Rightarrow> rx_match \<Rightarrow> string" where
  "group0 s m = sub_str s (fst m) (fst (snd m))"

definition extract_hook_call :: "semantic_change \<Rightarrow> string option" where
  "extract_hook_call c =
     (if truthy_str (sc_content_after c)
      then (let s = the (sc_content_after c)
            in case re_search_at hook_rx s 0 of
                 Some m \<Rightarrow> Some (group0 s m)
               | None \<Rightarrow> map_option (group0 s) (re_search_at call_rx s 0))
      else None)"

definition tag_rx :: rx where
  "tag_rx = seqs [ch (CHR ''<''), Grp 1 (plus wordc), Grp 2 (Star (none_of ''>'')), ch (CHR ''>'')]"

definition grp_str :: "string \<Rightarrow> rx_match \<Rightarrow> nat \<Rightarrow> string" where
  "grp_str s m k = (case grp s m k of Some t \<Rightarrow> t | None \<Rightarrow> [])"

definition extract_jsx_wrapper :: "semantic_change \<Rightarrow> (string \<times> string) option" where
  "extract_jsx_wrapper c =
     (if truthy_str (sc_content_after c)
      then (let s = the (sc_content_after c)
            in map_option (\<lambda>m. (grp_str s m 1, py_strip (grp_str s m 2))) (re_search_at tag_rx s 0))
      else None)"

definition opening_patterns :: "string \<Rightarrow> rx list" where
  "opening_patterns func_name =
     [seqs ([lit ''function'', plus spacec, lit func_name, Star spacec] @ params @ [Star spacec, ch (CHR ''{'')]),
      seqs [keyword_let, plus spacec, lit func_name, Star spacec, ch (CHR ''=''), Star spacec,
        opt (seqs [lit ''async'', plus spacec]), Alt (seqs params) (plus (none_of ''='')), Star spacec,
        lit ''=>'', Star spacec, ch (CHR ''{'')],
      seqs ([keyword_let, plus spacec, lit func_name, Star spacec, ch (CHR ''=''), Star spacec,
        lit ''function'', Star spacec] @ params @ [Star spacec, ch (CHR ''{'')])]"

fun first_end :: "rx list \<Rightarrow> string \<Rightarrow> nat option" where
  "first_end [] content = None"
| "first_end (r # rs) content =
     (case re_search_at r content 0 of Some (_, e, _) \<Rightarrow> Some e | None \<Rightarrow> first_end rs content)"

definition insert_hooks_into_function :: "string \<Rightarrow> string \<Rightarrow> string list \<Rightarrow> string" where
  "insert_hooks_into_function content func_name hooks =
     (case first_end (opening_patterns func_name) content of
        None \<Rightarrow> content
      | Some pos \<Rightarrow> take pos content @ (LF # ''  '') @ py_join (LF # ''  '') hooks @ drop pos content)"

definition return_rx :: rx where
  "return_rx = Seq (Grp 1 (seqs [lit ''return'', Star spacec, ch (CHR ''(''), Star spacec]))
     (Grp 2 (seqs [ch (CHR ''<''), plus (none_of ''>''), ch (CHR ''>'')]))"

text \<open>\<open>re.sub(return_pattern, replacer, content, count=1)\<close>; \<open>func_name\<close> is not used.\<close>

definition wrap_function_return :: "string \<Rightarrow> string \<Rightarrow> string \<Rightarrow> string \<Rightarrow> string" where
  "wrap_function_return content func_name wrapper_name wrapper_props =
     (case re_search_at return_rx content 0 of
        None \<Rightarrow> content
      | Some m \<Rightarrow>
          take (fst m) content @ grp_str content m 1 @ ''<'' @ wrapper_name
            @ (if wrapper_props = [] then [] else '' '' @ wrapper_props) @ ''>'' @ (LF # ''      '')
            @ grp_str content m 2 @ drop (fst (snd m)) content)"

definition is_export_line :: "string \<Rightarrow> bool" where
  "is_export_line line =
     (let s = py_strip line in prefix ''module.exports'' s \<or> prefix ''export default'' s)"

text \<open>The last line that exports.\<close>

definition find_function_insert_position :: "string \<Rightarrow> string \<Rightarrow> nat option" where
  "find_function_insert_position content ext =
     (let ls = py_split_on LF content
      in find (\<lambda>i. is_export_line (ls ! i)) (rev [0..<length ls]))"

text \<open>The position after the brace that closes the class, and the number of braces left open.\<close>

fun closing_brace :: "nat \<Rightarrow> nat \<Rightarrow> string \<Rightarrow> nat \<times> nat" where
  "closing_brace pos brace_count [] = (pos, brace_count)"
| "closing_brace pos brace_count (c # s) =
     (if brace_count = 0 then (pos, 0)
      else closing_brace (Suc pos)
        (if c = CHR ''{'' then Suc brace_count else if c = CHR ''}'' then brace_count - 1 else brace_count) s)"

definition class_rx :: "string \<Rightarrow> rx" where
  "class_rx class_name = seqs [lit ''class'', plus spacec, lit class_name, Star spacec,
     opt (seqs [lit ''extends'', plus spacec, plus wordc]), Star spacec, ch (CHR ''{'')]"

definition insert_methods_into_class :: "string \<Rightarrow> string \<Rightarrow> string list \<Rightarrow> string" where
  "insert_methods_into_class content class_name methods =
     (case re_search_at (class_rx class_name) content 0 of
        None \<Rightarrow> content
      | Some (_, start, _) \<Rightarrow>
          (case closing_brace start 1 (drop start content) of (pos, brace_count) \<Rightarrow>
             if brace_count = 0
             then take (pos - 1) content @ (LF # LF # ''  '') @ py_join (LF # LF # ''  '') methods
                    @ drop (pos - 1) content
             else content))"

definition prop_rx :: rx where
  "prop_rx = seqs [Grp 1 (plus wordc), lit ''={'', Grp 2 (plus (none_of ''}'')), ch (CHR ''}'')]"

definition find_props :: "string \<Rightarrow> (string \<times> string) list" where
  "find_props s = map (\<lambda>m. (grp_str s m 1, grp_str s m 2)) (re_finditer prop_rx s)"

definition extract_new_props :: "semantic_change \<Rightarrow> (string \<times> string) list" where
  "extract_new_props c =
     (if truthy_str (sc_content_after c) \<and> truthy_str (sc_content_before c)
      then filter (\<lambda>(name, value). name \<notin> fst ` set (find_props (the (sc_content_before c))))
             (find_props (the (sc_content_after c)))
      else [])"

definition apply_content_change :: "string \<Rightarrow> string option \<Rightarrow> string \<Rightarrow> string" where
  "apply_content_change content old new =
     (if truthy_str old \<and> py_in (the old) content then py_replace1 (the old) new content else content)"

fun priority :: "change_type \<Rightarrow> nat" where
  "priority ADD_IMPORT = 0"
| "priority ADD_HOOK_CALL = 1"
| "priority ADD_VARIABLE = 2"
| "priority ADD_CONSTANT = 2"
| "priority WRAP_JSX = 3"
| "priority ADD_JSX_ELEMENT = 4"
| "priority MODIFY_FUNCTION = 5"
| "priority MODIFY_JSX_PROPS = 5"
| "priority _ = 10"

definition topological_sort_changes :: "task_snapshot list \<Rightarrow> semantic_change list" where
  "topological_sort_changes snapshots = sort_key (\<lambda>c. priority (sc_change_type c)) (all_changes snapshots)"

section \<open>Imports\<close>

definition imports_to_add :: "task_snapshot list \<Rightarrow> string list" where
  "imports_to_add snapshots =
     map (\<lambda>c. py_strip (the (sc_content_after c)))
       (filter (\<lambda>c. sc_change_type c = ADD_IMPORT \<and> truthy_str (sc_content_after c)) (all_changes snapshots))"

definition imports_to_remove :: "task_snapshot list \<Rightarrow> string list" where
  "imports_to_remove snapshots =
     map (\<lambda>c. py_strip (the (sc_content_before c)))
       (filter (\<lambda>c. sc_change_type c = REMOVE_IMPORT \<and> truthy_str (sc_content_before c)) (all_changes snapshots))"

definition existing_imports :: "string list \<Rightarrow> string \<Rightarrow> string list" where
  "existing_imports lines ext =
     filter (\<lambda>l. is_import_line l ext) (map py_strip (take (find_import_section_end lines ext) lines))"

text \<open>\<open>seen\<close> are the imports met before.\<close>

fun new_imports_of :: "string list \<Rightarrow> string list \<Rightarrow> string list \<Rightarrow> string list \<Rightarrow> string list" where
  "new_imports_of existing remove seen [] = []"
| "new_imports_of existing remove seen (imp # imps) =
     (if imp \<notin> set existing \<and> imp \<notin> set remove \<and> imp \<notin> set seen
      then imp # new_imports_of existing remove (imp # seen) imps
      else new_imports_of existing remove seen imps)"

definition import_result_lines :: "string list \<Rightarrow> string \<Rightarrow> string list \<Rightarrow> string list \<Rightarrow> string list \<times> string list" where
  "import_result_lines lines ext to_add to_remove =
     (let new_imports = new_imports_of (existing_imports lines ext) to_remove [] to_add;
          result_lines = filter (\<lambda>l. py_strip l \<notin> set to_remove) lines
      in (new_imports,
          if new_imports = [] then result_lines
          else fold (list_insert (find_import_section_end result_lines ext)) (rev new_imports) result_lines))"

definition import_strategy :: "merge_context \<Rightarrow> merge_result" where
  "import_strategy ctx =
     (case import_result_lines (py_split_on LF (mc_baseline_content ctx)) (lower_suffix (mc_file_path ctx))
             (imports_to_add (mc_task_snapshots ctx)) (imports_to_remove (mc_task_snapshots ctx)) of
        (new_imports, result_lines) \<Rightarrow>
          merged ctx (join_lines result_lines)
            (''Combined '' @ count_str new_imports @ '' imports from '' @ count_str (mc_task_snapshots ctx) @ '' tasks''))"

section \<open>Hooks\<close>

definition hooks_of :: "task_snapshot list \<Rightarrow> string list" where
  "hooks_of snapshots =
     filter (\<lambda>h. h \<noteq> [])
       (List.map_filter extract_hook_call (filter (\<lambda>c. sc_change_type c = ADD_HOOK_CALL) (all_changes snapshots)))"

text \<open>\<open>func_location.split(":")[1]\<close> of a location that starts with \<open>function:\<close>.\<close>

definition location_name :: "string \<Rightarrow> string" where
  "location_name location = before (CHR '':'') (after (CHR '':'') location)"

definition hooks_strategy :: "merge_context \<Rightarrow> merge_result" where
  "hooks_strategy ctx =
     (let hooks = hooks_of (mc_task_snapshots ctx); location = cg_location (mc_conflict ctx);
          content = (if prefix ''function:'' location
            then insert_hooks_into_function (mc_baseline_content ctx) (location_name location) hooks
            else mc_baseline_content ctx)
      in merged ctx content (''Added '' @ count_str hooks @ '' hooks to function start''))"

definition wraps_of :: "task_snapshot list \<Rightarrow> (string \<times> string) list" where
  "wraps_of snapshots =
     List.map_filter extract_jsx_wrapper (filter (\<lambda>c. sc_change_type c = WRAP_JSX) (all_changes snapshots))"

definition hooks_then_wrap_strategy :: "merge_context \<Rightarrow> merge_result" where
  "hooks_then_wrap_strategy ctx =
     (let hooks = hooks_of (mc_task_snapshots ctx); wraps = wraps_of (mc_task_snapshots ctx);
          location = cg_location (mc_conflict ctx); func_name = location_name location;
          content = (if prefix ''function:'' location
            then foldl (\<lambda>s (n, ps). wrap_function_return s func_name n ps)
                   (if hooks = [] then mc_baseline_content ctx
                    else insert_hooks_into_function (mc_baseline_content ctx) func_name hooks) wraps
            else mc_baseline_content ctx)
      in merged ctx content (''Added '' @ count_str hooks @ '' hooks and '' @ count_str wraps @ '' JSX wrappers''))"

section \<open>Additions\<close>

definition new_functions :: "task_snapshot list \<Rightarrow> string list" where
  "new_functions snapshots =
     map (\<lambda>c. the (sc_content_after c))
       (filter (\<lambda>c. sc_change_type c = ADD_FUNCTION \<and> truthy_str (sc_content_after c)) (all_changes snapshots))"

text \<open>The position moves by the lines of the function, whose text is one element of the list.\<close>

definition insert_function :: "string \<Rightarrow> string list \<times> nat \<Rightarrow> string list \<times> nat" where
  "insert_function func p =
     (list_insert (Suc (snd p)) func (list_insert (snd p) [] (fst p)),
      snd p + 2 + length (filter (\<lambda>c. c = LF) func))"

definition append_functions_strategy :: "merge_context \<Rightarrow> merge_result" where
  "append_functions_strategy ctx =
     (let content = mc_baseline_content ctx; fs = new_functions (mc_task_snapshots ctx)
      in merged ctx
          (case find_function_insert_position content (lower_suffix (mc_file_path ctx)) of
             Some pos \<Rightarrow> join_lines (fst (fold insert_function fs (py_split_on LF content, pos)))
           | None \<Rightarrow> foldl (\<lambda>s f. s @ [LF, LF] @ f) content fs)
          (''Appended '' @ count_str fs @ '' new functions''))"

text \<open>The new methods by the name of their class.\<close>

definition new_methods :: "task_snapshot list \<Rightarrow> (string \<times> string list) list" where
  "new_methods snapshots =
     fold (\<lambda>c d.
         let class_name = before (CHR ''.'') (sc_target c)
         in if CHR ''.'' \<in> set (sc_target c) \<and> class_name \<noteq> []
            then AList.update class_name (ddefault [] d class_name @ [the (sc_content_after c)]) d else d)
       (filter (\<lambda>c. sc_change_type c = ADD_METHOD \<and> truthy_str (sc_content_after c)) (all_changes snapshots)) []"

definition append_methods_strategy :: "merge_context \<Rightarrow> merge_result" where
  "append_methods_strategy ctx =
     (let ms = new_methods (mc_task_snapshots ctx)
      in merged ctx
          (foldl (\<lambda>s (class_name, methods). insert_methods_into_class s class_name methods)
             (mc_baseline_content ctx) ms)
          (''Added '' @ count_str (concat (map snd ms)) @ '' methods to '' @ count_str ms @ '' classes''))"

definition additions_of :: "task_snapshot list \<Rightarrow> string list" where
  "additions_of snapshots =
     map (\<lambda>c. the (sc_content_after c))
       (filter (\<lambda>c. is_additive c \<and> truthy_str (sc_content_after c)) (all_changes snapshots))"

definition append_statements_strategy :: "merge_context \<Rightarrow> merge_result" where
  "append_statements_strategy ctx =
     (let adds = additions_of (mc_task_snapshots ctx)
      in merged ctx (foldl (\<lambda>s a. s @ [LF] @ a) (mc_baseline_content ctx) adds)
          (''Appended '' @ count_str adds @ '' statements''))"

section \<open>Props and orderings\<close>

text \<open>The props that are collected go nowhere; the last change of the last task is applied.\<close>

definition props_strategy :: "merge_context \<Rightarrow> merge_result" where
  "props_strategy ctx =
     (let snapshots = mc_task_snapshots ctx; content = mc_baseline_content ctx
      in merged ctx
          (if snapshots \<noteq> [] \<and> ts_semantic_changes (last snapshots) \<noteq> []
           then (let c = last (ts_semantic_changes (last snapshots))
                 in if truthy_str (sc_content_after c)
                    then apply_content_change content (sc_content_before c) (the (sc_content_after c)) else content)
           else content)
          (''Combined props from '' @ count_str snapshots @ '' tasks''))"

definition target_function :: "string \<Rightarrow> string" where
  "target_function target = (if CHR ''.'' \<in> set target then after_last (CHR ''.'') target else target)"

definition apply_ordered :: "string \<Rightarrow> semantic_change \<Rightarrow> string" where
  "apply_ordered content c =
     (if truthy_str (sc_content_after c)
      then (if sc_change_type c = ADD_HOOK_CALL
            then (if truthy_str (extract_hook_call c)
                  then insert_hooks_into_function content (target_function (sc_target c)) [the (extract_hook_call c)]
                  else content)
            else if sc_change_type c = WRAP_JSX
            then (case extract_jsx_wrapper c of
                    Some (n, ps) \<Rightarrow> wrap_function_return content (target_function (sc_target c)) n ps
                  | None \<Rightarrow> content)
            else content)
      else content)"

definition order_by_dependency_strategy :: "merge_context \<Rightarrow> merge_result" where
  "order_by_dependency_strategy ctx =
     merged ctx (foldl apply_ordered (mc_baseline_content ctx) (topological_sort_changes (mc_task_snapshots ctx)))
       ''Changes applied in dependency order''"

definition apply_timed :: "string \<Rightarrow> semantic_change \<Rightarrow> string" where
  "apply_timed content c =
     (if truthy_str (sc_content_before c) \<and> truthy_str (sc_content_after c)
      then apply_content_change content (sc_content_before c) (the (sc_content_after c)) else content)"

definition order_by_time_strategy :: "merge_context \<Rightarrow> merge_result" where
  "order_by_time_strategy ctx =
     (let snapshots = sort_key ts_started_at (mc_task_snapshots ctx)
      in merged ctx (foldl apply_timed (mc_baseline_content ctx) (all_changes snapshots))
          (''Applied '' @ count_str snapshots @ '' changes in chronological order''))"

section \<open>The merger\<close>

fun strategy_handler :: "merge_strategy \<Rightarrow> (merge_context \<Rightarrow> merge_result) option" where
  "strategy_handler MS_COMBINE_IMPORTS = Some import_strategy"
| "strategy_handler MS_HOOKS_FIRST = Some hooks_strategy"
| "strategy_handler MS_HOOKS_THEN_WRAP = Some hooks_then_wrap_strategy"
| "strategy_handler MS_APPEND_FUNCTIONS = Some append_functions_strategy"
| "strategy_handler MS_APPEND_METHODS = Some append_methods_strategy"
| "strategy_handler MS_COMBINE_PROPS = Some props_strategy"
| "strategy_handler MS_ORDER_BY_DEPENDENCY = Some order_by_dependency_strategy"
| "strategy_handler MS_ORDER_BY_TIME = Some order_by_time_strategy"
| "strategy_handler MS_APPEND_STATEMENTS = Some append_statements_strategy"
| "strategy_handler _ = None"

definition auto_merge :: "merge_context \<Rightarrow> merge_strategy \<Rightarrow> merge_result" where
  "auto_merge ctx strategy =
     (case strategy_handler strategy of
        None \<Rightarrow> (merge_result_of MD_FAILED (mc_file_path ctx))
          \<lparr>mr_error := Some (''No handler for strategy: '' @ ms_value strategy)\<rparr>
      | Some handler \<Rightarrow> handler ctx)"

definition can_handle :: "merge_strategy \<Rightarrow> bool" where
  "can_handle strategy = (strategy_handler strategy \<noteq> None)"

end
