(* ===== verification/Ai_Resolver.thy ===== *)
theory Ai_Resolver
  imports Auto_Merger
begin

text \<open>
  \<open>merge/ai_resolver/\<close>: the context of a conflict and its prompt, the parsers of an answer, and
  \<open>AIResolver\<close>. The call of the model is the argument \<open>ar_call\<close>: what it answers, or the exception it raises,
  given how many calls came before and the two prompts.
\<close>

section \<open>Languages and locations\<close>

definition ext_map :: "(string \<times> string) list" where
  "ext_map = [(''.py'', ''python''), (''.js'', ''javascript''), (''.ts'', ''typescript''), (''.tsx'', ''tsx''),
     (''.jsx'', ''jsx''), (''.go'', ''go''), (''.rs'', ''rust''), (''.java'', ''java''), (''.kt'', ''kotlin''),
     (''.swift'', ''swift''), (''.rb'', ''ruby''), (''.php'', ''php''), (''.css'', ''css''), (''.html'', ''html''),
     (''.json'', ''json''), (''.yaml'', ''yaml''), (''.yml'', ''yaml''), (''.md'', ''markdown'')]"

definition infer_language :: "string \<Rightarrow> string" where
  "infer_language file_path =
     (case find (\<lambda>(ext, lang). suffix ext file_path) ext_map of Some (ext, lang) \<Rightarrow> lang | None \<Rightarrow> ''text'')"

definition locations_overlap :: "string \<Rightarrow> string \<Rightarrow> bool" where
  "locations_overlap loc1 loc2 =
     (loc1 = loc2 \<or> prefix loc2 loc1 \<or> prefix loc1 loc2 \<or>
      (prefix ''function:'' loc1 \<and> prefix ''function:'' loc2 \<and> location_name loc1 = location_name loc2))"

section \<open>The context of a conflict\<close>

record conflict_context =
  cc_file_path :: string
  cc_location :: string
  cc_baseline_code :: string
  cc_task_changes :: "(string \<times> string \<times> semantic_change list) list"
  cc_conflict_description :: string
  cc_language :: string

definition change_lines :: "semantic_change \<Rightarrow> string list" where
  "change_lines c =
     (''  - '' @ ct_value (sc_change_type c) @ '': '' @ sc_target c)
     # (if truthy_str (sc_content_after c)
        then (let content = the (sc_content_after c)
              in [''    Code: '' @ (if length content > 500 then take 500 content @ ''... (truncated)'' else content)])
        else [])"

definition task_lines :: "string \<times> string \<times> semantic_change list \<Rightarrow> string list" where
  "task_lines t = (case t of (task_id, intent, changes) \<Rightarrow>
     [LF # ''[Task: '' @ task_id @ '']'', ''Intent: '' @ intent, ''Changes:''] @ concat (map change_lines changes))"

definition to_prompt_context :: "conflict_context \<Rightarrow> string" where
  "to_prompt_context cc = join_lines
     ([''File: '' @ cc_file_path cc, ''Location: '' @ cc_location cc, ''Language: '' @ cc_language cc, [],
       ''--- BASELINE CODE (before any changes) ---'', cc_baseline_code cc, ''--- END BASELINE ---'', [],
       ''CHANGES FROM EACH TASK:'']
      @ concat (map task_lines (cc_task_changes cc))
      @ [[], ''CONFLICT: '' @ cc_conflict_description cc])"

definition estimated_tokens :: "conflict_context \<Rightarrow> int" where
  "estimated_tokens cc = int (length (to_prompt_context cc)) div 4"

definition relevant_changes :: "conflict_region \<Rightarrow> task_snapshot \<Rightarrow> semantic_change list" where
  "relevant_changes conflict s =
     filter (\<lambda>c. sc_location c = cg_location conflict \<or> locations_overlap (sc_location c) (cg_location conflict))
       (ts_semantic_changes s)"

definition build_context :: "conflict_region \<Rightarrow> string \<Rightarrow> task_snapshot list \<Rightarrow> conflict_context" where
  "build_context conflict baseline_code task_snapshots =
     \<lparr>cc_file_path = cg_file_path conflict, cc_location = cg_location conflict, cc_baseline_code = baseline_code,
      cc_task_changes = map (\<lambda>s. (ts_task_id s,
            if ts_task_intent s = [] then ''No intent specified'' else ts_task_intent s, relevant_changes conflict s))
          (filter (\<lambda>s. ts_task_id s \<in> set (cg_tasks_involved conflict) \<and> relevant_changes conflict s \<noteq> [])
             task_snapshots),
      cc_conflict_description =
        ''Tasks '' @ py_join '', '' (cg_tasks_involved conflict) @ '' made conflicting changes: ''
        @ py_join '', '' (map ct_value (cg_change_types conflict)) @ ''. Severity: ''
        @ sev_value (cg_severity conflict) @ ''. '' @ cg_reason conflict,
      cc_language = infer_language (cg_file_path conflict)\<rparr>"

section \<open>Prompts\<close>

definition SYSTEM_PROMPT :: string where
  "SYSTEM_PROMPT = ''You are an expert code merge assistant. Be concise and precise.''"

definition format_merge_prompt :: "string \<Rightarrow> string \<Rightarrow> string" where
  "format_merge_prompt context language = join_lines
     [''You are a code merge assistant. Your task is to merge changes from multiple development tasks into a single coherent result.'',
      [],
      ''CONTEXT:'',
      context,
      [],
      ''INSTRUCTIONS:'',
      ''1. Analyze what each task intended to accomplish'',
      ''2. Merge the changes so that ALL task intents are preserved'',
      ''3. Resolve any conflicts by understanding the semantic purpose'',
      ''4. Output ONLY the merged code - no explanations'',
      [],
      ''RULES:'',
      ''- All imports from all tasks should be included'',
      ''- All hook calls should be preserved (order matters: earlier tasks first)'',
      ''- If tasks modify the same function, combine their changes logically'',
      ''- If tasks wrap JSX differently, apply wrappings from outside-in (earlier task = outer)'',
      ''- Preserve code style consistency'',
      [],
      ''OUTPUT FORMAT:'',
      ''Return only the merged code block, wrapped in triple backticks with the language:'',
      ''```'' @ language,
      ''merged code here'',
      ''```'',
      [],
      ''Merge the code now:'']"

definition format_batch_merge_prompt :: "string \<Rightarrow> string \<Rightarrow> string \<Rightarrow> string \<Rightarrow> string" where
  "format_batch_merge_prompt file_path num_conflicts combined_context language = join_lines
     [''You are a code merge assistant. Your task is to merge changes from multiple development tasks.'',
      [],
      ''There are '' @ num_conflicts @ '' conflict regions in '' @ file_path @ ''. Resolve each one.'',
      [],
      combined_context,
      [],
      ''For each conflict region, output the merged code in a separate code block labeled with the location:'',
      [],
      ''## Location: <location>'',
      ''```'' @ language,
      ''merged code'',
      ''```'',
      [],
      ''Resolve all conflicts now:'']"

section \<open>Parsing an answer\<close>

definition fence :: string where "fence = ''```''"

definition fenced :: "rx list \<Rightarrow> rx" where
  "fenced head = seqs ([lit fence] @ head @ [Grp 1 (Lazy any_char), lit fence])"

text \<open>The languages are those of \<open>infer_language\<close>, so that \<open>language\<close> is read literally.\<close>

definition block_patterns :: "string \<Rightarrow> rx list" where
  "block_patterns language =
     [fenced [lit language, ch LF], fenced [lit (py_lower language), ch LF], fenced [ch LF], fenced []]"

fun first_block :: "rx list \<Rightarrow> string \<Rightarrow> string option" where
  "first_block [] response = None"
| "first_block (r # rs) response =
     (case re_search_at r response 0 of Some m \<Rightarrow> grp response m 1 | None \<Rightarrow> first_block rs response)"

definition indicators :: "(string \<times> string list) list" where
  "indicators =
     [(''python'', [''def '', ''import '', ''class '', ''if '', ''for '']),
      (''javascript'', [''function'', ''const '', ''let '', ''var '', ''import '', ''export '']),
      (''typescript'', [''function'', ''const '', ''let '', ''interface '', ''type '', ''import '']),
      (''tsx'', [''function'', ''const '', ''return '', ''import '', ''export '', ''<'']),
      (''jsx'', [''function'', ''const '', ''return '', ''import '', ''export '', ''<''])]"

definition looks_like_code :: "string \<Rightarrow> string \<Rightarrow> bool" where
  "looks_like_code s language =
     (let lang_indicators = ddefault [] indicators (py_lower language)
      in if lang_indicators \<noteq> [] then list_ex (\<lambda>i. py_in i s) lang_indicators
         else list_ex (\<lambda>i. py_in i s)
           [''='', ''('', '')'', ''{'', ''}'', ''import'', ''def'', ''function''])"

definition extract_code_block :: "string \<Rightarrow> string \<Rightarrow> string option" where
  "extract_code_block response language =
     (case first_block (block_patterns language) response of
        Some b \<Rightarrow> Some (py_strip b)
      | None \<Rightarrow>
          if \<not> prefix fence (hd (py_split_on LF (py_strip response))) \<and> looks_like_code response language
          then Some (py_strip response) else None)"

definition batch_rx :: "string \<Rightarrow> string \<Rightarrow> rx" where
  "batch_rx location language =
     seqs [lit ''## Location: '', lit location, Lazy any_char, lit fence, lit language, ch LF,
       Grp 1 (Lazy any_char), lit fence]"

definition extract_batch_code_blocks :: "string \<Rightarrow> string \<Rightarrow> string \<Rightarrow> string option" where
  "extract_batch_code_blocks response location language =
     (case re_search_at (batch_rx location language) response 0 of
        Some m \<Rightarrow> map_option py_strip (grp response m 1) | None \<Rightarrow> None)"

section \<open>The resolver\<close>

type_synonym ai_call = "nat \<Rightarrow> string \<Rightarrow> string \<Rightarrow> string + string"

text \<open>\<open>ar_attempts\<close> counts the calls that were made, those that raised included.\<close>

record ai_resolver =
  ar_call :: "ai_call option"
  ar_max_context_tokens :: int
  ar_call_count :: int
  ar_total_tokens :: int
  ar_attempts :: nat

definition MAX_CONTEXT_TOKENS :: int where "MAX_CONTEXT_TOKENS = 4000"

definition new_resolver :: "ai_call option \<Rightarrow> int \<Rightarrow> ai_resolver" where
  "new_resolver ai_call_fn max_context_tokens =
     \<lparr>ar_call = ai_call_fn, ar_max_context_tokens = max_context_tokens, ar_call_count = 0, ar_total_tokens = 0,
      ar_attempts = 0\<rparr>"

definition set_ai_function :: "ai_call \<Rightarrow> ai_resolver \<Rightarrow> ai_resolver" where
  "set_ai_function f r = r\<lparr>ar_call := Some f\<rparr>"

definition resolver_stats :: "ai_resolver \<Rightarrow> obj" where
  "resolver_stats r =
     [(''calls_made'', JInt (ar_call_count r)), (''estimated_tokens_used'', JInt (ar_total_tokens r))]"

definition reset_stats :: "ai_resolver \<Rightarrow> ai_resolver" where
  "reset_stats r = r\<lparr>ar_call_count := 0, ar_total_tokens := 0\<rparr>"

text \<open>A call: the attempt is counted, and with an answer the call and its tokens.\<close>

definition call_ai :: "ai_call \<Rightarrow> string \<Rightarrow> int \<Rightarrow> ai_resolver \<Rightarrow> (string + string) \<times> ai_resolver" where
  "call_ai f prompt tokens r =
     (let answer = f (ar_attempts r) SYSTEM_PROMPT prompt; r' = r\<lparr>ar_attempts := Suc (ar_attempts r)\<rparr>
      in case answer of
           Inl e \<Rightarrow> (Inl e, r')
         | Inr response \<Rightarrow>
             (Inr response, r'\<lparr>ar_call_count := ar_call_count r + 1,
                ar_total_tokens := ar_total_tokens r + (tokens + int (length response) div 4)\<rparr>))"

definition human_review :: "string \<Rightarrow> string \<Rightarrow> conflict_region list \<Rightarrow> merge_result" where
  "human_review file_path explanation remaining =
     (merge_result_of MD_NEEDS_HUMAN_REVIEW file_path)
       \<lparr>mr_explanation := explanation, mr_conflicts_remaining := remaining\<rparr>"

definition resolve_conflict ::
    "conflict_region \<Rightarrow> string \<Rightarrow> task_snapshot list \<Rightarrow> ai_resolver \<Rightarrow> merge_result \<times> ai_resolver" where
  "resolve_conflict conflict baseline_code task_snapshots r =
     (case ar_call r of
        None \<Rightarrow> (human_review (cg_file_path conflict) ''No AI function configured'' [conflict], r)
      | Some f \<Rightarrow>
          let cc = build_context conflict baseline_code task_snapshots; tokens = estimated_tokens cc
          in if tokens > ar_max_context_tokens r
             then (human_review (cg_file_path conflict)
                     (''Context too large for AI ('' @ str_of_int tokens @ '' tokens)'') [conflict], r)
             else (case call_ai f (format_merge_prompt (to_prompt_context cc) (cc_language cc)) tokens r of
                 (Inl e, r') \<Rightarrow>
                   ((merge_result_of MD_FAILED (cg_file_path conflict))
                      \<lparr>mr_error := Some e, mr_conflicts_remaining := [conflict]\<rparr>, r')
               | (Inr response, r') \<Rightarrow>
                   (let merged_code = extract_code_block response (cc_language cc)
                    in if truthy_str merged_code
                       then ((merge_result_of MD_AI_MERGED (cg_file_path conflict))
                          \<lparr>mr_merged_content := merged_code, mr_conflicts_resolved := [conflict],
                           mr_ai_calls_made := 1, mr_tokens_used := tokens,
                           mr_explanation := ''AI resolved conflict at '' @ cg_location conflict\<rparr>, r')
                       else ((human_review (cg_file_path conflict) ''Could not parse AI merge response'' [conflict])
                          \<lparr>mr_ai_calls_made := 1, mr_tokens_used := tokens\<rparr>, r'))))"

text \<open>The conflicts one after the other.\<close>

fun resolve_each ::
    "(string \<times> string) list \<Rightarrow> task_snapshot list \<Rightarrow> conflict_region list \<Rightarrow> ai_resolver
      \<Rightarrow> merge_result list \<times> ai_resolver" where
  "resolve_each baseline_codes task_snapshots [] r = ([], r)"
| "resolve_each baseline_codes task_snapshots (c # cs) r =
     (case resolve_conflict c (ddefault [] baseline_codes (cg_location c)) task_snapshots r of
        (m, r1) \<Rightarrow> (case resolve_each baseline_codes task_snapshots cs r1 of (ms, r2) \<Rightarrow> (m # ms, r2)))"

definition absorb_result :: "merge_result \<Rightarrow> merge_result \<Rightarrow> merge_result" where
  "absorb_result m r =
     m\<lparr>mr_conflicts_resolved := mr_conflicts_resolved m @ mr_conflicts_resolved r,
       mr_conflicts_remaining := mr_conflicts_remaining m @ mr_conflicts_remaining r,
       mr_ai_calls_made := mr_ai_calls_made m + mr_ai_calls_made r,
       mr_tokens_used := mr_tokens_used m + mr_tokens_used r\<rparr>"

text \<open>\<open>conflicts\<close> has at least two elements here.\<close>

definition resolve_file_batch ::
    "string \<Rightarrow> conflict_region list \<Rightarrow> (string \<times> string) list \<Rightarrow> task_snapshot list \<Rightarrow> ai_resolver
      \<Rightarrow> merge_result \<times> ai_resolver" where
  "resolve_file_batch file_path conflicts baseline_codes task_snapshots r =
     (case ar_call r of
        None \<Rightarrow> (human_review file_path ''No AI function configured'' conflicts, r)
      | Some f \<Rightarrow>
          let all_contexts = map (\<lambda>c. build_context c (ddefault [] baseline_codes (cg_location c)) task_snapshots) conflicts;
              total_tokens = sum_list (map estimated_tokens all_contexts)
          in if total_tokens > ar_max_context_tokens r
             then (case resolve_each baseline_codes task_snapshots conflicts r of
                     (ms, r') \<Rightarrow> (foldl absorb_result (hd ms) (tl ms), r'))
             else
               let combined_context = py_join ([LF, LF] @ ''---'' @ [LF, LF]) (map to_prompt_context all_contexts);
                   language = (if all_contexts = [] then ''text'' else cc_language (hd all_contexts));
                   prompt = format_batch_merge_prompt file_path (count_str conflicts) combined_context language
               in case call_ai f prompt total_tokens r of
                    (Inl e, r') \<Rightarrow>
                      ((merge_result_of MD_FAILED file_path)
                         \<lparr>mr_error := Some e, mr_conflicts_remaining := conflicts\<rparr>, r')
                  | (Inr response, r') \<Rightarrow>
                      (let found = (\<lambda>c. truthy_str (extract_batch_code_blocks response (cg_location c) language));
                           resolved = filter found conflicts; remaining = filter (\<lambda>c. \<not> found c) conflicts
                       in if resolved \<noteq> []
                          then ((merge_result_of (if remaining = [] then MD_AI_MERGED else MD_NEEDS_HUMAN_REVIEW) file_path)
                             \<lparr>mr_merged_content := Some response, mr_conflicts_resolved := resolved,
                              mr_conflicts_remaining := remaining, mr_ai_calls_made := 1, mr_tokens_used := total_tokens,
                              mr_explanation := ''Batch resolved '' @ count_str resolved @ ''/'' @ count_str conflicts
                                @ '' conflicts''\<rparr>, r')
                          else ((human_review file_path ''Could not parse batch AI response'' conflicts)
                             \<lparr>mr_ai_calls_made := 1, mr_tokens_used := total_tokens\<rparr>, r')))"

definition by_file :: "conflict_region list \<Rightarrow> (string \<times> conflict_region list) list" where
  "by_file conflicts =
     fold (\<lambda>c d. AList.update (cg_file_path c) (ddefault [] d (cg_file_path c) @ [c]) d) conflicts []"

fun resolve_files ::
    "(string \<times> string) list \<Rightarrow> task_snapshot list \<Rightarrow> (string \<times> conflict_region list) list \<Rightarrow> ai_resolver
      \<Rightarrow> merge_result list \<times> ai_resolver" where
  "resolve_files baseline_codes task_snapshots [] r = ([], r)"
| "resolve_files baseline_codes task_snapshots ((file_path, cs) # rest) r =
     (case (if length cs = 1
            then resolve_conflict (hd cs) (ddefault [] baseline_codes (cg_location (hd cs))) task_snapshots r
            else resolve_file_batch file_path cs baseline_codes task_snapshots r) of
        (m, r1) \<Rightarrow> (case resolve_files baseline_codes task_snapshots rest r1 of (ms, r2) \<Rightarrow> (m # ms, r2)))"

definition resolve_multiple_conflicts ::
    "conflict_region list \<Rightarrow> (string \<times> string) list \<Rightarrow> task_snapshot list \<Rightarrow> bool \<Rightarrow> ai_resolver
      \<Rightarrow> merge_result list \<times> ai_resolver" where
  "resolve_multiple_conflicts conflicts baseline_codes task_snapshots batch r =
     (if batch \<and> length conflicts > 1 then resolve_files baseline_codes task_snapshots (by_file conflicts) r
      else resolve_each baseline_codes task_snapshots conflicts r)"

definition can_resolve :: "ai_resolver \<Rightarrow> conflict_region \<Rightarrow> bool" where
  "can_resolve r conflict =
     (cg_merge_strategy conflict \<in> {Some MS_AI_REQUIRED, None}
      \<and> cg_severity conflict \<in> {SEV_MEDIUM, SEV_HIGH} \<and> ar_call r \<noteq> None)"

end
