(* ===== verification/Merge_Pipeline.thy ===== *)
theory Merge_Pipeline
  imports Ai_Resolver Conflict_Props
begin

text \<open>
  \<open>merge/conflict_resolver.py\<close> and \<open>merge/merge_pipeline.py\<close>: the conflicts of a file resolved one after the
  other, without AI where the rules allow it, and the merge of one file.
\<close>

section \<open>The resolution of conflicts\<close>

text \<open>The local variables of the loop, and the resolver as it stands.\<close>

record resolution =
  rs_content :: string
  rs_resolved :: "conflict_region list"
  rs_remaining :: "conflict_region list"
  rs_ai_calls :: int
  rs_tokens :: int
  rs_ai :: "ai_resolver option"

text \<open>What stays the same during the loop: the arguments, and \<open>enable_ai\<close>.\<close>

record resolve_args =
  ra_compile :: compile
  ra_enable_ai :: bool
  ra_file_path :: string
  ra_baseline :: string
  ra_snapshots :: "task_snapshot list"

definition or_content :: "string option \<Rightarrow> string \<Rightarrow> string" where
  "or_content new old = (if truthy_str new then the new else old)"

text \<open>The attempt without AI: the new content, if it succeeded.\<close>

definition try_auto_merge :: "resolve_args \<Rightarrow> conflict_region \<Rightarrow> string \<Rightarrow> string option" where
  "try_auto_merge a conflict content =
     (case cg_merge_strategy conflict of
        Some strategy \<Rightarrow>
          if cg_can_auto_merge conflict
          then (let result = auto_merge \<lparr>mc_file_path = ra_file_path a, mc_baseline_content = content,
                       mc_task_snapshots = ra_snapshots a, mc_conflict = conflict\<rparr> strategy
                in if mr_success result then Some (or_content (mr_merged_content result) content) else None)
          else None
      | None \<Rightarrow> None)"

definition wants_ai :: "resolve_args \<Rightarrow> resolution \<Rightarrow> conflict_region \<Rightarrow> bool" where
  "wants_ai a st conflict =
     (ra_enable_ai a \<and> rs_ai st \<noteq> None \<and> cg_severity conflict \<in> {SEV_MEDIUM, SEV_HIGH})"

definition keep_remaining :: "conflict_region \<Rightarrow> resolution \<Rightarrow> resolution" where
  "keep_remaining conflict st = st\<lparr>rs_remaining := rs_remaining st @ [conflict]\<rparr>"

definition resolve_one :: "resolve_args \<Rightarrow> conflict_region \<Rightarrow> resolution \<Rightarrow> py_error + resolution" where
  "resolve_one a conflict st =
     (case try_auto_merge a conflict (rs_content st) of
        Some content \<Rightarrow> Inr (st\<lparr>rs_content := content, rs_resolved := rs_resolved st @ [conflict]\<rparr>)
      | None \<Rightarrow>
          if \<not> wants_ai a st conflict then Inr (keep_remaining conflict st)
          else bindE (extract_location_content (ra_compile a) (ra_baseline a) (cg_location conflict)) (\<lambda>conflict_baseline.
            case resolve_conflict conflict conflict_baseline (ra_snapshots a) (the (rs_ai st)) of (ai_result, ai) \<Rightarrow>
              let st' = st\<lparr>rs_ai_calls := rs_ai_calls st + mr_ai_calls_made ai_result,
                           rs_tokens := rs_tokens st + mr_tokens_used ai_result, rs_ai := Some ai\<rparr>
              in if mr_success ai_result
                 then bindE (apply_ai_merge (ra_compile a) (rs_content st) (cg_location conflict)
                          (or_content (mr_merged_content ai_result) []))
                        (\<lambda>content. Inr (st'\<lparr>rs_content := content, rs_resolved := rs_resolved st @ [conflict]\<rparr>))
                 else Inr (keep_remaining conflict st')))"

fun resolve_all :: "resolve_args \<Rightarrow> conflict_region list \<Rightarrow> resolution \<Rightarrow> py_error + resolution" where
  "resolve_all a [] st = Inr st"
| "resolve_all a (c # cs) st = bindE (resolve_one a c st) (resolve_all a cs)"

text \<open>\<open>xs[:5]\<close> as lines, and how many more there are.\<close>

definition first_five :: "('a \<Rightarrow> string) \<Rightarrow> 'a list \<Rightarrow> string list" where
  "first_five f xs = map f (take 5 xs)
     @ (if length xs > 5 then [''  ... and '' @ str_of_int (int (length xs) - 5) @ '' more''] else [])"

definition build_explanation :: "conflict_region list \<Rightarrow> conflict_region list \<Rightarrow> string" where
  "build_explanation resolved remaining =
     (let parts =
        (if resolved = [] then []
         else (''Resolved '' @ count_str resolved @ '' conflict(s):'')
              # first_five (\<lambda>c. ''  - '' @ cg_location c @ '': ''
                  @ (case cg_merge_strategy c of Some s \<Rightarrow> ms_value s | None \<Rightarrow> ''auto'')) resolved)
        @ (if remaining = [] then []
           else (LF # ''Unresolved '' @ count_str remaining @ '' conflict(s) - need human review:'')
                # first_five (\<lambda>c. ''  - '' @ cg_location c @ '': '' @ cg_reason c) remaining)
      in if parts = [] then ''No conflicts'' else join_lines parts)"

definition decision_of :: "resolution \<Rightarrow> merge_decision" where
  "decision_of st =
     (if rs_remaining st = [] then (if rs_ai_calls st = 0 then MD_AUTO_MERGED else MD_AI_MERGED)
      else if rs_resolved st \<noteq> [] then MD_NEEDS_HUMAN_REVIEW else MD_FAILED)"

definition result_of :: "string \<Rightarrow> resolution \<Rightarrow> merge_result" where
  "result_of file_path st =
     \<lparr>mr_decision = decision_of st, mr_file_path = file_path,
      mr_merged_content = (if decision_of st \<noteq> MD_FAILED then Some (rs_content st) else None),
      mr_conflicts_resolved = rs_resolved st, mr_conflicts_remaining = rs_remaining st,
      mr_ai_calls_made = rs_ai_calls st, mr_tokens_used = rs_tokens st,
      mr_explanation = build_explanation (rs_resolved st) (rs_remaining st), mr_error = None\<rparr>"

definition start_resolution :: "string \<Rightarrow> ai_resolver option \<Rightarrow> resolution" where
  "start_resolution baseline ai =
     \<lparr>rs_content = baseline, rs_resolved = [], rs_remaining = [], rs_ai_calls = 0, rs_tokens = 0, rs_ai = ai\<rparr>"

definition resolve_conflicts ::
    "resolve_args \<Rightarrow> conflict_region list \<Rightarrow> ai_resolver option \<Rightarrow> py_error + merge_result \<times> ai_resolver option" where
  "resolve_conflicts a conflicts ai =
     bindE (resolve_all a conflicts (start_resolution (ra_baseline a) ai))
       (\<lambda>st. Inr (result_of (ra_file_path a) st, rs_ai st))"

section \<open>The merge of a file\<close>

definition empty_analysis :: "string \<Rightarrow> semantic_change list \<Rightarrow> file_analysis" where
  "empty_analysis file_path changes =
     \<lparr>fa_file_path = file_path, fa_changes = changes, fa_functions_modified = [], fa_functions_added = [],
      fa_imports_added = [], fa_imports_removed = [], fa_classes_modified = [], fa_total_lines_changed = 0\<rparr>"

definition count_change :: "semantic_change \<Rightarrow> file_analysis \<Rightarrow> file_analysis" where
  "count_change c a =
     (let t = sc_target c;
          a' = (case sc_change_type c of
                  ADD_FUNCTION \<Rightarrow> a\<lparr>fa_functions_added := List.insert t (fa_functions_added a)\<rparr>
                | MODIFY_FUNCTION \<Rightarrow> a\<lparr>fa_functions_modified := List.insert t (fa_functions_modified a)\<rparr>
                | ADD_IMPORT \<Rightarrow> a\<lparr>fa_imports_added := List.insert t (fa_imports_added a)\<rparr>
                | REMOVE_IMPORT \<Rightarrow> a\<lparr>fa_imports_removed := List.insert t (fa_imports_removed a)\<rparr>
                | _ \<Rightarrow> a)
      in a'\<lparr>fa_total_lines_changed := fa_total_lines_changed a + (sc_line_end c - sc_line_start c + 1)\<rparr>)"

definition snapshot_analysis :: "string \<Rightarrow> task_snapshot \<Rightarrow> file_analysis" where
  "snapshot_analysis file_path s =
     fold count_change (ts_semantic_changes s) (empty_analysis file_path (ts_semantic_changes s))"

definition build_task_analyses :: "string \<Rightarrow> task_snapshot list \<Rightarrow> (string \<times> file_analysis) list" where
  "build_task_analyses file_path snapshots =
     fold (\<lambda>s. AList.update (ts_task_id s) (snapshot_analysis file_path s)) snapshots []"

text \<open>The pipeline: the rules of its detector, \<open>enable_ai\<close>, and what \<open>re\<close> makes of unusual names.\<close>

record pipeline =
  pl_rules :: rule_index
  pl_enable_ai :: bool
  pl_compile :: compile

definition args_of :: "pipeline \<Rightarrow> string \<Rightarrow> string \<Rightarrow> task_snapshot list \<Rightarrow> resolve_args" where
  "args_of p file_path baseline snapshots =
     \<lparr>ra_compile = pl_compile p, ra_enable_ai = pl_enable_ai p, ra_file_path = file_path, ra_baseline = baseline,
      ra_snapshots = snapshots\<rparr>"

definition merge_file ::
    "pipeline \<Rightarrow> string \<Rightarrow> string \<Rightarrow> task_snapshot list \<Rightarrow> ai_resolver option
      \<Rightarrow> py_error + merge_result \<times> ai_resolver option" where
  "merge_file p file_path baseline snapshots ai =
     (if length snapshots = 1
      then Inr ((merge_result_of MD_AUTO_MERGED file_path)
             \<lparr>mr_merged_content := Some (apply_single_task_changes baseline (hd snapshots) file_path),
              mr_explanation := ''Single task ('' @ ts_task_id (hd snapshots) @ '') changes applied''\<rparr>, ai)
      else
        (let conflicts = detect_conflicts (build_task_analyses file_path snapshots) (pl_rules p)
         in if conflicts = []
            then Inr ((merge_result_of MD_AUTO_MERGED file_path)
                   \<lparr>mr_merged_content := Some (combine_non_conflicting_changes baseline snapshots file_path),
                    mr_explanation := ''All changes compatible, combined automatically''\<rparr>, ai)
            else resolve_conflicts (args_of p file_path baseline snapshots) conflicts ai))"

end
