(* ===== verification/Merge_Resolve_Props.thy ===== *)
theory Merge_Resolve_Props
  imports Merge_Pipeline
begin

text \<open>
  What the resolution of conflicts guarantees: every conflict ends on one side, only those that the rules or the
  model may decide end among the resolved, and the cost of the model is bounded.
\<close>

section \<open>One conflict\<close>

text \<open>What a step may do with a conflict.\<close>

definition auto_resolvable :: "conflict_region \<Rightarrow> bool" where
  "auto_resolvable c \<longleftrightarrow> cg_can_auto_merge c \<and> (\<exists>s. cg_merge_strategy c = Some s \<and> can_handle s)"

definition ai_resolvable :: "resolve_args \<Rightarrow> ai_resolver option \<Rightarrow> conflict_region \<Rightarrow> bool" where
  "ai_resolvable a ai c \<longleftrightarrow> ra_enable_ai a \<and> ai \<noteq> None \<and> cg_severity c \<in> {SEV_MEDIUM, SEV_HIGH}"

lemma merged_simps [simp]:
  "mr_decision (merged ctx s e) = MD_AUTO_MERGED" "mr_merged_content (merged ctx s e) = Some s"
  "mr_success (merged ctx s e)" "mr_conflicts_resolved (merged ctx s e) = [mc_conflict ctx]"
  "mr_ai_calls_made (merged ctx s e) = 0"
  by (simp_all add: merged_def mr_success_def merge_result_of_def)

lemmas strategy_defs = import_strategy_def hooks_strategy_def hooks_then_wrap_strategy_def
  append_functions_strategy_def append_methods_strategy_def append_statements_strategy_def props_strategy_def
  order_by_dependency_strategy_def order_by_time_strategy_def

lemma handler_merges: "strategy_handler s = Some h \<Longrightarrow> \<exists>t e. h ctx = merged ctx t e"
  by (cases s) (auto simp: strategy_defs Let_def split: prod.split)

lemma auto_merge_success: "mr_success (auto_merge ctx s) \<longleftrightarrow> can_handle s"
proof (cases "strategy_handler s")
  case None
  then show ?thesis by (simp add: auto_merge_def can_handle_def mr_success_def merge_result_of_def)
next
  case (Some h)
  then obtain t e where "h ctx = merged ctx t e" using handler_merges by blast
  with Some show ?thesis by (simp add: auto_merge_def can_handle_def)
qed

lemma try_auto_merge_Some: "try_auto_merge a c s \<noteq> None \<longleftrightarrow> auto_resolvable c"
  by (auto simp: try_auto_merge_def auto_resolvable_def auto_merge_success Let_def split: option.splits if_splits)

section \<open>The loop\<close>

text \<open>One step, seen from outside: the conflict is on one side now, and the counters moved within their bounds.\<close>

definition max_of :: "ai_resolver option \<Rightarrow> int" where
  "max_of ai = (case ai of None \<Rightarrow> 0 | Some r \<Rightarrow> ar_max_context_tokens r)"

definition cost_of :: "resolve_args \<Rightarrow> ai_resolver option \<Rightarrow> conflict_region \<Rightarrow> nat" where
  "cost_of a ai c = (if \<not> auto_resolvable c \<and> ai_resolvable a ai c then 1 else 0)"

lemma estimated_tokens_nonneg: "0 \<le> estimated_tokens cc"
  by (simp add: estimated_tokens_def)

lemma call_ai_max: "ar_max_context_tokens (snd (call_ai f p n r)) = ar_max_context_tokens r"
  by (simp add: call_ai_def Let_def split: sum.split)

lemma resolve_conflict_cost:
  assumes "resolve_conflict c b ts r = (m, r')"
  shows "0 \<le> mr_ai_calls_made m \<and> mr_ai_calls_made m \<le> 1 \<and> ar_max_context_tokens r' = ar_max_context_tokens r \<and>
    0 \<le> mr_tokens_used m \<and> (mr_ai_calls_made m = 0 \<longrightarrow> mr_tokens_used m = 0) \<and>
    (mr_ai_calls_made m = 1 \<longrightarrow> mr_tokens_used m \<le> ar_max_context_tokens r)"
proof (cases "ar_call r")
  case None
  then show ?thesis using assms by (auto simp: resolve_conflict_def human_review_def merge_result_of_def)
next
  case (Some f)
  let ?cc = "build_context c b ts"
  show ?thesis
  proof (cases "estimated_tokens ?cc > ar_max_context_tokens r")
    case True
    then show ?thesis using assms Some
      by (auto simp: resolve_conflict_def human_review_def merge_result_of_def Let_def)
  next
    case False
    obtain x r1 where c1: "call_ai f (format_merge_prompt (to_prompt_context ?cc) (cc_language ?cc))
        (estimated_tokens ?cc) r = (x, r1)" by fastforce
    then have "ar_max_context_tokens r1 = ar_max_context_tokens r" using call_ai_max by (metis snd_conv)
    then show ?thesis using assms Some False c1 estimated_tokens_nonneg [of ?cc]
      by (cases x) (auto simp: resolve_conflict_def human_review_def merge_result_of_def Let_def split: if_splits)
  qed
qed

lemma resolve_one_cases:
  assumes "resolve_one a c st = Inr st'"
  shows "auto_resolvable c \<and> rs_resolved st' = rs_resolved st @ [c] \<and> rs_remaining st' = rs_remaining st \<and>
      rs_ai_calls st' = rs_ai_calls st \<and> rs_tokens st' = rs_tokens st \<and> rs_ai st' = rs_ai st
    \<or> \<not> auto_resolvable c \<and> \<not> ai_resolvable a (rs_ai st) c \<and> st' = keep_remaining c st
    \<or> \<not> auto_resolvable c \<and> ai_resolvable a (rs_ai st) c \<and> (\<exists>b m r.
        resolve_conflict c b (ra_snapshots a) (the (rs_ai st)) = (m, r) \<and> rs_ai st' = Some r \<and>
        rs_ai_calls st' = rs_ai_calls st + mr_ai_calls_made m \<and> rs_tokens st' = rs_tokens st + mr_tokens_used m \<and>
        (if mr_success m then rs_resolved st' = rs_resolved st @ [c] \<and> rs_remaining st' = rs_remaining st
         else rs_resolved st' = rs_resolved st \<and> rs_remaining st' = rs_remaining st @ [c]))"
proof (cases "try_auto_merge a c (rs_content st)")
  case (Some s)
  then have "auto_resolvable c" using try_auto_merge_Some by blast
  then show ?thesis using assms Some by (auto simp: resolve_one_def)
next
  case None
  then have na: "\<not> auto_resolvable c" using try_auto_merge_Some by blast
  show ?thesis
  proof (cases "wants_ai a st c")
    case False
    then have "\<not> ai_resolvable a (rs_ai st) c" by (simp add: wants_ai_def ai_resolvable_def)
    moreover have "st' = keep_remaining c st" using assms None False by (simp add: resolve_one_def)
    ultimately show ?thesis using na by blast
  next
    case True
    then have ai: "ai_resolvable a (rs_ai st) c" by (simp add: wants_ai_def ai_resolvable_def)
    obtain b where b: "extract_location_content (ra_compile a) (ra_baseline a) (cg_location c) = Inr b"
      using assms None True by (cases "extract_location_content (ra_compile a) (ra_baseline a) (cg_location c)")
        (auto simp: resolve_one_def)
    obtain m r where mr: "resolve_conflict c b (ra_snapshots a) (the (rs_ai st)) = (m, r)" by fastforce
    have "rs_ai st' = Some r \<and> rs_ai_calls st' = rs_ai_calls st + mr_ai_calls_made m \<and>
        rs_tokens st' = rs_tokens st + mr_tokens_used m \<and>
        (if mr_success m then rs_resolved st' = rs_resolved st @ [c] \<and> rs_remaining st' = rs_remaining st
         else rs_resolved st' = rs_resolved st \<and> rs_remaining st' = rs_remaining st @ [c])"
      using assms None True b mr
      by (auto simp: resolve_one_def keep_remaining_def bindE_Inr_iff Let_def split: if_splits)
    then show ?thesis using na ai mr by blast
  qed
qed

text \<open>What the loop keeps: \<open>cs\<close> are the conflicts met so far, \<open>ai\<close> is the resolver at the start.\<close>

definition loop_inv :: "resolve_args \<Rightarrow> ai_resolver option \<Rightarrow> conflict_region list \<Rightarrow> resolution \<Rightarrow> bool" where
  "loop_inv a ai cs st \<longleftrightarrow>
     mset (rs_resolved st) + mset (rs_remaining st) = mset cs \<and>
     subseq (rs_resolved st) cs \<and> subseq (rs_remaining st) cs \<and>
     (\<forall>c \<in> set (rs_resolved st). auto_resolvable c \<or> ai_resolvable a ai c) \<and>
     (\<forall>c \<in> set (rs_remaining st). \<not> auto_resolvable c) \<and>
     (rs_ai st = None \<longleftrightarrow> ai = None) \<and> max_of (rs_ai st) = max_of ai \<and>
     0 \<le> rs_ai_calls st \<and> rs_ai_calls st \<le> int (sum_list (map (cost_of a ai) cs)) \<and>
     0 \<le> rs_tokens st \<and> rs_tokens st \<le> rs_ai_calls st * max_of ai"

lemma subseq_snoc: "subseq xs ys \<Longrightarrow> subseq xs (ys @ [y])" "subseq xs ys \<Longrightarrow> subseq (xs @ [y]) (ys @ [y])"
  by auto

lemma loop_inv_step:
  assumes inv: "loop_inv a ai cs st" and step: "resolve_one a c st = Inr st'"
  shows "loop_inv a ai (cs @ [c]) st'"
proof -
  have same: "ai_resolvable a (rs_ai st) c \<longleftrightarrow> ai_resolvable a ai c"
    using inv by (auto simp: loop_inv_def ai_resolvable_def)
  from resolve_one_cases [OF step] consider
      (auto) "auto_resolvable c" "rs_resolved st' = rs_resolved st @ [c]" "rs_remaining st' = rs_remaining st"
        "rs_ai_calls st' = rs_ai_calls st" "rs_tokens st' = rs_tokens st" "rs_ai st' = rs_ai st"
    | (keep) "\<not> auto_resolvable c" "st' = keep_remaining c st"
    | (ai) b m r where "\<not> auto_resolvable c" "ai_resolvable a (rs_ai st) c"
        "resolve_conflict c b (ra_snapshots a) (the (rs_ai st)) = (m, r)" "rs_ai st' = Some r"
        "rs_ai_calls st' = rs_ai_calls st + mr_ai_calls_made m" "rs_tokens st' = rs_tokens st + mr_tokens_used m"
        "if mr_success m then rs_resolved st' = rs_resolved st @ [c] \<and> rs_remaining st' = rs_remaining st
         else rs_resolved st' = rs_resolved st \<and> rs_remaining st' = rs_remaining st @ [c]"
    by blast
  then show ?thesis
  proof cases
    case auto
    then show ?thesis using inv by (auto simp: loop_inv_def subseq_snoc)
  next
    case keep
    then show ?thesis using inv by (auto simp: loop_inv_def keep_remaining_def subseq_snoc)
  next
    case ai
    have cost: "cost_of a ai c = 1" using ai(1,2) same by (simp add: cost_of_def)
    have max: "max_of (rs_ai st) = ar_max_context_tokens (the (rs_ai st))"
      using ai(2) by (auto simp: max_of_def ai_resolvable_def)
    note b = resolve_conflict_cost [OF ai(3)]
    have calls: "mr_ai_calls_made m = 0 \<or> mr_ai_calls_made m = 1" using b by linarith
    have "max_of ai = max_of (rs_ai st)" using inv by (simp add: loop_inv_def)
    then have tok: "mr_tokens_used m \<le> mr_ai_calls_made m * max_of ai" using b calls max by auto
    have r: "max_of (rs_ai st') = max_of ai"
      using b ai(4) max inv by (simp add: loop_inv_def max_of_def [of "Some r"])
    have bound: "rs_ai_calls st' \<le> int (sum_list (map (cost_of a ai) (cs @ [c])))"
      using ai(5) cost b inv by (simp add: loop_inv_def)
    have tokens: "rs_tokens st' \<le> rs_ai_calls st' * max_of ai"
      using tok ai(5,6) inv by (simp add: loop_inv_def distrib_right)
    have some: "ai \<noteq> None" using ai(2) same by (simp add: ai_resolvable_def)
    have sides: "mset (rs_resolved st') + mset (rs_remaining st') = mset (cs @ [c])
        \<and> subseq (rs_resolved st') (cs @ [c]) \<and> subseq (rs_remaining st') (cs @ [c])
        \<and> (\<forall>c \<in> set (rs_resolved st'). auto_resolvable c \<or> ai_resolvable a ai c)
        \<and> (\<forall>c \<in> set (rs_remaining st'). \<not> auto_resolvable c)"
      using ai(1,2,7) same inv by (auto simp: loop_inv_def subseq_snoc split: if_splits)
    show ?thesis unfolding loop_inv_def using sides r bound tokens some b ai(4,5,6) inv by (auto simp: loop_inv_def)
  qed
qed

lemma resolve_all_inv:
  "loop_inv a ai cs0 st \<Longrightarrow> resolve_all a cs st = Inr st' \<Longrightarrow> loop_inv a ai (cs0 @ cs) st'"
proof (induction cs arbitrary: cs0 st)
  case (Cons c cs)
  from Cons.prems(2) obtain st1 where st1: "resolve_one a c st = Inr st1" "resolve_all a cs st1 = Inr st'"
    by (auto simp: bindE_Inr_iff)
  then show ?case using Cons.IH [OF loop_inv_step [OF Cons.prems(1) st1(1)] st1(2)] by simp
qed simp

lemma resolve_conflicts_inv:
  assumes "resolve_conflicts a cs ai = Inr (m, ai')"
  obtains st where "loop_inv a ai cs st" "m = result_of (ra_file_path a) st" "ai' = rs_ai st"
proof -
  from assms obtain st where st: "resolve_all a cs (start_resolution (ra_baseline a) ai) = Inr st"
    "m = result_of (ra_file_path a) st" "ai' = rs_ai st" by (auto simp: resolve_conflicts_def bindE_Inr_iff)
  have "loop_inv a ai [] (start_resolution (ra_baseline a) ai)"
    by (simp add: loop_inv_def start_resolution_def)
  from resolve_all_inv [OF this st(1)] st(2,3) that show ?thesis by simp
qed

end
