(* ===== verification/Merge_Text_Props.thy ===== *)
theory Merge_Text_Props
  imports Auto_Merger "HOL-Library.Multiset"
begin

text \<open>What the strategies do to the text of a file: imports, and additions that are combined.\<close>

section \<open>The import section\<close>

text \<open>The imports of the section, read in one pass; \<open>seen\<close> tells whether one was met.\<close>

definition blocking :: "string \<Rightarrow> bool" where
  "blocking s = (s \<noteq> [] \<and> \<not> prefix ''#'' s \<and> \<not> prefix ''//'' s)"

fun section_imports :: "string \<Rightarrow> bool \<Rightarrow> string list \<Rightarrow> string list" where
  "section_imports ext seen [] = []"
| "section_imports ext seen (line # lines) =
     (let s = py_strip line
      in if is_import_line s ext then s # section_imports ext True lines
         else if blocking s \<and> seen then [] else section_imports ext seen lines)"

lemma section_end_bound: "l \<le> i \<Longrightarrow> section_end_from ext i l lines = l \<or> i < section_end_from ext i l lines"
proof (induction lines arbitrary: i l)
  case (Cons x xs)
  show ?case using Cons.IH [of "Suc i" "Suc i"] Cons.IH [of l "Suc i"] Cons.prems by (auto simp: Let_def)
qed simp

lemma section_split:
  assumes "l \<le> i" "(l > 0) = seen"
  shows "if i < section_end_from ext i l lines
    then section_imports ext seen (take (section_end_from ext i l lines - i) lines @ rest)
           = section_imports ext seen lines @ section_imports ext True rest
    else section_imports ext seen lines = []"
  using assms
proof (induction lines arbitrary: i l seen)
  case (Cons x xs)
  let ?s = "py_strip x"
  show ?case
  proof (cases "is_import_line ?s ext")
    case True
    let ?e = "section_end_from ext (Suc i) (Suc i) xs"
    have e: "?e = Suc i \<or> Suc i < ?e" by (rule section_end_bound) simp
    then have "?e - i = Suc (?e - Suc i)" by linarith
    then show ?thesis using Cons.IH [of "Suc i" "Suc i" True] True e by auto
  next
    case False
    show ?thesis
    proof (cases "blocking ?s \<and> seen")
      case True
      then show ?thesis using False Cons.prems by (auto simp: Let_def blocking_def)
    next
      case go: False
      let ?e = "section_end_from ext (Suc i) l xs"
      have e: "?e = l \<or> Suc i < ?e" by (rule section_end_bound) (use Cons.prems in simp)
      have step: "section_end_from ext i l (x # xs) = ?e"
        using False go Cons.prems by (auto simp: Let_def blocking_def)
      show ?thesis
      proof (cases "Suc i < ?e")
        case True
        then have "?e - i = Suc (?e - Suc i)" by linarith
        then show ?thesis unfolding step using Cons.IH [of l "Suc i" seen] Cons.prems False go True by auto
      next
        case nothing: False
        then have "\<not> i < ?e" using e Cons.prems by linarith
        then show ?thesis unfolding step using Cons.IH [of l "Suc i" seen] Cons.prems False go nothing by auto
      qed
    qed
  qed
qed simp

lemma take_section: "section_end_from ext i l lines > i \<Longrightarrow> l \<le> i \<Longrightarrow> (l > 0) = seen \<Longrightarrow>
  filter (\<lambda>s. is_import_line s ext) (map py_strip (take (section_end_from ext i l lines - i) lines))
    = section_imports ext seen lines"
proof (induction lines arbitrary: i l seen)
  case (Cons x xs)
  let ?s = "py_strip x"
  show ?case
  proof (cases "is_import_line ?s ext")
    case True
    let ?e = "section_end_from ext (Suc i) (Suc i) xs"
    have e: "?e = Suc i \<or> Suc i < ?e" by (rule section_end_bound) simp
    then have d: "?e - i = Suc (?e - Suc i)" by linarith
    show ?thesis
    proof (cases "Suc i < ?e")
      case inner: True
      then show ?thesis using Cons.IH [of "Suc i" "Suc i" True] True d by simp
    next
      case False
      then show ?thesis using section_split [of "Suc i" "Suc i" True ext xs "[]"] True d e by simp
    qed
  next
    case False
    have go: "\<not> (blocking ?s \<and> seen)" using Cons.prems False by (auto simp: Let_def blocking_def split: if_splits)
    let ?e = "section_end_from ext (Suc i) l xs"
    have step: "section_end_from ext i l (x # xs) = ?e"
      using False go Cons.prems by (auto simp: Let_def blocking_def)
    have "?e = l \<or> Suc i < ?e" by (rule section_end_bound) (use Cons.prems in simp)
    then have e: "Suc i < ?e" using Cons.prems step by linarith
    then have "?e - i = Suc (?e - Suc i)" by linarith
    then show ?thesis unfolding step using Cons.IH [of "Suc i" l seen] Cons.prems False go e by auto
  qed
qed simp

lemma existing_imports_section: "existing_imports lines ext = section_imports ext False lines"
proof (cases "section_end_from ext 0 0 lines > 0")
  case True
  then show ?thesis using take_section [of 0 ext 0 lines False]
    by (simp add: existing_imports_def find_import_section_end_def)
next
  case False
  then show ?thesis using section_split [of 0 0 False ext lines "[]"]
    by (simp add: existing_imports_def find_import_section_end_def)
qed

text \<open>Removing lines keeps the other imports in the section.\<close>

lemma section_filter:
  "i \<in> set (section_imports ext seen lines) \<Longrightarrow> i \<notin> R \<Longrightarrow> (seen' \<longrightarrow> seen) \<Longrightarrow>
   i \<in> set (section_imports ext seen' (filter (\<lambda>l. py_strip l \<notin> R) lines))"
proof (induction lines arbitrary: seen seen')
  case (Cons x xs)
  show ?case
    using Cons.prems Cons.IH [of True seen'] Cons.IH [of True True] Cons.IH [of seen seen']
    by (auto simp: Let_def split: if_splits)
qed simp

section \<open>The imports that are added\<close>

lemma set_new_imports:
  "set (new_imports_of ex rem seen imps) = set imps - set ex - set rem - set seen"
  by (induction imps arbitrary: seen) auto

lemma new_imports_none: "set imps \<subseteq> set ex \<union> set rem \<Longrightarrow> new_imports_of ex rem seen imps = []"
  by (induction imps) auto

lemma distinct_new_imports: "distinct (new_imports_of ex rem seen imps)"
  by (induction imps arbitrary: seen) (auto simp: set_new_imports)

lemma fold_list_insert:
  "i \<le> length ls \<Longrightarrow> fold (list_insert i) (rev xs) ls = take i ls @ xs @ drop i ls"
  by (induction xs arbitrary: ls) (auto simp: list_insert_def min_def)

lemma section_end_le: "l \<le> i \<Longrightarrow> section_end_from ext i l lines \<le> i + length lines"
proof (induction lines arbitrary: i l)
  case (Cons x xs)
  show ?case using Cons.IH [of "Suc i" "Suc i"] Cons.IH [of l "Suc i"] Cons.prems by (auto simp: Let_def)
qed simp

lemma import_result:
  assumes "import_result_lines lines ext to_add to_remove = (new, out)"
  defines "kept \<equiv> filter (\<lambda>l. py_strip l \<notin> set to_remove) lines"
  shows "new = new_imports_of (existing_imports lines ext) to_remove [] to_add"
    and "out = take (find_import_section_end kept ext) kept @ new @ drop (find_import_section_end kept ext) kept"
proof -
  show "new = new_imports_of (existing_imports lines ext) to_remove [] to_add"
    using assms(1) by (simp add: import_result_lines_def Let_def)
  moreover have "find_import_section_end kept ext \<le> length kept"
    using section_end_le [of 0 0 ext kept] by (simp add: find_import_section_end_def)
  ultimately show "out = take (find_import_section_end kept ext) kept @ new @ drop (find_import_section_end kept ext) kept"
    using assms(1) fold_list_insert by (auto simp: import_result_lines_def Let_def kept_def)
qed

lemma py_strip_idem [simp]: "py_strip (py_strip s) = py_strip s"
proof -
  have d: "dropWhile P (dropWhile P xs) = dropWhile P xs" for P and xs :: string by (induction xs) auto
  have h: "dropWhile is_space (rev (dropWhile is_space (rev (dropWhile is_space s))))
      = rev (dropWhile is_space (rev (dropWhile is_space s)))"
  proof (cases "rev (dropWhile is_space (rev (dropWhile is_space s)))")
    case (Cons c cs)
    then have "prefix (c # cs) (dropWhile is_space s)"
      by (metis dropWhile_eq_drop rev_drop rev_rev_ident take_is_prefix)
    then obtain t where "dropWhile is_space s = c # t" by (auto simp: prefix_def)
    then have "\<not> is_space c" by (metis hd_dropWhile list.distinct(1) list.sel(1))
    then show ?thesis by (simp add: Cons)
  next
    case Nil
    then show ?thesis by (simp only: Nil dropWhile.simps)
  qed
  show ?thesis by (simp add: py_strip_def h d)
qed

lemma existing_kept:
  "x \<in> set (existing_imports lines ext) \<Longrightarrow> \<exists>l \<in> set lines. py_strip l = x"
  by (auto simp: existing_imports_def dest: in_set_takeD)

text \<open>Combining the imports of several tasks keeps what the tasks agree on. The lines of the file that no task
  removed stay, in their order; every import that a task adds and none removes is there afterwards, each new
  one once; and no removed import is left.\<close>

theorem imports_are_combined:
  "let lines = py_split_on LF (mc_baseline_content ctx); added = set (imports_to_add (mc_task_snapshots ctx));
     removed = set (imports_to_remove (mc_task_snapshots ctx)) in
   \<exists>out new. mr_merged_content (import_strategy ctx) = Some (join_lines out) \<and>
    subseq (filter (\<lambda>l. py_strip l \<notin> removed) lines) out \<and>
    mset out = mset (filter (\<lambda>l. py_strip l \<notin> removed) lines) + mset new \<and>
    distinct new \<and> set new \<subseteq> added - removed \<and>
    (\<forall>i \<in> added - removed. i \<in> set (map py_strip out)) \<and>
    (\<forall>l \<in> set out. py_strip l \<notin> removed)"
proof -
  define lines where "lines = py_split_on LF (mc_baseline_content ctx)"
  define added where "added = set (imports_to_add (mc_task_snapshots ctx))"
  define removed where "removed = set (imports_to_remove (mc_task_snapshots ctx))"
  let ?ext = "lower_suffix (mc_file_path ctx)"
  obtain new out where no: "import_result_lines lines ?ext (imports_to_add (mc_task_snapshots ctx))
      (imports_to_remove (mc_task_snapshots ctx)) = (new, out)" by fastforce
  let ?kept = "filter (\<lambda>l. py_strip l \<notin> removed) lines"
  let ?e = "find_import_section_end ?kept ?ext"
  have new: "new = new_imports_of (existing_imports lines ?ext) (imports_to_remove (mc_task_snapshots ctx)) []
      (imports_to_add (mc_task_snapshots ctx))" and out: "out = take ?e ?kept @ new @ drop ?e ?kept"
    using import_result [OF no] by (simp_all add: removed_def)
  have set_new: "set new = added - set (existing_imports lines ?ext) - removed"
    by (simp add: new set_new_imports added_def removed_def)
  have content: "mr_merged_content (import_strategy ctx) = Some (join_lines out)"
    using no by (simp add: import_strategy_def lines_def merged_def merge_result_of_def)
  have split: "mset (take ?e ?kept) + mset (drop ?e ?kept) = mset ?kept"
    by (metis append_take_drop_id mset_append)
  have sets: "set out = set ?kept \<union> set new"
    unfolding out by (metis (no_types, lifting) Un_commute Un_left_commute append_take_drop_id set_append)
  have "subseq (take ?e ?kept @ drop ?e ?kept) out" unfolding out by (intro list_emb_append_mono) auto
  then have sub: "subseq ?kept out" by simp
  have strip: "py_strip i = i" if "i \<in> added" for i using that by (auto simp: added_def imports_to_add_def)
  have there: "i \<in> set (map py_strip out)" if "i \<in> added - removed" for i
  proof (cases "i \<in> set (existing_imports lines ?ext)")
    case True
    then obtain l where "l \<in> set lines" "py_strip l = i" using existing_kept by blast
    then show ?thesis using that sets by auto
  next
    case False
    then have "i \<in> set new" using that set_new by blast
    then show ?thesis using sets strip that by force
  qed
  have gone: "\<forall>l \<in> set out. py_strip l \<notin> removed" using sets set_new strip by auto
  have "mset out = mset ?kept + mset new" using split unfolding out by simp
  then have "\<exists>out new. mr_merged_content (import_strategy ctx) = Some (join_lines out) \<and>
    subseq ?kept out \<and> mset out = mset ?kept + mset new \<and> distinct new \<and> set new \<subseteq> added - removed \<and>
    (\<forall>i \<in> added - removed. i \<in> set (map py_strip out)) \<and> (\<forall>l \<in> set out. py_strip l \<notin> removed)"
    using content sub there gone distinct_new_imports [of "existing_imports lines ?ext"] set_new new by blast
  then show ?thesis by (simp only: Let_def lines_def added_def removed_def)
qed

text \<open>An import line that was inserted is met when the section is read again.\<close>

lemma section_imports_all:
  "(\<forall>i \<in> set new. is_import_line (py_strip i) ext) \<Longrightarrow> py_strip ` set new \<subseteq> set (section_imports ext seen (new @ rest))"
  by (induction new arbitrary: seen) (auto simp: Let_def)

lemma section_after_insert:
  fixes kept
  assumes "\<forall>i \<in> set new. is_import_line (py_strip i) ext"
  defines "e \<equiv> find_import_section_end kept ext"
  shows "set (section_imports ext False kept) \<union> py_strip ` set new
    \<subseteq> set (section_imports ext False (take e kept @ new @ drop e kept))"
proof (cases "e > 0")
  case True
  then show ?thesis
    using section_split [of 0 0 False ext kept "new @ drop e kept"] section_imports_all [OF assms(1), of True "drop e kept"]
    by (auto simp: e_def find_import_section_end_def)
next
  case False
  then show ?thesis
    using section_split [of 0 0 False ext kept "[]"] section_imports_all [OF assms(1), of False "drop e kept"]
    by (simp add: e_def find_import_section_end_def)
qed

lemma import_again:
  assumes "import_result_lines lines ext to_add to_remove = (new, out)"
    and "\<forall>i \<in> set to_add. is_import_line i ext \<and> py_strip i = i"
  shows "import_result_lines out ext to_add to_remove = ([], out)"
proof -
  let ?kept = "filter (\<lambda>l. py_strip l \<notin> set to_remove) lines"
  let ?e = "find_import_section_end ?kept ext"
  note r = import_result [OF assms(1)]
  have set_new: "set new = set to_add - set (existing_imports lines ext) - set to_remove"
    by (simp add: r(1) set_new_imports)
  have "\<forall>i \<in> set new. is_import_line (py_strip i) ext" using set_new assms(2) by auto
  from section_after_insert [OF this, of ?kept] have sec:
    "set (section_imports ext False ?kept) \<union> py_strip ` set new \<subseteq> set (existing_imports out ext)"
    by (simp only: r(2) existing_imports_section)
  have "set to_add - set to_remove \<subseteq> set (existing_imports out ext)"
  proof
    fix i assume i: "i \<in> set to_add - set to_remove"
    show "i \<in> set (existing_imports out ext)"
    proof (cases "i \<in> set (existing_imports lines ext)")
      case True
      then have "i \<in> set (section_imports ext False ?kept)"
        using i section_filter [of i ext False lines "set to_remove" False] by (simp add: existing_imports_section)
      then show ?thesis using sec by blast
    next
      case False
      then have "i \<in> set new" using i set_new by blast
      then have "py_strip i \<in> py_strip ` set new" by (rule imageI)
      then show ?thesis using sec i assms(2) by auto
    qed
  qed
  then have none: "new_imports_of (existing_imports out ext) to_remove [] to_add = []"
    by (intro new_imports_none) blast
  have "set out \<subseteq> set ?kept \<union> set new"
    unfolding r(2) by (auto dest: in_set_takeD in_set_dropD)
  then have "filter (\<lambda>l. py_strip l \<notin> set to_remove) out = out"
    using set_new assms(2) by (auto simp: filter_id_conv)
  then show ?thesis using none by (simp add: import_result_lines_def)
qed

lemma split_join_lines: "ls \<noteq> [] \<Longrightarrow> \<forall>l \<in> set ls. c \<notin> set l \<Longrightarrow> py_split_on c (py_join [c] ls) = ls"
proof (induction ls)
  case (Cons l ls)
  have plain: "py_split_on c s = [s]" if "c \<notin> set s" for s using that by (induction s) auto
  have step: "py_split_on c (s @ c # t) = s # py_split_on c t" if "c \<notin> set s" for s t
    using that by (induction s) (auto split: list.splits)
  show ?case using Cons plain step by (cases ls) auto
qed simp

lemma split_no_sep: "l \<in> set (py_split_on c s) \<Longrightarrow> c \<notin> set l"
proof (induction s arbitrary: l)
  case (Cons d s)
  show ?case using Cons by (cases "py_split_on c s") (auto split: if_splits)
qed simp

text \<open>C: merging imports again changes nothing. The merge runs once for each conflict, always with the changes of
  all tasks: when every import that is added is an import line of the language, the second run finds them all.\<close>

theorem import_merge_is_idempotent:
  assumes "\<forall>i \<in> set (imports_to_add (mc_task_snapshots ctx)).
    is_import_line i (lower_suffix (mc_file_path ctx)) \<and> LF \<notin> set i"
    and "mr_merged_content (import_strategy ctx) = Some content"
  shows "mr_merged_content (import_strategy (ctx\<lparr>mc_baseline_content := content\<rparr>)) = Some content"
proof -
  let ?ext = "lower_suffix (mc_file_path ctx)" and ?ss = "mc_task_snapshots ctx"
  obtain new out where no: "import_result_lines (py_split_on LF (mc_baseline_content ctx)) ?ext (imports_to_add ?ss)
      (imports_to_remove ?ss) = (new, out)" by fastforce
  have content: "content = join_lines out"
    using assms(2) no by (simp add: import_strategy_def merged_def merge_result_of_def)
  note r = import_result [OF no]
  have "set new \<subseteq> set (imports_to_add ?ss)" using r(1) set_new_imports by auto
  then have "\<forall>l \<in> set out. LF \<notin> set l"
    using assms(1) unfolding r(2) by (auto dest!: in_set_takeD in_set_dropD dest: split_no_sep)
  then have lines: "out \<noteq> [] \<Longrightarrow> py_split_on LF content = out"
    using split_join_lines [of out LF] by (simp add: content join_lines_def)
  have "\<forall>i \<in> set (imports_to_add ?ss). is_import_line i ?ext \<and> py_strip i = i"
    using assms(1) by (auto simp: imports_to_add_def)
  from import_again [OF no this] have again: "import_result_lines out ?ext (imports_to_add ?ss)
      (imports_to_remove ?ss) = ([], out)" .
  show ?thesis
  proof (cases "out = []")
    case True
    then have "set (imports_to_add ?ss) \<subseteq> set (imports_to_remove ?ss)"
      using import_result(1) [OF again] set_new_imports [of "[]" "imports_to_remove ?ss" "[]" "imports_to_add ?ss"]
      by (simp add: existing_imports_def)
    then have "new_imports_of ex (imports_to_remove ?ss) [] (imports_to_add ?ss) = []" for ex
      by (intro new_imports_none) blast
    then show ?thesis
      using True by (simp add: import_strategy_def import_result_lines_def content join_lines_def merged_def
          merge_result_of_def)
  next
    case False
    then show ?thesis using lines [OF False, unfolded content] again
      by (simp add: import_strategy_def content merged_def merge_result_of_def)
  qed
qed

section \<open>Additions that are combined\<close>

lemma sublist_around:
  assumes "sublist x (a @ c # b)" "c \<notin> set x"
  shows "sublist x a \<or> sublist x b"
proof -
  from assms(1) obtain p q where pq: "a @ c # b = p @ x @ q" by (auto simp: sublist_def)
  consider us where "a = p @ us" "us @ c # b = x @ q" | us where "p = a @ us" "c # b = us @ x @ q"
    using pq by (auto simp: append_eq_append_conv2)
  then show ?thesis
  proof cases
    case 1
    then consider vs where "us = x @ vs" | vs where "x = us @ vs" "c # b = vs @ q"
      by (auto simp: append_eq_append_conv2)
    then show ?thesis
    proof cases
      case (1 vs)
      then have "a = p @ x @ vs" using \<open>a = p @ us\<close> by simp
      then show ?thesis by (auto simp: sublist_def)
    next
      case (2 vs)
      then have "vs = []" using assms(2) by (cases vs) auto
      then have "a = p @ x @ []" using 2(1) \<open>a = p @ us\<close> by simp
      then show ?thesis unfolding sublist_def by blast
    qed
  next
    case (2 us)
    show ?thesis
    proof (cases us)
      case Nil
      then show ?thesis using 2 assms(2) by (cases x) auto
    next
      case (Cons u vs)
      then have "b = vs @ x @ q" using 2 by simp
      then show ?thesis by (auto simp: sublist_def)
    qed
  qed
qed

lemma line_break_CR: "line_break CR" by code_simp

lemma line_breaks_out: "\<forall>d \<in> set x. \<not> line_break d \<Longrightarrow> line_break c \<Longrightarrow> c \<notin> set x"
  by blast

text \<open>A piece of text within a line is found in a line, and every line is in the text.\<close>

lemma lines_from_sublist:
  "x \<noteq> [] \<Longrightarrow> \<forall>d \<in> set x. \<not> line_break d \<Longrightarrow> sublist x (cur @ s) \<Longrightarrow> \<exists>l \<in> set (lines_from cur s). sublist x l"
proof (induction cur s rule: lines_from.induct)
  case (1 cur)
  then show ?case by (cases cur) auto
next
  case (2 cur c s)
  consider (crlf) "c = CR" "s \<noteq> []" "hd s = LF" | (br) "line_break c" "\<not> (c = CR \<and> s \<noteq> [] \<and> hd s = LF)"
    | (plain) "\<not> line_break c" using line_break_CR by auto
  then show ?case
  proof cases
    case crlf
    then obtain t where s: "s = LF # t" by (cases s) auto
    have "sublist x cur \<or> sublist x (LF # t)"
      using sublist_around [of x cur c s] 2(6) line_breaks_out [OF 2(5)] line_break_CR crlf(1) s by simp
    moreover have "sublist x (LF # t) \<Longrightarrow> sublist x t"
      using sublist_around [of x "[]" LF t] line_breaks_out [OF 2(5) line_break_LF] 2(4) by simp
    ultimately show ?thesis using 2(1) [OF _ 2(4,5)] crlf s by auto
  next
    case br
    have "sublist x cur \<or> sublist x s"
      using sublist_around [OF 2(6)] line_breaks_out [OF 2(5) br(1)] by simp
    then show ?thesis using 2(2) [OF br(2) br(1) 2(4,5)] br by auto
  next
    case plain
    then have "c \<noteq> CR" using line_break_CR by auto
    then show ?thesis using 2(3) [OF _ plain 2(4,5)] 2(6) plain by auto
  qed
qed

lemma lines_in_text: "l \<in> set (lines_from cur s) \<Longrightarrow> sublist l (cur @ s)"
proof (induction cur s rule: lines_from.induct)
  case (2 cur c s)
  have mono: "sublist l t \<Longrightarrow> sublist l (cur @ c # t)" for t
    using sublist_append_right [of l t "cur @ [c]"] by simp
  show ?case
  proof (cases "c = CR \<and> s \<noteq> [] \<and> hd s = LF")
    case True
    then obtain t where s: "s = LF # t" by (cases s) auto
    show ?thesis using 2(1) [OF True] 2(4) True mono [of "LF # t"] sublist_append_right [of l t "[LF]"]
      by (auto simp: s intro: sublist_append_left)
  next
    case False
    then show ?thesis using 2(2,3) [OF False] 2(4) mono by (auto intro: sublist_append_left split: if_splits)
  qed
qed (auto split: if_splits)

lemma add_import_keeps: "set (fst p) \<subseteq> set (fst (fold (add_import content) imps p))"
proof (induction imps arbitrary: p)
  case (Cons i imps)
  have "set (fst p) \<subseteq> set (fst (add_import content i p))" by (auto simp: add_import_def)
  then show ?case using Cons.IH [of "add_import content i p"] by auto
qed simp

lemma add_import_there:
  "i \<in> set imps \<Longrightarrow> truthy_str (sc_content_after i) \<Longrightarrow> \<not> py_in (the (sc_content_after i)) content \<Longrightarrow>
   the (sc_content_after i) \<in> set (fst (fold (add_import content) imps p))"
proof (induction imps arbitrary: p)
  case (Cons j imps)
  show ?case
  proof (cases "i = j")
    case True
    then have "the (sc_content_after i) \<in> set (fst (add_import content j p))"
      using Cons.prems by (simp add: add_import_def)
    then show ?thesis using add_import_keeps [of "add_import content j p" content imps] by auto
  next
    case False
    then show ?thesis using Cons by simp
  qed
qed simp

definition pure_addition :: "semantic_change \<Rightarrow> bool" where
  "pure_addition c \<longleftrightarrow> truthy_str (sc_content_after c) \<and> \<not> truthy_str (sc_content_before c)"

lemma add_imports_there:
  assumes "i \<in> set imps" "truthy_str (sc_content_after i)"
    and "\<forall>d \<in> set (the (sc_content_after i)). \<not> line_break d"
  shows "sublist (the (sc_content_after i)) (add_imports path imps content)"
proof -
  let ?x = "the (sc_content_after i)"
  let ?out = "fst (fold (add_import content) imps (splitlines content, find_import_end (splitlines content) path))"
  have "\<exists>l \<in> set ?out. sublist ?x l"
  proof (cases "py_in ?x content")
    case True
    then have "\<exists>l \<in> set (splitlines content). sublist ?x l"
      using lines_from_sublist [of ?x "[]" content] assms(2,3) by (simp add: splitlines_def py_in_iff truthy_str_def split: option.splits)
    then show ?thesis using add_import_keeps [of "(splitlines content, find_import_end (splitlines content) path)"] by fastforce
  next
    case False
    then show ?thesis using add_import_there [OF assms(1,2) False] by blast
  qed
  then obtain l where "l \<in> set ?out" "sublist ?x l" by blast
  then have "sublist ?x (join_lines ?out)" using sublist_join sublist_order.order.trans by (fastforce simp: join_lines_def)
  then show ?thesis using assms(1) by (auto simp: add_imports_def)
qed

lemma add_imports_line:
  assumes "l \<in> set (splitlines content)"
  shows "sublist l (add_imports path imps content)"
proof (cases "imps = []")
  case True
  then show ?thesis using assms lines_in_text [of l "[]" content] by (simp add: add_imports_def splitlines_def)
next
  case False
  have "l \<in> set (fst (fold (add_import content) imps (splitlines content, find_import_end (splitlines content) path)))"
    using assms add_import_keeps [of "(splitlines content, find_import_end (splitlines content) path)"] by fastforce
  then show ?thesis using False sublist_join by (simp add: add_imports_def join_lines_def)
qed

lemma appended_keeps:
  assumes "\<And>s c. c \<in> set cs \<Longrightarrow> \<exists>t. f s c = s @ t"
  shows "sublist x s \<Longrightarrow> sublist x (foldl f s cs)"
  using assms
proof (induction cs arbitrary: s)
  case (Cons c cs)
  obtain t where "f s c = s @ t" using Cons.prems(2) [of c] by auto
  then have "sublist x (f s c)" using Cons.prems(1) sublist_append_left by metis
  then show ?case using Cons.IH [of "f s c"] Cons.prems(2) by simp
qed simp

lemma appended_there:
  assumes "\<And>s c. c \<in> set cs \<Longrightarrow> \<exists>t. f s c = s @ t" "c \<in> set cs" "\<And>s. sublist x (f s c)"
  shows "sublist x (foldl f s cs)"
  using assms
proof (induction cs arbitrary: s)
  case (Cons d cs)
  show ?case
  proof (cases "c = d")
    case True
    then show ?thesis using appended_keeps [of cs f x "f s d"] Cons.prems(1,3) by simp
  next
    case False
    then show ?thesis using Cons by simp
  qed
qed simp

text \<open>When the tasks only add to a file and nothing conflicts, combining their changes loses nothing: the text
  of every change and every line of the baseline are in the result.\<close>

theorem combining_additions_loses_nothing:
  assumes "\<forall>c \<in> set (concat (map ts_semantic_changes snapshots)).
      truthy_str (sc_content_after c) \<and> \<not> truthy_str (sc_content_before c) \<and>
      (sc_change_type c = ADD_IMPORT \<longrightarrow> (\<forall>d \<in> set (the (sc_content_after c)). \<not> line_break d))"
  shows "(\<forall>c \<in> set (concat (map ts_semantic_changes snapshots)).
      sublist (the (sc_content_after c)) (combine_non_conflicting_changes baseline snapshots file_path)) \<and>
    (\<forall>l \<in> set (splitlines baseline). sublist l (combine_non_conflicting_changes baseline snapshots file_path))"
proof -
  define c1 where "c1 = add_imports file_path (in_group Import_Group snapshots) baseline"
  define c3 where "c3 = foldl append_function c1 (in_group Function_Group snapshots)"
  have pure: "truthy_str (sc_content_after c) \<and> \<not> truthy_str (sc_content_before c)" if "c \<in> set (in_group g snapshots)" for g c
    using assms that by (auto simp: in_group_def all_changes_def)
  have "foldl replace_change c1 cs = c1" if "\<forall>c \<in> set cs. \<not> truthy_str (sc_content_before c)" for cs
    using that by (induction cs) (simp_all add: replace_change_def)
  then have result: "combine_non_conflicting_changes baseline snapshots file_path
      = foldl apply_other c3 (in_group Other_Group snapshots)"
    using pure by (simp add: combine_non_conflicting_changes_def Let_def c1_def c3_def)
  have app3: "\<exists>t. append_function s c = s @ t" for s c by (simp add: append_function_def)
  have app4: "\<exists>t. apply_other s c = s @ t" if "c \<in> set (in_group Other_Group snapshots)" for s c
    using pure [OF that] by (simp add: apply_other_def)
  have c1: "sublist x c1 \<Longrightarrow> sublist x (combine_non_conflicting_changes baseline snapshots file_path)" for x
    unfolding result c3_def by (intro appended_keeps app4 app3)
  have c3: "sublist x c3 \<Longrightarrow> sublist x (combine_non_conflicting_changes baseline snapshots file_path)" for x
    unfolding result by (intro appended_keeps app4)
  have each: "sublist (the (sc_content_after c)) (combine_non_conflicting_changes baseline snapshots file_path)"
    if c: "c \<in> set (all_changes snapshots)" for c
  proof -
    let ?x = "the (sc_content_after c)"
    have there: "c \<in> set (in_group (group_of c) snapshots)" using c by (simp add: in_group_def)
    have add: "truthy_str (sc_content_after c)" "\<not> truthy_str (sc_content_before c)" using pure [OF there] by simp_all
    consider "group_of c = Import_Group" | "group_of c = Function_Group" | "group_of c = Other_Group"
      by (cases "sc_change_type c") (simp_all add: group_of_def)
    then show ?thesis
    proof cases
      case 1
      then have "sc_change_type c = ADD_IMPORT" by (simp add: group_of_def split: if_splits)
      then have "\<forall>d \<in> set ?x. \<not> line_break d" using assms c by (auto simp: all_changes_def)
      moreover have "c \<in> set (in_group Import_Group snapshots)" using there 1 by simp
      ultimately have "sublist ?x c1" unfolding c1_def using add(1) by (intro add_imports_there)
      then show ?thesis by (rule c1)
    next
      case 2
      have last: "sublist ?x (append_function s c)" for s
        using add sublist_append_right [of ?x ?x "s @ [LF, LF]"] by (simp add: append_function_def)
      have "c \<in> set (in_group Function_Group snapshots)" using there 2 by simp
      then have "sublist ?x c3" unfolding c3_def by (rule appended_there [of _ append_function c ?x, OF app3 _ last])
      then show ?thesis by (rule c3)
    next
      case 3
      have last: "sublist ?x (apply_other s c)" for s
        using add sublist_append_right [of ?x ?x "s @ [LF]"] by (simp add: apply_other_def)
      have "c \<in> set (in_group Other_Group snapshots)" using there 3 by simp
      then show ?thesis unfolding result by (intro appended_there [of _ apply_other c ?x] app4 last)
    qed
  qed
  show ?thesis using each add_imports_line c1 by (simp add: all_changes_def c1_def)
qed

section \<open>At concrete inputs\<close>

definition change :: "change_type \<Rightarrow> string \<Rightarrow> string \<Rightarrow> string option \<Rightarrow> string option \<Rightarrow> semantic_change" where
  "change t target location old new =
     \<lparr>sc_change_type = t, sc_target = target, sc_location = location, sc_line_start = 1, sc_line_end = 1,
      sc_content_before = old, sc_content_after = new, sc_metadata = []\<rparr>"

definition snapshot :: "string \<Rightarrow> semantic_change list \<Rightarrow> task_snapshot" where
  "snapshot task cs =
     \<lparr>ts_task_id = task, ts_task_intent = [], ts_started_at = 0, ts_completed_at = None, ts_content_hash_before = [],
      ts_content_hash_after = [], ts_semantic_changes = cs, ts_raw_diff = None\<rparr>"

definition import_os :: semantic_change where
  "import_os = change ADD_IMPORT ''os'' ''import:os'' None (Some ''import os'')"

definition region :: "conflict_severity \<Rightarrow> bool \<Rightarrow> conflict_region" where
  "region sev auto = \<lparr>cg_file_path = ''a.py'', cg_location = ''import:os'', cg_tasks_involved = [''t1'', ''t2''],
     cg_change_types = [ADD_IMPORT, ADD_IMPORT], cg_severity = sev, cg_can_auto_merge = auto,
     cg_merge_strategy = Some MS_COMBINE_IMPORTS, cg_reason = []\<rparr>"

definition import_context :: merge_context where
  "import_context = \<lparr>mc_file_path = ''a.py'', mc_baseline_content = ''import sys'' @ [LF] @ ''x = 1'',
     mc_task_snapshots = [snapshot ''t1'' [import_os],
       snapshot ''t2'' [import_os, change REMOVE_IMPORT ''sys'' ''import:sys'' (Some ''import sys'') None]],
     mc_conflict = region SEV_NONE True\<rparr>"

lemma import_context_sides:
  "imports_to_add (mc_task_snapshots import_context) = [''import os'', ''import os'']"
  "imports_to_remove (mc_task_snapshots import_context) = [''import sys'']"
  by code_simp+

lemma imports_are_combined_witness:
  "\<exists>out. mr_merged_content (import_strategy import_context) = Some (join_lines out) \<and>
     ''import os'' \<in> set (map py_strip out) \<and> ''import sys'' \<notin> set (map py_strip out)"
proof -
  obtain out where o: "mr_merged_content (import_strategy import_context) = Some (join_lines out)"
    "\<forall>i \<in> set [''import os'', ''import os''] - set [''import sys'']. i \<in> set (map py_strip out)"
    "\<forall>l \<in> set out. py_strip l \<notin> set [''import sys'']"
    using imports_are_combined [of import_context] unfolding Let_def import_context_sides by blast
  have "''import os'' \<in> set (map py_strip out)" using o(2) by simp
  moreover have "''import sys'' \<notin> set (map py_strip out)" using o(3) by auto
  ultimately show ?thesis using o(1) by blast
qed

lemma import_merge_runs: "mr_merged_content (import_strategy import_context) = Some (''import os'' @ [LF] @ ''x = 1'')"
  by code_simp

lemma import_lines_ok: "\<forall>i \<in> set (imports_to_add (mc_task_snapshots import_context)).
    is_import_line i (lower_suffix (mc_file_path import_context)) \<and> LF \<notin> set i"
  by code_simp

lemma import_merge_is_idempotent_witness:
  "mr_merged_content (import_strategy (import_context\<lparr>mc_baseline_content := ''import os'' @ [LF] @ ''x = 1''\<rparr>))
     = Some (''import os'' @ [LF] @ ''x = 1'')"
  by (rule import_merge_is_idempotent [OF import_lines_ok import_merge_runs])

lemma combining_additions_loses_nothing_witness:
  "sublist ''import os'' (combine_non_conflicting_changes ''x = 1'' [snapshot ''t1'' [import_os], snapshot ''t2'' []] ''a.py'')"
  using combining_additions_loses_nothing [of "[snapshot ''t1'' [import_os], snapshot ''t2'' []]" "''x = 1''" "''a.py''"]
  by (simp add: snapshot_def import_os_def change_def truthy_str_def line_break_def)

end
