(* ===== verification/File_Evolution.thy ===== *)
theory File_Evolution
  imports Auto_Merger
begin

text \<open>
  \<open>merge/file_evolution/\<close>: the history of the files that tasks modify, its baselines on disk, the recording of
  modifications and the queries of the merge. The clock, the hash, \<open>Path.resolve\<close>, git, the files of the project
  and the semantic analyser are arguments.
\<close>

section \<open>Paths\<close>

definition path_root :: "string \<Rightarrow> string" where
  "path_root p = (if prefix ''//'' p \<and> \<not> prefix ''///'' p then ''//'' else if prefix ''/'' p then ''/'' else [])"

definition path_parts :: "string \<Rightarrow> string list" where
  "path_parts p = filter (\<lambda>c. c \<noteq> [] \<and> c \<noteq> ''.'') (py_split_on (CHR ''/'') p)"

definition posix_of :: "string \<Rightarrow> string list \<Rightarrow> string" where
  "posix_of r parts = (if r = [] \<and> parts = [] then ''.'' else r @ py_join ''/'' parts)"

definition as_posix :: "string \<Rightarrow> string" where
  "as_posix p = posix_of (path_root p) (path_parts p)"

definition get_relative_path :: "(string \<Rightarrow> string) \<Rightarrow> string \<Rightarrow> string \<Rightarrow> string" where
  "get_relative_path resolve project_dir file_path =
     (if path_root file_path \<noteq> []
      then (let r = resolve file_path
            in if path_root r = path_root project_dir \<and> prefix (path_parts project_dir) (path_parts r)
               then posix_of [] (drop (length (path_parts project_dir)) (path_parts r))
               else as_posix file_path)
      else as_posix file_path)"

section \<open>The store\<close>

text \<open>The evolutions by path, and the baseline files by their path under the storage directory.\<close>

record evo_store =
  es_evolutions :: "(string \<times> file_evolution) list"
  es_baselines :: "(string \<times> string) list"

text \<open>Task ids are names of directories. A baseline that is there can be read.\<close>

definition baseline_dir :: "string \<Rightarrow> string" where
  "baseline_dir task_id = ''baselines/'' @ task_id @ ''/''"

definition baseline_path_of :: "string \<Rightarrow> string \<Rightarrow> string" where
  "baseline_path_of task_id file_path = baseline_dir task_id @ sanitize_path_for_storage file_path @ ''.baseline''"

definition store_baseline_content :: "string \<Rightarrow> string \<Rightarrow> string \<Rightarrow> evo_store \<Rightarrow> string \<times> evo_store" where
  "store_baseline_content file_path content task_id s =
     (let p = baseline_path_of task_id file_path
      in (p, s\<lparr>es_baselines := AList.update p content (es_baselines s)\<rparr>))"

definition read_baseline_content :: "string \<Rightarrow> evo_store \<Rightarrow> string option" where
  "read_baseline_content p s = map_of (es_baselines s) p"

section \<open>Baselines\<close>

definition DEFAULT_EXTENSIONS :: "string list" where
  "DEFAULT_EXTENSIONS = [''.py'', ''.js'', ''.ts'', ''.tsx'', ''.jsx'', ''.json'', ''.yaml'', ''.yml'', ''.toml'',
     ''.md'', ''.txt'', ''.html'', ''.css'', ''.scss'', ''.go'', ''.rs'', ''.java'', ''.kt'', ''.swift'']"

text \<open>\<open>git ls-files\<close> is its output, if it succeeded; the paths are relative to the project.\<close>

definition discover_trackable_files :: "string option \<Rightarrow> string list" where
  "discover_trackable_files ls_files =
     (case ls_files of
        None \<Rightarrow> []
      | Some out \<Rightarrow> filter (\<lambda>p. p \<noteq> [] \<and> path_suffix p \<in> set DEFAULT_EXTENSIONS) (py_split_on LF (py_strip out)))"

definition fresh_snapshot :: "string \<Rightarrow> string \<Rightarrow> int \<Rightarrow> string \<Rightarrow> task_snapshot" where
  "fresh_snapshot task_id intent now hash_before =
     \<lparr>ts_task_id = task_id, ts_task_intent = intent, ts_started_at = now, ts_completed_at = None,
      ts_content_hash_before = hash_before, ts_content_hash_after = [], ts_semantic_changes = [],
      ts_raw_diff = None\<rparr>"

text \<open>What the baselines of a task are captured with.\<close>

record capture_env =
  ce_rel :: "string \<Rightarrow> string"
  ce_read :: "string \<Rightarrow> string option"
  ce_hash :: "string \<Rightarrow> string"
  ce_commit :: string
  ce_now :: int

definition capture_one ::
    "capture_env \<Rightarrow> string \<Rightarrow> string \<Rightarrow> string \<Rightarrow> evo_store \<times> string list \<Rightarrow> evo_store \<times> string list" where
  "capture_one env task_id intent file_path p =
     (let rel_path = ce_rel env file_path
      in case ce_read env file_path of
           None \<Rightarrow> p
         | Some content \<Rightarrow>
             (case store_baseline_content rel_path content task_id (fst p) of (baseline_path, s) \<Rightarrow>
                let evolution = (case map_of (es_evolutions s) rel_path of
                      Some e \<Rightarrow> e
                    | None \<Rightarrow> \<lparr>fe_file_path = rel_path, fe_baseline_commit = ce_commit env,
                        fe_baseline_captured_at = ce_now env, fe_baseline_content_hash = ce_hash env content,
                        fe_baseline_snapshot_path = baseline_path, fe_task_snapshots = []\<rparr>);
                    snapshot = fresh_snapshot task_id intent (ce_now env) (ce_hash env content)
                in (s\<lparr>es_evolutions := AList.update rel_path (add_task_snapshot snapshot evolution) (es_evolutions s)\<rparr>,
                    List.insert rel_path (snd p))))"

text \<open>The result is the store and the paths that were captured.\<close>

definition capture_baselines ::
    "capture_env \<Rightarrow> string \<Rightarrow> string list option \<Rightarrow> string option \<Rightarrow> string \<Rightarrow> evo_store \<Rightarrow> evo_store \<times> string list" where
  "capture_baselines env task_id files ls_files intent s =
     fold (capture_one env task_id intent)
       (case files of None \<Rightarrow> discover_trackable_files ls_files | Some fs \<Rightarrow> fs) (s, [])"

section \<open>Modifications\<close>

definition IGNORED_FILES :: "string list" where
  "IGNORED_FILES = [''.aifactory-security.json'', ''.aifactory-status'']"

definition IGNORED_PREFIXES :: "string list" where
  "IGNORED_PREFIXES = [''.aifactory/'', ''VERIFICATION_REPORT'', ''LANGUAGE_CHOICE'']"

record record_env =
  re_rel :: "string \<Rightarrow> string"
  re_hash :: "string \<Rightarrow> string"
  re_analyze :: "string \<Rightarrow> string \<Rightarrow> string \<Rightarrow> semantic_change list"
  re_now :: int

definition record_modification ::
    "record_env \<Rightarrow> string \<Rightarrow> string \<Rightarrow> string \<Rightarrow> string \<Rightarrow> string option \<Rightarrow> evo_store
      \<Rightarrow> task_snapshot option \<times> evo_store" where
  "record_modification env task_id file_path old_content new_content raw_diff s =
     (let rel_path = re_rel env file_path
      in case map_of (es_evolutions s) rel_path of
           None \<Rightarrow> (None, s)
         | Some evolution \<Rightarrow>
             let snapshot0 = (case get_task_snapshot evolution task_id of
                   Some t \<Rightarrow> t
                 | None \<Rightarrow> fresh_snapshot task_id [] (re_now env) (re_hash env old_content));
                 snapshot = snapshot0\<lparr>ts_completed_at := Some (re_now env),
                   ts_content_hash_after := re_hash env new_content,
                   ts_semantic_changes := re_analyze env rel_path old_content new_content,
                   ts_raw_diff := raw_diff\<rparr>
             in (Some snapshot,
                 s\<lparr>es_evolutions := AList.update rel_path (add_task_snapshot snapshot evolution) (es_evolutions s)\<rparr>))"

text \<open>
  The answers of git for one comparison: \<open>None\<close> is a command that failed. \<open>gv_work\<close> is a file of the worktree.
\<close>

record git_view =
  gv_upstream :: "string option"
  gv_has_merge_base :: "string \<Rightarrow> bool"
  gv_names :: "string \<Rightarrow> string \<Rightarrow> string option"
  gv_diff :: "string \<Rightarrow> string \<Rightarrow> string \<Rightarrow> string option"
  gv_show :: "string \<Rightarrow> string \<Rightarrow> string option"
  gv_work :: "string \<Rightarrow> string option"

definition detect_target_branch :: "git_view \<Rightarrow> string" where
  "detect_target_branch g =
     (case gv_upstream g of
        Some out \<Rightarrow>
          if py_strip out \<noteq> []
          then (if CHR ''/'' \<in> set (py_strip out) then after (CHR ''/'') (py_strip out) else py_strip out)
          else (case find (gv_has_merge_base g) [''main'', ''master'', ''develop''] of Some b \<Rightarrow> b | None \<Rightarrow> ''main'')
      | None \<Rightarrow> (case find (gv_has_merge_base g) [''main'', ''master'', ''develop''] of Some b \<Rightarrow> b | None \<Rightarrow> ''main''))"

definition tracked_change :: "string \<Rightarrow> bool" where
  "tracked_change f =
     (f \<noteq> [] \<and> path_name f \<notin> set IGNORED_FILES \<and> \<not> list_ex (\<lambda>p. prefix p f) IGNORED_PREFIXES)"

definition changed_files :: "string \<Rightarrow> string list" where
  "changed_files out = filter tracked_change (py_split_on LF (py_strip out))"

text \<open>One file after the other; a diff that fails ends the loop.\<close>

fun refresh_files ::
    "record_env \<Rightarrow> git_view \<Rightarrow> bool \<Rightarrow> string \<Rightarrow> string \<Rightarrow> string \<Rightarrow> string list \<Rightarrow> evo_store \<Rightarrow> evo_store" where
  "refresh_files env g by_ref task_id target head [] s = s"
| "refresh_files env g by_ref task_id target head (f # fs) s =
     (case gv_diff g target head f of
        None \<Rightarrow> s
      | Some diff \<Rightarrow>
          let old_content = (case gv_show g target f of Some c \<Rightarrow> c | None \<Rightarrow> []);
              new_content = (if by_ref then (case gv_show g head f of Some c \<Rightarrow> c | None \<Rightarrow> [])
                             else (case gv_work g f of Some c \<Rightarrow> c | None \<Rightarrow> []))
          in refresh_files env g by_ref task_id target head fs
               (snd (record_modification env task_id f old_content new_content (Some diff) s)))"

text \<open>\<open>work_ref\<close> is the ref with its repository, which are given together.\<close>

definition refresh_from_git ::
    "record_env \<Rightarrow> git_view \<Rightarrow> string \<Rightarrow> string option \<Rightarrow> string option \<Rightarrow> evo_store \<Rightarrow> evo_store" where
  "refresh_from_git env g task_id target_branch work_ref s =
     (let by_ref = truthy_str work_ref; head = (if by_ref then the work_ref else ''HEAD'');
          target = (if truthy_str target_branch then the target_branch else detect_target_branch g)
      in case gv_names g target head of
           None \<Rightarrow> s
         | Some out \<Rightarrow> refresh_files env g by_ref task_id target head (changed_files out) s)"

text \<open>Only the first snapshot of the task is marked, which is the one \<open>get_task_snapshot\<close> returns.\<close>

fun complete_first :: "int \<Rightarrow> string \<Rightarrow> task_snapshot list \<Rightarrow> task_snapshot list" where
  "complete_first now task_id [] = []"
| "complete_first now task_id (t # ts) =
     (if ts_task_id t = task_id
      then (if ts_completed_at t = None then t\<lparr>ts_completed_at := Some now\<rparr> else t) # ts
      else t # complete_first now task_id ts)"

definition map_evolutions :: "(file_evolution \<Rightarrow> file_evolution) \<Rightarrow> evo_store \<Rightarrow> evo_store" where
  "map_evolutions f s = s\<lparr>es_evolutions := map (\<lambda>(p, e). (p, f e)) (es_evolutions s)\<rparr>"

definition mark_task_completed :: "int \<Rightarrow> string \<Rightarrow> evo_store \<Rightarrow> evo_store" where
  "mark_task_completed now task_id =
     map_evolutions (\<lambda>e. e\<lparr>fe_task_snapshots := complete_first now task_id (fe_task_snapshots e)\<rparr>)"

section \<open>Queries\<close>

definition get_file_evolution :: "(string \<Rightarrow> string) \<Rightarrow> string \<Rightarrow> evo_store \<Rightarrow> file_evolution option" where
  "get_file_evolution rel file_path s = map_of (es_evolutions s) (rel file_path)"

definition get_baseline_content :: "(string \<Rightarrow> string) \<Rightarrow> string \<Rightarrow> evo_store \<Rightarrow> string option" where
  "get_baseline_content rel file_path s =
     (case map_of (es_evolutions s) (rel file_path) of
        None \<Rightarrow> None | Some e \<Rightarrow> read_baseline_content (fe_baseline_snapshot_path e) s)"

definition get_task_modifications :: "string \<Rightarrow> evo_store \<Rightarrow> (string \<times> task_snapshot) list" where
  "get_task_modifications task_id s =
     List.map_filter (\<lambda>(p, e). case get_task_snapshot e task_id of
         Some t \<Rightarrow> if ts_semantic_changes t \<noteq> [] then Some (p, t) else None | None \<Rightarrow> None) (es_evolutions s)"

definition modifying_tasks :: "string list \<Rightarrow> file_evolution \<Rightarrow> string list" where
  "modifying_tasks task_ids e =
     map ts_task_id (filter (\<lambda>t. ts_task_id t \<in> set task_ids \<and> ts_semantic_changes t \<noteq> []) (fe_task_snapshots e))"

definition get_files_modified_by_tasks :: "string list \<Rightarrow> evo_store \<Rightarrow> (string \<times> string list) list" where
  "get_files_modified_by_tasks task_ids s =
     filter (\<lambda>(p, ts). ts \<noteq> []) (map (\<lambda>(p, e). (p, modifying_tasks task_ids e)) (es_evolutions s))"

definition get_conflicting_files :: "string list \<Rightarrow> evo_store \<Rightarrow> string list" where
  "get_conflicting_files task_ids s =
     map fst (filter (\<lambda>(p, ts). length ts > 1) (get_files_modified_by_tasks task_ids s))"

text \<open>A set, as the list of its elements.\<close>

definition get_active_tasks :: "evo_store \<Rightarrow> string list" where
  "get_active_tasks s = remdups (map ts_task_id
     (filter (\<lambda>t. ts_completed_at t = None) (concat (map (fe_task_snapshots \<circ> snd) (es_evolutions s)))))"

definition get_evolution_summary :: "evo_store \<Rightarrow> obj" where
  "get_evolution_summary s =
     (let es = map snd (es_evolutions s); ts = concat (map fe_task_snapshots es)
      in [(''total_files_tracked'', JInt (int (length es))),
          (''total_tasks'', JInt (int (length (remdups (map ts_task_id ts))))),
          (''files_with_potential_conflicts'',
             JInt (int (length (filter (\<lambda>e. length (fe_task_snapshots e) > 1) es)))),
          (''total_semantic_changes'', JInt (int (sum_list (map (length \<circ> ts_semantic_changes) ts)))),
          (''active_tasks'', JInt (int (length (get_active_tasks s))))])"

text \<open>\<open>isoformat\<close> renders an instant.\<close>

definition export_task :: "(int \<Rightarrow> string) \<Rightarrow> task_snapshot \<Rightarrow> obj" where
  "export_task isoformat t =
     [(''task_id'', JStr (ts_task_id t)), (''intent'', JStr (ts_task_intent t)),
      (''started_at'', JStr (isoformat (ts_started_at t))), (''completed_at'', jopt (map_option isoformat (ts_completed_at t))),
      (''changes'', JList (map (JObj \<circ> change_to_dict) (ts_semantic_changes t))),
      (''hash_before'', JStr (ts_content_hash_before t)), (''hash_after'', JStr (ts_content_hash_after t))]"

definition export_for_merge ::
    "(string \<Rightarrow> string) \<Rightarrow> (int \<Rightarrow> string) \<Rightarrow> string \<Rightarrow> string list \<Rightarrow> evo_store \<Rightarrow> obj option" where
  "export_for_merge rel isoformat file_path task_ids s =
     (case map_of (es_evolutions s) (rel file_path) of
        None \<Rightarrow> None
      | Some e \<Rightarrow>
          (let snapshots = (if task_ids = [] then fe_task_snapshots e
                            else filter (\<lambda>t. ts_task_id t \<in> set task_ids) (fe_task_snapshots e))
           in Some [(''file_path'', JStr (rel file_path)), (''baseline_content'', jopt (get_baseline_content rel file_path s)),
                    (''baseline_commit'', JStr (fe_baseline_commit e)),
                    (''baseline_hash'', JStr (fe_baseline_content_hash e)),
                    (''tasks'', JList (map (JObj \<circ> export_task isoformat) snapshots))]))"

definition drop_task :: "string \<Rightarrow> file_evolution \<Rightarrow> file_evolution" where
  "drop_task task_id e = e\<lparr>fe_task_snapshots := filter (\<lambda>t. ts_task_id t \<noteq> task_id) (fe_task_snapshots e)\<rparr>"

definition cleanup_task :: "string \<Rightarrow> bool \<Rightarrow> evo_store \<Rightarrow> evo_store" where
  "cleanup_task task_id remove_baselines s =
     \<lparr>es_evolutions = filter (\<lambda>(p, e). fe_task_snapshots e \<noteq> []) (map (\<lambda>(p, e). (p, drop_task task_id e)) (es_evolutions s)),
      es_baselines = (if remove_baselines then filter (\<lambda>(p, c). \<not> prefix (baseline_dir task_id) p) (es_baselines s)
                      else es_baselines s)\<rparr>"

end
