(* ===== verification/Merge_Orchestrator.thy ===== *)
theory Merge_Orchestrator
  imports Merge_Pipeline File_Evolution
begin

text \<open>
  \<open>merge/orchestrator.py\<close>, with \<open>git_utils.py\<close> and \<open>models.py\<close>: the merge of the files that one task or several
  tasks modified, the statistics and the report, the preview, and what is written to the project.
\<close>

section \<open>Git\<close>

text \<open>The first directory whose name contains the task id, in the order in which the directories are listed.\<close>

definition find_worktree :: "string list \<Rightarrow> string list \<Rightarrow> string \<Rightarrow> string option" where
  "find_worktree new_dirs legacy_dirs task_id =
     (case find (py_in task_id) new_dirs of
        Some d \<Rightarrow> Some (''.aifactory/worktrees/tasks/'' @ d)
      | None \<Rightarrow> map_option (\<lambda>d. ''.worktrees/'' @ d) (find (py_in task_id) legacy_dirs))"

definition missing_path_markers :: "string list" where
  "missing_path_markers = [''does not exist in'', ''exists on disk, but not in'']"

definition is_missing_path_error :: "string \<Rightarrow> bool" where
  "is_missing_path_error stderr = list_ex (\<lambda>m. py_in m stderr) missing_path_markers"

text \<open>A finished \<open>git show\<close>: its exit code and what it wrote.\<close>

record git_result =
  gr_code :: int
  gr_stdout :: string
  gr_stderr :: string

text \<open>\<open>Inl\<close> is a \<open>GitReadError\<close> with its message.\<close>

definition get_file_from_branch :: "(string \<Rightarrow> git_result) \<Rightarrow> string \<Rightarrow> string \<Rightarrow> string + string option" where
  "get_file_from_branch git_show file_path branch =
     (let object = branch @ '':'' @ file_path; r = git_show object
      in if gr_code r = 0 then Inr (Some (gr_stdout r))
         else if is_missing_path_error (gr_stderr r) then Inr None
         else Inl (''git show '' @ object @ '' failed (exit '' @ str_of_int (gr_code r) @ ''): ''
                     @ py_strip (gr_stderr r)))"

section \<open>Reports\<close>

record merge_stats =
  st_files_processed :: int
  st_files_auto_merged :: int
  st_files_ai_merged :: int
  st_files_need_review :: int
  st_files_failed :: int
  st_conflicts_detected :: int
  st_conflicts_auto_resolved :: int
  st_conflicts_ai_resolved :: int
  st_ai_calls_made :: int
  st_estimated_tokens_used :: int
  st_duration :: int

definition no_stats :: merge_stats where
  "no_stats = \<lparr>st_files_processed = 0, st_files_auto_merged = 0, st_files_ai_merged = 0, st_files_need_review = 0,
     st_files_failed = 0, st_conflicts_detected = 0, st_conflicts_auto_resolved = 0, st_conflicts_ai_resolved = 0,
     st_ai_calls_made = 0, st_estimated_tokens_used = 0, st_duration = 0\<rparr>"

definition success_rate :: "merge_stats \<Rightarrow> rat" where
  "success_rate s = (if st_files_processed s = 0 then 1
     else of_int (st_files_auto_merged s + st_files_ai_merged s) / of_int (st_files_processed s))"

definition auto_merge_rate :: "merge_stats \<Rightarrow> rat" where
  "auto_merge_rate s = (if st_conflicts_detected s = 0 then 1
     else of_int (st_conflicts_auto_resolved s) / of_int (st_conflicts_detected s))"

definition update_stats :: "merge_result \<Rightarrow> merge_stats \<Rightarrow> merge_stats" where
  "update_stats r s =
     (let resolved = int (length (mr_conflicts_resolved r)); remaining = int (length (mr_conflicts_remaining r));
          s' = s\<lparr>st_files_processed := st_files_processed s + 1,
                 st_ai_calls_made := st_ai_calls_made s + mr_ai_calls_made r,
                 st_estimated_tokens_used := st_estimated_tokens_used s + mr_tokens_used r,
                 st_conflicts_detected := st_conflicts_detected s + (resolved + remaining),
                 st_conflicts_auto_resolved := st_conflicts_auto_resolved s + resolved\<rparr>
      in case mr_decision r of
           MD_AUTO_MERGED \<Rightarrow> s'\<lparr>st_files_auto_merged := st_files_auto_merged s' + 1\<rparr>
         | MD_AI_MERGED \<Rightarrow> s'\<lparr>st_files_ai_merged := st_files_ai_merged s' + 1,
             st_conflicts_ai_resolved := st_conflicts_ai_resolved s' + resolved\<rparr>
         | MD_NEEDS_HUMAN_REVIEW \<Rightarrow> s'\<lparr>st_files_need_review := st_files_need_review s' + 1\<rparr>
         | MD_FAILED \<Rightarrow> s'\<lparr>st_files_failed := st_files_failed s' + 1\<rparr>)"

record merge_report =
  rp_started_at :: int
  rp_completed_at :: "int option"
  rp_tasks_merged :: "string list"
  rp_file_results :: "(string \<times> merge_result) list"
  rp_stats :: merge_stats
  rp_success :: bool
  rp_error :: "string option"

definition new_report :: "int \<Rightarrow> string list \<Rightarrow> merge_report" where
  "new_report started_at tasks =
     \<lparr>rp_started_at = started_at, rp_completed_at = None, rp_tasks_merged = tasks, rp_file_results = [],
      rp_stats = no_stats, rp_success = True, rp_error = None\<rparr>"

definition report_to_dict :: "(int \<Rightarrow> string) \<Rightarrow> (merge_stats \<Rightarrow> obj) \<Rightarrow> merge_report \<Rightarrow> obj" where
  "report_to_dict isoformat stats_to_dict r =
     [(''started_at'', JStr (isoformat (rp_started_at r))),
      (''completed_at'', jopt (map_option isoformat (rp_completed_at r))),
      (''tasks_merged'', jstrs (rp_tasks_merged r)),
      (''file_results'', JObj (map (\<lambda>(p, m). (p, JObj (result_to_dict m))) (rp_file_results r))),
      (''stats'', JObj (stats_to_dict (rp_stats r))), (''success'', JBool (rp_success r)),
      (''error'', jopt (rp_error r))]"

record merge_request =
  rq_task_id :: string
  rq_worktree :: "string option"
  rq_priority :: int

section \<open>The orchestrator\<close>

text \<open>
  Its parts and what it reads: the pipeline, the resolver that \<open>create_claude_resolver\<close> makes, relative paths,
  \<open>git show\<close> in the project, git and the files of a worktree, the recording of modifications, and the text of an
  exception.
\<close>

record orchestrator =
  oc_pipeline :: pipeline
  oc_claude :: ai_resolver
  oc_rel :: "string \<Rightarrow> string"
  oc_git_show :: "string \<Rightarrow> git_result"
  oc_git :: "string \<Rightarrow> git_view"
  oc_record :: record_env
  oc_error_text :: "py_error \<Rightarrow> string"
  oc_worktree :: "string \<Rightarrow> string option"
  oc_dry_run :: bool

text \<open>The state: the evolutions, and the resolver once it was asked for.\<close>

record orch_state =
  ot_store :: evo_store
  ot_ai :: "ai_resolver option"

text \<open>The property \<open>ai_resolver\<close>, and what the conflict resolver is given of it.\<close>

definition resolver_in_use :: "orchestrator \<Rightarrow> orch_state \<Rightarrow> ai_resolver option" where
  "resolver_in_use o1 t =
     (if pl_enable_ai (oc_pipeline o1)
      then Some (case ot_ai t of Some r \<Rightarrow> r | None \<Rightarrow> oc_claude o1) else None)"

text \<open>The baseline of a file: what was captured, what the target branch holds, or nothing for a new file.\<close>

definition baseline_of :: "orchestrator \<Rightarrow> string \<Rightarrow> string \<Rightarrow> evo_store \<Rightarrow> string + string" where
  "baseline_of o1 file_path target_branch s =
     (case get_baseline_content (oc_rel o1) file_path s of
        Some c \<Rightarrow> Inr c
      | None \<Rightarrow>
          (case get_file_from_branch (oc_git_show o1) file_path target_branch of
             Inl e \<Rightarrow> Inl e | Inr None \<Rightarrow> Inr [] | Inr (Some c) \<Rightarrow> Inr c))"

definition merge_one_file ::
    "orchestrator \<Rightarrow> string \<Rightarrow> task_snapshot list \<Rightarrow> string \<Rightarrow> orch_state \<Rightarrow> py_error + merge_result \<times> orch_state" where
  "merge_one_file o1 file_path snapshots target_branch t =
     (case baseline_of o1 file_path target_branch (ot_store t) of
        Inl e \<Rightarrow> Inr ((merge_result_of MD_FAILED file_path)
            \<lparr>mr_error := Some (''Could not read baseline for '' @ file_path @ '' from '' @ target_branch @ '': '' @ e)\<rparr>, t)
      | Inr baseline \<Rightarrow>
          bindE (merge_file (oc_pipeline o1) file_path baseline snapshots (resolver_in_use o1 t))
            (\<lambda>(result, ai). Inr (result, if ai = None then t else t\<lparr>ot_ai := ai\<rparr>)))"

definition add_result :: "string \<Rightarrow> merge_result \<Rightarrow> merge_report \<Rightarrow> merge_report" where
  "add_result file_path result r =
     r\<lparr>rp_file_results := AList.update file_path result (rp_file_results r),
       rp_stats := update_stats result (rp_stats r)\<rparr>"

text \<open>The files one after the other; an exception ends the loop with what was merged before.\<close>

fun merge_files ::
    "orchestrator \<Rightarrow> string \<Rightarrow> (string \<times> task_snapshot list) list \<Rightarrow> merge_report \<Rightarrow> orch_state
      \<Rightarrow> merge_report \<times> orch_state" where
  "merge_files o1 target_branch [] r t = (r\<lparr>rp_success := st_files_failed (rp_stats r) = 0\<rparr>, t)"
| "merge_files o1 target_branch ((file_path, snapshots) # rest) r t =
     (case merge_one_file o1 file_path snapshots target_branch t of
        Inl e \<Rightarrow> (r\<lparr>rp_success := False, rp_error := Some (oc_error_text o1 e)\<rparr>, t)
      | Inr (result, t') \<Rightarrow> merge_files o1 target_branch rest (add_result file_path result r) t')"

definition finish_report :: "int \<Rightarrow> merge_report \<Rightarrow> merge_report" where
  "finish_report now r =
     r\<lparr>rp_completed_at := Some now, rp_stats := (rp_stats r)\<lparr>st_duration := now - rp_started_at r\<rparr>\<rparr>"

definition refresh :: "orchestrator \<Rightarrow> string \<Rightarrow> string \<Rightarrow> string \<Rightarrow> orch_state \<Rightarrow> orch_state" where
  "refresh o1 task_id worktree target_branch t =
     t\<lparr>ot_store := refresh_from_git (oc_record o1) (oc_git o1 worktree) task_id (Some target_branch) None (ot_store t)\<rparr>"

text \<open>\<open>start\<close> and \<open>now\<close> are the clock at the start and at the end.\<close>

definition merge_task ::
    "orchestrator \<Rightarrow> string \<Rightarrow> string option \<Rightarrow> string \<Rightarrow> int \<Rightarrow> int \<Rightarrow> orch_state \<Rightarrow> merge_report \<times> orch_state" where
  "merge_task o1 task_id worktree_path target_branch start now t =
     (let report = new_report start [task_id];
          worktree = (case worktree_path of Some w \<Rightarrow> Some w | None \<Rightarrow> oc_worktree o1 task_id)
      in case worktree of
           None \<Rightarrow> (report\<lparr>rp_success := False,
               rp_error := Some (''Could not find worktree for task '' @ task_id)\<rparr>, t)
         | Some w \<Rightarrow>
             let t1 = refresh o1 task_id w target_branch t;
                 modifications = get_task_modifications task_id (ot_store t1)
             in if modifications = [] then (report\<lparr>rp_completed_at := Some now\<rparr>, t1)
                else (case merge_files o1 target_branch (map (\<lambda>(p, s). (p, [s])) modifications) report t1 of
                        (r, t2) \<Rightarrow> (finish_report now r, t2)))"

text \<open>The snapshots of the tasks that modified a file; files without any are left out.\<close>

definition files_to_merge :: "orchestrator \<Rightarrow> string list \<Rightarrow> evo_store \<Rightarrow> (string \<times> task_snapshot list) list" where
  "files_to_merge o1 task_ids s =
     List.map_filter (\<lambda>(p, tasks).
         case get_file_evolution (oc_rel o1) p s of
           None \<Rightarrow> None
         | Some e \<Rightarrow>
             (let snapshots = List.map_filter (get_task_snapshot e) tasks
              in if snapshots = [] then None else Some (p, snapshots)))
       (get_files_modified_by_tasks task_ids s)"

text \<open>The worktrees that are given exist.\<close>

definition refresh_request :: "orchestrator \<Rightarrow> string \<Rightarrow> merge_request \<Rightarrow> orch_state \<Rightarrow> orch_state" where
  "refresh_request o1 target_branch q t =
     (case rq_worktree q of Some w \<Rightarrow> refresh o1 (rq_task_id q) w target_branch t | None \<Rightarrow> t)"

definition merge_tasks ::
    "orchestrator \<Rightarrow> merge_request list \<Rightarrow> string \<Rightarrow> int \<Rightarrow> int \<Rightarrow> orch_state \<Rightarrow> merge_report \<times> orch_state" where
  "merge_tasks o1 requests target_branch start now t =
     (let sorted_requests = sort_key (\<lambda>q. - rq_priority q) requests;
          t1 = fold (refresh_request o1 target_branch) sorted_requests t
      in case merge_files o1 target_branch (files_to_merge o1 (map rq_task_id sorted_requests) (ot_store t1))
                (new_report start (map rq_task_id requests)) t1 of
           (r, t2) \<Rightarrow> (finish_report now r, t2))"

section \<open>Pending conflicts and the preview\<close>

text \<open>The analyses of the snapshots of the given tasks, without their summaries.\<close>

definition analyses_for :: "string \<Rightarrow> string list \<Rightarrow> file_evolution \<Rightarrow> (string \<times> file_analysis) list" where
  "analyses_for file_path task_ids e =
     fold (\<lambda>s. AList.update (ts_task_id s) (empty_analysis file_path (ts_semantic_changes s)))
       (filter (\<lambda>s. ts_task_id s \<in> set task_ids) (fe_task_snapshots e)) []"

definition conflicts_in :: "orchestrator \<Rightarrow> string list \<Rightarrow> evo_store \<Rightarrow> string \<Rightarrow> conflict_region list" where
  "conflicts_in o1 task_ids s file_path =
     (case get_file_evolution (oc_rel o1) file_path s of
        None \<Rightarrow> []
      | Some e \<Rightarrow> detect_conflicts (analyses_for file_path task_ids e) (pl_rules (oc_pipeline o1)))"

definition get_pending_conflicts :: "orchestrator \<Rightarrow> evo_store \<Rightarrow> (string \<times> conflict_region list) list" where
  "get_pending_conflicts o1 s =
     (let active = get_active_tasks s
      in if length active < 2 then []
         else filter (\<lambda>(p, cs). cs \<noteq> [])
                (map (\<lambda>p. (p, filter (\<lambda>c. \<not> cg_can_auto_merge c) (conflicts_in o1 active s p)))
                  (get_conflicting_files active s)))"

definition preview_conflict :: "conflict_region \<Rightarrow> obj" where
  "preview_conflict c =
     [(''file'', JStr (cg_file_path c)), (''location'', JStr (cg_location c)), (''tasks'', jstrs (cg_tasks_involved c)),
      (''severity'', JStr (sev_value (cg_severity c))), (''can_auto_merge'', JBool (cg_can_auto_merge c)),
      (''strategy'', jopt (map_option ms_value (cg_merge_strategy c))), (''reason'', JStr (cg_reason c))]"

definition preview_merge :: "orchestrator \<Rightarrow> string list \<Rightarrow> evo_store \<Rightarrow> obj" where
  "preview_merge o1 task_ids s =
     (let file_tasks = get_files_modified_by_tasks task_ids s; conflicting = get_conflicting_files task_ids s;
          conflicts = concat (map (conflicts_in o1 task_ids s) conflicting)
      in [(''tasks'', jstrs task_ids), (''files_to_merge'', jstrs (map fst file_tasks)),
          (''files_with_potential_conflicts'', jstrs conflicting),
          (''conflicts'', JList (map (JObj \<circ> preview_conflict) conflicts)),
          (''summary'', JObj
             [(''total_files'', JInt (int (length file_tasks))), (''conflict_files'', JInt (int (length conflicting))),
              (''total_conflicts'', JInt (int (length conflicts))),
              (''auto_mergeable'', JInt (int (length (filter cg_can_auto_merge conflicts))))])])"

section \<open>Writing\<close>

text \<open>The files of a directory by their path. \<open>writable\<close> tells whether a write succeeds.\<close>

type_synonym tree_files = "(string \<times> string) list"

definition write_merged_files :: "orchestrator \<Rightarrow> merge_report \<Rightarrow> tree_files \<Rightarrow> string list \<times> tree_files" where
  "write_merged_files o1 r output =
     (if oc_dry_run o1 then ([], output)
      else (let ws = filter (\<lambda>(p, m). truthy_str (mr_merged_content m)) (rp_file_results r)
            in (map fst ws, fold (\<lambda>(p, m). AList.update p (the (mr_merged_content m))) ws output)))"

definition apply_result :: "(string \<Rightarrow> bool) \<Rightarrow> string \<times> merge_result \<Rightarrow> bool \<times> tree_files \<Rightarrow> bool \<times> tree_files" where
  "apply_result writable pm st =
     (case pm of (p, m) \<Rightarrow>
        if truthy_str (mr_merged_content m) \<and> mr_success m
        then (if writable p then (fst st, AList.update p (the (mr_merged_content m)) (snd st)) else (False, snd st))
        else st)"

definition apply_to_project ::
    "orchestrator \<Rightarrow> (string \<Rightarrow> bool) \<Rightarrow> merge_report \<Rightarrow> tree_files \<Rightarrow> bool \<times> tree_files" where
  "apply_to_project o1 writable r project =
     (if oc_dry_run o1 then (True, project)
      else fold (apply_result writable) (rp_file_results r) (True, project))"

end
