(* ===== verification/Merge_Exec_Props.thy ===== *)
theory Merge_Exec_Props
  imports Merge_Resolve_Props Merge_Text_Props Merge_Orchestrator
begin

text \<open>Properties of the merge of files: which conflicts are decided by whom, and what reaches the project.\<close>

section \<open>The strategies of the default rules\<close>

definition handled_rule :: "compatibility_rule \<Rightarrow> bool" where
  "handled_rule r = (ru_compatible r \<longrightarrow> (case ru_strategy r of Some s \<Rightarrow> can_handle s | None \<Rightarrow> False))"

lemma default_rules_handled: "list_all handled_rule build_default_rules"
  by (simp add: default_rules handled_rule_def can_handle_def)

lemma index_rule_range: "map_of (index_rule r idx) k = Some u \<Longrightarrow> u = r \<or> map_of idx k = Some u"
  by (auto simp: index_rule_def Let_def dget_dset split: if_splits)

lemma index_rules_range: "map_of (index_rules rules) k = Some u \<Longrightarrow> u \<in> set rules"
proof -
  have "map_of (fold index_rule rs idx) k = Some u \<Longrightarrow> u \<in> set rs \<or> map_of idx k = Some u" for rs idx
    by (induction rs arbitrary: idx) (use index_rule_range in fastforce)+
  then show "map_of (index_rules rules) k = Some u \<Longrightarrow> u \<in> set rules" by (fastforce simp: index_rules_def)
qed

text \<open>The strategy of a verdict that is still positive is one of a compatible rule, once a pair was judged.\<close>

definition strategy_ok :: "bool \<Rightarrow> verdict \<Rightarrow> bool" where
  "strategy_ok judged v \<longleftrightarrow> (fst v \<longrightarrow> (case fst (snd v) of Some s \<Rightarrow> can_handle s | None \<Rightarrow> \<not> judged))"

lemma judge_strategy:
  assumes "\<forall>k u. map_of idx k = Some u \<longrightarrow> handled_rule u" "strategy_ok j v"
  shows "strategy_ok True (judge idx a b v)"
proof (cases "map_of idx (a, b)")
  case None
  then show ?thesis by (cases v) (simp add: judge_def strategy_ok_def)
next
  case (Some u)
  then have "handled_rule u" using assms(1) by blast
  then show ?thesis using Some assms(2)
    by (cases v) (auto simp: judge_def strategy_ok_def handled_rule_def split: option.splits)
qed

lemma strategy_ok_weaken: "strategy_ok True v \<Longrightarrow> strategy_ok j v"
  by (auto simp: strategy_ok_def split: option.splits)

lemma judge_row_strategy:
  assumes "\<forall>k u. map_of idx k = Some u \<longrightarrow> handled_rule u"
  shows "strategy_ok j v \<Longrightarrow> strategy_ok (j \<or> bs \<noteq> []) (foldl (\<lambda>w b. judge idx a b w) v bs)"
proof (induction bs arbitrary: v j)
  case (Cons b bs)
  show ?case using Cons.IH [OF judge_strategy [OF assms Cons.prems, of a b]] by simp
qed simp

lemma judge_pairs_strategy:
  assumes "\<forall>k u. map_of idx k = Some u \<longrightarrow> handled_rule u"
  shows "strategy_ok j v \<Longrightarrow> strategy_ok (j \<or> length ts \<ge> 2) (judge_pairs idx ts v)"
proof (induction ts arbitrary: v j)
  case (Cons t ts)
  have "strategy_ok (j \<or> ts \<noteq> []) (foldl (\<lambda>w b. judge idx t b w) v ts)"
    by (rule judge_row_strategy [OF assms Cons.prems])
  from Cons.IH [OF this] show ?case by (cases ts) auto
qed simp

lemma auto_merge_strategies:
  assumes "r \<in> set (detect_conflicts analyses (index_rules build_default_rules))"
  shows "auto_resolvable r \<longleftrightarrow> cg_can_auto_merge r"
proof -
  let ?idx = "index_rules build_default_rules"
  from region_from [OF assms] obtain loc g where g: "length g > 1"
    "analyze_location_conflict (fa_file_path (snd (hd analyses))) loc g ?idx = Some r" by blast
  let ?types = "map sc_change_type (map snd g)"
  obtain ok strategy reasons where j: "judge_pairs ?idx ?types (True, None, []) = (ok, strategy, reasons)"
    by (metis prod_cases3)
  have "\<forall>k u. map_of ?idx k = Some u \<longrightarrow> handled_rule u"
    using index_rules_range default_rules_handled by (meson list.pred_set)
  from judge_pairs_strategy [OF this, of False "(True, None, [])" ?types]
  have s: "strategy_ok True (ok, strategy, reasons)" using g(1) j by (simp add: strategy_ok_def)
  have "cg_can_auto_merge r = ok" "cg_merge_strategy r = (if ok then strategy else Some MS_AI_REQUIRED)"
    using g(2) j by (auto simp: analyze_location_conflict_def Let_def split: if_splits)
  then show ?thesis using s by (auto simp: auto_resolvable_def strategy_ok_def split: option.splits)
qed

section \<open>The sides of the conflicts\<close>

lemma result_of_simps [simp]:
  "mr_decision (result_of p st) = decision_of st" "mr_conflicts_resolved (result_of p st) = rs_resolved st"
  "mr_conflicts_remaining (result_of p st) = rs_remaining st" "mr_ai_calls_made (result_of p st) = rs_ai_calls st"
  "mr_tokens_used (result_of p st) = rs_tokens st"
  "mr_merged_content (result_of p st) = (if decision_of st \<noteq> MD_FAILED then Some (rs_content st) else None)"
  by (simp_all add: result_of_def)

lemma decision_success: "mr_success (result_of p st) \<longleftrightarrow> rs_remaining st = []"
  by (simp add: mr_success_def decision_of_def)

text \<open>Conflict resolution loses no conflict and reports none twice: the resolved and the remaining ones are
  the given ones, each side in the given order; what remains could not be merged by a rule; the merge is a
  success exactly when nothing remains, it has failed, without content, exactly when something remains and
  nothing was resolved, and AI took part in a success exactly when it was called.\<close>

theorem conflicts_end_on_one_side:
  assumes "resolve_conflicts a conflicts ai = Inr (m, ai')"
  shows "mset (mr_conflicts_resolved m) + mset (mr_conflicts_remaining m) = mset conflicts \<and>
    subseq (mr_conflicts_resolved m) conflicts \<and> subseq (mr_conflicts_remaining m) conflicts \<and>
    (\<forall>c \<in> set (mr_conflicts_remaining m).
       \<not> (cg_can_auto_merge c \<and> (\<exists>s. cg_merge_strategy c = Some s \<and> can_handle s))) \<and>
    (mr_success m \<longleftrightarrow> mr_conflicts_remaining m = []) \<and>
    (mr_decision m = MD_FAILED \<longleftrightarrow> mr_conflicts_remaining m \<noteq> [] \<and> mr_conflicts_resolved m = []) \<and>
    (mr_merged_content m = None \<longleftrightarrow> mr_decision m = MD_FAILED) \<and>
    (mr_decision m = MD_AI_MERGED \<longleftrightarrow> mr_success m \<and> mr_ai_calls_made m > 0)"
proof -
  obtain st where st: "loop_inv a ai conflicts st" "m = result_of (ra_file_path a) st"
    using resolve_conflicts_inv [OF assms] by blast
  then show ?thesis
    by (auto simp: loop_inv_def decision_success decision_of_def auto_resolvable_def)
qed

text \<open>The model is called at most once for each conflict that no rule can merge and whose severity is
  medium or high, and the tokens that are charged stay within the limit of a context for each call; without a
  resolver, or with AI switched off, there are neither calls nor tokens.\<close>

theorem ai_cost_is_bounded:
  assumes "resolve_conflicts a conflicts ai = Inr (m, ai')"
  shows "0 \<le> mr_ai_calls_made m \<and>
    mr_ai_calls_made m \<le> int (length (filter (\<lambda>c. cg_severity c \<in> {SEV_MEDIUM, SEV_HIGH} \<and>
       \<not> (cg_can_auto_merge c \<and> (\<exists>s. cg_merge_strategy c = Some s \<and> can_handle s))) conflicts)) \<and>
    mr_tokens_used m \<le> mr_ai_calls_made m * (case ai of Some r \<Rightarrow> ar_max_context_tokens r | None \<Rightarrow> 0) \<and>
    (\<not> ra_enable_ai a \<or> ai = None \<longrightarrow> mr_ai_calls_made m = 0 \<and> mr_tokens_used m = 0)"
proof -
  obtain st where st: "loop_inv a ai conflicts st" "m = result_of (ra_file_path a) st"
    using resolve_conflicts_inv [OF assms] by blast
  let ?P = "\<lambda>c. cg_severity c \<in> {SEV_MEDIUM, SEV_HIGH} \<and> \<not> auto_resolvable c"
  have "sum_list (map (cost_of a ai) cs) \<le> length (filter ?P cs)" for cs
    by (induction cs) (auto simp: cost_of_def ai_resolvable_def)
  then have le: "rs_ai_calls st \<le> int (length (filter ?P conflicts))"
    using st(1) by (meson loop_inv_def of_nat_le_iff order_trans)
  have off: "rs_ai_calls st = 0 \<and> rs_tokens st = 0" if "\<not> ra_enable_ai a \<or> ai = None"
  proof -
    have "map (cost_of a ai) conflicts = map (\<lambda>_. 0) conflicts"
      using that by (simp add: cost_of_def ai_resolvable_def)
    then have "sum_list (map (cost_of a ai) conflicts) = 0" by (simp only: sum_list_0)
    moreover have f: "0 \<le> rs_ai_calls st \<and> rs_ai_calls st \<le> int (sum_list (map (cost_of a ai) conflicts)) \<and>
        0 \<le> rs_tokens st \<and> rs_tokens st \<le> rs_ai_calls st * max_of ai"
      using st(1) by (simp only: loop_inv_def)
    ultimately have z: "rs_ai_calls st = 0" by linarith
    then show ?thesis using f by simp
  qed
  have max: "(case ai of Some r \<Rightarrow> ar_max_context_tokens r | None \<Rightarrow> 0) = max_of ai"
    by (simp add: max_of_def split: option.split)
  show ?thesis unfolding max
    using st le off by (simp add: loop_inv_def auto_resolvable_def)
qed

section \<open>Without AI\<close>

lemma resolve_one_no_ai:
  assumes "\<not> ra_enable_ai a"
  shows "\<exists>st'. resolve_one a c st = Inr st'"
  using assms by (auto simp: resolve_one_def wants_ai_def split: option.split)

lemma resolve_all_no_ai:
  assumes "\<not> ra_enable_ai a"
  shows "\<exists>st'. resolve_all a cs st = Inr st'"
proof (induction cs arbitrary: st)
  case (Cons c cs)
  obtain st1 where "resolve_one a c st = Inr st1" using resolve_one_no_ai [OF assms] by blast
  then show ?case using Cons.IH [of st1] by simp
qed simp

lemma loop_inv_no_ai:
  assumes "loop_inv a ai cs st" "\<not> ra_enable_ai a"
  shows "rs_remaining st = [] \<longleftrightarrow> (\<forall>c \<in> set cs. auto_resolvable c)" "rs_ai_calls st = 0"
proof -
  have sides: "set cs = set (rs_resolved st) \<union> set (rs_remaining st)"
    using assms(1) by (metis loop_inv_def mset_append set_append set_mset_mset)
  show "rs_remaining st = [] \<longleftrightarrow> (\<forall>c \<in> set cs. auto_resolvable c)"
    unfolding sides using assms by (cases "rs_remaining st") (auto simp: loop_inv_def ai_resolvable_def)
  have "sum_list (map (cost_of a ai) cs) = 0"
    using assms(2) by (induction cs) (simp_all add: cost_of_def ai_resolvable_def)
  moreover have "0 \<le> rs_ai_calls st \<and> rs_ai_calls st \<le> int (sum_list (map (cost_of a ai) cs))"
    using assms(1) by (simp only: loop_inv_def)
  ultimately show "rs_ai_calls st = 0" by linarith
qed

text \<open>With AI switched off, merging a file that several tasks changed never raises and succeeds exactly when
  the rules declare every detected conflict mergeable: the default rules name no strategy that the merger
  cannot carry out; and then the decision is that of an automatic merge.\<close>

theorem rules_alone_decide:
  assumes "\<not> pl_enable_ai p" "pl_rules p = index_rules build_default_rules" "length snapshots \<noteq> 1"
  shows "\<exists>m ai'. merge_file p file_path baseline snapshots ai = Inr (m, ai') \<and>
    (mr_success m \<longleftrightarrow> (\<forall>c \<in> set (detect_conflicts (build_task_analyses file_path snapshots) (pl_rules p)).
       cg_can_auto_merge c)) \<and>
    (mr_success m \<longrightarrow> mr_decision m = MD_AUTO_MERGED \<and> mr_merged_content m \<noteq> None)"
proof -
  let ?cs = "detect_conflicts (build_task_analyses file_path snapshots) (pl_rules p)"
  let ?a = "args_of p file_path baseline snapshots"
  show ?thesis
  proof (cases "?cs = []")
    case True
    then show ?thesis using assms(3) by (simp add: merge_file_def Let_def mr_success_def merge_result_of_def)
  next
    case False
    have off: "\<not> ra_enable_ai ?a" using assms(1) by (simp add: args_of_def)
    obtain st where "resolve_all ?a ?cs (start_resolution (ra_baseline ?a) ai) = Inr st"
      using resolve_all_no_ai [OF off] by blast
    then have r: "resolve_conflicts ?a ?cs ai = Inr (result_of (ra_file_path ?a) st, rs_ai st)"
      by (simp add: resolve_conflicts_def)
    have inv: "loop_inv ?a ai ?cs st"
    proof -
      obtain st' where st': "loop_inv ?a ai ?cs st'" "result_of (ra_file_path ?a) st = result_of (ra_file_path ?a) st'"
        "rs_ai st = rs_ai st'" using resolve_conflicts_inv [OF r] by blast
      then have "rs_resolved st = rs_resolved st' \<and> rs_remaining st = rs_remaining st' \<and>
          rs_ai_calls st = rs_ai_calls st' \<and> rs_tokens st = rs_tokens st'" by (metis result_of_simps(2-5))
      with st' show ?thesis by (simp add: loop_inv_def)
    qed
    have "rs_remaining st = [] \<longleftrightarrow> (\<forall>c \<in> set ?cs. cg_can_auto_merge c)"
      using loop_inv_no_ai(1) [OF inv off] auto_merge_strategies [of _ "build_task_analyses file_path snapshots"] assms(2)
      by simp
    then show ?thesis
      using r False assms(3) loop_inv_no_ai(2) [OF inv off] decision_success [of "ra_file_path ?a" st]
      by (auto simp: merge_file_def decision_of_def)
  qed
qed

section \<open>What reaches the project\<close>

lemma merge_file_decided:
  assumes "merge_file p file_path baseline snapshots ai = Inr (m, ai')" "mr_success m"
  shows "mr_conflicts_remaining m = []" "mr_merged_content m \<noteq> None"
    "length snapshots = 1 \<or> mset (mr_conflicts_resolved m)
       = mset (detect_conflicts (build_task_analyses file_path snapshots) (pl_rules p))"
    "\<forall>c \<in> set (mr_conflicts_resolved m). cg_can_auto_merge c \<or> cg_severity c \<in> {SEV_MEDIUM, SEV_HIGH}"
proof -
  let ?cs = "detect_conflicts (build_task_analyses file_path snapshots) (pl_rules p)"
  have "mr_conflicts_remaining m = [] \<and> mr_merged_content m \<noteq> None \<and>
    (length snapshots = 1 \<or> mset (mr_conflicts_resolved m) = mset ?cs) \<and>
    (\<forall>c \<in> set (mr_conflicts_resolved m). cg_can_auto_merge c \<or> cg_severity c \<in> {SEV_MEDIUM, SEV_HIGH})"
  proof (cases "length snapshots = 1 \<or> ?cs = []")
    case True
    then show ?thesis using assms(1) by (auto simp: merge_file_def merge_result_of_def Let_def split: if_splits)
  next
    case False
    then have "resolve_conflicts (args_of p file_path baseline snapshots) ?cs ai = Inr (m, ai')"
      using assms(1) by (simp add: merge_file_def)
    then obtain st where "loop_inv (args_of p file_path baseline snapshots) ai ?cs st"
      "m = result_of (ra_file_path (args_of p file_path baseline snapshots)) st"
      using resolve_conflicts_inv by blast
    then show ?thesis using assms(2)
      by (auto simp: decision_success loop_inv_def auto_resolvable_def ai_resolvable_def decision_of_def)
  qed
  then show "mr_conflicts_remaining m = []" "mr_merged_content m \<noteq> None"
    "length snapshots = 1 \<or> mset (mr_conflicts_resolved m) = mset ?cs"
    "\<forall>c \<in> set (mr_conflicts_resolved m). cg_can_auto_merge c \<or> cg_severity c \<in> {SEV_MEDIUM, SEV_HIGH}"
    by blast+
qed

lemma set_update: "x \<in> set (AList.update k v d) \<Longrightarrow> x = (k, v) \<or> x \<in> set d"
  by (induction d) (auto split: if_splits)

lemma merge_one_file_store:
  "merge_one_file o1 p ss tb t = Inr (m, t') \<Longrightarrow> ot_store t' = ot_store t"
  by (auto simp: merge_one_file_def bindE_Inr_iff split: sum.splits prod.splits if_splits)

lemma merge_files_results:
  assumes "merge_files o1 tb fs r t = (r', t')"
  shows "ot_store t' = ot_store t"
    "(p, m) \<in> set (rp_file_results r') \<Longrightarrow> (p, m) \<in> set (rp_file_results r) \<or>
       (\<exists>ss t1 t2. (p, ss) \<in> set fs \<and> ot_store t1 = ot_store t \<and> merge_one_file o1 p ss tb t1 = Inr (m, t2))"
  using assms
proof (induction o1 tb fs r t rule: merge_files.induct)
  case (2 o1 tb q qs rest r t)
  { case 1
    show ?case
    proof (cases "merge_one_file o1 q qs tb t")
      case (Inr mt)
      obtain m1 t1 where mt: "mt = (m1, t1)" by fastforce
      have "merge_files o1 tb rest (add_result q m1 r) t1 = (r', t')" using 1 Inr mt by simp
      then show ?thesis using 2(1) [OF Inr mt [symmetric]] merge_one_file_store Inr mt by metis
    qed (use 1 in auto) }
  { case 2
    show ?case
    proof (cases "merge_one_file o1 q qs tb t")
      case (Inr mt)
      obtain m1 t1 where mt: "mt = (m1, t1)" by fastforce
      have rest: "merge_files o1 tb rest (add_result q m1 r) t1 = (r', t')" using 2 Inr mt by simp
      have store: "ot_store t1 = ot_store t" using merge_one_file_store Inr mt by metis
      have "(p, m) \<in> set (rp_file_results (add_result q m1 r)) \<or>
          (\<exists>ss t1' t2. (p, ss) \<in> set rest \<and> ot_store t1' = ot_store t1 \<and> merge_one_file o1 p ss tb t1' = Inr (m, t2))"
        using "2.IH"(2) [OF Inr mt [symmetric] 2(1) rest] .
      moreover have "(p, m) \<in> set (rp_file_results (add_result q m1 r)) \<Longrightarrow>
          (p, m) = (q, m1) \<or> (p, m) \<in> set (rp_file_results r)"
        by (auto simp: add_result_def dest: set_update)
      ultimately show ?thesis using Inr mt store by (metis list.set_intros(1,2) prod.inject)
    qed (use 2 in auto) }
qed auto

lemma files_to_merge_cong: "set ids = set ids' \<Longrightarrow> files_to_merge o1 ids s = files_to_merge o1 ids' s"
  by (simp add: files_to_merge_def get_files_modified_by_tasks_def modifying_tasks_def)

lemma apply_fold:
  "map_of (snd (fold (apply_result writable) rs st)) p = map_of (snd st) p \<or>
   (\<exists>m. (p, m) \<in> set rs \<and> mr_success m \<and> truthy_str (mr_merged_content m) \<and>
      map_of (snd (fold (apply_result writable) rs st)) p = mr_merged_content m)"
proof (induction rs arbitrary: st)
  case (Cons pm rs)
  obtain q m where pm: "pm = (q, m)" by fastforce
  have step: "map_of (snd (apply_result writable (q, m) st)) p = map_of (snd st) p \<or>
      p = q \<and> mr_success m \<and> truthy_str (mr_merged_content m) \<and>
      map_of (snd (apply_result writable (q, m) st)) p = mr_merged_content m"
    by (cases "mr_merged_content m") (auto simp: apply_result_def dget_dset truthy_str_def)
  show ?case using Cons.IH [of "apply_result writable (q, m) st"] step by (auto simp: pm)
qed simp

text \<open>C31: a file of the project changes only to a merge that succeeded: its baseline could be read, no conflict
  between the tasks remains, and the conflicts that were resolved are all those that the detector finds, each
  mergeable by the rules or left to AI with a medium or high severity. A critical conflict, and a baseline
  that git could not read, keep the file as it is.\<close>

theorem only_decided_merges_are_applied:
  assumes "merge_tasks o1 requests target_branch start now t = (r, t')"
    and "apply_to_project o1 writable r project = (ok, project')"
    and "map_of project' p \<noteq> map_of project p"
  shows "\<exists>m snapshots baseline.
    (p, snapshots) \<in> set (files_to_merge o1 (map rq_task_id requests) (ot_store t')) \<and>
    baseline_of o1 p target_branch (ot_store t') = Inr baseline \<and>
    (p, m) \<in> set (rp_file_results r) \<and> map_of project' p = mr_merged_content m \<and>
    mr_success m \<and> mr_conflicts_remaining m = [] \<and>
    (length snapshots = 1 \<or> mset (mr_conflicts_resolved m)
       = mset (detect_conflicts (build_task_analyses p snapshots) (pl_rules (oc_pipeline o1)))) \<and>
    (\<forall>c \<in> set (mr_conflicts_resolved m). cg_can_auto_merge c \<or> cg_severity c \<in> {SEV_MEDIUM, SEV_HIGH})"
proof -
  have project': "project' = snd (if oc_dry_run o1 then (True, project)
      else fold (apply_result writable) (rp_file_results r) (True, project))"
    using assms(2) by (simp add: apply_to_project_def split: if_splits)
  then obtain m where m: "(p, m) \<in> set (rp_file_results r)" "mr_success m" "map_of project' p = mr_merged_content m"
    using assms(3) apply_fold [of writable "rp_file_results r" "(True, project)" p] by (auto split: if_splits)
  let ?sorted = "sort_key (\<lambda>q. - rq_priority q) requests"
  let ?t1 = "fold (refresh_request o1 target_branch) ?sorted t"
  let ?files = "files_to_merge o1 (map rq_task_id ?sorted) (ot_store ?t1)"
  obtain r1 where r1: "merge_files o1 target_branch ?files (new_report start (map rq_task_id requests)) ?t1 = (r1, t')"
    "r = finish_report now r1" using assms(1) by (auto simp: merge_tasks_def Let_def split: prod.splits)
  have store: "ot_store t' = ot_store ?t1" by (rule merge_files_results(1) [OF r1(1)])
  have "(p, m) \<in> set (rp_file_results r1)" using m(1) r1(2) by (simp add: finish_report_def)
  from merge_files_results(2) [OF r1(1) this] obtain ss t1 t2 where
    one: "(p, ss) \<in> set ?files" "ot_store t1 = ot_store ?t1" "merge_one_file o1 p ss target_branch t1 = Inr (m, t2)"
    by (auto simp: new_report_def)
  have b: "\<exists>b. baseline_of o1 p target_branch (ot_store t') = Inr b"
    using one(2,3) m(2) store
    by (auto simp: merge_one_file_def mr_success_def merge_result_of_def split: sum.splits)
  then obtain b ai ai' where mf: "baseline_of o1 p target_branch (ot_store t') = Inr b"
    "merge_file (oc_pipeline o1) p b ss ai = Inr (m, ai')"
    using one(2,3) store by (auto simp: merge_one_file_def bindE_Inr_iff)
  have "?files = files_to_merge o1 (map rq_task_id requests) (ot_store t')"
    unfolding store by (rule files_to_merge_cong) simp
  then have f: "(p, ss) \<in> set (files_to_merge o1 (map rq_task_id requests) (ot_store t'))" using one(1) by simp
  note d = merge_file_decided [OF mf(2) m(2)]
  show ?thesis
    by (intro exI [of _ m] exI [of _ ss] exI [of _ b] conjI) (fact f mf(1) m d)+
qed

section \<open>At concrete inputs\<close>

definition plain_pipeline :: "bool \<Rightarrow> pipeline" where
  "plain_pipeline ai = \<lparr>pl_rules = index_rules build_default_rules, pl_enable_ai = ai,
     pl_compile = (\<lambda>_ _. Inl (ValueError []))\<rparr>"

definition plain_args :: resolve_args where
  "plain_args = args_of (plain_pipeline False) ''a.py'' ''x = 1'' [snapshot ''t1'' [import_os]]"

text \<open>One conflict that the rules merge, and one that nobody may.\<close>

definition two_conflicts :: "conflict_region list" where
  "two_conflicts = [region SEV_NONE True, region SEV_CRITICAL False]"

definition two_conflicts_result :: merge_result where
  "two_conflicts_result = (case resolve_conflicts plain_args two_conflicts None of
     Inr (m, ai) \<Rightarrow> m | Inl e \<Rightarrow> merge_result_of MD_FAILED [])"

lemma two_conflicts_resolved: "resolve_conflicts plain_args two_conflicts None = Inr (two_conflicts_result, None)"
proof -
  have "\<not> ra_enable_ai plain_args" by (simp add: plain_args_def args_of_def plain_pipeline_def)
  then obtain st where st: "resolve_all plain_args two_conflicts (start_resolution (ra_baseline plain_args) None) = Inr st"
    using resolve_all_no_ai by blast
  then obtain m ai where r: "resolve_conflicts plain_args two_conflicts None = Inr (m, ai)"
    by (simp add: resolve_conflicts_def)
  obtain st' where "loop_inv plain_args None two_conflicts st'" "ai = rs_ai st'" using resolve_conflicts_inv [OF r] by blast
  then have "ai = None" by (simp add: loop_inv_def)
  with r show ?thesis by (simp add: two_conflicts_result_def)
qed

lemma conflicts_end_on_one_side_witness:
  "mset (mr_conflicts_resolved two_conflicts_result) + mset (mr_conflicts_remaining two_conflicts_result)
     = mset two_conflicts"
  using conflicts_end_on_one_side [OF two_conflicts_resolved] by blast

lemma ai_cost_is_bounded_witness: "mr_ai_calls_made two_conflicts_result = 0 \<and> mr_tokens_used two_conflicts_result = 0"
  using ai_cost_is_bounded [OF two_conflicts_resolved] by simp

lemma rules_alone_decide_witness:
  "\<exists>m ai'. merge_file (plain_pipeline False) ''a.py'' ''x'' [snapshot ''t1'' [import_os], snapshot ''t2'' [import_os]]
     None = Inr (m, ai') \<and> mr_success m"
proof -
  have "\<forall>c \<in> set (detect_conflicts (build_task_analyses ''a.py'' [snapshot ''t1'' [import_os], snapshot ''t2'' [import_os]])
    (pl_rules (plain_pipeline False))). cg_can_auto_merge c"
    by code_simp
  then show ?thesis
    using rules_alone_decide [of "plain_pipeline False" "[snapshot ''t1'' [import_os], snapshot ''t2'' [import_os]]"
        "''a.py''" "''x''" None]
    by (auto simp: plain_pipeline_def)
qed

text \<open>Two tasks add the same import to a file of the project.\<close>

definition history :: evo_store where
  "history = \<lparr>es_evolutions = [(''a.py'', \<lparr>fe_file_path = ''a.py'', fe_baseline_commit = [], fe_baseline_captured_at = 0,
       fe_baseline_content_hash = [], fe_baseline_snapshot_path = ''b'',
       fe_task_snapshots = [snapshot ''t1'' [import_os], snapshot ''t2'' [import_os]]\<rparr>)],
     es_baselines = [(''b'', ''x = 1'')]\<rparr>"

definition no_ai_resolver :: ai_resolver where
  "no_ai_resolver = new_resolver None MAX_CONTEXT_TOKENS"

definition plain_orchestrator :: orchestrator where
  "plain_orchestrator = \<lparr>oc_pipeline = plain_pipeline False, oc_claude = no_ai_resolver, oc_rel = (\<lambda>p. p),
     oc_git_show = (\<lambda>_. \<lparr>gr_code = 1, gr_stdout = [], gr_stderr = []\<rparr>),
     oc_git = (\<lambda>_. \<lparr>gv_upstream = None, gv_has_merge_base = (\<lambda>_. False), gv_names = (\<lambda>_ _. None),
       gv_diff = (\<lambda>_ _ _. None), gv_show = (\<lambda>_ _. None), gv_work = (\<lambda>_. None)\<rparr>),
     oc_record = \<lparr>re_rel = (\<lambda>p. p), re_hash = (\<lambda>s. s), re_analyze = (\<lambda>_ _ _. []), re_now = 0\<rparr>,
     oc_error_text = (\<lambda>_. []), oc_worktree = (\<lambda>_. None), oc_dry_run = False\<rparr>"

definition two_requests :: "merge_request list" where
  "two_requests = [\<lparr>rq_task_id = ''t1'', rq_worktree = None, rq_priority = 0\<rparr>,
     \<lparr>rq_task_id = ''t2'', rq_worktree = None, rq_priority = 0\<rparr>]"

definition two_tasks_run :: "merge_report \<times> orch_state" where
  "two_tasks_run = merge_tasks plain_orchestrator two_requests ''main'' 0 1 \<lparr>ot_store = history, ot_ai = None\<rparr>"

definition project_after :: "bool \<times> tree_files" where
  "project_after = apply_to_project plain_orchestrator (\<lambda>_. True) (fst two_tasks_run) []"

lemma project_changed: "map_of (snd project_after) ''a.py'' \<noteq> map_of [] ''a.py''"
  by code_simp

lemma only_decided_merges_are_applied_witness:
  "\<exists>m. (''a.py'', m) \<in> set (rp_file_results (fst two_tasks_run)) \<and> mr_success m \<and> mr_conflicts_remaining m = []"
proof -
  have "merge_tasks plain_orchestrator two_requests ''main'' 0 1 \<lparr>ot_store = history, ot_ai = None\<rparr>
      = (fst two_tasks_run, snd two_tasks_run)" by (simp add: two_tasks_run_def)
  moreover have "apply_to_project plain_orchestrator (\<lambda>_. True) (fst two_tasks_run) []
      = (fst project_after, snd project_after)" by (simp add: project_after_def)
  ultimately show ?thesis using only_decided_merges_are_applied [OF _ _ project_changed] by blast
qed

end
