(* ===== verification/Evolution_Props.thy ===== *)
theory Evolution_Props
  imports File_Evolution
begin

text \<open>What every operation of the tracker keeps of the history of the files.\<close>

definition wf_evolution :: "string \<Rightarrow> file_evolution \<Rightarrow> bool" where
  "wf_evolution p e \<longleftrightarrow> fe_file_path e = p \<and> distinct (map ts_task_id (fe_task_snapshots e)) \<and>
     sorted (map ts_started_at (fe_task_snapshots e))"

definition wf_store :: "evo_store \<Rightarrow> bool" where
  "wf_store s \<longleftrightarrow> distinct (map fst (es_evolutions s)) \<and> (\<forall>(p, e) \<in> set (es_evolutions s). wf_evolution p e)"

text \<open>The operations, as events.\<close>

datatype evo_event =
    Capture capture_env string "string list option" "string option" string
  | Modify record_env string string string string "string option"
  | Refresh record_env git_view string "string option" "string option"
  | Complete int string
  | Cleanup string bool

fun evo_step :: "evo_store \<Rightarrow> evo_event \<Rightarrow> evo_store" where
  "evo_step s (Capture env task_id files ls_files intent) = fst (capture_baselines env task_id files ls_files intent s)"
| "evo_step s (Modify env task_id file_path old_content new_content raw_diff) =
     snd (record_modification env task_id file_path old_content new_content raw_diff s)"
| "evo_step s (Refresh env g task_id target_branch work_ref) = refresh_from_git env g task_id target_branch work_ref s"
| "evo_step s (Complete now task_id) = mark_task_completed now task_id s"
| "evo_step s (Cleanup task_id remove_baselines) = cleanup_task task_id remove_baselines s"

section \<open>Each operation\<close>

lemma wf_add_snapshot: "wf_evolution p e \<Longrightarrow> wf_evolution p (add_task_snapshot t e)"
proof -
  assume wf: "wf_evolution p e"
  let ?xs = "filter (\<lambda>u. ts_task_id u \<noteq> ts_task_id t) (fe_task_snapshots e) @ [t]"
  have "distinct (map ts_task_id ?xs)" using wf by (auto simp: wf_evolution_def distinct_map_filter)
  then have "distinct (map ts_task_id (sort_key ts_started_at ?xs))"
    by (simp add: distinct_map)
  then show ?thesis using wf by (simp add: wf_evolution_def add_task_snapshot_def)
qed

lemma wf_evolution_at: "wf_store s \<Longrightarrow> map_of (es_evolutions s) p = Some e \<Longrightarrow> wf_evolution p e"
  by (auto simp: wf_store_def dest: map_of_SomeD)

lemma wf_store_update:
  assumes "wf_store s" "wf_evolution p e"
  shows "wf_store (s\<lparr>es_evolutions := AList.update p e (es_evolutions s)\<rparr>)"
proof -
  have "x \<in> set (AList.update p e d) \<Longrightarrow> x = (p, e) \<or> x \<in> set d" for x d
    by (induction d) (auto split: if_splits)
  then show ?thesis using assms by (fastforce simp: wf_store_def distinct_update)
qed

lemma wf_store_baselines [simp]: "wf_store (s\<lparr>es_baselines := b\<rparr>) = wf_store s"
  by (simp add: wf_store_def)

lemma wf_capture_one: "wf_store (fst q) \<Longrightarrow> wf_store (fst (capture_one env task_id intent f q))"
proof (cases "ce_read env f")
  case (Some content)
  assume wf: "wf_store (fst q)"
  let ?p = "ce_rel env f"
  let ?s = "(fst q)\<lparr>es_baselines := AList.update (baseline_path_of task_id ?p) content (es_baselines (fst q))\<rparr>"
  have s: "wf_store ?s" using wf by simp
  show ?thesis
  proof (cases "map_of (es_evolutions (fst q)) ?p")
    case None
    let ?e = "\<lparr>fe_file_path = ?p, fe_baseline_commit = ce_commit env, fe_baseline_captured_at = ce_now env,
      fe_baseline_content_hash = ce_hash env content, fe_baseline_snapshot_path = baseline_path_of task_id ?p,
      fe_task_snapshots = []\<rparr>"
    have "wf_evolution ?p ?e" by (simp add: wf_evolution_def)
    from wf_store_update [OF s wf_add_snapshot [OF this]] show ?thesis
      using Some None by (simp add: capture_one_def store_baseline_content_def Let_def)
  next
    case (Some e)
    then have "wf_evolution ?p e" using wf_evolution_at wf by blast
    then show ?thesis using Some \<open>ce_read env f = Some content\<close> wf_store_update [OF s wf_add_snapshot]
      by (simp add: capture_one_def store_baseline_content_def Let_def)
  qed
qed (simp add: capture_one_def)

lemma wf_capture: "wf_store s \<Longrightarrow> wf_store (fst (capture_baselines env task_id files ls_files intent s))"
proof -
  have "wf_store (fst q) \<Longrightarrow> wf_store (fst (fold (capture_one env task_id intent) fs q))" for fs q
    by (induction fs arbitrary: q) (simp_all add: wf_capture_one)
  from this [of "(s, [])"] show "wf_store s \<Longrightarrow> wf_store (fst (capture_baselines env task_id files ls_files intent s))"
    by (simp add: capture_baselines_def)
qed

lemma wf_record: "wf_store s \<Longrightarrow> wf_store (snd (record_modification env task_id f old new d s))"
proof (cases "map_of (es_evolutions s) (re_rel env f)")
  case (Some e)
  assume wf: "wf_store s"
  then have "wf_evolution (re_rel env f) e" using wf_evolution_at Some by blast
  then show ?thesis using Some wf_store_update [OF wf wf_add_snapshot] by (simp add: record_modification_def Let_def)
qed (simp add: record_modification_def)

lemma wf_refresh: "wf_store s \<Longrightarrow> wf_store (refresh_from_git env g task_id target_branch work_ref s)"
proof -
  have "wf_store s \<Longrightarrow> wf_store (refresh_files env g b task_id target head fs s)" for b target head fs s
  proof (induction fs arbitrary: s)
    case (Cons f fs)
    then show ?case by (cases "gv_diff g target head f") (simp_all add: wf_record Let_def)
  qed simp
  then show "wf_store s \<Longrightarrow> wf_store (refresh_from_git env g task_id target_branch work_ref s)"
    by (simp add: refresh_from_git_def Let_def split: option.split)
qed

lemma complete_first_maps:
  "map ts_task_id (complete_first now t ts) = map ts_task_id ts"
  "map ts_started_at (complete_first now t ts) = map ts_started_at ts"
  by (induction ts) simp_all

lemma wf_map_evolutions:
  assumes "wf_store s" "\<And>p e. wf_evolution p e \<Longrightarrow> wf_evolution p (f e)"
  shows "wf_store (map_evolutions f s)"
proof -
  have keys: "map fst (map (\<lambda>(p, e). (p, f e)) d) = map fst d" for d :: "(string \<times> file_evolution) list"
    by (induction d) auto
  have "\<forall>(p, e) \<in> set (es_evolutions (map_evolutions f s)). wf_evolution p e"
    using assms by (auto simp: wf_store_def map_evolutions_def)
  moreover have "es_evolutions (map_evolutions f s) = map (\<lambda>(p, e). (p, f e)) (es_evolutions s)"
    by (simp add: map_evolutions_def)
  then have "distinct (map fst (es_evolutions (map_evolutions f s)))"
    using assms(1) keys by (simp only: wf_store_def)
  ultimately show ?thesis by (simp add: wf_store_def)
qed

lemma wf_complete: "wf_store s \<Longrightarrow> wf_store (mark_task_completed now task_id s)"
  unfolding mark_task_completed_def
  by (rule wf_map_evolutions) (simp_all add: wf_evolution_def complete_first_maps)

lemma wf_drop_task: "wf_evolution p e \<Longrightarrow> wf_evolution p (drop_task t e)"
  by (simp add: wf_evolution_def drop_task_def distinct_map_filter sorted_filter)

lemma wf_cleanup: "wf_store s \<Longrightarrow> wf_store (cleanup_task task_id b s)"
proof -
  assume "wf_store s"
  then have wf: "wf_store (map_evolutions (drop_task task_id) s)" using wf_map_evolutions wf_drop_task by blast
  have "es_evolutions (cleanup_task task_id b s) =
      filter (\<lambda>(p, e). fe_task_snapshots e \<noteq> []) (es_evolutions (map_evolutions (drop_task task_id) s))"
    by (simp add: cleanup_task_def map_evolutions_def)
  then show ?thesis using wf by (simp add: wf_store_def distinct_map_filter)
qed

interpretation evolution: machine evo_step "\<lambda>_. True" wf_store
proof
  fix s and e :: evo_event
  assume "wf_store s"
  then show "wf_store (evo_step s e)"
    by (cases e) (simp_all add: wf_capture wf_record wf_refresh wf_complete wf_cleanup)
qed

definition no_evolutions :: evo_store where
  "no_evolutions = \<lparr>es_evolutions = [], es_baselines = []\<rparr>"

text \<open>C32: whatever tasks capture, record, refresh, complete and clean up, in any order: a file is tracked once and
  under its own path, a task has at most one snapshot of a file, and the snapshots of a file are in the order
  in which their tasks started.\<close>

theorem tracker_stays_well_formed:
  assumes "(p, e) \<in> set (es_evolutions (foldl evo_step no_evolutions events))"
  shows "map_of (es_evolutions (foldl evo_step no_evolutions events)) p = Some e \<and> fe_file_path e = p \<and>
    distinct (map ts_task_id (fe_task_snapshots e)) \<and> sorted (map ts_started_at (fe_task_snapshots e)) \<and>
    (\<forall>t \<in> set (fe_task_snapshots e). get_task_snapshot e (ts_task_id t) = Some t)"
proof -
  have "wf_store no_evolutions" by (simp add: wf_store_def no_evolutions_def)
  then have wf: "wf_store (foldl evo_step no_evolutions events)" by (rule evolution.run_inv) simp
  then have m: "map_of (es_evolutions (foldl evo_step no_evolutions events)) p = Some e"
    using assms by (simp add: wf_store_def)
  have e: "wf_evolution p e" by (rule wf_evolution_at [OF wf m])
  have "get_task_snapshot e (ts_task_id t) = Some t" if "t \<in> set (fe_task_snapshots e)" for t
  proof -
    have "find (\<lambda>s. ts_task_id s = ts_task_id t) ts = Some t"
      if "t \<in> set ts" "distinct (map ts_task_id ts)" for ts
      using that by (induction ts) (auto simp: image_iff)
    then show ?thesis using that e by (simp add: get_task_snapshot_def wf_evolution_def)
  qed
  then show ?thesis using m e by (simp add: wf_evolution_def)
qed

section \<open>The baseline\<close>

text \<open>
  Two tasks share the baseline that the first one captured. Cleaning the first task up deletes it, although the
  second is still at work.
\<close>

definition capture_of :: "string \<Rightarrow> capture_env" where
  "capture_of content = \<lparr>ce_rel = (\<lambda>p. p), ce_read = (\<lambda>_. Some content), ce_hash = (\<lambda>s. s), ce_commit = ''c'', ce_now = 0\<rparr>"

lemma shared_baseline_is_deleted:
  fixes s
  defines "s \<equiv> foldl evo_step no_evolutions
    [Capture (capture_of ''x'') ''t1'' (Some [''a.py'']) None [], Capture (capture_of ''x'') ''t2'' (Some [''a.py'']) None []]"
  shows "get_baseline_content (\<lambda>p. p) ''a.py'' s = Some ''x''"
    "get_baseline_content (\<lambda>p. p) ''a.py'' (cleanup_task ''t1'' True s) = None"
    "get_active_tasks (cleanup_task ''t1'' True s) = [''t2'']"
  unfolding s_def by code_simp+

definition tracker_events :: "evo_event list" where
  "tracker_events = [Capture (capture_of ''x'') ''t1'' (Some [''a.py'']) None [],
     Capture (capture_of ''x'') ''t2'' (Some [''a.py'']) None [], Complete 1 ''t1'', Cleanup ''t1'' False]"

lemma tracked: "es_evolutions (foldl evo_step no_evolutions tracker_events) = [(''a.py'',
    \<lparr>fe_file_path = ''a.py'', fe_baseline_commit = ''c'', fe_baseline_captured_at = 0, fe_baseline_content_hash = ''x'',
     fe_baseline_snapshot_path = ''baselines/t1/a_py.baseline'',
     fe_task_snapshots = [fresh_snapshot ''t2'' [] 0 ''x'']\<rparr>)]"
  by code_simp

lemma tracker_stays_well_formed_witness:
  "distinct (map ts_task_id (fe_task_snapshots (snd (hd (es_evolutions (foldl evo_step no_evolutions tracker_events))))))"
proof -
  have "(''a.py'', snd (hd (es_evolutions (foldl evo_step no_evolutions tracker_events))))
      \<in> set (es_evolutions (foldl evo_step no_evolutions tracker_events))" by (simp add: tracked)
  from tracker_stays_well_formed [OF this] show ?thesis by blast
qed

end
