(* ===== verification/Orch_Props.thy ===== *)
theory Orch_Props
  imports Merge_Exec_Props Evolution_Props
begin

text \<open>The report of a merge of several tasks, and the preview of it.\<close>

section \<open>The statistics\<close>

definition decided :: "merge_decision \<Rightarrow> merge_result list \<Rightarrow> int" where
  "decided d ms = int (length (filter (\<lambda>m. mr_decision m = d) ms))"

lemma stats_fold:
  defines "n \<equiv> \<lambda>f ms. (sum_list (map f ms) :: int)"
  shows "st_files_processed (fold update_stats ms s) = st_files_processed s + int (length ms)"
    "st_files_auto_merged (fold update_stats ms s) = st_files_auto_merged s + decided MD_AUTO_MERGED ms"
    "st_files_ai_merged (fold update_stats ms s) = st_files_ai_merged s + decided MD_AI_MERGED ms"
    "st_files_need_review (fold update_stats ms s) = st_files_need_review s + decided MD_NEEDS_HUMAN_REVIEW ms"
    "st_files_failed (fold update_stats ms s) = st_files_failed s + decided MD_FAILED ms"
    "st_conflicts_detected (fold update_stats ms s) = st_conflicts_detected s
      + n (\<lambda>m. int (length (mr_conflicts_resolved m)) + int (length (mr_conflicts_remaining m))) ms"
    "st_ai_calls_made (fold update_stats ms s) = st_ai_calls_made s + n mr_ai_calls_made ms"
    "st_estimated_tokens_used (fold update_stats ms s) = st_estimated_tokens_used s + n mr_tokens_used ms"
  by (induction ms arbitrary: s)
    (simp_all add: n_def decided_def update_stats_def Let_def split: merge_decision.split)

lemma update_new: "k \<notin> fst ` set d \<Longrightarrow> AList.update k v d = d @ [(k, v)]"
  by (induction d) auto

lemma merge_files_report:
  assumes "merge_files o1 tb fs r t = (r', t')"
    and "distinct (map fst fs)" "fst ` set fs \<inter> fst ` set (rp_file_results r) = {}"
    and "rp_stats r = fold update_stats (map snd (rp_file_results r)) no_stats" "rp_error r = None"
  shows "rp_stats r' = fold update_stats (map snd (rp_file_results r')) no_stats \<and>
    rp_success r' = (rp_error r' = None \<and> st_files_failed (rp_stats r') = 0) \<and>
    (rp_error r' = None \<longrightarrow> map fst (rp_file_results r') = map fst (rp_file_results r) @ map fst fs)"
  using assms
proof (induction o1 tb fs r t rule: merge_files.induct)
  case (2 o1 tb p ss rest r t)
  show ?case
  proof (cases "merge_one_file o1 p ss tb t")
    case (Inl e)
    then show ?thesis using 2 by auto
  next
    case (Inr mt)
    obtain m t1 where mt: "mt = (m, t1)" by fastforce
    have new: "rp_file_results (add_result p m r) = rp_file_results r @ [(p, m)]"
      using 2(4) by (simp add: add_result_def update_new)
    have stats: "rp_stats (add_result p m r) = fold update_stats (map snd (rp_file_results (add_result p m r))) no_stats"
      using 2(5) unfolding new by (simp add: add_result_def)
    have "merge_files o1 tb rest (add_result p m r) t1 = (r', t')" using 2(2) Inr mt by simp
    moreover have "fst ` set rest \<inter> fst ` set (rp_file_results (add_result p m r)) = {}"
      using 2(3,4) unfolding new by auto
    ultimately show ?thesis
      using 2(1) [OF Inr mt [symmetric]] 2(3,6) stats new by (simp add: add_result_def)
  qed
qed auto

lemma map_filter_keys:
  assumes "\<And>p x y. f (p, x) = Some y \<Longrightarrow> fst y = p"
  shows "subseq (map fst (List.map_filter f xs)) (map fst xs)"
proof (induction xs)
  case (Cons px xs)
  then show ?case using assms [of "fst px" "snd px"]
    by (cases "f px") (auto simp: List.map_filter_simps intro: list_emb_Cons)
qed (simp add: List.map_filter_simps)

lemma distinct_subseq: "subseq xs ys \<Longrightarrow> distinct ys \<Longrightarrow> distinct xs"
  by (induction rule: list_emb.induct) (auto dest: list_emb_set)

lemma files_to_merge_keys: "subseq (map fst (files_to_merge o1 ids s)) (map fst (es_evolutions s))"
proof -
  let ?m = "get_files_modified_by_tasks ids s"
  have "subseq (map fst (files_to_merge o1 ids s)) (map fst ?m)"
    unfolding files_to_merge_def by (rule map_filter_keys) (auto simp: Let_def split: option.splits if_splits)
  moreover have "subseq (map fst ?m) (map fst (map (\<lambda>(p, e). (p, modifying_tasks ids e)) (es_evolutions s)))"
    unfolding get_files_modified_by_tasks_def by (intro subseq_map subseq_filter_left)
  moreover have "map fst (map (\<lambda>(p, e). (p, modifying_tasks ids e)) d) = map fst d"
    for d :: "(string \<times> file_evolution) list" by (induction d) auto
  ultimately show ?thesis by (simp del: map_map)
qed

lemma refresh_requests_wf: "wf_store (ot_store t) \<Longrightarrow> wf_store (ot_store (fold (refresh_request o1 tb) qs t))"
proof (induction qs arbitrary: t)
  case (Cons q qs)
  have "wf_store (ot_store (refresh_request o1 tb q t))"
    using Cons.prems by (simp add: refresh_request_def refresh_def wf_refresh split: option.split)
  then show ?case using Cons.IH by simp
qed simp

text \<open>The report of a merge adds up. Its statistics are those of the files it lists: as many files as were
  processed, each counted under its decision, with the conflicts, calls and tokens of their results; it is a
  success exactly when no exception ended it and no file failed; and without an exception it lists exactly the
  files that the tasks modified. Files that need review do not prevent a success.\<close>

theorem report_adds_up:
  assumes "wf_store (ot_store t)" "merge_tasks o1 requests target_branch start now t = (r, t')"
  shows "st_files_processed (rp_stats r) = int (length (rp_file_results r)) \<and>
    st_files_processed (rp_stats r) = st_files_auto_merged (rp_stats r) + st_files_ai_merged (rp_stats r)
      + st_files_need_review (rp_stats r) + st_files_failed (rp_stats r) \<and>
    (\<forall>f d. (f, d) \<in> {(st_files_auto_merged, MD_AUTO_MERGED), (st_files_ai_merged, MD_AI_MERGED),
        (st_files_need_review, MD_NEEDS_HUMAN_REVIEW), (st_files_failed, MD_FAILED)} \<longrightarrow>
       f (rp_stats r) = int (length (filter (\<lambda>m. mr_decision m = d) (map snd (rp_file_results r))))) \<and>
    st_conflicts_detected (rp_stats r)
      = (\<Sum>(p, m) \<leftarrow> rp_file_results r. int (length (mr_conflicts_resolved m)) + int (length (mr_conflicts_remaining m))) \<and>
    st_ai_calls_made (rp_stats r) = (\<Sum>(p, m) \<leftarrow> rp_file_results r. mr_ai_calls_made m) \<and>
    (rp_success r \<longleftrightarrow> rp_error r = None \<and> (\<forall>(p, m) \<in> set (rp_file_results r). mr_decision m \<noteq> MD_FAILED)) \<and>
    (rp_error r = None \<longrightarrow>
       map fst (rp_file_results r) = map fst (files_to_merge o1 (map rq_task_id requests) (ot_store t')))"
proof -
  define ms where "ms = map snd (rp_file_results r)"
  define st where "st = rp_stats r"
  let ?sorted = "sort_key (\<lambda>q. - rq_priority q) requests"
  let ?t1 = "fold (refresh_request o1 target_branch) ?sorted t"
  let ?files = "files_to_merge o1 (map rq_task_id ?sorted) (ot_store ?t1)"
  let ?new = "new_report start (map rq_task_id requests)"
  obtain r1 where r1: "merge_files o1 target_branch ?files ?new ?t1 = (r1, t')" "r = finish_report now r1"
    using assms(2) by (auto simp: merge_tasks_def Let_def split: prod.splits)
  have "distinct (map fst (es_evolutions (ot_store ?t1)))"
    using refresh_requests_wf [OF assms(1)] by (simp add: wf_store_def)
  then have dist: "distinct (map fst ?files)" using files_to_merge_keys distinct_subseq by blast
  have all: "rp_stats r1 = fold update_stats (map snd (rp_file_results r1)) no_stats \<and>
    rp_success r1 = (rp_error r1 = None \<and> st_files_failed (rp_stats r1) = 0) \<and>
    (rp_error r1 = None \<longrightarrow> map fst (rp_file_results r1) = map fst (rp_file_results ?new) @ map fst ?files)"
    by (rule merge_files_report [OF r1(1) dist]) (simp_all add: new_report_def)
  have ms: "ms = map snd (rp_file_results r1)" by (simp add: ms_def r1(2) finish_report_def)
  have st: "f st = f (fold update_stats ms no_stats)" if "\<And>s d. f (s\<lparr>st_duration := d\<rparr>) = f s" for f :: "merge_stats \<Rightarrow> int"
    using all that by (simp add: st_def r1(2) finish_report_def ms)
  have none: "decided MD_FAILED ms = 0 \<longleftrightarrow> (\<forall>m \<in> set ms. mr_decision m \<noteq> MD_FAILED)"
    by (auto simp: decided_def filter_empty_conv)
  have parts: "int (length ms) = decided MD_AUTO_MERGED ms + decided MD_AI_MERGED ms
      + decided MD_NEEDS_HUMAN_REVIEW ms + decided MD_FAILED ms" for ms
  proof (induction ms)
    case (Cons m ms) then show ?case by (cases "mr_decision m") (simp_all add: decided_def)
  qed (simp add: decided_def)
  have files: "?files = files_to_merge o1 (map rq_task_id requests) (ot_store t')"
    using merge_files_results(1) [OF r1(1)] files_to_merge_cong [of "map rq_task_id ?sorted" "map rq_task_id requests"]
    by simp
  have "rp_success r \<longleftrightarrow> rp_error r = None \<and> decided MD_FAILED ms = 0"
    using all stats_fold(5) [of ms no_stats] by (simp add: r1(2) finish_report_def ms no_stats_def)
  moreover have "rp_error r = None \<longrightarrow> map fst (rp_file_results r) = map fst ?files"
    using all by (simp add: r1(2) finish_report_def new_report_def)
  moreover have "(\<forall>m \<in> set ms. mr_decision m \<noteq> MD_FAILED)
      \<longleftrightarrow> (\<forall>(p, m) \<in> set (rp_file_results r). mr_decision m \<noteq> MD_FAILED)" by (auto simp: ms_def)
  moreover have "(\<Sum>m \<leftarrow> ms. f m) = (\<Sum>(p, m) \<leftarrow> rp_file_results r. f m)" for f :: "merge_result \<Rightarrow> int"
    by (simp add: ms_def comp_def case_prod_unfold)
  moreover have "length ms = length (rp_file_results r)" by (simp add: ms_def)
  ultimately show ?thesis
    using parts [of ms] none stats_fold [of ms no_stats] files
    unfolding st_def [symmetric] ms_def [symmetric] by (simp add: st decided_def no_stats_def)
qed

section \<open>The preview\<close>

lemma fold_update_map:
  assumes "distinct (map k xs)"
  shows "fold (\<lambda>x. AList.update (k x) (g x)) xs [] = map (\<lambda>x. (k x, g x)) xs"
proof -
  have "distinct (map k xs) \<Longrightarrow> k ` set xs \<inter> fst ` set d = {} \<Longrightarrow>
      fold (\<lambda>x. AList.update (k x) (g x)) xs d = d @ map (\<lambda>x. (k x, g x)) xs" for d
  proof (induction xs arbitrary: d)
    case (Cons x xs)
    then have "AList.update (k x) (g x) d = d @ [(k x, g x)]" by (intro update_new) auto
    then show ?case using Cons by auto
  qed simp
  from this [of "[]"] assms show ?thesis by simp
qed

lemma count_change_same: "fa_changes (count_change c a) = fa_changes a" "fa_file_path (count_change c a) = fa_file_path a"
  by (auto simp: count_change_def Let_def split: change_type.split)

lemma snapshot_analysis_same:
  "fa_changes (snapshot_analysis p s) = ts_semantic_changes s" "fa_file_path (snapshot_analysis p s) = p"
proof -
  have "fa_changes (fold count_change cs a) = fa_changes a \<and> fa_file_path (fold count_change cs a) = fa_file_path a" for cs a
    by (induction cs arbitrary: a) (simp_all add: count_change_same)
  then show "fa_changes (snapshot_analysis p s) = ts_semantic_changes s" "fa_file_path (snapshot_analysis p s) = p"
    by (simp_all add: snapshot_analysis_def empty_analysis_def)
qed

text \<open>The detector looks at the changes and at the path only, so that analyses without changes do not matter.\<close>

lemma detect_same:
  assumes "length (filter P xs) \<ge> 2" "\<forall>x \<in> set xs. \<not> P x \<longrightarrow> changes x = []"
    and "\<forall>x. fa_changes (f x) = changes x \<and> fa_file_path (f x) = p"
    and "\<forall>x. fa_changes (g x) = changes x \<and> fa_file_path (g x) = p"
  shows "detect_conflicts (map (\<lambda>x. (k x, f x)) xs) idx = detect_conflicts (map (\<lambda>x. (k x, g x)) (filter P xs)) idx"
proof -
  have "length (filter P xs) \<le> length xs" by simp
  then have len: "length xs \<ge> 2" using assms(1) by linarith
  have "task_changes_of (map (\<lambda>x. (k x, f x)) xs) = task_changes_of (map (\<lambda>x. (k x, g x)) (filter P xs))"
    using assms(2) by (induction xs) (simp_all add: task_changes_of_def assms(3,4))
  moreover have "fa_file_path (snd (hd (map (\<lambda>x. (k x, f x)) xs))) = p" using len assms(3) by (cases xs) auto
  moreover have "fa_file_path (snd (hd (map (\<lambda>x. (k x, g x)) (filter P xs)))) = p"
    using assms(1,4) by (cases "filter P xs") auto
  ultimately show ?thesis using len assms(1)
    by (simp add: detect_conflicts_def detect_implicit_conflicts_def cong: if_cong)
qed

lemma snapshots_of_tasks:
  assumes "distinct (map ts_task_id ts)" "fe_task_snapshots e = ts"
  shows "List.map_filter (get_task_snapshot e) (map ts_task_id (filter P ts)) = filter P ts"
proof -
  have find: "find (\<lambda>s. ts_task_id s = ts_task_id t) us = Some t" if "t \<in> set us" "distinct (map ts_task_id us)" for t us
    using that by (induction us) (auto simp: image_iff)
  have "List.map_filter (get_task_snapshot e) (map ts_task_id xs) = xs" if "set xs \<subseteq> set ts" for xs
    using that by (induction xs) (simp_all add: List.map_filter_simps get_task_snapshot_def assms find)
  then show ?thesis by simp
qed

text \<open>The preview shows what the merge will decide: the files with potential conflicts are those that the merge
  gets from two tasks or more, and for each of them the preview lists exactly the conflicts that the merge will
  detect.\<close>

theorem preview_agrees_with_merge:
  assumes "wf_store s" and "\<forall>q \<in> fst ` set (es_evolutions s). oc_rel o1 q = q"
    and "(p, snapshots) \<in> set (files_to_merge o1 task_ids s)"
  shows "(p \<in> set (get_conflicting_files task_ids s) \<longleftrightarrow> length snapshots \<ge> 2) \<and>
    (length snapshots \<ge> 2 \<longrightarrow> conflicts_in o1 task_ids s p
       = detect_conflicts (build_task_analyses p snapshots) (pl_rules (oc_pipeline o1)))"
proof -
  let ?P = "\<lambda>t. ts_task_id t \<in> set task_ids \<and> ts_semantic_changes t \<noteq> []"
  obtain tasks e where te: "(p, tasks) \<in> set (get_files_modified_by_tasks task_ids s)"
    "get_file_evolution (oc_rel o1) p s = Some e" "snapshots = List.map_filter (get_task_snapshot e) tasks"
    using assms(3) by (auto simp: files_to_merge_def List.map_filter_def Let_def split: option.splits if_splits)
  then obtain e' where e': "(p, e') \<in> set (es_evolutions s)" "tasks = modifying_tasks task_ids e'"
    by (auto simp: get_files_modified_by_tasks_def)
  have rel: "oc_rel o1 p = p" using assms(2) e'(1) by force
  have "map_of (es_evolutions s) p = Some e'" using assms(1) e'(1) by (simp add: wf_store_def)
  then have e: "e' = e" using te(2) rel by (simp add: get_file_evolution_def)
  have dist: "distinct (map ts_task_id (fe_task_snapshots e))"
    using assms(1) e'(1) e by (auto simp: wf_store_def wf_evolution_def)
  have snaps: "snapshots = filter ?P (fe_task_snapshots e)"
    using te(3) snapshots_of_tasks [OF dist refl] by (simp add: e' e modifying_tasks_def)
  have tasks: "length tasks = length snapshots" by (simp add: e' e modifying_tasks_def snaps)
  have unique: "ts' = tasks" if "(p, ts') \<in> set (get_files_modified_by_tasks task_ids s)" for ts'
    using that e' assms(1) by (auto simp: get_files_modified_by_tasks_def wf_store_def dest: eq_key_imp_eq_value)
  have conf: "p \<in> set (get_conflicting_files task_ids s) \<longleftrightarrow> length snapshots \<ge> 2"
  proof -
    have "p \<in> set (get_conflicting_files task_ids s) \<longleftrightarrow>
        (\<exists>ts'. (p, ts') \<in> set (get_files_modified_by_tasks task_ids s) \<and> length ts' > 1)"
      by (force simp: get_conflicting_files_def)
    also have "\<dots> \<longleftrightarrow> length tasks > 1" using unique te(1) by blast
    finally show ?thesis using tasks by linarith
  qed
  have "conflicts_in o1 task_ids s p = detect_conflicts (build_task_analyses p snapshots) (pl_rules (oc_pipeline o1))"
    if two: "length snapshots \<ge> 2"
  proof -
    let ?xs = "filter (\<lambda>t. ts_task_id t \<in> set task_ids) (fe_task_snapshots e)"
    have f: "filter (\<lambda>t. ts_semantic_changes t \<noteq> []) ?xs = snapshots" by (simp add: snaps conj_commute)
    have "distinct (map ts_task_id ?xs)" using dist by (rule distinct_map_filter)
    then have a: "analyses_for p task_ids e = map (\<lambda>t. (ts_task_id t, empty_analysis p (ts_semantic_changes t))) ?xs"
      unfolding analyses_for_def by (rule fold_update_map)
    have "distinct (map ts_task_id snapshots)" unfolding snaps using dist by (rule distinct_map_filter)
    then have b: "build_task_analyses p snapshots = map (\<lambda>t. (ts_task_id t, snapshot_analysis p t)) snapshots"
      unfolding build_task_analyses_def by (rule fold_update_map)
    have "detect_conflicts (map (\<lambda>t. (ts_task_id t, empty_analysis p (ts_semantic_changes t))) ?xs) idx
      = detect_conflicts (map (\<lambda>t. (ts_task_id t, snapshot_analysis p t))
          (filter (\<lambda>t. ts_semantic_changes t \<noteq> []) ?xs)) idx" for idx
      by (rule detect_same [where changes = ts_semantic_changes and p = p])
        (simp only: f two, simp_all add: snapshot_analysis_same empty_analysis_def)
    then show ?thesis using te(2) a b f by (simp add: conflicts_in_def)
  qed
  then show ?thesis using conf by blast
qed

section \<open>At concrete inputs\<close>

lemma history_wf: "wf_store history"
  by (simp add: wf_store_def wf_evolution_def history_def snapshot_def)

lemma report_adds_up_witness:
  "st_files_processed (rp_stats (fst two_tasks_run)) = int (length (rp_file_results (fst two_tasks_run)))"
proof -
  have "wf_store (ot_store \<lparr>ot_store = history, ot_ai = None\<rparr>)" by (simp add: history_wf)
  moreover have "merge_tasks plain_orchestrator two_requests ''main'' 0 1 \<lparr>ot_store = history, ot_ai = None\<rparr>
      = (fst two_tasks_run, snd two_tasks_run)" by (simp add: two_tasks_run_def)
  ultimately show ?thesis by (rule report_adds_up [THEN conjunct1])
qed

lemma history_files: "files_to_merge plain_orchestrator [''t1'', ''t2''] history
    = [(''a.py'', [snapshot ''t1'' [import_os], snapshot ''t2'' [import_os]])]"
  by code_simp

lemma preview_agrees_with_merge_witness:
  "conflicts_in plain_orchestrator [''t1'', ''t2''] history ''a.py''
     = detect_conflicts (build_task_analyses ''a.py'' [snapshot ''t1'' [import_os], snapshot ''t2'' [import_os]])
         (pl_rules (oc_pipeline plain_orchestrator))"
proof -
  have "\<forall>q \<in> fst ` set (es_evolutions history). oc_rel plain_orchestrator q = q"
    by (simp add: plain_orchestrator_def)
  moreover have "(''a.py'', [snapshot ''t1'' [import_os], snapshot ''t2'' [import_os]])
      \<in> set (files_to_merge plain_orchestrator [''t1'', ''t2''] history)" by (simp add: history_files)
  ultimately show ?thesis using preview_agrees_with_merge [OF history_wf] by simp
qed

end
