(* ===== verification/Merge_Gaps.thy ===== *)
theory Merge_Gaps
  imports Merge_Exec_Props Merge_Text_Props
begin

text \<open>What the merge does not do: concrete runs in which a change is lost although the merge reports a success.\<close>

text \<open>The values of the change types are in lower case, so that no change is a modification.\<close>

lemma modifications_not_recognised: "group_of c \<noteq> Modification_Group"
proof -
  have "\<not> py_in ''MODIFY'' (ct_value t)" for t by (cases t) simp_all
  then show ?thesis by (simp add: group_of_def)
qed

text \<open>A class that one task adds is not written, and neither is a deletion.\<close>

lemma added_class_is_lost:
  "apply_single_task_changes ''x = 1'' (snapshot ''t'' [change ADD_CLASS ''A'' ''class:A'' None (Some ''class A: pass'')])
     ''a.py'' = ''x = 1''"
  "apply_single_task_changes ''x = 1'' (snapshot ''t'' [change REMOVE_VARIABLE ''x'' ''variable:x'' (Some ''x = 1'') None])
     ''a.py'' = ''x = 1''"
  by code_simp+

text \<open>Both tasks add a function: it is appended for each of them, and for each such conflict again.\<close>

definition content_of :: "py_error + merge_result \<times> ai_resolver option \<Rightarrow> (merge_decision \<times> string option) option" where
  "content_of r = (case r of Inl e \<Rightarrow> None | Inr (m, ai) \<Rightarrow> Some (mr_decision m, mr_merged_content m))"

definition add_function :: "string \<Rightarrow> string \<Rightarrow> semantic_change" where
  "add_function name code = change ADD_FUNCTION name (''function:'' @ name) None (Some code)"

lemma functions_appended_twice:
  "content_of (merge_file (plain_pipeline False) ''a.py'' ''x''
      [snapshot ''t1'' [add_function ''f'' ''F''], snapshot ''t2'' [add_function ''f'' ''F'']] None)
   = Some (MD_AUTO_MERGED, Some (''x'' @ [LF, LF] @ ''F'' @ [LF, LF] @ ''F''))"
  "content_of (merge_file (plain_pipeline False) ''a.py'' ''x''
      [snapshot ''t1'' [add_function ''f'' ''F'', add_function ''g'' ''G''],
       snapshot ''t2'' [add_function ''f'' ''F'', add_function ''g'' ''G'']] None)
   = Some (MD_AUTO_MERGED, Some (''x'' @ concat (replicate 2 (concat (map (\<lambda>c. [LF, LF, c]) ''FGFG'')))))"
  by code_simp+

text \<open>Once one place of the file conflicts, the changes at the other places are not applied.\<close>

lemma other_changes_are_dropped:
  "content_of (merge_file (plain_pipeline False) ''a.py'' ''g = 1''
      [snapshot ''t1'' [import_os, change MODIFY_VARIABLE ''g'' ''variable:g'' (Some ''g = 1'') (Some ''g = 2'')],
       snapshot ''t2'' [import_os]] None)
   = Some (MD_AUTO_MERGED, Some (''import os'' @ [LF] @ ''g = 1''))"
  by code_simp

text \<open>The expressions of a region are those of JavaScript: what the model merges for Python is not written.\<close>

definition modify_f :: "int \<Rightarrow> semantic_change" where
  "modify_f line = (change MODIFY_FUNCTION ''f'' ''function:f'' (Some ''def f(): 1'') (Some ''def f(): 2''))
     \<lparr>sc_line_start := line, sc_line_end := line\<rparr>"

definition answering :: "string \<Rightarrow> ai_resolver" where
  "answering s = new_resolver (Some (\<lambda>_ _ _. Inr s)) MAX_CONTEXT_TOKENS"

lemma python_merge_is_not_written:
  "content_of (merge_file (plain_pipeline True) ''a.py'' ''def f(): 1''
      [snapshot ''t1'' [modify_f 1], snapshot ''t2'' [modify_f 3]]
      (Some (answering (''```python'' @ [LF] @ ''def f(): 2'' @ [LF] @ ''```''))))
   = Some (MD_AI_MERGED, Some ''def f(): 1'')"
  by code_simp

text \<open>The second function is written after the export, as the first has two lines.\<close>

lemma function_after_export:
  "mr_merged_content (append_functions_strategy
     \<lparr>mc_file_path = ''a.js'', mc_baseline_content = ''a'' @ [LF] @ ''module.exports = f'',
      mc_task_snapshots = [snapshot ''t'' [add_function ''f'' (''f1'' @ [LF] @ ''f2''), add_function ''g'' ''g1'']],
      mc_conflict = undefined\<rparr>)
   = Some (join_lines [''a'', [], ''f1'', ''f2'', ''module.exports = f'', [], ''g1''])"
  by code_simp

lemma wrapper_is_not_closed:
  "wrap_function_return ''return (<A></A>)'' ''f'' ''P'' [] = ''return (<P>'' @ [LF] @ ''      <A></A>)''"
  by code_simp

text \<open>A worktree is found by a part of its name.\<close>

lemma worktree_of_another_task:
  "find_worktree [''task-10'', ''task-1''] [] ''task-1'' = Some ''.aifactory/worktrees/tasks/task-10''"
  by code_simp

text \<open>Two files have one baseline file.\<close>

lemma baselines_collide: "baseline_path_of t ''a/b.py'' = baseline_path_of t ''a_b.py''"
  by (simp add: baseline_path_of_def sanitize_path_for_storage_def py_replace_char_def)

end
