(* ===== verification/Semantic_Analysis.thy ===== *)
theory Semantic_Analysis
  imports File_Merger
begin

text \<open>
  \<open>merge/semantic_analyzer.py\<close> and \<open>merge/semantic_analysis/\<close>: the elements of a syntax tree, their comparison, and
  the fallback that reads a diff with regular expressions. The parsers of tree-sitter and \<open>difflib.unified_diff\<close>
  are arguments, and so is the order in which Python runs through a set.
\<close>

section \<open>Syntax trees and elements\<close>

text \<open>A node of tree-sitter: its type, the field of its parent that it fills, its span and its children.\<close>

datatype node = Node (nd_type: string) (nd_field: "string option") (nd_start: nat) (nd_end: nat) (nd_children: "node list")

record element =
  el_type :: string
  el_name :: string
  el_start :: int
  el_end :: int
  el_content :: string
  el_parent :: "string option"

type_synonym elements = "(string \<times> element) list"

definition child_by_field_name :: "string \<Rightarrow> node \<Rightarrow> node option" where
  "child_by_field_name f n = find (\<lambda>c. nd_field c = Some f) (nd_children n)"

text \<open>The text of a node and the line of a position.\<close>

definition get_text :: "string \<Rightarrow> node \<Rightarrow> string" where
  "get_text source n = sub_str source (nd_start n) (nd_end n)"

definition get_line :: "string \<Rightarrow> nat \<Rightarrow> int" where
  "get_line source pos = int (length (filter (\<lambda>c. c = LF) (take pos source))) + 1"

definition new_element :: "string \<Rightarrow> string \<Rightarrow> string \<Rightarrow> node \<Rightarrow> string option \<Rightarrow> element" where
  "new_element source ty name n parent =
     \<lparr>el_type = ty, el_name = name, el_start = get_line source (nd_start n), el_end = get_line source (nd_end n),
      el_content = get_text source n, el_parent = parent\<rparr>"

definition key_of :: "string \<Rightarrow> string \<Rightarrow> string" where
  "key_of ty name = ty @ '':'' @ name"

definition put_element :: "string \<Rightarrow> string \<Rightarrow> string \<Rightarrow> node \<Rightarrow> string option \<Rightarrow> elements \<Rightarrow> elements" where
  "put_element source ty name n parent els =
     AList.update (key_of ty name) (new_element source ty name n parent) els"

definition full_name :: "string option \<Rightarrow> string \<Rightarrow> string" where
  "full_name parent name = (if truthy_str parent then the parent @ ''.'' @ name else name)"

lemma node_kids_size [simp]: "size_list size (nd_children n) < size n"
  by (cases n) simp

lemma child_size: "child_by_field_name f n = Some c \<Longrightarrow> size_list size (nd_children c) < size n"
proof -
  assume "child_by_field_name f n = Some c"
  then have "c \<in> set (nd_children n)" by (auto simp: child_by_field_name_def find_Some_iff)
  then have "size c \<le> size_list size (nd_children n)" by (simp add: size_list_estimation')
  then show ?thesis using node_kids_size [of c] node_kids_size [of n] by linarith
qed

lemma children_less [simp]: "size_list size (nd_children n) < Suc (size n + k)"
  using node_kids_size [of n] by linarith

lemma child_less: "child_by_field_name f n = Some c \<Longrightarrow> size_list size (nd_children c) < Suc (size n + k)"
  using child_size by fastforce

text \<open>An element named by its field \<open>name\<close>, and what a class holds.\<close>

definition add_named :: "string \<Rightarrow> string \<Rightarrow> (string \<Rightarrow> string) \<Rightarrow> string option \<Rightarrow> node \<Rightarrow> elements \<Rightarrow> elements" where
  "add_named source ty rename parent n els =
     (case child_by_field_name ''name'' n of
        None \<Rightarrow> els | Some m \<Rightarrow> put_element source ty (rename (get_text source m)) n parent els)"

definition add_class :: "string \<Rightarrow> node \<Rightarrow> elements \<Rightarrow> elements" where
  "add_class source n els = add_named source ''class'' (\<lambda>s. s) None n els"

definition class_body :: "node \<Rightarrow> node option" where
  "class_body n = (if child_by_field_name ''name'' n = None then None else child_by_field_name ''body'' n)"

definition class_name :: "string \<Rightarrow> node \<Rightarrow> string option" where
  "class_name source n = map_option (get_text source) (child_by_field_name ''name'' n)"

section \<open>Python\<close>

definition python_compound :: "string list" where
  "python_compound = [''if_statement'', ''while_statement'', ''for_statement'', ''try_statement'', ''with_statement'']"

definition add_imported :: "string \<Rightarrow> node \<Rightarrow> elements \<Rightarrow> elements" where
  "add_imported source n els =
     fold (\<lambda>c els. if nd_type c = ''dotted_name'' then put_element source ''import'' (get_text source c) n None els else els)
       (nd_children n) els"

definition from_module :: "string \<Rightarrow> node \<Rightarrow> string option" where
  "from_module source n = map_option (get_text source) (find (\<lambda>c. nd_type c = ''dotted_name'') (nd_children n))"

definition python_declaration :: "string \<Rightarrow> string option \<Rightarrow> node \<Rightarrow> elements \<Rightarrow> elements" where
  "python_declaration source parent n els =
     (if nd_type n = ''import_statement'' then add_imported source n els
      else if nd_type n = ''import_from_statement''
      then (if truthy_str (from_module source n)
            then put_element source ''import_from'' (the (from_module source n)) n None els else els)
      else if nd_type n = ''function_definition'' then add_named source ''function'' (full_name parent) parent n els
      else els)"

definition python_nested :: "node \<Rightarrow> bool" where
  "python_nested n =
     (if nd_type n = ''decorated_definition''
      then list_ex (\<lambda>c. nd_type c \<in> set [''function_definition'', ''class_definition'']) (nd_children n)
      else nd_type n \<in> set python_compound)"

function extract_python :: "string \<Rightarrow> string option \<Rightarrow> node list \<Rightarrow> elements \<Rightarrow> elements" where
  "extract_python source parent [] els = els"
| "extract_python source parent (n # ns) els = extract_python source parent ns
     (if nd_type n = ''class_definition''
      then (case class_body n of
              None \<Rightarrow> add_class source n els
            | Some b \<Rightarrow> extract_python source (class_name source n) (nd_children b) (add_class source n els))
      else if python_nested n then extract_python source parent (nd_children n) els
      else python_declaration source parent n els)"
  by pat_completeness auto

termination
  by (relation "measure (\<lambda>(source, parent, ns, els). size_list size ns)")
    (auto intro: child_less simp: class_body_def split: if_splits)

section \<open>JavaScript and TypeScript\<close>

definition strip_quotes :: "string \<Rightarrow> string" where
  "strip_quotes s = (let q = (\<lambda>c. c = CHR 0x22 \<or> c = CHR 0x27) in rev (dropWhile q (rev (dropWhile q s))))"

definition add_declarator :: "string \<Rightarrow> string option \<Rightarrow> node \<Rightarrow> node \<Rightarrow> elements \<Rightarrow> elements" where
  "add_declarator source parent n d els =
     (if nd_type d = ''variable_declarator''
      then (case child_by_field_name ''name'' d of
              None \<Rightarrow> els
            | Some m \<Rightarrow>
                (let is_function = (case child_by_field_name ''value'' d of
                       None \<Rightarrow> False | Some v \<Rightarrow> nd_type v = ''arrow_function'' \<or> nd_type v = ''function'')
                 in put_element source (if is_function then ''function'' else ''variable'') (get_text source m) n parent els))
      else els)"

text \<open>The declarations that hold no other elements; the types of the nodes are different from each other.\<close>

definition js_declaration :: "string \<Rightarrow> string option \<Rightarrow> node \<Rightarrow> elements \<Rightarrow> elements" where
  "js_declaration source parent n els =
     (if nd_type n = ''import_statement''
      then (case child_by_field_name ''source'' n of
              None \<Rightarrow> els | Some m \<Rightarrow> put_element source ''import'' (strip_quotes (get_text source m)) n None els)
      else if nd_type n = ''function_declaration'' \<or> nd_type n = ''function''
      then add_named source ''function'' (full_name parent) parent n els
      else if nd_type n = ''lexical_declaration'' \<or> nd_type n = ''variable_declaration''
      then fold (add_declarator source parent n) (nd_children n) els
      else if nd_type n = ''method_definition'' then add_named source ''method'' (full_name parent) parent n els
      else if nd_type n = ''interface_declaration'' \<or> nd_type n = ''type_alias_declaration''
      then add_named source (if py_in ''interface'' (nd_type n) then ''interface'' else ''type'') (\<lambda>s. s) None n els
      else els)"

definition js_nested :: "string list" where
  "js_nested = [''export_statement'', ''program'', ''statement_block'', ''class_body'']"

function extract_js :: "string \<Rightarrow> string option \<Rightarrow> node list \<Rightarrow> elements \<Rightarrow> elements" where
  "extract_js source parent [] els = els"
| "extract_js source parent (n # ns) els = extract_js source parent ns
     (if nd_type n = ''class_declaration''
      then (case class_body n of
              None \<Rightarrow> add_class source n els
            | Some b \<Rightarrow> extract_js source (class_name source n) (nd_children b) (add_class source n els))
      else if nd_type n \<in> set js_nested then extract_js source parent (nd_children n) els
      else js_declaration source parent n els)"
  by pat_completeness auto

termination
  by (relation "measure (\<lambda>(source, parent, ns, els). size_list size ns)")
    (auto intro: child_less simp: class_body_def split: if_splits)

section \<open>Comparison\<close>

fun get_add_change_type :: "string \<Rightarrow> change_type" where
  "get_add_change_type t =
     (if t = ''import'' \<or> t = ''import_from'' then ADD_IMPORT else if t = ''function'' then ADD_FUNCTION
      else if t = ''class'' then ADD_CLASS else if t = ''method'' then ADD_METHOD
      else if t = ''variable'' then ADD_VARIABLE else if t = ''interface'' then ADD_INTERFACE
      else if t = ''type'' then ADD_TYPE else UNKNOWN)"

fun get_remove_change_type :: "string \<Rightarrow> change_type" where
  "get_remove_change_type t =
     (if t = ''import'' \<or> t = ''import_from'' then REMOVE_IMPORT else if t = ''function'' then REMOVE_FUNCTION
      else if t = ''class'' then REMOVE_CLASS else if t = ''method'' then REMOVE_METHOD
      else if t = ''variable'' then REMOVE_VARIABLE else UNKNOWN)"

definition get_location :: "element \<Rightarrow> string" where
  "get_location e =
     (if truthy_str (el_parent e)
      then el_type e @ '':'' @ the (el_parent e) @ ''.'' @ after_last (CHR ''.'') (el_name e)
      else el_type e @ '':'' @ el_name e)"

definition upperc :: rx where "upperc = Chr (\<lambda>c. let n = (of_char c :: nat) in 65 \<le> n \<and> n \<le> 90)"

definition use_rx :: rx where
  "use_rx = seqs [Word_Boundary, lit ''use'', upperc, Star wordc, Star spacec, ch (CHR ''('')]"

definition jsx_rx :: rx where
  "jsx_rx = seqs [ch (CHR ''<''), upperc, Star wordc]"

definition attr_rx :: rx where
  "attr_rx = Alt (seqs [lit ''={'', Star (none_of ''}''), ch (CHR ''}'')])
     (seqs [ch (CHR ''=''), ch (CHR 0x22), Star (none_of [CHR 0x22]), ch (CHR 0x22)])"

definition found :: "rx \<Rightarrow> string \<Rightarrow> string list" where
  "found r s = map (\<lambda>m. sub_str s (fst m) (fst (snd m))) (re_finditer r s)"

definition classify_function_modification :: "string \<Rightarrow> string \<Rightarrow> string \<Rightarrow> change_type" where
  "classify_function_modification old new ext =
     (if \<not> set (found use_rx new) \<subseteq> set (found use_rx old) then ADD_HOOK_CALL
      else if \<not> set (found use_rx old) \<subseteq> set (found use_rx new) then REMOVE_HOOK_CALL
      else if length (found jsx_rx new) > length (found jsx_rx old) then WRAP_JSX
      else if length (found jsx_rx new) < length (found jsx_rx old) then UNWRAP_JSX
      else if ext \<in> set [''.jsx'', ''.tsx'']
              \<and> re_sub attr_rx (\<lambda>_. ''=...'') old = re_sub attr_rx (\<lambda>_. ''=...'') new then MODIFY_JSX_PROPS
      else MODIFY_FUNCTION)"

definition classify_modification :: "element \<Rightarrow> element \<Rightarrow> string \<Rightarrow> change_type" where
  "classify_modification old new ext =
     (let t = el_type new
      in if t = ''import'' then MODIFY_IMPORT
         else if t \<in> set [''function'', ''method'']
         then classify_function_modification (el_content old) (el_content new) ext
         else if t = ''class'' then MODIFY_CLASS else if t = ''interface'' then MODIFY_INTERFACE
         else if t = ''type'' then MODIFY_TYPE else if t = ''variable'' then MODIFY_VARIABLE else UNKNOWN)"

definition change_of :: "change_type \<Rightarrow> element \<Rightarrow> string option \<Rightarrow> string option \<Rightarrow> semantic_change" where
  "change_of t e old new =
     \<lparr>sc_change_type = t, sc_target = el_name e, sc_location = get_location e, sc_line_start = el_start e,
      sc_line_end = el_end e, sc_content_before = old, sc_content_after = new, sc_metadata = []\<rparr>"

definition compare_key :: "elements \<Rightarrow> elements \<Rightarrow> string \<Rightarrow> string \<Rightarrow> semantic_change option" where
  "compare_key old new ext key =
     (case (map_of old key, map_of new key) of
        (Some e, None) \<Rightarrow> Some (change_of (get_remove_change_type (el_type e)) e (Some (el_content e)) None)
      | (None, Some e) \<Rightarrow> Some (change_of (get_add_change_type (el_type e)) e None (Some (el_content e)))
      | (Some e, Some e') \<Rightarrow>
          (if el_content e \<noteq> el_content e'
           then Some (change_of (classify_modification e e' ext) e' (Some (el_content e)) (Some (el_content e')))
           else None)
      | (None, None) \<Rightarrow> None)"

text \<open>\<open>keys\<close> are the keys of both dictionaries in the order in which the set of them is run through.\<close>

definition compare_elements :: "string list \<Rightarrow> elements \<Rightarrow> elements \<Rightarrow> string \<Rightarrow> semantic_change list" where
  "compare_elements keys old new ext = List.map_filter (compare_key old new ext) keys"

section \<open>The analyser\<close>

text \<open>How Python runs through a set, the parser of an extension if there is one, and the lines of a unified diff.\<close>

record analyzer =
  an_order :: "string list \<Rightarrow> string list"
  an_parser :: "string \<Rightarrow> (string \<Rightarrow> node) option"
  an_diff :: "string \<Rightarrow> string \<Rightarrow> string list"

definition normalize_newlines :: "string \<Rightarrow> string" where
  "normalize_newlines s = py_replace [CR] [LF] (py_replace [CR, LF] [LF] s)"

definition extract_elements :: "node \<Rightarrow> string \<Rightarrow> string \<Rightarrow> elements" where
  "extract_elements tree source ext =
     (if ext = ''.py'' then extract_python source None (nd_children tree) []
      else if ext \<in> set js_exts then extract_js source None (nd_children tree) [] else [])"

definition no_analysis :: "string \<Rightarrow> semantic_change list \<Rightarrow> file_analysis" where
  "no_analysis file_path changes =
     \<lparr>fa_file_path = file_path, fa_changes = changes, fa_functions_modified = [], fa_functions_added = [],
      fa_imports_added = [], fa_imports_removed = [], fa_classes_modified = [], fa_total_lines_changed = 0\<rparr>"

definition summarize :: "semantic_change \<Rightarrow> file_analysis \<Rightarrow> file_analysis" where
  "summarize c a =
     (let t = sc_change_type c; n = sc_target c;
          a' = (if t \<in> set [MODIFY_FUNCTION, ADD_HOOK_CALL]
                then a\<lparr>fa_functions_modified := List.insert n (fa_functions_modified a)\<rparr>
                else if t = ADD_FUNCTION then a\<lparr>fa_functions_added := List.insert n (fa_functions_added a)\<rparr>
                else if t = ADD_IMPORT then a\<lparr>fa_imports_added := List.insert n (fa_imports_added a)\<rparr>
                else if t = REMOVE_IMPORT then a\<lparr>fa_imports_removed := List.insert n (fa_imports_removed a)\<rparr>
                else if t \<in> set [MODIFY_CLASS, ADD_METHOD]
                then a\<lparr>fa_classes_modified := List.insert (before (CHR ''.'') n) (fa_classes_modified a)\<rparr>
                else a)
      in a'\<lparr>fa_total_lines_changed := fa_total_lines_changed a' + (sc_line_end c - sc_line_start c + 1)\<rparr>)"

definition analyze_with_tree_sitter :: "analyzer \<Rightarrow> (string \<Rightarrow> node) \<Rightarrow> string \<Rightarrow> string \<Rightarrow> string \<Rightarrow> string \<Rightarrow> file_analysis" where
  "analyze_with_tree_sitter an parse file_path old new ext =
     (let old = normalize_newlines old; new = normalize_newlines new;
          els_old = extract_elements (parse old) old ext; els_new = extract_elements (parse new) new ext;
          keys = an_order an (remdups (map fst els_old @ map fst els_new));
          changes = compare_elements keys els_old els_new ext
      in fold summarize changes (no_analysis file_path changes))"

section \<open>The fallback\<close>

definition import_pattern :: "string \<Rightarrow> rx option" where
  "import_pattern ext =
     (if ext = ''.py''
      then Some (seqs [Bos, opt (seqs [lit ''from'', plus spacec, plus non_spacec, plus spacec]), lit ''import'', plus spacec])
      else if ext \<in> set js_exts then Some (seqs [Bos, lit ''import'', plus spacec]) else None)"

definition js_function_rx :: "bool \<Rightarrow> rx" where
  "js_function_rx typed =
     Alt (seqs [lit ''function'', plus spacec, Grp 1 (plus wordc)])
       (seqs ([keyword_let, plus spacec, Grp 2 (plus wordc), Star spacec]
          @ (if typed then [opt (seqs [ch (CHR '':''), Star spacec, plus wordc]), Star spacec] else [])
          @ [ch (CHR ''=''), Star spacec, opt (seqs [lit ''async'', plus spacec]),
             Alt (lit ''function'') (seqs (params @ [Star spacec, lit ''=>'']))]))"

definition function_pattern :: "string \<Rightarrow> rx option" where
  "function_pattern ext =
     (if ext = ''.py'' then Some (seqs [lit ''def'', plus spacec, Grp 1 (plus wordc), Star spacec, ch (CHR ''('')])
      else if ext \<in> set [''.js'', ''.jsx''] then Some (js_function_rx False)
      else if ext \<in> set [''.ts'', ''.tsx''] then Some (js_function_rx True) else None)"

definition match_name :: "string \<Rightarrow> rx_match \<Rightarrow> string option" where
  "match_name s m = (if truthy_str (grp s m 1) then grp s m 1 else if truthy_str (grp s m 2) then grp s m 2 else None)"

definition function_names :: "rx \<Rightarrow> string \<Rightarrow> string list" where
  "function_names r s = remdups (List.map_filter (match_name s) (re_finditer r s))"

text \<open>\<open>@@ -a,b +c\<close>: the line of the new file.\<close>

definition hunk_rx :: rx where
  "hunk_rx = seqs [lit ''@@ -'', plus digitc, opt (seqs [ch (CHR '',''), plus digitc]), lit '' +'', Grp 1 (plus digitc)]"

text \<open>The lines that were added, with their numbers, those that were removed, and the current line.\<close>

type_synonym diff_scan = "(int \<times> string) list \<times> (int \<times> string) list \<times> int"

definition scan_line :: "string \<Rightarrow> diff_scan \<Rightarrow> diff_scan" where
  "scan_line line st = (case st of (added, removed, current) \<Rightarrow>
     if prefix ''@@'' line
     then (added, removed, case re_match hunk_rx line of
             None \<Rightarrow> current | Some m \<Rightarrow> (case grp line m 1 of Some d \<Rightarrow> int_of_digits d | None \<Rightarrow> current))
     else if prefix ''+'' line \<and> \<not> prefix ''+++'' line then (added @ [(current, tl line)], removed, current + 1)
     else if prefix ''-'' line \<and> \<not> prefix ''---'' line then (added, removed @ [(current, tl line)], current)
     else if \<not> prefix ''-'' line then (added, removed, current + 1)
     else st)"

definition line_change :: "change_type \<Rightarrow> string \<Rightarrow> string \<Rightarrow> int \<Rightarrow> string option \<Rightarrow> string option \<Rightarrow> semantic_change" where
  "line_change t target location line old new =
     \<lparr>sc_change_type = t, sc_target = target, sc_location = location, sc_line_start = line, sc_line_end = line,
      sc_content_before = old, sc_content_after = new, sc_metadata = []\<rparr>"

definition import_lines :: "string \<Rightarrow> (int \<times> string) list \<Rightarrow> (int \<times> string) list" where
  "import_lines ext ls = (case import_pattern ext of
     None \<Rightarrow> [] | Some r \<Rightarrow> filter (\<lambda>(n, l). re_match r (py_strip l) \<noteq> None) ls)"

definition function_changes :: "(string list \<Rightarrow> string list) \<Rightarrow> string \<Rightarrow> string \<Rightarrow> string \<Rightarrow> semantic_change list" where
  "function_changes order ext old new = (case function_pattern ext of
     None \<Rightarrow> []
   | Some r \<Rightarrow>
       (let fs_old = function_names r old; fs_new = function_names r new;
            change = (\<lambda>t f. line_change t f (''function:'' @ f) 1 None None)
        in map (change ADD_FUNCTION) (order (filter (\<lambda>f. f \<notin> set fs_old) fs_new))
           @ map (change REMOVE_FUNCTION) (order (filter (\<lambda>f. f \<notin> set fs_new) fs_old))))"

definition record_name :: "semantic_change \<Rightarrow> file_analysis \<Rightarrow> file_analysis" where
  "record_name c a =
     (let t = sc_change_type c; n = sc_target c
      in if t = ADD_IMPORT then a\<lparr>fa_imports_added := List.insert n (fa_imports_added a)\<rparr>
         else if t = REMOVE_IMPORT then a\<lparr>fa_imports_removed := List.insert n (fa_imports_removed a)\<rparr>
         else if t = ADD_FUNCTION then a\<lparr>fa_functions_added := List.insert n (fa_functions_added a)\<rparr>
         else if t = MODIFY_FUNCTION then a\<lparr>fa_functions_modified := List.insert n (fa_functions_modified a)\<rparr>
         else a)"

definition analyze_with_regex :: "analyzer \<Rightarrow> string \<Rightarrow> string \<Rightarrow> string \<Rightarrow> string \<Rightarrow> file_analysis" where
  "analyze_with_regex an file_path old new ext =
     (let old = normalize_newlines old; new = normalize_newlines new
      in case fold scan_line (an_diff an old new) ([], [], 0) of (added, removed, current) \<Rightarrow>
        let changes =
              map (\<lambda>(n, l). line_change ADD_IMPORT (py_strip l) ''file_top'' n None (Some l)) (import_lines ext added)
              @ map (\<lambda>(n, l). line_change REMOVE_IMPORT (py_strip l) ''file_top'' n (Some l) None) (import_lines ext removed)
              @ function_changes (an_order an) ext old new;
            a = fold record_name changes (no_analysis file_path changes)
        in a\<lparr>fa_total_lines_changed := int (length added) + int (length removed)\<rparr>)"

definition analyze_diff :: "analyzer \<Rightarrow> string \<Rightarrow> string \<Rightarrow> string \<Rightarrow> file_analysis" where
  "analyze_diff an file_path old new =
     (let ext = lower_suffix file_path
      in case an_parser an ext of
           Some parse \<Rightarrow> analyze_with_tree_sitter an parse file_path old new ext
         | None \<Rightarrow> analyze_with_regex an file_path old new ext)"

definition analyze_file :: "analyzer \<Rightarrow> string \<Rightarrow> string \<Rightarrow> file_analysis" where
  "analyze_file an file_path content = analyze_diff an file_path [] content"

definition is_supported :: "analyzer \<Rightarrow> string \<Rightarrow> bool" where
  "is_supported an file_path =
     (let ext = lower_suffix file_path in an_parser an ext \<noteq> None \<or> ext \<in> set (''.py'' # js_exts))"

end
