(* ===== verification/Semantic_Props.thy ===== *)
theory Semantic_Props
  imports Semantic_Analysis Merge_Text_Props
begin

text \<open>What the comparison of two versions of a file reports, and what becomes of it in a merge.\<close>

section \<open>The comparison\<close>

definition content_at :: "elements \<Rightarrow> string \<Rightarrow> string option" where
  "content_at els key = map_option el_content (map_of els key)"

lemma compare_key_None: "compare_key old new ext key = None \<longleftrightarrow> content_at old key = content_at new key"
  by (auto simp: compare_key_def content_at_def split: option.splits)

lemma compare_key_Some:
  "compare_key old new ext key = Some c \<Longrightarrow>
     sc_content_before c = content_at old key \<and> sc_content_after c = content_at new key"
  by (auto simp: compare_key_def content_at_def change_of_def split: option.splits if_splits)

lemma sc_of_change_of [simp]: "sc_change_type (change_of t e old new) = t"
  by (simp add: change_of_def)

definition added_types :: "change_type list" where
  "added_types = [ADD_IMPORT, ADD_FUNCTION, ADD_CLASS, ADD_METHOD, ADD_VARIABLE, ADD_INTERFACE, ADD_TYPE, UNKNOWN]"

definition removed_types :: "change_type list" where
  "removed_types = [REMOVE_IMPORT, REMOVE_FUNCTION, REMOVE_CLASS, REMOVE_METHOD, REMOVE_VARIABLE, UNKNOWN]"

lemma add_types: "get_add_change_type t \<in> set added_types"
  by (simp add: added_types_def)

lemma remove_types: "get_remove_change_type t \<in> set removed_types"
  by (simp add: removed_types_def)

lemma modified_types:
  "classify_modification e e' ext \<notin> set (butlast added_types) \<union> set (butlast removed_types)"
  by (simp add: classify_modification_def classify_function_modification_def added_types_def removed_types_def Let_def)

lemma compare_key_type:
  assumes "compare_key old new ext key = Some c"
  shows "(sc_content_before c = None \<longrightarrow> sc_change_type c \<in> set added_types) \<and>
    (sc_content_after c = None \<longrightarrow> sc_change_type c \<in> set removed_types) \<and>
    (sc_content_before c \<noteq> None \<and> sc_content_after c \<noteq> None \<longrightarrow>
       sc_change_type c \<notin> set (butlast added_types) \<union> set (butlast removed_types))"
proof (cases "map_of old key"; cases "map_of new key")
  fix e assume "map_of old key = None" "map_of new key = Some e"
  then show ?thesis using assms add_types by (auto simp: compare_key_def change_of_def)
next
  fix e assume "map_of old key = Some e" "map_of new key = None"
  then show ?thesis using assms remove_types by (auto simp: compare_key_def change_of_def)
next
  fix e e' assume "map_of old key = Some e" "map_of new key = Some e'"
  then show ?thesis using assms modified_types by (auto simp: compare_key_def change_of_def split: if_splits)
qed (use assms in \<open>simp add: compare_key_def\<close>)

text \<open>The comparison of two versions is exact. In whatever order Python runs through the keys, there is one
  change for each element that differs, and none when all agree; a change carries the text of the element in
  both versions, which differ; and its type says which is missing: a type of an addition for what is new, of a
  removal for what is gone, and neither for what is in both.\<close>

theorem comparison_is_exact:
  assumes "distinct keys" "set keys = set (map fst old) \<union> set (map fst new)"
  shows "length (compare_elements keys old new ext)
      = card {k. map_option el_content (map_of old k) \<noteq> map_option el_content (map_of new k)} \<and>
    (\<forall>c \<in> set (compare_elements keys old new ext).
      sc_content_before c \<noteq> sc_content_after c \<and>
      (\<exists>k \<in> set keys. sc_content_before c = map_option el_content (map_of old k) \<and>
         sc_content_after c = map_option el_content (map_of new k)) \<and>
      (sc_content_before c = None \<longrightarrow> sc_change_type c \<in> set added_types) \<and>
      (sc_content_after c = None \<longrightarrow> sc_change_type c \<in> set removed_types) \<and>
      (sc_content_before c \<noteq> None \<and> sc_content_after c \<noteq> None \<longrightarrow>
         sc_change_type c \<notin> set (butlast added_types) \<union> set (butlast removed_types)))"
proof
  have "length (compare_elements keys old new ext) = length (filter (\<lambda>k. content_at old k \<noteq> content_at new k) keys)"
    by (simp add: compare_elements_def List.map_filter_def compare_key_None)
  also have "\<dots> = card {k \<in> set keys. content_at old k \<noteq> content_at new k}"
    using assms(1) by (metis distinct_card distinct_filter set_filter)
  also have "{k \<in> set keys. content_at old k \<noteq> content_at new k} = {k. content_at old k \<noteq> content_at new k}"
  proof -
    have "content_at old k = content_at new k" if "k \<notin> set keys" for k
    proof -
      have "map_of old k = None" "map_of new k = None" using that assms(2) by (simp_all add: map_of_eq_None_iff)
      then show ?thesis by (simp add: content_at_def)
    qed
    then show ?thesis by blast
  qed
  finally show "length (compare_elements keys old new ext)
      = card {k. map_option el_content (map_of old k) \<noteq> map_option el_content (map_of new k)}"
    by (simp add: content_at_def)
  show "\<forall>c \<in> set (compare_elements keys old new ext).
      sc_content_before c \<noteq> sc_content_after c \<and>
      (\<exists>k \<in> set keys. sc_content_before c = map_option el_content (map_of old k) \<and>
         sc_content_after c = map_option el_content (map_of new k)) \<and>
      (sc_content_before c = None \<longrightarrow> sc_change_type c \<in> set added_types) \<and>
      (sc_content_after c = None \<longrightarrow> sc_change_type c \<in> set removed_types) \<and>
      (sc_content_before c \<noteq> None \<and> sc_content_after c \<noteq> None \<longrightarrow>
         sc_change_type c \<notin> set (butlast added_types) \<union> set (butlast removed_types))"
  proof
    fix c assume "c \<in> set (compare_elements keys old new ext)"
    then obtain k where k: "k \<in> set keys" "compare_key old new ext k = Some c"
      by (auto simp: compare_elements_def List.map_filter_def)
    then have "content_at old k \<noteq> content_at new k" using compare_key_None [of old new ext k] by simp
    then show "sc_content_before c \<noteq> sc_content_after c \<and>
      (\<exists>k \<in> set keys. sc_content_before c = map_option el_content (map_of old k) \<and>
         sc_content_after c = map_option el_content (map_of new k)) \<and>
      (sc_content_before c = None \<longrightarrow> sc_change_type c \<in> set added_types) \<and>
      (sc_content_after c = None \<longrightarrow> sc_change_type c \<in> set removed_types) \<and>
      (sc_content_before c \<noteq> None \<and> sc_content_after c \<noteq> None \<longrightarrow>
         sc_change_type c \<notin> set (butlast added_types) \<union> set (butlast removed_types))"
      using k compare_key_Some [OF k(2)] compare_key_type [OF k(2)] by (auto simp: content_at_def)
  qed
qed

section \<open>What the fallback loses\<close>

lemma applied_change_needs_text: "sc_content_after c = None \<Longrightarrow> apply_change p s c = s"
  by (simp add: apply_change_def truthy_str_def)

text \<open>A function that the fallback finds has no text, so that the merge does not write it.\<close>

lemma fallback_functions_are_lost:
  "c \<in> set (function_changes order ext old new) \<Longrightarrow> apply_change p s c = s"
  by (rule applied_change_needs_text)
    (auto simp: function_changes_def line_change_def Let_def split: option.splits)

text \<open>
  A method that a task adds to a Python class is a function of the analysis: its text is also appended to the
  file, after the class that holds it.
\<close>

definition old_class :: string where
  "old_class = ''class A:'' @ [LF] @ '' x = 1''"

definition new_class :: string where
  "new_class = old_class @ [LF] @ '' def m(s): 2''"

definition class_tree :: "node list \<Rightarrow> nat \<Rightarrow> node" where
  "class_tree members n = Node ''module'' None 0 n [Node ''class_definition'' None 0 n
     [Node ''identifier'' (Some ''name'') 6 7 [], Node ''block'' (Some ''body'') 10 n members]]"

definition parse_class :: "string \<Rightarrow> node" where
  "parse_class s = class_tree (if s = new_class then [Node ''function_definition'' None 17 28
     [Node ''identifier'' (Some ''name'') 21 22 []]] else []) (length s)"

definition class_analyzer :: analyzer where
  "class_analyzer = \<lparr>an_order = (\<lambda>ks. ks), an_parser = (\<lambda>_. Some parse_class), an_diff = (\<lambda>_ _. [])\<rparr>"

lemma added_method_is_duplicated:
  "apply_single_task_changes old_class
     (snapshot ''t'' (fa_changes (analyze_diff class_analyzer ''a.py'' old_class new_class))) ''a.py''
   = new_class @ [LF, LF] @ ''def m(s): 2''"
  by code_simp

section \<open>At concrete inputs\<close>

definition one_element :: "string \<Rightarrow> elements" where
  "one_element code = [(''function:f'', \<lparr>el_type = ''function'', el_name = ''f'', el_start = 1, el_end = 1,
     el_content = code, el_parent = None\<rparr>)]"

lemma comparison_is_exact_witness:
  "length (compare_elements [''function:f''] (one_element ''a'') (one_element ''b'') ''.py'') = 1"
proof -
  have "{k. map_option el_content (map_of (one_element ''a'') k) \<noteq> map_option el_content (map_of (one_element ''b'') k)}
    = {''function:f''}"
    by (auto simp: one_element_def)
  then show ?thesis
    using comparison_is_exact [of "[''function:f'']" "one_element ''a''" "one_element ''b''" "''.py''"]
    by (simp add: one_element_def)
qed

end
