(* ===== verification/Review_Cycle.thy ===== *)
theory Review_Cycle
  imports Py_Json
begin

text \<open>
  The review cycle of a task (\<open>qa/review_cycle.py\<close>) and what drives a stuck one forward
  (\<open>qa/review_redrive.py\<close>). The file \<open>qa_review_cycle.json\<close> is the JSON value in it; a missing one, and one that
  is not JSON, is \<open>None\<close>. \<open>now\<close> is the moment of the call.
\<close>

section \<open>States\<close>

datatype cycle_state = REQUESTED | STARTED | APPROVED | CHANGES_REQUESTED

fun cycle_value :: "cycle_state \<Rightarrow> string" where
  "cycle_value REQUESTED = ''review_requested''"
| "cycle_value STARTED = ''review_started''"
| "cycle_value APPROVED = ''approved''"
| "cycle_value CHANGES_REQUESTED = ''changes_requested''"

definition cycle_states :: "cycle_state list" where
  "cycle_states = [REQUESTED, STARTED, APPROVED, CHANGES_REQUESTED]"

text \<open>\<open>CycleState(v)\<close>: any value but the text of a state raises.\<close>

definition cycle_state_of :: "json \<Rightarrow> py_error + cycle_state" where
  "cycle_state_of v =
     (case v of JStr s \<Rightarrow> enum_of cycle_value cycle_states s | _ \<Rightarrow> Inl (ValueError ''CycleState''))"

fun allowed_transitions :: "cycle_state \<Rightarrow> cycle_state list" where
  "allowed_transitions REQUESTED = [STARTED]"
| "allowed_transitions STARTED = [APPROVED, CHANGES_REQUESTED]"
| "allowed_transitions APPROVED = []"
| "allowed_transitions CHANGES_REQUESTED = []"

definition TERMINAL_STATES :: "cycle_state list" where
  "TERMINAL_STATES = [APPROVED, CHANGES_REQUESTED]"

section \<open>Records and their dictionaries\<close>

record engagement_proof =
  ep_cycle_id :: int
  ep_marker :: string
  ep_recorded_at :: string
  ep_detail :: obj

definition proof_to_dict :: "engagement_proof \<Rightarrow> obj" where
  "proof_to_dict p =
     [(''cycle_id'', JInt (ep_cycle_id p)), (''marker'', JStr (ep_marker p)),
      (''recorded_at'', JStr (ep_recorded_at p)), (''detail'', JObj (ep_detail p))]"

text \<open>A value that is no dictionary has no key \<open>cycle_id\<close>: Python raises \<open>TypeError\<close>.\<close>

definition proof_from_dict :: "py_env \<Rightarrow> int \<Rightarrow> json \<Rightarrow> py_error + engagement_proof" where
  "proof_from_dict env now v =
     (case v of
        JObj d \<Rightarrow>
          bindE (case map_of d ''cycle_id'' of None \<Rightarrow> Inl (KeyError ''cycle_id'') | Some c \<Rightarrow> py_int c) (\<lambda>cycle_id.
          bindE (as_obj ''detail'' (get_or ''detail'' (JObj []) d)) (\<lambda>detail.
            Inr \<lparr>ep_cycle_id = cycle_id,
                 ep_marker = py_str (pe_shown env) (get_or ''marker'' (JStr []) d),
                 ep_recorded_at = py_str (pe_shown env) (get_or ''recorded_at'' (JStr (pe_iso env now)) d),
                 ep_detail = detail\<rparr>))
      | _ \<Rightarrow> Inl (TypeError ''proof''))"

text \<open>Values that are only passed on keep the JSON value that the file has.\<close>

record review_cycle =
  rc_cycle_id :: int
  rc_state :: cycle_state
  rc_requested_at :: string
  rc_started_at :: json
  rc_resolved_at :: json
  rc_proof :: "engagement_proof option"
  rc_resolutions :: "json list"
  rc_redrive_attempts :: int
  rc_last_redrive_at :: json
  rc_updated_at :: string

definition cycle_to_dict :: "review_cycle \<Rightarrow> obj" where
  "cycle_to_dict c =
     [(''cycle_id'', JInt (rc_cycle_id c)), (''state'', JStr (cycle_value (rc_state c))),
      (''requested_at'', JStr (rc_requested_at c)), (''started_at'', rc_started_at c),
      (''resolved_at'', rc_resolved_at c),
      (''proof'', case rc_proof c of None \<Rightarrow> JNull | Some p \<Rightarrow> JObj (proof_to_dict p)),
      (''resolutions'', JList (rc_resolutions c)), (''redrive_attempts'', JInt (rc_redrive_attempts c)),
      (''last_redrive_at'', rc_last_redrive_at c), (''updated_at'', JStr (rc_updated_at c))]"

definition cycle_from_dict :: "py_env \<Rightarrow> int \<Rightarrow> obj \<Rightarrow> py_error + review_cycle" where
  "cycle_from_dict env now d =
     bindE (py_int (get_or ''cycle_id'' (JInt 0) d)) (\<lambda>cycle_id.
     bindE (cycle_state_of (get_or ''state'' (JStr (cycle_value REQUESTED)) d)) (\<lambda>state.
     bindE (if truthy (get_or ''proof'' JNull d)
            then bindE (proof_from_dict env now (get_or ''proof'' JNull d)) (\<lambda>p. Inr (Some p)) else Inr None) (\<lambda>pf.
     bindE (py_list (get_or ''resolutions'' (JList []) d)) (\<lambda>resolutions.
     bindE (py_int (get_or ''redrive_attempts'' (JInt 0) d)) (\<lambda>redrive_attempts.
       Inr \<lparr>rc_cycle_id = cycle_id, rc_state = state,
            rc_requested_at = py_str (pe_shown env) (get_or ''requested_at'' (JStr (pe_iso env now)) d),
            rc_started_at = get_or ''started_at'' JNull d, rc_resolved_at = get_or ''resolved_at'' JNull d,
            rc_proof = pf, rc_resolutions = resolutions, rc_redrive_attempts = redrive_attempts,
            rc_last_redrive_at = get_or ''last_redrive_at'' JNull d,
            rc_updated_at = py_str (pe_shown env) (get_or ''updated_at'' (JStr (pe_iso env now)) d)\<rparr>)))))"

section \<open>Queries\<close>

definition rc_is_started :: "review_cycle \<Rightarrow> bool" where
  "rc_is_started c \<longleftrightarrow> rc_state c \<in> {STARTED, APPROVED, CHANGES_REQUESTED}"

definition rc_is_resolved :: "review_cycle \<Rightarrow> bool" where
  "rc_is_resolved c \<longleftrightarrow> rc_state c \<in> set TERMINAL_STATES"

text \<open>\<open>(now - then).total_seconds() >= seconds\<close>, for a text that may not denote a moment.\<close>

definition elapsed :: "py_env \<Rightarrow> json \<Rightarrow> rat \<Rightarrow> int \<Rightarrow> bool" where
  "elapsed env stamp seconds now =
     (case stamp of
        JStr s \<Rightarrow> (case pe_fromiso env s of None \<Rightarrow> False | Some t \<Rightarrow> of_int (now - t) / 1000000 \<ge> seconds)
      | _ \<Rightarrow> False)"

definition is_untouched :: "py_env \<Rightarrow> rat \<Rightarrow> int \<Rightarrow> review_cycle \<Rightarrow> bool" where
  "is_untouched env timeout_seconds now c =
     (if rc_state c \<noteq> REQUESTED then False else elapsed env (JStr (rc_requested_at c)) timeout_seconds now)"

definition redrive_window_elapsed :: "py_env \<Rightarrow> rat \<Rightarrow> int \<Rightarrow> review_cycle \<Rightarrow> bool" where
  "redrive_window_elapsed env window_seconds now c =
     elapsed env (if truthy (rc_last_redrive_at c) then rc_last_redrive_at c else JStr (rc_requested_at c))
       window_seconds now"

section \<open>The file\<close>

type_synonym cycle_file = "json option"

text \<open>Errors of the types \<open>KeyError\<close> and \<open>ValueError\<close> make the file unreadable; a \<open>TypeError\<close> goes through.\<close>

definition load_cycle :: "py_env \<Rightarrow> int \<Rightarrow> cycle_file \<Rightarrow> py_error + review_cycle option" where
  "load_cycle env now f =
     (case f of
        Some (JObj d) \<Rightarrow>
          (case cycle_from_dict env now d of
             Inr c \<Rightarrow> Inr (Some c)
           | Inl (TypeError e) \<Rightarrow> Inl (TypeError e)
           | Inl _ \<Rightarrow> Inr None)
      | _ \<Rightarrow> Inr None)"

definition atomic_write_cycle :: "py_env \<Rightarrow> int \<Rightarrow> review_cycle \<Rightarrow> review_cycle \<times> cycle_file" where
  "atomic_write_cycle env now c =
     (let c' = c\<lparr>rc_updated_at := pe_iso env now\<rparr> in (c', Some (JObj (cycle_to_dict c'))))"

section \<open>Operations\<close>

datatype cycle_error = No_Cycle | Stale_Cycle int int | Invalid_Transition cycle_state cycle_state
  | Unreadable py_error

definition ensure_transition :: "cycle_state \<Rightarrow> cycle_state \<Rightarrow> cycle_error + unit" where
  "ensure_transition current target =
     (if target \<notin> set (allowed_transitions current) then Inl (Invalid_Transition current target) else Inr ())"

definition request_review :: "py_env \<Rightarrow> int \<Rightarrow> cycle_file \<Rightarrow> cycle_error + review_cycle \<times> cycle_file" where
  "request_review env now f =
     (case load_cycle env now f of
        Inl e \<Rightarrow> Inl (Unreadable e)
      | Inr previous \<Rightarrow>
          Inr (atomic_write_cycle env now
            \<lparr>rc_cycle_id = (case previous of Some p \<Rightarrow> rc_cycle_id p + 1 | None \<Rightarrow> 1), rc_state = REQUESTED,
             rc_requested_at = pe_iso env now, rc_started_at = JNull, rc_resolved_at = JNull, rc_proof = None,
             rc_resolutions = (case previous of Some p \<Rightarrow> rc_resolutions p | None \<Rightarrow> []),
             rc_redrive_attempts = 0, rc_last_redrive_at = JNull, rc_updated_at = pe_iso env now\<rparr>))"

text \<open>The three operations on the current cycle load it and refuse another id first.\<close>

definition with_current ::
    "py_env \<Rightarrow> int \<Rightarrow> int \<Rightarrow> cycle_file \<Rightarrow> (review_cycle \<Rightarrow> cycle_error + review_cycle)
      \<Rightarrow> cycle_error + review_cycle \<times> cycle_file" where
  "with_current env now cycle_id f change =
     (case load_cycle env now f of
        Inl e \<Rightarrow> Inl (Unreadable e)
      | Inr None \<Rightarrow> Inl No_Cycle
      | Inr (Some c) \<Rightarrow>
          if cycle_id \<noteq> rc_cycle_id c then Inl (Stale_Cycle cycle_id (rc_cycle_id c))
          else bindE (change c) (\<lambda>c'. Inr (atomic_write_cycle env now c')))"

definition start_cycle :: "py_env \<Rightarrow> int \<Rightarrow> string \<Rightarrow> obj \<Rightarrow> review_cycle \<Rightarrow> cycle_error + review_cycle" where
  "start_cycle env now marker detail c =
     bindE (if rc_state c = REQUESTED
            then bindE (ensure_transition (rc_state c) STARTED) (\<lambda>_.
                   Inr (c\<lparr>rc_state := STARTED, rc_started_at := JStr (pe_iso env now)\<rparr>))
            else Inr c) (\<lambda>c1.
       Inr (if rc_proof c1 = None
            then c1\<lparr>rc_proof := Some \<lparr>ep_cycle_id = rc_cycle_id c1, ep_marker = marker,
                      ep_recorded_at = pe_iso env now, ep_detail = detail\<rparr>\<rparr>
            else c1))"

definition record_started ::
    "py_env \<Rightarrow> int \<Rightarrow> int \<Rightarrow> string \<Rightarrow> obj \<Rightarrow> cycle_file \<Rightarrow> cycle_error + review_cycle \<times> cycle_file" where
  "record_started env now cycle_id marker detail f =
     with_current env now cycle_id f (start_cycle env now marker detail)"

definition resolution_entry :: "py_env \<Rightarrow> int \<Rightarrow> int \<Rightarrow> cycle_state \<Rightarrow> obj \<Rightarrow> json" where
  "resolution_entry env now cycle_id target detail =
     JObj [(''cycle_id'', JInt cycle_id), (''outcome'', JStr (cycle_value target)),
           (''resolved_at'', JStr (pe_iso env now)), (''detail'', JObj detail)]"

definition resolve_cycle :: "py_env \<Rightarrow> int \<Rightarrow> bool \<Rightarrow> obj \<Rightarrow> review_cycle \<Rightarrow> cycle_error + review_cycle" where
  "resolve_cycle env now approved detail c =
     (let target = (if approved then APPROVED else CHANGES_REQUESTED)
      in bindE (ensure_transition (rc_state c) target) (\<lambda>_.
           Inr (c\<lparr>rc_state := target, rc_resolved_at := JStr (pe_iso env now),
                  rc_resolutions := rc_resolutions c @ [resolution_entry env now (rc_cycle_id c) target detail]\<rparr>)))"

definition resolve_review ::
    "py_env \<Rightarrow> int \<Rightarrow> int \<Rightarrow> bool \<Rightarrow> obj \<Rightarrow> cycle_file \<Rightarrow> cycle_error + review_cycle \<times> cycle_file" where
  "resolve_review env now cycle_id approved detail f =
     with_current env now cycle_id f (resolve_cycle env now approved detail)"

definition record_redrive ::
    "py_env \<Rightarrow> int \<Rightarrow> int \<Rightarrow> cycle_file \<Rightarrow> cycle_error + review_cycle \<times> cycle_file" where
  "record_redrive env now cycle_id f =
     with_current env now cycle_id f (\<lambda>c.
       Inr (c\<lparr>rc_redrive_attempts := rc_redrive_attempts c + 1, rc_last_redrive_at := JStr (pe_iso env now)\<rparr>))"

section \<open>Stuck reviews\<close>

definition DEFAULT_UNTOUCHED_TIMEOUT_SECONDS :: rat where
  "DEFAULT_UNTOUCHED_TIMEOUT_SECONDS = 300"

definition detect_untouched_review ::
    "py_env \<Rightarrow> rat \<Rightarrow> int \<Rightarrow> cycle_file \<Rightarrow> py_error + review_cycle option" where
  "detect_untouched_review env timeout_seconds now f =
     bindE (load_cycle env now f) (\<lambda>found.
       Inr (case found of None \<Rightarrow> None | Some c \<Rightarrow> if is_untouched env timeout_seconds now c then Some c else None))"

text \<open>The signal of a stalled review; \<open>seconds\<close> is the text of the time-out without decimals.\<close>

definition redrive_untouched_review ::
    "py_env \<Rightarrow> (rat \<Rightarrow> string) \<Rightarrow> rat \<Rightarrow> int \<Rightarrow> cycle_file \<Rightarrow> py_error + obj option" where
  "redrive_untouched_review env seconds timeout_seconds now f =
     bindE (detect_untouched_review env timeout_seconds now f) (\<lambda>found.
       Inr (map_option (\<lambda>c.
         [(''action'', JStr ''redrive_review''), (''cycle_id'', JInt (rc_cycle_id c)),
          (''state'', JStr (cycle_value (rc_state c))), (''requested_at'', JStr (rc_requested_at c)),
          (''timeout_seconds'', JFloat timeout_seconds), (''redrive_attempts'', JInt (rc_redrive_attempts c)),
          (''reason'', JStr (''Review cycle '' @ str_of_int (rc_cycle_id c) @ '' was requested at '' @ rc_requested_at c
              @ '' but never reached review_started within '' @ seconds timeout_seconds @ ''s.''))]) found))"

definition REVIEWER_RECIPIENT :: string where "REVIEWER_RECIPIENT = ''agent''"
definition DEFAULT_ESCALATE_AFTER_STRIKES :: int where "DEFAULT_ESCALATE_AFTER_STRIKES = 1"

text \<open>The long dash of the text is written as two hyphens.\<close>

definition nudge_text :: "int \<Rightarrow> string" where
  "nudge_text cycle_id =
     ''Review obligation reminder (cycle '' @ str_of_int cycle_id @ ''): a peer review was ''
     @ ''requested for this task but has not started yet. Please begin the ''
     @ ''review now -- inspect the implementation against the acceptance ''
     @ ''criteria and record your verdict. This is an automated nudge because ''
     @ ''the review request went unacknowledged.''"

definition escalation_reason :: "int \<Rightarrow> int \<Rightarrow> string" where
  "escalation_reason cycle_id strikes =
     ''Peer review stalled: cycle '' @ str_of_int cycle_id @ '' was requested but never started ''
     @ ''after '' @ str_of_int strikes @ '' automated nudge(s). Escalated for human review.''"

text \<open>The calls to the injected writers. A writer answers with the value it returns or raises.\<close>

datatype writer_call = Enqueue string string string string string | Write_Control string string string string

type_synonym writers = "writer_call \<Rightarrow> string + json"

datatype poll_error = Poll_Unreadable py_error | Poll_Writer string | Poll_Cycle cycle_error

record poll_result =
  po_file :: cycle_file
  po_calls :: "writer_call list"
  po_action :: "poll_error + obj option"

definition process_untouched_review ::
    "py_env \<Rightarrow> writers \<Rightarrow> string \<Rightarrow> string option \<Rightarrow> rat \<Rightarrow> int \<Rightarrow> string \<Rightarrow> int \<Rightarrow> cycle_file \<Rightarrow> poll_result" where
  "process_untouched_review env send main_dir worktree_dir timeout_seconds escalate_after recipient now f =
     (case detect_untouched_review env timeout_seconds now f of
        Inl e \<Rightarrow> \<lparr>po_file = f, po_calls = [], po_action = Inl (Poll_Unreadable e)\<rparr>
      | Inr None \<Rightarrow> \<lparr>po_file = f, po_calls = [], po_action = Inr None\<rparr>
      | Inr (Some c) \<Rightarrow>
          if \<not> redrive_window_elapsed env timeout_seconds now c
          then \<lparr>po_file = f, po_calls = [], po_action = Inr None\<rparr>
          else
            let inbox_dir = (case worktree_dir of Some w \<Rightarrow> w | None \<Rightarrow> main_dir);
                reason = escalation_reason (rc_cycle_id c) (rc_redrive_attempts c);
                nudge = (rc_redrive_attempts c < escalate_after);
                call = (if nudge
                        then Enqueue inbox_dir (nudge_text (rc_cycle_id c)) recipient ''review_obligation''
                               (''Begin review (cycle '' @ str_of_int (rc_cycle_id c) @ '')'')
                        else Write_Control main_dir ''human_review'' reason ''review_redrive'')
            in case send call of
                 Inl e \<Rightarrow> \<lparr>po_file = f, po_calls = [call], po_action = Inl (Poll_Writer e)\<rparr>
               | Inr answer \<Rightarrow>
                   (case record_redrive env now (rc_cycle_id c) f of
                      Inl e \<Rightarrow> \<lparr>po_file = f, po_calls = [call], po_action = Inl (Poll_Cycle e)\<rparr>
                    | Inr (c', f') \<Rightarrow>
                        \<lparr>po_file = f', po_calls = [call],
                         po_action = Inr (Some
                           (if nudge
                            then [(''action'', JStr ''nudged''), (''cycle_id'', JInt (rc_cycle_id c)),
                                  (''recipient'', JStr recipient), (''inbox_dir'', JStr inbox_dir),
                                  (''delivered'', case answer of JObj a \<Rightarrow> JBool (truthy (get_or ''delivered'' JNull a))
                                                  | _ \<Rightarrow> JNull),
                                  (''messageId'', case answer of JObj a \<Rightarrow> get_or ''messageId'' JNull a | _ \<Rightarrow> JNull),
                                  (''redrive_attempts'', JInt (rc_redrive_attempts c'))]
                            else [(''action'', JStr ''escalated''), (''cycle_id'', JInt (rc_cycle_id c)),
                                  (''status'', JStr ''human_review''), (''reviewReason'', JStr reason),
                                  (''redrive_attempts'', JInt (rc_redrive_attempts c'))]))\<rparr>))"

end
