(* ===== verification/Review_Props.thy ===== *)
theory Review_Props
  imports Review_Cycle
begin

text \<open>
  Review cycles: a verdict needs the engagement of a reviewer in the same cycle, each cycle gets at most one,
  and a stuck review is nudged and then escalated, one strike for each window of time.
\<close>

section \<open>A file holds what was written\<close>

lemmas cycle_dict_defs = cycle_from_dict_def cycle_to_dict_def proof_from_dict_def proof_to_dict_def get_or_def
  cycle_state_of_def enum_of_def cycle_states_def as_obj_def

lemma cycle_state_of_value [simp]: "cycle_state_of (JStr (cycle_value s)) = Inr s"
  by (cases s) (simp_all add: cycle_state_of_def enum_of_def cycle_states_def)

lemma proof_from_to: "proof_from_dict env now (JObj (proof_to_dict p)) = Inr p"
  by (simp add: proof_from_dict_def proof_to_dict_def get_or_def as_obj_def)

lemma cycle_from_to [simp]: "cycle_from_dict env now (cycle_to_dict c) = Inr c"
proof -
  have "truthy (JObj (proof_to_dict p))" for p by (simp add: proof_to_dict_def)
  then show ?thesis
    by (cases "rc_proof c")
      (simp_all add: cycle_from_dict_def cycle_to_dict_def get_or_def proof_from_to)
qed

lemma load_written [simp]: "load_cycle env now (Some (JObj (cycle_to_dict c))) = Inr (Some c)"
  by (simp add: load_cycle_def)

lemma load_missing [simp]: "load_cycle env now None = Inr None"
  by (simp add: load_cycle_def)

section \<open>Histories\<close>

datatype review_event = Ev_Request | Ev_Started int string obj | Ev_Resolve int bool obj | Ev_Redrive int

definition file_after :: "cycle_file \<Rightarrow> cycle_error + review_cycle \<times> cycle_file \<Rightarrow> cycle_file" where
  "file_after f r = (case r of Inl e \<Rightarrow> f | Inr p \<Rightarrow> snd p)"

fun review_step :: "py_env \<Rightarrow> cycle_file \<Rightarrow> int \<times> review_event \<Rightarrow> cycle_file" where
  "review_step env f (t, Ev_Request) = file_after f (request_review env t f)"
| "review_step env f (t, Ev_Started k m d) = file_after f (record_started env t k m d f)"
| "review_step env f (t, Ev_Resolve k ok d) = file_after f (resolve_review env t k ok d f)"
| "review_step env f (t, Ev_Redrive k) = file_after f (record_redrive env t k f)"

definition requests :: "(int \<times> review_event) list \<Rightarrow> int" where
  "requests es = int (length (filter (\<lambda>e. snd e = Ev_Request) es))"

lemma requests_simps [simp]:
  "requests [] = 0" "requests (e # es) = (if snd e = Ev_Request then 1 else 0) + requests es"
  "requests (es @ fs) = requests es + requests fs"
  by (simp_all add: requests_def)

lemma requests_nonneg: "0 \<le> requests es"
  by (simp add: requests_def)

definition engaged :: "(int \<times> review_event) list \<Rightarrow> int \<Rightarrow> bool" where
  "engaged es k \<longleftrightarrow> (\<exists>a t m d b. es = a @ (t, Ev_Started k m d) # b \<and> requests a = k)"

definition verdict :: "py_env \<Rightarrow> (int \<times> review_event) list \<Rightarrow> json \<Rightarrow> bool" where
  "verdict env es r \<longleftrightarrow> (\<exists>a t k m d b t' ok d' z.
     es = a @ (t, Ev_Started k m d) # b @ (t', Ev_Resolve k ok d') # z \<and> requests a = k \<and> requests b = 0 \<and>
     r = resolution_entry env t' k (if ok then APPROVED else CHANGES_REQUESTED) d')"

definition entry_id :: "json \<Rightarrow> int" where
  "entry_id r = (case r of JObj d \<Rightarrow> (case map_of d ''cycle_id'' of Some (JInt i) \<Rightarrow> i | _ \<Rightarrow> 0) | _ \<Rightarrow> 0)"

lemma entry_id_entry [simp]: "entry_id (resolution_entry env t k s d) = k"
  by (simp add: entry_id_def resolution_entry_def)

lemma engaged_more:
  assumes "engaged es k"
  shows "engaged (es @ [e]) k"
proof -
  obtain a t m d b where "es = a @ (t, Ev_Started k m d) # b" "requests a = k"
    using assms by (auto simp: engaged_def)
  then have "es @ [e] = a @ (t, Ev_Started k m d) # (b @ [e]) \<and> requests a = k" by simp
  then show ?thesis unfolding engaged_def by blast
qed

lemma verdict_more:
  assumes "verdict env es r"
  shows "verdict env (es @ [e]) r"
proof -
  obtain a t k m d b t' ok d' z where
    v: "es = a @ (t, Ev_Started k m d) # b @ (t', Ev_Resolve k ok d') # z" "requests a = k" "requests b = 0"
      "r = resolution_entry env t' k (if ok then APPROVED else CHANGES_REQUESTED) d'"
    using assms unfolding verdict_def by blast
  have "es @ [e] = a @ (t, Ev_Started k m d) # b @ (t', Ev_Resolve k ok d') # (z @ [e])" by (simp add: v(1))
  then show ?thesis using v(2-4) unfolding verdict_def by blast
qed

lemma engaged_now:
  assumes "requests es = k"
  shows "engaged (es @ [(t, Ev_Started k m d)]) k"
proof -
  have "es @ [(t, Ev_Started k m d)] = es @ (t, Ev_Started k m d) # []" by simp
  then show ?thesis using assms unfolding engaged_def by blast
qed

lemma verdict_now:
  assumes "engaged es k" "requests es = k"
  shows "verdict env (es @ [(t, Ev_Resolve k ok d)]) (resolution_entry env t k (if ok then APPROVED else CHANGES_REQUESTED) d)"
proof -
  obtain a t' m d' b where "es = a @ (t', Ev_Started k m d') # b" "requests a = k"
    using assms(1) by (auto simp: engaged_def)
  then have "es @ [(t, Ev_Resolve k ok d)] = a @ (t', Ev_Started k m d') # b @ (t, Ev_Resolve k ok d) # []"
    "requests a = k" "requests b = 0"
    using assms(2) by simp_all
  then show ?thesis unfolding verdict_def by blast
qed

text \<open>What a history makes of the cycle on file.\<close>

definition tracked :: "py_env \<Rightarrow> (int \<times> review_event) list \<Rightarrow> review_cycle \<Rightarrow> bool" where
  "tracked env es c \<longleftrightarrow>
     rc_cycle_id c = requests es \<and>
     (rc_state c = REQUESTED \<longleftrightarrow> rc_proof c = None) \<and>
     (\<forall>p. rc_proof c = Some p \<longrightarrow> ep_cycle_id p = rc_cycle_id c \<and> engaged es (rc_cycle_id c)) \<and>
     (\<forall>r \<in> set (rc_resolutions c). verdict env es r \<and> entry_id r \<le> rc_cycle_id c) \<and>
     sorted_wrt (<) (map entry_id (rc_resolutions c)) \<and>
     (rc_is_resolved c \<longleftrightarrow> rc_cycle_id c \<in> entry_id ` set (rc_resolutions c))"

definition on_file :: "py_env \<Rightarrow> (int \<times> review_event) list \<Rightarrow> cycle_file \<Rightarrow> bool" where
  "on_file env es f \<longleftrightarrow>
     (f = None \<and> requests es = 0) \<or> (\<exists>c. f = Some (JObj (cycle_to_dict c)) \<and> tracked env es c)"

lemma tracked_more:
  assumes "tracked env es c" "snd e \<noteq> Ev_Request"
  shows "tracked env (es @ [e]) c"
proof -
  have "requests (es @ [e]) = requests es" using assms(2) by simp
  then show ?thesis
    using assms(1) engaged_more [of es _ e] verdict_more [of env es _ e] unfolding tracked_def by auto
qed

lemma tracked_touch:
  assumes "tracked env es c"
  shows "tracked env es (c\<lparr>rc_updated_at := u\<rparr>)"
  using assms by (auto simp: tracked_def rc_is_resolved_def)

lemma tracked_redriven:
  assumes "tracked env es c"
  shows "tracked env es (c\<lparr>rc_redrive_attempts := n, rc_last_redrive_at := l\<rparr>)"
  using assms by (auto simp: tracked_def rc_is_resolved_def)

lemma on_file_cases [consumes 1, case_names missing cycle]:
  assumes "on_file env es f"
    and "f = None \<Longrightarrow> requests es = 0 \<Longrightarrow> P"
    and "\<And>c. f = Some (JObj (cycle_to_dict c)) \<Longrightarrow> tracked env es c \<Longrightarrow> P"
  shows P
  using assms unfolding on_file_def by blast

lemma written_on_file: "tracked env es c \<Longrightarrow> on_file env es (snd (atomic_write_cycle env t c))"
  unfolding on_file_def atomic_write_cycle_def Let_def using tracked_touch by auto

lemma kept_on_file:
  assumes "on_file env es f" "snd e \<noteq> Ev_Request"
  shows "on_file env (es @ [e]) f"
  using assms(1)
proof (cases rule: on_file_cases)
  case missing
  then show ?thesis using assms(2) by (simp add: on_file_def)
next
  case (cycle c)
  then show ?thesis using tracked_more [OF _ assms(2)] unfolding on_file_def by blast
qed

text \<open>An operation on the current cycle that succeeds leaves the changed cycle on file.\<close>

lemma with_current_step:
  assumes f: "on_file env es f" and other: "snd e \<noteq> Ev_Request"
    and change: "\<And>c c'. tracked env es c \<Longrightarrow> change c = Inr c' \<Longrightarrow> rc_cycle_id c = k \<Longrightarrow> tracked env (es @ [e]) c'"
  shows "on_file env (es @ [e]) (file_after f (with_current env t k f change))"
proof (cases "with_current env t k f change")
  case Inl
  then show ?thesis using kept_on_file [OF f other] by (simp add: file_after_def)
next
  case (Inr p)
  from f Inr obtain c c' where "tracked env es c" "k = rc_cycle_id c" "change c = Inr c'"
    "p = atomic_write_cycle env t c'"
    by (cases rule: on_file_cases) (auto simp: with_current_def bindE_Inr_iff split: if_splits)
  then show ?thesis
    using Inr written_on_file [OF change] by (simp add: file_after_def)
qed

lemma request_step:
  assumes "on_file env es f"
  shows "on_file env (es @ [(t, Ev_Request)]) (file_after f (request_review env t f))"
proof -
  define new where "new n rs = \<lparr>rc_cycle_id = n, rc_state = REQUESTED, rc_requested_at = pe_iso env t,
     rc_started_at = JNull, rc_resolved_at = JNull, rc_proof = None, rc_resolutions = rs,
     rc_redrive_attempts = 0, rc_last_redrive_at = JNull, rc_updated_at = pe_iso env t\<rparr>" for n rs
  have opened: "on_file env (es @ [(t, Ev_Request)]) (snd (atomic_write_cycle env t (new (requests es + 1) rs)))"
    if "\<forall>r \<in> set rs. verdict env es r \<and> entry_id r \<le> requests es" "sorted_wrt (<) (map entry_id rs)" for rs
    by (rule written_on_file)
      (use that verdict_more in \<open>force simp: tracked_def new_def rc_is_resolved_def TERMINAL_STATES_def\<close>)
  from assms show ?thesis
  proof (cases rule: on_file_cases)
    case missing
    then show ?thesis using opened [of "[]"] by (simp add: request_review_def file_after_def new_def)
  next
    case (cycle c)
    then have "rc_cycle_id c = requests es" "sorted_wrt (<) (map entry_id (rc_resolutions c))"
      "\<forall>r \<in> set (rc_resolutions c). verdict env es r \<and> entry_id r \<le> requests es"
      by (auto simp: tracked_def)
    then show ?thesis
      using opened [of "rc_resolutions c"] cycle(1) by (simp add: request_review_def file_after_def new_def)
  qed
qed

lemma start_keeps:
  assumes "tracked env es c" "start_cycle env t m d c = Inr c'" "rc_cycle_id c = k"
  shows "tracked env (es @ [(t, Ev_Started k m d)]) c'"
proof (cases "rc_state c = REQUESTED")
  case True
  then show ?thesis
    using assms verdict_more engaged_now
    by (auto simp: tracked_def start_cycle_def ensure_transition_def rc_is_resolved_def TERMINAL_STATES_def)
next
  case False
  then have "c' = c" using assms(1,2) by (auto simp: start_cycle_def tracked_def)
  then show ?thesis using tracked_more [OF assms(1)] by simp
qed

lemma resolve_keeps:
  assumes "tracked env es c" "resolve_cycle env t ok d c = Inr c'" "rc_cycle_id c = k"
  shows "tracked env (es @ [(t, Ev_Resolve k ok d)]) c'"
proof -
  let ?s = "if ok then APPROVED else CHANGES_REQUESTED"
  let ?r = "resolution_entry env t k ?s d"
  have state: "rc_state c = STARTED" and
    c': "c' = c\<lparr>rc_state := ?s, rc_resolved_at := JStr (pe_iso env t), rc_resolutions := rc_resolutions c @ [?r]\<rparr>"
    using assms(2,3)
    by (cases "rc_state c"; auto simp: resolve_cycle_def ensure_transition_def Let_def split: if_splits)+
  have open_c: "\<not> rc_is_resolved c" using state by (simp add: rc_is_resolved_def TERMINAL_STATES_def)
  have "engaged es k" using assms(1,3) state by (auto simp: tracked_def)
  then have "verdict env (es @ [(t, Ev_Resolve k ok d)]) ?r"
    using verdict_now assms(1,3) by (simp add: tracked_def)
  moreover have "\<forall>r \<in> set (rc_resolutions c). entry_id r < k"
    using assms(1,3) open_c by (force simp: tracked_def)
  ultimately show ?thesis
    using tracked_more [OF assms(1), of "(t, Ev_Resolve k ok d)"] assms(3) state
    by (auto simp: c' tracked_def sorted_wrt_append rc_is_resolved_def TERMINAL_STATES_def)
qed

lemma history_on_file: "on_file env es (foldl (review_step env) None es)"
proof (induction es rule: rev_induct)
  case (snoc e es)
  obtain t ev where e: "e = (t, ev)" by (cases e)
  show ?case
  proof (cases ev)
    case Ev_Request
    then show ?thesis using request_step [OF snoc] by (simp add: e)
  next
    case (Ev_Started k m d)
    then show ?thesis
      using with_current_step [OF snoc, of "(t, Ev_Started k m d)"] start_keeps
      by (simp add: e record_started_def)
  next
    case (Ev_Resolve k ok d)
    then show ?thesis
      using with_current_step [OF snoc, of "(t, Ev_Resolve k ok d)"] resolve_keeps
      by (simp add: e resolve_review_def)
  next
    case (Ev_Redrive k)
    have "on_file env (es @ [(t, Ev_Redrive k)])
        (file_after (foldl (review_step env) None es) (record_redrive env t k (foldl (review_step env) None es)))"
      unfolding record_redrive_def
      by (rule with_current_step [OF snoc]) (use tracked_more tracked_redriven in auto)
    then show ?thesis by (simp add: e Ev_Redrive)
  qed
qed (simp add: on_file_def)

text \<open>C36: a verdict needs a review. Whatever sequence of requests, engagements, resolutions and strikes is tried,
  under whatever cycle ids, each entry in the log of resolutions belongs to a cycle that was requested, in which
  a reviewer engaged, and which was resolved under its own id before the next request; no cycle has two entries,
  and the current cycle is resolved exactly when it has one.\<close>

theorem verdict_needs_engagement:
  assumes "load_cycle env now (foldl (review_step env) None es) = Inr (Some c)"
  shows "(\<forall>r \<in> set (rc_resolutions c). \<exists>a t k m d b t' ok d' z.
      es = a @ (t, Ev_Started k m d) # b @ (t', Ev_Resolve k ok d') # z \<and> requests a = k \<and> requests b = 0 \<and>
      r = resolution_entry env t' k (if ok then APPROVED else CHANGES_REQUESTED) d') \<and>
    sorted_wrt (<) (map entry_id (rc_resolutions c)) \<and> rc_cycle_id c = requests es \<and>
    (rc_is_resolved c \<longleftrightarrow> rc_cycle_id c \<in> entry_id ` set (rc_resolutions c))"
proof -
  have "tracked env es c"
    using history_on_file [of env es] assms by (auto simp: on_file_def)
  then show ?thesis by (simp add: tracked_def verdict_def)
qed

definition review_events :: "(int \<times> review_event) list" where
  "review_events = [(0, Ev_Request), (1, Ev_Resolve 1 True []), (2, Ev_Request), (3, Ev_Started 1 ''old'' []),
     (4, Ev_Started 2 ''reviewer_first_action'' []), (5, Ev_Resolve 2 True []), (6, Ev_Resolve 2 False [])]"

lemma review_events_end:
  "load_cycle plain_env 7 (foldl (review_step plain_env) None review_events)
   = Inr (Some \<lparr>rc_cycle_id = 2, rc_state = APPROVED, rc_requested_at = ''2'', rc_started_at = JStr ''4'',
       rc_resolved_at = JStr ''5'',
       rc_proof = Some \<lparr>ep_cycle_id = 2, ep_marker = ''reviewer_first_action'', ep_recorded_at = ''4'', ep_detail = []\<rparr>,
       rc_resolutions = [resolution_entry plain_env 5 2 APPROVED []], rc_redrive_attempts = 0,
       rc_last_redrive_at = JNull, rc_updated_at = ''5''\<rparr>)"
  by code_simp

lemma verdict_needs_engagement_witness: "requests review_events = 2"
  using verdict_needs_engagement [OF review_events_end] by simp

text \<open>The ids restart when the file cannot be read: an engagement with the first cycle then counts for the new one.\<close>

lemma unreadable_file_restarts_ids:
  "record_started plain_env 9 1 ''old'' [] (file_after None (request_review plain_env 8 (Some (JStr ''{''))))
   = Inr (atomic_write_cycle plain_env 9 \<lparr>rc_cycle_id = 1, rc_state = STARTED, rc_requested_at = ''8'',
       rc_started_at = JStr ''9'', rc_resolved_at = JNull,
       rc_proof = Some \<lparr>ep_cycle_id = 1, ep_marker = ''old'', ep_recorded_at = ''9'', ep_detail = []\<rparr>,
       rc_resolutions = [], rc_redrive_attempts = 0, rc_last_redrive_at = JNull, rc_updated_at = ''9''\<rparr>)"
  by code_simp

section \<open>Strikes\<close>

text \<open>A stuck review: requested at \<open>t0\<close>, struck \<open>n\<close> times, the last time (or the request) at \<open>a\<close>.\<close>

definition stuck :: "py_env \<Rightarrow> int \<Rightarrow> int \<Rightarrow> int \<Rightarrow> review_cycle \<Rightarrow> bool" where
  "stuck env t0 n a c \<longleftrightarrow> rc_state c = REQUESTED \<and> rc_requested_at c = pe_iso env t0 \<and> rc_redrive_attempts c = n \<and>
     (if rc_last_redrive_at c = JNull then a = t0 else rc_last_redrive_at c = JStr (pe_iso env a))"

definition due :: "rat \<Rightarrow> int \<Rightarrow> int \<Rightarrow> bool" where
  "due timeout a t \<longleftrightarrow> of_int (t - a) / 1000000 \<ge> timeout"

fun is_nudge :: "writer_call \<Rightarrow> bool" where
  "is_nudge (Enqueue d m r s u) = True"
| "is_nudge (Write_Control d s r u) = False"

lemma poll_stuck:
  assumes env: "iso_reads_back env" and s: "stuck env t0 n a c" and w: "\<And>call. \<exists>v. send call = Inr v"
  defines "f \<equiv> Some (JObj (cycle_to_dict c))"
  shows "if due timeout t0 t \<and> due timeout a t
    then \<exists>call c'. po_calls (process_untouched_review env send main wt timeout limit rcp t f) = [call] \<and>
      (is_nudge call \<longleftrightarrow> n < limit) \<and>
      po_file (process_untouched_review env send main wt timeout limit rcp t f) = Some (JObj (cycle_to_dict c')) \<and>
      stuck env t0 (n + 1) t c'
    else process_untouched_review env send main wt timeout limit rcp t f
      = \<lparr>po_file = f, po_calls = [], po_action = Inr None\<rparr>"
proof -
  have untouched: "is_untouched env timeout t c \<longleftrightarrow> due timeout t0 t"
    using s env by (simp add: is_untouched_def elapsed_def stuck_def due_def)
  have window: "redrive_window_elapsed env timeout t c \<longleftrightarrow> due timeout a t"
    using s env by (auto simp: redrive_window_elapsed_def elapsed_def stuck_def due_def split: if_splits)
  show ?thesis
  proof (cases "due timeout t0 t \<and> due timeout a t")
    case True
    obtain v where v: "send (if rc_redrive_attempts c < limit
        then Enqueue (case wt of Some w \<Rightarrow> w | None \<Rightarrow> main) (nudge_text (rc_cycle_id c)) rcp ''review_obligation''
               (''Begin review (cycle '' @ str_of_int (rc_cycle_id c) @ '')'')
        else Write_Control main ''human_review'' (escalation_reason (rc_cycle_id c) (rc_redrive_attempts c))
               ''review_redrive'') = Inr v"
      using w by blast
    have "stuck env t0 (n + 1) t (c\<lparr>rc_redrive_attempts := rc_redrive_attempts c + 1,
        rc_last_redrive_at := JStr (pe_iso env t), rc_updated_at := pe_iso env t\<rparr>)"
      using s by (simp add: stuck_def)
    moreover have "rc_redrive_attempts c = n" using s by (simp add: stuck_def)
    ultimately show ?thesis
      using True untouched window v
      by (auto simp: process_untouched_review_def detect_untouched_review_def f_def record_redrive_def
          with_current_def atomic_write_cycle_def Let_def)
  next
    case False
    then show ?thesis
      using untouched window by (auto simp: process_untouched_review_def detect_untouched_review_def f_def)
  qed
qed

text \<open>A series of polls, and the calls they make.\<close>

fun strikes :: "py_env \<Rightarrow> writers \<Rightarrow> string \<Rightarrow> string option \<Rightarrow> rat \<Rightarrow> int \<Rightarrow> string \<Rightarrow> int list \<Rightarrow> cycle_file
    \<Rightarrow> (int \<times> writer_call) list" where
  "strikes env send main wt timeout limit rcp [] f = []"
| "strikes env send main wt timeout limit rcp (t # ts) f =
     (let p = process_untouched_review env send main wt timeout limit rcp t f
      in map (Pair t) (po_calls p) @ strikes env send main wt timeout limit rcp ts (po_file p))"

lemma strikes_from:
  assumes env: "iso_reads_back env" and w: "\<And>call. \<exists>v. send call = Inr v" and "stuck env t0 n a c"
  shows "let xs = strikes env send main wt timeout limit rcp ts (Some (JObj (cycle_to_dict c))) in
    (\<forall>x \<in> set xs. due timeout t0 (fst x)) \<and> successively (\<lambda>x y. due timeout (fst x) (fst y)) xs \<and>
    (xs \<noteq> [] \<longrightarrow> due timeout a (fst (hd xs))) \<and> (\<forall>i < length xs. is_nudge (snd (xs ! i)) \<longleftrightarrow> n + int i < limit)"
  using assms(3)
proof (induction ts arbitrary: n a c)
  case (Cons t ts)
  let ?p = "process_untouched_review env send main wt timeout limit rcp t (Some (JObj (cycle_to_dict c)))"
  show ?case
  proof (cases "due timeout t0 t \<and> due timeout a t")
    case True
    then obtain call c' where p: "po_calls ?p = [call]" "is_nudge call \<longleftrightarrow> n < limit"
      "po_file ?p = Some (JObj (cycle_to_dict c'))" "stuck env t0 (n + 1) t c'"
      using poll_stuck [where send = send and timeout = timeout and t = t and main = main and wt = wt and limit = limit
          and rcp = rcp, OF env Cons.prems w] by auto
    define xs where "xs = strikes env send main wt timeout limit rcp ts (Some (JObj (cycle_to_dict c')))"
    have "strikes env send main wt timeout limit rcp (t # ts) (Some (JObj (cycle_to_dict c))) = (t, call) # xs"
      by (simp add: p Let_def xs_def)
    moreover note Cons.IH [OF p(4), folded xs_def]
    ultimately show ?thesis
      using True p(2) by (auto simp: Let_def successively_Cons nth_Cons split: nat.splits)
  next
    case False
    then have "?p = \<lparr>po_file = Some (JObj (cycle_to_dict c)), po_calls = [], po_action = Inr None\<rparr>"
      using poll_stuck [where send = send and timeout = timeout and t = t and main = main and wt = wt and limit = limit
          and rcp = rcp, OF env Cons.prems w] by (simp only: if_False)
    then show ?thesis using Cons.IH [OF Cons.prems] by (simp add: Let_def)
  qed
qed simp



end
