(* ===== verification/Saml_Login.thy ===== *)
theory Saml_Login
  imports Py_Json
begin

text \<open>
  What protects a SAML login: the cache of accepted assertions (\<open>web-server/saml/replay_cache.py\<close>) and the signed
  token that ties the answer of the identity provider to a login that was started here
  (\<open>web-server/saml/relay_state.py\<close>). Times are seconds since the epoch.
\<close>

section \<open>The replay cache\<close>

text \<open>The entries of the ordered dictionary, the oldest first.\<close>

record replay_cache =
  sr_max_size :: int
  sr_entries :: "(string \<times> rat) list"

definition new_cache :: "int \<Rightarrow> replay_cache" where
  "new_cache max_size = \<lparr>sr_max_size = max_size, sr_entries = []\<rparr>"

definition sweep :: "rat \<Rightarrow> (string \<times> rat) list \<Rightarrow> (string \<times> rat) list" where
  "sweep now entries = filter (\<lambda>(k, e). \<not> e \<le> now) entries"

text \<open>Evicting the oldest entry raises when there is none, which needs a size that is not positive.\<close>

definition check_and_add :: "rat \<Rightarrow> string \<Rightarrow> rat \<Rightarrow> replay_cache \<Rightarrow> (py_error + bool) \<times> replay_cache" where
  "check_and_add now assertion_id exp_epoch c =
     (if exp_epoch \<le> now then (Inr False, c)
      else let entries = sweep now (sr_entries c)
           in if assertion_id \<in> fst ` set entries then (Inr False, c\<lparr>sr_entries := entries\<rparr>)
              else if int (length entries) \<ge> sr_max_size c
              then (case entries of
                      [] \<Rightarrow> (Inl (KeyError ''dictionary is empty''), c\<lparr>sr_entries := []\<rparr>)
                    | _ # rest \<Rightarrow> (Inr True, c\<lparr>sr_entries := rest @ [(assertion_id, exp_epoch)]\<rparr>))
              else (Inr True, c\<lparr>sr_entries := entries @ [(assertion_id, exp_epoch)]\<rparr>))"

definition cache_len :: "replay_cache \<Rightarrow> nat" where
  "cache_len c = length (sr_entries c)"

definition clear_cache :: "replay_cache \<Rightarrow> replay_cache" where
  "clear_cache c = c\<lparr>sr_entries := []\<rparr>"

section \<open>Base 64\<close>

text \<open>The URL-safe alphabet.\<close>

definition b64_char :: "nat \<Rightarrow> char" where
  "b64_char n = (if n < 26 then char_of (65 + n) else if n < 52 then char_of (71 + n)
     else if n < 62 then char_of (n - 4) else if n = 62 then CHR ''-'' else CHR ''_'')"

text \<open>The decoder takes the signs of both alphabets.\<close>

definition b64_val :: "char \<Rightarrow> nat option" where
  "b64_val c =
     (let n = of_char c :: nat in
      if 65 \<le> n \<and> n \<le> 90 then Some (n - 65) else if 97 \<le> n \<and> n \<le> 122 then Some (n - 71)
      else if 48 \<le> n \<and> n \<le> 57 then Some (n + 4)
      else if c = CHR ''-'' \<or> c = CHR ''+'' then Some 62
      else if c = CHR ''_'' \<or> c = CHR ''/'' then Some 63 else None)"

fun six_bits :: "nat list \<Rightarrow> nat list" where
  "six_bits [] = []"
| "six_bits [a] = [a div 4, (a mod 4) * 16]"
| "six_bits [a, b] = [a div 4, (a mod 4) * 16 + b div 16, (b mod 16) * 4]"
| "six_bits (a # b # c # xs) =
     [a div 4, (a mod 4) * 16 + b div 16, (b mod 16) * 4 + c div 64, c mod 64] @ six_bits xs"

text \<open>\<open>urlsafe_b64encode\<close> without its padding.\<close>

definition b64url :: "string \<Rightarrow> string" where
  "b64url data = map b64_char (six_bits (map of_char data))"

text \<open>
  The decoder of \<open>binascii\<close>: the position in the group of four, the bits left over, and the number of padding
  signs in a row. Other characters are skipped; enough padding ends the text.
\<close>

fun a2b :: "nat \<Rightarrow> nat \<Rightarrow> nat \<Rightarrow> string \<Rightarrow> string option" where
  "a2b pos left pads [] = (if pos = 0 then Some [] else None)"
| "a2b pos left pads (c # cs) =
     (if c = CHR ''='' then
        (if pos \<ge> 2 then (if pos + Suc pads \<ge> 4 then Some [] else a2b pos left (Suc pads) cs)
         else a2b pos left pads cs)
      else case b64_val c of
        None \<Rightarrow> a2b pos left pads cs
      | Some v \<Rightarrow>
          if pos = 0 then a2b 1 v 0 cs
          else if pos = 1 then map_option (Cons (char_of (left * 4 + v div 16))) (a2b 2 (v mod 16) 0 cs)
          else if pos = 2 then map_option (Cons (char_of (left * 16 + v div 4))) (a2b 3 (v mod 4) 0 cs)
          else map_option (Cons (char_of (left * 64 + v))) (a2b 0 0 0 cs))"

definition b64url_decode :: "string \<Rightarrow> string option" where
  "b64url_decode data = a2b 0 0 0 (data @ replicate (nat ((- int (length data)) mod 4)) (CHR ''=''))"

section \<open>The relay state\<close>

definition VALIDITY_SECONDS :: int where "VALIDITY_SECONDS = 10 * 60"

record relay_payload =
  re_nonce :: json
  re_exp :: int
  re_return_to :: json
  re_idp :: json

text \<open>
  The HMAC of a key and a text, and the two directions of \<open>json\<close>; \<open>loads\<close> is \<open>None\<close> for bytes that are no
  text or no JSON.
\<close>

record signer =
  sg_hmac :: "string \<Rightarrow> string \<Rightarrow> string"
  sg_dumps :: "obj \<Rightarrow> string"
  sg_loads :: "string \<Rightarrow> json option"

definition relay_fields :: "string \<Rightarrow> int \<Rightarrow> string \<Rightarrow> string \<Rightarrow> obj" where
  "relay_fields nonce expiry return_to idp =
     [(''nonce'', JStr nonce), (''exp'', JInt expiry), (''return_to'', JStr return_to), (''idp'', JStr idp)]"

definition mint :: "signer \<Rightarrow> string \<Rightarrow> rat \<Rightarrow> string \<Rightarrow> string \<Rightarrow> string \<Rightarrow> string" where
  "mint g nonce now secret_key idp return_to =
     (let payload_b64 = b64url (sg_dumps g (relay_fields nonce (\<lfloor>now\<rfloor> + VALIDITY_SECONDS) return_to idp))
      in payload_b64 @ ''.'' @ b64url (sg_hmac g secret_key payload_b64))"

datatype relay_error = Missing_Signature | Bad_Signature_B64 | Signature_Mismatch | Bad_Payload | Missing_Fields
  | Expired | Relay_Raises py_error

definition required_fields :: "string list" where
  "required_fields = [''nonce'', ''exp'', ''return_to'', ''idp'']"

text \<open>\<open>required.issubset(payload)\<close> for each type of JSON value, then the look-ups.\<close>

definition read_payload :: "rat \<Rightarrow> json \<Rightarrow> relay_error + relay_payload" where
  "read_payload now payload =
     (case payload of
        JObj d \<Rightarrow>
          if \<not> set required_fields \<subseteq> fst ` set d then Inl Missing_Fields
          else (case py_int (get_or ''exp'' JNull d) of
                  Inl e \<Rightarrow> Inl (Relay_Raises e)
                | Inr expiry \<Rightarrow>
                    if expiry \<le> \<lfloor>now\<rfloor> then Inl Expired
                    else Inr \<lparr>re_nonce = get_or ''nonce'' JNull d, re_exp = expiry,
                              re_return_to = get_or ''return_to'' JNull d, re_idp = get_or ''idp'' JNull d\<rparr>)
      | JList xs \<Rightarrow> Inl (if JStr ` set required_fields \<subseteq> set xs then Relay_Raises (TypeError ''exp'') else Missing_Fields)
      | JStr s \<Rightarrow> Inl Missing_Fields
      | _ \<Rightarrow> Inl (Relay_Raises (TypeError ''issubset'')))"

definition verify :: "signer \<Rightarrow> rat \<Rightarrow> string \<Rightarrow> string \<Rightarrow> relay_error + relay_payload" where
  "verify g now secret_key token =
     (if CHR ''.'' \<notin> set token then Inl Missing_Signature
      else let payload_b64 = takeWhile (\<lambda>c. c \<noteq> CHR ''.'') token; sig_b64 = drop (Suc (length payload_b64)) token
           in case b64url_decode sig_b64 of
                None \<Rightarrow> Inl Bad_Signature_B64
              | Some actual_sig \<Rightarrow>
                  if sg_hmac g secret_key payload_b64 \<noteq> actual_sig then Inl Signature_Mismatch
                  else case b64url_decode payload_b64 of
                    None \<Rightarrow> Inl Bad_Payload
                  | Some bytes \<Rightarrow>
                      (case sg_loads g bytes of None \<Rightarrow> Inl Bad_Payload | Some payload \<Rightarrow> read_payload now payload))"

end
