(* ===== verification/Saml_Props.thy ===== *)
theory Saml_Props
  imports Saml_Login
begin

text \<open>The replay cache keeps its promise unless it overflows, and a minted relay state is read back.\<close>

section \<open>The cache\<close>

fun checks :: "(rat \<times> string \<times> rat) list \<Rightarrow> replay_cache \<Rightarrow> (py_error + bool) list \<times> replay_cache" where
  "checks [] c = ([], c)"
| "checks ((now, i, e) # cs) c =
     (case check_and_add now i e c of (r, c') \<Rightarrow> case checks cs c' of (rs, c'') \<Rightarrow> (r # rs, c''))"

definition accepted :: "(py_error + bool) list \<Rightarrow> int" where
  "accepted rs = int (length (filter (\<lambda>r. r = Inr True) rs))"

lemma accepted_simps [simp]:
  "accepted [] = 0" "accepted (r # rs) = (if r = Inr True then 1 else 0) + accepted rs"
  by (simp_all add: accepted_def)

lemma accepted_nonneg: "0 \<le> accepted rs"
  by (simp add: accepted_def)

lemma max_size_kept [simp]: "sr_max_size (snd (check_and_add now i e c)) = sr_max_size c"
  by (simp add: check_and_add_def Let_def split: list.splits)

lemma checks_max_size [simp]: "sr_max_size (snd (checks cs c)) = sr_max_size c"
proof (induction cs c rule: checks.induct)
  case (2 now i e cs c)
  obtain r c' where s: "check_and_add now i e c = (r, c')" by fastforce
  then have "sr_max_size c' = sr_max_size c" using max_size_kept [of now i e c] by simp
  then show ?case using 2 s by (auto split: prod.splits)
qed simp

text \<open>An accepted assertion is on file, with at most the later ones behind it, or as many as fit were accepted since.\<close>

definition remembered :: "string \<Rightarrow> rat \<Rightarrow> int \<Rightarrow> replay_cache \<Rightarrow> bool" where
  "remembered i e n c \<longleftrightarrow>
     n \<ge> sr_max_size c \<or> (\<exists>older newer. sr_entries c = older @ (i, e) # newer \<and> int (length newer) \<le> n)"

lemma remembered_at: "sr_entries c = older @ (i, e) # newer \<Longrightarrow> int (length newer) \<le> n \<Longrightarrow> remembered i e n c"
  unfolding remembered_def by blast

lemma remembered_accept:
  assumes "check_and_add now i e c = (Inr True, c')"
  shows "remembered i e 0 c'"
proof -
  have "\<exists>older. sr_entries c' = older @ [(i, e)]"
    using assms by (auto simp: check_and_add_def Let_def split: if_splits list.splits)
  then show ?thesis by (auto simp: remembered_def)
qed

lemma remembered_step:
  assumes "remembered i e n c" "now < e"
  shows "remembered i e (n + accepted [fst (check_and_add now j d c)]) (snd (check_and_add now j d c))"
proof (cases "n \<ge> sr_max_size c")
  case True
  then show ?thesis by (auto simp: remembered_def)
next
  case False
  then obtain older newer where es: "sr_entries c = older @ (i, e) # newer" "int (length newer) \<le> n"
    using assms(1) by (auto simp: remembered_def)
  define a where "a = sweep now older"
  define b where "b = sweep now newer"
  have "length b \<le> length newer" by (simp add: b_def sweep_def)
  then have b: "int (length b) \<le> n" using es(2) by linarith
  have swept: "sweep now (sr_entries c) = a @ (i, e) # b"
    using es(1) assms(2) by (auto simp: sweep_def a_def b_def)
  show ?thesis
  proof (cases "d \<le> now \<or> j \<in> fst ` set (a @ (i, e) # b)")
    case True
    then show ?thesis
      using es b swept by (auto simp: check_and_add_def remembered_def Let_def)
  next
    case new: False
    show ?thesis
    proof (cases "int (length (a @ (i, e) # b)) \<ge> sr_max_size c")
      case full: True
      show ?thesis
      proof (cases a)
        case Nil
        then show ?thesis using full new swept b by (auto simp: check_and_add_def remembered_def Let_def)
      next
        case (Cons p ps)
        then have "check_and_add now j d c = (Inr True, c\<lparr>sr_entries := ps @ (i, e) # (b @ [(j, d)])\<rparr>)"
          using full new swept by (simp add: check_and_add_def)
        moreover have "remembered i e (n + 1) (c\<lparr>sr_entries := ps @ (i, e) # (b @ [(j, d)])\<rparr>)"
          by (rule remembered_at) (use b in auto)
        ultimately show ?thesis by simp
      qed
    next
      case False
      then have "check_and_add now j d c = (Inr True, c\<lparr>sr_entries := a @ (i, e) # (b @ [(j, d)])\<rparr>)"
        using new swept by (simp add: check_and_add_def)
      moreover have "remembered i e (n + 1) (c\<lparr>sr_entries := a @ (i, e) # (b @ [(j, d)])\<rparr>)"
        by (rule remembered_at) (use b in auto)
      ultimately show ?thesis by simp
    qed
  qed
qed

lemma remembered_checks:
  assumes "remembered i e n c" "\<forall>x \<in> set cs. fst x < e"
  shows "remembered i e (n + accepted (fst (checks cs c))) (snd (checks cs c))"
  using assms
proof (induction cs c arbitrary: n rule: checks.induct)
  case (2 now j d cs c)
  obtain r c' where s: "check_and_add now j d c = (r, c')" by fastforce
  have "remembered i e (n + accepted [r]) c'"
    using remembered_step [OF 2(2), of now j d] 2(3) s by simp
  from 2(1) [OF s [symmetric] this] 2(3) s show ?case
    by (auto simp: add.assoc split: prod.splits)
qed simp

text \<open>No replay without an overflow. When the cache accepts an assertion that it accepted before, at a time when
  the first one is still valid, it accepted at least as many other assertions in between as it has room for.\<close>

theorem replay_needs_overflow:
  assumes "checks ((t, i, e) # cs @ [(t', i, e')]) c = (Inr True # rs @ [Inr True], c')" "length rs = length cs"
    and "\<forall>x \<in> set cs. fst x \<le> t'" "t' < e"
  shows "int (length (filter (\<lambda>r. r = Inr True) rs)) \<ge> sr_max_size c"
proof -
  obtain c1 where c1: "check_and_add t i e c = (Inr True, c1)" "checks (cs @ [(t', i, e')]) c1 = (rs @ [Inr True], c')"
    using assms(1) by (auto split: prod.splits)
  have split: "checks (xs @ ys) k = (let (r, k1) = checks xs k; (s, k2) = checks ys k1 in (r @ s, k2))" for xs ys k
    by (induction xs k rule: checks.induct) (auto split: prod.splits)
  obtain c2 where c2: "checks cs c1 = (rs, c2)" "fst (check_and_add t' i e' c2) = Inr True"
    using c1(2) by (auto simp: split Let_def split: prod.splits)
  have size: "sr_max_size c2 = sr_max_size c"
    using c1(1) c2(1) by (metis checks_max_size max_size_kept snd_conv)
  have "remembered i e (accepted rs) c2"
    using remembered_checks [OF remembered_accept [OF c1(1)], of cs] assms(3,4) c2(1) by fastforce
  moreover have "i \<notin> fst ` set (sweep t' (sr_entries c2))"
    using c2(2) by (auto simp: check_and_add_def Let_def split: if_splits list.splits)
  moreover have "i \<in> fst ` set (sweep t' (sr_entries c2))" if "(i, e) \<in> set (sr_entries c2)"
    using that assms(4) by (force simp: sweep_def)
  ultimately have "sr_max_size c \<le> accepted rs"
    using size by (auto simp: remembered_def)
  then show ?thesis by (simp add: accepted_def)
qed

text \<open>C: the cache does its duty. It never holds more than its size, it accepts exactly what
    is still valid and not on file as valid, and it never raises when its size is positive.\<close>

theorem cache_decides:
  assumes "sr_max_size c > 0" "int (cache_len c) \<le> sr_max_size c"
  shows "fst (check_and_add now i e c) = Inr (e > now \<and> (\<forall>e'. (i, e') \<in> set (sr_entries c) \<longrightarrow> e' \<le> now)) \<and>
    int (cache_len (snd (check_and_add now i e c))) \<le> sr_max_size c"
proof -
  have "length (sweep now (sr_entries c)) \<le> cache_len c"
    by (simp add: sweep_def cache_len_def)
  moreover have "i \<in> fst ` set (sweep now (sr_entries c)) \<longleftrightarrow> (\<exists>e'. (i, e') \<in> set (sr_entries c) \<and> \<not> e' \<le> now)"
    by (force simp: sweep_def)
  ultimately show ?thesis
    using assms by (auto simp: check_and_add_def cache_len_def Let_def split: list.splits)
qed

text \<open>A cache without room raises.\<close>

lemma empty_cache_raises: "fst (check_and_add 0 ''a'' 1 (new_cache 0)) = Inl (KeyError ''dictionary is empty'')"
  by (simp add: check_and_add_def new_cache_def sweep_def)

section \<open>Base 64\<close>

lemma b64_code: "n < 64 \<Longrightarrow> (of_char (b64_char n) :: nat) = (if n < 26 then 65 + n else if n < 52 then 71 + n
     else if n < 62 then n - 4 else if n = 62 then 45 else 95)"
  by (simp add: b64_char_def)

lemma b64_val_char: "n < 64 \<Longrightarrow> b64_val (b64_char n) = Some n"
proof -
  assume n: "n < 64"
  consider "n < 26" | "26 \<le> n" "n < 52" | m where "n = m + 4" "48 \<le> m" "m \<le> 57" | "n = 62" | "n = 63"
  proof -
    have "\<exists>m. n = m + 4 \<and> 48 \<le> m \<and> m \<le> 57" if "\<not> n < 26" "\<not> n < 52" "n \<noteq> 62" "n \<noteq> 63"
      using that n by (intro exI [of _ "n - 4"]) auto
    then show thesis using that by (metis not_less)
  qed
  then show ?thesis
    by cases (simp_all add: b64_val_def Let_def b64_code n, simp_all add: b64_char_def)
qed

lemma b64_char_plain:
  assumes "n < 64"
  shows "b64_char n \<noteq> CHR ''=''" "b64_char n \<noteq> CHR ''.''"
  using b64_code [OF assms] assms by (auto split: if_splits)

lemma six_bits_small: "\<forall>x \<in> set xs. x < 256 \<Longrightarrow> d \<in> set (six_bits xs) \<Longrightarrow> d < 64"
  by (induction xs rule: six_bits.induct) auto

lemma b64_step: "v < 64 \<Longrightarrow> a2b pos left pads (b64_char v # cs) =
   (if pos = 0 then a2b 1 v 0 cs
    else if pos = 1 then map_option (Cons (char_of (left * 4 + v div 16))) (a2b 2 (v mod 16) 0 cs)
    else if pos = 2 then map_option (Cons (char_of (left * 16 + v div 4))) (a2b 3 (v mod 4) 0 cs)
    else map_option (Cons (char_of (left * 64 + v))) (a2b 0 0 0 cs))"
  by (simp add: b64_val_char b64_char_plain)

lemmas [simp del] = a2b.simps(2)

lemma a2b_pad: "a2b pos left pads (CHR ''='' # cs) =
   (if pos \<ge> 2 then (if pos + Suc pads \<ge> 4 then Some [] else a2b pos left (Suc pads) cs) else a2b pos left pads cs)"
  by (simp add: a2b.simps(2))

lemma a2b_six_bits:
  "\<forall>x \<in> set xs. x < 256 \<Longrightarrow>
   a2b 0 0 0 (map b64_char (six_bits xs) @ replicate ((3 - length xs mod 3) mod 3) (CHR ''='')) = Some (map char_of xs)"
proof (induction xs rule: six_bits.induct)
  case (2 a)
  have "a div 4 * 4 + a mod 4 = a" by (rule div_mult_mod_eq)
  then show ?case using 2 by (simp add: b64_step a2b_pad numeral_2_eq_2)
next
  case (3 a b)
  have "a div 4 * 4 + (a mod 4 * 16 + b div 16) div 16 = a" "b div 16 mod 16 * 16 + b mod 16 = b"
    "a mod 4 * 16 + b div 16 < 64" "b mod 16 * 4 < 64" "a div 4 < 64" "(a mod 4 * 16 + b div 16) mod 16 = b div 16"
    using 3 by auto
  then show ?case using 3 by (simp add: b64_step a2b_pad)
next
  case (4 a b c xs)
  have "a div 4 * 4 + (a mod 4 * 16 + b div 16) div 16 = a"
    "(a mod 4 * 16 + b div 16) mod 16 * 16 + (b mod 16 * 4 + c div 64) div 4 = b"
    "(b mod 16 * 4 + c div 64) mod 4 * 64 + c mod 64 = c" "a div 4 < 64" "a mod 4 * 16 + b div 16 < 64"
    "b mod 16 * 4 + c div 64 < 64" "c mod 64 < 64"
    using 4(2) by auto
  moreover have "length (a # b # c # xs) mod 3 = length xs mod 3" by simp
  ultimately show ?case using 4 by (simp del: mod_mult_self1 mod_mult_self2 mod_mult_self3 mod_mult_self4 add: b64_step)
qed simp

lemma six_bits_pad: "nat ((- int (length (six_bits xs))) mod 4) = (3 - length xs mod 3) mod 3"
proof (induction xs rule: six_bits.induct)
  case (4 a b c xs)
  have "(- int (length (six_bits (a # b # c # xs)))) mod 4 = (- int (length (six_bits xs))) mod 4"
    by (simp add: mod_simps) presburger
  moreover have "length (a # b # c # xs) mod 3 = length xs mod 3" by simp
  ultimately show ?case using 4 by simp
qed simp_all

lemma b64url_roundtrip: "b64url_decode (b64url data) = Some data"
proof -
  have "map char_of (map (of_char :: char \<Rightarrow> nat) data) = data" by (simp add: comp_def)
  moreover have "\<forall>x \<in> set (map (of_char :: char \<Rightarrow> nat) data). x < 256" by auto
  ultimately show ?thesis
    using a2b_six_bits [of "map of_char data"] six_bits_pad [of "map of_char data"]
    by (simp add: b64url_decode_def b64url_def)
qed

lemma b64url_no_dot: "CHR ''.'' \<notin> set (b64url data)"
proof -
  have "\<forall>x \<in> set (map (of_char :: char \<Rightarrow> nat) data). x < 256" by auto
  then show ?thesis
    using six_bits_small [of "map of_char data"] b64_char_plain(2) by (fastforce simp: b64url_def)
qed

section \<open>The relay state\<close>

text \<open>A relay state that was minted here is accepted under the same key, and with the payload that was put in,
  as long as it is less than ten minutes old; after that it is refused as expired.\<close>

theorem minted_state_is_read_back:
  assumes "sg_loads g (sg_dumps g (relay_fields nonce (\<lfloor>now\<rfloor> + 600) return_to idp))
    = Some (JObj (relay_fields nonce (\<lfloor>now\<rfloor> + 600) return_to idp))"
  shows "verify g later secret (mint g nonce now secret idp return_to) =
    (if \<lfloor>now\<rfloor> + 600 > \<lfloor>later\<rfloor>
     then Inr \<lparr>re_nonce = JStr nonce, re_exp = \<lfloor>now\<rfloor> + 600, re_return_to = JStr return_to, re_idp = JStr idp\<rparr>
     else Inl Expired)"
proof -
  have "takeWhile (\<lambda>c. c \<noteq> CHR ''.'') (b64url p @ ''.'' @ q) = b64url p" for p q
    using b64url_no_dot [of p] by (auto simp: takeWhile_append)
  then show ?thesis
    using assms by (simp add: verify_def mint_def Let_def b64url_roundtrip read_payload_def relay_fields_def get_or_def
        required_fields_def VALIDITY_SECONDS_def b64url_no_dot)
qed

definition plain_signer :: signer where
  "plain_signer = \<lparr>sg_hmac = (\<lambda>k p. k @ p), sg_dumps = (\<lambda>_. ''{}''),
     sg_loads = (\<lambda>_. Some (JObj (relay_fields ''n'' 600 ''/'' ''okta'')))\<rparr>"

lemma minted_state_is_read_back_witness:
  "verify plain_signer 599 ''k'' (mint plain_signer ''n'' 0 ''k'' ''okta'' ''/'')
     = Inr \<lparr>re_nonce = JStr ''n'', re_exp = 600, re_return_to = JStr ''/'', re_idp = JStr ''okta''\<rparr>"
  using minted_state_is_read_back [of plain_signer "''n''" 0 "''/''" "''okta''" 599 "''k''"]
  by (simp add: plain_signer_def)

lemma cache_decides_witness:
  "fst (check_and_add 0 ''a'' 5 (new_cache 1)) = Inr True"
  using cache_decides [of "new_cache 1" 0 "''a''" 5] by (simp add: new_cache_def cache_len_def)

text \<open>With room for one entry, one other assertion is enough.\<close>

lemma overflow_run:
  "checks [(0, ''a'', 100), (1, ''b'', 100), (2, ''a'', 100)] (new_cache 1)
   = ([Inr True, Inr True, Inr True], \<lparr>sr_max_size = 1, sr_entries = [(''a'', 100)]\<rparr>)"
  by (auto simp: check_and_add_def new_cache_def sweep_def Let_def)

lemma replay_needs_overflow_witness: 
  "int (length (filter (\<lambda>r. r = Inr True) [Inr True :: py_error + bool])) \<ge> sr_max_size (new_cache 1)"
  using replay_needs_overflow [of 0 "''a''" 100 "[(1, ''b'', 100)]" 2 100 "new_cache 1" "[Inr True]"] overflow_run
  by simp

end
