(* ===== verification/Rate_Limiter.thy ===== *)
theory Rate_Limiter
  imports Py_Json
begin

text \<open>
  The rate limiter of the GitHub automation (\<open>runners/github/rate_limiter.py\<close>): a token bucket for the API, a budget
  for the cost of AI calls, and the decorator that retries. Times are seconds of the monotonic clock, tokens and
  dollars exact rationals. \<open>fixed n q\<close> is the text of \<open>q\<close> with \<open>n\<close> decimals.
\<close>

section \<open>The token bucket\<close>

record token_bucket =
  tb_capacity :: int
  tb_refill_rate :: rat
  tb_tokens :: rat
  tb_last_refill :: rat

definition new_bucket :: "rat \<Rightarrow> int \<Rightarrow> rat \<Rightarrow> token_bucket" where
  "new_bucket now capacity refill_rate =
     \<lparr>tb_capacity = capacity, tb_refill_rate = refill_rate, tb_tokens = of_int capacity, tb_last_refill = now\<rparr>"

definition refill :: "rat \<Rightarrow> token_bucket \<Rightarrow> token_bucket" where
  "refill now b =
     b\<lparr>tb_tokens := min (of_int (tb_capacity b)) (tb_tokens b + (now - tb_last_refill b) * tb_refill_rate b),
       tb_last_refill := now\<rparr>"

definition try_acquire :: "rat \<Rightarrow> int \<Rightarrow> token_bucket \<Rightarrow> bool \<times> token_bucket" where
  "try_acquire now tokens b =
     (let b' = refill now b
      in if tb_tokens b' \<ge> of_int tokens then (True, b'\<lparr>tb_tokens := tb_tokens b' - of_int tokens\<rparr>) else (False, b'))"

definition wait_time :: "int \<Rightarrow> token_bucket \<Rightarrow> rat" where
  "wait_time tokens b =
     (if tb_refill_rate b \<le> 0 then 1 else min ((of_int tokens - tb_tokens b) / tb_refill_rate b) 1)"

text \<open>
  The waiting loop. Each round reads the clock for the refill and, when the tokens do not suffice, for the
  time-out; the list holds these readings. The result is \<open>None\<close> while the loop still waits.
\<close>

fun acquire :: "int \<Rightarrow> rat option \<Rightarrow> rat \<Rightarrow> (rat \<times> rat) list \<Rightarrow> token_bucket \<Rightarrow> bool option \<times> token_bucket" where
  "acquire tokens timeout start [] b = (None, b)"
| "acquire tokens timeout start ((now, check) # readings) b =
     (case try_acquire now tokens b of (got, b') \<Rightarrow>
        if got then (Some True, b')
        else if (case timeout of Some limit \<Rightarrow> check - start \<ge> limit | None \<Rightarrow> False) then (Some False, b')
        else acquire tokens timeout start readings b')"

text \<open>\<open>int\<close> of a float cuts off towards zero.\<close>

definition trunc :: "rat \<Rightarrow> int" where
  "trunc q = (if q \<ge> 0 then \<lfloor>q\<rfloor> else \<lceil>q\<rceil>)"

definition available :: "rat \<Rightarrow> token_bucket \<Rightarrow> int \<times> token_bucket" where
  "available now b = (let b' = refill now b in (trunc (tb_tokens b'), b'))"

text \<open>\<open>None\<close> is infinity.\<close>

definition time_until_available :: "rat \<Rightarrow> int \<Rightarrow> token_bucket \<Rightarrow> rat option \<times> token_bucket" where
  "time_until_available now tokens b =
     (let b' = refill now b
      in if tb_tokens b' \<ge> of_int tokens then (Some 0, b')
         else if tb_refill_rate b' \<le> 0 then (None, b')
         else (Some ((of_int tokens - tb_tokens b') / tb_refill_rate b'), b'))"

section \<open>The cost of AI calls\<close>

text \<open>Dollars for a million tokens of input and of output.\<close>

definition AI_PRICING :: "(string \<times> rat \<times> rat) list" where
  "AI_PRICING =
     [(''claude-sonnet-4-20250514'', 3, 15), (''claude-opus-4-20250514'', 15, 75),
      (''claude-sonnet-3-5-20241022'', 3, 15), (''claude-haiku-3-5-20241022'', 4 / 5, 4),
      (''claude-sonnet-4-20250514-thinking'', 3, 15), (''default'', 3, 15)]"

record ai_operation =
  ao_timestamp :: string
  ao_operation :: string
  ao_model :: string
  ao_input_tokens :: int
  ao_output_tokens :: int
  ao_cost :: rat

record cost_tracker =
  ct_total_cost :: rat
  ct_cost_limit :: rat
  ct_operations :: "ai_operation list"

definition pricing_of :: "string \<Rightarrow> rat \<times> rat" where
  "pricing_of model = (case map_of AI_PRICING model of Some p \<Rightarrow> p | None \<Rightarrow> (3, 15))"

definition calculate_cost :: "int \<Rightarrow> int \<Rightarrow> string \<Rightarrow> rat" where
  "calculate_cost input_tokens output_tokens model =
     of_int input_tokens / 1000000 * fst (pricing_of model) + of_int output_tokens / 1000000 * snd (pricing_of model)"

text \<open>The two exceptions of the module, with their message, and any other, with its text.\<close>

datatype limit_error = RateLimitExceeded string | CostLimitExceeded string | ZeroDivision | Other_Error string

definition add_operation ::
    "(nat \<Rightarrow> rat \<Rightarrow> string) \<Rightarrow> string \<Rightarrow> int \<Rightarrow> int \<Rightarrow> string \<Rightarrow> string \<Rightarrow> cost_tracker
      \<Rightarrow> limit_error + rat \<times> cost_tracker" where
  "add_operation fixed timestamp input_tokens output_tokens model operation_name t =
     (let cost = calculate_cost input_tokens output_tokens model
      in if ct_total_cost t + cost > ct_cost_limit t
         then Inl (CostLimitExceeded (''Operation would exceed cost limit: $'' @ fixed 2 (ct_total_cost t + cost)
                     @ '' > $'' @ fixed 2 (ct_cost_limit t)))
         else Inr (cost, t\<lparr>ct_total_cost := ct_total_cost t + cost,
                ct_operations := ct_operations t @
                  [\<lparr>ao_timestamp = timestamp, ao_operation = operation_name, ao_model = model,
                    ao_input_tokens = input_tokens, ao_output_tokens = output_tokens, ao_cost = cost\<rparr>]\<rparr>))"

definition remaining_budget :: "cost_tracker \<Rightarrow> rat" where
  "remaining_budget t = max 0 (ct_cost_limit t - ct_total_cost t)"

text \<open>A sort in reverse order keeps the order of equal elements.\<close>

definition most_expensive :: "ai_operation list \<Rightarrow> ai_operation list" where
  "most_expensive ops = take 5 (rev (sort_key ao_cost (rev ops)))"

definition usage_report :: "(nat \<Rightarrow> rat \<Rightarrow> string) \<Rightarrow> cost_tracker \<Rightarrow> limit_error + string" where
  "usage_report fixed t =
     (if ct_cost_limit t = 0 then Inl ZeroDivision
      else Inr (py_join [CHR 10]
        ([''Cost Usage Report'', replicate 50 (CHR ''=''), ''Total Cost: $'' @ fixed 4 (ct_total_cost t),
          ''Budget: $'' @ fixed 2 (ct_cost_limit t), ''Remaining: $'' @ fixed 4 (remaining_budget t),
          ''Usage: '' @ fixed 1 (ct_total_cost t / ct_cost_limit t * 100) @ ''%'', [],
          ''Operations: '' @ str_of_int (int (length (ct_operations t)))]
         @ (if ct_operations t = [] then []
            else [[], ''Top 5 Most Expensive Operations:'']
              @ map (\<lambda>op. ''  $'' @ fixed 4 (ao_cost op) @ '' - '' @ ao_operation op @ '' ('' @
                    str_of_int (ao_input_tokens op) @ '' in, '' @ str_of_int (ao_output_tokens op) @ '' out)'')
                  (most_expensive (ct_operations t))))))"

section \<open>The limiter\<close>

record rate_limiter =
  lm_bucket :: token_bucket
  lm_cost :: cost_tracker
  lm_max_retry_delay :: rat
  lm_requests :: int
  lm_rate_limited :: int
  lm_errors :: int
  lm_start_time :: rat

text \<open>\<open>now\<close> is the reading of both clocks.\<close>

definition new_limiter :: "rat \<Rightarrow> int \<Rightarrow> rat \<Rightarrow> rat \<Rightarrow> rat \<Rightarrow> rate_limiter" where
  "new_limiter now github_limit github_refill_rate cost_limit max_retry_delay =
     \<lparr>lm_bucket = new_bucket now github_limit github_refill_rate,
      lm_cost = \<lparr>ct_total_cost = 0, ct_cost_limit = cost_limit, ct_operations = []\<rparr>,
      lm_max_retry_delay = max_retry_delay, lm_requests = 0, lm_rate_limited = 0, lm_errors = 0,
      lm_start_time = now\<rparr>"

text \<open>The instance of the class; an existing one is returned whatever the arguments are.\<close>

definition get_instance ::
    "rat \<Rightarrow> int \<Rightarrow> rat \<Rightarrow> rat \<Rightarrow> rat \<Rightarrow> rate_limiter option \<Rightarrow> rate_limiter" where
  "get_instance now github_limit github_refill_rate cost_limit max_retry_delay inst =
     (case inst of Some l \<Rightarrow> l | None \<Rightarrow> new_limiter now github_limit github_refill_rate cost_limit max_retry_delay)"

definition acquire_github ::
    "rat option \<Rightarrow> rat \<Rightarrow> (rat \<times> rat) list \<Rightarrow> rate_limiter \<Rightarrow> bool option \<times> rate_limiter" where
  "acquire_github timeout start readings l =
     (case acquire 1 timeout start readings (lm_bucket l) of (success, b) \<Rightarrow>
        let l' = l\<lparr>lm_requests := lm_requests l + 1, lm_bucket := b\<rparr>
        in (success, if success = Some False then l'\<lparr>lm_rate_limited := lm_rate_limited l' + 1\<rparr> else l'))"

definition show_wait :: "(nat \<Rightarrow> rat \<Rightarrow> string) \<Rightarrow> rat option \<Rightarrow> string" where
  "show_wait fixed w = (case w of None \<Rightarrow> ''inf'' | Some q \<Rightarrow> fixed 1 q)"

definition check_github_available ::
    "(nat \<Rightarrow> rat \<Rightarrow> string) \<Rightarrow> rat \<Rightarrow> rate_limiter \<Rightarrow> (bool \<times> string) \<times> rate_limiter" where
  "check_github_available fixed now l =
     (case available now (lm_bucket l) of (n, b) \<Rightarrow>
        if n > 0 then ((True, str_of_int n @ '' requests available''), l\<lparr>lm_bucket := b\<rparr>)
        else (case time_until_available now 1 b of (w, b') \<Rightarrow>
                ((False, ''Rate limited. Wait '' @ show_wait fixed w @ ''s for next request''), l\<lparr>lm_bucket := b'\<rparr>)))"

definition track_ai_cost ::
    "(nat \<Rightarrow> rat \<Rightarrow> string) \<Rightarrow> string \<Rightarrow> int \<Rightarrow> int \<Rightarrow> string \<Rightarrow> string \<Rightarrow> rate_limiter
      \<Rightarrow> limit_error + rat \<times> rate_limiter" where
  "track_ai_cost fixed timestamp input_tokens output_tokens model operation_name l =
     bindE (add_operation fixed timestamp input_tokens output_tokens model operation_name (lm_cost l))
       (\<lambda>(cost, t). Inr (cost, l\<lparr>lm_cost := t\<rparr>))"

definition check_cost_available :: "(nat \<Rightarrow> rat \<Rightarrow> string) \<Rightarrow> rate_limiter \<Rightarrow> bool \<times> string" where
  "check_cost_available fixed l =
     (let remaining = remaining_budget (lm_cost l)
      in if remaining > 0 then (True, ''$'' @ fixed 2 remaining @ '' budget remaining'')
         else (False, ''Cost budget exceeded ($'' @ fixed 2 (ct_total_cost (lm_cost l)) @ '')''))"

definition record_github_error :: "rate_limiter \<Rightarrow> rate_limiter" where
  "record_github_error l = l\<lparr>lm_errors := lm_errors l + 1\<rparr>"

definition statistics :: "rat \<Rightarrow> rate_limiter \<Rightarrow> obj \<times> rate_limiter" where
  "statistics now l =
     (let runtime = now - lm_start_time l
      in case available now (lm_bucket l) of (n, b) \<Rightarrow>
        ([(''runtime_seconds'', JFloat runtime),
          (''github'', JObj
             [(''total_requests'', JInt (lm_requests l)), (''rate_limited'', JInt (lm_rate_limited l)),
              (''errors'', JInt (lm_errors l)), (''available_tokens'', JInt n),
              (''requests_per_second'', JFloat (of_int (lm_requests l) / max runtime 1))]),
          (''cost'', JObj
             [(''total_cost'', JFloat (ct_total_cost (lm_cost l))), (''budget'', JFloat (ct_cost_limit (lm_cost l))),
              (''remaining'', JFloat (remaining_budget (lm_cost l))),
              (''operations'', JInt (int (length (ct_operations (lm_cost l)))))])],
         l\<lparr>lm_bucket := b\<rparr>))"

definition check_rate_limit ::
    "(nat \<Rightarrow> rat \<Rightarrow> string) \<Rightarrow> rat \<Rightarrow> string \<Rightarrow> rate_limiter \<Rightarrow> (limit_error + unit) \<times> rate_limiter" where
  "check_rate_limit fixed now operation_type l =
     (if operation_type = ''github''
      then (case check_github_available fixed now l of ((ok, msg), l') \<Rightarrow>
              (if ok then Inr () else Inl (RateLimitExceeded (''GitHub API not available: '' @ msg)), l'))
      else if operation_type = ''cost''
      then (case check_cost_available fixed l of (ok, msg) \<Rightarrow>
              (if ok then Inr () else Inl (CostLimitExceeded (''Cost budget exceeded: '' @ msg)), l))
      else (Inr (), l))"

section \<open>The decorator\<close>

text \<open>\<open>str(e)\<close> of an exception, and whether it looks like a refusal for too many requests.\<close>

fun error_text :: "limit_error \<Rightarrow> string" where
  "error_text (RateLimitExceeded m) = m"
| "error_text (CostLimitExceeded m) = m"
| "error_text ZeroDivision = ''division by zero''"
| "error_text (Other_Error m) = m"

definition looks_rate_limited :: "string \<Rightarrow> bool" where
  "looks_rate_limited e =
     (let s = py_lower e in py_in ''403'' s \<or> py_in ''429'' s \<or> py_in ''rate limit'' s)"

text \<open>
  What the outside contributes to an attempt: when it starts waiting and the clock readings of the wait, the
  reading for the message of a refusal, and what the decorated function does. Awaiting the result of a function
  that is no coroutine raises after the function has run.
\<close>

record 'a attempt =
  at_start :: rat
  at_readings :: "(rat \<times> rat) list"
  at_message :: rat
  at_call :: "limit_error + 'a"

record decorated =
  dc_github :: bool
  dc_coroutine :: bool
  dc_max_retries :: nat
  dc_base_delay :: rat

definition called :: "decorated \<Rightarrow> limit_error + 'a \<Rightarrow> limit_error + 'a" where
  "called d r = (case r of Inl e \<Rightarrow> Inl e
     | Inr v \<Rightarrow> if dc_coroutine d then Inr v else Inl (Other_Error ''object can not be used in await expression''))"

text \<open>One attempt: the token, then the call. \<open>None\<close> while it waits.\<close>

definition run_attempt ::
    "(nat \<Rightarrow> rat \<Rightarrow> string) \<Rightarrow> decorated \<Rightarrow> nat \<Rightarrow> 'a attempt \<Rightarrow> rate_limiter
      \<Rightarrow> (limit_error + 'a) option \<times> rate_limiter" where
  "run_attempt fixed d n a l =
     (if dc_github d
      then (case acquire_github (Some (if n = 0 then 30 else lm_max_retry_delay l)) (at_start a) (at_readings a) l of
              (None, l') \<Rightarrow> (None, l')
            | (Some True, l') \<Rightarrow> (Some (called d (at_call a)), l')
            | (Some False, l') \<Rightarrow>
                (case check_github_available fixed (at_message a) l' of ((ok, msg), l'') \<Rightarrow>
                   (Some (Inl (RateLimitExceeded (''GitHub API rate limit exceeded: '' @ msg))), l'')))
      else (Some (called d (at_call a)), l))"

definition backoff :: "decorated \<Rightarrow> nat \<Rightarrow> rate_limiter \<Rightarrow> rat" where
  "backoff d n l = min (dc_base_delay d * 2 ^ n) (lm_max_retry_delay l)"

text \<open>The attempts from number \<open>n\<close> on. The result is that of the call, the delays that were slept, and the limiter.\<close>

fun retry_loop ::
    "(nat \<Rightarrow> rat \<Rightarrow> string) \<Rightarrow> decorated \<Rightarrow> nat \<Rightarrow> 'a attempt list \<Rightarrow> rate_limiter
      \<Rightarrow> (limit_error + 'a) option \<times> rat list \<times> rate_limiter" where
  "retry_loop fixed d n [] l = (None, [], l)"
| "retry_loop fixed d n (a # as) l =
     (case run_attempt fixed d n a l of
        (None, l') \<Rightarrow> (None, [], l')
      | (Some (Inr v), l') \<Rightarrow> (Some (Inr v), [], l')
      | (Some (Inl (CostLimitExceeded m)), l') \<Rightarrow> (Some (Inl (CostLimitExceeded m)), [], l')
      | (Some (Inl (RateLimitExceeded m)), l') \<Rightarrow>
          if n \<ge> dc_max_retries d then (Some (Inl (RateLimitExceeded m)), [], l')
          else (case retry_loop fixed d (Suc n) as l' of (r, delays, l'') \<Rightarrow> (r, backoff d n l' # delays, l''))
      | (Some (Inl e), l') \<Rightarrow>
          if \<not> looks_rate_limited (error_text e) then (Some (Inl e), [], l')
          else if n \<ge> dc_max_retries d
          then (Some (Inl (RateLimitExceeded (''GitHub API rate limit (HTTP 403/429): '' @ error_text e))), [],
                record_github_error l')
          else (case retry_loop fixed d (Suc n) as (record_github_error l') of (r, delays, l'') \<Rightarrow>
                  (r, backoff d n l' # delays, l'')))"

definition rate_limited ::
    "(nat \<Rightarrow> rat \<Rightarrow> string) \<Rightarrow> decorated \<Rightarrow> 'a attempt list \<Rightarrow> rate_limiter
      \<Rightarrow> (limit_error + 'a) option \<times> rat list \<times> rate_limiter" where
  "rate_limited fixed d attempts l = retry_loop fixed d 0 attempts l"

end
