(* ===== verification/Rate_Props.thy ===== *)
theory Rate_Props
  imports Rate_Limiter
begin

text \<open>The bucket keeps to its rate and grants what fits into it; the budget is kept; the retries end.\<close>

section \<open>The rate\<close>

fun takes :: "(rat \<times> int) list \<Rightarrow> token_bucket \<Rightarrow> bool list \<times> token_bucket" where
  "takes [] b = ([], b)"
| "takes ((t, n) # cs) b =
     (case try_acquire t n b of (got, b') \<Rightarrow> case takes cs b' of (gots, b'') \<Rightarrow> (got # gots, b''))"

definition granted :: "(rat \<times> int) list \<Rightarrow> bool list \<Rightarrow> int" where
  "granted cs gots = sum_list (map (\<lambda>((t, n), got). if got then n else 0) (zip cs gots))"

lemma granted_simps [simp]:
  "granted [] gots = 0" "granted ((t, n) # cs) (got # gots) = (if got then n else 0) + granted cs gots"
  by (simp_all add: granted_def)

lemma refill_simps [simp]:
  "tb_capacity (refill t b) = tb_capacity b" "tb_refill_rate (refill t b) = tb_refill_rate b"
  "tb_last_refill (refill t b) = t"
  by (simp_all add: refill_def)

lemma tokens_refill: "tb_tokens (refill t b) = min (of_int (tb_capacity b)) (tb_tokens b + (t - tb_last_refill b) * tb_refill_rate b)"
  by (simp add: refill_def)

lemma try_acquire_cases:
  assumes "try_acquire t n b = (got, b')"
  shows "tb_capacity b' = tb_capacity b" "tb_refill_rate b' = tb_refill_rate b" "tb_last_refill b' = t"
    "tb_tokens b' = tb_tokens (refill t b) - (if got then of_int n else 0)"
    "got \<longleftrightarrow> tb_tokens (refill t b) \<ge> of_int n"
  using assms by (auto simp: try_acquire_def Let_def split: if_splits)

text \<open>What the bucket has and what it gave is bounded by what it had and what came in.\<close>

lemma takes_bound:
  assumes "takes cs b = (gots, b')" "sorted (map fst cs)" "\<forall>c \<in> set cs. tb_last_refill b \<le> fst c" "tb_refill_rate b \<ge> 0"
  shows "tb_tokens b' + of_int (granted cs gots) \<le> tb_tokens b + (tb_last_refill b' - tb_last_refill b) * tb_refill_rate b \<and>
    tb_refill_rate b' = tb_refill_rate b \<and> tb_capacity b' = tb_capacity b \<and>
    tb_last_refill b' = (if cs = [] then tb_last_refill b else fst (last cs))"
  using assms
proof (induction cs b arbitrary: gots b' rule: takes.induct)
  case (2 t n cs b)
  obtain got b1 gots1 where s: "try_acquire t n b = (got, b1)" "takes cs b1 = (gots1, b')" "gots = got # gots1"
    using 2(2) by (auto split: prod.splits)
  note b1 = try_acquire_cases [OF s(1)]
  have "tb_tokens b' + of_int (granted cs gots1) \<le> tb_tokens b1 + (tb_last_refill b' - t) * tb_refill_rate b \<and>
    tb_refill_rate b' = tb_refill_rate b \<and> tb_capacity b' = tb_capacity b \<and>
    tb_last_refill b' = (if cs = [] then t else fst (last cs))"
    using 2(1) [OF s(1) [symmetric] s(2)] 2(3-5) b1(1-3) by (cases "cs = []") auto
  moreover have "tb_tokens b1 + (if got then of_int n else 0) \<le> tb_tokens b + (t - tb_last_refill b) * tb_refill_rate b"
    using b1(4) by (simp add: tokens_refill)
  ultimately show ?case
    using s(3) by (auto simp: algebra_simps split: if_splits)
qed simp

lemma takes_nonneg:
  assumes "takes cs b = (gots, b')" "sorted (map fst cs)" "\<forall>c \<in> set cs. tb_last_refill b \<le> fst c"
    "tb_refill_rate b \<ge> 0" "tb_tokens b \<ge> 0" "tb_capacity b \<ge> 0"
  shows "tb_tokens b' \<ge> 0"
  using assms
proof (induction cs b arbitrary: gots b' rule: takes.induct)
  case (2 t n cs b)
  obtain got b1 gots1 where s: "try_acquire t n b = (got, b1)" "takes cs b1 = (gots1, b')"
    using 2(2) by (auto split: prod.splits)
  note b1 = try_acquire_cases [OF s(1)]
  have "tb_tokens (refill t b) \<ge> 0" using 2(4-7) by (simp add: tokens_refill)
  then have "tb_tokens b1 \<ge> 0" using b1(4,5) by (auto split: if_splits)
  then show ?case using 2(1) [OF s(1) [symmetric] s(2)] 2(3,5,7) b1 by simp
qed simp

text \<open>C38: the bucket keeps to its rate. In any stretch of a run, whatever was asked for before, the tokens granted are
  at most the capacity and what is refilled between the first and the last request of the stretch.\<close>

theorem rate_is_kept:
  assumes "takes before_cs (new_bucket now cap rate) = (gots, b)" "takes cs b = (gots', b')" "cs \<noteq> []"
    and "sorted (now # map fst (before_cs @ cs))" "cap \<ge> 0" "rate \<ge> 0"
  shows "of_int (granted cs gots') \<le> of_int cap + (fst (last cs) - fst (hd cs)) * rate"
proof -
  obtain t n ds where cs: "cs = (t, n) # ds" using assms(3) by (cases cs) auto
  have b: "tb_refill_rate b = rate" "tb_capacity b = cap" "tb_tokens b \<ge> 0"
    "tb_last_refill b = (if before_cs = [] then now else fst (last before_cs))"
    using takes_bound [OF assms(1)] takes_nonneg [OF assms(1)] assms(4-6)
    by (auto simp: sorted_append new_bucket_def)
  have later: "\<forall>c \<in> set cs. tb_last_refill b \<le> fst c" "sorted (map fst cs)"
    using b(4) assms(4) last_in_set [of before_cs] by (auto simp: sorted_append)
  obtain got b1 gots1 where s: "try_acquire t n b = (got, b1)" "takes ds b1 = (gots1, b')" "gots' = got # gots1"
    using assms(2) by (auto simp: cs split: prod.splits)
  note b1 = try_acquire_cases [OF s(1)]
  have "tb_tokens b' + of_int (granted ds gots1) \<le> tb_tokens b1 + (tb_last_refill b' - t) * rate"
    "tb_last_refill b' = (if ds = [] then t else fst (last ds))"
    using takes_bound [OF s(2)] b1(1-3) b later(2) assms(6) by (auto simp: cs)
  moreover have "tb_tokens b1 + (if got then of_int n else 0) \<le> of_int cap"
    using b1(4) b(2) by (simp add: tokens_refill)
  moreover have "tb_tokens b' \<ge> 0"
    using takes_nonneg [OF assms(2)] later b assms(5,6) by simp
  ultimately show ?thesis by (auto simp: cs s(3) split: if_splits)
qed

lemma bucket_run:
  "takes [(0, 1), (0, 1), (1, 1), (2, 1)] (new_bucket 0 2 (1 / 2))
   = ([True, True, False, True], \<lparr>tb_capacity = 2, tb_refill_rate = 1 / 2, tb_tokens = 0, tb_last_refill = 2\<rparr>)"
  by (simp add: new_bucket_def try_acquire_def refill_def Let_def)

lemma rate_is_kept_witness:
  "of_int (granted [(0, 1), (0, 1), (1, 1), (2, 1)] [True, True, False, True]) \<le> (3 :: rat)"
  using rate_is_kept [of "[]" 0 2 "1 / 2", OF _ bucket_run] by simp

section \<open>Waiting\<close>

text \<open>The readings of a loop that sleeps at least as long as it computes.\<close>

fun paced :: "int \<Rightarrow> token_bucket \<Rightarrow> (rat \<times> rat) list \<Rightarrow> bool" where
  "paced n b [] = True"
| "paced n b ((t, check) # rs) \<longleftrightarrow> t \<le> check \<and>
     (\<forall>r \<in> set (take 1 rs). fst r \<ge> check + wait_time n (refill t b)) \<and> paced n (refill t b) rs"

lemma refused_bucket: "try_acquire t n b = (False, b') \<Longrightarrow> b' = refill t b"
  by (auto simp: try_acquire_def Let_def split: if_splits)

lemma acquire_after_wait:
  assumes "tb_refill_rate b > 0" "of_int n \<le> (of_int (tb_capacity b) :: rat)" "tb_tokens b < of_int n"
    and "(of_int n - tb_tokens b) / tb_refill_rate b \<le> of_nat m" "length rs \<ge> Suc m"
    and "fst (hd rs) \<ge> tb_last_refill b + wait_time n b" "paced n b rs"
  shows "fst (acquire n None start rs b) = Some True"
  using assms
proof (induction m arbitrary: b rs)
  case 0
  then have "(of_int n - tb_tokens b) / tb_refill_rate b > 0" by simp
  with 0 show ?case by simp
next
  case (Suc m)
  obtain t check qs where rs: "rs = (t, check) # qs" using Suc.prems(5) by (cases rs) auto
  let ?w = "wait_time n b"
  let ?need = "(of_int n - tb_tokens b) / tb_refill_rate b"
  have w: "?w = min ?need 1" using Suc.prems(1) by (simp add: wait_time_def)
  have "?w * tb_refill_rate b \<le> (t - tb_last_refill b) * tb_refill_rate b"
    using Suc.prems(1,6) rs by (intro mult_right_mono) auto
  moreover have "tb_tokens b + ?need * tb_refill_rate b = of_int n" using Suc.prems(1) by simp
  ultimately have enough: "?need \<le> 1 \<Longrightarrow> tb_tokens (refill t b) \<ge> of_int n"
    and some: "?need > 1 \<Longrightarrow> tb_tokens (refill t b) \<ge> min (of_int n) (tb_tokens b + tb_refill_rate b)"
    using Suc.prems(2) by (auto simp: tokens_refill w min_def split: if_splits)
  show ?case
  proof (cases "tb_tokens (refill t b) \<ge> of_int n")
    case True
    then show ?thesis by (simp add: rs try_acquire_def Let_def)
  next
    case False
    let ?b = "refill t b"
    have "?need > 1" using False enough by (meson not_le)
    moreover from this have "tb_tokens ?b \<ge> tb_tokens b + tb_refill_rate b"
      using False some by (auto simp: min_def split: if_splits)
    ultimately have "(of_int n - tb_tokens ?b) / tb_refill_rate b \<le> (of_int n - tb_tokens b - tb_refill_rate b) / tb_refill_rate b"
      using Suc.prems(1) by (intro divide_right_mono) auto
    also have "\<dots> = ?need - 1" using Suc.prems(1) by (simp add: diff_divide_distrib)
    finally have m: "(of_int n - tb_tokens ?b) / tb_refill_rate ?b \<le> of_nat m" using Suc.prems(4) by simp
    have "fst (hd qs) \<ge> tb_last_refill ?b + wait_time n ?b" "paced n ?b qs"
      using Suc.prems(5,7) rs by (cases qs; force)+
    then have "fst (acquire n None start qs ?b) = Some True"
      using Suc.IH [of ?b qs] Suc.prems(1,2,5) False m rs by simp
    moreover have "try_acquire t n b = (False, ?b)" using False by (simp add: try_acquire_def Let_def)
    ultimately show ?thesis by (simp add: rs)
  qed
qed

text \<open>C: waiting for tokens ends. A bucket that refills, asked for no more than it can hold and left alone, grants the
  request after at most as many rounds as the missing tokens take seconds to come in, rounded up, and two more.\<close>

theorem waiting_ends:
  assumes "tb_refill_rate b > 0" "n \<le> tb_capacity b" "paced n b rs" "tb_last_refill b \<le> fst (hd rs)"
    and "(of_int n - tb_tokens b) / tb_refill_rate b \<le> of_nat m" "length rs \<ge> m + 2"
  shows "fst (acquire n None start rs b) = Some True"
proof -
  obtain t check qs where rs: "rs = (t, check) # qs" using assms(6) by (cases rs) auto
  let ?b = "refill t b"
  show ?thesis
  proof (cases "tb_tokens ?b \<ge> of_int n")
    case True
    then show ?thesis by (simp add: rs try_acquire_def Let_def)
  next
    case False
    have "(t - tb_last_refill b) * tb_refill_rate b \<ge> 0" using assms(1,4) rs by simp
    then have "tb_tokens b \<le> tb_tokens ?b"
      using False assms(2) by (simp add: tokens_refill min_def split: if_splits)
    then have "(of_int n - tb_tokens ?b) / tb_refill_rate ?b \<le> (of_int n - tb_tokens b) / tb_refill_rate b"
      using assms(1) by (simp add: divide_right_mono)
    moreover have "fst (hd qs) \<ge> tb_last_refill ?b + wait_time n ?b" "paced n ?b qs"
      using assms(3,6) rs by (cases qs; force)+
    ultimately have "fst (acquire n None start qs ?b) = Some True"
      using acquire_after_wait [of ?b n m qs start] assms False rs by simp
    moreover have "try_acquire t n b = (False, ?b)" using False by (simp add: try_acquire_def Let_def)
    ultimately show ?thesis by (simp add: rs)
  qed
qed

lemma waiting_ends_witness:
  "fst (acquire 1 None 0 [(0, 0), (1, 1), (2, 2), (3, 3)]
     \<lparr>tb_capacity = 1, tb_refill_rate = 1 / 2, tb_tokens = 0, tb_last_refill = 0\<rparr>) = Some True"
  by (rule waiting_ends [where m = 2]) (simp_all add: wait_time_def refill_def)

text \<open>A request for more than the capacity waits for ever.\<close>

lemma too_much_never_comes: "n > tb_capacity b \<Longrightarrow> fst (acquire n None start rs b) = None"
proof (induction rs arbitrary: b)
  case (Cons r rs)
  have "tb_tokens (refill (fst r) b) < of_int n"
    using Cons.prems by (simp add: tokens_refill min_less_iff_disj)
  then show ?case
    using Cons by (cases r) (simp add: try_acquire_def Let_def)
qed simp

section \<open>The budget\<close>

text \<open>The cost of the operations stays within the limit, and is what the tracker says.\<close>

lemma budget_is_kept:
  assumes "add_operation fixed ts i n model name t = Inr (cost, t')"
    "ct_total_cost t = sum_list (map ao_cost (ct_operations t))"
  shows "ct_total_cost t' = sum_list (map ao_cost (ct_operations t'))" "ct_total_cost t' \<le> ct_cost_limit t'"
    "ct_cost_limit t' = ct_cost_limit t"
  using assms by (auto simp: add_operation_def Let_def split: if_splits)

lemma free_budget_has_no_report: "usage_report fixed (lm_cost (new_limiter now n r 0 d)) = Inl ZeroDivision"
  by (simp add: usage_report_def new_limiter_def)

section \<open>Retries\<close>

lemma run_attempt_delay: "run_attempt fixed d n a l = (r, l') \<Longrightarrow> lm_max_retry_delay l' = lm_max_retry_delay l"
  by (auto simp: run_attempt_def acquire_github_def check_github_available_def available_def
      time_until_available_def Let_def split: if_splits prod.splits option.splits bool.splits)

text \<open>At most as many delays as retries, each the doubled one before, up to the maximum.\<close>

lemma retry_delays:
  assumes "retry_loop fixed d n as l = (r, delays, l')"
  shows "n + length delays \<le> max n (dc_max_retries d) \<and>
    (\<forall>i < length delays. delays ! i = min (dc_base_delay d * 2 ^ (n + i)) (lm_max_retry_delay l))"
  using assms
proof (induction as arbitrary: n l delays)
  case (Cons a as)
  obtain q l1 where s: "run_attempt fixed d n a l = (q, l1)" by fastforce
  have keep: "lm_max_retry_delay l1 = lm_max_retry_delay l" by (rule run_attempt_delay [OF s])
  have again: ?case if "retry_loop fixed d (Suc n) as l2 = (r, ds, l')" "delays = backoff d n l1 # ds"
      "lm_max_retry_delay l2 = lm_max_retry_delay l" "n < dc_max_retries d" for l2 ds
  proof -
    have "Suc n + length ds \<le> max (Suc n) (dc_max_retries d) \<and>
      (\<forall>i < length ds. ds ! i = min (dc_base_delay d * 2 ^ (Suc n + i)) (lm_max_retry_delay l))"
      using Cons.IH [OF that(1)] that(3) by simp
    then show ?thesis
      using that(2,4) keep by (auto simp: backoff_def nth_Cons split: nat.splits)
  qed
  show ?case
    using Cons.prems s keep again
    by (auto simp: record_github_error_def split: option.splits sum.splits limit_error.splits if_splits prod.splits)
qed simp

text \<open>A decorated function that is no coroutine never returns its result.\<close>

lemma plain_function_always_fails:
  assumes "\<not> dc_coroutine d"
  shows "fst (retry_loop fixed d n as l) \<noteq> Some (Inr v)"
proof (induction as arbitrary: n l)
  case (Cons a as)
  obtain q l1 where s: "run_attempt fixed d n a l = (q, l1)" by fastforce
  then have "q \<noteq> Some (Inr w)" for w
    using assms by (auto simp: run_attempt_def called_def split: if_splits prod.splits option.splits bool.splits sum.splits)
  then show ?case
    using s Cons.IH by (auto split: option.splits sum.splits limit_error.splits if_splits prod.splits) (metis fst_conv)+
qed simp

end
