(* ===== verification/Outbox.thy ===== *)
theory Outbox
  imports Py_Json "HOL-Library.List_Lexorder" "HOL-Library.Char_ord"
begin

text \<open>
  The outbox of completion events (\<open>web-server/services/outbox.py\<close>): a table of events that is written before any
  delivery, and the relay that delivers what is due. The table is the list of its rows in the order of their row
  ids. Whether the database can be opened is an argument of each call.
\<close>

section \<open>The table\<close>

record outbox_row =
  ob_id :: string
  ob_url :: string
  ob_payload :: string
  ob_correlation_key :: "string option"
  ob_created_at :: string
  ob_attempts :: int
  ob_next_attempt_at :: rat
  ob_delivered_at :: "string option"
  ob_last_error :: "string option"

definition BACKOFF_BASE_S :: rat where "BACKOFF_BASE_S = 5"
definition BACKOFF_CAP_S :: rat where "BACKOFF_CAP_S = 3600"
definition MAX_ATTEMPTS :: int where "MAX_ATTEMPTS = 25"

definition outbox_enabled :: "string option \<Rightarrow> bool" where
  "outbox_enabled var =
     (py_lower (py_strip (case var of None \<Rightarrow> [] | Some v \<Rightarrow> v)) \<in> {''1'', ''true'', ''yes'', ''on''})"

definition backoff_seconds :: "int \<Rightarrow> rat" where
  "backoff_seconds attempts = (if attempts \<le> 0 then 0 else min (BACKOFF_BASE_S * 2 ^ nat (attempts - 1)) BACKOFF_CAP_S)"

section \<open>Enqueueing\<close>

text \<open>A value bound to a column of text: \<open>None\<close> for a type that SQLite does not take.\<close>

definition bind_text :: "(json \<Rightarrow> string) \<Rightarrow> json \<Rightarrow> string option option" where
  "bind_text shown v =
     (case v of
        JNull \<Rightarrow> Some None
      | JStr s \<Rightarrow> Some (Some s)
      | JInt i \<Rightarrow> Some (Some (str_of_int i))
      | JBool b \<Rightarrow> Some (Some (if b then ''1'' else ''0''))
      | JFloat q \<Rightarrow> Some (Some (shown v))
      | _ \<Rightarrow> None)"

definition or_json :: "json \<Rightarrow> json \<Rightarrow> json" where
  "or_json a b = (if truthy a then a else b)"

definition enqueue ::
    "(json \<Rightarrow> string) \<Rightarrow> (obj \<Rightarrow> string) \<Rightarrow> bool \<Rightarrow> rat \<Rightarrow> obj \<Rightarrow> string \<Rightarrow> outbox_row list
      \<Rightarrow> bool \<times> outbox_row list" where
  "enqueue shown dumps storage_ok now event url rows =
     (let event_id = py_strip (py_str shown (or_json (get_or ''id'' JNull event) (JStr [])));
          created = or_json (get_or ''updated_at'' JNull event) (or_json (get_or ''time'' JNull event) (JStr []))
      in if event_id = [] then (False, rows)
         else if \<not> storage_ok then (False, rows)
         else (case (bind_text shown (get_or ''correlation_key'' JNull event), bind_text shown created) of
                 (Some key, Some (Some created_at)) \<Rightarrow>
                   if event_id \<in> ob_id ` set rows then (False, rows)
                   else (True, rows @
                     [\<lparr>ob_id = event_id, ob_url = url, ob_payload = dumps event, ob_correlation_key = key,
                       ob_created_at = created_at, ob_attempts = 0, ob_next_attempt_at = now,
                       ob_delivered_at = None, ob_last_error = None\<rparr>])
               | _ \<Rightarrow> (False, rows)))"

section \<open>Delivery\<close>

text \<open>The answer of the sender to its \<open>n\<close>-th call of a tick: \<open>None\<close> for success, the text of the exception else.\<close>

type_synonym sender = "nat \<Rightarrow> string \<Rightarrow> string \<Rightarrow> string option"

definition due :: "rat \<Rightarrow> outbox_row \<Rightarrow> bool" where
  "due ts r \<longleftrightarrow> ob_delivered_at r = None \<and> ob_next_attempt_at r \<le> ts"

definition select_due :: "rat \<Rightarrow> nat \<Rightarrow> outbox_row list \<Rightarrow> outbox_row list" where
  "select_due ts max_batch rows = take max_batch (sort_key ob_created_at (filter (due ts) rows))"

definition update_row :: "string \<Rightarrow> (outbox_row \<Rightarrow> outbox_row) \<Rightarrow> outbox_row list \<Rightarrow> outbox_row list" where
  "update_row i f rows = map (\<lambda>r. if ob_id r = i then f r else r) rows"

text \<open>What the outcome of a call makes of the row; \<open>attempts\<close> is the number that was read with it.\<close>

definition settle_row :: "(rat \<Rightarrow> string) \<Rightarrow> rat \<Rightarrow> int \<Rightarrow> string option \<Rightarrow> outbox_row \<Rightarrow> outbox_row" where
  "settle_row stamp ts attempts outcome r =
     (case outcome of
        None \<Rightarrow> r\<lparr>ob_delivered_at := Some (stamp ts), ob_last_error := None\<rparr>
      | Some err \<Rightarrow>
          r\<lparr>ob_attempts := attempts + 1,
            ob_next_attempt_at := (if attempts + 1 \<ge> MAX_ATTEMPTS then ts + BACKOFF_CAP_S * 24
                                   else ts + backoff_seconds (attempts + 1)),
            ob_last_error := Some err\<rparr>)"

record tally =
  ty_delivered :: int
  ty_failed :: int
  ty_abandoned :: int

definition count_outcome :: "int \<Rightarrow> string option \<Rightarrow> tally \<Rightarrow> tally" where
  "count_outcome attempts outcome t =
     (case outcome of
        None \<Rightarrow> t\<lparr>ty_delivered := ty_delivered t + 1\<rparr>
      | Some _ \<Rightarrow> if attempts + 1 \<ge> MAX_ATTEMPTS then t\<lparr>ty_abandoned := ty_abandoned t + 1\<rparr>
                  else t\<lparr>ty_failed := ty_failed t + 1\<rparr>)"

text \<open>The calls of the sender are part of the result: the address, the payload and the answer.\<close>

fun deliver_rows ::
    "(rat \<Rightarrow> string) \<Rightarrow> rat \<Rightarrow> sender \<Rightarrow> nat \<Rightarrow> outbox_row list \<Rightarrow> tally \<times> outbox_row list
      \<Rightarrow> (string \<times> string \<times> string option) list \<times> tally \<times> outbox_row list" where
  "deliver_rows stamp ts send n [] st = ([], st)"
| "deliver_rows stamp ts send n (r # rs) st =
     (let outcome = send n (ob_url r) (ob_payload r)
      in case deliver_rows stamp ts send (Suc n) rs
                (count_outcome (ob_attempts r) outcome (fst st),
                 update_row (ob_id r) (settle_row stamp ts (ob_attempts r) outcome) (snd st)) of
           (calls, st') \<Rightarrow> ((ob_url r, ob_payload r, outcome) # calls, st'))"

definition pending_count :: "bool \<Rightarrow> outbox_row list \<Rightarrow> int" where
  "pending_count storage_ok rows =
     (if storage_ok then int (length (filter (\<lambda>r. ob_delivered_at r = None) rows)) else 0)"

definition deliver_due_once ::
    "(rat \<Rightarrow> string) \<Rightarrow> bool \<Rightarrow> rat \<Rightarrow> sender \<Rightarrow> nat \<Rightarrow> outbox_row list
      \<Rightarrow> (string \<times> string \<times> string option) list \<times> obj \<times> outbox_row list" where
  "deliver_due_once stamp storage_ok ts send max_batch rows =
     (if \<not> storage_ok
      then ([], [(''delivered'', JInt 0), (''failed'', JInt 0), (''abandoned'', JInt 0), (''remaining'', JInt 0)], rows)
      else (case deliver_rows stamp ts send 0 (select_due ts max_batch rows)
                   (\<lparr>ty_delivered = 0, ty_failed = 0, ty_abandoned = 0\<rparr>, rows) of
              (calls, t, rows') \<Rightarrow>
                (calls, [(''delivered'', JInt (ty_delivered t)), (''failed'', JInt (ty_failed t)),
                         (''abandoned'', JInt (ty_abandoned t)), (''remaining'', JInt (pending_count True rows'))],
                 rows')))"

end
