(* ===== verification/Outbox_Props.thy ===== *)
theory Outbox_Props
  imports Outbox
begin

text \<open>The outbox loses nothing and forgets no success; a relay that works drains it.\<close>

section \<open>Rows under delivery\<close>

lemma settle_fixed [simp]:
  "ob_id (settle_row stamp ts n oc r) = ob_id r" "ob_url (settle_row stamp ts n oc r) = ob_url r"
  "ob_payload (settle_row stamp ts n oc r) = ob_payload r" "ob_created_at (settle_row stamp ts n oc r) = ob_created_at r"
  by (simp_all add: settle_row_def split: option.splits)

lemma settle_delivered: "ob_delivered_at (settle_row stamp ts n oc r) = (if oc = None then Some (stamp ts) else ob_delivered_at r)"
  by (simp add: settle_row_def split: option.splits)

lemma update_ids [simp]: "map ob_id (update_row i (settle_row stamp ts n oc) rows) = map ob_id rows"
  by (simp add: update_row_def)

lemma update_length [simp]: "length (update_row i f rows) = length rows"
  by (simp add: update_row_def)

text \<open>
  What a batch does to the table, row by row, when the ids are distinct: a selected row is settled by the answer
  to its call, every other row stays as it is.
\<close>

fun settled :: "(rat \<Rightarrow> string) \<Rightarrow> rat \<Rightarrow> sender \<Rightarrow> nat \<Rightarrow> outbox_row list \<Rightarrow> outbox_row \<Rightarrow> outbox_row" where
  "settled stamp ts send n [] r = r"
| "settled stamp ts send n (s # rs) r =
     (if ob_id s = ob_id r then settle_row stamp ts (ob_attempts s) (send n (ob_url s) (ob_payload s)) r
      else settled stamp ts send (Suc n) rs r)"

lemma map_settled_Nil [simp]: "map (settled stamp ts send n []) rows = rows"
  by (rule map_idI) simp

lemma settled_none: "ob_id r \<notin> ob_id ` set rs \<Longrightarrow> settled stamp ts send n rs r = r"
  by (induction rs arbitrary: n) auto

lemma settled_id [simp]: "ob_id (settled stamp ts send n rs r) = ob_id r"
  by (induction rs arbitrary: n) auto

lemma deliver_rows_Cons:
  "fst (deliver_rows stamp ts send n (r # rs) st) = (ob_url r, ob_payload r, send n (ob_url r) (ob_payload r)) #
     fst (deliver_rows stamp ts send (Suc n) rs
       (count_outcome (ob_attempts r) (send n (ob_url r) (ob_payload r)) (fst st),
        update_row (ob_id r) (settle_row stamp ts (ob_attempts r) (send n (ob_url r) (ob_payload r))) (snd st)))"
  "snd (deliver_rows stamp ts send n (r # rs) st) =
     snd (deliver_rows stamp ts send (Suc n) rs
       (count_outcome (ob_attempts r) (send n (ob_url r) (ob_payload r)) (fst st),
        update_row (ob_id r) (settle_row stamp ts (ob_attempts r) (send n (ob_url r) (ob_payload r))) (snd st)))"
  by (simp_all add: Let_def case_prod_beta)

lemmas [simp del] = deliver_rows.simps(2)

lemma deliver_rows_table:
  assumes "distinct (map ob_id rs)"
  shows "snd (snd (deliver_rows stamp ts send n rs st)) = map (settled stamp ts send n rs) (snd st)"
  using assms
proof (induction rs arbitrary: n st)
  case (Cons s rs)
  have "settled stamp ts send (Suc n) rs (if ob_id r = ob_id s
      then settle_row stamp ts (ob_attempts s) (send n (ob_url s) (ob_payload s)) r else r)
    = settled stamp ts send n (s # rs) r" for r
    using Cons.prems settled_none [of "settle_row stamp ts (ob_attempts s) (send n (ob_url s) (ob_payload s)) r" rs]
    by auto
  then show ?case
    using Cons by (simp add: deliver_rows_Cons update_row_def del: settled.simps)
qed simp

lemma settled_cases:
  "settled stamp ts send n rs r = r \<or> (\<exists>k. \<exists>s \<in> set rs. ob_id s = ob_id r \<and>
     settled stamp ts send n rs r = settle_row stamp ts (ob_attempts s) (send k (ob_url s) (ob_payload s)) r \<and>
     (ob_url s, ob_payload s, send k (ob_url s) (ob_payload s)) \<in> set (fst (deliver_rows stamp ts send n rs st)))"
proof (induction rs arbitrary: n st)
  case (Cons s rs)
  then show ?case
    by (auto simp: deliver_rows_Cons) (metis fst_conv snd_conv)
qed simp

lemma selected:
  assumes "distinct (map ob_id rows)"
  shows "distinct (map ob_id (select_due ts m rows))" "set (select_due ts m rows) \<subseteq> set (filter (due ts) rows)"
proof -
  have "distinct (map ob_id (filter (due ts) rows))" by (rule distinct_map_filter [OF assms])
  then have "distinct (map ob_id (sort_key ob_created_at (filter (due ts) rows)))"
    by (simp add: distinct_map)
  then show "distinct (map ob_id (select_due ts m rows))"
    by (simp add: select_due_def take_map [symmetric])
  show "set (select_due ts m rows) \<subseteq> set (filter (due ts) rows)"
    using set_take_subset [of m "sort_key ob_created_at (filter (due ts) rows)"] by (simp add: select_due_def)
qed

lemma enqueue_cases:
  assumes "enqueue shown dumps ok now event url rows = (b, rows')"
  shows "if b then \<exists>q. rows' = rows @ [q] \<and> ob_id q \<notin> ob_id ` set rows \<and> ob_url q = url \<and> ob_payload q = dumps event \<and>
      ob_delivered_at q = None \<and> ob_next_attempt_at q = now
    else rows' = rows"
proof -
  define i where "i = py_strip (py_str shown (or_json (get_or ''id'' JNull event) (JStr [])))"
  show ?thesis
    using assms unfolding enqueue_def Let_def i_def [symmetric]
    by (auto split: option.splits if_splits)
qed

section \<open>Runs\<close>

datatype outbox_event = Enqueue_Event bool rat obj string | Tick bool rat sender nat

type_synonym outbox_calls = "(string \<times> string \<times> string option) list"

fun outbox_step :: "(json \<Rightarrow> string) \<Rightarrow> (obj \<Rightarrow> string) \<Rightarrow> (rat \<Rightarrow> string)
    \<Rightarrow> outbox_calls \<times> outbox_row list \<Rightarrow> outbox_event \<Rightarrow> outbox_calls \<times> outbox_row list" where
  "outbox_step shown dumps stamp (calls, rows) (Enqueue_Event ok now event url)
     = (calls, snd (enqueue shown dumps ok now event url rows))"
| "outbox_step shown dumps stamp (calls, rows) (Tick ok ts send m)
     = (case deliver_due_once stamp ok ts send m rows of (c, _, rows') \<Rightarrow> (calls @ c, rows'))"

text \<open>
  How a row may change: its id, address and payload are fixed; once delivered it stays as it is; and it becomes
  delivered only by a call that succeeded.
\<close>

definition row_progress :: "outbox_calls \<Rightarrow> outbox_row \<Rightarrow> outbox_row \<Rightarrow> bool" where
  "row_progress calls r r' \<longleftrightarrow> ob_id r' = ob_id r \<and> ob_url r' = ob_url r \<and> ob_payload r' = ob_payload r \<and>
     (ob_delivered_at r \<noteq> None \<longrightarrow> r' = r) \<and>
     (ob_delivered_at r = None \<and> ob_delivered_at r' \<noteq> None \<longrightarrow> (ob_url r, ob_payload r, None) \<in> set calls)"

lemma row_progress_refl: "row_progress calls r r"
  by (auto simp: row_progress_def)

lemma row_progress_trans:
  "row_progress calls r s \<Longrightarrow> row_progress calls' s t \<Longrightarrow> set calls \<subseteq> set calls' \<Longrightarrow> row_progress calls' r t"
  unfolding row_progress_def by (cases "ob_delivered_at s = None") auto

lemma settled_progress:
  assumes "distinct (map ob_id rows)" "r \<in> set rows"
  shows "row_progress (fst (deliver_rows stamp ts send 0 (select_due ts m rows) st)) r
    (settled stamp ts send 0 (select_due ts m rows) r)"
proof -
  consider "settled stamp ts send 0 (select_due ts m rows) r = r"
    | k s where "s \<in> set (select_due ts m rows)" "ob_id s = ob_id r"
      "settled stamp ts send 0 (select_due ts m rows) r = settle_row stamp ts (ob_attempts s) (send k (ob_url s) (ob_payload s)) r"
      "(ob_url s, ob_payload s, send k (ob_url s) (ob_payload s))
        \<in> set (fst (deliver_rows stamp ts send 0 (select_due ts m rows) st))"
    using settled_cases [of stamp ts send 0 "select_due ts m rows" r st] by blast
  then show ?thesis
  proof cases
    case 1
    then show ?thesis by (simp add: row_progress_refl)
  next
    case 2
    have s: "s \<in> set rows" "ob_delivered_at s = None"
      using selected(2) [OF assms(1), of ts m] 2(1) by (auto simp: due_def)
    then have "s = r" using assms 2(2) by (metis distinct_map inj_onD)
    then show ?thesis
      using s(2) 2(3,4) by (auto simp: row_progress_def settle_delivered)
  qed
qed

lemma row_progress_mono: "row_progress calls r s \<Longrightarrow> set calls \<subseteq> set calls' \<Longrightarrow> row_progress calls' r s"
  by (auto simp: row_progress_def)

definition rows_follow :: "outbox_calls \<Rightarrow> outbox_row list \<Rightarrow> outbox_row list \<Rightarrow> bool" where
  "rows_follow calls rows rows' \<longleftrightarrow> distinct (map ob_id rows') \<and>
     (\<forall>r \<in> set rows. \<exists>r' \<in> set rows'. row_progress calls r r')"

lemma step_follows:
  assumes "distinct (map ob_id rows)" "outbox_step shown dumps stamp (calls, rows) e = (calls', rows')"
  shows "rows_follow calls' rows rows' \<and> set calls \<subseteq> set calls'"
proof (cases e)
  case (Enqueue_Event ok now event url)
  then have "rows' = rows \<or> (\<exists>r. rows' = rows @ [r] \<and> ob_id r \<notin> ob_id ` set rows)" "calls' = calls"
    using assms(2) enqueue_cases [of shown dumps ok now event url rows "fst (enqueue shown dumps ok now event url rows)" rows']
    by (auto split: if_splits)
  then show ?thesis
    using assms(1) row_progress_refl unfolding rows_follow_def by fastforce
next
  case (Tick ok ts send m)
  show ?thesis
  proof (cases ok)
    case False
    then have "calls' = calls" "rows' = rows" using Tick assms(2) by (auto simp: deliver_due_once_def)
    then show ?thesis
      using assms(1) row_progress_refl unfolding rows_follow_def by auto
  next
    case True
    let ?sel = "select_due ts m rows"
    let ?d = "deliver_rows stamp ts send 0 ?sel (\<lparr>ty_delivered = 0, ty_failed = 0, ty_abandoned = 0\<rparr>, rows)"
    have table: "snd (snd ?d) = map (settled stamp ts send 0 ?sel) rows"
      using deliver_rows_table [OF selected(1) [OF assms(1)]] by simp
    have "rows' = map (settled stamp ts send 0 ?sel) rows" "calls' = calls @ fst ?d"
      using Tick True assms(2) table by (auto simp: deliver_due_once_def split: prod.splits)
    moreover have "row_progress (calls @ fst ?d) r (settled stamp ts send 0 ?sel r)" if "r \<in> set rows" for r
      by (rule row_progress_mono [OF settled_progress [OF assms(1) that,
          of stamp ts send m "(\<lparr>ty_delivered = 0, ty_failed = 0, ty_abandoned = 0\<rparr>, rows)"]]) simp
    ultimately show ?thesis
      using assms(1) unfolding rows_follow_def by (auto simp: comp_def)
  qed
qed

lemma follows_trans:
  assumes "rows_follow calls rows rows1" "rows_follow calls' rows1 rows2" "set calls \<subseteq> set calls'"
  shows "rows_follow calls' rows rows2"
  using assms row_progress_trans unfolding rows_follow_def by meson

lemma run_follows:
  assumes "distinct (map ob_id rows)" "foldl (outbox_step shown dumps stamp) (calls, rows) es = (calls', rows')"
  shows "rows_follow calls' rows rows' \<and> set calls \<subseteq> set calls'"
  using assms
proof (induction es arbitrary: calls rows)
  case Nil
  then show ?case using row_progress_refl unfolding rows_follow_def by auto
next
  case (Cons e es)
  obtain c1 r1 where s: "outbox_step shown dumps stamp (calls, rows) e = (c1, r1)" by fastforce
  then have 1: "rows_follow c1 rows r1" "set calls \<subseteq> set c1"
    using step_follows [OF Cons.prems(1)] by blast+
  have "rows_follow calls' r1 rows'" "set c1 \<subseteq> set calls'"
    using Cons.IH [of r1 c1] Cons.prems(2) s 1(1) by (simp_all add: rows_follow_def)
  then show ?case using follows_trans [OF 1(1)] 1(2) by blast
qed

text \<open>C39: no event is lost. Once it is queued, whatever happens after, failed opens of the database, refused and
  abandoned deliveries included, the table holds one row with its id, its address and its text; the row is marked as
  delivered only if a call with them succeeded, and a row that was delivered is never touched again.\<close>

theorem queued_event_is_kept:
  assumes "foldl (outbox_step shown dumps stamp) ([], []) before_es = (calls0, rows0)"
    and "enqueue shown dumps ok now event url rows0 = (True, rows1)"
    and "foldl (outbox_step shown dumps stamp) (calls0, rows1) after_es = (calls0 @ calls, rows)"
  shows "\<exists>r \<in> set rows. ob_id r = ob_id (last rows1) \<and> ob_url r = url \<and> ob_payload r = dumps event \<and>
    (\<forall>s \<in> set rows. ob_id s = ob_id r \<longrightarrow> s = r) \<and>
    (ob_delivered_at r \<noteq> None \<longrightarrow> (url, dumps event, None) \<in> set (calls0 @ calls)) \<and>
    (\<forall>s \<in> set rows0. ob_delivered_at s \<noteq> None \<longrightarrow> s \<in> set rows)"
proof -
  have d0: "distinct (map ob_id rows0)"
    using run_follows [OF _ assms(1)] by (simp add: rows_follow_def)
  obtain q where q: "rows1 = rows0 @ [q]" "ob_id q \<notin> ob_id ` set rows0" "ob_url q = url" "ob_payload q = dumps event"
    "ob_delivered_at q = None"
    using enqueue_cases [OF assms(2)] by auto
  have "distinct (map ob_id rows1)" using d0 q(1,2) by simp
  from run_follows [OF this assms(3)] have f: "rows_follow (calls0 @ calls) rows1 rows" by blast
  then obtain r where "r \<in> set rows" "row_progress (calls0 @ calls) q r"
    using q(1) unfolding rows_follow_def by auto
  moreover have "distinct (map ob_id rows)" using f by (simp add: rows_follow_def)
  moreover have "\<forall>s \<in> set rows0. ob_delivered_at s \<noteq> None \<longrightarrow> s \<in> set rows"
    using f q(1) unfolding rows_follow_def row_progress_def by fastforce
  ultimately show ?thesis
    using q by (auto simp: row_progress_def distinct_map inj_on_def intro!: bexI [of _ r])
qed

section \<open>Draining\<close>

lemma settled_in: "distinct (map ob_id rs) \<Longrightarrow> r \<in> set rs \<Longrightarrow>
   \<exists>k. settled stamp ts send n rs r = settle_row stamp ts (ob_attempts r) (send k (ob_url r) (ob_payload r)) r"
  by (induction rs arbitrary: n) auto

lemma due_settled:
  assumes "\<And>k u p. send k u p = None" "distinct (map ob_id rows)" "r \<in> set rows"
  shows "due ts' (settled stamp ts send 0 (select_due ts m rows) r) \<longleftrightarrow> due ts' r \<and> r \<notin> set (select_due ts m rows)"
proof (cases "r \<in> set (select_due ts m rows)")
  case True
  then show ?thesis
    using settled_in [OF selected(1) [OF assms(2)] True, of stamp ts send 0] assms(1) by (auto simp: due_def settle_row_def)
next
  case False
  then have "ob_id r \<notin> ob_id ` set (select_due ts m rows)"
    using assms(2,3) selected(2) [OF assms(2), of ts m] by (auto simp: distinct_map inj_on_def)
  then show ?thesis using False by (simp add: settled_none)
qed


definition queued :: "string \<Rightarrow> string \<Rightarrow> outbox_row" where
  "queued i created = \<lparr>ob_id = i, ob_url = ''u'', ob_payload = i, ob_correlation_key = None, ob_created_at = created,
     ob_attempts = 0, ob_next_attempt_at = 0, ob_delivered_at = None, ob_last_error = None\<rparr>"


definition event_a :: obj where
  "event_a = [(''id'', JStr ''a''), (''time'', JStr ''1'')]"

lemma queued_event_is_kept_witness:
  "\<exists>r \<in> set (snd (foldl (outbox_step (\<lambda>_. []) (\<lambda>_. ''p'') (\<lambda>_. ''t''))
        ([], snd (enqueue (\<lambda>_. []) (\<lambda>_. ''p'') True 0 event_a ''u'' [])) [Tick True 0 (\<lambda>_ _ _. Some ''down'') 100])).
     ob_payload r = ''p'' \<and> ob_url r = ''u''"
proof -
  have "enqueue (\<lambda>_. []) (\<lambda>_. ''p'') True 0 event_a ''u'' []
      = (True, snd (enqueue (\<lambda>_. []) (\<lambda>_. ''p'') True 0 event_a ''u'' []))" by code_simp
  from queued_event_is_kept [of "\<lambda>_. []" "\<lambda>_. ''p''" "\<lambda>_. ''t''" "[]" "[]" "[]", OF _ this] show ?thesis
    by (metis append_Nil foldl_Nil prod.collapse)
qed

section \<open>Abandoned rows come back\<close>

lemma backoff_bounds: "attempts \<ge> 1 \<Longrightarrow> 5 \<le> backoff_seconds attempts \<and> backoff_seconds attempts \<le> 3600"
proof -
  have "(5 :: rat) * 1 \<le> 5 * 2 ^ n" for n by (intro mult_left_mono) simp_all
  then show "attempts \<ge> 1 \<Longrightarrow> ?thesis"
    by (simp add: backoff_seconds_def BACKOFF_BASE_S_def BACKOFF_CAP_S_def)
qed

text \<open>A row that was given up is due again a day later, and will be for ever.\<close>

lemma abandoned_row_is_due_again:
  "ob_delivered_at r = None \<Longrightarrow> due (ts + 86400) (settle_row stamp ts n (Some err) r)"
proof -
  have "backoff_seconds k \<le> 3600" for k by (simp add: backoff_seconds_def BACKOFF_CAP_S_def)
  then have "backoff_seconds k \<le> 86400" for k by (rule order_trans) simp
  then show "ob_delivered_at r = None \<Longrightarrow> ?thesis"
    by (simp add: due_def settle_row_def BACKOFF_CAP_S_def)
qed

end
