(* ===== verification/Plan_Approval.thy ===== *)
theory Plan_Approval
  imports Plan_Doc Plan_Progress Py_Json
begin

text \<open>
  The approval of a plan: the state of its review (\<open>review/state.py\<close>), which approval a build still honours, and
  the snapshot of the gates at the start of a run (\<open>run_gates.py\<close>, \<open>solo_mode.py\<close>). A directory of a spec is the
  record of the texts of its files; a missing or unreadable one is \<open>None\<close>. MD5 and the three uses of \<open>json\<close>
  (reading, writing with sorted keys, writing a file) are arguments, bundled in \<open>codec\<close>.
\<close>

record codec =
  cd_md5 :: "string \<Rightarrow> string"
  cd_loads :: "string \<Rightarrow> json option"
  cd_sorted :: "obj \<Rightarrow> string"
  cd_text :: "json \<Rightarrow> string"

record spec_files =
  sf_spec_md :: "string option"
  sf_plan :: "string option"
  sf_review :: "string option"
  sf_metadata :: "string option"
  sf_requirements :: "string option"
  sf_contract :: "string option"

definition read_json :: "codec \<Rightarrow> string option \<Rightarrow> json option" where
  "read_json c f = (case f of None \<Rightarrow> None | Some t \<Rightarrow> cd_loads c t)"

section \<open>What an approval is bound to\<close>

definition compute_file_hash :: "codec \<Rightarrow> string option \<Rightarrow> string" where
  "compute_file_hash c f = (case f of None \<Rightarrow> [] | Some t \<Rightarrow> cd_md5 c t)"

definition read_plan :: "codec \<Rightarrow> spec_files \<Rightarrow> obj option" where
  "read_plan c fs = (case read_json c (sf_plan fs) of Some (JObj d) \<Rightarrow> Some d | _ \<Rightarrow> None)"

definition combine :: "codec \<Rightarrow> spec_files \<Rightarrow> string \<Rightarrow> string" where
  "combine c fs plan_hash = cd_md5 c (compute_file_hash c (sf_spec_md fs) @ '':'' @ plan_hash)"

definition content_hash :: "codec \<Rightarrow> obj \<Rightarrow> string" where
  "content_hash c plan = cd_md5 c (cd_sorted c (strip_plan_progress plan))"

definition compute_spec_hash :: "codec \<Rightarrow> spec_files \<Rightarrow> string" where
  "compute_spec_hash c fs =
     combine c fs (case read_plan c fs of None \<Rightarrow> compute_file_hash c (sf_plan fs) | Some plan \<Rightarrow> content_hash c plan)"

definition compute_saved_spec_hash :: "codec \<Rightarrow> spec_files \<Rightarrow> string" where
  "compute_saved_spec_hash c fs =
     (case read_plan c fs of
        None \<Rightarrow> []
      | Some plan \<Rightarrow>
          (case plan_from_dict plan of
             Inl _ \<Rightarrow> []
           | Inr p \<Rightarrow> combine c fs (content_hash c (plan_to_dict p))))"

section \<open>The state of the review\<close>

text \<open>The fields hold whatever the file holds.\<close>

record review_state =
  rw_approved :: json
  rw_approved_by :: json
  rw_approved_at :: json
  rw_feedback :: json
  rw_spec_hash :: json
  rw_saved_spec_hash :: json
  rw_review_count :: json

definition new_review :: review_state where
  "new_review =
     \<lparr>rw_approved = JBool False, rw_approved_by = JStr [], rw_approved_at = JStr [], rw_feedback = JList [],
      rw_spec_hash = JStr [], rw_saved_spec_hash = JStr [], rw_review_count = JInt 0\<rparr>"

definition review_to_dict :: "review_state \<Rightarrow> obj" where
  "review_to_dict st =
     [(''approved'', rw_approved st), (''approved_by'', rw_approved_by st), (''approved_at'', rw_approved_at st),
      (''feedback'', rw_feedback st), (''spec_hash'', rw_spec_hash st),
      (''saved_spec_hash'', rw_saved_spec_hash st), (''review_count'', rw_review_count st)]"

datatype review_error = No_Attribute string | Bad_Operand string

definition review_from_dict :: "json \<Rightarrow> review_error + review_state" where
  "review_from_dict data =
     (case data of
        JObj d \<Rightarrow>
          Inr \<lparr>rw_approved = get_or ''approved'' (JBool False) d, rw_approved_by = get_or ''approved_by'' (JStr []) d,
               rw_approved_at = get_or ''approved_at'' (JStr []) d, rw_feedback = get_or ''feedback'' (JList []) d,
               rw_spec_hash = get_or ''spec_hash'' (JStr []) d,
               rw_saved_spec_hash = get_or ''saved_spec_hash'' (JStr []) d,
               rw_review_count = get_or ''review_count'' (JInt 0) d\<rparr>
      | _ \<Rightarrow> Inl (No_Attribute ''get''))"

definition review_save :: "codec \<Rightarrow> review_state \<Rightarrow> spec_files \<Rightarrow> spec_files" where
  "review_save c st fs = fs\<lparr>sf_review := Some (cd_text c (JObj (review_to_dict st)))\<rparr>"

definition review_load :: "codec \<Rightarrow> spec_files \<Rightarrow> review_error + review_state" where
  "review_load c fs =
     (case read_json c (sf_review fs) of None \<Rightarrow> Inr new_review | Some v \<Rightarrow> review_from_dict v)"

definition is_approval_valid :: "codec \<Rightarrow> review_state \<Rightarrow> spec_files \<Rightarrow> bool" where
  "is_approval_valid c st fs =
     (if \<not> truthy (rw_approved st) then False
      else if \<not> truthy (rw_spec_hash st) then False
      else JStr (compute_spec_hash c fs) \<in> {rw_spec_hash st, rw_saved_spec_hash st})"

text \<open>\<open>n += 1\<close> on what the file holds.\<close>

definition count_up :: "json \<Rightarrow> review_error + json" where
  "count_up v =
     (case v of
        JInt i \<Rightarrow> Inr (JInt (i + 1))
      | JBool b \<Rightarrow> Inr (JInt (if b then 2 else 1))
      | JFloat q \<Rightarrow> Inr (JFloat (q + 1))
      | _ \<Rightarrow> Inl (Bad_Operand ''+''))"

definition saved_if :: "codec \<Rightarrow> bool \<Rightarrow> review_state \<Rightarrow> spec_files \<Rightarrow> review_state \<times> spec_files" where
  "saved_if c auto_save st fs = (st, if auto_save then review_save c st fs else fs)"

definition approve ::
    "codec \<Rightarrow> string \<Rightarrow> string \<Rightarrow> bool \<Rightarrow> review_state \<Rightarrow> spec_files \<Rightarrow> review_error + review_state \<times> spec_files" where
  "approve c now approved_by auto_save st fs =
     bindE (count_up (rw_review_count st)) (\<lambda>n.
       Inr (saved_if c auto_save
         (st\<lparr>rw_approved := JBool True, rw_approved_by := JStr approved_by, rw_approved_at := JStr now,
             rw_spec_hash := JStr (compute_spec_hash c fs),
             rw_saved_spec_hash := JStr (compute_saved_spec_hash c fs), rw_review_count := n\<rparr>) fs))"

definition reject ::
    "codec \<Rightarrow> bool \<Rightarrow> review_state \<Rightarrow> spec_files \<Rightarrow> review_error + review_state \<times> spec_files" where
  "reject c auto_save st fs =
     bindE (count_up (rw_review_count st)) (\<lambda>n.
       Inr (saved_if c auto_save
         (st\<lparr>rw_approved := JBool False, rw_approved_by := JStr [], rw_approved_at := JStr [], rw_spec_hash := JStr [],
             rw_saved_spec_hash := JStr [], rw_review_count := n\<rparr>) fs))"

text \<open>\<open>stamp\<close> is the local time of the call.\<close>

definition add_feedback ::
    "codec \<Rightarrow> string \<Rightarrow> string \<Rightarrow> bool \<Rightarrow> review_state \<Rightarrow> spec_files \<Rightarrow> review_error + review_state \<times> spec_files" where
  "add_feedback c stamp feedback auto_save st fs =
     (case rw_feedback st of
        JList xs \<Rightarrow>
          Inr (saved_if c auto_save
            (st\<lparr>rw_feedback := JList (xs @ [JStr (''['' @ stamp @ ''] '' @ feedback)])\<rparr>) fs)
      | _ \<Rightarrow> Inl (No_Attribute ''append''))"

definition invalidate :: "codec \<Rightarrow> bool \<Rightarrow> review_state \<Rightarrow> spec_files \<Rightarrow> review_state \<times> spec_files" where
  "invalidate c auto_save st fs =
     saved_if c auto_save
       (st\<lparr>rw_approved := JBool False, rw_approved_at := JStr [], rw_spec_hash := JStr [],
           rw_saved_spec_hash := JStr []\<rparr>) fs"

definition json_len :: "json \<Rightarrow> review_error + int" where
  "json_len v =
     (case v of
        JList xs \<Rightarrow> Inr (int (length xs))
      | JStr s \<Rightarrow> Inr (int (length s))
      | JObj d \<Rightarrow> Inr (int (length d))
      | _ \<Rightarrow> Inl (Bad_Operand ''len''))"

definition get_review_status_summary :: "codec \<Rightarrow> spec_files \<Rightarrow> review_error + obj" where
  "get_review_status_summary c fs =
     bindE (review_load c fs) (\<lambda>st.
     let valid = is_approval_valid c st fs in
     bindE (json_len (rw_feedback st)) (\<lambda>n.
       Inr [(''approved'', rw_approved st), (''valid'', JBool valid), (''approved_by'', rw_approved_by st),
            (''approved_at'', rw_approved_at st), (''review_count'', rw_review_count st),
            (''feedback_count'', JInt n),
            (''spec_changed'', JBool (if truthy (rw_spec_hash st) then \<not> valid else False))]))"

definition requires_review_before_coding :: "codec \<Rightarrow> spec_files \<Rightarrow> review_error + bool" where
  "requires_review_before_coding c fs =
     (case read_json c (sf_metadata fs) of
        None \<Rightarrow> Inr False
      | Some (JObj d) \<Rightarrow>
          Inr (truthy (get_or ''requireReviewBeforeCoding'' (JBool False) d) \<or> get_any ''mode'' d = JStr ''quick'')
      | Some _ \<Rightarrow> Inl (No_Attribute ''get''))"

section \<open>Solo mode\<close>

definition env_solo_mode :: "string option \<Rightarrow> bool option" where
  "env_solo_mode var =
     (let v = py_lower (py_strip (case var of None \<Rightarrow> [] | Some s \<Rightarrow> s))
      in if v \<in> {''1'', ''true'', ''yes'', ''on''} then Some True
         else if v \<in> {''0'', ''false'', ''no'', ''off''} then Some False else None)"

definition global_solo_mode :: "codec \<Rightarrow> string option \<Rightarrow> review_error + bool" where
  "global_solo_mode c config =
     (case read_json c config of
        None \<Rightarrow> Inr False
      | Some (JObj d) \<Rightarrow>
          (case get_or ''solo'' (JObj []) d of
             JObj s \<Rightarrow> Inr (truthy (get_or ''enabled'' (JBool False) s))
           | _ \<Rightarrow> Inl (No_Attribute ''get''))
      | Some _ \<Rightarrow> Inl (No_Attribute ''get''))"

text \<open>\<open>key in metadata\<close> and \<open>metadata[key]\<close> for each type of JSON value, the first key that is there.\<close>

fun solo_flag :: "string list \<Rightarrow> json \<Rightarrow> review_error + bool option" where
  "solo_flag [] v = Inr None"
| "solo_flag (key # keys) v =
     (case v of
        JObj d \<Rightarrow> (case map_of d key of Some w \<Rightarrow> Inr (Some (truthy w)) | None \<Rightarrow> solo_flag keys v)
      | JList xs \<Rightarrow> if JStr key \<in> set xs then Inl (Bad_Operand ''index'') else solo_flag keys v
      | JStr s \<Rightarrow> if py_in key s then Inl (Bad_Operand ''index'') else solo_flag keys v
      | _ \<Rightarrow> Inl (Bad_Operand ''in''))"

definition is_solo_mode_enabled_for_spec ::
    "codec \<Rightarrow> string option \<Rightarrow> string option \<Rightarrow> spec_files \<Rightarrow> review_error + bool" where
  "is_solo_mode_enabled_for_spec c var config fs =
     (case env_solo_mode var of
        Some b \<Rightarrow> Inr b
      | None \<Rightarrow>
          (case read_json c (sf_metadata fs) of
             None \<Rightarrow> global_solo_mode c config
           | Some v \<Rightarrow> bindE (solo_flag [''soloMode'', ''skipPlanning''] v) (\<lambda>f.
               case f of Some b \<Rightarrow> Inr b | None \<Rightarrow> global_solo_mode c config)))"

section \<open>The gates of a run\<close>

definition approved_plan_snapshot :: "codec \<Rightarrow> spec_files \<Rightarrow> bool \<Rightarrow> obj option" where
  "approved_plan_snapshot c fs require_review =
     (if \<not> require_review then None
      else Some (case read_plan c fs of None \<Rightarrow> [] | Some d \<Rightarrow> d))"

record run_gates =
  rg_solo :: bool
  rg_requires_review :: bool
  rg_review :: review_state
  rg_approved_plan :: "obj option"

text \<open>
  \<open>source\<close> is the source directory of the spec, if the run has one, and \<open>task_id\<close> the variable that a run driven by
  the server has. The configuration of the models is read at the same time; it is not part of the gates.
\<close>

definition capture_gates ::
    "codec \<Rightarrow> string option \<Rightarrow> string option \<Rightarrow> string option \<Rightarrow> spec_files \<Rightarrow> spec_files option
      \<Rightarrow> review_error + run_gates" where
  "capture_gates c task_id solo_var config fs source =
     (let gate_dir = (case source of Some s \<Rightarrow> s | None \<Rightarrow> fs);
          fail_closed = (source = None \<and> truthy_str task_id)
      in bindE (if fail_closed then Inr (False, True)
                else bindE (is_solo_mode_enabled_for_spec c solo_var config gate_dir) (\<lambda>solo.
                     bindE (requires_review_before_coding c gate_dir) (\<lambda>req. Inr (solo, req)))) (\<lambda>(solo, req).
         bindE (review_load c gate_dir) (\<lambda>review.
           Inr \<lparr>rg_solo = solo, rg_requires_review = req, rg_review = review,
                rg_approved_plan = approved_plan_snapshot c gate_dir (\<not> solo \<and> req)\<rparr>)))"

definition approval_valid :: "codec \<Rightarrow> run_gates \<Rightarrow> spec_files \<Rightarrow> bool" where
  "approval_valid c g fs \<longleftrightarrow> \<not> rg_requires_review g \<or> is_approval_valid c (rg_review g) fs"

definition model_text :: "json \<Rightarrow> string option" where
  "model_text v = (case v of JStr s \<Rightarrow> if s = [] then None else Some s | _ \<Rightarrow> None)"

text \<open>The subtasks of the snapshot in their order; only the first one with the id counts.\<close>

definition listed_subtasks :: "obj \<Rightarrow> obj list" where
  "listed_subtasks plan =
     (case map_of plan ''phases'' of
        Some (JList phases) \<Rightarrow>
          concat (map (\<lambda>ph. case ph of
              JObj d \<Rightarrow> (case map_of d ''subtasks'' of
                          Some (JList sts) \<Rightarrow> concat (map (\<lambda>st. case st of JObj s \<Rightarrow> [s] | _ \<Rightarrow> []) sts)
                        | _ \<Rightarrow> [])
            | _ \<Rightarrow> []) phases)
      | _ \<Rightarrow> [])"

definition subtask_model :: "run_gates \<Rightarrow> string \<Rightarrow> json \<Rightarrow> string option" where
  "subtask_model g subtask_id live_model =
     (case rg_approved_plan g of
        None \<Rightarrow> model_text live_model
      | Some plan \<Rightarrow>
          (case find (\<lambda>s. get_any ''id'' s = JStr subtask_id) (listed_subtasks plan) of
             None \<Rightarrow> None
           | Some s \<Rightarrow> model_text (get_any ''model'' s)))"

end
