(* ===== verification/Approval_Props.thy ===== *)
theory Approval_Props
  imports Plan_Approval "HOL-Library.Countable"
begin

text \<open>
  An approval survives everything a build does to the progress of its plan, and nothing else: other changes of the
  plan or of the specification invalidate it. The gates of a run read nothing an agent can write.
\<close>

section \<open>A codec\<close>

text \<open>An instance of the arguments: every value is written as a number.\<close>

instance json :: countable
  by countable_datatype

definition numbered :: "'a :: countable \<Rightarrow> string" where
  "numbered x = digits_of_nat (to_nat x)"

definition numbered_codec :: codec where
  "numbered_codec = \<lparr>cd_md5 = numbered, cd_loads = (\<lambda>t. Some (from_nat (nat (int_of_digits t)))),
     cd_sorted = numbered, cd_text = numbered\<rparr>"

lemma numbered_inj [simp]: "numbered x = numbered y \<longleftrightarrow> x = y"
  by (simp add: numbered_def digits_of_nat_inj)

lemma numbered_not_Nil [simp]: "numbered x \<noteq> []"
  by (simp add: numbered_def)

lemma numbered_digits: "c \<in> set (numbered x) \<Longrightarrow> is_digit c"
  by (auto simp: numbered_def dest: digits_of_nat_digits)

lemma numbered_codec_simps [simp]:
  "cd_md5 numbered_codec = numbered" "cd_sorted numbered_codec = numbered" "cd_text numbered_codec = numbered"
  "cd_loads numbered_codec (numbered v) = Some v"
  by (simp_all add: numbered_codec_def numbered_def)

section \<open>The content of a plan\<close>

definition item_content :: "item \<Rightarrow> json" where
  "item_content x = strip_subtask (JObj (item_to_dict x))"

lemma filter_entry [simp]: "filter P (entry b k v) = (if P (k, v) then entry b k v else [])"
  by (simp add: entry_def)

lemma subtask_content: "item_content (ISubtask s) = JObj
   ([(''id'', JStr (st_id s)), (''description'', JStr (st_description s))] @
     entry (truthy_str (st_service s)) ''service'' (jopt (st_service s)) @
     entry (st_all_services s) ''all_services'' (JBool True) @
     entry (st_depends_on s \<noteq> []) ''depends_on'' (jstrs (st_depends_on s)) @
     entry (truthy_str (st_model s)) ''model'' (jopt (st_model s)) @
     entry (st_files_to_modify s \<noteq> []) ''files_to_modify'' (jstrs (st_files_to_modify s)) @
     entry (st_files_to_create s \<noteq> []) ''files_to_create'' (jstrs (st_files_to_create s)) @
     entry (st_patterns_from s \<noteq> []) ''patterns_from'' (jstrs (st_patterns_from s)) @
     (case st_verification s of None \<Rightarrow> [] | Some v \<Rightarrow> [(''verification'', JObj (verification_to_dict v))]) @
     entry (st_acceptance_criteria s \<noteq> []) ''acceptance_criteria'' (jstrs (st_acceptance_criteria s)) @
     entry (truthy_str (st_expected_output s)) ''expected_output'' (jopt (st_expected_output s)))"
  by (simp add: item_content_def strip_subtask_def subtask_to_dict_def SUBTASK_PROGRESS_KEYS_def split: option.splits)

lemma story_content: "item_content (IStory s) = JObj
   ([(''id'', JStr (us_id s)), (''title'', JStr (us_title s)),
      (''user_story'', JStr (us_user_story s)),
      (''acceptance_criteria'', jstrs (us_acceptance_criteria s)),
      (''technical_context'', JObj (context_to_dict (us_technical_context s))),
      (''story_points'', JInt (us_story_points s)), (''priority'', JStr (us_priority s))] @
     entry (truthy_str (us_service s)) ''service'' (jopt (us_service s)) @
     entry (us_all_services s) ''all_services'' (JBool True) @
     entry (us_depends_on s \<noteq> []) ''depends_on'' (jstrs (us_depends_on s)) @
     entry (truthy_str (us_model s)) ''model'' (jopt (us_model s)) @
     entry (us_files_to_modify s \<noteq> []) ''files_to_modify'' (jstrs (us_files_to_modify s)) @
     entry (us_files_to_create s \<noteq> []) ''files_to_create'' (jstrs (us_files_to_create s)) @
     entry (us_patterns_from s \<noteq> []) ''patterns_from'' (jstrs (us_patterns_from s)) @
     (case us_verification s of None \<Rightarrow> [] | Some v \<Rightarrow> [(''verification'', JObj (verification_to_dict v))]))"
  by (simp add: item_content_def strip_subtask_def story_to_dict_def SUBTASK_PROGRESS_KEYS_def split: option.splits)

lemmas item_contents = subtask_content story_content

text \<open>No subtask with acceptance criteria: such a one is read back as a story.\<close>

fun plain_item :: "item \<Rightarrow> bool" where
  "plain_item (ISubtask s) = (st_acceptance_criteria s = [])"
| "plain_item (IStory s) = True"

lemma item_op_content [simp]:
  "item_content (any_item.apply_op x e) = item_content x" "plain_item (any_item.apply_op x e) = plain_item x"
  by (cases x; cases e; simp add: item_contents subtask_start_def story_start_def subtask_complete_def
      story_complete_def subtask_fail_def story_fail_def)+

lemma entry_keep_str: "entry (truthy_str (keep_str s)) k (jopt (keep_str s)) = entry (truthy_str s) k (jopt s)"
  by (simp add: keep_str_def entry_def truthy_str_def)

lemma item_reread_content: "plain_item x \<Longrightarrow> item_content (reread_item x) = item_content x \<and> plain_item (reread_item x)"
  by (cases x) (simp_all add: item_contents norm_subtask_def norm_story_def entry_keep_str)

definition phase_content :: "phase \<Rightarrow> json" where
  "phase_content ph = strip_phase (JObj (phase_to_dict ph))"

lemma phase_content_eq: "phase_content ph = JObj
   ([(''phase'', JInt (ph_phase ph)), (''name'', JStr (ph_name ph)), (''type'', JStr (pt_value (ph_type ph))),
     (''subtasks'', JList (map item_content (ph_subtasks ph)))] @
     entry (ph_depends_on ph \<noteq> []) ''depends_on'' (JList (ph_depends_on ph)) @
     entry (ph_parallel_safe ph) ''parallel_safe'' (JBool True))"
  by (simp add: phase_content_def strip_phase_def strip_list_def phase_to_dict_def AList.delete_eq py_dict item_content_def
      comp_def Let_def del: map_of_append)

definition plan_content :: "plan \<Rightarrow> obj" where
  "plan_content p = strip_plan_progress (plan_to_dict p)"

lemma filter_signoff [simp]: "filter P (case v of None \<Rightarrow> [] | Some q \<Rightarrow> entry (f q) k (g q)) =
    (case v of None \<Rightarrow> [] | Some q \<Rightarrow> if P (k, g q) then entry (f q) k (g q) else [])"
  by (simp split: option.splits)

lemma plan_content_eq: "plan_content p =
   [(''feature'', JStr (pl_feature p)), (''workflow_type'', JStr (wf_value (pl_workflow_type p))),
    (''services_involved'', jstrs (pl_services_involved p)),
    (''phases'', JList (map phase_content (pl_phases p))),
    (''final_acceptance'', jstrs (pl_final_acceptance p)), (''spec_file'', jopt (pl_spec_file p))] @
    entry (pl_required_commands p \<noteq> []) ''required_commands'' (jstrs (pl_required_commands p))"
  by (simp add: plan_content_def strip_plan_progress_def plan_to_dict_def PLAN_PROGRESS_KEYS_def phase_content_def
      comp_def Let_def split: option.splits)

section \<open>What a build does to its plan\<close>

text \<open>
  An item is started, completed or failed; the plan is saved, or saved and loaded; the keys of its status are set;
  it is reopened.
\<close>

datatype build_event =
    Item_Op nat nat item_op
  | Save_Plan string
  | Reload_Plan
  | Set_Progress "string option" "string option" "string option" "string option" "string option" "obj option"
  | Reopen_Plan

definition op_on_item :: "nat \<Rightarrow> nat \<Rightarrow> item_op \<Rightarrow> plan \<Rightarrow> plan" where
  "op_on_item i j e p =
     (let ph = pl_phases p ! i
      in p\<lparr>pl_phases := (pl_phases p)[i := ph\<lparr>ph_subtasks := (ph_subtasks ph)[j := any_item.apply_op (ph_subtasks ph ! j) e]\<rparr>]\<rparr>)"

fun build_step :: "plan \<Rightarrow> build_event \<Rightarrow> plan" where
  "build_step p (Item_Op i j e) = op_on_item i j e p"
| "build_step p (Save_Plan now) = fst (plan_save now p)"
| "build_step p Reload_Plan = (case plan_from_dict (plan_to_dict p) of Inr q \<Rightarrow> q | Inl _ \<Rightarrow> p)"
| "build_step p (Set_Progress st ps reason note hold signoff) =
     p\<lparr>pl_status := st, pl_planStatus := ps, pl_reviewReason := reason, pl_recoveryNote := note,
       pl_contractHold := hold, pl_qa_signoff := signoff\<rparr>"
| "build_step p Reopen_Plan = fst (reset_for_followup p)"

definition plain_plan :: "plan \<Rightarrow> bool" where
  "plain_plan p \<longleftrightarrow> pl_feature p \<noteq> [] \<and> (\<forall>ph \<in> set (pl_phases p). \<forall>x \<in> set (ph_subtasks ph). plain_item x)"

text \<open>The parts of a plan that its content is made of.\<close>

lemma same_content:
  assumes "plain_plan p" "pl_feature q = pl_feature p" "pl_workflow_type q = pl_workflow_type p"
    and "pl_services_involved q = pl_services_involved p" "pl_final_acceptance q = pl_final_acceptance p"
    and "pl_spec_file q = pl_spec_file p" "pl_required_commands q = pl_required_commands p"
    and "map phase_content (pl_phases q) = map phase_content (pl_phases p)"
    and "\<forall>ph \<in> set (pl_phases q). \<forall>x \<in> set (ph_subtasks ph). plain_item x"
  shows "plain_plan q \<and> plan_content q = plan_content p"
  using assms by (simp add: plan_content_eq plain_plan_def)

lemma plain_phases: "plain_plan p \<Longrightarrow> \<forall>ph \<in> set (pl_phases p). \<forall>x \<in> set (ph_subtasks ph). plain_item x"
  by (simp add: plain_plan_def)

lemma update_same: "f y = f (xs ! j) \<Longrightarrow> map f (xs[j := y]) = map f xs"
  by (cases "j < length xs") (simp_all add: map_update list_update_same_conv list_update_beyond)

lemma update_all: "\<forall>x \<in> set xs. P x \<Longrightarrow> (j < length xs \<Longrightarrow> P y) \<Longrightarrow> \<forall>x \<in> set (xs[j := y]). P x"
  by (cases "j < length xs") (auto simp: list_update_beyond dest: set_update_subset_insert [THEN subsetD])

lemma op_on_item_content:
  assumes "plain_plan p"
  shows "plain_plan (op_on_item i j e p) \<and> plan_content (op_on_item i j e p) = plan_content p"
proof (rule same_content [OF assms])
  let ?ph = "pl_phases p ! i"
  let ?xs = "(ph_subtasks ?ph)[j := any_item.apply_op (ph_subtasks ?ph ! j) e]"
  have "phase_content (?ph\<lparr>ph_subtasks := ?xs\<rparr>) = phase_content ?ph"
    by (simp only: phase_content_eq) (simp add: update_same)
  then show "map phase_content (pl_phases (op_on_item i j e p)) = map phase_content (pl_phases p)"
    by (simp add: op_on_item_def Let_def update_same)
  have "\<forall>x \<in> set ?xs. plain_item x" if "i < length (pl_phases p)"
  proof -
    have all: "\<forall>x \<in> set (ph_subtasks ?ph). plain_item x" using that plain_phases [OF assms] nth_mem by blast
    then show ?thesis by (intro update_all) simp_all
  qed
  then show "\<forall>ph \<in> set (pl_phases (op_on_item i j e p)). \<forall>x \<in> set (ph_subtasks ph). plain_item x"
    using update_all [OF plain_phases [OF assms], of i "?ph\<lparr>ph_subtasks := ?xs\<rparr>"]
    by (simp add: op_on_item_def Let_def)
qed (simp_all add: op_on_item_def Let_def)

lemma reread_content:
  assumes "plain_plan p"
  shows "plain_plan (reread_plan p) \<and> plan_content (reread_plan p) = plan_content p"
proof (rule same_content [OF assms])
  have "phase_content (ph\<lparr>ph_subtasks := map reread_item (ph_subtasks ph)\<rparr>) = phase_content ph"
    if "ph \<in> set (pl_phases p)" for ph
    using plain_phases [OF assms] that item_reread_content by (simp add: phase_content_eq)
  then show "map phase_content (pl_phases (reread_plan p)) = map phase_content (pl_phases p)"
    by (simp add: reread_plan_def)
  show "\<forall>ph \<in> set (pl_phases (reread_plan p)). \<forall>x \<in> set (ph_subtasks ph). plain_item x"
    using plain_phases [OF assms] item_reread_content by (auto simp: reread_plan_def)
qed (use assms in \<open>simp_all add: reread_plan_def plain_plan_def\<close>)

lemma update_status_fields [simp]:
  "pl_workflow_type (update_status_from_subtasks p) = pl_workflow_type p"
  "pl_services_involved (update_status_from_subtasks p) = pl_services_involved p"
  "pl_final_acceptance (update_status_from_subtasks p) = pl_final_acceptance p"
  "pl_spec_file (update_status_from_subtasks p) = pl_spec_file p"
  "pl_required_commands (update_status_from_subtasks p) = pl_required_commands p"
  by (simp_all add: update_status_from_subtasks_def Let_def)

lemma build_step_content:
  assumes "plain_plan p"
  shows "plain_plan (build_step p e) \<and> plan_content (build_step p e) = plan_content p"
proof (cases e)
  case (Item_Op i j op)
  then show ?thesis using op_on_item_content [OF assms] by simp
next
  case Reload_Plan
  then show ?thesis using reread_content [OF assms] by (simp add: plan_roundtrip_reread)
next
  case Save_Plan
  then show ?thesis using plain_phases [OF assms] by (intro same_content [OF assms]) (simp_all add: plan_save_def Let_def)
next
  case Set_Progress
  then show ?thesis using plain_phases [OF assms] by (intro same_content [OF assms]) simp_all
next
  case Reopen_Plan
  then show ?thesis using plain_phases [OF assms] by (intro same_content [OF assms]) (simp_all add: reset_for_followup_def Let_def)
qed

text \<open>The content is an invariant of every build.\<close>

interpretation build: machine build_step "\<lambda>_. True" "\<lambda>p. plain_plan p \<and> plan_content p = K"
  by unfold_locales (use build_step_content in auto)

text \<open>What is read from a file is plain.\<close>

lemma item_from_json_plain: "item_from_json v = Inr x \<Longrightarrow> plain_item x"
  by (auto simp: item_from_json_def bindE_Inr_iff subtask_from_dict_def get_strs_or_empty_def get_any_def has_key_def
      split: if_splits)

lemma mapE_Inr_all: "mapE f xs = Inr ys \<Longrightarrow> (\<And>x y. f x = Inr y \<Longrightarrow> P y) \<Longrightarrow> y \<in> set ys \<Longrightarrow> P y"
  by (induction xs arbitrary: ys) (auto simp: bindE_Inr_iff)

lemma phases_from_plain: "phases_from n xs = Inr phs \<Longrightarrow> ph \<in> set phs \<Longrightarrow> x \<in> set (ph_subtasks ph) \<Longrightarrow> plain_item x"
proof (induction n xs arbitrary: phs rule: phases_from.induct)
  case (2 idx j js)
  then obtain d p ps where p: "phase_from_dict d (idx + 1) = Inr p" "phases_from (idx + 1) js = Inr ps" "phs = p # ps"
      "as_obj ''phases'' j = Inr d"
    by (auto simp: bindE_Inr_iff)
  have "plain_item x" if "ph = p"
    using p(1) 2(4) that by (auto simp: phase_from_dict_def bindE_Inr_iff intro: mapE_Inr_all item_from_json_plain)
  then show ?case using p 2 by auto
qed simp

lemma get_feature_not_Nil: "get_feature d = Inr f \<Longrightarrow> f \<noteq> []"
  by (auto simp: get_feature_def bindE_Inr_iff truthy_str_def split: if_splits option.splits)

lemma plan_from_dict_plain: "plan_from_dict d = Inr p \<Longrightarrow> plain_plan p"
proof -
  assume "plan_from_dict d = Inr p"
  then obtain pd where "get_feature d = Inr (pl_feature p)" "phases_from 0 pd = Inr (pl_phases p)"
    by (auto simp: plan_from_dict_def bindE_Inr_iff)
  then show ?thesis
    using get_feature_not_Nil phases_from_plain by (auto simp: plain_plan_def)
qed

section \<open>The approval\<close>

lemma approve_fields:
  assumes "approve c now who auto st fs = Inr (st', fs')"
  shows "rw_approved st' = JBool True" "rw_spec_hash st' = JStr (compute_spec_hash c fs)"
    "rw_saved_spec_hash st' = JStr (compute_saved_spec_hash c fs)"
  using assms by (auto simp: approve_def bindE_Inr_iff saved_if_def)

lemma combine_not_Nil: "(\<And>s. cd_md5 c s \<noteq> []) \<Longrightarrow> combine c fs h \<noteq> []"
  by (simp add: combine_def)

lemma spec_hash_not_Nil: "(\<And>s. cd_md5 c s \<noteq> []) \<Longrightarrow> compute_spec_hash c fs \<noteq> []"
  by (simp add: compute_spec_hash_def combine_not_Nil)

text \<open>The content, and with it the hash that was stored for the saved form of the plan.\<close>

lemma build_keeps_saved_hash:
  assumes "read_plan c fs = Some d" "plan_from_dict d = Inr p" "sf_spec_md gs = sf_spec_md fs"
    and "read_plan c gs = Some (plan_to_dict (foldl build_step p es))"
  shows "compute_spec_hash c gs = compute_saved_spec_hash c fs"
proof -
  have "plan_content (foldl build_step p es) = plan_content p"
    using build.run_inv [where K = "plan_content p", of p es] plan_from_dict_plain [OF assms(2)] by simp
  then show ?thesis
    using assms by (simp add: compute_spec_hash_def compute_saved_spec_hash_def combine_def content_hash_def plan_content_def)
qed

lemma hash_makes_valid:
  assumes "approve c now who auto st fs = Inr (st', fs')" "\<And>s. cd_md5 c s \<noteq> []"
    and "compute_spec_hash c gs \<in> {compute_spec_hash c fs, compute_saved_spec_hash c fs}"
  shows "is_approval_valid c st' gs"
  using approve_fields [OF assms(1)] spec_hash_not_Nil [of c fs, OF assms(2)] assms(3) by (auto simp: is_approval_valid_def)

text \<open>C23: an approval survives the build. After a plan has been approved, its items may be started, completed and
  failed, the plan saved and loaded, its status, review, recovery, contract and sign-off keys set and the plan
  reopened, in any order and number: the approval stays valid for the file that holds the result, as long as the
  specification is the same.\<close>

theorem approval_survives_build:
  assumes "approve c now who auto st fs = Inr (st', fs')" "read_plan c fs = Some d" "plan_from_dict d = Inr p"
    and "\<And>s. cd_md5 c s \<noteq> []" "sf_spec_md gs = sf_spec_md fs"
    and "read_plan c gs = Some (plan_to_dict (foldl build_step p es))"
  shows "is_approval_valid c st' gs"
  using hash_makes_valid [OF assms(1,4)] build_keeps_saved_hash [OF assms(2,3,5,6)] by simp

text \<open>The text of the plan that is hashed: without progress, or the file itself if it holds no object.\<close>

definition hashed_plan :: "codec \<Rightarrow> spec_files \<Rightarrow> string option" where
  "hashed_plan c fs =
     (case read_plan c fs of None \<Rightarrow> sf_plan fs | Some d \<Rightarrow> Some (cd_sorted c (strip_plan_progress d)))"

definition saved_plan :: "codec \<Rightarrow> spec_files \<Rightarrow> string option" where
  "saved_plan c fs = (case read_plan c fs of None \<Rightarrow> None | Some d \<Rightarrow>
     (case plan_from_dict d of Inl _ \<Rightarrow> None | Inr p \<Rightarrow> Some (cd_sorted c (plan_content p))))"

definition collision :: "codec \<Rightarrow> bool" where
  "collision c \<longleftrightarrow> (\<exists>x y. x \<noteq> y \<and> cd_md5 c x = cd_md5 c y)"

lemma file_hash_eq:
  assumes "\<not> collision c" "\<And>s. cd_md5 c s \<noteq> []"
  shows "compute_file_hash c a = compute_file_hash c b \<longleftrightarrow> a = b"
proof -
  have "cd_md5 c x = cd_md5 c y \<longleftrightarrow> x = y" for x y using assms(1) by (auto simp: collision_def)
  then show ?thesis using assms(2) assms(2) [THEN not_sym] by (auto simp: compute_file_hash_def split: option.splits)
qed

lemma colon_split: "CHR '':'' \<notin> set a \<Longrightarrow> CHR '':'' \<notin> set b \<Longrightarrow> a @ '':'' @ x = b @ '':'' @ y \<longleftrightarrow> a = b \<and> x = y"
proof (induction a arbitrary: b)
  case Nil
  then show ?case by (cases b) auto
next
  case (Cons d a)
  then show ?case by (cases b) auto
qed

lemma combine_eq:
  assumes "\<not> collision c" "\<And>s. cd_md5 c s \<noteq> []" "\<And>s. CHR '':'' \<notin> set (cd_md5 c s)"
  shows "combine c fs x = combine c gs y \<longleftrightarrow> sf_spec_md fs = sf_spec_md gs \<and> x = y"
proof -
  have "cd_md5 c x = cd_md5 c y \<longleftrightarrow> x = y" for x y using assms(1) by (auto simp: collision_def)
  moreover have "CHR '':'' \<notin> set (compute_file_hash c f)" for f using assms(3) by (simp add: compute_file_hash_def split: option.split)
  ultimately show ?thesis
    using file_hash_eq [OF assms(1,2)] by (simp add: combine_def colon_split [simplified])
qed

lemma spec_hash_hashed: "compute_spec_hash c fs = combine c fs (compute_file_hash c (hashed_plan c fs))"
  by (simp add: compute_spec_hash_def hashed_plan_def content_hash_def compute_file_hash_def split: option.split)

lemma saved_hash_saved: "compute_saved_spec_hash c fs =
    (case saved_plan c fs of None \<Rightarrow> [] | Some t \<Rightarrow> combine c fs (compute_file_hash c (Some t)))"
  by (simp add: compute_saved_spec_hash_def saved_plan_def content_hash_def compute_file_hash_def plan_content_def
      split: option.split sum.split)

text \<open>C24: an approval binds what was approved. It is valid for a later state of the files exactly when the
  specification is unchanged and the plan without its progress is the one that was approved, or the one that
  loading and saving it makes of it. The alternative is a collision of the hash.\<close>

theorem approval_binds_content:
  assumes "approve c now who auto st fs = Inr (st', fs')"
    and "\<And>s. cd_md5 c s \<noteq> [] \<and> CHR '':'' \<notin> set (cd_md5 c s)"
  shows "collision c \<or>
    (is_approval_valid c st' gs \<longleftrightarrow>
       sf_spec_md gs = sf_spec_md fs \<and>
       (hashed_plan c gs = hashed_plan c fs \<or> saved_plan c fs \<noteq> None \<and> hashed_plan c gs = saved_plan c fs))"
proof (cases "collision c")
  case no: False
  have ne: "cd_md5 c s \<noteq> []" "CHR '':'' \<notin> set (cd_md5 c s)" for s using assms(2) by auto
  note eqs = combine_eq [OF no ne] file_hash_eq [OF no ne(1)]
  have "compute_spec_hash c gs = compute_saved_spec_hash c fs \<longleftrightarrow>
      sf_spec_md gs = sf_spec_md fs \<and> saved_plan c fs \<noteq> None \<and> hashed_plan c gs = saved_plan c fs"
    using combine_not_Nil [of c gs, OF ne(1)]
    by (cases "saved_plan c fs") (simp_all add: spec_hash_hashed saved_hash_saved eqs del: compute_file_hash_def)
  moreover have "compute_spec_hash c gs = compute_spec_hash c fs \<longleftrightarrow>
      sf_spec_md gs = sf_spec_md fs \<and> hashed_plan c gs = hashed_plan c fs"
    by (simp add: spec_hash_hashed eqs)
  ultimately show ?thesis
    using approve_fields [OF assms(1)] spec_hash_not_Nil [of c fs, OF ne(1)] by (auto simp: is_approval_valid_def)
qed simp

text \<open>A build of one subtask, and the witnesses.\<close>

definition small_plan :: obj where
  "small_plan = [(''feature'', JStr ''f''), (''phases'', JList [JObj [(''phase'', JInt 1), (''subtasks'', JList
     [JObj [(''id'', JStr ''a''), (''description'', JStr ''d''), (''notes'', JStr ''n'')]])]])]"

definition small_files :: "obj \<Rightarrow> spec_files" where
  "small_files d = \<lparr>sf_spec_md = Some ''s'', sf_plan = Some (numbered (JObj d)), sf_review = None, sf_metadata = None,
     sf_requirements = None, sf_contract = None\<rparr>"

lemma read_small [simp]: "read_plan numbered_codec (small_files d) = Some d" "sf_spec_md (small_files d) = Some ''s''"
  by (simp_all add: read_plan_def read_json_def small_files_def)

definition small_loaded :: plan where
  "small_loaded = projr (plan_from_dict small_plan)"

lemma small_loads: "plan_from_dict small_plan = Inr small_loaded"
  by code_simp

definition small_approved :: review_state where
  "small_approved = fst (projr (approve numbered_codec ''t'' ''me'' True new_review (small_files small_plan)))"

lemma small_approve: "approve numbered_codec ''t'' ''me'' True new_review (small_files small_plan) =
   Inr (small_approved, snd (projr (approve numbered_codec ''t'' ''me'' True new_review (small_files small_plan))))"
  by (simp add: small_approved_def approve_def new_review_def count_up_def)

lemma approval_survives_build_witness:
  "is_approval_valid numbered_codec small_approved
     (small_files (plan_to_dict (foldl build_step small_loaded
        [Item_Op 0 0 (Start ''1''), Save_Plan ''2'', Reload_Plan, Item_Op 0 0 (Complete ''3'' None), Save_Plan ''4''])))"
  by (rule approval_survives_build [OF small_approve read_small(1) small_loads _ _ read_small(1)]) simp_all

lemma colon_not_numbered: "CHR '':'' \<notin> set (numbered x)"
  using numbered_digits [of "CHR '':''" x] by (auto simp: is_digit_def Let_def)

lemma approval_binds_content_witness:
  "\<not> is_approval_valid numbered_codec small_approved (small_files ((''feature'', JStr ''g'') # small_plan))"
proof -
  have no: "\<not> collision numbered_codec" by (simp add: collision_def)
  have "strip_plan_progress ((''feature'', JStr ''g'') # small_plan) \<noteq> strip_plan_progress small_plan"
    "strip_plan_progress ((''feature'', JStr ''g'') # small_plan) \<noteq> plan_content small_loaded"
    by code_simp+
  then show ?thesis
    using approval_binds_content [OF small_approve, of "small_files ((''feature'', JStr ''g'') # small_plan)"] no
    by (simp add: colon_not_numbered hashed_plan_def saved_plan_def small_loads)
qed

section \<open>The gates of a run\<close>

text \<open>
  With a source directory the gates are read from it alone; what they say later depends on the specification and
  the plan of the run, and on no other file of it.
\<close>

lemma gates_from_source: "capture_gates c task_id var config fs (Some src) = capture_gates c task_id var config gs (Some src)"
  by (simp add: capture_gates_def)

lemma approval_valid_files: "sf_spec_md gs = sf_spec_md fs \<Longrightarrow> sf_plan gs = sf_plan fs \<Longrightarrow> approval_valid c g gs = approval_valid c g fs"
  by (simp add: approval_valid_def is_approval_valid_def compute_spec_hash_def combine_def read_plan_def cong: option.case_cong)

lemma server_run_without_source:
  assumes "capture_gates c task_id var config fs None = Inr g" "truthy_str task_id"
  shows "rg_requires_review g \<and> \<not> rg_solo g \<and> rg_approved_plan g \<noteq> None"
  using assms by (auto simp: capture_gates_def bindE_Inr_iff approved_plan_snapshot_def)

end
