(* ===== verification/Trusted_Plan.thy ===== *)
theory Trusted_Plan
  imports Plan_Approval Py_Edit Wave_Scheduler "HOL-Library.List_Lexorder" "HOL-Library.Char_ord"
begin

text \<open>
  The handoff of a signed plan (\<open>trusted_plan.py\<close>): the ring of keys, the signature, the checks that make a plan
  buildable, its age against the repository, and what is written when it is taken in. HMAC, the canonical text of a
  JSON value, its text in an f-string and its \<open>repr\<close> are arguments, bundled in \<open>plan_env\<close>; git is the argument of the
  functions that call it. A dash of a message is written as two hyphens.
\<close>

record plan_env =
  te_hmac :: "string \<Rightarrow> string \<Rightarrow> string"
  te_canonical :: "json \<Rightarrow> string"
  te_shown :: "json \<Rightarrow> string"
  te_repr :: "json \<Rightarrow> string"
  te_codec :: codec

abbreviation te_str :: "plan_env \<Rightarrow> json \<Rightarrow> string" where
  "te_str E v \<equiv> py_str (te_shown E) v"

definition SUPPORTED_CONTRACT_VERSIONS :: "string list" where
  "SUPPORTED_CONTRACT_VERSIONS = [''1'', ''2'']"

definition ENV_KEY_PREFIX :: string where "ENV_KEY_PREFIX = ''AIFACTORY_TRUSTED_PLAN_KEY_''"
definition KID_SEP :: string where "KID_SEP = ''__''"
definition RETIRED_KIDS_ENV :: string where "RETIRED_KIDS_ENV = ''AIFACTORY_TRUSTED_PLAN_RETIRED_KIDS''"
definition APPROVAL_KEY :: string where "APPROVAL_KEY = ''approval''"

definition ENVELOPE_FIELDS :: "string list" where
  "ENVELOPE_FIELDS = [''approved_by'', ''approval_timestamp'', ''plan_contract_version'', ''signature'']"

type_synonym environ = "(string \<times> string) list"
type_synonym keyring = "(string \<times> string) list"

section \<open>The ring of keys\<close>

definition keyring_entry :: "string \<times> string \<Rightarrow> keyring \<Rightarrow> keyring" where
  "keyring_entry var keyring =
     (case var of (name, value) \<Rightarrow>
        if \<not> (prefix ENV_KEY_PREFIX name \<and> value \<noteq> []) then keyring
        else let suffix = py_lower (py_strip (drop (length ENV_KEY_PREFIX) name))
             in if suffix = [] then keyring
                else (case py_find KID_SEP suffix 0 of
                        Some i \<Rightarrow>
                          let authority = py_strip (take i suffix); kid = py_strip (drop (i + 2) suffix)
                          in if authority \<noteq> [] \<and> kid \<noteq> []
                             then AList.update (authority @ ''/'' @ kid) value keyring else keyring
                      | None \<Rightarrow> AList.update suffix value keyring))"

definition load_keyring_from_env :: "environ \<Rightarrow> keyring" where
  "load_keyring_from_env env = fold keyring_entry env []"

definition load_retired_kids_from_env :: "environ \<Rightarrow> string set" where
  "load_retired_kids_from_env env =
     (let raw = ddefault [] env RETIRED_KIDS_ENV
      in set (map (\<lambda>tok. py_lower (py_strip tok)) (filter (\<lambda>tok. py_strip tok \<noteq> []) (py_split_on (CHR '','') raw))))"

section \<open>The signature\<close>

definition plan_core :: "obj \<Rightarrow> obj" where
  "plan_core plan = filter (\<lambda>(k, v). k \<noteq> APPROVAL_KEY) plan"

definition signing_bytes :: "plan_env \<Rightarrow> obj \<Rightarrow> string \<Rightarrow> string \<Rightarrow> string \<Rightarrow> string option \<Rightarrow> string" where
  "signing_bytes E plan approved_by approval_timestamp contract_version kid =
     py_join ''|'' ([te_canonical E (JObj (plan_core plan)), approved_by, approval_timestamp, contract_version]
       @ (case keep_str kid of None \<Rightarrow> [] | Some k \<Rightarrow> [k]))"

definition sign_plan ::
    "plan_env \<Rightarrow> obj \<Rightarrow> string \<Rightarrow> string \<Rightarrow> string \<Rightarrow> string \<Rightarrow> string option \<Rightarrow> obj" where
  "sign_plan E plan key approved_by approval_timestamp contract_version kid =
     [(''approved_by'', JStr approved_by), (''approval_timestamp'', JStr approval_timestamp),
      (''plan_contract_version'', JStr contract_version),
      (''signature'', JStr (te_hmac E key (signing_bytes E plan approved_by approval_timestamp contract_version kid)))]
     @ entry (truthy_str kid) ''kid'' (jopt kid)"

text \<open>The reason, or the key.\<close>

definition select_verification_key ::
    "plan_env \<Rightarrow> keyring \<Rightarrow> string set \<Rightarrow> string \<Rightarrow> json \<Rightarrow> string + string" where
  "select_verification_key E keyring retired_kids authority kid =
     (if truthy kid then
        (let kid_l = py_lower (py_strip (te_str E kid))
         in if kid_l \<in> retired_kids \<or> authority @ ''/'' @ kid_l \<in> retired_kids
            then Inl (''key id '' @ te_repr E kid @ '' for authority '' @ te_repr E (JStr authority) @ '' is retired'')
            else let keyed = ddefault [] keyring (authority @ ''/'' @ kid_l)
                 in if keyed = []
                    then Inl (''no verification key for authority '' @ te_repr E (JStr authority) @ '' key-id ''
                           @ te_repr E kid @ '' (set '' @ ENV_KEY_PREFIX @ py_upper authority @ KID_SEP @ py_upper kid_l @ '')'')
                    else Inr keyed)
      else let legacy = ddefault [] keyring authority
           in if legacy = []
              then Inl (''no verification key for authority '' @ te_repr E (JStr authority)
                     @ '' (set '' @ ENV_KEY_PREFIX @ py_upper authority @ '')'')
              else Inr legacy)"

text \<open>Comparing texts in constant time takes ASCII only.\<close>

definition is_ascii :: "string \<Rightarrow> bool" where
  "is_ascii s = list_all (\<lambda>c. (of_char c :: nat) < 128) s"

definition compare_digest :: "string \<Rightarrow> string \<Rightarrow> py_error + bool" where
  "compare_digest a b = (if is_ascii a \<and> is_ascii b then Inr (a = b) else Inl (TypeError ''compare_digest''))"

definition verify_plan_signature ::
    "plan_env \<Rightarrow> keyring \<Rightarrow> string set \<Rightarrow> obj \<Rightarrow> py_error + bool \<times> string" where
  "verify_plan_signature E keyring retired_kids plan =
     (case get_any APPROVAL_KEY plan of
        JObj envelope \<Rightarrow>
          (let missing = filter (\<lambda>f. \<not> truthy (get_any f envelope)) ENVELOPE_FIELDS;
               contract = te_str E (get_any ''plan_contract_version'' envelope);
               approved_by = te_str E (get_any ''approved_by'' envelope);
               authority = py_lower (py_strip approved_by);
               kid = get_any ''kid'' envelope
           in if missing \<noteq> [] then Inr (False, ''approval envelope missing fields: '' @ py_join '', '' missing)
              else if contract \<notin> set SUPPORTED_CONTRACT_VERSIONS
              then Inr (False, ''unsupported plan_contract_version '' @ te_repr E (JStr contract) @
                     '' (this AIFactory verifies '' @ te_repr E (jstrs SUPPORTED_CONTRACT_VERSIONS) @ '')'')
              else (case select_verification_key E keyring retired_kids authority kid of
                      Inl reason \<Rightarrow> Inr (False, reason)
                    | Inr key \<Rightarrow>
                        let expected = te_hmac E key
                              (signing_bytes E plan approved_by (te_str E (get_any ''approval_timestamp'' envelope))
                                 contract (if truthy kid then Some (te_str E kid) else None))
                        in bindE (compare_digest expected (te_str E (get_any ''signature'' envelope))) (\<lambda>same.
                             Inr (if same then (True, [])
                                  else (False, ''signature mismatch -- plan or metadata was tampered with'')))))
      | _ \<Rightarrow> Inr (False, ''plan has no approval envelope''))"

section \<open>The check of the plan\<close>

text \<open>
  What a value is as a key of a dictionary or a member of a set: equal numbers are one key, a list or a
  dictionary is none.
\<close>

definition hash_key :: "json \<Rightarrow> json option" where
  "hash_key v =
     (case v of
        JBool b \<Rightarrow> Some (JInt (if b then 1 else 0))
      | JFloat q \<Rightarrow> Some (if of_int \<lfloor>q\<rfloor> = q then JInt \<lfloor>q\<rfloor> else v)
      | JList _ \<Rightarrow> None
      | JObj _ \<Rightarrow> None
      | _ \<Rightarrow> Some v)"

definition quote1 :: "string \<Rightarrow> string" where
  "quote1 s = [CHR 0x27] @ s @ [CHR 0x27]"

definition or_empty :: "json \<Rightarrow> json" where
  "or_empty v = (if truthy v then v else JList [])"

text \<open>
  The sets \<open>seen_ids\<close> and \<open>all_subtask_ids\<close> always agree. The dictionary of dependencies keeps the value its key was
  first written as.
\<close>

record checklist =
  ck_reasons :: "string list"
  ck_ids :: "json set"
  ck_total :: nat
  ck_deps :: "(json \<times> json \<times> json list) list"

definition because :: "string \<Rightarrow> checklist \<Rightarrow> checklist" where
  "because reason ck = ck\<lparr>ck_reasons := ck_reasons ck @ [reason]\<rparr>"

definition nth_label :: "nat \<Rightarrow> nat \<Rightarrow> string" where
  "nth_label pn sn = ''phase '' @ str_of_int (int pn + 1) @ '' subtask '' @ str_of_int (int sn + 1)"

definition put_deps :: "json \<Rightarrow> json \<Rightarrow> json list \<Rightarrow> checklist \<Rightarrow> checklist" where
  "put_deps k sid ds ck =
     ck\<lparr>ck_deps := AList.update k (case map_of (ck_deps ck) k of None \<Rightarrow> (sid, ds) | Some (first, _) \<Rightarrow> (first, ds)) (ck_deps ck)\<rparr>"

definition check_subtask :: "plan_env \<Rightarrow> nat \<Rightarrow> nat \<Rightarrow> json \<Rightarrow> checklist \<Rightarrow> py_error + checklist" where
  "check_subtask E pn sn st ck0 =
     (let ck = ck0\<lparr>ck_total := ck_total ck0 + 1\<rparr>
      in case st of
           JObj d \<Rightarrow>
             (let sid = get_any ''id'' d;
                  label = (if truthy sid then te_str E sid else nth_label pn sn);
                  described = (\<lambda>ck. if truthy (get_any ''description'' d) then ck
                                     else because (label @ '': missing '' @ quote1 ''description'') ck)
              in if \<not> truthy sid
                 then Inr (described (because (label @ '': missing '' @ quote1 ''id'') ck))
                 else (case hash_key sid of
                         None \<Rightarrow> Inl (TypeError ''unhashable'')
                       | Some k \<Rightarrow>
                           let ck1 = described (if k \<in> ck_ids ck
                                 then because (''duplicate subtask id '' @ te_repr E sid) ck
                                 else ck\<lparr>ck_ids := insert k (ck_ids ck)\<rparr>)
                           in bindE (py_list (or_empty (get_any ''depends_on'' d))) (\<lambda>ds. Inr (put_deps k sid ds ck1))))
         | _ \<Rightarrow> Inr (because (nth_label pn sn @ '' is not an object'') ck))"

fun check_subtasks :: "plan_env \<Rightarrow> nat \<Rightarrow> nat \<Rightarrow> json list \<Rightarrow> checklist \<Rightarrow> py_error + checklist" where
  "check_subtasks E pn sn [] ck = Inr ck"
| "check_subtasks E pn sn (st # sts) ck = bindE (check_subtask E pn sn st ck) (check_subtasks E pn (Suc sn) sts)"

definition check_phase :: "plan_env \<Rightarrow> nat \<Rightarrow> json \<Rightarrow> checklist \<Rightarrow> py_error + checklist" where
  "check_phase E pn phase ck =
     (case phase of
        JObj d \<Rightarrow>
          (case get_any ''subtasks'' d of
             JList (st # sts) \<Rightarrow> check_subtasks E pn 0 (st # sts) ck
           | _ \<Rightarrow> Inr (because (''phase '' @ str_of_int (int pn + 1) @ '' has no subtasks'') ck))
      | _ \<Rightarrow> Inr (because (''phase '' @ str_of_int (int pn + 1) @ '' is not an object'') ck))"

fun check_phases :: "plan_env \<Rightarrow> nat \<Rightarrow> json list \<Rightarrow> checklist \<Rightarrow> py_error + checklist" where
  "check_phases E pn [] ck = Inr ck"
| "check_phases E pn (ph # phs) ck = bindE (check_phase E pn ph ck) (check_phases E (Suc pn) phs)"

definition dep_reason :: "plan_env \<Rightarrow> json set \<Rightarrow> json \<Rightarrow> json \<Rightarrow> json \<Rightarrow> py_error + string list" where
  "dep_reason E ids k sid dep =
     (if hash_key dep = Some k then Inr [te_str E sid @ '': depends on itself'']
      else (case hash_key dep of
              None \<Rightarrow> Inl (TypeError ''unhashable'')
            | Some d \<Rightarrow> Inr (if d \<notin> ids then [te_str E sid @ '': depends on unknown subtask '' @ te_repr E dep] else [])))"

definition dep_reasons :: "plan_env \<Rightarrow> checklist \<Rightarrow> py_error + string list" where
  "dep_reasons E ck =
     bindE (mapE (\<lambda>(k, sid, ds). mapE (dep_reason E (ck_ids ck) k sid) ds) (ck_deps ck)) (\<lambda>rss. Inr (concat (concat rss)))"

text \<open>
  The depth-first search stops at the first back edge. Every call colours a white node, so as much fuel as there are
  nodes is enough; without fuel the result is \<open>None\<close>.
\<close>

type_synonym 'a digraph = "('a \<times> 'a list) list"

function dfs_visit :: "nat \<Rightarrow> 'a digraph \<Rightarrow> 'a \<Rightarrow> ('a \<rightharpoonup> color) \<Rightarrow> (bool \<times> ('a \<rightharpoonup> color)) option"
  and dfs_each :: "nat \<Rightarrow> 'a digraph \<Rightarrow> 'a list \<Rightarrow> ('a \<rightharpoonup> color) \<Rightarrow> (bool \<times> ('a \<rightharpoonup> color)) option" where
  "dfs_visit 0 g node col = None"
| "dfs_visit (Suc n) g node col =
     (case dfs_each n g (ddefault [] g node) (col(node \<mapsto> GREY)) of
        None \<Rightarrow> None
      | Some (ok, col') \<Rightarrow> Some (if ok then (True, col'(node \<mapsto> BLACK)) else (False, col')))"
| "dfs_each n g [] col = Some (True, col)"
| "dfs_each n g (nxt # rest) col =
     (case col nxt of
        None \<Rightarrow> dfs_each n g rest col
      | Some GREY \<Rightarrow> Some (False, col)
      | Some BLACK \<Rightarrow> dfs_each n g rest col
      | Some WHITE \<Rightarrow>
          (case dfs_visit n g nxt col of
             None \<Rightarrow> None
           | Some (False, col') \<Rightarrow> Some (False, col')
           | Some (True, col') \<Rightarrow> dfs_each n g rest col'))"
  by pat_completeness auto
termination
  by (relation "inv_image (less_than <*lex*> less_than)
        (\<lambda>x. case x of Inl (n, _) \<Rightarrow> (n, 0 :: nat) | Inr (n, _, deps, _) \<Rightarrow> (n, Suc (length deps)))") auto

fun dfs_all :: "nat \<Rightarrow> 'a digraph \<Rightarrow> 'a list \<Rightarrow> ('a \<rightharpoonup> color) \<Rightarrow> bool option" where
  "dfs_all n g [] col = Some True"
| "dfs_all n g (node # nodes) col =
     (if col node = Some WHITE
      then (case dfs_visit n g node col of
              None \<Rightarrow> None
            | Some (False, _) \<Rightarrow> Some False
            | Some (True, col') \<Rightarrow> dfs_all n g nodes col')
      else dfs_all n g nodes col)"

definition is_acyclic :: "'a digraph \<Rightarrow> bool option" where
  "is_acyclic deps = dfs_all (length deps) deps (map fst deps) (\<lambda>k. if k \<in> fst ` set deps then Some WHITE else None)"

text \<open>The graph that is searched: a value that is no key would have raised before.\<close>

definition deps_graph :: "checklist \<Rightarrow> json digraph" where
  "deps_graph ck = map (\<lambda>(k, sid, ds). (k, map (the \<circ> hash_key) ds)) (ck_deps ck)"

definition check_plan_completeness :: "plan_env \<Rightarrow> obj \<Rightarrow> py_error + bool \<times> string list" where
  "check_plan_completeness E plan =
     (let missing = map (\<lambda>f. ''missing top-level field '' @ quote1 f)
            (filter (\<lambda>f. map_of plan f = None) [''feature'', ''workflow_type'', ''phases''])
      in case get_any ''phases'' plan of
           JList (ph # phs) \<Rightarrow>
             bindE (check_phases E 0 (ph # phs) \<lparr>ck_reasons = missing, ck_ids = {}, ck_total = 0, ck_deps = []\<rparr>) (\<lambda>ck.
             bindE (dep_reasons E ck) (\<lambda>deps.
               let reasons = ck_reasons ck @ (if ck_total ck = 0 then [''plan has no subtasks''] else []) @ deps
                     @ (if is_acyclic (deps_graph ck) = Some True then [] else [''subtask depends_on graph contains a cycle''])
               in Inr (reasons = [], reasons)))
         | _ \<Rightarrow> Inr (False, missing @ [quote1 ''phases'' @ '' must be a non-empty list'']))"

section \<open>Both gates\<close>

record verification_result =
  vr_ok :: bool
  vr_reasons :: "string list"
  vr_approved_by :: json
  vr_approval_timestamp :: json

definition envelope_of :: "obj \<Rightarrow> obj" where
  "envelope_of plan = (case get_any APPROVAL_KEY plan of JObj e \<Rightarrow> e | _ \<Rightarrow> [])"

definition verify_trusted_plan :: "plan_env \<Rightarrow> environ \<Rightarrow> keyring option \<Rightarrow> obj \<Rightarrow> py_error + verification_result" where
  "verify_trusted_plan E env keyring plan =
     bindE (verify_plan_signature E (case keyring of None \<Rightarrow> load_keyring_from_env env | Some r \<Rightarrow> r)
              (load_retired_kids_from_env env) plan) (\<lambda>(sig_ok, sig_reason).
     bindE (check_plan_completeness E plan) (\<lambda>(complete_ok, complete_reasons).
       Inr \<lparr>vr_ok = (sig_ok \<and> complete_ok),
            vr_reasons = (if sig_ok then [] else [sig_reason]) @ complete_reasons,
            vr_approved_by = get_any ''approved_by'' (envelope_of plan),
            vr_approval_timestamp = get_any ''approval_timestamp'' (envelope_of plan)\<rparr>))"

section \<open>The age of the plan\<close>

definition DRIFT_POLICIES :: "string list" where
  "DRIFT_POLICIES = [''blast-radius'', ''reject'', ''warn'', ''off'']"

datatype drift_status = DRIFT_ABSENT | DRIFT_CURRENT | DRIFT_UNKNOWN | DRIFT_DRIFTED | DRIFT_BLAST_RADIUS

fun drift_value :: "drift_status \<Rightarrow> string" where
  "drift_value DRIFT_ABSENT = ''absent''"
| "drift_value DRIFT_CURRENT = ''current''"
| "drift_value DRIFT_UNKNOWN = ''unknown''"
| "drift_value DRIFT_DRIFTED = ''drifted''"
| "drift_value DRIFT_BLAST_RADIUS = ''blast_radius_changed''"

record baseline_drift =
  bd_status :: drift_status
  bd_baseline_commit :: "string option"
  bd_head_commit :: "string option"
  bd_commits_ahead :: "int option"
  bd_changed_blast_radius_files :: "string list"
  bd_detail :: "string option"

definition diverged :: "baseline_drift \<Rightarrow> bool" where
  "diverged d \<longleftrightarrow> bd_status d \<in> {DRIFT_DRIFTED, DRIFT_BLAST_RADIUS}"

definition short_commit :: "string option \<Rightarrow> string" where
  "short_commit commit = take 12 (if truthy_str commit then the commit else ''?'')"

definition drift_reason :: "baseline_drift \<Rightarrow> string" where
  "drift_reason d =
     (let ahead = (case bd_commits_ahead d of Some n \<Rightarrow> str_of_int n @ '' commit(s)'' | None \<Rightarrow> ''an unknown distance'');
          line = ''plan approved against '' @ short_commit (bd_baseline_commit d) @ '', repo HEAD is now '' @
                 short_commit (bd_head_commit d) @ '' ('' @ ahead @ '' ahead)'';
          files = bd_changed_blast_radius_files d; listed = take 10 files; hidden = length files - length listed
      in if files = [] then line
         else line @ ''; blast-radius files changed since approval: '' @ py_join '', '' listed @
           (if hidden > 0 then '' (+'' @ str_of_int (int hidden) @ '' more)'' else []))"

definition to_provenance :: "baseline_drift \<Rightarrow> obj" where
  "to_provenance d =
     [(''status'', JStr (drift_value (bd_status d)))] @
     entry (truthy_str (bd_baseline_commit d)) ''baseline_commit'' (jopt (bd_baseline_commit d)) @
     entry (truthy_str (bd_head_commit d)) ''head_commit'' (jopt (bd_head_commit d)) @
     entry (bd_commits_ahead d \<noteq> None) ''commits_ahead'' (JInt (the (bd_commits_ahead d))) @
     entry (bd_changed_blast_radius_files d \<noteq> []) ''changed_blast_radius_files'' (jstrs (bd_changed_blast_radius_files d)) @
     entry (truthy_str (bd_detail d)) ''detail'' (jopt (bd_detail d))"

definition drift_policy :: "string option \<Rightarrow> string" where
  "drift_policy var =
     (let raw = py_lower (py_strip (case var of None \<Rightarrow> [] | Some v \<Rightarrow> v))
      in if raw \<in> set DRIFT_POLICIES then raw else ''blast-radius'')"

definition commit_text :: "string \<Rightarrow> json \<Rightarrow> string option" where
  "commit_text key block =
     (case block of
        JObj d \<Rightarrow> (case get_any key d of JStr s \<Rightarrow> if py_strip s = [] then None else Some (py_strip s) | _ \<Rightarrow> None)
      | _ \<Rightarrow> None)"

definition plan_baseline_commit :: "obj \<Rightarrow> string option" where
  "plan_baseline_commit plan =
     (case commit_text ''commit'' (get_any ''baseline'' plan) of
        Some s \<Rightarrow> Some s
      | None \<Rightarrow> commit_text ''baseline_commit'' (get_any ''provenance'' plan))"

definition blast_radius_files :: "obj \<Rightarrow> string list" where
  "blast_radius_files plan =
     (case get_any ''baseline'' plan of
        JObj b \<Rightarrow>
          (case get_any ''blast_radius'' b of
             JObj blast \<Rightarrow>
               (case get_any ''files'' blast of
                  JList files \<Rightarrow> concat (map (\<lambda>f. case f of
                      JStr s \<Rightarrow> if py_strip s = [] then [] else [py_strip s] | _ \<Rightarrow> []) files)
                | _ \<Rightarrow> [])
           | _ \<Rightarrow> [])
      | _ \<Rightarrow> [])"

text \<open>
  \<open>git\<close> answers a read-only command in a directory with its output, stripped, or with \<open>None\<close> when it fails.
\<close>

definition check_baseline_drift ::
    "(string \<Rightarrow> string list \<Rightarrow> string option) \<Rightarrow> obj \<Rightarrow> string option \<Rightarrow> baseline_drift" where
  "check_baseline_drift git plan project_dir =
     (case plan_baseline_commit plan of
        None \<Rightarrow> \<lparr>bd_status = DRIFT_ABSENT, bd_baseline_commit = None, bd_head_commit = None, bd_commits_ahead = None,
                 bd_changed_blast_radius_files = [], bd_detail = None\<rparr>
      | Some base \<Rightarrow>
          (case project_dir of
             None \<Rightarrow> \<lparr>bd_status = DRIFT_UNKNOWN, bd_baseline_commit = Some base, bd_head_commit = None,
                      bd_commits_ahead = None, bd_changed_blast_radius_files = [],
                      bd_detail = Some ''no project directory to resolve HEAD against''\<rparr>
           | Some dir \<Rightarrow>
               let head = git dir [''rev-parse'', ''HEAD'']
               in if \<not> truthy_str head
                  then \<lparr>bd_status = DRIFT_UNKNOWN, bd_baseline_commit = Some base, bd_head_commit = None,
                        bd_commits_ahead = None, bd_changed_blast_radius_files = [],
                        bd_detail = Some (''could not resolve HEAD in '' @ dir)\<rparr>
                  else
                    let resolved = (if head = Some base then head else git dir [''rev-parse'', base @ ''^{commit}''])
                    in if \<not> truthy_str resolved
                       then \<lparr>bd_status = DRIFT_UNKNOWN, bd_baseline_commit = Some base, bd_head_commit = head,
                             bd_commits_ahead = None, bd_changed_blast_radius_files = [],
                             bd_detail = Some (''approved commit '' @ take 12 base @
                               '' is not present in this clone; cannot compare'')\<rparr>
                       else if resolved = head
                       then \<lparr>bd_status = DRIFT_CURRENT, bd_baseline_commit = Some base, bd_head_commit = head,
                             bd_commits_ahead = Some 0, bd_changed_blast_radius_files = [], bd_detail = None\<rparr>
                       else
                         let ahead = git dir [''rev-list'', ''--count'', the resolved @ ''..HEAD''];
                             changed = git dir [''diff'', ''--no-ext-diff'', ''--no-textconv'', ''--name-only'', the resolved, ''HEAD''];
                             changed_files = set (splitlines (case changed of None \<Rightarrow> [] | Some t \<Rightarrow> t));
                             overlap = sorted_list_of_set (changed_files \<inter> set (blast_radius_files plan))
                         in \<lparr>bd_status = (if overlap \<noteq> [] then DRIFT_BLAST_RADIUS else DRIFT_DRIFTED),
                             bd_baseline_commit = Some base, bd_head_commit = head,
                             bd_commits_ahead = (case ahead of
                               Some t \<Rightarrow> if py_isdigit t then Some (int_of_digits t) else None | None \<Rightarrow> None),
                             bd_changed_blast_radius_files = overlap, bd_detail = None\<rparr>))"

definition baseline_drift_rejects :: "baseline_drift \<Rightarrow> string option \<Rightarrow> string option \<Rightarrow> bool" where
  "baseline_drift_rejects d policy var =
     (let p = (if truthy_str policy then the policy else drift_policy var)
      in if p = ''off'' \<or> p = ''warn'' then False
         else if p = ''reject'' then diverged d
         else bd_status d = DRIFT_BLAST_RADIUS)"

section \<open>The execution profile\<close>

definition EXECUTION_TO_METADATA :: "(string \<times> string) list" where
  "EXECUTION_TO_METADATA =
     [(''runtime'', ''runtime''), (''model'', ''model''), (''phase_models'', ''phaseModels''),
      (''phase_thinking'', ''phaseThinking''), (''parallel'', ''parallel''), (''workers'', ''workers''),
      (''complexity'', ''complexity''), (''review_tier'', ''reviewTier''), (''skills'', ''selectedSkills''),
      (''skip_planning'', ''skipPlanning''), (''autonomy_tier'', ''difficultyTier''), (''budget_usd'', ''budgetUsd'')]"

definition put_all :: "obj \<Rightarrow> obj \<Rightarrow> obj" where
  "put_all new d = fold (\<lambda>(k, v). AList.update k v) new d"

definition routing_to_metadata :: "obj \<Rightarrow> obj \<Rightarrow> obj" where
  "routing_to_metadata routing execution =
     (case get_any ''pinned_model'' routing of JStr s \<Rightarrow> entry (s \<noteq> []) ''pinnedModel'' (JStr s) | _ \<Rightarrow> []) @
     concat (map (\<lambda>(src, dst). case get_any src routing of
         JObj block \<Rightarrow>
           let tiers = filter (\<lambda>(stage, tier). case tier of JStr s \<Rightarrow> s \<noteq> [] | _ \<Rightarrow> False) block
           in entry (tiers \<noteq> []) dst (JObj tiers)
       | _ \<Rightarrow> []) [(''requested'', ''routingRequested''), (''overrides'', ''routingOverrides'')]) @
     (case (if truthy (get_any ''difficulty'' routing) then get_any ''difficulty'' routing else get_any ''complexity'' execution) of
        JStr s \<Rightarrow> entry (s \<noteq> []) ''difficultyTier'' (JStr s) | _ \<Rightarrow> [])"

definition execution_profile_to_metadata :: "json \<Rightarrow> obj" where
  "execution_profile_to_metadata execution =
     (case execution of
        JObj e \<Rightarrow>
          (let known = concat (map (\<lambda>(src, dst). entry (get_any src e \<noteq> JNull) dst (get_any src e)) EXECUTION_TO_METADATA);
               meta = (case get_any ''routing'' e of
                         JObj routing \<Rightarrow> put_all (routing_to_metadata routing e) (put_all known [])
                       | _ \<Rightarrow> put_all known [])
           in if truthy (get_any ''phaseModels'' meta) \<or> truthy (get_any ''phaseThinking'' meta)
              then AList.update ''isAutoProfile'' (JBool True) meta else meta)
      | _ \<Rightarrow> [])"

section \<open>Taking the plan in\<close>

datatype ingest_error = Raised py_error | No_Update

definition apply_execution_profile :: "plan_env \<Rightarrow> obj \<Rightarrow> spec_files \<Rightarrow> ingest_error + obj \<times> spec_files" where
  "apply_execution_profile E plan fs =
     (let execution = get_any ''execution'' plan;
          mapped = (if truthy execution then execution_profile_to_metadata execution else [])
      in if mapped = [] then Inr ([], fs)
         else (case read_json (te_codec E) (sf_metadata fs) of
                 None \<Rightarrow> Inr (mapped, fs\<lparr>sf_metadata := Some (cd_text (te_codec E) (JObj (put_all mapped [])))\<rparr>)
               | Some (JObj existing) \<Rightarrow>
                   Inr (mapped, fs\<lparr>sf_metadata := Some (cd_text (te_codec E) (JObj (put_all mapped existing)))\<rparr>)
               | Some _ \<Rightarrow> Inl No_Update))"

definition rstrip :: "string \<Rightarrow> string" where
  "rstrip s = rev (dropWhile is_space (rev s))"

definition str_or :: "plan_env \<Rightarrow> json \<Rightarrow> string \<Rightarrow> string" where
  "str_or E v d = py_strip (if truthy v then te_str E v else d)"

definition phase_lines :: "plan_env \<Rightarrow> json \<Rightarrow> py_error + string list" where
  "phase_lines E phase =
     (case phase of
        JObj d \<Rightarrow>
          bindE (py_list (or_empty (get_any ''subtasks'' d))) (\<lambda>sts.
            Inr ([''### '' @ str_or E (if truthy (get_any ''name'' d) then get_any ''name'' d else get_any ''id'' d) ''Phase'', []] @
              concat (map (\<lambda>st. case st of
                  JObj t \<Rightarrow>
                    let sid = str_or E (get_any ''id'' t) []; desc = str_or E (get_any ''description'' t) []
                    in [rstrip (''- '' @ (if sid = [] then [] else [CHR 0x60] @ sid @ [CHR 0x60] @ '' '') @ desc)]
                | _ \<Rightarrow> []) sts) @ [[]]))
      | _ \<Rightarrow> Inr [])"

definition write_spec_md_from_plan :: "plan_env \<Rightarrow> obj \<Rightarrow> spec_files \<Rightarrow> py_error + spec_files" where
  "write_spec_md_from_plan E plan fs =
     (if sf_spec_md fs \<noteq> None then Inr fs
      else
        let feature = str_or E (get_any ''feature'' plan) ''Trusted plan'';
            workflow = str_or E (get_any ''workflow_type'' plan) ''feature'';
            approved_by = str_or E (get_any ''approved_by'' (envelope_of plan)) ''authority'';
            head = [''# '' @ feature, [], ''> Generated from a signed trusted plan (approved by '' @ approved_by @
                      ''). The authoritative build artifact is implementation_plan.json.'', [],
                    ''**Workflow type:** '' @ workflow, []];
            acceptance = (case get_any ''final_acceptance'' plan of
                JList (a # as) \<Rightarrow> [''## Acceptance Criteria'', []] @
                  map (\<lambda>ac. ''- '' @ py_strip (te_str E ac)) (filter (\<lambda>ac. py_strip (te_str E ac) \<noteq> []) (a # as)) @ [[]]
              | _ \<Rightarrow> [])
        in bindE (case get_any ''phases'' plan of
                    JList (ph # phs) \<Rightarrow>
                      bindE (mapE (phase_lines E) (ph # phs)) (\<lambda>ls. Inr ([''## Implementation Plan'', []] @ concat ls))
                  | _ \<Rightarrow> Inr []) (\<lambda>phases.
             Inr (fs\<lparr>sf_spec_md := Some (rstrip (py_join [LF] (head @ acceptance @ phases)) @ [LF])\<rparr>)))"

definition record_approval_provenance :: "plan_env \<Rightarrow> verification_result \<Rightarrow> spec_files \<Rightarrow> spec_files" where
  "record_approval_provenance E r fs =
     (let data = (case read_json (te_codec E) (sf_requirements fs) of Some (JObj d) \<Rightarrow> d | _ \<Rightarrow> []);
          provenance = (case get_any ''provenance'' data of JObj p \<Rightarrow> p | _ \<Rightarrow> []);
          provenance' = put_all [(''approved_by'', vr_approved_by r), (''approval_timestamp'', vr_approval_timestamp r),
                                 (''trusted_plan'', JBool True)] provenance
      in fs\<lparr>sf_requirements := Some (cd_text (te_codec E) (JObj (AList.update ''provenance'' (JObj provenance') data)))\<rparr>)"

text \<open>Nothing that goes wrong with the state of the review stops the ingestion.\<close>

definition mark_review_approved :: "plan_env \<Rightarrow> string \<Rightarrow> verification_result \<Rightarrow> spec_files \<Rightarrow> spec_files" where
  "mark_review_approved E now r fs =
     (case review_load (te_codec E) fs of
        Inl _ \<Rightarrow> fs
      | Inr st \<Rightarrow>
          (case approve (te_codec E) now (''trusted-plan:'' @ te_str E (vr_approved_by r)) True st fs of
             Inl _ \<Rightarrow> fs
           | Inr (st', fs') \<Rightarrow> fs'))"

definition install_plan :: "plan_env \<Rightarrow> obj \<Rightarrow> spec_files \<Rightarrow> spec_files" where
  "install_plan E plan fs =
     fs\<lparr>sf_plan := Some (cd_text (te_codec E) (JObj plan)), sf_contract := Some (cd_text (te_codec E) (JObj plan))\<rparr>"

definition ingest_trusted_plan ::
    "plan_env \<Rightarrow> environ \<Rightarrow> keyring option \<Rightarrow> string \<Rightarrow> obj \<Rightarrow> spec_files
      \<Rightarrow> (ingest_error + verification_result) \<times> spec_files" where
  "ingest_trusted_plan E env keyring now plan fs =
     (case verify_trusted_plan E env keyring plan of
        Inl e \<Rightarrow> (Inl (Raised e), fs)
      | Inr r \<Rightarrow>
          if \<not> vr_ok r then (Inr r, fs)
          else let fs1 = install_plan E plan fs
               in case write_spec_md_from_plan E plan fs1 of
                    Inl e \<Rightarrow> (Inl (Raised e), fs1)
                  | Inr fs2 \<Rightarrow>
                      let fs3 = mark_review_approved E now r (record_approval_provenance E r fs2)
                      in case apply_execution_profile E plan fs3 of
                           Inl e \<Rightarrow> (Inl e, fs3)
                         | Inr (mapped, fs4) \<Rightarrow> (Inr r, fs4))"

end
