(* ===== verification/Trust_Graph.thy ===== *)
theory Trust_Graph
  imports Trusted_Plan
begin

text \<open>The search for a cycle among the dependencies returns, and finds a cycle exactly when there is one.\<close>

definition arcs :: "'a digraph \<Rightarrow> ('a \<times> 'a) set" where
  "arcs g = {(a, b). b \<in> set (ddefault [] g a) \<and> b \<in> fst ` set g}"

definition colored :: "color \<Rightarrow> ('a \<rightharpoonup> color) \<Rightarrow> 'a set" where
  "colored c col = {k. col k = Some c}"

definition settled :: "'a digraph \<Rightarrow> ('a \<rightharpoonup> color) \<Rightarrow> bool" where
  "settled g col \<longleftrightarrow> dom col = fst ` set g \<and>
     (\<forall>a \<in> colored BLACK col. (a, a) \<notin> (arcs g)\<^sup>+ \<and> (\<forall>b. (a, b) \<in> arcs g \<longrightarrow> b \<in> colored BLACK col))"

text \<open>What a search that was not stopped leaves.\<close>

definition advanced :: "'a digraph \<Rightarrow> ('a \<rightharpoonup> color) \<Rightarrow> ('a \<rightharpoonup> color) \<Rightarrow> bool" where
  "advanced g col col' \<longleftrightarrow> settled g col' \<and> colored WHITE col' \<subseteq> colored WHITE col \<and>
     colored BLACK col \<subseteq> colored BLACK col' \<and> colored GREY col' = colored GREY col"

lemma advanced_refl: "settled g col \<Longrightarrow> advanced g col col"
  by (simp add: advanced_def)

lemma advanced_trans: "advanced g a b \<Longrightarrow> advanced g b c \<Longrightarrow> advanced g a c"
  by (auto simp: advanced_def)

lemma white_finite: "settled g col \<Longrightarrow> finite (colored c col)"
  by (rule finite_subset [of _ "dom col"]) (auto simp: settled_def colored_def)

lemma settled_reach:
  assumes "settled g col" "a \<in> colored BLACK col" "(a, b) \<in> (arcs g)\<^sup>*"
  shows "b \<in> colored BLACK col"
  using assms(3,2,1) by induction (auto simp: settled_def)

lemma settled_grey:
  assumes "settled g col" "col node = Some WHITE"
  shows "settled g (col(node \<mapsto> GREY))"
proof -
  have "colored BLACK (col(node \<mapsto> GREY)) = colored BLACK col" "dom (col(node \<mapsto> GREY)) = dom col"
    using assms(2) by (auto simp: colored_def)
  then show ?thesis using assms(1) by (simp add: settled_def del: fun_upd_apply)
qed

lemma settled_black:
  assumes "settled g col" "node \<in> colored GREY col" "\<And>b. (node, b) \<in> arcs g \<Longrightarrow> b \<in> colored BLACK col"
  shows "settled g (col(node \<mapsto> BLACK))"
proof -
  have "(node, node) \<notin> (arcs g)\<^sup>+"
  proof
    assume "(node, node) \<in> (arcs g)\<^sup>+"
    then obtain b where "(node, b) \<in> arcs g" "(b, node) \<in> (arcs g)\<^sup>*" by (auto dest: tranclD)
    then have "node \<in> colored BLACK col" using settled_reach [OF assms(1)] assms(3) by blast
    then show False using assms(2) by (simp add: colored_def)
  qed
  then show ?thesis using assms by (auto simp: settled_def colored_def)
qed

lemma dfs_decides:
  "\<lbrakk>col node = Some WHITE; settled g col; card (colored WHITE col) \<le> n;
    \<forall>a \<in> colored GREY col. (a, node) \<in> (arcs g)\<^sup>+\<rbrakk> \<Longrightarrow>
     \<exists>ok col'. dfs_visit n g node col = Some (ok, col') \<and> (\<not> ok \<longrightarrow> \<not> acyclic (arcs g)) \<and>
       (ok \<longrightarrow> advanced g col col' \<and> node \<in> colored BLACK col')"
  "\<lbrakk>settled g col; card (colored WHITE col) \<le> n; \<forall>a \<in> colored GREY col. (a, u) \<in> (arcs g)\<^sup>*;
    \<forall>d \<in> set deps. d \<in> fst ` set g \<longrightarrow> (u, d) \<in> arcs g\<rbrakk> \<Longrightarrow>
     \<exists>ok col'. dfs_each n g deps col = Some (ok, col') \<and> (\<not> ok \<longrightarrow> \<not> acyclic (arcs g)) \<and>
       (ok \<longrightarrow> advanced g col col' \<and> (\<forall>d \<in> set deps. d \<in> fst ` set g \<longrightarrow> d \<in> colored BLACK col'))"
proof (induction n g node col and n g deps col arbitrary: and u rule: dfs_visit_dfs_each.induct)
  case (1 g node col)
  then have "node \<in> colored WHITE col" "finite (colored WHITE col)"
    using white_finite by (auto simp: colored_def)
  then show ?case using 1(3) by auto
next
  case (2 n g node col)
  let ?grey = "col(node \<mapsto> GREY)"
  have white: "colored WHITE ?grey = colored WHITE col - {node}"
    and grey: "colored GREY ?grey = insert node (colored GREY col)"
    and black: "colored BLACK ?grey = colored BLACK col"
    using 2(2) by (auto simp: colored_def)
  have card: "card (colored WHITE ?grey) \<le> n"
  proof -
    have "node \<in> colored WHITE col" using 2(2) by (simp add: colored_def)
    then show ?thesis using 2(4) white_finite [OF 2(3), of WHITE] by (simp add: white card_Diff_singleton del: fun_upd_apply)
  qed
  have "\<forall>a \<in> colored GREY ?grey. (a, node) \<in> (arcs g)\<^sup>*"
    using 2(5) by (auto simp: grey dest: trancl_into_rtrancl)
  then obtain ok col' where run: "dfs_each n g (ddefault [] g node) ?grey = Some (ok, col')" "\<not> ok \<Longrightarrow> \<not> acyclic (arcs g)"
    and adv: "ok \<Longrightarrow> advanced g ?grey col' \<and> (\<forall>d \<in> set (ddefault [] g node). d \<in> fst ` set g \<longrightarrow> d \<in> colored BLACK col')"
  proof -
    have "\<forall>d \<in> set (ddefault [] g node). d \<in> fst ` set g \<longrightarrow> (node, d) \<in> arcs g" by (simp add: arcs_def)
    then show thesis
      using 2(1) [OF settled_grey [OF 2(3,2)] card \<open>\<forall>a \<in> colored GREY ?grey. (a, node) \<in> (arcs g)\<^sup>*\<close>] that by blast
  qed
  have "advanced g col (col'(node \<mapsto> BLACK))" if ok
  proof -
    have n: "node \<in> colored GREY col'" using adv [OF that] by (simp add: advanced_def grey)
    have "settled g (col'(node \<mapsto> BLACK))"
      using adv [OF that] n by (intro settled_black) (auto simp: advanced_def arcs_def)
    moreover have "colored WHITE (col'(node \<mapsto> BLACK)) \<subseteq> colored WHITE col"
      using adv [OF that] white by (auto simp: advanced_def colored_def split: if_splits)
    moreover have "colored BLACK col \<subseteq> colored BLACK (col'(node \<mapsto> BLACK))"
      using adv [OF that] black by (auto simp: advanced_def colored_def)
    moreover have "colored GREY (col'(node \<mapsto> BLACK)) = colored GREY col' - {node}"
      by (auto simp: colored_def)
    ultimately show ?thesis
      using adv [OF that] grey 2(2) by (auto simp: advanced_def colored_def)
  qed
  then show ?case using run by (auto simp: colored_def)
next
  case (3 n g col)
  then show ?case by (auto intro: advanced_refl)
next
  case (4 n g nxt rest col)
  have rest: "\<forall>d \<in> set rest. d \<in> fst ` set g \<longrightarrow> (u, d) \<in> arcs g" using 4(8) by simp
  show ?case
  proof (cases "col nxt")
    case None
    then have "nxt \<notin> fst ` set g" using 4(5) by (auto simp: settled_def)
    then show ?thesis using 4(1) [OF None 4(5-7) rest] None by auto
  next
    case (Some c)
    then have known: "nxt \<in> fst ` set g" using 4(5) by (auto simp: settled_def)
    then have arc: "(u, nxt) \<in> arcs g" using 4(8) by simp
    show ?thesis
    proof (cases c)
      case GREY
      then have "(nxt, u) \<in> (arcs g)\<^sup>*" using Some 4(7) by (simp add: colored_def)
      then have "(nxt, nxt) \<in> (arcs g)\<^sup>+" using arc by (rule rtrancl_into_trancl1)
      then show ?thesis using Some GREY by (auto simp: acyclic_def)
    next
      case BLACK
      obtain ok col' where "dfs_each n g rest col = Some (ok, col')" "\<not> ok \<Longrightarrow> \<not> acyclic (arcs g)"
        "ok \<Longrightarrow> advanced g col col' \<and> (\<forall>d \<in> set rest. d \<in> fst ` set g \<longrightarrow> d \<in> colored BLACK col')"
        using 4(4) [OF _ BLACK 4(5-7) rest] Some by auto
      moreover have "nxt \<in> colored BLACK col" using Some BLACK by (simp add: colored_def)
      ultimately show ?thesis using Some BLACK by (auto simp: advanced_def)
    next
      case WHITE
      have "\<forall>a \<in> colored GREY col. (a, nxt) \<in> (arcs g)\<^sup>+"
        using 4(7) arc by (auto intro: rtrancl_into_trancl1)
      then obtain ok col1 where v: "dfs_visit n g nxt col = Some (ok, col1)" "\<not> ok \<Longrightarrow> \<not> acyclic (arcs g)"
        "ok \<Longrightarrow> advanced g col col1 \<and> nxt \<in> colored BLACK col1"
        using 4(2) Some WHITE 4(5,6) by blast
      show ?thesis
      proof (cases ok)
        case False
        then show ?thesis using Some WHITE v by auto
      next
        case True
        note adv = v(3) [OF True]
        have "card (colored WHITE col1) \<le> n"
          using card_mono [OF white_finite [OF 4(5)], of "colored WHITE col1" WHITE] adv 4(6) by (simp add: advanced_def)
        moreover have "\<forall>a \<in> colored GREY col1. (a, u) \<in> (arcs g)\<^sup>*" using adv 4(7) by (simp add: advanced_def)
        ultimately obtain ok2 col2 where r: "dfs_each n g rest col1 = Some (ok2, col2)" "\<not> ok2 \<Longrightarrow> \<not> acyclic (arcs g)"
          "ok2 \<Longrightarrow> advanced g col1 col2 \<and> (\<forall>d \<in> set rest. d \<in> fst ` set g \<longrightarrow> d \<in> colored BLACK col2)"
          using 4(3) [OF Some WHITE _ refl refl _ _ _ rest, of col1] v(1) True adv by (auto simp: advanced_def)
        have "nxt \<in> colored BLACK col2" if ok2 using adv r(3) [OF that] by (auto simp: advanced_def)
        then show ?thesis using Some WHITE v(1) True r adv by (auto intro: advanced_trans)
      qed
    qed
  qed
qed

lemma dfs_all_decides:
  "\<lbrakk>settled g col; card (colored WHITE col) \<le> n; colored GREY col = {}; set nodes \<subseteq> fst ` set g\<rbrakk> \<Longrightarrow>
   \<exists>ok. dfs_all n g nodes col = Some ok \<and> (\<not> ok \<longrightarrow> \<not> acyclic (arcs g)) \<and>
     (ok \<longrightarrow> (\<exists>col'. advanced g col col' \<and> set nodes \<subseteq> colored BLACK col'))"
proof (induction nodes arbitrary: col)
  case Nil
  then show ?case by (auto intro: advanced_refl)
next
  case (Cons node nodes)
  show ?case
  proof (cases "col node = Some WHITE")
    case True
    obtain ok col1 where v: "dfs_visit n g node col = Some (ok, col1)" "\<not> ok \<Longrightarrow> \<not> acyclic (arcs g)"
      "ok \<Longrightarrow> advanced g col col1 \<and> node \<in> colored BLACK col1"
      using dfs_decides(1) [OF True Cons(2,3)] Cons(4) by auto
    show ?thesis
    proof (cases ok)
      case False
      then show ?thesis using True v by auto
    next
      case ok: True
      note adv = v(3) [OF ok]
      have "card (colored WHITE col1) \<le> n"
        using card_mono [OF white_finite [OF Cons(2)], of "colored WHITE col1" WHITE] adv Cons(3) by (simp add: advanced_def)
      then obtain ok2 where r: "dfs_all n g nodes col1 = Some ok2" "\<not> ok2 \<longrightarrow> \<not> acyclic (arcs g)"
        "ok2 \<longrightarrow> (\<exists>col'. advanced g col1 col' \<and> set nodes \<subseteq> colored BLACK col')"
        using Cons(1) [of col1] adv Cons(4,5) by (auto simp: advanced_def)
      have "\<exists>col'. advanced g col col' \<and> set (node # nodes) \<subseteq> colored BLACK col'" if finished: ok2
      proof -
        obtain col' where "advanced g col1 col'" "set nodes \<subseteq> colored BLACK col'" using r(3) finished by auto
        moreover have "node \<in> colored BLACK col'" using adv calculation(1) by (auto simp: advanced_def)
        ultimately show ?thesis using adv advanced_trans [of g col col1 col'] by auto
      qed
      then show ?thesis using True ok v(1) r(1,2) by simp
    qed
  next
    case False
    have "node \<in> colored BLACK col"
    proof -
      have "node \<in> dom col" using Cons(2,5) by (simp add: settled_def)
      then obtain c where "col node = Some c" by blast
      moreover have "c \<noteq> WHITE" "c \<noteq> GREY" using calculation False Cons(4) by (auto simp: colored_def)
      ultimately show ?thesis by (cases c) (simp_all add: colored_def)
    qed
    moreover obtain ok where "dfs_all n g nodes col = Some ok" "\<not> ok \<longrightarrow> \<not> acyclic (arcs g)"
      "ok \<longrightarrow> (\<exists>col'. advanced g col col' \<and> set nodes \<subseteq> colored BLACK col')"
      using Cons(1) [OF Cons(2-4)] Cons(5) by auto
    ultimately show ?thesis using False by (auto simp: advanced_def)
  qed
qed

theorem is_acyclic_decides: "is_acyclic g = Some (acyclic (arcs g))"
proof -
  let ?col = "\<lambda>k. if k \<in> fst ` set g then Some WHITE else None"
  have col: "colored WHITE ?col = fst ` set g" "colored BLACK ?col = {}" "colored GREY ?col = {}" "dom ?col = fst ` set g"
    by (simp_all add: colored_def dom_def)
  then have s: "settled g ?col" by (simp add: settled_def)
  have "card (colored WHITE ?col) \<le> length g"
    using card_image_le [of "set g" fst] card_length [of g] by (simp add: col)
  then obtain ok where ok: "is_acyclic g = Some ok" "\<not> ok \<longrightarrow> \<not> acyclic (arcs g)"
    "ok \<longrightarrow> (\<exists>col'. advanced g ?col col' \<and> fst ` set g \<subseteq> colored BLACK col')"
    using dfs_all_decides [OF s, of "length g" "map fst g"] unfolding is_acyclic_def col set_map by blast
  have "acyclic (arcs g)" if "settled g c" "fst ` set g \<subseteq> colored BLACK c" for c
  proof (rule acyclicI, rule allI, rule notI)
    fix x assume x: "(x, x) \<in> (arcs g)\<^sup>+"
    then have "x \<in> fst ` set g" by (auto simp: arcs_def elim: tranclE)
    then show False using x that by (auto simp: settled_def)
  qed
  then show ?thesis using ok by (auto simp: advanced_def)
qed

end
