(* ===== verification/Trust_Check.thy ===== *)
theory Trust_Check
  imports Trust_Graph
begin

text \<open>The check of a plan accepts exactly the plans the engine can build.\<close>

section \<open>The specification\<close>

definition id_key :: "obj \<Rightarrow> json" where
  "id_key t = the (hash_key (get_any ''id'' t))"

definition deps_of :: "obj \<Rightarrow> json list" where
  "deps_of t = projr (py_list (or_empty (get_any ''depends_on'' t)))"

definition subtask_ok :: "obj \<Rightarrow> bool" where
  "subtask_ok t \<longleftrightarrow> truthy (get_any ''id'' t) \<and> hash_key (get_any ''id'' t) \<noteq> None \<and>
     truthy (get_any ''description'' t) \<and> py_list (or_empty (get_any ''depends_on'' t)) = Inr (deps_of t)"

definition phase_ok :: "json \<Rightarrow> bool" where
  "phase_ok ph \<longleftrightarrow> (\<exists>d ts. ph = JObj d \<and> get_any ''subtasks'' d = JList (map JObj ts) \<and> ts \<noteq> [] \<and> list_all subtask_ok ts)"

text \<open>The dependencies between the keys of the subtasks.\<close>

definition subtask_graph :: "obj \<Rightarrow> json digraph" where
  "subtask_graph plan = map (\<lambda>t. (id_key t, map (the \<circ> hash_key) (deps_of t))) (listed_subtasks plan)"

text \<open>
  A plan that can be built: its phases hold subtasks with an id of their own and a description; each dependency
  names another subtask of the plan; and they have no cycle.
\<close>

definition buildable :: "obj \<Rightarrow> bool" where
  "buildable plan \<longleftrightarrow>
     map_of plan ''feature'' \<noteq> None \<and> map_of plan ''workflow_type'' \<noteq> None \<and>
     (\<exists>phs. get_any ''phases'' plan = JList phs \<and> phs \<noteq> [] \<and> list_all phase_ok phs) \<and>
     distinct (map id_key (listed_subtasks plan)) \<and>
     (\<forall>t \<in> set (listed_subtasks plan). \<forall>d \<in> set (deps_of t). \<exists>k. hash_key d = Some k \<and> k \<noteq> id_key t \<and>
        k \<in> id_key ` set (listed_subtasks plan)) \<and>
     acyclic (arcs (subtask_graph plan))"

section \<open>The loops\<close>

definition take_subtask :: "obj \<Rightarrow> checklist \<Rightarrow> checklist" where
  "take_subtask t ck = ck\<lparr>ck_ids := insert (id_key t) (ck_ids ck), ck_total := ck_total ck + 1,
     ck_deps := ck_deps ck @ [(id_key t, get_any ''id'' t, deps_of t)]\<rparr>"

definition in_step :: "checklist \<Rightarrow> bool" where
  "in_step ck \<longleftrightarrow> fst ` set (ck_deps ck) = ck_ids ck"

lemma in_step_take [simp]: "in_step ck \<Longrightarrow> in_step (take_subtask t ck)"
  by (auto simp: in_step_def take_subtask_def)

lemma in_step_fold [simp]: "in_step ck \<Longrightarrow> in_step (fold take_subtask ts ck)"
  by (induction ts arbitrary: ck) simp_all

lemma take_reasons [simp]: "ck_reasons (take_subtask t ck) = ck_reasons ck"
  by (simp add: take_subtask_def)

lemma take_ids [simp]: "ck_ids (take_subtask t ck) = insert (id_key t) (ck_ids ck)"
  by (simp add: take_subtask_def)

lemma fold_take:
  "ck_reasons (fold take_subtask ts ck) = ck_reasons ck"
  "ck_total (fold take_subtask ts ck) = ck_total ck + length ts"
  "ck_ids (fold take_subtask ts ck) = ck_ids ck \<union> id_key ` set ts"
  "ck_deps (fold take_subtask ts ck) = ck_deps ck @ map (\<lambda>t. (id_key t, get_any ''id'' t, deps_of t)) ts"
  by (induction ts arbitrary: ck) (simp_all add: take_subtask_def)

lemma update_fresh: "k \<notin> fst ` set al \<Longrightarrow> AList.update k v al = al @ [(k, v)]"
  by (induction al) auto

lemma check_subtask_reasons:
  "check_subtask E pn sn st ck = Inr ck' \<Longrightarrow> \<exists>rs. ck_reasons ck' = ck_reasons ck @ rs"
  by (auto simp: check_subtask_def Let_def because_def put_deps_def bindE_Inr_iff split: json.splits if_splits option.splits)

lemma check_subtask_clean:
  assumes "in_step ck"
  shows "check_subtask E pn sn st ck = Inr ck' \<and> ck_reasons ck' = ck_reasons ck \<longleftrightarrow>
    (\<exists>t. st = JObj t \<and> subtask_ok t \<and> id_key t \<notin> ck_ids ck \<and> ck' = take_subtask t ck)"
proof (cases st)
  case (JObj t)
  show ?thesis
  proof (cases "truthy (get_any ''id'' t)")
    case True
    show ?thesis
    proof (cases "hash_key (get_any ''id'' t)")
      case None
      then show ?thesis using JObj True by (simp add: check_subtask_def Let_def subtask_ok_def)
    next
      case (Some k)
      show ?thesis
      proof (cases "py_list (or_empty (get_any ''depends_on'' t))")
        case (Inl e)
        then show ?thesis using JObj True Some by (simp add: check_subtask_def Let_def subtask_ok_def)
      next
        case (Inr ds)
        have k: "id_key t = k" "deps_of t = ds" using Some Inr by (simp_all add: id_key_def deps_of_def)
        have new: "map_of (ck_deps ck) k = None" if "k \<notin> ck_ids ck"
          using that assms by (simp add: in_step_def map_of_eq_None_iff)
        have up: "AList.update k v (ck_deps ck) = ck_deps ck @ [(k, v)]" if "k \<notin> ck_ids ck" for v
          using that assms by (simp add: in_step_def update_fresh)
        show ?thesis
          using JObj True Some Inr k new up
          by (auto simp: check_subtask_def Let_def subtask_ok_def because_def put_deps_def take_subtask_def)
      qed
    qed
  next
    case False
    then show ?thesis using JObj by (auto simp: check_subtask_def Let_def because_def subtask_ok_def)
  qed
qed (auto simp: check_subtask_def Let_def because_def)

lemma check_subtasks_reasons:
  "check_subtasks E pn sn sts ck = Inr ck' \<Longrightarrow> \<exists>rs. ck_reasons ck' = ck_reasons ck @ rs"
proof (induction E pn sn sts ck arbitrary: ck' rule: check_subtasks.induct)
  case (2 E pn sn st sts ck)
  then show ?case by (fastforce simp: bindE_Inr_iff dest: check_subtask_reasons)
qed simp

text \<open>Two steps add no reason when neither does.\<close>

lemma chain_clean:
  assumes "\<And>ck1. m = Inr ck1 \<Longrightarrow> \<exists>rs. ck_reasons ck1 = ck_reasons ck @ rs"
    and "\<And>ck1 ck2. f ck1 = Inr ck2 \<Longrightarrow> \<exists>rs. ck_reasons ck2 = ck_reasons ck1 @ rs"
  shows "bindE m f = Inr ck' \<and> ck_reasons ck' = ck_reasons ck \<longleftrightarrow>
    (\<exists>ck1. (m = Inr ck1 \<and> ck_reasons ck1 = ck_reasons ck) \<and> f ck1 = Inr ck' \<and> ck_reasons ck' = ck_reasons ck1)"
proof (intro iffI)
  assume a: "bindE m f = Inr ck' \<and> ck_reasons ck' = ck_reasons ck"
  then obtain ck1 where 1: "m = Inr ck1" "f ck1 = Inr ck'" by (auto simp: bindE_Inr_iff)
  then obtain rs rs' where "ck_reasons ck1 = ck_reasons ck @ rs" "ck_reasons ck' = ck_reasons ck1 @ rs'"
    using assms by blast
  then show "\<exists>ck1. (m = Inr ck1 \<and> ck_reasons ck1 = ck_reasons ck) \<and> f ck1 = Inr ck' \<and> ck_reasons ck' = ck_reasons ck1"
    using a 1 by auto
qed auto

lemma check_subtasks_clean:
  "in_step ck \<Longrightarrow> check_subtasks E pn sn sts ck = Inr ck' \<and> ck_reasons ck' = ck_reasons ck \<longleftrightarrow>
    (\<exists>ts. sts = map JObj ts \<and> list_all subtask_ok ts \<and> distinct (map id_key ts) \<and>
       id_key ` set ts \<inter> ck_ids ck = {} \<and> ck' = fold take_subtask ts ck)"
proof (induction E pn sn sts ck arbitrary: ck' rule: check_subtasks.induct)
  case (1 E pn sn ck)
  then show ?case by auto
next
  case (2 E pn sn st sts ck)
  have "check_subtasks E pn sn (st # sts) ck = Inr ck' \<and> ck_reasons ck' = ck_reasons ck \<longleftrightarrow>
      (\<exists>ck1. (check_subtask E pn sn st ck = Inr ck1 \<and> ck_reasons ck1 = ck_reasons ck) \<and>
             check_subtasks E pn (Suc sn) sts ck1 = Inr ck' \<and> ck_reasons ck' = ck_reasons ck1)"
    using chain_clean [of "check_subtask E pn sn st ck" ck "check_subtasks E pn (Suc sn) sts" ck']
      check_subtask_reasons check_subtasks_reasons by simp
  also have "\<dots> \<longleftrightarrow> (\<exists>t. st = JObj t \<and> subtask_ok t \<and> id_key t \<notin> ck_ids ck \<and>
      check_subtasks E pn (Suc sn) sts (take_subtask t ck) = Inr ck' \<and> ck_reasons ck' = ck_reasons (take_subtask t ck))"
    unfolding check_subtask_clean [OF 2(2)] by auto
  also have "\<dots> \<longleftrightarrow> (\<exists>t. st = JObj t \<and> subtask_ok t \<and> id_key t \<notin> ck_ids ck \<and>
      (\<exists>ts. sts = map JObj ts \<and> list_all subtask_ok ts \<and> distinct (map id_key ts) \<and>
         id_key ` set ts \<inter> ck_ids (take_subtask t ck) = {} \<and> ck' = fold take_subtask ts (take_subtask t ck)))"
  proof -
    have "(check_subtasks E pn (Suc sn) sts (take_subtask t ck) = Inr ck' \<and> ck_reasons ck' = ck_reasons (take_subtask t ck)) \<longleftrightarrow>
      (\<exists>ts. sts = map JObj ts \<and> list_all subtask_ok ts \<and> distinct (map id_key ts) \<and>
         id_key ` set ts \<inter> ck_ids (take_subtask t ck) = {} \<and> ck' = fold take_subtask ts (take_subtask t ck))"
      if "st = JObj t" "subtask_ok t" "id_key t \<notin> ck_ids ck" for t
    proof -
      have "check_subtask E pn sn st ck = Inr (take_subtask t ck)"
        using check_subtask_clean [OF 2(2), of E pn sn st "take_subtask t ck"] that by auto
      from 2(1) [of "take_subtask t ck", OF in_step_take [OF 2(2)]] show ?thesis .
    qed
    then show ?thesis by blast
  qed
  also have "\<dots> \<longleftrightarrow> (\<exists>ts. st # sts = map JObj ts \<and> list_all subtask_ok ts \<and> distinct (map id_key ts) \<and>
       id_key ` set ts \<inter> ck_ids ck = {} \<and> ck' = fold take_subtask ts ck)"
    (is "?l \<longleftrightarrow> ?r")
  proof
    assume ?l
    then obtain t ts where t: "st = JObj t" "sts = map JObj ts" "subtask_ok t" "list_all subtask_ok ts" "id_key t \<notin> ck_ids ck"
      "distinct (map id_key ts)" "id_key ` set ts \<inter> insert (id_key t) (ck_ids ck) = {}"
      "ck' = fold take_subtask ts (take_subtask t ck)"
      unfolding take_ids by blast
    have "st # sts = map JObj (t # ts)" "list_all subtask_ok (t # ts)" using t(1-4) by simp_all
    moreover have "distinct (map id_key (t # ts))" using t(6,7) by simp
    moreover have "id_key ` set (t # ts) \<inter> ck_ids ck = {}" using t(5,7) by auto
    moreover have "ck' = fold take_subtask (t # ts) ck" using t(8) by simp
    ultimately show ?r by (intro exI [of _ "t # ts"] conjI)
  next
    assume ?r
    then obtain ts where ts: "st # sts = map JObj ts" "list_all subtask_ok ts" "distinct (map id_key ts)"
      "id_key ` set ts \<inter> ck_ids ck = {}" "ck' = fold take_subtask ts ck"
      by (elim exE conjE)
    then obtain t us where t: "ts = t # us" by (cases ts) auto
    have "st = JObj t" "sts = map JObj us" "subtask_ok t" "list_all subtask_ok us" "id_key t \<notin> ck_ids ck"
      "distinct (map id_key us)" "id_key ` set us \<inter> insert (id_key t) (ck_ids ck) = {}"
      "ck' = fold take_subtask us (take_subtask t ck)"
      using ts unfolding t by auto
    then show ?l unfolding take_ids by (intro exI [of _ t] conjI exI [of _ us])
  qed
  finally show ?case .
qed

lemma check_phase_reasons: "check_phase E pn ph ck = Inr ck' \<Longrightarrow> \<exists>rs. ck_reasons ck' = ck_reasons ck @ rs"
  by (auto simp: check_phase_def because_def simp del: check_subtasks.simps split: json.splits list.splits
      dest: check_subtasks_reasons)

text \<open>The subtasks of one phase.\<close>

definition items_of :: "json \<Rightarrow> obj list" where
  "items_of ph =
     (case ph of
        JObj d \<Rightarrow> (case get_any ''subtasks'' d of
                    JList sts \<Rightarrow> concat (map (\<lambda>st. case st of JObj s \<Rightarrow> [s] | _ \<Rightarrow> []) sts) | _ \<Rightarrow> [])
      | _ \<Rightarrow> [])"

lemma objs_of_JObj [simp]: "concat (map (\<lambda>st. case st of JObj s \<Rightarrow> [s] | _ \<Rightarrow> []) (map JObj ts)) = ts"
  by (induction ts) simp_all

lemma check_phase_clean:
  assumes "in_step ck"
  shows "check_phase E pn ph ck = Inr ck' \<and> ck_reasons ck' = ck_reasons ck \<longleftrightarrow>
    phase_ok ph \<and> distinct (map id_key (items_of ph)) \<and> id_key ` set (items_of ph) \<inter> ck_ids ck = {} \<and>
    ck' = fold take_subtask (items_of ph) ck"
proof (cases "\<exists>d st sts. ph = JObj d \<and> get_any ''subtasks'' d = JList (st # sts)")
  case True
  then obtain d st sts where ph: "ph = JObj d" "get_any ''subtasks'' d = JList (st # sts)" by blast
  then have c: "check_phase E pn ph ck = check_subtasks E pn 0 (st # sts) ck" by (simp add: check_phase_def)
  have ok: "phase_ok ph \<longleftrightarrow> (\<exists>ts. st # sts = map JObj ts \<and> list_all subtask_ok ts)"
    using ph by (simp add: phase_ok_def) (metis list.discI list.map_disc_iff)
  have items: "items_of ph = ts" if "st # sts = map JObj ts" for ts
    unfolding items_of_def ph using objs_of_JObj [of ts] by (simp add: ph that)
  show ?thesis
    unfolding c check_subtasks_clean [OF assms] ok by (metis items)
next
  case False
  then show ?thesis
    by (auto simp: check_phase_def because_def phase_ok_def split: json.splits list.splits)
qed

lemma check_phases_reasons: "check_phases E pn phs ck = Inr ck' \<Longrightarrow> \<exists>rs. ck_reasons ck' = ck_reasons ck @ rs"
proof (induction E pn phs ck arbitrary: ck' rule: check_phases.induct)
  case (2 E pn ph phs ck)
  then show ?case by (fastforce simp: bindE_Inr_iff dest: check_phase_reasons)
qed simp

lemma check_phases_clean:
  "in_step ck \<Longrightarrow> check_phases E pn phs ck = Inr ck' \<and> ck_reasons ck' = ck_reasons ck \<longleftrightarrow>
    list_all phase_ok phs \<and> distinct (map id_key (concat (map items_of phs))) \<and>
    id_key ` set (concat (map items_of phs)) \<inter> ck_ids ck = {} \<and> ck' = fold take_subtask (concat (map items_of phs)) ck"
proof (induction phs arbitrary: pn ck)
  case Nil
  then show ?case by auto
next
  case (Cons ph phs)
  let ?ts = "items_of ph" and ?us = "concat (map items_of phs)"
  have step: "in_step (fold take_subtask ?ts ck)" using Cons(2) by simp
  have "check_phases E pn (ph # phs) ck = Inr ck' \<and> ck_reasons ck' = ck_reasons ck \<longleftrightarrow>
      (\<exists>ck1. (check_phase E pn ph ck = Inr ck1 \<and> ck_reasons ck1 = ck_reasons ck) \<and>
             check_phases E (Suc pn) phs ck1 = Inr ck' \<and> ck_reasons ck' = ck_reasons ck1)"
    using chain_clean [of "check_phase E pn ph ck" ck "check_phases E (Suc pn) phs" ck']
      check_phase_reasons check_phases_reasons by simp
  also have "\<dots> \<longleftrightarrow> phase_ok ph \<and> distinct (map id_key ?ts) \<and> id_key ` set ?ts \<inter> ck_ids ck = {} \<and>
      list_all phase_ok phs \<and> distinct (map id_key ?us) \<and>
      id_key ` set ?us \<inter> ck_ids (fold take_subtask ?ts ck) = {} \<and> ck' = fold take_subtask ?us (fold take_subtask ?ts ck)"
    unfolding check_phase_clean [OF Cons(2)] using Cons(1) [OF step] by blast
  also have "\<dots> \<longleftrightarrow> list_all phase_ok (ph # phs) \<and> distinct (map id_key (concat (map items_of (ph # phs)))) \<and>
      id_key ` set (concat (map items_of (ph # phs))) \<inter> ck_ids ck = {} \<and>
      ck' = fold take_subtask (concat (map items_of (ph # phs))) ck"
    by (simp add: fold_take image_Un Int_Un_distrib Int_Un_distrib2 conj_ac image_UN) (simp only: Int_commute)?
  finally show ?case .
qed

section \<open>The result\<close>

lemma mapE_all: "(\<exists>ys. mapE f xs = Inr ys \<and> (\<forall>y \<in> set ys. Q y)) \<longleftrightarrow> (\<forall>x \<in> set xs. \<exists>y. f x = Inr y \<and> Q y)"
  by (induction xs) (auto simp: bindE_Inr_iff)

lemma dep_reason_none:
  "dep_reason E ids k sid dep = Inr [] \<longleftrightarrow> (\<exists>d. hash_key dep = Some d \<and> d \<noteq> k \<and> d \<in> ids)"
  by (auto simp: dep_reason_def split: option.splits)

lemma dep_reasons_none:
  "dep_reasons E ck = Inr [] \<longleftrightarrow>
    (\<forall>(k, sid, ds) \<in> set (ck_deps ck). \<forall>dep \<in> set ds. \<exists>d. hash_key dep = Some d \<and> d \<noteq> k \<and> d \<in> ck_ids ck)"
proof -
  have inner: "(\<exists>rs. mapE (dep_reason E (ck_ids ck) k sid) ds = Inr rs \<and> (\<forall>r \<in> set rs. r = [])) \<longleftrightarrow>
      (\<forall>dep \<in> set ds. \<exists>d. hash_key dep = Some d \<and> d \<noteq> k \<and> d \<in> ck_ids ck)" for k sid ds
    unfolding mapE_all by (simp add: dep_reason_none)
  have "dep_reasons E ck = Inr [] \<longleftrightarrow>
      (\<exists>rss. mapE (\<lambda>(k, sid, ds). mapE (dep_reason E (ck_ids ck) k sid) ds) (ck_deps ck) = Inr rss \<and>
             (\<forall>rs \<in> set rss. \<forall>r \<in> set rs. r = []))"
    by (auto simp: dep_reasons_def bindE_Inr_iff)
  also have "\<dots> \<longleftrightarrow> (\<forall>x \<in> set (ck_deps ck). \<exists>rs. (case x of (k, sid, ds) \<Rightarrow> mapE (dep_reason E (ck_ids ck) k sid) ds) = Inr rs \<and>
      (\<forall>r \<in> set rs. r = []))"
    by (rule mapE_all)
  finally show ?thesis using inner by (simp add: case_prod_beta)
qed

lemma listed_items: "get_any ''phases'' plan = JList phs \<Longrightarrow> listed_subtasks plan = concat (map items_of phs)"
proof -
  have "(case map_of d k of Some (JList sts) \<Rightarrow> f sts | _ \<Rightarrow> []) = (case get_any k d of JList sts \<Rightarrow> f sts | _ \<Rightarrow> [])"
    for d k and f :: "json list \<Rightarrow> obj list"
    by (simp add: get_any_def split: option.split)
  then show "get_any ''phases'' plan = JList phs \<Longrightarrow> listed_subtasks plan = concat (map items_of phs)"
    by (simp add: listed_subtasks_def items_of_def [abs_def])
qed

lemma completeness_iff: "check_plan_completeness E plan = Inr (True, []) \<longleftrightarrow> buildable plan"
proof (cases "\<exists>ph phs. get_any ''phases'' plan = JList (ph # phs)")
  case False
  then show ?thesis
    by (auto simp: check_plan_completeness_def buildable_def neq_Nil_conv split: json.splits list.splits)
next
  case True
  then obtain phs where phs: "get_any ''phases'' plan = JList phs" "phs \<noteq> []" by blast
  have "map_of plan ''phases'' \<noteq> None" using phs(1) by (auto simp: get_any_def split: option.splits)
  then have missing: "map (\<lambda>f. ''missing top-level field '' @ quote1 f)
      (filter (\<lambda>f. map_of plan f = None) [''feature'', ''workflow_type'', ''phases'']) = [] \<longleftrightarrow>
      map_of plan ''feature'' \<noteq> None \<and> map_of plan ''workflow_type'' \<noteq> None"
    by simp
  let ?ts = "listed_subtasks plan"
  define ck0 where "ck0 = \<lparr>ck_reasons = [], ck_ids = {}, ck_total = 0, ck_deps = []\<rparr>"
  define ck where "ck = fold take_subtask ?ts ck0"
  have ck: "ck_reasons ck = []" "ck_total ck = length ?ts" "ck_ids ck = id_key ` set ?ts"
    "ck_deps ck = map (\<lambda>t. (id_key t, get_any ''id'' t, deps_of t)) ?ts"
    by (simp_all add: ck_def fold_take ck0_def)
  have run: "check_phases E 0 phs ck0 = Inr ck' \<and> ck_reasons ck' = [] \<longleftrightarrow>
      list_all phase_ok phs \<and> distinct (map id_key ?ts) \<and> ck' = ck" for ck'
    using check_phases_clean [of ck0 E 0 phs ck'] listed_items [OF phs(1)]
    by (simp add: ck0_def in_step_def ck_def)
  have total: "ck_total ck \<noteq> 0" if ok: "list_all phase_ok phs"
  proof -
    obtain ph where "ph \<in> set phs" "phase_ok ph" using phs(2) ok by (cases phs) auto
    then have "items_of ph \<noteq> []" by (auto simp: phase_ok_def items_of_def neq_Nil_conv)
    then show ?thesis using \<open>ph \<in> set phs\<close> by (auto simp: ck listed_items [OF phs(1)])
  qed
  have graph: "deps_graph ck = subtask_graph plan"
    by (simp add: deps_graph_def ck subtask_graph_def)
  have "check_plan_completeness E plan = Inr (True, []) \<longleftrightarrow>
      map_of plan ''feature'' \<noteq> None \<and> map_of plan ''workflow_type'' \<noteq> None \<and>
      (\<exists>ck'. (check_phases E 0 phs ck0 = Inr ck' \<and> ck_reasons ck' = []) \<and> ck_total ck' \<noteq> 0 \<and>
         dep_reasons E ck' = Inr [] \<and> is_acyclic (deps_graph ck') = Some True)"
  proof (cases "map_of plan ''feature'' \<noteq> None \<and> map_of plan ''workflow_type'' \<noteq> None")
    case True
    then show ?thesis
      using phs missing by (cases phs) (auto simp: check_plan_completeness_def Let_def bindE_Inr_iff ck0_def simp del: check_phases.simps)
  next
    case False
    then show ?thesis
      using phs missing by (cases phs)
        (auto simp: check_plan_completeness_def Let_def bindE_Inr_iff simp del: check_phases.simps dest!: check_phases_reasons)
  qed
  also have "\<dots> \<longleftrightarrow> buildable plan"
    unfolding run is_acyclic_decides using total phs
    by (auto simp: buildable_def graph dep_reasons_none ck)
  finally show ?thesis .
qed


end
