(* ===== verification/Trust_Props.thy ===== *)
theory Trust_Props
  imports Trust_Check Approval_Props
begin

text \<open>A signature is accepted, binds the plan and its approval, and opens the way to a build that stays approved.\<close>

section \<open>Accepted signatures\<close>

definition approved_by :: "plan_env \<Rightarrow> obj \<Rightarrow> string" where
  "approved_by E plan = te_str E (get_any ''approved_by'' (envelope_of plan))"

definition approved_at :: "plan_env \<Rightarrow> obj \<Rightarrow> string" where
  "approved_at E plan = te_str E (get_any ''approval_timestamp'' (envelope_of plan))"

definition contract_of :: "plan_env \<Rightarrow> obj \<Rightarrow> string" where
  "contract_of E plan = te_str E (get_any ''plan_contract_version'' (envelope_of plan))"

definition key_id :: "plan_env \<Rightarrow> obj \<Rightarrow> string option" where
  "key_id E plan = (let kid = get_any ''kid'' (envelope_of plan) in keep_str (if truthy kid then Some (te_str E kid) else None))"

definition signature_of :: "plan_env \<Rightarrow> obj \<Rightarrow> string" where
  "signature_of E plan = te_str E (get_any ''signature'' (envelope_of plan))"

definition signed_text :: "plan_env \<Rightarrow> obj \<Rightarrow> string" where
  "signed_text E plan = signing_bytes E plan (approved_by E plan) (approved_at E plan) (contract_of E plan) (key_id E plan)"

lemma accepted_cases:
  assumes "verify_plan_signature E keyring retired plan = Inr (True, r)"
  obtains key where
    "select_verification_key E keyring retired (py_lower (py_strip (approved_by E plan))) (get_any ''kid'' (envelope_of plan)) = Inr key"
    "te_hmac E key (signed_text E plan) = signature_of E plan" "contract_of E plan \<in> set SUPPORTED_CONTRACT_VERSIONS" "r = []"
proof -
  obtain e where e: "get_any APPROVAL_KEY plan = JObj e" "envelope_of plan = e"
    using assms by (auto simp: verify_plan_signature_def envelope_of_def split: json.splits)
  have kid: "signing_bytes E plan b t v (keep_str k) = signing_bytes E plan b t v k" for b t v k
    by (simp add: signing_bytes_def)
  show thesis
    using assms that e
    by (auto simp: verify_plan_signature_def Let_def approved_by_def approved_at_def contract_of_def key_id_def
        signature_of_def signed_text_def compare_digest_def kid split: if_splits sum.splits)
qed

lemma plan_core_update [simp]: "plan_core (AList.update APPROVAL_KEY v plan) = plan_core plan"
  by (induction plan) (auto simp: plan_core_def)

lemma envelope_is_accepted:
  assumes "select_verification_key E keyring retired (py_lower (py_strip who)) (jopt (keep_str kid)) = Inr key"
    and "who \<noteq> []" "stamp \<noteq> []" "version \<in> set SUPPORTED_CONTRACT_VERSIONS"
    and "\<And>m. te_hmac E key m \<noteq> [] \<and> is_ascii (te_hmac E key m)"
  shows "verify_plan_signature E keyring retired
    (AList.update APPROVAL_KEY (JObj (sign_plan E plan key who stamp version kid)) plan) = Inr (True, [])"
proof -
  let ?e = "sign_plan E plan key who stamp version kid"
  let ?sig = "te_hmac E key (signing_bytes E plan who stamp version kid)"
  have e: "get_any ''approved_by'' ?e = JStr who" "get_any ''approval_timestamp'' ?e = JStr stamp"
    "get_any ''plan_contract_version'' ?e = JStr version" "get_any ''signature'' ?e = JStr ?sig"
    "get_any ''kid'' ?e = jopt (keep_str kid)"
    by (simp_all add: sign_plan_def get_any_def py_dict keep_str_def jopt_def)
  have kid: "(if truthy (jopt (keep_str kid)) then Some (te_str E (jopt (keep_str kid))) else None) = keep_str kid"
    by (simp add: keep_str_def jopt_def truthy_str_def split: option.split)
  have core: "signing_bytes E (AList.update APPROVAL_KEY v plan) who stamp version (keep_str kid)
      = signing_bytes E plan who stamp version kid" for v
    by (simp add: signing_bytes_def)
  have "version \<noteq> []" using assms(4) by (auto simp: SUPPORTED_CONTRACT_VERSIONS_def)
  then have missing: "filter (\<lambda>f. \<not> truthy (get_any f ?e)) ENVELOPE_FIELDS = []"
    using assms(2,3,5) by (simp add: ENVELOPE_FIELDS_def e)
  show ?thesis
    using assms(1,4,5) missing
    by (simp add: verify_plan_signature_def get_any_def [of APPROVAL_KEY] dget_dset e kid core compare_digest_def Let_def)
qed

text \<open>C20: what an authority signs is accepted. A plan that carries the envelope made for it is verified whenever the
  ring holds the key it was signed with under its authority and key id, none of them retired, the version is a
  supported one and the metadata is not empty; whether the envelope replaces an older one does not matter.\<close>

theorem signed_plan_verifies:
  assumes "select_verification_key E keyring retired (py_lower (py_strip who)) (jopt (keep_str kid)) = Inr key"
    and "who \<noteq> []" "stamp \<noteq> []" "version \<in> set SUPPORTED_CONTRACT_VERSIONS"
    and "\<And>m. te_hmac E key m \<noteq> [] \<and> is_ascii (te_hmac E key m)"
  shows "verify_plan_signature E keyring retired
    (AList.update APPROVAL_KEY (JObj (sign_plan E plan key who stamp version kid)) plan) = Inr (True, [])"
  by (rule envelope_is_accepted [OF assms])

text \<open>An instance of the arguments, and a plan of one subtask that is signed in it.\<close>

definition small_env :: plan_env where
  "small_env = \<lparr>te_hmac = (\<lambda>k m. numbered (k, m)), te_canonical = (\<lambda>v. numbered v @ ''}''), te_shown = (\<lambda>_. []),
     te_repr = (\<lambda>_. []), te_codec = numbered_codec\<rparr>"

definition unsigned :: obj where
  "unsigned = [(''feature'', JStr ''f''), (''workflow_type'', JStr ''feature''), (''phases'', JList [JObj [(''phase'', JInt 1),
     (''subtasks'', JList [JObj [(''id'', JStr ''a''), (''description'', JStr ''d'')]])]])]"

definition signed :: "obj \<Rightarrow> obj" where
  "signed plan = AList.update APPROVAL_KEY (JObj (sign_plan small_env plan ''k'' ''cf'' ''t'' ''2'' None)) plan"

lemma small_key: "select_verification_key small_env [(''cf'', ''k'')] {} (py_lower (py_strip ''cf'')) (jopt (keep_str None)) = Inr ''k''"
proof -
  have "py_lower (py_strip ''cf'') = ''cf''" by code_simp
  then show ?thesis by (simp add: select_verification_key_def ddefault_def jopt_def)
qed

lemma small_hmac: "te_hmac small_env k m \<noteq> [] \<and> is_ascii (te_hmac small_env k m)"
  using numbered_digits [of _ "(k, m)"] by (fastforce simp: small_env_def is_ascii_def list_all_iff is_digit_def Let_def)

lemma two_supported: "''2'' \<in> set SUPPORTED_CONTRACT_VERSIONS"
  by (simp add: SUPPORTED_CONTRACT_VERSIONS_def)

lemma signed_accepted: "verify_plan_signature small_env [(''cf'', ''k'')] {} (signed plan) = Inr (True, [])"
  unfolding signed_def by (rule envelope_is_accepted [OF small_key _ _ two_supported small_hmac]) simp_all

lemma signed_plan_verifies_witness: "verify_plan_signature small_env [(''cf'', ''k'')] {} (signed unsigned) = Inr (True, [])"
  unfolding signed_def by (rule signed_plan_verifies [OF small_key _ _ two_supported small_hmac]) simp_all

lemma retired_key_is_refused:
  assumes "verify_plan_signature E keyring retired plan = Inr (True, r)" "truthy (get_any ''kid'' (envelope_of plan))"
  shows "py_lower (py_strip (te_str E (get_any ''kid'' (envelope_of plan)))) \<notin> retired"
proof -
  obtain key where "select_verification_key E keyring retired (py_lower (py_strip (approved_by E plan)))
      (get_any ''kid'' (envelope_of plan)) = Inr key"
    by (rule accepted_cases [OF assms(1)])
  then show ?thesis using assms(2) by (auto simp: select_verification_key_def Let_def split: if_splits)
qed

section \<open>What a signature binds\<close>

definition hmac_collision :: "plan_env \<Rightarrow> bool" where
  "hmac_collision E \<longleftrightarrow> (\<exists>k m k' m'. (k, m) \<noteq> (k', m') \<and> te_hmac E k m = te_hmac E k' m')"

lemma last_split:
  assumes "s \<notin> set x" "s \<notin> set y"
  shows "a @ s # x = b @ s # y \<longleftrightarrow> a = b \<and> x = y"
proof
  assume "a @ s # x = b @ s # y"
  then have eq: "rev x @ s # rev a = rev y @ s # rev b" by (metis append.assoc append_Cons append_Nil rev.simps(2) rev_append)
  have "takeWhile (\<lambda>c. c \<noteq> s) (rev x @ s # rev a) = rev x" "takeWhile (\<lambda>c. c \<noteq> s) (rev y @ s # rev b) = rev y"
    using assms by (auto simp: takeWhile_append)
  then have "rev x = rev y" using eq by metis
  then show "a = b \<and> x = y" using eq by simp
qed simp

lemma supported_no_bar: "v \<in> set SUPPORTED_CONTRACT_VERSIONS \<Longrightarrow> CHR ''|'' \<notin> set v"
  by (auto simp: SUPPORTED_CONTRACT_VERSIONS_def)

lemma signing_bytes_eq: "signing_bytes E plan b t v kid =
    te_canonical E (JObj (plan_core plan)) @ CHR ''|'' # b @ CHR ''|'' # t @ CHR ''|'' # v
      @ (case keep_str kid of None \<Rightarrow> [] | Some k \<Rightarrow> CHR ''|'' # k)"
  by (simp add: signing_bytes_def split: option.split)

text \<open>The metadata holds no bar, and the name of the authority no closing brace.\<close>

definition plain_metadata :: "plan_env \<Rightarrow> obj \<Rightarrow> bool" where
  "plain_metadata E plan \<longleftrightarrow> CHR ''|'' \<notin> set (approved_by E plan) \<and> CHR ''}'' \<notin> set (approved_by E plan) \<and>
     CHR ''|'' \<notin> set (approved_at E plan) \<and> (\<forall>k. key_id E plan = Some k \<longrightarrow> CHR ''|'' \<notin> set k)"

lemma key_id_kept [simp]: "keep_str (key_id E plan) = key_id E plan"
  by (simp add: key_id_def Let_def)

lemma signed_text_eq: "signed_text E plan =
    te_canonical E (JObj (plan_core plan)) @ CHR ''|'' # approved_by E plan @ CHR ''|'' # approved_at E plan @
      CHR ''|'' # contract_of E plan @ (case key_id E plan of None \<Rightarrow> [] | Some k \<Rightarrow> CHR ''|'' # k)"
  by (simp add: signed_text_def signing_bytes_eq)

text \<open>Three parts against four: the first part would hold the first two of the other.\<close>

lemma shifted:
  assumes "s \<notin> set v1" "s \<notin> set v2" "s \<notin> set t1" "s \<notin> set t2" "s \<notin> set b1" "s \<notin> set b2"
    and "x @ s # b1 @ s # t1 @ s # v1 = y @ s # b' @ s # b2 @ s # t2 @ s # v2"
  shows "x = y @ s # b'"
proof -
  have "((x @ s # b1) @ s # t1) @ s # v1 = (((y @ s # b') @ s # b2) @ s # t2) @ s # v2"
    using assms(7) by simp
  then have "(x @ s # b1) @ s # t1 = ((y @ s # b') @ s # b2) @ s # t2"
    unfolding last_split [OF assms(1,2)] ..
  then have "x @ s # b1 = (y @ s # b') @ s # b2"
    unfolding last_split [OF assms(3,4)] ..
  then show ?thesis
    unfolding last_split [OF assms(5,6)] ..
qed

lemma no_brace_end:
  assumes "a @ ''}'' = b @ CHR ''|'' # c" "CHR ''}'' \<notin> set c"
  shows False
proof (cases c rule: rev_cases)
  case Nil
  have "last (a @ ''}'') = CHR ''|''" unfolding assms(1) Nil by simp
  then show False by simp
next
  case (snoc xs x)
  have "last (a @ ''}'') = x" unfolding assms(1) snoc by simp
  then show False using assms(2) snoc by simp
qed

text \<open>C19: a signature binds the plan and its approval. Two plans that are accepted with the same signature agree in
  everything but the envelope, as written in canonical form, and in authority, time, version and key id, provided
  that their metadata holds no separator. The alternative is a collision of the HMAC.\<close>

theorem signature_binds:
  assumes "verify_plan_signature E keyring retired p = Inr (True, r)"
    and "verify_plan_signature E keyring' retired' q = Inr (True, r')"
    and "signature_of E p = signature_of E q" "plain_metadata E p" "plain_metadata E q"
    and "\<And>d. \<exists>s. te_canonical E (JObj d) = s @ ''}''"
  shows "hmac_collision E \<or>
    te_canonical E (JObj (plan_core p)) = te_canonical E (JObj (plan_core q)) \<and>
    approved_by E p = approved_by E q \<and> approved_at E p = approved_at E q \<and>
    contract_of E p = contract_of E q \<and> key_id E p = key_id E q"
proof (cases "hmac_collision E")
  case False
  obtain k k' where "te_hmac E k (signed_text E p) = te_hmac E k' (signed_text E q)"
    and v: "contract_of E p \<in> set SUPPORTED_CONTRACT_VERSIONS" "contract_of E q \<in> set SUPPORTED_CONTRACT_VERSIONS"
    using accepted_cases [OF assms(1)] accepted_cases [OF assms(2)] assms(3) by metis
  then have eq: "signed_text E p = signed_text E q" using False by (auto simp: hmac_collision_def)
  obtain a b where ab: "te_canonical E (JObj (plan_core p)) = a @ ''}''" "te_canonical E (JObj (plan_core q)) = b @ ''}''"
    using assms(6) by blast
  note bars = supported_no_bar [OF v(1)] supported_no_bar [OF v(2)]
  note metas = assms(4,5) [unfolded plain_metadata_def]
  have split: "x @ CHR ''|'' # b1 @ CHR ''|'' # t1 @ CHR ''|'' # v1 = y @ CHR ''|'' # b2 @ CHR ''|'' # t2 @ CHR ''|'' # v2 \<longleftrightarrow>
      x @ CHR ''|'' # b1 = y @ CHR ''|'' # b2 \<and> t1 = t2 \<and> v1 = v2"
    if "CHR ''|'' \<notin> set v1" "CHR ''|'' \<notin> set v2" "CHR ''|'' \<notin> set t1" "CHR ''|'' \<notin> set t2" for x y b1 b2 t1 t2 v1 v2 :: string
    using last_split [OF that(1,2), of "x @ CHR ''|'' # b1 @ CHR ''|'' # t1" "y @ CHR ''|'' # b2 @ CHR ''|'' # t2"]
      last_split [OF that(3,4), of "x @ CHR ''|'' # b1" "y @ CHR ''|'' # b2"] by simp
  have authority: "x @ CHR ''|'' # approved_by E p = y @ CHR ''|'' # approved_by E q \<longleftrightarrow> x = y \<and> approved_by E p = approved_by E q" for x y
    using last_split [of "CHR ''|''" "approved_by E p" "approved_by E q"] metas by simp
  show ?thesis
  proof (cases "key_id E p"; cases "key_id E q")
    assume "key_id E p = None" "key_id E q = None"
    then show ?thesis
      using eq metas bars split authority by (simp add: signed_text_eq)
  next
    fix i j assume k: "key_id E p = Some i" "key_id E q = Some j"
    then have kj: "CHR ''|'' \<notin> set i" "CHR ''|'' \<notin> set j" using metas by auto
    have "(te_canonical E (JObj (plan_core p)) @ CHR ''|'' # approved_by E p @ CHR ''|'' # approved_at E p @ CHR ''|'' # contract_of E p)
          @ CHR ''|'' # i =
        (te_canonical E (JObj (plan_core q)) @ CHR ''|'' # approved_by E q @ CHR ''|'' # approved_at E q @ CHR ''|'' # contract_of E q)
          @ CHR ''|'' # j"
      using eq k by (simp add: signed_text_eq)
    then show ?thesis
      unfolding last_split [OF kj] using k metas bars split authority by simp
  next
    fix j assume k: "key_id E p = None" "key_id E q = Some j"
    then have kj: "CHR ''|'' \<notin> set j" using metas by auto
    have "a @ ''}'' = (b @ ''}'') @ CHR ''|'' # approved_by E q"
      by (rule shifted [of "CHR ''|''" "contract_of E p" j "approved_at E p" "contract_of E q" "approved_by E p" "approved_at E q"])
        (use eq k ab kj bars metas in \<open>simp_all add: signed_text_eq\<close>)
    then show ?thesis using no_brace_end metas by blast
  next
    fix i assume k: "key_id E p = Some i" "key_id E q = None"
    then have kj: "CHR ''|'' \<notin> set i" using metas by auto
    have "b @ ''}'' = (a @ ''}'') @ CHR ''|'' # approved_by E p"
      by (rule shifted [of "CHR ''|''" "contract_of E q" i "approved_at E q" "contract_of E p" "approved_by E q" "approved_at E p"])
        (use eq k ab kj bars metas in \<open>simp_all add: signed_text_eq\<close>)
    then show ?thesis using no_brace_end metas by blast
  qed
qed simp

text \<open>The same plan with an older envelope in another place.\<close>

lemma signed_fields:
  "approved_by small_env (signed plan) = ''cf''" "approved_at small_env (signed plan) = ''t''"
  "key_id small_env (signed plan) = None"
  "signature_of small_env (signed plan) = te_hmac small_env ''k'' (signing_bytes small_env plan ''cf'' ''t'' ''2'' None)"
  by (simp_all add: approved_by_def approved_at_def key_id_def truthy_str_def jopt_def signature_of_def envelope_of_def signed_def get_any_def dget_dset
      sign_plan_def py_dict Let_def)

lemma signature_binds_witness:
  "contract_of small_env (signed unsigned) = contract_of small_env (signed ((''approval'', JNull) # unsigned))"
proof -
  have "\<not> hmac_collision small_env" by (auto simp: hmac_collision_def small_env_def)
  moreover have "signing_bytes small_env ((''approval'', JNull) # unsigned) = signing_bytes small_env unsigned"
    by (simp add: fun_eq_iff signing_bytes_def plan_core_def APPROVAL_KEY_def)
  moreover have "plain_metadata small_env (signed plan)" for plan by (simp add: plain_metadata_def signed_fields)
  moreover have "\<exists>s. te_canonical small_env (JObj d) = s @ ''}''" for d by (simp add: small_env_def)
  ultimately show ?thesis
    using signature_binds [OF signed_accepted signed_accepted, of unsigned "(''approval'', JNull) # unsigned"]
    by (simp add: signed_fields)
qed

end
