(* ===== verification/Ingest_Props.thy ===== *)
theory Ingest_Props
  imports Trust_Props
begin

text \<open>Only a trusted plan is taken in, and one that was taken in stays approved while it is built.\<close>

section \<open>What is written\<close>

lemma trusted_cases:
  assumes "verify_trusted_plan E env keyring plan = Inr r" "vr_ok r"
  shows "verify_plan_signature E (case keyring of None \<Rightarrow> load_keyring_from_env env | Some k \<Rightarrow> k)
      (load_retired_kids_from_env env) plan = Inr (True, [])"
    and "check_plan_completeness E plan = Inr (True, [])"
proof -
  let ?ring = "case keyring of None \<Rightarrow> load_keyring_from_env env | Some k \<Rightarrow> k"
  obtain s t where s: "verify_plan_signature E ?ring (load_retired_kids_from_env env) plan = Inr (True, s)"
    and t: "check_plan_completeness E plan = Inr (True, t)"
    using assms by (auto simp: verify_trusted_plan_def bindE_Inr_iff)
  have "s = []" by (rule accepted_cases [OF s])
  moreover have "t = []"
    using t by (auto simp: check_plan_completeness_def Let_def bindE_Inr_iff split: json.splits list.splits if_splits)
  ultimately show "verify_plan_signature E ?ring (load_retired_kids_from_env env) plan = Inr (True, [])"
    "check_plan_completeness E plan = Inr (True, [])" using s t by simp_all
qed

lemma completeness_of_buildable: "check_plan_completeness E plan = Inr (True, []) \<Longrightarrow> buildable plan"
  by (simp add: completeness_iff)

lemma write_spec_md_frame: "write_spec_md_from_plan E plan fs = Inr fs' \<Longrightarrow> \<exists>t. fs' = fs\<lparr>sf_spec_md := t\<rparr>"
  by (cases fs) (auto simp: write_spec_md_from_plan_def bindE_Inr_iff Let_def split: if_splits)

lemma record_provenance_frame: "\<exists>t. record_approval_provenance E r fs = fs\<lparr>sf_requirements := t\<rparr>"
  by (auto simp: record_approval_provenance_def Let_def)

lemma mark_review_frame: "\<exists>t. mark_review_approved E now r fs = fs\<lparr>sf_review := t\<rparr>"
  by (cases fs) (auto simp: mark_review_approved_def approve_def bindE_def saved_if_def review_save_def split: sum.splits)

lemma marked_fields [simp]:
  "sf_plan (record_approval_provenance E r fs) = sf_plan fs" "sf_contract (record_approval_provenance E r fs) = sf_contract fs"
  "sf_plan (mark_review_approved E now r fs) = sf_plan fs" "sf_contract (mark_review_approved E now r fs) = sf_contract fs"
  using record_provenance_frame [of E r fs] mark_review_frame [of E now r fs] by auto

lemma apply_profile_frame: "apply_execution_profile E plan fs = Inr (m, fs') \<Longrightarrow> \<exists>t. fs' = fs\<lparr>sf_metadata := t\<rparr>"
  by (cases fs) (auto simp: apply_execution_profile_def Let_def split: if_splits option.splits json.splits)

text \<open>C18: only a trusted plan changes the files. Whenever the ingestion changes a file or reports success, the
  signature was accepted with the keys of the environment and the plan can be built, and the plan and the contract
  on file are the plan that was handed in, envelope included; in every other case nothing was written.\<close>

theorem only_trusted_plans_are_ingested:
  assumes "ingest_trusted_plan E env keyring now plan fs = (res, fs')"
  shows "fs' = fs \<and> (\<forall>r. res = Inr r \<longrightarrow> \<not> vr_ok r) \<or>
    verify_plan_signature E (case keyring of None \<Rightarrow> load_keyring_from_env env | Some k \<Rightarrow> k)
      (load_retired_kids_from_env env) plan = Inr (True, []) \<and> buildable plan \<and>
    sf_plan fs' = Some (cd_text (te_codec E) (JObj plan)) \<and> sf_contract fs' = Some (cd_text (te_codec E) (JObj plan))"
proof (cases "verify_trusted_plan E env keyring plan")
  case (Inl e)
  then show ?thesis using assms by (auto simp: ingest_trusted_plan_def)
next
  case (Inr r)
  show ?thesis
  proof (cases "vr_ok r")
    case False
    then show ?thesis using assms Inr by (auto simp: ingest_trusted_plan_def)
  next
    case True
    note t = trusted_cases [OF Inr True]
    have "sf_plan fs' = Some (cd_text (te_codec E) (JObj plan)) \<and> sf_contract fs' = Some (cd_text (te_codec E) (JObj plan))"
    proof (cases "write_spec_md_from_plan E plan (install_plan E plan fs)")
      case (Inl e)
      then show ?thesis using assms Inr True by (auto simp: ingest_trusted_plan_def Let_def install_plan_def)
    next
      case spec: (Inr fs2)
      have "sf_plan fs2 = Some (cd_text (te_codec E) (JObj plan)) \<and> sf_contract fs2 = Some (cd_text (te_codec E) (JObj plan))"
        using write_spec_md_frame [OF spec] by (auto simp: install_plan_def)
      then show ?thesis
        using assms Inr True spec by (auto simp: ingest_trusted_plan_def Let_def split: sum.splits dest!: apply_profile_frame)
    qed
    then show ?thesis using t completeness_of_buildable by simp
  qed
qed

section \<open>The approval\<close>

lemma review_roundtrip: "review_from_dict (JObj (review_to_dict st)) = Inr st"
  by (simp add: review_from_dict_def review_to_dict_def get_or_def)

lemma spec_hash_files: "sf_spec_md gs = sf_spec_md fs \<Longrightarrow> sf_plan gs = sf_plan fs \<Longrightarrow> compute_spec_hash c gs = compute_spec_hash c fs"
  by (simp add: compute_spec_hash_def combine_def read_plan_def cong: option.case_cong)

lemma saved_hash_files: "sf_spec_md gs = sf_spec_md fs \<Longrightarrow> sf_plan gs = sf_plan fs \<Longrightarrow>
    compute_saved_spec_hash c gs = compute_saved_spec_hash c fs"
proof -
  assume a: "sf_spec_md gs = sf_spec_md fs" "sf_plan gs = sf_plan fs"
  then have "combine c gs = combine c fs" "read_plan c gs = read_plan c fs" by (auto simp: combine_def read_plan_def)
  then show ?thesis by (simp add: compute_saved_spec_hash_def split: option.split sum.split)
qed

lemma new_review_approves: "\<exists>st fs'. approve c now who auto new_review fs = Inr (st, fs')"
  by (simp add: approve_def new_review_def count_up_def)

text \<open>C22: a plan that was taken in may be built, and stays approved while it is. After a successful ingestion into a
  directory without a review, the review on file is valid for the files on disk, and it remains valid for whatever
  a build makes of the progress of the plan, if the plan can be loaded at all.\<close>

theorem ingested_plan_stays_approved:
  assumes "ingest_trusted_plan E env keyring now plan fs = (Inr r, fs')" "vr_ok r" "sf_review fs = None"
    and "\<And>v. cd_loads (te_codec E) (cd_text (te_codec E) v) = Some v" "\<And>s. cd_md5 (te_codec E) s \<noteq> []"
    and "plan_from_dict plan = Inr p" "sf_spec_md gs = sf_spec_md fs'"
    and "read_plan (te_codec E) gs = Some (plan_to_dict (foldl build_step p es))"
  shows "\<exists>st. review_load (te_codec E) fs' = Inr st \<and> is_approval_valid (te_codec E) st fs' \<and>
    is_approval_valid (te_codec E) st gs"
proof -
  let ?c = "te_codec E"
  obtain fs2 m where v: "verify_trusted_plan E env keyring plan = Inr r"
    and spec: "write_spec_md_from_plan E plan (install_plan E plan fs) = Inr fs2"
    and app: "apply_execution_profile E plan (mark_review_approved E now r (record_approval_provenance E r fs2)) = Inr (m, fs')"
    using assms(1,2) by (auto simp: ingest_trusted_plan_def Let_def split: sum.splits if_splits)
  define fs3 where "fs3 = record_approval_provenance E r fs2"
  obtain a b where ab: "fs2 = (install_plan E plan fs)\<lparr>sf_spec_md := a\<rparr>" "fs3 = fs2\<lparr>sf_requirements := b\<rparr>"
    using write_spec_md_frame [OF spec] record_provenance_frame [of E r fs2] unfolding fs3_def by blast
  have load: "review_load ?c fs3 = Inr new_review"
    using assms(3) by (simp add: ab install_plan_def review_load_def read_json_def)
  obtain st fs4 where ap: "approve ?c now (''trusted-plan:'' @ te_str E (vr_approved_by r)) True new_review fs3 = Inr (st, fs4)"
    using new_review_approves by blast
  have fs4: "fs4 = review_save ?c st fs3" using ap by (auto simp: approve_def bindE_Inr_iff saved_if_def)
  have "mark_review_approved E now r fs3 = fs4"
    unfolding mark_review_approved_def load sum.case ap prod.case ..
  then obtain d where fs': "fs' = fs4\<lparr>sf_metadata := d\<rparr>"
    using app apply_profile_frame unfolding fs3_def [symmetric] by blast
  have files: "sf_spec_md fs' = sf_spec_md fs3" "sf_plan fs' = sf_plan fs3" "sf_plan fs3 = Some (cd_text ?c (JObj plan))"
    by (simp_all add: fs' fs4 review_save_def ab install_plan_def)
  have "review_load ?c fs' = Inr st"
    using assms(4) by (simp add: fs' fs4 review_save_def review_load_def read_json_def review_roundtrip)
  moreover have "is_approval_valid ?c st fs'"
    using hash_makes_valid [OF ap assms(5)] spec_hash_files [OF files(1,2)] by simp
  moreover have "read_plan ?c fs' = Some plan"
    using assms(4) files by (simp add: read_plan_def read_json_def)
  then have "compute_spec_hash ?c gs = compute_saved_spec_hash ?c fs'"
    by (rule build_keeps_saved_hash [OF _ assms(6-8)])
  then have "is_approval_valid ?c st gs"
    using hash_makes_valid [OF ap assms(5)] saved_hash_files [OF files(1,2)] by simp
  ultimately show ?thesis by blast
qed

section \<open>Instances\<close>

definition empty_files :: spec_files where
  "empty_files = \<lparr>sf_spec_md = None, sf_plan = None, sf_review = None, sf_metadata = None, sf_requirements = None, sf_contract = None\<rparr>"

lemma no_retired: "load_retired_kids_from_env [] = {}"
  by code_simp

lemma only_trusted_plans_are_ingested_witness: "snd (ingest_trusted_plan small_env [] (Some []) ''n'' unsigned empty_files) = empty_files"
proof -
  have "verify_plan_signature small_env [] {} unsigned = Inr (False, ''plan has no approval envelope'')"
    by (simp add: verify_plan_signature_def get_any_def unsigned_def APPROVAL_KEY_def)
  then show ?thesis
    using only_trusted_plans_are_ingested [of small_env "[]" "Some []" "''n''" unsigned empty_files, OF surjective_pairing]
    by (simp add: no_retired)
qed

lemma other_key [simp]: "k \<noteq> APPROVAL_KEY \<Longrightarrow> get_any k (AList.update APPROVAL_KEY v d) = get_any k d"
  by (simp add: get_any_def dget_dset)

lemma completeness_update: "check_plan_completeness E (AList.update APPROVAL_KEY v plan) = check_plan_completeness E plan"
proof -
  let ?u = "AList.update APPROVAL_KEY v plan"
  have "get_any ''phases'' ?u = get_any ''phases'' plan" by (simp add: APPROVAL_KEY_def get_any_def dget_dset)
  moreover have "filter (\<lambda>f. map_of ?u f = None) [''feature'', ''workflow_type'', ''phases''] =
      filter (\<lambda>f. map_of plan f = None) [''feature'', ''workflow_type'', ''phases'']"
    by (rule filter_cong) (auto simp: APPROVAL_KEY_def dget_dset)
  ultimately show ?thesis unfolding check_plan_completeness_def by presburger
qed

lemma untouched:
  assumes "k \<noteq> APPROVAL_KEY"
  shows "get_str k x (AList.update APPROVAL_KEY v d) = get_str k x d" "get_opt_str k (AList.update APPROVAL_KEY v d) = get_opt_str k d"
    "get_list k (AList.update APPROVAL_KEY v d) = get_list k d" "get_strs k (AList.update APPROVAL_KEY v d) = get_strs k d"
  using assms by (simp_all add: get_defs dget_dset)

lemma feature_update: "get_feature (AList.update APPROVAL_KEY v d) = get_feature d"
proof -
  have "get_opt_str ''feature'' (AList.update APPROVAL_KEY v d) = get_opt_str ''feature'' d"
    "get_opt_str ''title'' (AList.update APPROVAL_KEY v d) = get_opt_str ''title'' d"
    by (rule untouched, simp add: APPROVAL_KEY_def)+
  then show ?thesis unfolding get_feature_def by presburger
qed

lemma plan_from_dict_update: "plan_from_dict (AList.update APPROVAL_KEY v d) = plan_from_dict d"
proof -
  let ?u = "AList.update APPROVAL_KEY v d"
  have "get_signoff ?u = get_signoff d" "get_workflow ?u = get_workflow d" "get_list ''phases'' ?u = get_list ''phases'' d"
    by (simp_all add: APPROVAL_KEY_def get_signoff_def get_workflow_def get_list_def dget_dset)
  moreover have "get_strs ''services_involved'' ?u = get_strs ''services_involved'' d"
    "get_strs ''final_acceptance'' ?u = get_strs ''final_acceptance'' d"
    "get_strs ''required_commands'' ?u = get_strs ''required_commands'' d"
    by (rule untouched, simp add: APPROVAL_KEY_def)+
  moreover have "get_opt_str ''created_at'' ?u = get_opt_str ''created_at'' d"
    "get_opt_str ''updated_at'' ?u = get_opt_str ''updated_at'' d" "get_opt_str ''spec_file'' ?u = get_opt_str ''spec_file'' d"
    "get_opt_str ''status'' ?u = get_opt_str ''status'' d" "get_opt_str ''planStatus'' ?u = get_opt_str ''planStatus'' d"
    "get_opt_str ''reviewReason'' ?u = get_opt_str ''reviewReason'' d"
    "get_opt_str ''recoveryNote'' ?u = get_opt_str ''recoveryNote'' d"
    "get_opt_str ''contractHold'' ?u = get_opt_str ''contractHold'' d"
    by (rule untouched, simp add: APPROVAL_KEY_def)+
  ultimately show ?thesis unfolding plan_from_dict_def feature_update by presburger
qed

definition small_result :: verification_result where
  "small_result = \<lparr>vr_ok = True, vr_reasons = [], vr_approved_by = JStr ''cf'', vr_approval_timestamp = JStr ''t''\<rparr>"

lemma small_verified: "verify_trusted_plan small_env [] (Some [(''cf'', ''k'')]) (signed unsigned) = Inr small_result"
proof -
  have "check_plan_completeness small_env unsigned = Inr (True, [])" by code_simp
  then have "check_plan_completeness small_env (signed unsigned) = Inr (True, [])"
    by (simp add: signed_def completeness_update)
  moreover have "get_any ''approved_by'' (envelope_of (signed unsigned)) = JStr ''cf''"
    "get_any ''approval_timestamp'' (envelope_of (signed unsigned)) = JStr ''t''"
    by (simp_all add: envelope_of_def signed_def get_any_def dget_dset sign_plan_def)
  ultimately show ?thesis by (simp add: verify_trusted_plan_def signed_accepted no_retired small_result_def)
qed

lemma spec_md_written:
  assumes "get_any ''phases'' plan = JList [JObj ph]" "get_any ''subtasks'' ph = JList (st # sts)"
  shows "\<exists>fs'. write_spec_md_from_plan E plan fs = Inr fs'"
proof -
  have "\<exists>ls. phase_lines E (JObj ph) = Inr ls" using assms(2) by (simp add: phase_lines_def or_empty_def py_list_def)
  then obtain ls where "mapE (phase_lines E) [JObj ph] = Inr [ls]" by auto
  then show ?thesis using assms(1) by (simp add: write_spec_md_from_plan_def Let_def)
qed

definition small_ingested :: spec_files where
  "small_ingested = snd (ingest_trusted_plan small_env [] (Some [(''cf'', ''k'')]) ''n'' (signed unsigned) empty_files)"

lemma small_ingest: "ingest_trusted_plan small_env [] (Some [(''cf'', ''k'')]) ''n'' (signed unsigned) empty_files = (Inr small_result, small_ingested)"
proof -
  have ph: "get_any ''phases'' (signed unsigned) = get_any ''phases'' unsigned" "get_any ''execution'' (signed unsigned) = JNull"
    by (simp_all add: signed_def APPROVAL_KEY_def get_any_def dget_dset) (simp add: unsigned_def)
  have "get_any ''phases'' unsigned = JList [JObj [(''phase'', JInt 1),
      (''subtasks'', JList [JObj [(''id'', JStr ''a''), (''description'', JStr ''d'')]])]]"
    by (simp add: unsigned_def get_any_def)
  with ph(1) obtain fs where "write_spec_md_from_plan small_env (signed unsigned) (install_plan small_env (signed unsigned) empty_files) = Inr fs"
    using spec_md_written [of "signed unsigned"] by (fastforce simp: get_any_def)
  then have "fst (ingest_trusted_plan small_env [] (Some [(''cf'', ''k'')]) ''n'' (signed unsigned) empty_files) = Inr small_result"
    by (simp add: ingest_trusted_plan_def small_verified apply_execution_profile_def ph Let_def)
  then show ?thesis by (simp add: small_ingested_def prod_eq_iff)
qed

lemma small_plan_loads: "plan_from_dict (signed unsigned) = Inr (projr (plan_from_dict unsigned))"
proof -
  have "isl (plan_from_dict unsigned) = False" by code_simp
  then show ?thesis unfolding signed_def plan_from_dict_update by (cases "plan_from_dict unsigned") simp_all
qed

definition small_built :: spec_files where
  "small_built = small_ingested\<lparr>sf_plan := Some (numbered (JObj (plan_to_dict (foldl build_step (projr (plan_from_dict unsigned))
     [Item_Op 0 0 (Start ''1''), Save_Plan ''2'', Item_Op 0 0 (Complete ''3'' None), Save_Plan ''4'']))))\<rparr>"

lemma ingested_plan_stays_approved_witness:
  "\<exists>st. review_load (te_codec small_env) small_ingested = Inr st \<and> is_approval_valid (te_codec small_env) st small_ingested \<and>
     is_approval_valid (te_codec small_env) st small_built"
  by (rule ingested_plan_stays_approved [OF small_ingest _ _ _ _ small_plan_loads,
        where es = "[Item_Op 0 0 (Start ''1''), Save_Plan ''2'', Item_Op 0 0 (Complete ''3'' None), Save_Plan ''4'']"])
    (simp_all add: small_result_def empty_files_def small_env_def small_built_def read_plan_def read_json_def)

section \<open>The age of a plan\<close>

text \<open>A failing \<open>git diff\<close> is taken for an empty one: the verdict is not that the answer is unknown, and the default
  policy lets the plan pass.\<close>

lemma failing_diff_passes:
  assumes "plan_baseline_commit plan = Some base" "git dir [''rev-parse'', ''HEAD''] = Some head" "head \<noteq> []" "head \<noteq> base"
    and "git dir [''rev-parse'', base @ ''^{commit}''] = Some c" "c \<noteq> []" "c \<noteq> head"
    and "git dir [''diff'', ''--no-ext-diff'', ''--no-textconv'', ''--name-only'', c, ''HEAD''] = None"
  shows "bd_status (check_baseline_drift git plan (Some dir)) = DRIFT_DRIFTED \<and>
    \<not> baseline_drift_rejects (check_baseline_drift git plan (Some dir)) None None"
proof -
  have "splitlines [] = []" by (simp add: splitlines_def)
  moreover have "drift_policy None = ''blast-radius''" by code_simp
  ultimately show ?thesis
    using assms by (simp add: check_baseline_drift_def Let_def truthy_str_def baseline_drift_rejects_def)
qed

lemma typo_keeps_the_gate: "py_lower (py_strip v) \<notin> set DRIFT_POLICIES \<Longrightarrow> drift_policy (Some v) = ''blast-radius''"
  by (simp add: drift_policy_def Let_def)

section \<open>Dependencies across phases\<close>

text \<open>A plan may depend across phases, but the waves of a phase only know the items of the phase: such an item is never
  selected.\<close>

definition two_phases :: obj where
  "two_phases = [(''feature'', JStr ''f''), (''workflow_type'', JStr ''feature''), (''phases'', JList
     [JObj [(''phase'', JInt 1), (''subtasks'', JList [JObj [(''id'', JStr ''a''), (''description'', JStr ''d'')]])],
      JObj [(''phase'', JInt 2), (''subtasks'', JList [JObj [(''id'', JStr ''b''), (''description'', JStr ''e''),
        (''depends_on'', JList [JStr ''a''])]])]])]"

lemma cross_phase_item_never_selected:
  "buildable two_phases"
  "case plan_from_dict two_phases of Inr p \<Rightarrow> select_ready_wave id (ph_subtasks (pl_phases p ! 1)) {} [] 4 = [] | Inl _ \<Rightarrow> False"
proof -
  have "check_plan_completeness small_env two_phases = Inr (True, [])" by code_simp
  then show "buildable two_phases" by (rule completeness_of_buildable)
  show "case plan_from_dict two_phases of Inr p \<Rightarrow> select_ready_wave id (ph_subtasks (pl_phases p ! 1)) {} [] 4 = [] | Inl _ \<Rightarrow> False"
    by code_simp
qed

end
