(* ===== verification/Contract_Trust.thy ===== *)
theory Contract_Trust
  imports Trusted_Plan
begin

text \<open>
  Which contract a build may act on. The web server keeps the signed contract in a table
  (\<open>web-server/services/trusted_contract_store.py\<close>) and decides (\<open>web-server/services/trusted_contract.py\<close>); the build
  gets the verdict in an environment variable and checks its own copy against it (\<open>core/contract_trust.py\<close>), and so
  do the prompts, the scaffold of a deployment and the build command. SHA-256 is the argument \<open>sha\<close>; the text that a
  contract is stored as is that of \<open>cd_text\<close>. A table that cannot be reached is \<open>None\<close>.
\<close>

section \<open>The copy on file\<close>

definition load_contract :: "codec \<Rightarrow> spec_files \<Rightarrow> obj option" where
  "load_contract c fs = (case read_json c (sf_contract fs) of Some (JObj d) \<Rightarrow> Some d | _ \<Rightarrow> None)"

definition load_task_contract :: "codec \<Rightarrow> spec_files \<Rightarrow> obj" where
  "load_task_contract c fs =
     (case load_contract c fs of
        Some d \<Rightarrow> if list_ex (\<lambda>k. map_of d k \<noteq> None) [''tfactory'', ''contract_version'', ''approval''] then d else []
      | None \<Rightarrow> [])"

definition is_migration :: "obj option \<Rightarrow> bool" where
  "is_migration contract =
     (case contract of None \<Rightarrow> False | Some d \<Rightarrow> d \<noteq> [] \<and> get_any ''change_mode'' d = JStr ''migration'')"

section \<open>The verdict in the build\<close>

definition LEGACY :: string where "LEGACY = ''legacy''"
definition HOLD_KEY :: string where "HOLD_KEY = ''contractHold''"

datatype trust_state = Verified | Hold | Legacy

definition REASON_LABELS :: "string list" where
  "REASON_LABELS = [''no contract'', ''digest mismatch'', ''held by server'', ''server saw no signed contract'',
     ''server verified'', ''trusted trace without a server verdict'', ''no server verdict'']"

definition reason_label :: "string \<Rightarrow> string" where
  "reason_label why = (if why \<in> set REASON_LABELS then why else ''error'')"

definition contract_digest :: "plan_env \<Rightarrow> (string \<Rightarrow> string) \<Rightarrow> obj \<Rightarrow> string" where
  "contract_digest E sha contract = sha (te_canonical E (JObj contract))"

definition has_approval :: "json option \<Rightarrow> bool" where
  "has_approval v = (case v of Some (JObj d) \<Rightarrow> map_of d ''approval'' \<noteq> None | _ \<Rightarrow> False)"

definition has_trusted_trace :: "codec \<Rightarrow> spec_files \<Rightarrow> bool" where
  "has_trusted_trace c fs =
     (if has_approval (read_json c (sf_contract fs)) \<or> has_approval (read_json c (sf_plan fs)) then True
      else case read_json c (sf_requirements fs) of
             Some (JObj req) \<Rightarrow>
               (case get_any ''provenance'' req of JObj prov \<Rightarrow> get_any ''trusted_plan'' prov = JBool True | _ \<Rightarrow> False)
           | _ \<Rightarrow> False)"

text \<open>\<open>value\<close> is that of the variable, if it is set.\<close>

definition trusted_contract ::
    "plan_env \<Rightarrow> (string \<Rightarrow> string) \<Rightarrow> string option \<Rightarrow> spec_files \<Rightarrow> trust_state \<times> obj option \<times> string" where
  "trusted_contract E sha value fs =
     (case load_contract (te_codec E) fs of
        None \<Rightarrow>
          if value = None \<or> value = Some ''hold'' \<or> value = Some LEGACY then (Legacy, None, ''no contract'')
          else (Hold, None, ''digest mismatch'')
      | Some contract \<Rightarrow>
          if value = Some ''hold'' then (Hold, Some contract, ''held by server'')
          else if value = Some LEGACY then (Hold, Some contract, ''server saw no signed contract'')
          else if value \<noteq> None then
            if value = Some (contract_digest E sha contract) then (Verified, Some contract, ''server verified'')
            else (Hold, Some contract, ''digest mismatch'')
          else if has_trusted_trace (te_codec E) fs
          then (Hold, Some contract, ''trusted trace without a server verdict'')
          else (Legacy, Some contract, ''no server verdict''))"

text \<open>The note for the status of the task, on the plan in one directory and in the directory it was copied from.\<close>

definition hold_noted :: "codec \<Rightarrow> string option \<Rightarrow> spec_files \<Rightarrow> spec_files" where
  "hold_noted c note fs =
     (case read_plan c fs of
        None \<Rightarrow> fs
      | Some plan \<Rightarrow>
          if get_any HOLD_KEY plan = jopt note then fs
          else fs\<lparr>sf_plan := Some (cd_text c (JObj (case note of
                 None \<Rightarrow> AList.delete HOLD_KEY plan | Some n \<Rightarrow> AList.update HOLD_KEY (JStr n) plan)))\<rparr>)"

definition record_hold ::
    "codec \<Rightarrow> string option \<Rightarrow> spec_files \<times> spec_files option \<Rightarrow> spec_files \<times> spec_files option" where
  "record_hold c note dirs = (hold_noted c note (fst dirs), map_option (hold_noted c note) (snd dirs))"

section \<open>Who asks\<close>

text \<open>The build command: the contract to build by, or the end of the build.\<close>

datatype build_contract = Build_By "obj option" | Build_Stopped

definition resolve_build_contract ::
    "plan_env \<Rightarrow> (string \<Rightarrow> string) \<Rightarrow> string option \<Rightarrow> spec_files \<times> spec_files option
      \<Rightarrow> build_contract \<times> spec_files \<times> spec_files option" where
  "resolve_build_contract E sha value dirs =
     (case trusted_contract E sha value (fst dirs) of (state, contract, why) \<Rightarrow>
        if state \<noteq> Hold then (Build_By contract, record_hold (te_codec E) None dirs)
        else if is_migration contract
        then (Build_Stopped, record_hold (te_codec E)
               (Some (''migration contract held ('' @ reason_label why @ ''); build stopped'')) dirs)
        else (Build_By None, record_hold (te_codec E)
               (Some (''contract held ('' @ reason_label why @ ''); normal build'')) dirs))"

text \<open>The prompts: without a verdict and without a trace of a trusted plan the plan itself is taken for a contract.\<close>

definition prompt_contract :: "plan_env \<Rightarrow> (string \<Rightarrow> string) \<Rightarrow> string option \<Rightarrow> spec_files \<Rightarrow> obj option" where
  "prompt_contract E sha value fs =
     (case trusted_contract E sha value fs of (state, contract, why) \<Rightarrow>
        if state = Hold then None
        else if contract \<noteq> None then contract
        else let traced = has_trusted_trace (te_codec E) fs
             in if value = Some LEGACY \<and> \<not> traced then None
                else if value \<noteq> None \<or> traced then None
                else read_plan (te_codec E) fs)"

section \<open>The table of the server\<close>

record trusted_row =
  tc_spec_id :: string
  tc_contract :: string
  tc_build_isolation :: "string option"

type_synonym contract_table = "(string \<times> trusted_row) list"

record trusted_record =
  tr_contract :: json
  tr_build_isolation :: "string option"

definition put_contract :: "codec \<Rightarrow> string \<Rightarrow> string \<Rightarrow> obj \<Rightarrow> contract_table \<Rightarrow> contract_table" where
  "put_contract c key spec_id contract table =
     (let body = cd_text c (JObj contract)
      in case map_of table key of
           None \<Rightarrow> AList.update key \<lparr>tc_spec_id = spec_id, tc_contract = body, tc_build_isolation = None\<rparr> table
         | Some row \<Rightarrow>
             AList.update key (row\<lparr>tc_build_isolation := (if tc_contract row \<noteq> body then None else tc_build_isolation row),
               tc_contract := body, tc_spec_id := spec_id\<rparr>) table)"

text \<open>The outer \<open>None\<close>: the text of the row does not parse.\<close>

definition get_contract :: "codec \<Rightarrow> string \<Rightarrow> contract_table \<Rightarrow> trusted_record option option" where
  "get_contract c key table =
     (case map_of table key of
        None \<Rightarrow> Some None
      | Some row \<Rightarrow>
          (case cd_loads c (tc_contract row) of
             None \<Rightarrow> None
           | Some v \<Rightarrow> Some (Some \<lparr>tr_contract = v, tr_build_isolation = tc_build_isolation row\<rparr>)))"

definition stamp_isolation :: "string \<Rightarrow> string \<Rightarrow> contract_table \<Rightarrow> contract_table" where
  "stamp_isolation key kind table =
     map (\<lambda>(k, row). (k, if k = key \<and> tc_build_isolation row \<noteq> Some ''none'' then row\<lparr>tc_build_isolation := Some kind\<rparr> else row))
       table"

datatype looked_up = No_Record | Trusted_Record trusted_record | Lookup_Failed

definition lookup_contract :: "codec \<Rightarrow> contract_table option \<Rightarrow> string \<Rightarrow> looked_up" where
  "lookup_contract c table key =
     (case table of
        None \<Rightarrow> Lookup_Failed
      | Some t \<Rightarrow> (case get_contract c key t of
                    None \<Rightarrow> Lookup_Failed | Some None \<Rightarrow> No_Record | Some (Some r) \<Rightarrow> Trusted_Record r))"

definition stamp_spawn :: "contract_table option \<Rightarrow> string \<Rightarrow> string \<Rightarrow> contract_table option" where
  "stamp_spawn table key kind = map_option (stamp_isolation key kind) table"

section \<open>The decision of the server\<close>

definition ISOLATED_STAMPS :: "string list" where
  "ISOLATED_STAMPS = [''kubejob'', ''sandbox-pidns'']"

definition raw_backend :: "environ \<Rightarrow> string" where
  "raw_backend env = (let s = py_lower (py_strip (ddefault [] env ''AIFACTORY_BUILD_BACKEND''))
     in if s = [] then ''subprocess'' else s)"

definition selected_backend :: "environ \<Rightarrow> string" where
  "selected_backend env =
     (if raw_backend env \<in> {''subprocess'', ''kubejob''} then raw_backend env else ''subprocess'')"

definition store_enabled :: "environ \<Rightarrow> bool" where
  "store_enabled env \<longleftrightarrow> py_strip (ddefault [] env ''DATABASE_URL'') \<noteq> []"

definition host_isolated :: "environ \<Rightarrow> bool" where
  "host_isolated env \<longleftrightarrow> selected_backend env = ''kubejob'' \<and> store_enabled env"

definition record_verified :: "plan_env \<Rightarrow> environ \<Rightarrow> spec_files \<Rightarrow> trusted_record \<Rightarrow> py_error + bool" where
  "record_verified E env fs r =
     (case tr_contract r of
        JObj c \<Rightarrow>
          bindE (verify_plan_signature E (load_keyring_from_env env) (load_retired_kids_from_env env) c) (\<lambda>(ok, reason).
            if \<not> ok \<or> tr_build_isolation r \<notin> Some ` set ISOLATED_STAMPS then Inr False
            else case read_json (te_codec E) (sf_contract fs) of
                   None \<Rightarrow> Inl (ValueError ''task_contract.json'')
                 | Some on_disk \<Rightarrow> Inr (te_canonical E on_disk = te_canonical E (tr_contract r)))
      | _ \<Rightarrow> Inl (TypeError ''get''))"

text \<open>\<open>importable\<close>: whether the loader of contracts can be imported at run time.\<close>

definition resolve_contract ::
    "plan_env \<Rightarrow> environ \<Rightarrow> bool \<Rightarrow> spec_files \<Rightarrow> looked_up \<Rightarrow> trust_state \<times> obj" where
  "resolve_contract E env importable fs trusted =
     (if \<not> importable then (Hold, [])
      else case trusted of
        Trusted_Record r \<Rightarrow>
          if \<not> host_isolated env then (Hold, [])
          else (case record_verified E env fs r of
                  Inr True \<Rightarrow> (case tr_contract r of JObj c \<Rightarrow> (Verified, c) | _ \<Rightarrow> (Hold, []))
                | _ \<Rightarrow> (Hold, []))
      | Lookup_Failed \<Rightarrow> (Hold, [])
      | No_Record \<Rightarrow>
          if has_trusted_trace (te_codec E) fs then (Hold, []) else (Legacy, load_task_contract (te_codec E) fs))"

definition handoff_contract :: "plan_env \<Rightarrow> environ \<Rightarrow> bool \<Rightarrow> spec_files \<Rightarrow> looked_up \<Rightarrow> obj option" where
  "handoff_contract E env importable fs trusted =
     (case resolve_contract E env importable fs trusted of
        (Verified, contract) \<Rightarrow> Some contract | (Hold, _) \<Rightarrow> Some [] | (Legacy, _) \<Rightarrow> None)"

text \<open>The value of the variable that a build is started with.\<close>

definition spawn_env ::
    "plan_env \<Rightarrow> (string \<Rightarrow> string) \<Rightarrow> environ \<Rightarrow> bool \<Rightarrow> spec_files \<Rightarrow> contract_table option \<Rightarrow> string \<Rightarrow> string" where
  "spawn_env E sha env importable fs table key =
     (case resolve_contract E env importable fs (lookup_contract (te_codec E) table key) of
        (Verified, contract) \<Rightarrow> contract_digest E sha contract
      | (Hold, _) \<Rightarrow> ''hold''
      | (Legacy, _) \<Rightarrow> LEGACY)"

end
