(* ===== verification/Merge_Gate.thy ===== *)
theory Merge_Gate
  imports Contract_Trust Merge_Policy
begin

text \<open>
  The decision whether a pull request may be merged without a human, as the end of a task makes it
  (\<open>web-server/services/pr_endgame.py\<close>, first half): flags, the tier of a task and the floor that its real diff
  demands, the signals of the gate, and the disposition. It reads the contract through the server's decision
  and asks the merge policy.
\<close>

section \<open>Flags\<close>

text \<open>The settings of a project, if there is one: whether they were loaded, and their values.\<close>

record project_settings =
  ps_loaded :: bool
  ps_value :: "string \<Rightarrow> string option"

definition gate_truthy :: "string list" where
  "gate_truthy = [''1'', ''true'', ''yes'', ''on'']"

definition project_env :: "project_settings option \<Rightarrow> string \<Rightarrow> string option" where
  "project_env project key = (case project of None \<Rightarrow> None | Some p \<Rightarrow> ps_value p key)"

definition flag :: "string \<Rightarrow> project_settings option \<Rightarrow> environ \<Rightarrow> bool" where
  "flag key project env =
     (case project_env project key of
        Some v \<Rightarrow> norm_text v \<in> set gate_truthy
      | None \<Rightarrow> norm_text (ddefault [] env key) \<in> set gate_truthy)"

definition is_auto_pr_enabled :: "project_settings option \<Rightarrow> environ \<Rightarrow> bool" where
  "is_auto_pr_enabled project env = flag ''AIFACTORY_AUTO_PR'' project env"

definition is_auto_merge_enabled :: "project_settings option \<Rightarrow> environ \<Rightarrow> bool" where
  "is_auto_merge_enabled project env =
     (case project of
        Some p \<Rightarrow> ps_loaded p \<and> flag ''AIFACTORY_AUTO_MERGE'' project env
      | None \<Rightarrow> flag ''AIFACTORY_AUTO_MERGE'' project env)"

definition is_graphiti_enabled :: "project_settings option \<Rightarrow> environ \<Rightarrow> bool" where
  "is_graphiti_enabled project env = flag ''GRAPHITI_ENABLED'' project env"

definition path_floor_enforced :: "project_settings option \<Rightarrow> environ \<Rightarrow> bool" where
  "path_floor_enforced project env = flag ''AIFACTORY_PATH_RISK_FLOOR_ENFORCE'' project env"

definition resolve_pr_reviewer :: "project_settings option \<Rightarrow> environ \<Rightarrow> string" where
  "resolve_pr_reviewer project env =
     (let val = norm_text (case project_env project ''AIFACTORY_PR_REVIEWER'' of
            Some v \<Rightarrow> v | None \<Rightarrow> ddefault [] env ''AIFACTORY_PR_REVIEWER'')
      in if val \<in> {''aifactory'', ''copilot'', ''any''} then val else ''aifactory'')"

section \<open>The tier of a task\<close>

definition review_tier_of :: "json \<Rightarrow> string option" where
  "review_tier_of meta =
     (case meta of
        JObj d \<Rightarrow> (case get_any ''reviewTier'' d of JStr s \<Rightarrow> if py_strip s = [] then None else Some s | _ \<Rightarrow> None)
      | _ \<Rightarrow> None)"

definition tier_log_label :: "string list" where
  "tier_log_label = [''auto'', ''async'', ''blocking'', ''low'', ''medium'', ''hard'']"

definition describe_tier :: "string option \<Rightarrow> string" where
  "describe_tier tier =
     (case tier of
        None \<Rightarrow> ''none''
      | Some t \<Rightarrow> if norm_text t \<in> set tier_log_label then norm_text t else ''unrecognised'')"

text \<open>The arguments that stay the same: JSON and HMAC, the variables, and what can be imported at run time.\<close>

record gate_env =
  ge_plan :: plan_env
  ge_vars :: environ
  ge_loader :: bool
  ge_policy :: bool

abbreviation gate_codec :: "gate_env \<Rightarrow> codec" where
  "gate_codec g \<equiv> te_codec (ge_plan g)"

definition gate_contract :: "gate_env \<Rightarrow> spec_files \<Rightarrow> looked_up \<Rightarrow> trust_state \<times> obj" where
  "gate_contract g fs trusted = resolve_contract (ge_plan g) (ge_vars g) (ge_loader g) fs trusted"

definition as_mapping :: "json \<Rightarrow> obj option" where
  "as_mapping v = (case v of JObj d \<Rightarrow> Some d | _ \<Rightarrow> None)"

definition record_path_risk_floor :: "codec \<Rightarrow> string option \<Rightarrow> bool \<Rightarrow> spec_files \<Rightarrow> spec_files" where
  "record_path_risk_floor c flr enforced fs =
     (case read_json c (sf_metadata fs) of
        Some (JObj meta) \<Rightarrow>
          let meta' = AList.update ''pathRiskFloor'' (jopt flr) meta
          in fs\<lparr>sf_metadata := Some (cd_text c (JObj (if enforced then AList.update ''reviewTier'' (jopt flr) meta' else meta')))\<rparr>
      | _ \<Rightarrow> fs)"

definition path_risk_floor_closed ::
    "codec \<Rightarrow> bool \<Rightarrow> string option \<Rightarrow> spec_files \<Rightarrow> (string option \<times> string option) \<times> spec_files" where
  "path_risk_floor_closed c enforced tier fs =
     (if \<not> enforced then ((tier, Some ''blocking''), record_path_risk_floor c (Some ''blocking'') False fs)
      else ((Some ''blocking'', Some ''blocking''), record_path_risk_floor c (Some ''blocking'') True fs))"

text \<open>
  The changed files are \<open>None\<close> if reading the diff raised; \<open>risk_table\<close> is whether the table of patterns can be
  imported.
\<close>

definition apply_path_risk_floor ::
    "gate_env \<Rightarrow> bool \<Rightarrow> json option \<Rightarrow> bool \<Rightarrow> looked_up \<Rightarrow> string option \<Rightarrow> spec_files
      \<Rightarrow> (string option \<times> string option) \<times> spec_files" where
  "apply_path_risk_floor g risk_table changed enforced trusted tier fs =
     (if \<not> ge_policy g then path_risk_floor_closed (gate_codec g) enforced tier fs
      else
        let flr = (case changed of None \<Rightarrow> ''auto'' | Some files \<Rightarrow> floor_from_paths risk_table files);
            (state, contract) = gate_contract g fs trusted;
            flr' = (if state = Hold \<or>
                deployment_block_reasons (te_shown (ge_plan g)) (as_mapping (get_any ''deployment'' contract)) JNull \<noteq> []
              then ''blocking'' else flr);
            raised = raise_review_tier tier (Some flr')
        in if raised = tier then ((tier, None), fs)
           else if \<not> enforced then ((tier, raised), record_path_risk_floor (gate_codec g) raised False fs)
           else ((raised, raised), record_path_risk_floor (gate_codec g) raised True fs))"

section \<open>The signals\<close>

definition signal_keys :: "(string \<times> string list) list" where
  "signal_keys = [(''tfactory_verdict'', [''tfactoryVerdict'', ''tfactory_verdict'']),
     (''achieved_val'', [''achievedVal'', ''achieved_val'']), (''val_floor'', [''valFloor'', ''val_floor'']),
     (''ci_parity'', [''ciParity'', ''ci_parity'']), (''host_ci_green'', [''hostCiGreen'', ''host_ci_green''])]"

definition meta_signal :: "obj \<Rightarrow> string \<Rightarrow> json" where
  "meta_signal meta key =
     (case find (\<lambda>name. map_of meta name \<noteq> None) (ddefault [] signal_keys key) of
        None \<Rightarrow> JNull | Some name \<Rightarrow> get_any name meta)"

record gate_signals =
  gs_host_ci_green :: bool
  gs_tfactory_verdict :: json
  gs_achieved_val :: json
  gs_val_floor :: json
  gs_ci_parity :: bool

definition unmeasured :: gate_signals where
  "unmeasured = \<lparr>gs_host_ci_green = False, gs_tfactory_verdict = JNull, gs_achieved_val = JInt 0, gs_val_floor = JNull,
     gs_ci_parity = True\<rparr>"

definition take_fetched :: "obj option \<Rightarrow> gate_signals \<Rightarrow> gate_signals" where
  "take_fetched fetched s =
     (case fetched of
        None \<Rightarrow> s
      | Some f \<Rightarrow> s\<lparr>gs_tfactory_verdict := get_any ''tfactory_verdict'' f,
                   gs_host_ci_green := (get_any ''host_ci_green'' f = JBool True)\<rparr>)"

definition handed_back :: "bool \<Rightarrow> gate_signals \<Rightarrow> gate_signals" where
  "handed_back receipt s = (if receipt then s\<lparr>gs_tfactory_verdict := JStr ''handback''\<rparr> else s)"

text \<open>What the metadata of the task recorded.\<close>

definition recorded_values :: "obj \<Rightarrow> gate_signals \<Rightarrow> gate_signals" where
  "recorded_values meta s =
     (let v = meta_signal meta ''tfactory_verdict''; a = meta_signal meta ''achieved_val''; f = meta_signal meta ''val_floor''
      in s\<lparr>gs_tfactory_verdict := (if v = JNull \<or> verdict_pass v then gs_tfactory_verdict s else v),
           gs_achieved_val := (if a = JNull then gs_achieved_val s else a),
           gs_val_floor := (if f = JNull then gs_val_floor s else f)\<rparr>)"

definition recorded_flags :: "obj \<Rightarrow> gate_signals \<Rightarrow> gate_signals" where
  "recorded_flags meta s =
     s\<lparr>gs_ci_parity := (case meta_signal meta ''ci_parity'' of JBool b \<Rightarrow> b | _ \<Rightarrow> gs_ci_parity s),
       gs_host_ci_green := (case meta_signal meta ''host_ci_green'' of JBool False \<Rightarrow> False | _ \<Rightarrow> gs_host_ci_green s)\<rparr>"

text \<open>\<open>receipt\<close>: whether the receipt of a handback is on file.\<close>

definition merge_gate_signals :: "codec \<Rightarrow> spec_files \<Rightarrow> bool \<Rightarrow> obj option \<Rightarrow> gate_signals" where
  "merge_gate_signals c fs receipt fetched =
     (let s = handed_back receipt (take_fetched fetched unmeasured)
      in case read_json c (sf_metadata fs) of
           Some (JObj meta) \<Rightarrow> handed_back receipt (recorded_flags meta (recorded_values meta s))
         | _ \<Rightarrow> s)"

section \<open>The disposition\<close>

definition contract_unreadable :: "codec \<Rightarrow> spec_files \<Rightarrow> bool" where
  "contract_unreadable c fs = (sf_contract fs \<noteq> None \<and> load_contract c fs = None)"

definition raise_to_signed :: "string option \<Rightarrow> string \<Rightarrow> string \<times> bool" where
  "raise_to_signed tier signed =
     (let effective = (if blank tier then ''low'' else the tier);
          below = (\<not> blank tier \<and> raise_review_tier tier (Some signed) \<noteq> tier);
          raised = raise_review_tier (Some signed) (Some effective)
      in (if describe_tier (Some effective) \<noteq> ''unrecognised'' \<and> truthy_str raised then the raised else effective, below))"

definition signed_tier :: "obj \<Rightarrow> string option" where
  "signed_tier contract =
     (case get_any ''execution'' contract of
        JObj execution \<Rightarrow>
          (case get_any ''review_tier'' execution of
             JStr s \<Rightarrow> if describe_tier (Some s) \<in> {''none'', ''unrecognised''} then None else Some s
           | _ \<Rightarrow> None)
      | _ \<Rightarrow> None)"

definition review_tier_note :: "gate_env \<Rightarrow> spec_files \<Rightarrow> looked_up \<Rightarrow> string option \<Rightarrow> string" where
  "review_tier_note g fs trusted tier =
     (let (state, contract) = gate_contract g fs trusted
      in case (if state = Verified then signed_tier contract else None) of
           Some signed \<Rightarrow>
             let (effective, below) = raise_to_signed tier signed
             in ''Effective review tier: '' @ describe_tier (Some effective) @ '' (signed floor '' @ describe_tier (Some signed) @ '').'' @
                (if below then
                   [CHR 0x0A, CHR 0x0A] @ ''> **Possible tampering:** task metadata reviewTier '' @ describe_tier tier @
                   '' is below the signed tier '' @ describe_tier (Some signed) @ ''; the merge gate decides on '' @
                   describe_tier (Some effective) @ ''.''
                 else [])
         | None \<Rightarrow>
             ''Review tier: '' @ (if blank tier then ''none (decided as low)'' else describe_tier tier) @
             '' (not checked against a signed contract).'')"

text \<open>What is decided before the signals are fetched: a disposition, or the tier and the deployment to decide on.\<close>

definition before_fetch ::
    "gate_env \<Rightarrow> spec_files \<Rightarrow> looked_up \<Rightarrow> string option \<Rightarrow> string option \<Rightarrow> string + string option \<times> obj option" where
  "before_fetch g fs trusted tier flr =
     (if \<not> ge_policy g then Inl HOLD_BLOCKING
      else if \<not> host_isolated (ge_vars g) then Inl HOLD_BLOCKING
      else
        let effective = (if blank tier then Some ''low'' else tier);
            (state, contract) = gate_contract g fs trusted;
            deployment = as_mapping (get_any ''deployment'' contract)
        in case state of
             Hold \<Rightarrow> Inl HOLD_BLOCKING
           | Verified \<Rightarrow>
               (case signed_tier contract of
                  None \<Rightarrow> Inl HOLD_BLOCKING
                | Some signed \<Rightarrow> Inr (Some (fst (raise_to_signed tier signed)), deployment))
           | Legacy \<Rightarrow>
               if contract_unreadable (gate_codec g) fs then Inl HOLD_BLOCKING
               else Inr (if describe_tier effective \<noteq> ''unrecognised'' then raise_review_tier effective flr else effective,
                         deployment))"

definition after_fetch ::
    "gate_env \<Rightarrow> spec_files \<Rightarrow> bool \<Rightarrow> json \<Rightarrow> obj option \<Rightarrow> string option \<times> obj option \<Rightarrow> string" where
  "after_fetch g fs receipt satisfied fetched decided =
     (let s = merge_gate_signals (gate_codec g) fs receipt fetched
      in decide_merge (te_shown (ge_plan g)) (fst decided) (gs_host_ci_green s) (gs_tfactory_verdict s) (gs_achieved_val s)
           (gs_val_floor s) (gs_ci_parity s) (snd decided) satisfied)"

text \<open>\<open>fetch\<close> is the function that supplies the signals, if there is one; it may raise.\<close>

datatype fetched = Fetch_Raises | Fetched obj

definition merge_disposition ::
    "gate_env \<Rightarrow> spec_files \<Rightarrow> bool \<Rightarrow> looked_up \<Rightarrow> string option \<Rightarrow> json \<Rightarrow> fetched option \<Rightarrow> string option \<Rightarrow> string" where
  "merge_disposition g fs receipt trusted tier satisfied fetch flr =
     (case before_fetch g fs trusted tier flr of
        Inl d \<Rightarrow> d
      | Inr decided \<Rightarrow>
          (case fetch of
             None \<Rightarrow> after_fetch g fs receipt satisfied None decided
           | Some Fetch_Raises \<Rightarrow> HOLD_BLOCKING
           | Some (Fetched f) \<Rightarrow> after_fetch g fs receipt satisfied (Some f) decided))"

definition clears_with_human_approval ::
    "gate_env \<Rightarrow> spec_files \<Rightarrow> bool \<Rightarrow> looked_up \<Rightarrow> string option \<Rightarrow> fetched option \<Rightarrow> string option \<Rightarrow> bool" where
  "clears_with_human_approval g fs receipt trusted tier fetch flr \<longleftrightarrow>
     ge_policy g \<and> merge_disposition g fs receipt trusted tier (jstrs human_only_gates) fetch flr = AUTO_MERGE"

end
