(* ===== verification/Pr_Checks.thy ===== *)
theory Pr_Checks
  imports Merge_Gate
begin

text \<open>
  What GitHub and TFactory are asked about a pull request, and the merge itself (\<open>web-server/services/pr_endgame.py\<close>,
  second part; \<open>pfactory/tfactory_client.py\<close>). A command runs in an outside world: the argument \<open>run\<close> gives its
  result, or nothing if it raised (a time-out does), and the world it leaves. Answers are read with \<open>loads\<close>.
\<close>

section \<open>Actions that may raise\<close>

type_synonym ('w, 'a) action = "'w \<Rightarrow> 'a option \<times> 'w"

definition doneA :: "'a \<Rightarrow> ('w, 'a) action" where
  "doneA x w = (Some x, w)"

definition bindA :: "('w, 'a) action \<Rightarrow> ('a \<Rightarrow> ('w, 'b) action) \<Rightarrow> ('w, 'b) action" where
  "bindA m f w = (case m w of (None, w') \<Rightarrow> (None, w') | (Some x, w') \<Rightarrow> f x w')"

text \<open>\<open>try: m  except Exception: x\<close>.\<close>

definition tryA :: "'a \<Rightarrow> ('w, 'a) action \<Rightarrow> ('w, 'a) action" where
  "tryA x m w = (case m w of (None, w') \<Rightarrow> (Some x, w') | r \<Rightarrow> r)"

lemma tryA_not_None [simp]: "fst (tryA x m w) \<noteq> None"
  by (auto simp: tryA_def split: prod.split option.split)

text \<open>Truth values that may raise, with the short circuits of \<open>or\<close>, \<open>and\<close>, \<open>any\<close>.\<close>

definition orO :: "bool option \<Rightarrow> bool option \<Rightarrow> bool option" where
  "orO a b = (case a of Some False \<Rightarrow> b | _ \<Rightarrow> a)"

definition andO :: "bool option \<Rightarrow> bool option \<Rightarrow> bool option" where
  "andO a b = (case a of Some True \<Rightarrow> b | _ \<Rightarrow> a)"

fun anyO :: "('a \<Rightarrow> bool option) \<Rightarrow> 'a list \<Rightarrow> bool option" where
  "anyO p [] = Some False"
| "anyO p (x # xs) = orO (p x) (anyO p xs)"

fun mapO :: "('a \<Rightarrow> 'b option) \<Rightarrow> 'a list \<Rightarrow> 'b list option" where
  "mapO f [] = Some []"
| "mapO f (x # xs) = Option.bind (f x) (\<lambda>y. Option.bind (mapO f xs) (\<lambda>ys. Some (y # ys)))"

lemma orO_iff [simp]:
  "orO a b = Some True \<longleftrightarrow> a = Some True \<or> a = Some False \<and> b = Some True"
  "orO a b = Some False \<longleftrightarrow> a = Some False \<and> b = Some False"
  by (auto simp: orO_def split: option.split bool.split)

lemma andO_iff [simp]:
  "andO a b = Some True \<longleftrightarrow> a = Some True \<and> b = Some True"
  "andO a b = Some False \<longleftrightarrow> a = Some False \<or> a = Some True \<and> b = Some False"
  by (auto simp: andO_def split: option.split bool.split)

lemma anyO_False [simp]: "anyO p xs = Some False \<longleftrightarrow> (\<forall>x \<in> set xs. p x = Some False)"
  by (induction xs) auto

text \<open>\<open>v[k]\<close>, \<open>v[k] == s\<close>, and membership in a set of texts, for which a value must be hashable.\<close>

definition index :: "string \<Rightarrow> json \<Rightarrow> json option" where
  "index k v = (case v of JObj d \<Rightarrow> map_of d k | _ \<Rightarrow> None)"

definition index_is :: "string \<Rightarrow> string \<Rightarrow> json \<Rightarrow> bool option" where
  "index_is k s v = map_option (\<lambda>x. x = JStr s) (index k v)"

definition member :: "string set \<Rightarrow> json \<Rightarrow> bool option" where
  "member S v = (case v of JStr s \<Rightarrow> Some (s \<in> S) | JList _ \<Rightarrow> None | JObj _ \<Rightarrow> None | _ \<Rightarrow> Some False)"

definition index_in :: "string \<Rightarrow> string set \<Rightarrow> json \<Rightarrow> bool option" where
  "index_in k S v = Option.bind (index k v) (member S)"

section \<open>Commands\<close>

record cmd_result =
  cr_rc :: int
  cr_out :: string
  cr_err :: string

definition cmd_ok :: "cmd_result \<Rightarrow> bool" where
  "cmd_ok r \<longleftrightarrow> cr_rc r = 0"

type_synonym 'w runner = "string list \<Rightarrow> string option \<Rightarrow> ('w, cmd_result) action"

text \<open>The lines of an answer that are not blank, each read as JSON.\<close>

definition json_lines :: "(string \<Rightarrow> json option) \<Rightarrow> string \<Rightarrow> json list option" where
  "json_lines loads out = mapO loads (filter (\<lambda>ln. py_strip ln \<noteq> []) (splitlines out))"

definition repo_path :: "string \<Rightarrow> string \<Rightarrow> string" where
  "repo_path owner repo = owner @ ''/'' @ repo"

section \<open>The verdict of a review\<close>

datatype pr_verdict = Approved | Changes_Requested | Pending

record pr_review =
  pv_verdict :: pr_verdict
  pv_copilot_reviewed :: bool
  pv_copilot_approved :: bool
  pv_copilot_changes_requested :: bool
  pv_findings :: json

definition plain_review :: "pr_verdict \<Rightarrow> json \<Rightarrow> pr_review" where
  "plain_review v findings = \<lparr>pv_verdict = v, pv_copilot_reviewed = False, pv_copilot_approved = False,
     pv_copilot_changes_requested = False, pv_findings = findings\<rparr>"

definition blocking_severities :: "string list" where
  "blocking_severities = [''critical'', ''high'', ''blocker'', ''blocking'', ''error'']"

definition approve_words :: "string list" where
  "approve_words = [''approve'', ''approved'', ''ready_to_merge'']"

definition change_words :: "string list" where
  "change_words = [''request_changes'', ''changes_requested'', ''reject'', ''rejected'', ''merge_with_changes'',
     ''needs_revision'', ''blocked'', ''do_not_merge'']"

definition verdict_from_review_result :: "(json \<Rightarrow> string) \<Rightarrow> json \<Rightarrow> pr_review" where
  "verdict_from_review_result show result =
     (case result of
        JObj (kv # kvs) \<Rightarrow>
          let data = (case get_any ''data'' (kv # kvs) of JObj d \<Rightarrow> d | _ \<Rightarrow> kv # kvs);
              chosen = (if truthy (get_any ''verdict'' data) then get_any ''verdict'' data
                        else if truthy (get_any ''recommendation'' data) then get_any ''recommendation'' data else JStr []);
              raw = py_lower (py_str show chosen)
          in (case get_any ''blockers'' data of
                JList (b # bs) \<Rightarrow> plain_review Changes_Requested (JList (b # bs))
              | _ \<Rightarrow>
                  if raw \<in> set approve_words then plain_review Approved (JList [])
                  else if raw \<in> set change_words then plain_review Changes_Requested (or_empty (get_any ''findings'' data))
                  else (case get_any ''findings'' data of
                          JList fs \<Rightarrow>
                            let blocking = filter (\<lambda>f. case f of
                                  JObj d \<Rightarrow> py_lower (py_str show (get_or ''severity'' (JStr []) d)) \<in> set blocking_severities
                                | _ \<Rightarrow> False) fs
                            in if blocking \<noteq> [] then plain_review Changes_Requested (JList blocking)
                               else plain_review Approved (JList [])
                        | _ \<Rightarrow> plain_review Pending (JList [])))
      | _ \<Rightarrow> plain_review Pending (JList []))"

definition is_copilot :: "json \<Rightarrow> bool option" where
  "is_copilot login = (case login of
     JStr s \<Rightarrow> Some (py_in ''copilot'' (py_lower s)) | _ \<Rightarrow> if truthy login then None else Some (py_in ''copilot'' []))"

definition state_upper :: "(json \<Rightarrow> string) \<Rightarrow> obj \<Rightarrow> string" where
  "state_upper show d = py_upper (py_str show (get_or ''state'' (JStr []) d))"

text \<open>The reviews that GitHub lists.\<close>

definition reviews_verdict :: "(json \<Rightarrow> string) \<Rightarrow> json \<Rightarrow> pr_review option" where
  "reviews_verdict show reviews =
     (case (case reviews of JList xs \<Rightarrow> Some (objects xs) | JStr _ \<Rightarrow> Some [] | JObj _ \<Rightarrow> Some [] | _ \<Rightarrow> None) of
        None \<Rightarrow> None
      | Some rows \<Rightarrow>
          (case mapO (\<lambda>d. is_copilot (get_or ''login'' (JStr []) d)) rows of
             None \<Rightarrow> None
           | Some by_copilot \<Rightarrow>
               let states = map (state_upper show) rows;
                   copilot_states = map (state_upper show \<circ> fst) (filter snd (zip rows by_copilot))
               in Some \<lparr>pv_verdict = (if ''CHANGES_REQUESTED'' \<in> set states then Changes_Requested
                                     else if ''APPROVED'' \<in> set states then Approved else Pending),
                        pv_copilot_reviewed = (copilot_states \<noteq> []),
                        pv_copilot_approved = (''APPROVED'' \<in> set copilot_states),
                        pv_copilot_changes_requested = (''CHANGES_REQUESTED'' \<in> set copilot_states),
                        pv_findings = JList []\<rparr>))"

definition read_review_verdict ::
    "(string \<Rightarrow> json option) \<Rightarrow> (json \<Rightarrow> string) \<Rightarrow> 'w runner \<Rightarrow> string \<Rightarrow> string \<Rightarrow> nat \<Rightarrow> ('w, pr_review) action" where
  "read_review_verdict loads show run owner repo pr =
     bindA (run [''gh'', ''api'', ''/repos/'' @ repo_path owner repo @ ''/pulls/'' @ digits_of_nat pr @ ''/reviews'',
                 ''--jq'', ''[.[] | {state, login: .user.login}]''] None) (\<lambda>res.
       if \<not> cmd_ok res then doneA (plain_review Pending (JList []))
       else (case loads (if cr_out res = [] then ''[]'' else cr_out res) of
               None \<Rightarrow> doneA (plain_review Pending (JList []))
             | Some reviews \<Rightarrow> (\<lambda>w. (reviews_verdict show reviews, w))))"

section \<open>A human approval\<close>

definition decisive_states :: "string set" where
  "decisive_states = {''APPROVED'', ''CHANGES_REQUESTED'', ''DISMISSED''}"

text \<open>The latest decisive review of each reviewer, oldest first; reading a row may raise.\<close>

fun latest_reviews :: "json list \<Rightarrow> (json \<times> obj) list \<Rightarrow> (json \<times> obj) list option" where
  "latest_reviews [] latest = Some latest"
| "latest_reviews (row # rows) latest =
     (case row of
        JObj d \<Rightarrow>
          Option.bind (index_in ''state'' decisive_states row) (\<lambda>decisive.
            if \<not> decisive then latest_reviews rows latest
            else Option.bind (index ''login'' row) (\<lambda>login.
                 Option.bind (hash_key login) (\<lambda>k. latest_reviews rows (AList.update k d latest))))
      | _ \<Rightarrow> None)"

definition approval_by :: "json \<Rightarrow> json \<Rightarrow> json \<times> obj \<Rightarrow> bool" where
  "approval_by author head rv =
     (case rv of (login, row) \<Rightarrow>
        (case login of JStr s \<Rightarrow> s \<noteq> [] | _ \<Rightarrow> False) \<and> login \<noteq> author \<and> get_any ''type'' row = JStr ''User'' \<and>
        get_any ''state'' row = JStr ''APPROVED'' \<and> get_any ''commit_id'' row = head)"

definition approved_head :: "(json \<Rightarrow> string) \<Rightarrow> json \<Rightarrow> json list \<Rightarrow> string option" where
  "approved_head show info rows =
     Option.bind (index ''head'' info) (\<lambda>head. Option.bind (index ''author'' info) (\<lambda>author.
       if \<not> (truthy head \<and> (case author of JStr s \<Rightarrow> s \<noteq> [] | _ \<Rightarrow> False)) then None
       else Option.bind (latest_reviews rows []) (\<lambda>latest.
         if list_ex (\<lambda>(login, row). login \<noteq> author \<and> get_any ''state'' row = JStr ''CHANGES_REQUESTED'') latest then None
         else if list_ex (approval_by author head) latest then Some (py_str show head) else None)))"

definition human_approval_head ::
    "(string \<Rightarrow> json option) \<Rightarrow> (json \<Rightarrow> string) \<Rightarrow> 'w runner \<Rightarrow> string \<Rightarrow> string \<Rightarrow> nat \<Rightarrow> ('w, string option) action" where
  "human_approval_head loads show run owner repo pr =
     (let base = ''/repos/'' @ repo_path owner repo @ ''/pulls/'' @ digits_of_nat pr
      in tryA None
        (bindA (run [''gh'', ''api'', base, ''--jq'', ''{head: .head.sha, author: .user.login}''] None) (\<lambda>pr_res.
         bindA (run [''gh'', ''api'', ''--paginate'', base @ ''/reviews'', ''--jq'',
                     ''.[] | {state, login: .user.login, type: .user.type, commit_id}''] None) (\<lambda>rv_res.
           doneA (if \<not> (cmd_ok pr_res \<and> cmd_ok rv_res) then None
             else Option.bind (loads (cr_out pr_res)) (\<lambda>info.
                  Option.bind (json_lines loads (cr_out rv_res)) (\<lambda>rows. approved_head show info rows)))))))"

definition pr_head :: "'w runner \<Rightarrow> string \<Rightarrow> string \<Rightarrow> nat \<Rightarrow> ('w, string option) action" where
  "pr_head run owner repo pr =
     tryA None (bindA (run [''gh'', ''api'', ''/repos/'' @ repo_path owner repo @ ''/pulls/'' @ digits_of_nat pr,
                            ''--jq'', ''.head.sha''] None) (\<lambda>res.
       doneA (if cmd_ok res \<and> py_strip (cr_out res) \<noteq> [] then Some (py_strip (cr_out res)) else None)))"


section \<open>Checks\<close>

definition green_conclusions :: "string set" where
  "green_conclusions = {''success'', ''neutral'', ''skipped''}"

text \<open>\<open>n > 0\<close>.\<close>

definition json_pos :: "json \<Rightarrow> bool option" where
  "json_pos v = (case v of JInt i \<Rightarrow> Some (i > 0) | JBool b \<Rightarrow> Some b | JFloat q \<Rightarrow> Some (q > 0) | _ \<Rightarrow> None)"

text \<open>A check that has completed with a conclusion that is not green, and one that is under way.\<close>

definition run_failed :: "json \<Rightarrow> bool option" where
  "run_failed r = andO (index_is ''status'' ''completed'' r) (map_option Not (index_in ''conclusion'' green_conclusions r))"

definition run_open :: "json \<Rightarrow> bool option" where
  "run_open r = map_option Not (index_is ''status'' ''completed'' r)"

definition suite_open :: "json \<Rightarrow> bool option" where
  "suite_open x = andO (Option.bind (index ''n'' x) json_pos) (run_open x)"

text \<open>Green, red, or unknown.\<close>

definition ci_state :: "json list \<Rightarrow> json list \<Rightarrow> json \<Rightarrow> bool option" where
  "ci_state runs suites status =
     Option.bind (index ''state'' status) (\<lambda>state.
     Option.bind (Option.bind (index ''total_count'' status) (\<lambda>n. case py_int n of Inr i \<Rightarrow> Some i | Inl _ \<Rightarrow> None)) (\<lambda>total.
     Option.bind (orO (Some (state \<in> {JStr ''failure'', JStr ''error''})) (anyO run_failed runs)) (\<lambda>red.
       if red then Some False
       else Option.bind (orO (anyO run_open runs) (orO (anyO suite_open suites)
                (Some (total > 0 \<and> state \<noteq> JStr ''success'' \<or> runs = [] \<and> total = 0)))) (\<lambda>pending.
            if pending then None else Some True))))"

definition host_ci_green ::
    "(string \<Rightarrow> json option) \<Rightarrow> 'w runner \<Rightarrow> string \<Rightarrow> string \<Rightarrow> string \<Rightarrow> ('w, bool option) action" where
  "host_ci_green loads run owner repo sha =
     (let base = ''repos/'' @ repo_path owner repo @ ''/commits/'' @ sha
      in tryA None
        (bindA (run [''gh'', ''api'', ''--paginate'', base @ ''/check-runs'', ''--jq'', ''.check_runs[] | {status, conclusion}''] None) (\<lambda>runs_res.
         bindA (run [''gh'', ''api'', base @ ''/status'', ''--jq'', ''{state, total_count}''] None) (\<lambda>st_res.
         bindA (run [''gh'', ''api'', ''--paginate'', base @ ''/check-suites'', ''--jq'',
                     ''.check_suites[] | {status, n: .latest_check_runs_count}''] None) (\<lambda>suites_res.
           doneA (if \<not> (cmd_ok runs_res \<and> cmd_ok st_res \<and> cmd_ok suites_res) then None
             else Option.bind (json_lines loads (cr_out runs_res)) (\<lambda>runs.
                  Option.bind (json_lines loads (cr_out suites_res)) (\<lambda>suites.
                  Option.bind (loads (cr_out st_res)) (\<lambda>status. ci_state runs suites status)))))))))"

fun texts_of :: "json list \<Rightarrow> string list" where
  "texts_of [] = []"
| "texts_of (JStr s # js) = s # texts_of js"
| "texts_of (_ # js) = texts_of js"

text \<open>The contexts that protection demands: those of the branch and those of its rules.\<close>

definition required_contexts :: "json \<Rightarrow> string list \<Rightarrow> string set option" where
  "required_contexts protection ruleset =
     (case protection of
        JObj p \<Rightarrow>
          Option.bind (case get_any ''required_status_checks'' p of
              JObj rsc \<Rightarrow> (case py_list (or_empty (get_any ''contexts'' rsc)) of Inr xs \<Rightarrow> Some xs | Inl _ \<Rightarrow> None)
            | _ \<Rightarrow> Some []) (\<lambda>classic.
          Some (set (filter (\<lambda>c. c \<noteq> []) (texts_of classic @ ruleset))))
      | _ \<Rightarrow> None)"

text \<open>The members of a set display; each must be hashable.\<close>

definition green_contexts :: "json list \<Rightarrow> json list \<Rightarrow> string set option" where
  "green_contexts runs statuses =
     Option.bind (mapO (\<lambda>r. andO (index_is ''status'' ''completed'' r) (index_in ''conclusion'' green_conclusions r)) runs) (\<lambda>done_runs.
     Option.bind (mapO (\<lambda>r. Option.bind (index ''name'' r) (\<lambda>n. map_option (\<lambda>_. n) (hash_key n))) (map fst (filter snd (zip runs done_runs)))) (\<lambda>names.
     Option.bind (mapO (index_is ''state'' ''success'') statuses) (\<lambda>ok.
     Option.bind (mapO (\<lambda>s. Option.bind (index ''context'' s) (\<lambda>n. map_option (\<lambda>_. n) (hash_key n))) (map fst (filter snd (zip statuses ok)))) (\<lambda>contexts.
       Some (set (texts_of (names @ contexts)))))))"

definition checks_state :: "string set \<Rightarrow> json list \<Rightarrow> json list \<Rightarrow> bool option" where
  "checks_state required runs statuses =
     Option.bind (orO
         (anyO (\<lambda>r. andO (index_in ''name'' required r) (run_failed r)) runs)
         (anyO (\<lambda>s. andO (index_in ''context'' required s) (map_option (\<lambda>v. v \<in> {JStr ''failure'', JStr ''error''}) (index ''state'' s))) statuses))
       (\<lambda>red.
       if red then Some False
       else Option.bind (green_contexts runs statuses) (\<lambda>green.
            Option.bind (orO (Some (\<not> required \<subseteq> green))
              (orO (anyO (\<lambda>r. andO (index_in ''name'' required r) (run_open r)) runs)
                   (anyO (\<lambda>s. andO (index_in ''context'' required s) (map_option Not (index_is ''state'' ''success'' s))) statuses)))
              (\<lambda>pending. if pending then None else Some True)))"

definition required_checks_green ::
    "(string \<Rightarrow> json option) \<Rightarrow> 'w runner \<Rightarrow> string \<Rightarrow> string \<Rightarrow> string \<Rightarrow> string \<Rightarrow> ('w, bool option) action" where
  "required_checks_green loads run owner repo base sha =
     (let slug = ''repos/'' @ repo_path owner repo
      in tryA None
        (bindA (run [''gh'', ''api'', slug @ ''/branches/'' @ base, ''--jq'', ''.protection''] None) (\<lambda>br_res.
         bindA (run [''gh'', ''api'', ''--paginate'', slug @ ''/rules/branches/'' @ base, ''--jq'',
                     ''.[] | select(.type == '' @ [CHR 0x22] @ ''required_status_checks'' @ [CHR 0x22] @
                     '') | .parameters.required_status_checks[].context''] None) (\<lambda>rules_res.
           case (if cmd_ok br_res \<and> cmd_ok rules_res then loads (cr_out br_res) else None) of
             Some (JObj p) \<Rightarrow>
               (case required_contexts (JObj p) (filter (\<lambda>ln. ln \<noteq> []) (map py_strip (splitlines (cr_out rules_res)))) of
                  None \<Rightarrow> doneA None
                | Some required \<Rightarrow>
                    if required = {} then doneA (Some True)
                    else bindA (run [''gh'', ''api'', ''--paginate'', slug @ ''/commits/'' @ sha @ ''/check-runs'', ''--jq'',
                                     ''.check_runs[] | {name, status, conclusion}''] None) (\<lambda>runs_res.
                         bindA (run [''gh'', ''api'', slug @ ''/commits/'' @ sha @ ''/status'', ''--jq'',
                                     ''.statuses[] | {context, state}''] None) (\<lambda>st_res.
                           doneA (if \<not> (cmd_ok runs_res \<and> cmd_ok st_res) then None
                             else Option.bind (json_lines loads (cr_out runs_res)) (\<lambda>runs.
                                  Option.bind (json_lines loads (cr_out st_res)) (\<lambda>statuses.
                                    checks_state required runs statuses))))))
           | _ \<Rightarrow> doneA None))))"

section \<open>The verdict of TFactory\<close>

text \<open>
  What the second answer says: nothing unless every entry is a known verdict. \<open>task_matches\<close> is the test of the first
  answer, that TFactory triaged this very commit of this project.
\<close>

definition verdict_kinds :: "json \<Rightarrow> json list option" where
  "verdict_kinds doc =
     (case doc of
        JObj d \<Rightarrow> (case get_any ''verdicts'' d of
                    JList es \<Rightarrow> Some (map (\<lambda>e. case e of JObj v \<Rightarrow> get_any ''verdict'' v | _ \<Rightarrow> JNull) es)
                  | _ \<Rightarrow> None)
      | _ \<Rightarrow> None)"

definition verdict_of_kinds :: "json list \<Rightarrow> string option" where
  "verdict_of_kinds kinds =
     (if kinds = [] \<or> list_ex (\<lambda>k. k \<notin> {JStr ''accept'', JStr ''flag'', JStr ''reject''}) kinds then None
      else if JStr ''reject'' \<in> set kinds then Some ''fail'' else Some ''pass'')"

definition task_matches :: "string \<Rightarrow> string \<Rightarrow> json \<Rightarrow> bool" where
  "task_matches project_id head task =
     (case task of
        JObj t \<Rightarrow>
          get_any ''project_id'' t = JStr project_id \<and> head \<noteq> [] \<and> get_any ''source_sha'' t = JStr head \<and>
          (case get_any ''status_json'' t of JObj s \<Rightarrow> get_any ''status'' s = JStr ''triaged'' | _ \<Rightarrow> False)
      | _ \<Rightarrow> False)"

text \<open>\<open>get\<close> is a request: status code and body, or nothing if it raised. \<open>url_id\<close> is the id in a URL.\<close>

type_synonym 'w getter = "string \<Rightarrow> ('w, int \<times> json) action"

definition tfactory_verdict ::
    "'w getter \<Rightarrow> string \<Rightarrow> string \<Rightarrow> string \<Rightarrow> string \<Rightarrow> ('w, string option) action" where
  "tfactory_verdict get base_url project_id url_id head =
     (if base_url = [] \<or> project_id = [] then doneA None
      else let base = base_url @ ''/api/tfactory/tasks/'' @ url_id
           in tryA None
             (bindA (get base) (\<lambda>(code, task).
                if \<not> (200 \<le> code \<and> code < 300 \<and> task_matches project_id head task) then doneA None
                else bindA (get (base @ ''/verdicts.json'')) (\<lambda>(code, doc).
                  doneA (if \<not> (200 \<le> code \<and> code < 300) then None
                    else Option.bind (verdict_kinds doc) verdict_of_kinds)))))"

section \<open>The merge\<close>

definition unclean_words :: "string list" where
  "unclean_words = [''not mergeable'', ''cannot be cleanly'', ''conflict'', ''behind'']"

definition merge_flag :: "string \<Rightarrow> string" where
  "merge_flag how = ddefault ''--squash'' [(''squash'', ''--squash''), (''rebase'', ''--rebase''), (''merge'', ''--merge'')] how"

definition merge_command :: "string \<Rightarrow> string \<Rightarrow> nat \<Rightarrow> string \<Rightarrow> string option \<Rightarrow> string option \<Rightarrow> string list" where
  "merge_command owner repo pr how match_head body =
     [''gh'', ''pr'', ''merge'', digits_of_nat pr, merge_flag how, ''--repo'', repo_path owner repo] @
     (case keep_str match_head of None \<Rightarrow> [] | Some h \<Rightarrow> [''--match-head-commit'', h]) @
     (case keep_str body of None \<Rightarrow> [] | Some b \<Rightarrow> [''--body'', b])"

definition merge_pr ::
    "'w runner \<Rightarrow> string \<Rightarrow> string \<Rightarrow> nat \<Rightarrow> string \<Rightarrow> string option \<Rightarrow> string option \<Rightarrow> ('w, bool) action" where
  "merge_pr run owner repo pr how match_head body =
     bindA (run (merge_command owner repo pr how match_head body) None) (\<lambda>res.
       if cmd_ok res then doneA True
       else if list_ex (\<lambda>s. py_in s (py_lower (cr_err res @ '' '' @ cr_out res))) unclean_words then
         if truthy_str match_head then doneA False
         else bindA (run [''gh'', ''pr'', ''update-branch'', digits_of_nat pr, ''--repo'', repo_path owner repo] None) (\<lambda>upd.
                if cmd_ok upd
                then bindA (run (merge_command owner repo pr how match_head body) None) (\<lambda>res2. doneA (cmd_ok res2))
                else doneA False)
       else doneA False)"

end
