(* ===== verification/Pr_Endgame.thy ===== *)
theory Pr_Endgame
  imports Pr_Checks
begin

text \<open>
  The end of a task (\<open>web-server/services/pr_endgame.py\<close>, last part; \<open>web-server/services/handback_receipt_store.py\<close>): a
  pull request is opened, its reviews are polled, and it is merged when the gate is green for its head. The outside
  world is arbitrary: commands, requests, the files of the task, the table of receipts, the clock. The repair of
  conflicts and the push run git in a worktree and are arguments, as are the fixer, the review engine and the text
  of the evidence that is written into the pull request. A result leaves out the counters it repeats.
\<close>

section \<open>Receipts of a handback\<close>

text \<open>The table holds the keys of the specs; \<open>None\<close> if it cannot be reached.\<close>

definition record_handback :: "environ \<Rightarrow> string \<Rightarrow> string list option \<Rightarrow> string list option" where
  "record_handback env key table =
     (if \<not> store_enabled env then table else map_option (\<lambda>keys. if key \<in> set keys then keys else keys @ [key]) table)"

definition on_record :: "environ \<Rightarrow> string \<Rightarrow> string list option \<Rightarrow> bool" where
  "on_record env key table =
     (if \<not> store_enabled env then False else case table of None \<Rightarrow> True | Some keys \<Rightarrow> key \<in> set keys)"

section \<open>The watch\<close>

record 'w outside =
  ow_run :: "'w runner"
  ow_get :: "'w getter"
  ow_files :: "'w \<Rightarrow> spec_files"
  ow_receipt :: "'w \<Rightarrow> bool"
  ow_receipts :: "'w \<Rightarrow> string list option"
  ow_clock :: "'w \<Rightarrow> rat"
  ow_sleep :: "int \<Rightarrow> 'w \<Rightarrow> 'w"
  ow_loads :: "string \<Rightarrow> json option"
  ow_shown :: "json \<Rightarrow> string"

record 'w watch_cfg =
  wt_owner :: string
  wt_repo :: string
  wt_pr :: nat
  wt_auto_merge :: bool
  wt_require_copilot :: bool
  wt_review :: "('w, pr_review) action option"
  wt_fix :: "(json \<Rightarrow> ('w, bool) action) option"
  wt_max_fix :: nat
  wt_resolve :: "('w, bool) action option"
  wt_push :: "('w, bool) action"
  wt_max_conflict :: nat
  wt_merged_hook :: "'w \<Rightarrow> 'w"
  wt_poll_interval :: int
  wt_max_minutes :: int
  wt_human :: bool
  wt_gate :: "(string \<Rightarrow> ('w, bool) action) option"
  wt_body :: "string option"

record watch_result =
  wr_verdict :: string
  wr_merged :: bool
  wr_reason :: "string option"

datatype watch_outcome = Watch_Raised | Watch_Done watch_result

text \<open>
  What a merge was tried on: the review, the head it is bound to, and the worlds in which a human approval and the
  gate were asked for. The list of attempts is a record for the proofs; nothing reads it.
\<close>

record 'w attempt_made =
  at_review :: pr_review
  at_head :: "string option"
  at_human_world :: 'w
  at_gate_world :: 'w

record 'w watch_state =
  ws_fix_cycles :: nat
  ws_conflict_cycles :: nat
  ws_gate_held :: bool
  ws_attempts :: "'w attempt_made list"

definition ended :: "string \<Rightarrow> bool \<Rightarrow> string option \<Rightarrow> watch_outcome option" where
  "ended verdict merged reason = Some (Watch_Done \<lparr>wr_verdict = verdict, wr_merged = merged, wr_reason = reason\<rparr>)"

definition needs_copilot :: "'w watch_cfg \<Rightarrow> bool" where
  "needs_copilot k \<longleftrightarrow> wt_require_copilot k \<and> wt_review k = None"

definition approves :: "'w watch_cfg \<Rightarrow> pr_review \<Rightarrow> bool" where
  "approves k rs = (if needs_copilot k then pv_copilot_approved rs else pv_verdict rs = Approved)"

definition review_now :: "'w outside \<Rightarrow> 'w watch_cfg \<Rightarrow> ('w, pr_review) action" where
  "review_now ow k =
     (case wt_review k of
        Some f \<Rightarrow> f
      | None \<Rightarrow> read_review_verdict (ow_loads ow) (ow_shown ow) (ow_run ow) (wt_owner k) (wt_repo k) (wt_pr k))"

definition watch_changes ::
    "'w watch_cfg \<Rightarrow> pr_review \<Rightarrow> 'w watch_state \<Rightarrow> 'w \<Rightarrow> watch_outcome option \<times> 'w watch_state \<times> 'w" where
  "watch_changes k rs st w =
     (case (if ws_fix_cycles st < wt_max_fix k then wt_fix k else None) of
        Some fix_fn \<Rightarrow>
          let st1 = st\<lparr>ws_fix_cycles := ws_fix_cycles st + 1\<rparr>
          in (case fix_fn (pv_findings rs) w of
                (None, w') \<Rightarrow> (Some Watch_Raised, st1, w')
              | (Some True, w') \<Rightarrow> (None, st1, w')
              | (Some False, w') \<Rightarrow> (ended ''changes_requested'' False (Some ''fix_failed''), st1, w'))
      | None \<Rightarrow>
          (ended ''changes_requested'' False
             (Some (if ws_fix_cycles st = 0 then ''changes_requested'' else ''needs_human_after_fixes'')), st, w))"

text \<open>The head to merge.\<close>

datatype head_choice = Head_Raised | Head_Wait | Head_Stop | Head_Take "string option"

definition gated_head ::
    "'w outside \<Rightarrow> 'w watch_cfg \<Rightarrow> (string \<Rightarrow> ('w, bool) action) \<Rightarrow> string option \<Rightarrow> 'w \<Rightarrow> head_choice \<times> 'w \<times> 'w" where
  "gated_head ow k gate match_head w =
     (case (if truthy_str match_head then (Some match_head, w) else pr_head (ow_run ow) (wt_owner k) (wt_repo k) (wt_pr k) w) of
        (Some (Some head), w1) \<Rightarrow>
          (case gate head w1 of
             (None, w2) \<Rightarrow> (Head_Raised, w1, w2)
           | (Some True, w2) \<Rightarrow> (Head_Take (Some head), w1, w2)
           | (Some False, w2) \<Rightarrow> (Head_Wait, w1, w2))
      | (_, w1) \<Rightarrow> (Head_Wait, w1, w1))"

definition try_merge ::
    "'w outside \<Rightarrow> 'w watch_cfg \<Rightarrow> string option \<Rightarrow> 'w watch_state \<Rightarrow> 'w \<Rightarrow> watch_outcome option \<times> 'w watch_state \<times> 'w" where
  "try_merge ow k match_head st w =
     (case merge_pr (ow_run ow) (wt_owner k) (wt_repo k) (wt_pr k) ''squash'' match_head (wt_body k) w of
        (None, w1) \<Rightarrow> (Some Watch_Raised, st, w1)
      | (Some merged, w1) \<Rightarrow>
          (case (if \<not> merged \<and> ws_conflict_cycles st < wt_max_conflict k then wt_resolve k else None) of
             Some resolve \<Rightarrow>
               let st1 = st\<lparr>ws_conflict_cycles := ws_conflict_cycles st + 1\<rparr>;
                   failed = ended ''approved'' False (Some ''merge_conflict_unresolved'')
               in (case resolve w1 of
                     (None, w2) \<Rightarrow> (Some Watch_Raised, st1, w2)
                   | (Some False, w2) \<Rightarrow> (failed, st1, w2)
                   | (Some True, w2) \<Rightarrow>
                       (case wt_push k w2 of
                          (None, w3) \<Rightarrow> (Some Watch_Raised, st1, w3)
                        | (Some True, w3) \<Rightarrow> (None, st1, w3)
                        | (Some False, w3) \<Rightarrow> (failed, st1, w3)))
           | None \<Rightarrow>
               (ended ''approved'' merged (if merged then None else Some ''merge_failed''), st,
                if merged then wt_merged_hook k w1 else w1)))"

definition attempted :: "pr_review \<Rightarrow> string option \<Rightarrow> 'w \<Rightarrow> 'w \<Rightarrow> 'w watch_state \<Rightarrow> 'w watch_state" where
  "attempted rs match_head wh wg st =
     st\<lparr>ws_attempts := ws_attempts st @ [\<lparr>at_review = rs, at_head = match_head, at_human_world = wh, at_gate_world = wg\<rparr>]\<rparr>"

definition watch_gate ::
    "'w outside \<Rightarrow> 'w watch_cfg \<Rightarrow> pr_review \<Rightarrow> string option \<Rightarrow> 'w \<Rightarrow> 'w watch_state \<Rightarrow> 'w
      \<Rightarrow> watch_outcome option \<times> 'w watch_state \<times> 'w" where
  "watch_gate ow k rs match_head wh st w =
     (case wt_gate k of
        None \<Rightarrow> try_merge ow k match_head (attempted rs match_head wh w st) w
      | Some gate \<Rightarrow>
          if ws_fix_cycles st \<noteq> 0 \<or> ws_conflict_cycles st \<noteq> 0
          then (ended ''approved'' False (Some ''merge_gate_unverified_head''), st, w)
          else (case gated_head ow k gate match_head w of
                  (Head_Take head, wg, w1) \<Rightarrow> try_merge ow k head (attempted rs head wh wg st) w1
                | (Head_Raised, wg, w1) \<Rightarrow> (Some Watch_Raised, st, w1)
                | (_, wg, w1) \<Rightarrow> (None, st\<lparr>ws_gate_held := True\<rparr>, w1)))"

definition watch_approved ::
    "'w outside \<Rightarrow> 'w watch_cfg \<Rightarrow> pr_review \<Rightarrow> 'w watch_state \<Rightarrow> 'w \<Rightarrow> watch_outcome option \<times> 'w watch_state \<times> 'w" where
  "watch_approved ow k rs st w =
     (if \<not> wt_auto_merge k then (ended ''approved'' False (Some ''auto_merge_disabled''), st, w)
      else if wt_human k then
        (case human_approval_head (ow_loads ow) (ow_shown ow) (ow_run ow) (wt_owner k) (wt_repo k) (wt_pr k) w of
           (Some (Some head), w1) \<Rightarrow> watch_gate ow k rs (Some head) w st w1
         | (_, w1) \<Rightarrow> (None, st, w1))
      else watch_gate ow k rs None w st w)"

definition watch_poll ::
    "'w outside \<Rightarrow> 'w watch_cfg \<Rightarrow> 'w watch_state \<Rightarrow> 'w \<Rightarrow> watch_outcome option \<times> 'w watch_state \<times> 'w" where
  "watch_poll ow k st w =
     (case review_now ow k w of
        (None, w1) \<Rightarrow> (Some Watch_Raised, st, w1)
      | (Some rs, w1) \<Rightarrow>
          if pv_verdict rs = Changes_Requested then watch_changes k rs st w1
          else if approves k rs then watch_approved ow k rs st w1
          else (None, st, w1))"

definition timed_out :: "'w watch_cfg \<Rightarrow> 'w watch_state \<Rightarrow> watch_outcome" where
  "timed_out k st = Watch_Done \<lparr>wr_verdict = ''pending'', wr_merged = False,
     wr_reason = Some (if ws_gate_held st then ''merge_gate_timeout''
       else if needs_copilot k then ''review_timeout (no Copilot approval)'' else ''review_timeout'')\<rparr>"

fun watch_loop ::
    "'w outside \<Rightarrow> 'w watch_cfg \<Rightarrow> rat \<Rightarrow> nat \<Rightarrow> 'w watch_state \<Rightarrow> 'w \<Rightarrow> watch_outcome \<times> 'w watch_state \<times> 'w" where
  "watch_loop ow k deadline 0 st w = (timed_out k st, st, w)"
| "watch_loop ow k deadline (Suc polls) st w =
     (if ow_clock ow w \<ge> deadline then (timed_out k st, st, w)
      else (case watch_poll ow k st (ow_sleep ow (wt_poll_interval k) w) of
              (Some oc, st', w') \<Rightarrow> (oc, st', w')
            | (None, st', w') \<Rightarrow> watch_loop ow k deadline polls st' w'))"

definition watch_start :: "'w watch_state" where
  "watch_start = \<lparr>ws_fix_cycles = 0, ws_conflict_cycles = 0, ws_gate_held = False, ws_attempts = []\<rparr>"

definition watch_and_finish :: "'w outside \<Rightarrow> 'w watch_cfg \<Rightarrow> 'w \<Rightarrow> watch_outcome \<times> 'w watch_state \<times> 'w" where
  "watch_and_finish ow k w =
     watch_loop ow k (ow_clock ow w + of_int (wt_max_minutes k * 60))
       (nat (max 1 (wt_max_minutes k * 60 div max 1 (wt_poll_interval k)))) watch_start w"


section \<open>The gate at merge time\<close>

record 'w endgame =
  eg_gate :: gate_env
  eg_owner :: string
  eg_repo :: string
  eg_base :: string
  eg_key :: string
  eg_trusted :: looked_up
  eg_tier :: "string option"
  eg_floor :: "string option"
  eg_tfactory_url :: string
  eg_project_id :: string
  eg_url_id :: string
  eg_evidence :: "obj \<Rightarrow> string \<Rightarrow> bool \<Rightarrow> 'w \<Rightarrow> 'w"

text \<open>The signals for exactly one commit.\<close>

definition gate_ci :: "'w outside \<Rightarrow> 'w endgame \<Rightarrow> string \<Rightarrow> ('w, bool option) action" where
  "gate_ci ow eg head =
     bindA (host_ci_green (ow_loads ow) (ow_run ow) (eg_owner eg) (eg_repo eg) head) (\<lambda>ci.
       if ci = Some True
       then required_checks_green (ow_loads ow) (ow_run ow) (eg_owner eg) (eg_repo eg) (eg_base eg) head
       else doneA ci)"

definition gate_fetch :: "'w outside \<Rightarrow> 'w endgame \<Rightarrow> string \<Rightarrow> ('w, obj) action" where
  "gate_fetch ow eg head =
     bindA (tfactory_verdict (ow_get ow) (eg_tfactory_url eg) (eg_project_id eg) (eg_url_id eg) head) (\<lambda>verdict.
     bindA (gate_ci ow eg head) (\<lambda>ci.
       doneA [(''tfactory_verdict'', jopt verdict),
              (''host_ci_green'', case ci of None \<Rightarrow> JNull | Some b \<Rightarrow> JBool b)]))"

definition gate_satisfied :: "bool \<Rightarrow> json" where
  "gate_satisfied human = jstrs (if human then human_only_gates else [])"

definition merge_gate :: "'w outside \<Rightarrow> 'w endgame \<Rightarrow> bool \<Rightarrow> string \<Rightarrow> ('w, bool) action" where
  "merge_gate ow eg human head w =
     (case before_fetch (eg_gate eg) (ow_files ow w) (eg_trusted eg) (eg_tier eg) (eg_floor eg) of
        Inl _ \<Rightarrow> (Some False, w)
      | Inr decided \<Rightarrow>
          (case gate_fetch ow eg head w of
             (None, w1) \<Rightarrow> (Some False, w1)
           | (Some f, w1) \<Rightarrow>
               let ok = (after_fetch (eg_gate eg) (ow_files ow w1) (ow_receipt ow w1) (gate_satisfied human) (Some f) decided
                          = AUTO_MERGE)
               in (Some ok, eg_evidence eg f head ok w1)))"

definition with_receipt_veto ::
    "'w outside \<Rightarrow> 'w endgame \<Rightarrow> (string \<Rightarrow> ('w, bool) action) \<Rightarrow> string \<Rightarrow> ('w, bool) action" where
  "with_receipt_veto ow eg gate head w =
     (if on_record (ge_vars (eg_gate eg)) (eg_key eg) (ow_receipts ow w) then (Some False, w) else gate head w)"

section \<open>The whole endgame\<close>

definition is_github :: "string \<Rightarrow> bool" where
  "is_github provider \<longleftrightarrow> norm_text (if provider = [] then ''github'' else provider) = ''github''"

definition split_repo :: "string \<Rightarrow> (string \<times> string) option" where
  "split_repo repo =
     (case dropWhile (\<lambda>c. c \<noteq> CHR ''/'') repo of
        [] \<Rightarrow> None
      | _ # name \<Rightarrow>
          let owner = takeWhile (\<lambda>c. c \<noteq> CHR ''/'') repo in if owner \<noteq> [] \<and> name \<noteq> [] then Some (owner, name) else None)"

text \<open>The digits behind the first \<open>/pull/\<close> that has some.\<close>

fun parse_pr_number :: "string \<Rightarrow> nat option" where
  "parse_pr_number [] = None"
| "parse_pr_number (c # cs) =
     (if prefix ''/pull/'' (c # cs) \<and> takeWhile is_digit (drop 6 (c # cs)) \<noteq> []
      then Some (nat (int_of_digits (takeWhile is_digit (drop 6 (c # cs)))))
      else parse_pr_number cs)"

definition create_pr ::
    "'w runner \<Rightarrow> ('w, bool) action \<Rightarrow> string \<Rightarrow> string \<Rightarrow> string \<Rightarrow> string \<Rightarrow> string \<Rightarrow> ('w, nat option) action" where
  "create_pr run push worktree branch base title body =
     bindA (run [''git'', ''fetch'', ''origin'', branch @ '':'' @ branch] (Some worktree)) (\<lambda>fetched.
     bindA push (\<lambda>pushed.
     bindA (run [''gh'', ''pr'', ''create'', ''--base'', base, ''--head'', branch, ''--title'', title, ''--body'', body]
              (Some worktree)) (\<lambda>res.
       doneA (parse_pr_number (cr_out res @ [CHR 0x0A] @ cr_err res)))))"

definition request_copilot_review :: "'w runner \<Rightarrow> string \<Rightarrow> string \<Rightarrow> nat \<Rightarrow> ('w, bool) action" where
  "request_copilot_review run owner repo pr =
     bindA (run [''gh'', ''api'', ''--method'', ''POST'',
        ''/repos/'' @ repo_path owner repo @ ''/pulls/'' @ digits_of_nat pr @ ''/requested_reviewers'', ''-f'',
        ''reviewers[]=copilot-pull-request-reviewer[bot]''] None) (\<lambda>res. doneA (cmd_ok res))"

text \<open>The policy when the pull request is opened: may it merge later, and does that take a human approval?\<close>

definition prospective :: fetched where
  "prospective = Fetched [(''tfactory_verdict'', JStr ''pass''), (''host_ci_green'', JBool True)]"

definition endgame_policy :: "'w outside \<Rightarrow> 'w endgame \<Rightarrow> bool \<Rightarrow> 'w \<Rightarrow> bool \<times> bool" where
  "endgame_policy ow eg auto_merge w =
     (let g = eg_gate eg; fs = ow_files ow w; receipt = ow_receipt ow w
      in if \<not> (auto_merge \<and> \<not> on_record (ge_vars g) (eg_key eg) (ow_receipts ow w)) then (False, False)
         else if merge_disposition g fs receipt (eg_trusted eg) (eg_tier eg) (JList []) (Some prospective) (eg_floor eg) = AUTO_MERGE
         then (True, False)
         else if clears_with_human_approval g fs receipt (eg_trusted eg) (eg_tier eg) (Some prospective) (eg_floor eg)
         then (True, True)
         else (False, False))"

text \<open>What the text of the pull request says about the tier.\<close>

definition endgame_body :: "'w outside \<Rightarrow> 'w endgame \<Rightarrow> string \<Rightarrow> 'w \<Rightarrow> string" where
  "endgame_body ow eg body w =
     body @ [CHR 0x0A, CHR 0x0A] @ review_tier_note (eg_gate eg) (ow_files ow w) (eg_trusted eg) (eg_tier eg) @
     (if truthy_str (eg_floor eg)
      then [CHR 0x0A, CHR 0x0A] @ ''> path-derived risk floor raises reviewTier '' @ describe_tier (eg_tier eg) @ '' -> '' @
           describe_tier (eg_floor eg) @ ''.''
      else [])"

datatype endgame_result =
    Provider_Not_Github
  | No_Repo
  | Create_Pr_Error
  | Pr_Not_Created
  | Reviewer_Raised
  | Opened nat watch_outcome

record 'w endgame_call =
  ec_provider :: string
  ec_repo :: string
  ec_auto_merge :: bool
  ec_worktree :: string
  ec_branch :: string
  ec_title :: string
  ec_body :: string
  ec_push_branch :: "('w, bool) action"
  ec_copilot :: bool
  ec_on_pr_opened :: "nat \<Rightarrow> 'w \<Rightarrow> 'w"

text \<open>
  The template \<open>k\<close> brings the review engine, the fixer, the bounds of the watch and the rest that the caller hands
  over; the attempts of the watch are returned with the result.
\<close>

definition endgame_watch ::
    "'w outside \<Rightarrow> 'w endgame \<Rightarrow> 'w endgame_call \<Rightarrow> 'w watch_cfg \<Rightarrow> nat \<Rightarrow> bool \<times> bool \<Rightarrow> 'w watch_cfg" where
  "endgame_watch ow eg call k pr policy =
     k\<lparr>wt_owner := eg_owner eg, wt_repo := eg_repo eg, wt_pr := pr, wt_auto_merge := fst policy,
       wt_require_copilot := ec_copilot call, wt_human := snd policy,
       wt_gate := (if fst policy then Some (with_receipt_veto ow eg (merge_gate ow eg (snd policy))) else None)\<rparr>"

definition run_pr_endgame ::
    "'w outside \<Rightarrow> 'w endgame \<Rightarrow> 'w endgame_call \<Rightarrow> 'w watch_cfg \<Rightarrow> 'w \<Rightarrow> endgame_result \<times> 'w attempt_made list \<times> 'w" where
  "run_pr_endgame ow eg call k w =
     (if \<not> is_github (ec_provider call) then (Provider_Not_Github, [], w)
      else
        let policy = endgame_policy ow eg (ec_auto_merge call) w
        in case split_repo (ec_repo call) of
             None \<Rightarrow> (No_Repo, [], w)
           | Some (owner, name) \<Rightarrow>
               let eg' = eg\<lparr>eg_owner := owner, eg_repo := name\<rparr>
               in case create_pr (ow_run ow) (ec_push_branch call) (ec_worktree call) (ec_branch call) (eg_base eg) (ec_title call)
                         (endgame_body ow eg' (ec_body call) w) w of
                    (None, w1) \<Rightarrow> (Create_Pr_Error, [], w1)
                  | (Some None, w1) \<Rightarrow> (Pr_Not_Created, [], w1)
                  | (Some (Some pr), w1) \<Rightarrow>
                      (case (if ec_copilot call then request_copilot_review (ow_run ow) owner name pr w1
                             else (Some True, ec_on_pr_opened call pr w1)) of
                         (None, w2) \<Rightarrow> (Reviewer_Raised, [], w2)
                       | (Some _, w2) \<Rightarrow>
                           (case watch_and_finish ow (endgame_watch ow eg' call k pr policy) w2 of
                              (oc, st, w3) \<Rightarrow> (Opened pr oc, ws_attempts st, w3))))"

end
