(* ===== verification/Contract_Props.thy ===== *)
theory Contract_Props
  imports Contract_Trust Ingest_Props
begin

text \<open>The verdict of the server reaches the build, and stands for a signed contract whose builds were all isolated.\<close>

section \<open>The decision\<close>

lemma resolve_verified:
  "resolve_contract E env importable fs trusted = (Verified, c) \<longleftrightarrow>
     importable \<and> host_isolated env \<and> (\<exists>r. trusted = Trusted_Record r \<and> tr_contract r = JObj c \<and> record_verified E env fs r = Inr True)"
  by (auto simp: resolve_contract_def split: looked_up.splits sum.splits bool.splits json.splits)

lemma record_verified_iff:
  "record_verified E env fs r = Inr True \<longleftrightarrow>
     (\<exists>c d. tr_contract r = JObj c \<and> verify_plan_signature E (load_keyring_from_env env) (load_retired_kids_from_env env) c = Inr (True, []) \<and>
        tr_build_isolation r \<in> Some ` set ISOLATED_STAMPS \<and> read_json (te_codec E) (sf_contract fs) = Some d \<and>
        te_canonical E d = te_canonical E (JObj c))"
proof -
  have "s = []" if "verify_plan_signature E (load_keyring_from_env env) (load_retired_kids_from_env env) c = Inr (True, s)" for c s
    by (rule accepted_cases [OF that])
  then show ?thesis
    by (auto simp: record_verified_def bindE_Inr_iff split: json.splits option.splits if_splits)
qed

lemma trusted_verified:
  "trusted_contract E sha value fs = (Verified, c, why) \<longleftrightarrow>
     why = ''server verified'' \<and> (\<exists>d. c = Some d \<and> load_contract (te_codec E) fs = Some d \<and>
       value = Some (contract_digest E sha d) \<and> contract_digest E sha d \<notin> {''hold'', LEGACY})"
  by (auto simp: trusted_contract_def split: option.splits if_splits)

definition sha_collision :: "(string \<Rightarrow> string) \<Rightarrow> bool" where
  "sha_collision sha \<longleftrightarrow> (\<exists>x y. x \<noteq> y \<and> sha x = sha y)"

text \<open>C15: a build that holds its contract for verified acts on what the server verified. If the copy of the build is
  verified by the value it was started with, then, unless two texts have one SHA-256, its canonical text is that of a
  record of the table whose signature the server accepted, on an isolated host, with a stamp of an isolated
  build -- whatever happened to the files of the build in between.\<close>

theorem build_acts_on_the_verified_contract:
  assumes "trusted_contract E sha (Some (spawn_env E sha env importable fs table key)) gs = (Verified, c, why)"
  shows "sha_collision sha \<or> (\<exists>d r e. c = Some d \<and> lookup_contract (te_codec E) table key = Trusted_Record r \<and>
    tr_contract r = JObj e \<and> te_canonical E (JObj d) = te_canonical E (JObj e) \<and> host_isolated env \<and>
    verify_plan_signature E (load_keyring_from_env env) (load_retired_kids_from_env env) e = Inr (True, []) \<and>
    tr_build_isolation r \<in> Some ` set ISOLATED_STAMPS)"
proof -
  obtain d where d: "c = Some d" "spawn_env E sha env importable fs table key = contract_digest E sha d"
      "contract_digest E sha d \<notin> {''hold'', LEGACY}"
    using assms by (auto simp: trusted_verified)
  obtain e where "resolve_contract E env importable fs (lookup_contract (te_codec E) table key) = (Verified, e)"
      and same: "contract_digest E sha e = contract_digest E sha d"
    using d(2,3) by (auto simp: spawn_env_def split: prod.splits trust_state.splits)
  then obtain r where "lookup_contract (te_codec E) table key = Trusted_Record r" "tr_contract r = JObj e"
      "host_isolated env" "record_verified E env fs r = Inr True"
    by (auto simp: resolve_verified)
  moreover have "sha_collision sha \<or> te_canonical E (JObj d) = te_canonical E (JObj e)"
    using same unfolding sha_collision_def contract_digest_def by metis
  ultimately show ?thesis using d(1) by (auto simp: record_verified_iff)
qed

section \<open>The table\<close>

datatype table_event = Put_Contract string string obj | Stamp_Spawn string string

fun table_step :: "codec \<Rightarrow> contract_table \<Rightarrow> table_event \<Rightarrow> contract_table" where
  "table_step c t (Put_Contract key spec_id contract) = put_contract c key spec_id contract t"
| "table_step c t (Stamp_Spawn key kind) = stamp_isolation key kind t"

lemma stamp_lookup:
  "map_of (stamp_isolation key kind t) k =
     (case map_of t k of None \<Rightarrow> None
      | Some row \<Rightarrow> Some (if k = key \<and> tc_build_isolation row \<noteq> Some ''none'' then row\<lparr>tc_build_isolation := Some kind\<rparr> else row))"
  by (induction t) (auto simp: stamp_isolation_def)

lemma put_lookup:
  "map_of (put_contract c key sid d t) k =
     (if k = key then Some \<lparr>tc_spec_id = sid, tc_contract = cd_text c (JObj d),
        tc_build_isolation = (case map_of t key of None \<Rightarrow> None
          | Some row \<Rightarrow> if tc_contract row = cd_text c (JObj d) then tc_build_isolation row else None)\<rparr>
      else map_of t k)"
  by (auto simp: put_contract_def dget_dset Let_def split: option.split)

text \<open>The stamps of a key in a run, and what they add up to: \<open>none\<close> stays.\<close>

fun stamps_of :: "string \<Rightarrow> table_event list \<Rightarrow> string list" where
  "stamps_of key [] = []"
| "stamps_of key (Stamp_Spawn k kind # es) = (if k = key then kind # stamps_of key es else stamps_of key es)"
| "stamps_of key (_ # es) = stamps_of key es"

definition stamped :: "string list \<Rightarrow> string option" where
  "stamped kinds = foldl (\<lambda>s kind. if s = Some ''none'' then s else Some kind) None kinds"

lemma stamps_of_append: "stamps_of key (es @ es') = stamps_of key es @ stamps_of key es'"
  by (induction es rule: stamps_of.induct) simp_all

lemma stamped_snoc: "stamped (ks @ [k]) = (if stamped ks = Some ''none'' then Some ''none'' else Some k)"
  by (simp add: stamped_def)

lemma stamped_Nil [simp]: "stamped [] = None"
  by (simp add: stamped_def)

lemma stamped_None: "stamped ks = None \<longleftrightarrow> ks = []"
  by (cases ks rule: rev_cases) (simp_all add: stamped_snoc)

lemma stamped_isolated: "stamped ks = Some k \<Longrightarrow> k \<noteq> ''none'' \<Longrightarrow> k \<in> set ks \<and> ''none'' \<notin> set ks"
proof (induction ks arbitrary: k rule: rev_induct)
  case (snoc x ks)
  then show ?case by (cases "stamped ks") (auto simp: stamped_snoc stamped_None split: if_splits)
qed simp

text \<open>A row goes back to an insertion of its contract, and its stamp to what was stamped since.\<close>

definition row_history :: "codec \<Rightarrow> string \<Rightarrow> trusted_row \<Rightarrow> table_event list \<Rightarrow> bool" where
  "row_history c key row es \<longleftrightarrow> (\<exists>pre sid d since. es = pre @ Put_Contract key sid d # since \<and>
     tc_contract row = cd_text c (JObj d) \<and> tc_build_isolation row = stamped (stamps_of key since) \<and>
     (\<forall>sid' d'. Put_Contract key sid' d' \<in> set since \<longrightarrow> cd_text c (JObj d') = tc_contract row))"

lemma row_historyI:
  "es = pre @ Put_Contract key sid d # since \<Longrightarrow> tc_contract row = cd_text c (JObj d) \<Longrightarrow>
     tc_build_isolation row = stamped (stamps_of key since) \<Longrightarrow>
     (\<And>sid' d'. Put_Contract key sid' d' \<in> set since \<Longrightarrow> cd_text c (JObj d') = tc_contract row) \<Longrightarrow> row_history c key row es"
  unfolding row_history_def by blast

lemma row_historyE:
  assumes "row_history c key row es"
  obtains pre sid d since where "es = pre @ Put_Contract key sid d # since" "tc_contract row = cd_text c (JObj d)"
    "tc_build_isolation row = stamped (stamps_of key since)"
    "\<And>sid' d'. Put_Contract key sid' d' \<in> set since \<Longrightarrow> cd_text c (JObj d') = tc_contract row"
  using assms unfolding row_history_def by blast

lemma row_history_snoc:
  assumes "row_history c key row es" "stamps_of key [e] = []" "\<And>sid d. e = Put_Contract key sid d \<Longrightarrow> cd_text c (JObj d) = tc_contract row"
    and "tc_contract row' = tc_contract row" "tc_build_isolation row' = tc_build_isolation row"
  shows "row_history c key row' (es @ [e])"
  using assms(1)
proof (rule row_historyE)
  fix pre sid d since
  assume h: "es = pre @ Put_Contract key sid d # since" "tc_contract row = cd_text c (JObj d)"
    "tc_build_isolation row = stamped (stamps_of key since)"
    "\<And>sid' d'. Put_Contract key sid' d' \<in> set since \<Longrightarrow> cd_text c (JObj d') = tc_contract row"
  show ?thesis
    by (rule row_historyI [of _ pre _ sid d "since @ [e]"]) (use h assms(2-) in \<open>auto simp: stamps_of_append\<close>)
qed

lemma row_history_stamp:
  assumes "row_history c key row es"
  shows "row_history c key (if tc_build_isolation row \<noteq> Some ''none'' then row\<lparr>tc_build_isolation := Some kind\<rparr> else row)
    (es @ [Stamp_Spawn key kind])"
  using assms
proof (rule row_historyE)
  fix pre sid d since
  assume h: "es = pre @ Put_Contract key sid d # since" "tc_contract row = cd_text c (JObj d)"
    "tc_build_isolation row = stamped (stamps_of key since)"
    "\<And>sid' d'. Put_Contract key sid' d' \<in> set since \<Longrightarrow> cd_text c (JObj d') = tc_contract row"
  show ?thesis
    by (rule row_historyI [of _ pre _ sid d "since @ [Stamp_Spawn key kind]"])
      (use h in \<open>auto simp: stamps_of_append stamped_snoc\<close>)
qed

lemma table_history: "map_of (foldl (table_step c) [] es) key = Some row \<Longrightarrow> row_history c key row es"
proof (induction es arbitrary: row rule: rev_induct)
  case (snoc e es)
  let ?t = "foldl (table_step c) [] es"
  show ?case
  proof (cases e)
    case (Put_Contract k sid d)
    show ?thesis
    proof (cases "k = key")
      case True
      show ?thesis
      proof (cases "\<exists>old. map_of ?t key = Some old \<and> tc_contract old = cd_text c (JObj d)")
        case True
        then obtain old where old: "map_of ?t key = Some old" "tc_contract old = cd_text c (JObj d)" by blast
        show ?thesis
          by (rule row_history_snoc [OF snoc.IH [OF old(1)]]) (use snoc.prems \<open>k = key\<close> Put_Contract old in \<open>auto simp: put_lookup\<close>)
      next
        case False
        then have "tc_contract row = cd_text c (JObj d)" "tc_build_isolation row = None"
          using snoc.prems \<open>k = key\<close> Put_Contract by (auto simp: put_lookup split: option.splits)
        then show ?thesis
          using \<open>k = key\<close> Put_Contract by (intro row_historyI [of _ es _ sid d "[]"]) (simp_all add: stamped_def)
      qed
    next
      case False
      then have "map_of ?t key = Some row" using snoc.prems Put_Contract by (simp add: put_lookup)
      then show ?thesis by (rule row_history_snoc [OF snoc.IH]) (use False Put_Contract in auto)
    qed
  next
    case (Stamp_Spawn k kind)
    obtain old where old: "map_of ?t key = Some old"
      using snoc.prems Stamp_Spawn by (auto simp: stamp_lookup split: option.splits)
    show ?thesis
    proof (cases "k = key")
      case True
      then show ?thesis
        using row_history_stamp [OF snoc.IH [OF old], of kind] snoc.prems Stamp_Spawn old by (simp add: stamp_lookup)
    next
      case False
      then have "map_of ?t key = Some row" using snoc.prems Stamp_Spawn old by (simp add: stamp_lookup)
      then show ?thesis by (rule row_history_snoc [OF snoc.IH]) (use False Stamp_Spawn in auto)
    qed
  qed
qed simp


text \<open>C16: what the server takes for verified was never built without isolation. If a contract that was looked up in a
  table is resolved as verified, it is the contract of an insertion into the table, since then no other contract was
  inserted under the key, at least one build was stamped, and none of them as not isolated.\<close>

theorem verified_builds_were_isolated:
  assumes "\<And>v. cd_loads (te_codec E) (cd_text (te_codec E) v) = Some v"
    and "resolve_contract E env importable fs
      (lookup_contract (te_codec E) (Some (foldl (table_step (te_codec E)) [] es)) key) = (Verified, contract)"
  shows "\<exists>pre sid since. es = pre @ Put_Contract key sid contract # since \<and>
    (\<forall>sid' d. Put_Contract key sid' d \<in> set since \<longrightarrow> d = contract) \<and>
    set (stamps_of key since) \<inter> set ISOLATED_STAMPS \<noteq> {} \<and> ''none'' \<notin> set (stamps_of key since)"
proof -
  let ?c = "te_codec E"
  obtain r where r: "lookup_contract ?c (Some (foldl (table_step ?c) [] es)) key = Trusted_Record r"
      "tr_contract r = JObj contract" "record_verified E env fs r = Inr True"
    using assms(2) by (auto simp: resolve_verified)
  obtain row where row: "map_of (foldl (table_step ?c) [] es) key = Some row"
      "cd_loads ?c (tc_contract row) = Some (JObj contract)" "tr_build_isolation r = tc_build_isolation row"
    using r(1,2) by (auto simp: lookup_contract_def get_contract_def split: option.splits intro!: that)
  obtain k where k: "tc_build_isolation row = Some k" "k \<in> set ISOLATED_STAMPS"
    using r(3) row(3) by (auto simp: record_verified_iff)
  then have "k \<noteq> ''none''" by (auto simp: ISOLATED_STAMPS_def)
  show ?thesis
  proof (rule row_historyE [OF table_history [OF row(1)]])
    fix pre sid d since
    assume h: "es = pre @ Put_Contract key sid d # since" "tc_contract row = cd_text ?c (JObj d)"
      "tc_build_isolation row = stamped (stamps_of key since)"
      "\<And>sid' d'. Put_Contract key sid' d' \<in> set since \<Longrightarrow> cd_text ?c (JObj d') = tc_contract row"
    have "d = contract" using h(2) row(2) assms(1) by simp
    moreover have "d' = contract" if "Put_Contract key sid' d' \<in> set since" for sid' d'
    proof -
      have "cd_loads ?c (cd_text ?c (JObj d')) = Some (JObj contract)" using h(4) [OF that] row(2) by simp
      then show ?thesis using assms(1) by simp
    qed
    moreover have "k \<in> set (stamps_of key since)" "''none'' \<notin> set (stamps_of key since)"
      using stamped_isolated [of "stamps_of key since" k] h(3) k(1) \<open>k \<noteq> ''none''\<close> by auto
    ultimately show ?thesis using h(1) k(2) by blast
  qed
qed

section \<open>From the ingestion to the build\<close>

lemma ingest_success:
  assumes "ingest_trusted_plan E env keyring now plan fs = (Inr r, fs')" "vr_ok r"
  shows "verify_trusted_plan E env keyring plan = Inr r" "sf_contract fs' = Some (cd_text (te_codec E) (JObj plan))"
proof -
  obtain fs2 m where v: "verify_trusted_plan E env keyring plan = Inr r"
    and spec: "write_spec_md_from_plan E plan (install_plan E plan fs) = Inr fs2"
    and app: "apply_execution_profile E plan (mark_review_approved E now r (record_approval_provenance E r fs2)) = Inr (m, fs')"
    using assms by (auto simp: ingest_trusted_plan_def Let_def split: sum.splits if_splits)
  show "verify_trusted_plan E env keyring plan = Inr r" by (rule v)
  show "sf_contract fs' = Some (cd_text (te_codec E) (JObj plan))"
    using write_spec_md_frame [OF spec] apply_profile_frame [OF app] by (auto simp: install_plan_def)
qed

text \<open>C17: a signed plan that is taken in reaches its build as verified. On an isolated host, when the plan was
  ingested, stored under a new key and its build stamped as a job, the value the build is started with makes it act
  on the very plan that was signed, as long as its copy is that of the ingestion and its digest is not one of the two
  reserved words.\<close>

theorem ingested_contract_reaches_the_build:
  assumes "ingest_trusted_plan E env None now plan fs = (Inr r, fs')" "vr_ok r"
    and "\<And>v. cd_loads (te_codec E) (cd_text (te_codec E) v) = Some v" "host_isolated env" "map_of table key = None"
    and "contract_digest E sha plan \<noteq> ''hold''" "contract_digest E sha plan \<noteq> LEGACY" "sf_contract gs = sf_contract fs'"
  shows "trusted_contract E sha (Some (spawn_env E sha env True fs'
      (stamp_spawn (Some (put_contract (te_codec E) key sid plan table)) key ''kubejob'') key)) gs =
    (Verified, Some plan, ''server verified'')"
proof -
  let ?c = "te_codec E"
  note ok = ingest_success [OF assms(1,2)]
  let ?row = "\<lparr>tr_contract = JObj plan, tr_build_isolation = Some ''kubejob''\<rparr>"
  have "verify_plan_signature E (load_keyring_from_env env) (load_retired_kids_from_env env) plan = Inr (True, [])"
    using trusted_cases(1) [OF ok(1) assms(2)] by simp
  then have "record_verified E env fs' ?row = Inr True"
    using ok(2) assms(3) by (simp add: record_verified_iff read_json_def ISOLATED_STAMPS_def)
  moreover have "lookup_contract ?c (stamp_spawn (Some (put_contract ?c key sid plan table)) key ''kubejob'') key = Trusted_Record ?row"
    using assms(3,5) by (simp add: lookup_contract_def stamp_spawn_def get_contract_def stamp_lookup put_lookup)
  ultimately have "resolve_contract E env True fs'
      (lookup_contract ?c (stamp_spawn (Some (put_contract ?c key sid plan table)) key ''kubejob'') key) = (Verified, plan)"
    using assms(4) by (simp add: resolve_verified)
  then have "spawn_env E sha env True fs' (stamp_spawn (Some (put_contract ?c key sid plan table)) key ''kubejob'') key =
      contract_digest E sha plan"
    by (simp add: spawn_env_def)
  moreover have "load_contract ?c gs = Some plan" using ok(2) assms(3,8) by (simp add: load_contract_def read_json_def)
  ultimately show ?thesis using assms(6,7) by (simp add: trusted_verified)
qed

section \<open>The note on the plan\<close>

text \<open>A note about a held contract is progress: it leaves the hash that an approval is bound to alone.\<close>

lemma strip_hold [simp]:
  "strip_plan_progress (AList.delete HOLD_KEY d) = strip_plan_progress d"
  "strip_plan_progress (AList.update HOLD_KEY v d) = strip_plan_progress d"
proof -
  have "filter (\<lambda>(k, v). k \<notin> set PLAN_PROGRESS_KEYS) (AList.delete HOLD_KEY d) = filter (\<lambda>(k, v). k \<notin> set PLAN_PROGRESS_KEYS) d"
    by (induction d) (auto simp: HOLD_KEY_def PLAN_PROGRESS_KEYS_def AList.delete_eq)
  then show "strip_plan_progress (AList.delete HOLD_KEY d) = strip_plan_progress d" by (simp add: strip_plan_progress_def)
  have "filter (\<lambda>(k, v). k \<notin> set PLAN_PROGRESS_KEYS) (AList.update HOLD_KEY v d) = filter (\<lambda>(k, v). k \<notin> set PLAN_PROGRESS_KEYS) d"
    by (induction d) (auto simp: HOLD_KEY_def PLAN_PROGRESS_KEYS_def)
  then show "strip_plan_progress (AList.update HOLD_KEY v d) = strip_plan_progress d" by (simp add: strip_plan_progress_def)
qed

lemma hold_note_keeps_hash:
  assumes "\<And>v. cd_loads c (cd_text c v) = Some v"
  shows "compute_spec_hash c (hold_noted c note fs) = compute_spec_hash c fs"
  using assms by (simp add: compute_spec_hash_def hold_noted_def read_plan_def read_json_def combine_def content_hash_def
      split: option.split json.split)

text \<open>The stamp of a sandboxed build counts, although the policy takes only jobs for isolated: the host is looked at
  when the decision is made, not when the build ran.\<close>

lemma sandbox_stamp_verifies:
  assumes "host_isolated env" "verify_plan_signature E (load_keyring_from_env env) (load_retired_kids_from_env env) c = Inr (True, [])"
    and "read_json (te_codec E) (sf_contract fs) = Some (JObj c)"
  shows "resolve_contract E env True fs (Trusted_Record \<lparr>tr_contract = JObj c, tr_build_isolation = Some ''sandbox-pidns''\<rparr>) = (Verified, c)"
  using assms by (simp add: resolve_verified record_verified_iff ISOLATED_STAMPS_def)

section \<open>Instances\<close>

definition job_env :: environ where
  "job_env = [(''AIFACTORY_BUILD_BACKEND'', ''kubejob''), (''DATABASE_URL'', ''db''), (''AIFACTORY_TRUSTED_PLAN_KEY_CF'', ''k'')]"

lemma job_env_facts: "host_isolated job_env" "load_keyring_from_env job_env = [(''cf'', ''k'')]" "load_retired_kids_from_env job_env = {}"
  by code_simp+

definition small_table :: contract_table where
  "small_table = stamp_isolation ''key'' ''kubejob'' (put_contract numbered_codec ''key'' ''s'' (signed unsigned) [])"

lemma small_lookup: "lookup_contract numbered_codec (Some small_table) ''key'' =
    Trusted_Record \<lparr>tr_contract = JObj (signed unsigned), tr_build_isolation = Some ''kubejob''\<rparr>"
  by (simp add: lookup_contract_def small_table_def get_contract_def stamp_lookup put_lookup)

lemma small_codec [simp]: "te_codec small_env = numbered_codec"
  by (simp add: small_env_def)

lemma small_resolved:
  assumes "sf_contract fs = Some (numbered (JObj (signed unsigned)))"
  shows "resolve_contract small_env job_env True fs (lookup_contract numbered_codec (Some small_table) ''key'') = (Verified, signed unsigned)"
  using assms signed_accepted [of unsigned]
  by (simp add: resolve_verified small_lookup record_verified_iff job_env_facts read_json_def ISOLATED_STAMPS_def)

definition with_contract :: "obj \<Rightarrow> spec_files" where
  "with_contract plan = empty_files\<lparr>sf_contract := Some (numbered (JObj plan))\<rparr>"

lemma with_contract_simps [simp]:
  "sf_contract (with_contract d) = Some (numbered (JObj d))" "load_contract numbered_codec (with_contract d) = Some d"
  by (simp_all add: with_contract_def load_contract_def read_json_def)

lemma digest_not_reserved: "contract_digest E numbered d \<noteq> ''hold''" "contract_digest E numbered d \<noteq> LEGACY"
proof -
  have "contract_digest E numbered d \<noteq> s" if "\<not> is_digit (hd s)" "s \<noteq> []" for s
    using that numbered_digits [of "hd s" "te_canonical E (JObj d)"] hd_in_set [of s] by (auto simp: contract_digest_def)
  then show "contract_digest E numbered d \<noteq> ''hold''" "contract_digest E numbered d \<noteq> LEGACY"
    by (simp_all add: LEGACY_def is_digit_def)
qed

lemma small_spawn: "spawn_env small_env numbered job_env True (with_contract (signed unsigned)) (Some small_table) ''key'' =
    contract_digest small_env numbered (signed unsigned)"
  by (simp add: spawn_env_def small_resolved)

lemma build_acts_on_the_verified_contract_witness: "verify_plan_signature small_env [(''cf'', ''k'')] {} (signed unsigned) = Inr (True, [])"
proof -
  have "trusted_contract small_env numbered (Some (spawn_env small_env numbered job_env True (with_contract (signed unsigned))
      (Some small_table) ''key'')) (with_contract (signed unsigned)) = (Verified, Some (signed unsigned), ''server verified'')"
    using digest_not_reserved [of small_env] by (simp add: small_spawn trusted_verified)
  from build_acts_on_the_verified_contract [OF this] show ?thesis
    by (auto simp: sha_collision_def small_lookup job_env_facts)
qed

lemma verified_builds_were_isolated_witness: "''none'' \<notin> set (stamps_of ''key'' [Stamp_Spawn ''key'' ''kubejob''])"
proof -
  let ?es = "[Put_Contract ''key'' ''s'' (signed unsigned), Stamp_Spawn ''key'' ''kubejob'']"
  have "resolve_contract small_env job_env True (with_contract (signed unsigned))
      (lookup_contract (te_codec small_env) (Some (foldl (table_step (te_codec small_env)) [] ?es)) ''key'') = (Verified, signed unsigned)"
    using small_resolved [of "with_contract (signed unsigned)"] by (simp add: small_table_def)
  from verified_builds_were_isolated [OF _ this] show ?thesis by (auto simp: Cons_eq_append_conv)
qed

lemma verified_with_ring:
  "load_retired_kids_from_env env = load_retired_kids_from_env [] \<Longrightarrow>
    verify_trusted_plan E env None plan = verify_trusted_plan E [] (Some (load_keyring_from_env env)) plan"
  by (simp add: verify_trusted_plan_def)

lemma ingested_contract_reaches_the_build_witness:
  "trusted_contract small_env numbered (Some (spawn_env small_env numbered job_env True small_ingested
      (stamp_spawn (Some (put_contract numbered_codec ''key'' ''s'' (signed unsigned) [])) ''key'' ''kubejob'') ''key'')) small_ingested =
    (Verified, Some (signed unsigned), ''server verified'')"
proof -
  have "verify_trusted_plan small_env job_env None (signed unsigned) = Inr small_result"
    using small_verified by (simp add: verified_with_ring job_env_facts no_retired)
  then have "ingest_trusted_plan small_env job_env None ''n'' (signed unsigned) empty_files = (Inr small_result, small_ingested)"
    using small_ingest by (simp add: ingest_trusted_plan_def small_verified)
  from ingested_contract_reaches_the_build [OF this, of "[]" "''key''" numbered small_ingested "''s''"] show ?thesis
    using digest_not_reserved [of small_env] by (simp add: small_result_def job_env_facts)
qed

end
