(* ===== verification/Gate_Props.thy ===== *)
theory Gate_Props
  imports Merge_Gate Contract_Props Merge_Policy_Props
begin

text \<open>What stands behind the disposition to merge by itself, and that nothing an agent can write brings it about.\<close>

section \<open>Tiers\<close>

lemma bucket_label: "tier_bucket (Some t) = None \<longleftrightarrow> norm_text t \<notin> set tier_log_label"
  by (auto simp: tier_bucket_def text_or_empty_def tier_aliases_def tier_log_label_def)

lemma describe_unrecognised: "describe_tier (Some t) = ''unrecognised'' \<longleftrightarrow> tier_bucket (Some t) = None"
  by (auto simp: describe_tier_def bucket_label tier_log_label_def)

lemma rank_low: "tier_rank t = 0 \<longleftrightarrow> tier_bucket t = Some ''low''"
  using tier_bucket_cases [of t] by (auto simp: tier_rank_bucket)

lemma rank_recognised: "0 \<le> tier_rank t \<longleftrightarrow> tier_bucket t \<noteq> None"
  using tier_bucket_cases [of t] by (auto simp: tier_rank_bucket)

lemma low_text: "tier_bucket (Some ''low'') = Some ''low''"
  by code_simp

lemma signed_tier_recognised: "signed_tier contract = Some s \<Longrightarrow> tier_bucket (Some s) \<noteq> None"
  by (auto simp: signed_tier_def describe_unrecognised split: json.splits if_splits)

lemma bucket_not_Nil: "tier_bucket (Some s) \<noteq> None \<Longrightarrow> s \<noteq> []"
  by (auto simp: tier_bucket_def text_or_empty_def tier_aliases_def)

text \<open>The stricter of the signed tier and the recorded one; a tier that nobody knows stays.\<close>

lemma raise_to_signed_rank:
  fixes tier :: "string option"
  assumes "tier_bucket (Some floor_text) \<noteq> None"
  defines "effective \<equiv> if blank tier then ''low'' else the tier"
  shows "tier_bucket (Some effective) = None \<Longrightarrow> fst (raise_to_signed tier floor_text) = effective"
    and "tier_bucket (Some effective) \<noteq> None \<Longrightarrow>
      tier_rank (Some (fst (raise_to_signed tier floor_text))) = max (tier_rank (Some floor_text)) (tier_rank (Some effective))"
proof -
  let ?r = "raise_review_tier (Some floor_text) (Some effective)"
  show "fst (raise_to_signed tier floor_text) = effective" if "tier_bucket (Some effective) = None"
    using that by (simp add: raise_to_signed_def Let_def effective_def [symmetric] describe_unrecognised)
  assume e: "tier_bucket (Some effective) \<noteq> None"
  have "?r = Some floor_text \<or> ?r = Some effective" by (simp add: raise_review_tier_def Let_def)
  then have "truthy_str ?r" using assms(1) e bucket_not_Nil by (auto simp: truthy_str_def)
  then obtain t where t: "?r = Some t" by (auto simp: truthy_str_def split: option.splits)
  then have "fst (raise_to_signed tier floor_text) = t"
    using e \<open>truthy_str ?r\<close> by (simp add: raise_to_signed_def Let_def effective_def [symmetric] describe_unrecognised)
  then show "tier_rank (Some (fst (raise_to_signed tier floor_text))) = max (tier_rank (Some floor_text)) (tier_rank (Some effective))"
    using raise_rank [of "Some floor_text" "Some effective"] t by simp
qed

definition tier_low :: "string option \<Rightarrow> bool" where
  "tier_low tier \<longleftrightarrow> blank tier \<or> tier_bucket tier = Some ''low''"

lemma effective_low: "tier_bucket (Some (if blank tier then ''low'' else the tier)) = Some ''low'' \<longleftrightarrow> tier_low tier"
  by (cases tier) (auto simp: tier_low_def low_text blank_def)

lemma raise_to_signed_low:
  assumes "tier_bucket (Some floor_text) \<noteq> None"
  shows "tier_bucket (Some (fst (raise_to_signed tier floor_text))) = Some ''low'' \<longleftrightarrow>
    tier_bucket (Some floor_text) = Some ''low'' \<and> tier_low tier"
proof (cases "tier_bucket (Some (if blank tier then ''low'' else the tier)) = None")
  case True
  then show ?thesis using raise_to_signed_rank(1) [OF assms True] effective_low [of tier] by simp
next
  case False
  have "0 \<le> tier_rank (Some floor_text)" using assms by (simp add: rank_recognised)
  moreover have "0 \<le> tier_rank (Some (if blank tier then ''low'' else the tier))" using False by (simp add: rank_recognised)
  ultimately have "tier_rank (Some (fst (raise_to_signed tier floor_text))) = 0 \<longleftrightarrow>
      tier_rank (Some floor_text) = 0 \<and> tier_rank (Some (if blank tier then ''low'' else the tier)) = 0"
    unfolding raise_to_signed_rank(2) [OF assms False] by linarith
  then show ?thesis by (simp only: rank_low effective_low)
qed

text \<open>A floor that is none or low leaves a low tier low.\<close>

definition floor_low :: "string option \<Rightarrow> bool" where
  "floor_low flr \<longleftrightarrow> tier_bucket flr = None \<or> tier_bucket flr = Some ''low''"

lemma floor_low_rank: "floor_low flr \<longleftrightarrow> tier_rank flr \<le> 0"
  using tier_bucket_cases [of flr] by (auto simp: floor_low_def tier_rank_bucket)

lemma legacy_low:
  assumes "effective = (if blank tier then Some ''low'' else tier)"
  shows "tier_bucket (if describe_tier effective \<noteq> ''unrecognised'' then raise_review_tier effective flr else effective) = Some ''low'' \<longleftrightarrow>
    tier_low tier \<and> floor_low flr"
proof -
  have "effective \<noteq> None" using assms by (auto simp: blank_def split: option.splits)
  then obtain e where e: "effective = Some e" by blast
  have low: "tier_bucket effective = Some ''low'' \<longleftrightarrow> tier_low tier" using assms by (auto simp: tier_low_def low_text)
  show ?thesis
  proof (cases "tier_bucket effective = None")
    case True
    then show ?thesis using e low by (simp add: describe_unrecognised)
  next
    case False
    then have "0 \<le> tier_rank effective" by (simp add: rank_recognised)
    then have "max (tier_rank effective) (tier_rank flr) = 0 \<longleftrightarrow> tier_rank effective = 0 \<and> tier_rank flr \<le> 0" by linarith
    then show ?thesis
      using False e low by (simp add: describe_unrecognised rank_low [symmetric] raise_rank floor_low_rank)
  qed
qed

section \<open>Signals\<close>

definition signals_pass :: "gate_signals \<Rightarrow> bool" where
  "signals_pass s \<longleftrightarrow> gs_host_ci_green s \<and> verdict_pass (gs_tfactory_verdict s) \<and>
     val_meets_floor (gs_achieved_val s) (gs_val_floor s) \<and> gs_ci_parity s"

lemma handback_fails [simp]: "\<not> verdict_pass (JStr ''handback'')" "\<not> verdict_pass JNull"
proof -
  show "\<not> verdict_pass (JStr ''handback'')" by code_simp
qed (simp add: verdict_pass_def)

lemma handed_back_simps [simp]:
  "gs_host_ci_green (handed_back b s) = gs_host_ci_green s"
  "verdict_pass (gs_tfactory_verdict (handed_back b s)) \<longleftrightarrow> \<not> b \<and> verdict_pass (gs_tfactory_verdict s)"
  by (simp_all add: handed_back_def)

lemma recorded_tightens:
  "verdict_pass (gs_tfactory_verdict (recorded_flags meta (recorded_values meta s))) \<Longrightarrow> verdict_pass (gs_tfactory_verdict s)"
  "gs_host_ci_green (recorded_flags meta (recorded_values meta s)) \<Longrightarrow> gs_host_ci_green s"
  by (auto simp: recorded_flags_def recorded_values_def Let_def split: if_splits json.splits bool.splits)

text \<open>Passing signals were fetched; whatever the metadata and the receipt say, they only take away.\<close>

lemma signals_pass_fetched:
  assumes "signals_pass (merge_gate_signals c fs receipt fetched)"
  shows "\<not> receipt \<and> (\<exists>f. fetched = Some f \<and> verdict_pass (get_any ''tfactory_verdict'' f) \<and> get_any ''host_ci_green'' f = JBool True)"
proof -
  let ?s = "handed_back receipt (take_fetched fetched unmeasured)"
  have "verdict_pass (gs_tfactory_verdict ?s) \<and> gs_host_ci_green ?s"
    using assms by (auto simp: signals_pass_def merge_gate_signals_def Let_def
        split: option.splits json.splits dest!: recorded_tightens)
  then show ?thesis by (cases fetched) (simp_all add: take_fetched_def unmeasured_def)
qed

lemma fetched_signals_pass:
  assumes "verdict_pass (get_any ''tfactory_verdict'' f)" "get_any ''host_ci_green'' f = JBool True" "read_json c (sf_metadata fs) = None"
  shows "signals_pass (merge_gate_signals c fs False (Some f))"
  using assms by (simp add: signals_pass_def merge_gate_signals_def handed_back_def take_fetched_def unmeasured_def
      val_meets_floor_def val_rank_def floor_absent_def)

section \<open>The decision\<close>

definition contract_clears :: "gate_env \<Rightarrow> spec_files \<Rightarrow> looked_up \<Rightarrow> string option \<Rightarrow> string option \<Rightarrow> json \<Rightarrow> bool" where
  "contract_clears g fs trusted tier flr satisfied \<longleftrightarrow> ge_policy g \<and> host_isolated (ge_vars g) \<and> tier_low tier \<and>
     (case gate_contract g fs trusted of (state, contract) \<Rightarrow>
        deployment_block_reasons (te_shown (ge_plan g)) (as_mapping (get_any ''deployment'' contract)) satisfied = [] \<and>
        (state = Verified \<and> tier_bucket (signed_tier contract) = Some ''low'' \<or>
         state = Legacy \<and> \<not> contract_unreadable (gate_codec g) fs \<and> floor_low flr))"

lemma no_bucket_None [simp]: "tier_bucket None = None"
  by code_simp

lemma gate_decides_auto:
  "before_fetch g fs trusted tier flr = Inr decided \<and> after_fetch g fs' receipt satisfied fetched decided = AUTO_MERGE \<longleftrightarrow>
     before_fetch g fs trusted tier flr = Inr decided \<and> contract_clears g fs trusted tier flr satisfied \<and>
     signals_pass (merge_gate_signals (gate_codec g) fs' receipt fetched)"
proof (cases "gate_contract g fs trusted")
  case (Pair state contract)
  let ?effective = "if blank tier then Some ''low'' else tier"
  show ?thesis
  proof (cases state)
    case Verified
    show ?thesis
    proof (cases "signed_tier contract")
      case None
      then show ?thesis using Pair Verified by (auto simp: before_fetch_def Let_def)
    next
      case (Some floor_text)
      then show ?thesis
        using Pair Verified raise_to_signed_low [OF signed_tier_recognised [OF Some], of tier]
        by (auto simp: before_fetch_def after_fetch_def contract_clears_def signals_pass_def auto_merge_iff Let_def)
    qed
  next
    case Hold
    then show ?thesis using Pair by (auto simp: before_fetch_def Let_def)
  next
    case Legacy
    then show ?thesis
      using Pair legacy_low [OF refl, of tier flr]
      by (auto simp: before_fetch_def after_fetch_def contract_clears_def signals_pass_def auto_merge_iff Let_def)
  qed
qed

lemma cleared_is_fetched: "contract_clears g fs trusted tier flr satisfied \<Longrightarrow> \<exists>d. before_fetch g fs trusted tier flr = Inr d"
  by (auto simp: contract_clears_def before_fetch_def Let_def split: prod.splits trust_state.splits option.splits)

lemma holds_are_not_auto: "before_fetch g fs trusted tier flr = Inl d \<Longrightarrow> d = HOLD_BLOCKING"
  by (auto simp: before_fetch_def Let_def split: prod.splits trust_state.splits option.splits if_splits)

lemma disposition_auto:
  "merge_disposition g fs receipt trusted tier satisfied fetch flr = AUTO_MERGE \<longleftrightarrow>
     contract_clears g fs trusted tier flr satisfied \<and>
     (\<exists>f. fetch = Some (Fetched f) \<and> signals_pass (merge_gate_signals (gate_codec g) fs receipt (Some f)))"
proof (cases "before_fetch g fs trusted tier flr")
  case (Inl d)
  then show ?thesis
    using holds_are_not_auto [OF Inl] cleared_is_fetched [of g fs trusted tier flr satisfied] by (auto simp: merge_disposition_def)
next
  case (Inr d)
  have none: "\<not> signals_pass (merge_gate_signals (gate_codec g) fs receipt None)"
    using signals_pass_fetched [of "gate_codec g" fs receipt None] by auto
  show ?thesis
    using gate_decides_auto [of g fs trusted tier flr d fs receipt satisfied] Inr none
    by (auto simp: merge_disposition_def split: option.split fetched.split)
qed


text \<open>C13: the gate merges by itself exactly when everything that must be measured was measured and passed. The host
  isolates its builds; the contract is verified with a low signed tier, or there is no record and no trace of one and
  no floor above low; the recorded tier is low or blank; the deployment has no block; and the signals that were
  fetched, after what the metadata and the receipt of a handback take away, pass: verdict, host CI, verification level
  and parity.\<close>

theorem auto_merge_exact:
  "merge_disposition g fs receipt trusted tier satisfied fetch flr = AUTO_MERGE \<longleftrightarrow>
     contract_clears g fs trusted tier flr satisfied \<and>
     (\<exists>f. fetch = Some (Fetched f) \<and> signals_pass (merge_gate_signals (gate_codec g) fs receipt (Some f)))"
  by (rule disposition_auto)

section \<open>What the agent can write\<close>

lemma contract_without_metadata [simp]:
  "gate_contract g (fs\<lparr>sf_metadata := m\<rparr>) trusted = gate_contract g fs trusted"
proof -
  let ?gs = "fs\<lparr>sf_metadata := m\<rparr>"
  have files: "sf_contract ?gs = sf_contract fs" "sf_plan ?gs = sf_plan fs" "sf_requirements ?gs = sf_requirements fs"
    by simp_all
  show ?thesis
    unfolding gate_contract_def resolve_contract_def record_verified_def has_trusted_trace_def load_task_contract_def
      load_contract_def files by (rule refl)
qed

lemma unreadable_without_metadata [simp]:
  "contract_unreadable c (fs\<lparr>sf_metadata := m\<rparr>) = contract_unreadable c fs"
  by (simp add: contract_unreadable_def load_contract_def)

text \<open>C14: the metadata of a task can only take the permission away. If the gate merges by itself with some metadata,
  tier and receipt, it also does without any of them, no handback is on file, and the verdict and the host CI that
  pass are those that were fetched.\<close>

theorem metadata_only_tightens:
  assumes "merge_disposition g fs receipt trusted tier satisfied fetch flr = AUTO_MERGE"
  shows "merge_disposition g (fs\<lparr>sf_metadata := None\<rparr>) False trusted None satisfied fetch flr = AUTO_MERGE \<and> \<not> receipt \<and>
    (\<exists>f. fetch = Some (Fetched f) \<and> verdict_pass (get_any ''tfactory_verdict'' f) \<and> get_any ''host_ci_green'' f = JBool True)"
proof -
  obtain f where f: "contract_clears g fs trusted tier flr satisfied" "fetch = Some (Fetched f)"
      "signals_pass (merge_gate_signals (gate_codec g) fs receipt (Some f))"
    using assms disposition_auto by blast
  have p: "\<not> receipt" "verdict_pass (get_any ''tfactory_verdict'' f)" "get_any ''host_ci_green'' f = JBool True"
    using signals_pass_fetched [OF f(3)] by auto
  have "contract_clears g (fs\<lparr>sf_metadata := None\<rparr>) trusted None flr satisfied"
    using f(1) by (simp add: contract_clears_def tier_low_def blank_def)
  moreover have "signals_pass (merge_gate_signals (gate_codec g) (fs\<lparr>sf_metadata := None\<rparr>) False (Some f))"
    by (rule fetched_signals_pass [OF p(2,3)]) (simp add: read_json_def)
  ultimately show ?thesis using f(2) p disposition_auto by blast
qed

section \<open>An instance\<close>

definition small_gate :: gate_env where
  "small_gate = \<lparr>ge_plan = small_env, ge_vars = job_env, ge_loader = True, ge_policy = True\<rparr>"

lemma metadata_only_tightens_witness:
  "merge_disposition small_gate (empty_files\<lparr>sf_metadata := None\<rparr>) False No_Record None (JList [])
     (Some (Fetched [(''tfactory_verdict'', JStr ''pass''), (''host_ci_green'', JBool True)])) None = AUTO_MERGE"
proof -
  have "merge_disposition small_gate empty_files False No_Record (Some ''low'') (JList [])
     (Some (Fetched [(''tfactory_verdict'', JStr ''pass''), (''host_ci_green'', JBool True)])) None = AUTO_MERGE"
    by code_simp
  from metadata_only_tightens [OF this] show ?thesis by simp
qed

text \<open>The floor that the paths of a diff demand is enforced for a task without a record, whether or not it is switched on:
  the flag only decides what is written to the metadata.\<close>

lemma advisory_floor_still_holds:
  "snd (fst (apply_path_risk_floor small_gate True (Some (JList [JStr ''auth.py''])) False No_Record (Some ''low'') empty_files)) =
     Some ''blocking''"
  "fst (fst (apply_path_risk_floor small_gate True (Some (JList [JStr ''auth.py''])) False No_Record (Some ''low'') empty_files)) =
     Some ''low''"
  "merge_disposition small_gate empty_files False No_Record (Some ''low'') (JList [])
     (Some (Fetched [(''tfactory_verdict'', JStr ''pass''), (''host_ci_green'', JBool True)])) (Some ''blocking'') = HOLD_BLOCKING"
  by code_simp+

end
