(* ===== verification/Endgame_Props.thy ===== *)
theory Endgame_Props
  imports Pr_Endgame Gate_Props
begin

text \<open>A pull request is merged only on what was measured for its head, and tried a bounded number of times.\<close>

section \<open>Actions\<close>

lemma bindA_Some: "bindA m f w = (Some y, w') \<longleftrightarrow> (\<exists>x w1. m w = (Some x, w1) \<and> f x w1 = (Some y, w'))"
  by (auto simp: bindA_def split: prod.splits option.splits)

lemma tryA_Some: "x \<noteq> y \<Longrightarrow> tryA x m w = (Some y, w') \<longleftrightarrow> m w = (Some y, w')"
  by (auto simp: tryA_def split: prod.splits option.splits)

lemma doneA_eq [simp]: "doneA x w = (y, w') \<longleftrightarrow> y = Some x \<and> w' = w"
  by (auto simp: doneA_def)

lemma bind_Some: "Option.bind m f = Some y \<longleftrightarrow> (\<exists>x. m = Some x \<and> f x = Some y)"
  by (cases m) auto

lemma Some_bind: "Some y = Option.bind m f \<longleftrightarrow> (\<exists>x. m = Some x \<and> f x = Some y)"
  by (cases m) auto

section \<open>Checks\<close>

text \<open>A check run that has completed green, and a status that is a success.\<close>

definition run_green :: "json \<Rightarrow> bool" where
  "run_green r \<longleftrightarrow> index ''status'' r = Some (JStr ''completed'') \<and>
     (\<exists>c. index ''conclusion'' r = Some (JStr c) \<and> c \<in> green_conclusions)"

definition status_green :: "json \<Rightarrow> bool" where
  "status_green s \<longleftrightarrow> index ''state'' s = Some (JStr ''success'')"

lemma member_True: "member S v = Some True \<longleftrightarrow> (\<exists>s. v = JStr s \<and> s \<in> S)"
  by (cases v) (auto simp: member_def)

lemma run_settled: "run_failed r = Some False \<Longrightarrow> run_open r = Some False \<Longrightarrow> run_green r"
  by (auto simp: run_failed_def run_open_def run_green_def index_is_def index_in_def bind_Some member_True)

lemma ci_green:
  assumes "ci_state runs suites status = Some True"
  shows "list_all run_green runs" "\<forall>x \<in> set suites. suite_open x = Some False"
    "runs \<noteq> [] \<or> index ''total_count'' status \<noteq> Some (JInt 0)" "index ''state'' status \<notin> {Some (JStr ''failure''), Some (JStr ''error'')}"
proof -
  from assms [unfolded ci_state_def bind_Some] obtain state n total red where st: "index ''state'' status = Some state"
    and num: "index ''total_count'' status = Some n" "(case py_int n of Inr i \<Rightarrow> Some i | Inl _ \<Rightarrow> None) = Some total"
    and red: "orO (Some (state \<in> {JStr ''failure'', JStr ''error''})) (anyO run_failed runs) = Some red"
    and rest: "(if red then Some False
       else Option.bind (orO (anyO run_open runs) (orO (anyO suite_open suites)
                (Some (total > 0 \<and> state \<noteq> JStr ''success'' \<or> runs = [] \<and> total = 0)))) (\<lambda>pending.
            if pending then None else Some True)) = Some True"
    by (elim exE conjE) (rule that; assumption)
  have "red = False" using rest by (cases red) simp_all
  then have red: "state \<notin> {JStr ''failure'', JStr ''error''}" "\<forall>r \<in> set runs. run_failed r = Some False"
    using red by auto
  have "Option.bind (orO (anyO run_open runs) (orO (anyO suite_open suites)
      (Some (total > 0 \<and> state \<noteq> JStr ''success'' \<or> runs = [] \<and> total = 0)))) (\<lambda>pending. if pending then None else Some True) = Some True"
    using rest \<open>red = False\<close> by simp
  then have pend: "orO (anyO run_open runs) (orO (anyO suite_open suites)
      (Some (total > 0 \<and> state \<noteq> JStr ''success'' \<or> runs = [] \<and> total = 0))) = Some False"
    unfolding bind_Some by (auto simp del: orO_iff split: if_splits)
  have n: "total = i" if "index ''total_count'' status = Some (JInt i)" for i using num that by auto
  show "list_all run_green runs" using red(2) pend run_settled by (simp add: list_all_iff)
  show "\<forall>x \<in> set suites. suite_open x = Some False" using pend by auto
  show "index ''state'' status \<notin> {Some (JStr ''failure''), Some (JStr ''error'')}" using st red(1) by auto
  show "runs \<noteq> [] \<or> index ''total_count'' status \<noteq> Some (JInt 0)" using pend n by auto
qed

lemma in_texts: "s \<in> set (texts_of js) \<longleftrightarrow> JStr s \<in> set js"
  by (induction js rule: texts_of.induct) auto

lemma mapO_set: "mapO f xs = Some ys \<Longrightarrow> y \<in> set ys \<longleftrightarrow> (\<exists>x \<in> set xs. f x = Some y)"
  by (induction xs arbitrary: ys) (auto simp: bind_Some)

lemma mapO_selected: "mapO p xs = Some bs \<Longrightarrow> map fst (filter snd (zip xs bs)) = filter (\<lambda>x. p x = Some True) xs"
  by (induction xs arbitrary: bs) (auto simp: bind_Some)

lemma green_contexts_sound:
  assumes "green_contexts runs statuses = Some green" "c \<in> green"
  shows "(\<exists>r \<in> set runs. index ''name'' r = Some (JStr c) \<and> run_green r) \<or>
    (\<exists>s \<in> set statuses. index ''context'' s = Some (JStr c) \<and> status_green s)"
proof -
  obtain runs_done names ok contexts where
    r: "mapO (\<lambda>r. andO (index_is ''status'' ''completed'' r) (index_in ''conclusion'' green_conclusions r)) runs = Some runs_done"
    and n: "mapO (\<lambda>r. Option.bind (index ''name'' r) (\<lambda>n. map_option (\<lambda>_. n) (hash_key n))) (map fst (filter snd (zip runs runs_done))) = Some names"
    and s: "mapO (index_is ''state'' ''success'') statuses = Some ok"
    and c: "mapO (\<lambda>s. Option.bind (index ''context'' s) (\<lambda>n. map_option (\<lambda>_. n) (hash_key n))) (map fst (filter snd (zip statuses ok))) = Some contexts"
    and g: "green = set (texts_of (names @ contexts))"
    using assms(1) by (auto simp: green_contexts_def bind_Some)
  have "JStr c \<in> set names \<or> JStr c \<in> set contexts" using assms(2) g by (simp add: in_texts)
  then show ?thesis
  proof
    assume "JStr c \<in> set names"
    then obtain r where "r \<in> set runs" "index ''name'' r = Some (JStr c)"
        "andO (index_is ''status'' ''completed'' r) (index_in ''conclusion'' green_conclusions r) = Some True"
      unfolding mapO_set [OF n] mapO_selected [OF r] by (auto simp: bind_Some)
    then show ?thesis by (auto simp: run_green_def index_is_def index_in_def bind_Some member_True)
  next
    assume "JStr c \<in> set contexts"
    then obtain s where "s \<in> set statuses" "index ''context'' s = Some (JStr c)" "index_is ''state'' ''success'' s = Some True"
      unfolding mapO_set [OF c] mapO_selected [OF s] by (auto simp: bind_Some)
    then show ?thesis by (auto simp: status_green_def index_is_def)
  qed
qed

text \<open>C26: the required checks are green only if each of them is. When the answer is green, every required context has a
  check run that completed green or a status that is a success, and no run and no status of a required name is
  anything else.\<close>

theorem required_checks_are_green:
  assumes "checks_state required runs statuses = Some True" "c \<in> required"
  shows "((\<exists>r \<in> set runs. index ''name'' r = Some (JStr c) \<and> run_green r) \<or>
      (\<exists>s \<in> set statuses. index ''context'' s = Some (JStr c) \<and> status_green s)) \<and>
    (\<forall>r \<in> set runs. index ''name'' r = Some (JStr c) \<longrightarrow> run_green r) \<and>
    (\<forall>s \<in> set statuses. index ''context'' s = Some (JStr c) \<longrightarrow> status_green s)"
proof -
  obtain green where g: "green_contexts runs statuses = Some green" and sub: "required \<subseteq> green"
    and red: "\<And>r. r \<in> set runs \<Longrightarrow> andO (index_in ''name'' required r) (run_failed r) = Some False"
    and pend: "\<And>r. r \<in> set runs \<Longrightarrow> andO (index_in ''name'' required r) (run_open r) = Some False"
    and st: "\<And>s. s \<in> set statuses \<Longrightarrow> andO (index_in ''context'' required s) (map_option Not (index_is ''state'' ''success'' s)) = Some False"
    using assms(1) by (auto simp: checks_state_def bind_Some split: if_splits)
  have "run_green r" if "r \<in> set runs" "index ''name'' r = Some (JStr c)" for r
  proof -
    have "index_in ''name'' required r = Some True" using that(2) assms(2) by (simp add: index_in_def member_def)
    then show ?thesis using red [OF that(1)] pend [OF that(1)] run_settled by simp
  qed
  moreover have "status_green s" if "s \<in> set statuses" "index ''context'' s = Some (JStr c)" for s
  proof -
    have "index_in ''context'' required s = Some True" using that(2) assms(2) by (simp add: index_in_def member_def)
    then show ?thesis using st [OF that(1)] by (auto simp: status_green_def index_is_def)
  qed
  ultimately show ?thesis using green_contexts_sound [OF g] sub assms(2) by blast
qed

lemma required_checks_are_green_witness:
  "\<not> list_ex (\<lambda>r. index ''name'' r = Some (JStr ''ci'') \<and> \<not> run_green r)
     [JObj [(''name'', JStr ''ci''), (''status'', JStr ''completed''), (''conclusion'', JStr ''neutral'')]]"
proof -
  have "checks_state {''ci''} [JObj [(''name'', JStr ''ci''), (''status'', JStr ''completed''), (''conclusion'', JStr ''neutral'')]] [] = Some True"
    by code_simp
  from required_checks_are_green [OF this, of "''ci''"] show ?thesis by auto
qed

section \<open>A human approval\<close>

text \<open>The last decisive review of a reviewer.\<close>

definition decisive :: "json \<Rightarrow> json \<Rightarrow> bool" where
  "decisive login row \<longleftrightarrow> index_in ''state'' decisive_states row = Some True \<and>
     Option.bind (index ''login'' row) hash_key = Some login"

definition last_decisive :: "json list \<Rightarrow> json \<Rightarrow> json option" where
  "last_decisive rows login = find (decisive login) (rev rows)"

lemma find_append: "find P (xs @ ys) = (case find P xs of None \<Rightarrow> find P ys | Some x \<Rightarrow> Some x)"
  by (induction xs) auto

lemma latest_lookup:
  "latest_reviews rows acc = Some latest \<Longrightarrow>
    map_option JObj (map_of latest login) =
      (case last_decisive rows login of None \<Rightarrow> map_option JObj (map_of acc login) | Some row \<Rightarrow> Some row)"
proof (induction rows arbitrary: acc)
  case (Cons row rows)
  obtain d where d: "row = JObj d" using Cons.prems by (cases row) simp_all
  obtain dec where dec: "index_in ''state'' decisive_states row = Some dec" using Cons.prems d by (auto simp: bind_Some)
  show ?case
  proof (cases dec)
    case False
    then have "latest_reviews rows acc = Some latest" "\<not> decisive login row" using Cons.prems d dec by (auto simp: decisive_def)
    then show ?thesis using Cons.IH by (simp add: last_decisive_def find_append split: option.split)
  next
    case True
    then obtain l k where k: "index ''login'' row = Some l" "hash_key l = Some k"
        "latest_reviews rows (AList.update k d acc) = Some latest"
      using Cons.prems d dec by (auto simp: bind_Some)
    then have "decisive login row \<longleftrightarrow> login = k" using dec True by (auto simp: decisive_def)
    then show ?thesis using Cons.IH [OF k(3)] d by (auto simp: last_decisive_def find_append dget_dset split: option.split)
  qed
qed (simp add: last_decisive_def)

lemma latest_distinct: "latest_reviews rows acc = Some latest \<Longrightarrow> distinct (map fst acc) \<Longrightarrow> distinct (map fst latest)"
proof (induction rows arbitrary: acc)
  case (Cons row rows)
  then show ?case by (cases row) (auto simp: bind_Some distinct_update split: if_splits)
qed simp

text \<open>C25: an approval is current and somebody else's. If a head counts as approved by a human, some reviewer who is not the
  author has, as the last decisive review, an approval by a user of exactly the head of the pull request, and nobody
  but the author has a request for changes as the last decisive review.\<close>

theorem approval_is_current:
  assumes "approved_head show info rows = Some h"
  shows "\<exists>head author login d. index ''head'' info = Some head \<and> index ''author'' info = Some author \<and> h = py_str show head \<and>
    login \<noteq> author \<and> last_decisive rows login = Some (JObj d) \<and> get_any ''state'' d = JStr ''APPROVED'' \<and>
    get_any ''type'' d = JStr ''User'' \<and> get_any ''commit_id'' d = head \<and>
    (\<forall>l e. last_decisive rows l = Some (JObj e) \<longrightarrow> l \<noteq> author \<longrightarrow> get_any ''state'' e \<noteq> JStr ''CHANGES_REQUESTED'')"
proof -
  from assms obtain head author latest where i: "index ''head'' info = Some head" "index ''author'' info = Some author"
    and l: "latest_reviews rows [] = Some latest"
    and free: "\<not> list_ex (\<lambda>(login, row). login \<noteq> author \<and> get_any ''state'' row = JStr ''CHANGES_REQUESTED'') latest"
    and ok: "list_ex (approval_by author head) latest" and h: "h = py_str show head"
    unfolding approved_head_def bind_Some by (auto simp: bind_Some split: if_splits)
  have d: "distinct (map fst latest)" using latest_distinct [OF l] by simp
  have look: "map_option JObj (map_of latest login) = last_decisive rows login" for login
    using latest_lookup [OF l, of login] by (auto split: option.splits)
  obtain login row where r: "(login, row) \<in> set latest" "approval_by author head (login, row)" using ok by (auto simp: list_ex_iff)
  then have "last_decisive rows login = Some (JObj row)" using look [of login] d by simp
  moreover have "get_any ''state'' e \<noteq> JStr ''CHANGES_REQUESTED''" if "last_decisive rows k = Some (JObj e)" "k \<noteq> author" for k e
  proof -
    have "(k, e) \<in> set latest" using look [of k] that(1) map_of_SomeD by (auto split: option.splits)
    then show ?thesis using free that(2) by (auto simp: list_ex_iff)
  qed
  ultimately show ?thesis using i h r(2) by (auto simp: approval_by_def)
qed

lemma approval_is_current_witness:
  "\<exists>login d. last_decisive [JObj [(''state'', JStr ''APPROVED''), (''login'', JStr ''rev''), (''type'', JStr ''User''), (''commit_id'', JStr ''h'')]] login
     = Some (JObj d) \<and> get_any ''commit_id'' d = JStr ''h''"
proof -
  have "approved_head (\<lambda>_. []) (JObj [(''head'', JStr ''h''), (''author'', JStr ''me'')])
      [JObj [(''state'', JStr ''APPROVED''), (''login'', JStr ''rev''), (''type'', JStr ''User''), (''commit_id'', JStr ''h'')]] = Some ''h''"
    by code_simp
  from approval_is_current [OF this] show ?thesis by (auto simp: index_def)
qed

text \<open>The verdict on all reviews is not that of the latest review of each reviewer: a request for changes blocks although
  its author has approved since.\<close>

lemma old_request_still_blocks:
  "map_option pv_verdict (reviews_verdict (\<lambda>_. []) (JList
     [JObj [(''state'', JStr ''CHANGES_REQUESTED''), (''login'', JStr ''rev'')],
      JObj [(''state'', JStr ''APPROVED''), (''login'', JStr ''rev'')]])) = Some Changes_Requested"
  by code_simp

section \<open>What a merge was tried on\<close>

definition justified :: "'w outside \<Rightarrow> 'w watch_cfg \<Rightarrow> 'w attempt_made \<Rightarrow> bool" where
  "justified ow k a \<longleftrightarrow> wt_auto_merge k \<and> pv_verdict (at_review a) \<noteq> Changes_Requested \<and> approves k (at_review a) \<and>
     (wt_human k \<longrightarrow> (\<exists>h. at_head a = Some h \<and>
        fst (human_approval_head (ow_loads ow) (ow_shown ow) (ow_run ow) (wt_owner k) (wt_repo k) (wt_pr k) (at_human_world a)) = Some (Some h))) \<and>
     (\<forall>gate. wt_gate k = Some gate \<longrightarrow> (\<exists>h. at_head a = Some h \<and> fst (gate h (at_gate_world a)) = Some True))"

definition all_justified :: "'w outside \<Rightarrow> 'w watch_cfg \<Rightarrow> 'w watch_state \<Rightarrow> bool" where
  "all_justified ow k st \<longleftrightarrow> list_all (justified ow k) (ws_attempts st)"

lemma try_merge_attempts [simp]: "ws_attempts (fst (snd (try_merge ow k h st w))) = ws_attempts st"
  by (auto simp: try_merge_def Let_def split: prod.split option.split bool.split)

lemma changes_attempts [simp]: "ws_attempts (fst (snd (watch_changes k rs st w))) = ws_attempts st"
  by (auto simp: watch_changes_def Let_def split: prod.split option.split bool.split)

lemma attempted_attempts [simp]:
  "ws_attempts (attempted rs h wh wg st) =
     ws_attempts st @ [\<lparr>at_review = rs, at_head = h, at_human_world = wh, at_gate_world = wg\<rparr>]"
  "ws_fix_cycles (attempted rs h wh wg st) = ws_fix_cycles st" "ws_conflict_cycles (attempted rs h wh wg st) = ws_conflict_cycles st"
  by (simp_all add: attempted_def)

lemma gated_head_take:
  assumes "gated_head ow k gate h w = (Head_Take h', wg, w')"
  shows "\<exists>x. h' = Some x \<and> fst (gate x wg) = Some True \<and> (truthy_str h \<longrightarrow> h = Some x)"
  using assms by (auto simp: gated_head_def truthy_str_def split: prod.splits option.splits bool.splits if_splits)

lemma watch_gate_justified:
  assumes "all_justified ow k st" "wt_auto_merge k" "pv_verdict rs \<noteq> Changes_Requested" "approves k rs"
    and "wt_human k \<Longrightarrow> \<exists>x. h = Some x \<and> x \<noteq> [] \<and>
      fst (human_approval_head (ow_loads ow) (ow_shown ow) (ow_run ow) (wt_owner k) (wt_repo k) (wt_pr k) wh) = Some (Some x)"
  shows "all_justified ow k (fst (snd (watch_gate ow k rs h wh st w)))"
proof (cases "wt_gate k")
  case None
  then show ?thesis using assms by (auto simp: watch_gate_def all_justified_def justified_def)
next
  case (Some gate)
  obtain c wg w' where g: "gated_head ow k gate h w = (c, wg, w')" by (cases "gated_head ow k gate h w") auto
  have "justified ow k \<lparr>at_review = rs, at_head = h', at_human_world = wh, at_gate_world = wg\<rparr>" if "c = Head_Take h'" for h'
    using gated_head_take [of ow k gate h w h' wg w'] g that assms Some by (auto simp: justified_def truthy_str_def)
  then show ?thesis using assms(1) Some g by (auto simp: watch_gate_def all_justified_def split: head_choice.split)
qed

lemma approved_head_not_Nil: "(\<And>v. show v \<noteq> []) \<Longrightarrow> approved_head show info rows = Some h \<Longrightarrow> h \<noteq> []"
  by (auto simp: approved_head_def bind_Some py_str_def str_of_int_def split: if_splits json.splits)

lemma human_head_not_Nil:
  assumes "\<And>v. ow_shown ow v \<noteq> []"
    and "human_approval_head (ow_loads ow) (ow_shown ow) (ow_run ow) owner repo pr w = (Some (Some h), w')"
  shows "h \<noteq> []"
  using assms(2)
  by (auto simp: human_approval_head_def Let_def tryA_Some bindA_Some bind_Some Some_bind split: if_splits
      dest!: approved_head_not_Nil [OF assms(1)])

lemma watch_poll_justified:
  assumes "\<And>v. ow_shown ow v \<noteq> []" "all_justified ow k st"
  shows "all_justified ow k (fst (snd (watch_poll ow k st w)))"
proof (cases "review_now ow k w")
  case (Pair r w1)
  show ?thesis
  proof (cases r)
    case None
    then show ?thesis using Pair assms(2) by (simp add: watch_poll_def)
  next
    case (Some rs)
    show ?thesis
    proof (cases "pv_verdict rs \<noteq> Changes_Requested \<and> approves k rs \<and> wt_auto_merge k")
      case False
      then show ?thesis using Pair Some assms(2) by (auto simp: watch_poll_def watch_approved_def all_justified_def)
    next
      case True
      obtain x w2 where x: "human_approval_head (ow_loads ow) (ow_shown ow) (ow_run ow) (wt_owner k) (wt_repo k) (wt_pr k) w1 = (x, w2)"
        by fastforce
      show ?thesis
      proof (cases "wt_human k")
        case False
        then show ?thesis
          using True Pair Some assms(2) watch_gate_justified [of ow k st rs None w1 w1] by (simp add: watch_poll_def watch_approved_def)
      next
        case human: True
        show ?thesis
        proof (cases "\<exists>h. x = Some (Some h)")
          case False
          then show ?thesis using True Pair Some assms(2) x human
            by (auto simp: watch_poll_def watch_approved_def split: option.split)
        next
          case h: True
          then obtain h where "x = Some (Some h)" by blast
          then show ?thesis
            using True Pair Some assms(2) x human human_head_not_Nil [OF assms(1) x [unfolded \<open>x = Some (Some h)\<close>]]
              watch_gate_justified [of ow k st rs "Some h" w1 w2] by (simp add: watch_poll_def watch_approved_def)
        qed
      qed
    qed
  qed
qed

text \<open>The watch is a machine that polls; what every poll keeps holds of the whole watch.\<close>

definition poll_step :: "'w outside \<Rightarrow> 'w watch_cfg \<Rightarrow> 'w watch_state \<times> 'w \<Rightarrow> unit \<Rightarrow> 'w watch_state \<times> 'w" where
  "poll_step ow k s u = snd (watch_poll ow k (fst s) (ow_sleep ow (wt_poll_interval k) (snd s)))"

lemma watch_loop_run: "\<exists>us. snd (watch_loop ow k deadline n st w) = foldl (poll_step ow k) (st, w) us"
proof (induction n arbitrary: st w)
  case 0
  show ?case by (rule exI [of _ "[]"]) simp
next
  case (Suc n)
  obtain oc st' w' where p: "watch_poll ow k st (ow_sleep ow (wt_poll_interval k) w) = (oc, st', w')" by (metis prod_cases3)
  obtain us where us: "snd (watch_loop ow k deadline n st' w') = foldl (poll_step ow k) (st', w') us" using Suc by blast
  have s: "poll_step ow k (st, w) () = (st', w')" using p by (simp add: poll_step_def)
  show ?case
  proof (cases "ow_clock ow w \<ge> deadline")
    case True
    then show ?thesis by (intro exI [of _ "[]"]) simp
  next
    case False
    show ?thesis
    proof (cases oc)
      case None
      then show ?thesis using False p us s by (intro exI [of _ "() # us"]) simp
    next
      case (Some x)
      then show ?thesis using False p s by (intro exI [of _ "[()]"]) simp
    qed
  qed
qed

interpretation watch: machine "poll_step ow k" "\<lambda>_. True" "\<lambda>s. (\<forall>v. ow_shown ow v \<noteq> []) \<longrightarrow> all_justified ow k (fst s)"
  for ow :: "'w outside" and k
  by unfold_locales (auto simp: poll_step_def intro: watch_poll_justified)


lemma attempts_justified:
  assumes "\<And>v. ow_shown ow v \<noteq> []" "watch_and_finish ow k w = (oc, st, w')"
  shows "all_justified ow k st"
proof -
  obtain us where "(st, w') = foldl (poll_step ow k) (watch_start, w) us"
    using watch_loop_run assms(2) unfolding watch_and_finish_def by (metis snd_conv)
  moreover have "all_justified ow k watch_start" by (simp add: all_justified_def watch_start_def)
  ultimately show ?thesis using watch.run_inv [of ow k "(watch_start, w)" us] assms(1) by (metis fst_conv)
qed

section \<open>How often\<close>

definition within_bounds :: "'w watch_cfg \<Rightarrow> nat \<Rightarrow> 'w watch_state \<Rightarrow> bool" where
  "within_bounds k slack st \<longleftrightarrow> ws_fix_cycles st \<le> wt_max_fix k \<and> ws_conflict_cycles st \<le> wt_max_conflict k \<and>
     length (ws_attempts st) \<le> ws_conflict_cycles st + slack \<and> (wt_gate k \<noteq> None \<longrightarrow> length (ws_attempts st) \<le> 1)"

lemma try_merge_bounds:
  assumes "try_merge ow k h st w = (oc, st', w')"
  shows "ws_attempts st' = ws_attempts st \<and> ws_fix_cycles st' = ws_fix_cycles st \<and>
    (ws_conflict_cycles st' = ws_conflict_cycles st \<and> oc \<noteq> None \<or>
     ws_conflict_cycles st' = Suc (ws_conflict_cycles st) \<and> ws_conflict_cycles st < wt_max_conflict k)"
  using assms by (auto simp: try_merge_def Let_def ended_def split: prod.splits option.splits bool.splits if_splits)

lemma merge_step_bounds:
  assumes "within_bounds k 0 st" "try_merge ow k h (attempted rs h wh wg st) w = (oc, st', w')"
    and "wt_gate k \<noteq> None \<Longrightarrow> ws_conflict_cycles st = 0"
  shows "within_bounds k (if oc = None then 0 else 1) st'"
  using try_merge_bounds [OF assms(2)] assms(1,3) by (auto simp: within_bounds_def)

lemma watch_gate_bounds:
  assumes "within_bounds k 0 st" "watch_gate ow k rs h wh st w = (oc, st', w')"
  shows "within_bounds k (if oc = None then 0 else 1) st'"
proof (cases "wt_gate k")
  case None
  then show ?thesis using assms merge_step_bounds [OF assms(1), of ow h rs wh w w] by (auto simp: watch_gate_def)
next
  case (Some gate)
  have wide: "within_bounds k (if oc = None then 0 else 1) st1" if "within_bounds k 0 st1" for st1
    using that by (auto simp: within_bounds_def)
  show ?thesis
  proof (cases "ws_fix_cycles st \<noteq> 0 \<or> ws_conflict_cycles st \<noteq> 0")
    case True
    then show ?thesis using assms Some wide by (auto simp: watch_gate_def)
  next
    case False
    obtain c wg w1 where g: "gated_head ow k gate h w = (c, wg, w1)" by (metis prod_cases3)
    show ?thesis
    proof (cases c)
      case (Head_Take head)
      then have "try_merge ow k head (attempted rs head wh wg st) w1 = (oc, st', w')"
        using assms(2) Some False g by (simp add: watch_gate_def)
      then show ?thesis using merge_step_bounds [OF assms(1)] False by simp
    next
      case Head_Raised
      then show ?thesis using assms Some False g wide by (auto simp: watch_gate_def)
    qed (use assms Some False g in \<open>auto simp: watch_gate_def within_bounds_def\<close>)
  qed
qed

lemma watch_changes_bounds:
  assumes "within_bounds k 0 st" "watch_changes k rs st w = (oc, st', w')"
  shows "within_bounds k 0 st'"
  using assms by (auto simp: watch_changes_def within_bounds_def Let_def split: prod.splits option.splits bool.splits if_splits)

lemma watch_poll_bounds:
  assumes "within_bounds k 0 st" "watch_poll ow k st w = (oc, st', w')"
  shows "within_bounds k (if oc = None then 0 else 1) st'"
proof -
  have wide: "within_bounds k (Suc 0) st1" if "within_bounds k 0 st1" for st1
    using that by (auto simp: within_bounds_def)
  have "within_bounds k 0 st1" if "watch_gate ow k rs h wh st w1 = (None, st1, w2)" for rs h wh w1 w2 st1
    using watch_gate_bounds [OF assms(1) that] by simp
  moreover have "within_bounds k (Suc 0) st1" if "watch_gate ow k rs h wh st w1 = (Some x, st1, w2)" for rs h wh w1 w2 st1 x
    using watch_gate_bounds [OF assms(1) that] by simp
  moreover have "within_bounds k 0 st1" if "watch_changes k rs st w1 = (x, st1, w2)" for rs w1 w2 st1 x
    by (rule watch_changes_bounds [OF assms(1) that])
  ultimately show ?thesis
    using assms(2) wide assms(1)
    by (auto simp: watch_poll_def watch_approved_def ended_def split: prod.splits option.splits if_splits)
qed

lemma watch_loop_bounds: "within_bounds k 0 st \<Longrightarrow> watch_loop ow k deadline n st w = (oc, st', w') \<Longrightarrow> within_bounds k 1 st'"
proof (induction n arbitrary: st w)
  case (Suc n)
  obtain oc1 st1 w1 where p: "watch_poll ow k st (ow_sleep ow (wt_poll_interval k) w) = (oc1, st1, w1)" by (metis prod_cases3)
  have "within_bounds k (if oc1 = None then 0 else 1) st1" by (rule watch_poll_bounds [OF Suc.prems(1) p])
  then show ?case
    using Suc.prems Suc.IH p by (cases oc1) (auto simp: within_bounds_def split: if_splits)
qed (auto simp: within_bounds_def)

definition reported_merge :: "watch_outcome \<Rightarrow> bool" where
  "reported_merge oc = (case oc of Watch_Done r \<Rightarrow> wr_merged r | Watch_Raised \<Rightarrow> False)"

lemma ended_merge: "ended v m r = Some oc \<Longrightarrow> reported_merge oc = m"
  by (auto simp: ended_def reported_merge_def)

lemma try_merge_reported:
  "try_merge ow k h st w = (Some oc, st', w') \<Longrightarrow> reported_merge oc \<Longrightarrow>
    ws_attempts st' = ws_attempts st \<and> fst (merge_pr (ow_run ow) (wt_owner k) (wt_repo k) (wt_pr k) ''squash'' h (wt_body k) w) = Some True"
  by (auto simp: try_merge_def Let_def reported_merge_def ended_def split: prod.splits option.splits bool.splits if_splits)

lemma watch_gate_reported: "watch_gate ow k rs h wh st w = (Some oc, st', w') \<Longrightarrow> reported_merge oc \<Longrightarrow> ws_attempts st' \<noteq> []"
  by (auto simp: watch_gate_def ended_def split: option.splits if_splits prod.splits head_choice.splits dest!: try_merge_reported)
    (auto simp: reported_merge_def)

lemma watch_poll_reported: "watch_poll ow k st w = (Some oc, st', w') \<Longrightarrow> reported_merge oc \<Longrightarrow> ws_attempts st' \<noteq> []"
  by (auto simp: watch_poll_def watch_approved_def watch_changes_def ended_def Let_def split: option.splits if_splits prod.splits bool.splits
      dest: watch_gate_reported) (auto simp: reported_merge_def)

lemma watch_loop_reported: "watch_loop ow k deadline n st w = (oc, st', w') \<Longrightarrow> reported_merge oc \<Longrightarrow> ws_attempts st' \<noteq> []"
proof (induction n arbitrary: st w)
  case (Suc n)
  obtain oc1 st1 w1 where p: "watch_poll ow k st (ow_sleep ow (wt_poll_interval k) w) = (oc1, st1, w1)" by (metis prod_cases3)
  then show ?case
    using Suc watch_poll_reported [of ow k st _ _ st1 w1] by (cases oc1) (auto simp: reported_merge_def timed_out_def split: if_splits)
qed (auto simp: reported_merge_def timed_out_def)

end
