(* ===== verification/Endgame_Green.thy ===== *)
theory Endgame_Green
  imports Endgame_Props
begin

text \<open>The endgame as a whole merges only what its gate found green, and an instance in which it does.\<close>

section \<open>The gate\<close>

lemma tfactory_verdict_range:
  "tfactory_verdict get url project url_id head w = (Some (Some v), w') \<Longrightarrow> v = ''pass'' \<or> v = ''fail''"
  by (auto simp: tfactory_verdict_def Let_def tryA_Some bindA_Some Some_bind bind_Some verdict_of_kinds_def split: if_splits prod.splits)

lemma gate_ci_green:
  assumes "gate_ci ow eg head w = (Some (Some True), w')"
  shows "\<exists>w1. host_ci_green (ow_loads ow) (ow_run ow) (eg_owner eg) (eg_repo eg) head w = (Some (Some True), w1) \<and>
    required_checks_green (ow_loads ow) (ow_run ow) (eg_owner eg) (eg_repo eg) (eg_base eg) head w1 = (Some (Some True), w')"
proof -
  obtain ci w1 where c: "host_ci_green (ow_loads ow) (ow_run ow) (eg_owner eg) (eg_repo eg) head w = (Some ci, w1)"
    and r: "(if ci = Some True then required_checks_green (ow_loads ow) (ow_run ow) (eg_owner eg) (eg_repo eg) (eg_base eg) head
        else doneA ci) w1 = (Some (Some True), w')"
    using assms by (auto simp: gate_ci_def bindA_Some)
  show ?thesis
  proof (cases "ci = Some True")
    case True
    then show ?thesis using c r by auto
  next
    case False
    then show ?thesis using r by simp
  qed
qed

text \<open>What the signals that pass were fetched from.\<close>

definition measured_green :: "'w outside \<Rightarrow> 'w endgame \<Rightarrow> string \<Rightarrow> 'w \<Rightarrow> bool" where
  "measured_green ow eg head w \<longleftrightarrow>
     (\<exists>w1 w2 w3. tfactory_verdict (ow_get ow) (eg_tfactory_url eg) (eg_project_id eg) (eg_url_id eg) head w = (Some (Some ''pass''), w1) \<and>
        host_ci_green (ow_loads ow) (ow_run ow) (eg_owner eg) (eg_repo eg) head w1 = (Some (Some True), w2) \<and>
        required_checks_green (ow_loads ow) (ow_run ow) (eg_owner eg) (eg_repo eg) (eg_base eg) head w2 = (Some (Some True), w3))"

lemma fetched_green:
  assumes "gate_fetch ow eg head w = (Some f, w')" "signals_pass (merge_gate_signals c fs receipt (Some f))"
  shows "measured_green ow eg head w"
proof -
  let ?tf = "tfactory_verdict (ow_get ow) (eg_tfactory_url eg) (eg_project_id eg) (eg_url_id eg) head"
  obtain verdict w1 where v: "?tf w = (Some verdict, w1)"
    and r: "bindA (gate_ci ow eg head) (\<lambda>ci. doneA [(''tfactory_verdict'', jopt verdict),
      (''host_ci_green'', case ci of None \<Rightarrow> JNull | Some b \<Rightarrow> JBool b)]) w1 = (Some f, w')"
    using assms(1) unfolding gate_fetch_def bindA_Some by blast
  obtain ci w2 where c: "gate_ci ow eg head w1 = (Some ci, w2)"
    and d: "doneA [(''tfactory_verdict'', jopt verdict), (''host_ci_green'', case ci of None \<Rightarrow> JNull | Some b \<Rightarrow> JBool b)] w2 = (Some f, w')"
    using r unfolding bindA_Some by blast
  have f: "f = [(''tfactory_verdict'', jopt verdict), (''host_ci_green'', case ci of None \<Rightarrow> JNull | Some b \<Rightarrow> JBool b)]"
    and ci: "gate_ci ow eg head w1 = (Some ci, w')"
    using c d by (simp_all only: doneA_eq option.inject)
  have p: "verdict_pass (get_any ''tfactory_verdict'' f)" "get_any ''host_ci_green'' f = JBool True"
    using signals_pass_fetched [OF assms(2)] by auto
  obtain t where t: "verdict = Some t" using p(1) f by (cases verdict) (auto simp: get_any_def jopt_def)
  have "\<not> verdict_pass (JStr ''fail'')" by code_simp
  then have "t \<noteq> ''fail''" using p(1) f t by (auto simp: get_any_def jopt_def)
  moreover have "t = ''pass'' \<or> t = ''fail''" by (rule tfactory_verdict_range [OF v [unfolded t]])
  ultimately have pass: "?tf w = (Some (Some ''pass''), w1)" using v t by simp
  have "ci = Some True" using p(2) f by (auto simp: get_any_def split: option.splits)
  then obtain w3 where "host_ci_green (ow_loads ow) (ow_run ow) (eg_owner eg) (eg_repo eg) head w1 = (Some (Some True), w3)"
      "required_checks_green (ow_loads ow) (ow_run ow) (eg_owner eg) (eg_repo eg) (eg_base eg) head w3 = (Some (Some True), w')"
    using gate_ci_green [of ow eg head w1 w'] ci by auto
  then show ?thesis unfolding measured_green_def using pass by (intro exI conjI)
qed

lemma gate_passed:
  assumes "merge_gate ow eg human head w = (Some True, w')"
  shows "contract_clears (eg_gate eg) (ow_files ow w) (eg_trusted eg) (eg_tier eg) (eg_floor eg) (gate_satisfied human) \<and>
    measured_green ow eg head w"
proof -
  let ?g = "eg_gate eg"
  obtain d where d: "before_fetch ?g (ow_files ow w) (eg_trusted eg) (eg_tier eg) (eg_floor eg) = Inr d"
    using assms by (auto simp: merge_gate_def split: sum.splits)
  obtain f w1 where f: "gate_fetch ow eg head w = (Some f, w1)"
    and ok: "after_fetch ?g (ow_files ow w1) (ow_receipt ow w1) (gate_satisfied human) (Some f) d = AUTO_MERGE"
    using assms d by (auto simp: merge_gate_def Let_def split: prod.splits option.splits)
  show ?thesis
    using gate_decides_auto [of ?g "ow_files ow w" "eg_trusted eg" "eg_tier eg" "eg_floor eg" d "ow_files ow w1" "ow_receipt ow w1"] d ok
      fetched_green [OF f] by blast
qed


section \<open>How often\<close>


section \<open>Time-outs\<close>

text \<open>Reading the reviews is not guarded: a time-out of the command ends the watch with an exception.\<close>

lemma time_out_ends_watch:
  assumes "wt_review k = None" "\<And>argv w. ow_run ow argv None w = (None, w)" "\<And>i w. ow_sleep ow i w = w"
    and "wt_max_minutes k > 0" "\<And>w w'. ow_clock ow w = ow_clock ow w'"
  shows "fst (watch_and_finish ow k w) = Watch_Raised"
proof -
  have "max 1 (wt_max_minutes k * 60 div max 1 (wt_poll_interval k)) \<ge> 1" by simp
  then obtain n where n: "nat (max 1 (wt_max_minutes k * 60 div max 1 (wt_poll_interval k))) = Suc n"
    by (metis not0_implies_Suc nat_eq_iff2 not_one_le_zero zero_less_nat_eq less_le_trans zero_less_one less_numeral_extra(3))
  have "ow_clock ow w < ow_clock ow w + of_int (wt_max_minutes k * 60)" using assms(4) by simp
  then show ?thesis
    using assms(1-3) by (simp add: watch_and_finish_def n watch_poll_def review_now_def read_review_verdict_def bindA_def)
qed

text \<open>A merge that is pinned sends one command, and never updates the branch.\<close>

lemma pinned_merge_sends_one_command:
  "h \<noteq> [] \<Longrightarrow> merge_pr run owner repo pr how (Some h) body =
     bindA (run (merge_command owner repo pr how (Some h) body) None) (\<lambda>res. doneA (cmd_ok res))"
  by (auto simp: merge_pr_def bindA_def doneA_def truthy_str_def fun_eq_iff split: prod.split option.split)

lemma pinned_command_names_head: "h \<noteq> [] \<Longrightarrow> sublist [''--match-head-commit'', h] (merge_command owner repo pr how (Some h) body)"
proof -
  assume "h \<noteq> []"
  then have "merge_command owner repo pr how (Some h) body =
      [''gh'', ''pr'', ''merge'', digits_of_nat pr, merge_flag how, ''--repo'', repo_path owner repo] @ [''--match-head-commit'', h] @
      (case keep_str body of None \<Rightarrow> [] | Some b \<Rightarrow> [''--body'', b])"
    by (simp add: merge_command_def keep_str_def truthy_str_def)
  then show ?thesis unfolding sublist_def by blast
qed


section \<open>An instance\<close>

text \<open>A command answers with its filter, which stands for the JSON that \<open>small_answer\<close> reads from it.\<close>

definition small_answer :: "string \<Rightarrow> json option" where
  "small_answer = map_of
     [(''.check_runs[] | {status, conclusion}'', JObj [(''status'', JStr ''completed''), (''conclusion'', JStr ''success'')]),
      (''{state, total_count}'', JObj [(''state'', JStr ''success''), (''total_count'', JInt 1)]),
      (''.check_suites[] | {status, n: .latest_check_runs_count}'', JObj [(''status'', JStr ''completed''), (''n'', JInt 1)]),
      (''.protection'', JObj [])]"

definition small_outside :: "unit outside" where
  "small_outside = \<lparr>
     ow_run = (\<lambda>argv cwd w. (Some \<lparr>cr_rc = 0,
        cr_out = (if ''create'' \<in> set argv then ''/pull/7''
          else if last argv = ''.head.sha'' \<or> small_answer (last argv) \<noteq> None then last argv else []), cr_err = []\<rparr>, w)),
     ow_get = (\<lambda>url w. (Some (200, JObj [(''project_id'', JStr ''p''), (''source_sha'', JStr ''.head.sha''),
        (''status_json'', JObj [(''status'', JStr ''triaged'')]), (''verdicts'', JList [JObj [(''verdict'', JStr ''accept'')]])]), w)),
     ow_files = (\<lambda>_. empty_files), ow_receipt = (\<lambda>_. False), ow_receipts = (\<lambda>_. Some []), ow_clock = (\<lambda>_. 0),
     ow_sleep = (\<lambda>_ w. w), ow_loads = small_answer, ow_shown = (\<lambda>_. ''x'')\<rparr>"

definition small_endgame :: "unit endgame" where
  "small_endgame = \<lparr>eg_gate = small_gate, eg_owner = [], eg_repo = [], eg_base = ''main'', eg_key = ''key'', eg_trusted = No_Record,
     eg_tier = Some ''low'', eg_floor = None, eg_tfactory_url = ''http'', eg_project_id = ''p'', eg_url_id = ''s'',
     eg_evidence = (\<lambda>_ _ _ w. w)\<rparr>"

definition small_call :: "unit endgame_call" where
  "small_call = \<lparr>ec_provider = ''github'', ec_repo = ''o/r'', ec_auto_merge = True, ec_worktree = ''w'', ec_branch = ''b'', ec_title = ''t'',
     ec_body = ''c'', ec_push_branch = (\<lambda>w. (Some True, w)), ec_copilot = False, ec_on_pr_opened = (\<lambda>_ w. w)\<rparr>"

definition small_watch :: "unit watch_cfg" where
  "small_watch = \<lparr>wt_owner = [], wt_repo = [], wt_pr = 0, wt_auto_merge = False, wt_require_copilot = False,
     wt_review = Some (\<lambda>w. (Some (plain_review Approved (JList [])), w)), wt_fix = None, wt_max_fix = 2, wt_resolve = None,
     wt_push = (\<lambda>w. (Some True, w)), wt_max_conflict = 1, wt_merged_hook = (\<lambda>w. w), wt_poll_interval = 30, wt_max_minutes = 20,
     wt_human = False, wt_gate = None, wt_body = None\<rparr>"

lemma small_run:
  "map at_head (fst (snd (run_pr_endgame small_outside small_endgame small_call small_watch ()))) = [Some ''.head.sha'']"
  by code_simp


lemma small_watched: "length (ws_attempts (fst (snd (watch_and_finish small_outside (small_watch\<lparr>wt_auto_merge := True\<rparr>) ())))) = 1"
  by code_simp


end
